(* ===== verification/Prelude.thy ===== *)
theory Prelude
  imports Main
begin

text \<open>
  Shared ground of the development: the C integers and strings the library handles, the
  error codes of \<^verbatim>\<open>acta_db/include/db.h\<close>, the page clamp of
  \<^verbatim>\<open>acta_db/include/internal.h\<close>, and generic facts on lists that the
  component theories use.
\<close>

section \<open>C integers\<close>

text \<open>
  Identifiers and counters are C \<open>int\<close>s on the library's side and 64-bit integers on
  the SQLite side. \<open>c_int\<close> is the conversion \<^verbatim>\<open>(int)sqlite3_column_int64(...)\<close>:
  two's-complement truncation to 32 bits.
\<close>

abbreviation (input) LONG_MAX :: int where "LONG_MAX \<equiv> 9223372036854775807"
abbreviation (input) INT_MAX :: int where "INT_MAX \<equiv> 2147483647"

definition c_int :: "int \<Rightarrow> int" where
  "c_int x = (x + 2147483648) mod 4294967296 - 2147483648"

lemma c_int_id: "- 2147483648 \<le> x \<Longrightarrow> x < 2147483648 \<Longrightarrow> c_int x = x"
  by (simp add: c_int_def)

lemma c_int_range: "- 2147483648 \<le> c_int x \<and> c_int x < 2147483648"
  by (simp add: c_int_def)

lemma c_int_c_int [simp]: "c_int (c_int x) = c_int x"
  by (rule c_int_id) (use c_int_range in auto)

lemma c_int_0 [simp]: "c_int 0 = 0"
  by (simp add: c_int_def)

section \<open>Error codes\<close>

abbreviation (input) ACTA_DB_OK :: int where "ACTA_DB_OK \<equiv> 0"
abbreviation (input) ACTA_DB_ERR_NOT_FOUND :: int where "ACTA_DB_ERR_NOT_FOUND \<equiv> - 1"
abbreviation (input) ACTA_DB_ERR_SQL :: int where "ACTA_DB_ERR_SQL \<equiv> - 2"
abbreviation (input) ACTA_DB_ERR_ALLOC :: int where "ACTA_DB_ERR_ALLOC \<equiv> - 3"
abbreviation (input) ACTA_DB_ERR_INVALID :: int where "ACTA_DB_ERR_INVALID \<equiv> - 4"
abbreviation (input) ACTA_DB_ERR_INVALID_DB :: int where "ACTA_DB_ERR_INVALID_DB \<equiv> - 5"
abbreviation (input) ACTA_DB_ERR_DUPLICATE :: int where "ACTA_DB_ERR_DUPLICATE \<equiv> - 6"
abbreviation (input) ACTA_DB_ERR_FK :: int where "ACTA_DB_ERR_FK \<equiv> - 7"

definition acta_db_strerror :: "int \<Rightarrow> string" where
  "acta_db_strerror code =
     (if code = ACTA_DB_OK then ''success''
      else if code = ACTA_DB_ERR_NOT_FOUND then ''not found''
      else if code = ACTA_DB_ERR_SQL then ''sql error''
      else if code = ACTA_DB_ERR_ALLOC then ''allocation failure''
      else if code = ACTA_DB_ERR_INVALID then ''invalid argument''
      else if code = ACTA_DB_ERR_INVALID_DB then ''invalid sqlitedb file''
      else if code = ACTA_DB_ERR_DUPLICATE then ''duplicate name''
      else if code = ACTA_DB_ERR_FK then ''foreign key violation''
      else ''unknown error'')"

section \<open>Pages\<close>

abbreviation (input) ACTA_DB_MAX_PAGE :: int where "ACTA_DB_MAX_PAGE \<equiv> 10000"

definition db_clamp_limit :: "int \<Rightarrow> int" where
  "db_clamp_limit limit =
     (if limit \<le> 0 \<or> limit > ACTA_DB_MAX_PAGE then ACTA_DB_MAX_PAGE else limit)"

lemma db_clamp_limit_range: "0 < db_clamp_limit l \<and> db_clamp_limit l \<le> ACTA_DB_MAX_PAGE"
  by (simp add: db_clamp_limit_def)

text \<open>
  The SQL tail \<^verbatim>\<open>LIMIT ? OFFSET ?\<close>: a negative limit means no limit, a negative
  offset means no offset.
\<close>

definition sql_page :: "int \<Rightarrow> int \<Rightarrow> 'r list \<Rightarrow> 'r list" where
  "sql_page limit offset xs =
     (let ys = drop (nat offset) xs in if limit < 0 then ys else take (nat limit) ys)"

lemma length_sql_page_le: "0 \<le> limit \<Longrightarrow> int (length (sql_page limit offset xs)) \<le> limit"
  by (simp add: sql_page_def Let_def)

lemma length_sql_page_le': "length (sql_page limit offset xs) \<le> length xs"
  by (auto simp: sql_page_def Let_def)

lemma set_sql_page: "set (sql_page limit offset xs) \<subseteq> set xs"
  by (auto simp: sql_page_def Let_def dest: in_set_takeD in_set_dropD)

lemma sql_page_whole: "int (length xs) \<le> limit \<Longrightarrow> sql_page limit 0 xs = xs"
  by (simp add: sql_page_def Let_def)

lemma sql_page_append:
  assumes "0 \<le> limit" and "0 \<le> offset" and "0 \<le> k"
  shows "sql_page limit offset xs @ sql_page k (offset + limit) xs = sql_page (limit + k) offset xs"
proof -
  have "drop (nat (offset + limit)) xs = drop (nat limit) (drop (nat offset) xs)"
    using assms by (simp add: nat_add_distrib add.commute)
  then show ?thesis
    using assms by (simp add: sql_page_def Let_def nat_add_distrib take_add)
qed

section \<open>Text\<close>

text \<open>The \<^verbatim>\<open>%d\<close> conversion and a bounded \<^verbatim>\<open>snprintf\<close> (it keeps \<open>n - 1\<close> characters).\<close>

fun show_nat :: "nat \<Rightarrow> string" where
  "show_nat n = (if n < 10 then [''0123456789'' ! n] else show_nat (n div 10) @ [''0123456789'' ! (n mod 10)])"

declare show_nat.simps [simp del]

definition show_int :: "int \<Rightarrow> string" where
  "show_int i = (if i < 0 then ''-'' @ show_nat (nat (- i)) else show_nat (nat i))"

definition snprintf :: "nat \<Rightarrow> string \<Rightarrow> string" where
  "snprintf n s = take (n - 1) s"

lemma length_snprintf: "0 < n \<Longrightarrow> length (snprintf n s) < n"
  by (simp add: snprintf_def)

text \<open>
  \<^verbatim>\<open>snprintf(buf + pos, sz - pos, ...)\<close> with the overflow test the SQL builders make after
  it: the text is appended, or the builder gives up. \<open>and_join\<close> is the shape of the clause the
  builders are meant to produce.
\<close>

definition buf_append :: "nat \<Rightarrow> string \<Rightarrow> string \<Rightarrow> string option" where
  "buf_append sz buf piece = (if length piece \<ge> sz - length buf then None else Some (buf @ piece))"

lemma buf_append_fits: "length buf + length piece < sz \<Longrightarrow> buf_append sz buf piece = Some (buf @ piece)"
  by (simp add: buf_append_def)

fun and_join :: "string list \<Rightarrow> string" where
  "and_join [] = []"
| "and_join (p # ps) = '' WHERE '' @ p @ concat (map (\<lambda>q. '' AND '' @ q) ps)"

section \<open>Lists\<close>

lemma filter_map_cond:
  "filter q (map (\<lambda>r. if p r then f r else r) xs) =
     map (\<lambda>r. if p r then f r else r) (filter (\<lambda>r. q (if p r then f r else r)) xs)"
  by (induction xs) auto

lemma map_cond_same:
  "(\<And>r. p r \<Longrightarrow> g (f r) = g r) \<Longrightarrow> map g (map (\<lambda>r. if p r then f r else r) xs) = map g xs"
  by (induction xs) auto

lemma map_if_none: "(\<And>r. r \<in> set xs \<Longrightarrow> \<not> p r) \<Longrightarrow> map (\<lambda>r. if p r then f r else r) xs = xs"
  by (induction xs) auto

lemma find_filter: "find p xs = (case filter p xs of [] \<Rightarrow> None | x # _ \<Rightarrow> Some x)"
  by (induction xs) auto

lemma filter_length_0: "(length (filter p xs) = 0) = (\<forall>x\<in>set xs. \<not> p x)"
  by (simp add: filter_empty_conv)

lemma sort_key_sorted: "sorted (map k xs) \<Longrightarrow> sort_key k xs = xs"
  by (simp add: sorted_sort_id sort_key_id_if_sorted)

end
