(* ===== verification/Tables.thy ===== *)
theory Tables
  imports Prelude
begin

text \<open>
  SQL tables with an \<^verbatim>\<open>INTEGER PRIMARY KEY AUTOINCREMENT\<close>: the rows in rowid order and the
  largest id ever given out (SQLite's \<^verbatim>\<open>sqlite_sequence\<close> entry). The statements the library
  issues are single-row INSERTs, UPDATEs by primary key and SELECTs; they are the
  functions \<open>tbl_ins\<close>, \<open>tbl_upd\<close> and \<open>tbl_get\<close> / \<open>filter\<close>. The locale
  \<open>keyed_rows\<close> is the contract a component's INSERT and UPDATE statements keep with the table
  (the inserted row carries the id it was given, an update never changes the id); its lemmas are
  what every component gets from it.
\<close>

record 'r table =
  rows :: "'r list"
  seq :: int

definition empty_table :: "'r table" where
  "empty_table = \<lparr>rows = [], seq = 0\<rparr>"

definition tbl_ins :: "(int \<Rightarrow> 'r) \<Rightarrow> 'r table \<Rightarrow> 'r table" where
  "tbl_ins mk t = \<lparr>rows = rows t @ [mk (seq t + 1)], seq = seq t + 1\<rparr>"

definition tbl_upd :: "('r \<Rightarrow> bool) \<Rightarrow> ('r \<Rightarrow> 'r) \<Rightarrow> 'r table \<Rightarrow> 'r table" where
  "tbl_upd p f t = t\<lparr>rows := map (\<lambda>r. if p r then f r else r) (rows t)\<rparr>"

definition tbl_get :: "('r \<Rightarrow> int) \<Rightarrow> 'r table \<Rightarrow> int \<Rightarrow> 'r option" where
  "tbl_get rid t i = find (\<lambda>r. rid r = i) (rows t)"

text \<open>The ids of a table increase along the rows, are positive and never exceed the counter.\<close>

definition tbl_ok :: "('r \<Rightarrow> int) \<Rightarrow> 'r table \<Rightarrow> bool" where
  "tbl_ok rid t \<longleftrightarrow> sorted_wrt (<) (map rid (rows t)) \<and>
     (\<forall>r\<in>set (rows t). 0 < rid r \<and> rid r \<le> seq t) \<and> 0 \<le> seq t"

lemma tbl_ok_empty [simp]: "tbl_ok rid empty_table"
  by (simp add: tbl_ok_def empty_table_def)

lemma rows_tbl_ins [simp]: "rows (tbl_ins mk t) = rows t @ [mk (seq t + 1)]"
  and seq_tbl_ins [simp]: "seq (tbl_ins mk t) = seq t + 1"
  by (simp_all add: tbl_ins_def)

lemma rows_tbl_upd: "rows (tbl_upd p f t) = map (\<lambda>r. if p r then f r else r) (rows t)"
  and seq_tbl_upd [simp]: "seq (tbl_upd p f t) = seq t"
  by (simp_all add: tbl_upd_def)

lemma length_tbl_upd [simp]: "length (rows (tbl_upd p f t)) = length (rows t)"
  by (simp add: rows_tbl_upd)

lemma tbl_get_SomeD: "tbl_get rid t i = Some r \<Longrightarrow> r \<in> set (rows t) \<and> rid r = i"
  by (auto simp: tbl_get_def find_Some_iff)

lemma tbl_get_None: "tbl_get rid t i = None \<longleftrightarrow> (\<forall>r\<in>set (rows t). rid r \<noteq> i)"
  by (auto simp: tbl_get_def find_None_iff)

lemma filter_get_None: "tbl_get rid t i = None \<Longrightarrow> filter (\<lambda>r. rid r = i) (rows t) = []"
  by (simp add: tbl_get_None filter_empty_conv)

lemma filter_get_Some: "tbl_get rid t i = Some r \<Longrightarrow> \<exists>rs. filter (\<lambda>r. rid r = i) (rows t) = r # rs"
  by (auto simp: tbl_get_def find_filter split: list.splits)

lemma tbl_ok_sorted: "tbl_ok rid t \<Longrightarrow> sorted (map rid (rows t))"
  unfolding tbl_ok_def using strict_sorted_imp_sorted by blast

lemma tbl_ok_distinct: "tbl_ok rid t \<Longrightarrow> distinct (map rid (rows t))"
  unfolding tbl_ok_def by (metis strict_sorted_iff)

lemma sorted_map_filter: "sorted (map f xs) \<Longrightarrow> sorted (map f (filter p xs))"
  by (rule sorted_filter)

lemma sort_key_filter_rows:
  "tbl_ok rid t \<Longrightarrow> sort_key rid (filter p (rows t)) = filter p (rows t)"
  by (simp add: sort_key_sorted sorted_map_filter tbl_ok_sorted)

lemma tbl_get_unique:
  assumes "tbl_ok rid t" and "r \<in> set (rows t)"
  shows "tbl_get rid t (rid r) = Some r"
proof -
  obtain r' where r': "tbl_get rid t (rid r) = Some r'"
    using assms(2) by (metis not_None_eq tbl_get_None)
  then have "r' \<in> set (rows t)" and "rid r' = rid r"
    by (auto dest: tbl_get_SomeD)
  then have "r' = r"
    using assms tbl_ok_distinct [OF assms(1)] by (auto simp: distinct_map inj_on_def)
  with r' show ?thesis by simp
qed

lemma find_map_cond:
  "(\<And>r. p r \<Longrightarrow> rid (f r) = rid r) \<Longrightarrow>
   find (\<lambda>r. rid r = i) (map (\<lambda>r. if p r then f r else r) xs) =
     map_option (\<lambda>r. if p r then f r else r) (find (\<lambda>r. rid r = i) xs)"
  by (induction xs) auto

section \<open>The contract of a component's statements with its table\<close>

locale keyed_rows =
  fixes rid :: "'r \<Rightarrow> int"
    and build :: "'a \<Rightarrow> int \<Rightarrow> 'r"
    and edit :: "'e \<Rightarrow> 'r \<Rightarrow> 'r"
  assumes rid_build: "rid (build a i) = i"
    and rid_edit: "rid (edit e r) = rid r"
begin

lemma ok_ins: "tbl_ok rid t \<Longrightarrow> tbl_ok rid (tbl_ins (build a) t)"
  by (force simp: tbl_ok_def rid_build sorted_wrt_append)

lemma map_rid_upd [simp]: "map rid (rows (tbl_upd p (edit e) t)) = map rid (rows t)"
  unfolding rows_tbl_upd by (rule map_cond_same) (rule rid_edit)

lemma ok_upd: "tbl_ok rid t \<Longrightarrow> tbl_ok rid (tbl_upd p (edit e) t)"
  unfolding tbl_ok_def map_rid_upd by (auto simp: rows_tbl_upd rid_edit)

lemma get_upd:
  "tbl_get rid (tbl_upd p (edit e) t) i =
     map_option (\<lambda>r. if p r then edit e r else r) (tbl_get rid t i)"
  unfolding tbl_get_def rows_tbl_upd by (rule find_map_cond) (rule rid_edit)

lemma get_upd_id:
  "tbl_get rid (tbl_upd (\<lambda>r. rid r = i) (edit e) t) j =
     (if j = i then map_option (edit e) (tbl_get rid t i) else tbl_get rid t j)"
  by (cases "tbl_get rid t j") (auto simp: get_upd dest: tbl_get_SomeD)

lemma find_snoc:
  "find p (xs @ [y]) = (case find p xs of None \<Rightarrow> if p y then Some y else None | Some z \<Rightarrow> Some z)"
  by (induction xs) auto

lemma fresh_id: "tbl_ok rid t \<Longrightarrow> tbl_get rid t (seq t + 1) = None"
  by (force simp: tbl_ok_def tbl_get_None)

lemma get_ins:
  "tbl_ok rid t \<Longrightarrow> tbl_get rid (tbl_ins (build a) t) j =
    (if j = seq t + 1 then Some (build a j) else tbl_get rid t j)"
  using fresh_id [of t] by (auto simp: tbl_get_def find_snoc rid_build split: option.split)

lemma get_ins_old:
  "tbl_ok rid t \<Longrightarrow> tbl_get rid t j = Some r \<Longrightarrow> tbl_get rid (tbl_ins (build a) t) j = Some r"
  using fresh_id [of t] by (auto simp: get_ins)

lemma rows_upd_id:
  assumes "tbl_ok rid t" and "tbl_get rid t i = Some old"
    and "r \<in> set (rows (tbl_upd (\<lambda>r. rid r = i) (edit e) t))"
  shows "r = edit e old \<or> (r \<in> set (rows t) \<and> rid r \<noteq> i)"
  using assms tbl_get_unique [OF assms(1)] by (force simp: rows_tbl_upd split: if_splits)

end

end
