(* ===== verification/Schema.thy ===== *)
theory Schema
  imports Tables
begin

text \<open>
  The canonical schema (\<^verbatim>\<open>acta_db/include/schema_sql.h\<close>, the embedded
  \<^verbatim>\<open>schema.sql\<close>): one record per table row, the store of the nine tables, and what the
  schema itself enforces on every INSERT and UPDATE, whoever issues it: primary keys with
  AUTOINCREMENT, UNIQUE indexes, FOREIGN KEYs, CHECKs and triggers. A SQL NULL is \<open>None\<close>; a
  column declared NOT NULL has no option type. A statement that breaks a constraint leaves the
  store as it was and yields the extended result code SQLite reports for it.

  The skill and the model folder tables have the same columns, so both use \<open>folder_row\<close>.
\<close>

section \<open>Rows\<close>

record folder_row =
  fo_id :: int
  fo_name :: string
  fo_parent_id :: "int option"
  fo_created_at :: string
  fo_updated_at :: "string option"
  fo_deleted_at :: "string option"

record skill_row =
  sk_id :: int
  sk_folder_id :: "int option"
  sk_name :: string
  sk_description :: "string option"
  sk_prompt_template :: string
  sk_output_schema :: "string option"
  sk_created_at :: string
  sk_updated_at :: "string option"
  sk_deleted_at :: "string option"

record skill_revision_row =
  sr_id :: int
  sr_skill_id :: int
  sr_folder_id :: "int option"
  sr_name :: string
  sr_description :: "string option"
  sr_revision :: int
  sr_prompt_template :: string
  sr_output_schema :: "string option"
  sr_created_at :: string
  sr_updated_at :: "string option"
  sr_deleted_at :: "string option"

record model_row =
  mo_id :: int
  mo_folder_id :: "int option"
  mo_name :: string
  mo_description :: "string option"
  mo_backend :: string
  mo_base_url :: "string option"
  mo_model_identifier :: string
  mo_configuration :: "string option"
  mo_created_at :: string
  mo_updated_at :: "string option"
  mo_deleted_at :: "string option"

record model_revision_row =
  mr_id :: int
  mr_model_id :: int
  mr_revision :: int
  mr_folder_id :: "int option"
  mr_name :: string
  mr_description :: "string option"
  mr_backend :: string
  mr_base_url :: "string option"
  mr_model_identifier :: string
  mr_configuration :: "string option"
  mr_created_at :: string
  mr_updated_at :: "string option"
  mr_deleted_at :: "string option"

record context_row =
  cx_id :: int
  cx_type :: string
  cx_content :: string
  cx_content_hash :: string
  cx_metadata :: "string option"
  cx_created_at :: string
  cx_deleted_at :: "string option"

record execution_row =
  ex_id :: int
  ex_context_id :: int
  ex_skill_revision_id :: int
  ex_model_revision_id :: int
  ex_raw_response :: "string option"
  ex_result :: "string option"
  ex_status :: string
  ex_error :: "string option"
  ex_created_at :: string
  ex_started_at :: "string option"
  ex_completed_at :: "string option"
  ex_deleted_at :: "string option"
  ex_parent_execution_id :: "int option"

record log_row =
  lg_id :: int
  lg_execution_id :: int
  lg_level :: string
  lg_event :: string
  lg_message :: "string option"
  lg_metadata :: "string option"
  lg_created_at :: string

record store =
  model_folders :: "folder_row table"
  models :: "model_row table"
  model_revisions :: "model_revision_row table"
  skill_folders :: "folder_row table"
  skills :: "skill_row table"
  skill_revisions :: "skill_revision_row table"
  contexts :: "context_row table"
  executions :: "execution_row table"
  execution_logs :: "log_row table"
  user_version :: int

definition empty_store :: store where
  "empty_store = \<lparr>model_folders = empty_table, models = empty_table,
     model_revisions = empty_table, skill_folders = empty_table, skills = empty_table,
     skill_revisions = empty_table, contexts = empty_table, executions = empty_table,
     execution_logs = empty_table, user_version = 0\<rparr>"

text \<open>
  The extended result codes of a broken constraint, and the result codes of
  \<^verbatim>\<open>sqlite3_step\<close> / \<^verbatim>\<open>sqlite3_exec\<close> the library tells apart. A statement either breaks a
  constraint, or changes the store and reports a number: the new rowid of an INSERT, the rows
  changed by an UPDATE.
\<close>

datatype sql_constraint = SQLITE_CONSTRAINT_UNIQUE | SQLITE_CONSTRAINT_FOREIGNKEY
  | SQLITE_CONSTRAINT_CHECK | SQLITE_CONSTRAINT_TRIGGER

datatype sql_rc = SQLITE_OK | SQLITE_DONE | SQLITE_ERROR | SQLITE_BUSY | Constraint sql_constraint

type_synonym stmt = "store \<Rightarrow> sql_constraint + int \<times> store"

section \<open>Keys\<close>

definition has_row :: "('r \<Rightarrow> int) \<Rightarrow> 'r table \<Rightarrow> int \<Rightarrow> bool" where
  "has_row rid t i \<longleftrightarrow> tbl_get rid t i \<noteq> None"

definition fk_ok :: "('r \<Rightarrow> int) \<Rightarrow> 'r table \<Rightarrow> int option \<Rightarrow> bool" where
  "fk_ok rid t k = (case k of None \<Rightarrow> True | Some i \<Rightarrow> has_row rid t i)"

context keyed_rows
begin

lemma has_upd [simp]: "has_row rid (tbl_upd p (edit e) t) i = has_row rid t i"
  by (simp add: has_row_def get_upd)

lemma has_ins: "tbl_ok rid t \<Longrightarrow> has_row rid (tbl_ins (build a) t) i \<longleftrightarrow> has_row rid t i \<or> i = seq t + 1"
  by (simp add: has_row_def get_ins)

lemma fk_ins_mono: "tbl_ok rid t \<Longrightarrow> fk_ok rid t k \<Longrightarrow> fk_ok rid (tbl_ins (build a) t) k"
  by (cases k) (simp_all add: fk_ok_def has_ins)

lemma fk_upd [simp]: "fk_ok rid (tbl_upd p (edit e) t) k = fk_ok rid t k"
  by (cases k) (simp_all add: fk_ok_def)

end

text \<open>
  The pair of partial UNIQUE indexes of a named, foldered table (\<^verbatim>\<open>uq_..._root\<close> on the name where
  the folder is NULL, \<^verbatim>\<open>uq_..._child\<close> on folder and name where it is not): the new row clashes
  with another row (another id) that falls under the same index entry.
\<close>

definition uq_clash :: "('r \<Rightarrow> int) \<Rightarrow> ('r \<Rightarrow> int option) \<Rightarrow> ('r \<Rightarrow> string) \<Rightarrow> 'r table \<Rightarrow> 'r \<Rightarrow> bool" where
  "uq_clash rid fld nm t new \<longleftrightarrow>
     (\<exists>r\<in>set (rows t). rid r \<noteq> rid new \<and>
        (fld new = None \<and> fld r = None \<and> nm r = nm new \<or>
         fld new \<noteq> None \<and> fld r \<noteq> None \<and> fld r = fld new \<and> nm r = nm new))"

lemma uq_clash_iff:
  "uq_clash rid fld nm t new \<longleftrightarrow>
     (\<exists>r\<in>set (rows t). rid r \<noteq> rid new \<and> fld r = fld new \<and> nm r = nm new)"
  by (auto simp: uq_clash_def)

text \<open>
  The indexes keep name and folder unique among the rows. \<open>named_rows\<close> extends the contract of a
  table by what that needs: an INSERT or UPDATE that passed the test of the index keeps it.
\<close>

definition uq_ok :: "('r \<Rightarrow> int) \<Rightarrow> ('r \<Rightarrow> int option) \<Rightarrow> ('r \<Rightarrow> string) \<Rightarrow> 'r table \<Rightarrow> bool" where
  "uq_ok rid fld nm t \<longleftrightarrow>
     (\<forall>r\<in>set (rows t). \<forall>r'\<in>set (rows t). fld r = fld r' \<and> nm r = nm r' \<longrightarrow> rid r = rid r')"

lemma uq_ok_empty [simp]: "uq_ok rid fld nm empty_table"
  by (simp add: uq_ok_def empty_table_def)

locale named_rows = keyed_rows rid build edit
  for rid :: "'r \<Rightarrow> int" and build :: "'a \<Rightarrow> int \<Rightarrow> 'r" and edit :: "'e \<Rightarrow> 'r \<Rightarrow> 'r" +
  fixes fld :: "'r \<Rightarrow> int option"
    and nm :: "'r \<Rightarrow> string"
begin

lemma uq_ins:
  assumes uq: "uq_ok rid fld nm t" and "tbl_ok rid t"
    and "\<not> uq_clash rid fld nm t (build a (seq t + 1))"
  shows "uq_ok rid fld nm (tbl_ins (build a) t)"
proof -
  let ?n = "build a (seq t + 1)"
  have "rid r \<noteq> seq t + 1" if "r \<in> set (rows t)" for r
    using assms(2) that by (force simp: tbl_ok_def)
  then have new: "\<not> (fld r = fld ?n \<and> nm r = nm ?n)" if "r \<in> set (rows t)" for r
    using assms(3) that unfolding uq_clash_iff rid_build by blast
  have set: "set (rows (tbl_ins (build a) t)) = insert ?n (set (rows t))" by simp
  show ?thesis
    unfolding uq_ok_def set
    using uq [unfolded uq_ok_def] new by (metis insert_iff)
qed

lemma uq_upd:
  assumes uq: "uq_ok rid fld nm t" and t: "tbl_ok rid t" and old: "tbl_get rid t i = Some old"
    and new: "(fld (edit e old), nm (edit e old)) = (fld old, nm old)
              \<or> \<not> uq_clash rid fld nm t (edit e old)"
  shows "uq_ok rid fld nm (tbl_upd (\<lambda>r. rid r = i) (edit e) t)"
proof -
  have old': "old \<in> set (rows t)" "rid old = i" using tbl_get_SomeD [OF old] by auto
  have clash: "\<not> (fld q = fld (edit e old) \<and> nm q = nm (edit e old))"
    if q: "q \<in> set (rows t)" "rid q \<noteq> i" for q
  proof (cases "uq_clash rid fld nm t (edit e old)")
    case True
    then have "fld (edit e old) = fld old" "nm (edit e old) = nm old" using new by auto
    then show ?thesis using uq [unfolded uq_ok_def] q old' by metis
  next
    case False
    then show ?thesis using q old' unfolding uq_clash_iff rid_edit by blast
  qed
  have rid: "rid (edit e old) = i" using old' by (simp add: rid_edit)
  show ?thesis
    unfolding uq_ok_def
    using rows_upd_id [OF t old, of _ e] uq [unfolded uq_ok_def] clash rid by metis
qed

end

section \<open>Folders\<close>

definition insert_folder :: "folder_row \<Rightarrow> folder_row table \<Rightarrow> sql_constraint + int \<times> folder_row table" where
  "insert_folder new t =
     (let i = seq t + 1; r = new\<lparr>fo_id := i\<rparr> in
      if uq_clash fo_id fo_parent_id fo_name t r then Inl SQLITE_CONSTRAINT_UNIQUE
      else if \<not> fk_ok fo_id t (fo_parent_id r) \<and> fo_parent_id r \<noteq> Some i
        then Inl SQLITE_CONSTRAINT_FOREIGNKEY
      else Inr (i, tbl_ins (\<lambda>i. new\<lparr>fo_id := i\<rparr>) t))"

definition update_folder ::
  "int \<Rightarrow> (folder_row \<Rightarrow> bool) \<Rightarrow> (folder_row \<Rightarrow> folder_row) \<Rightarrow> folder_row table
     \<Rightarrow> sql_constraint + int \<times> folder_row table" where
  "update_folder i guard f t =
     (case tbl_get fo_id t i of
        None \<Rightarrow> Inr (0, t)
      | Some old \<Rightarrow>
          if \<not> guard old then Inr (0, t)
          else let new = f old in
            if (fo_parent_id new, fo_name new) \<noteq> (fo_parent_id old, fo_name old)
               \<and> uq_clash fo_id fo_parent_id fo_name t new then Inl SQLITE_CONSTRAINT_UNIQUE
            else if fo_parent_id new \<noteq> fo_parent_id old \<and> \<not> fk_ok fo_id t (fo_parent_id new)
              then Inl SQLITE_CONSTRAINT_FOREIGNKEY
            else Inr (1, tbl_upd (\<lambda>r. fo_id r = i) f t))"

definition on_skill_folders :: "(folder_row table \<Rightarrow> sql_constraint + int \<times> folder_row table) \<Rightarrow> stmt" where
  "on_skill_folders f st =
     (case f (skill_folders st) of Inl rc \<Rightarrow> Inl rc | Inr (n, t) \<Rightarrow> Inr (n, st\<lparr>skill_folders := t\<rparr>))"

definition on_model_folders :: "(folder_row table \<Rightarrow> sql_constraint + int \<times> folder_row table) \<Rightarrow> stmt" where
  "on_model_folders f st =
     (case f (model_folders st) of Inl rc \<Rightarrow> Inl rc | Inr (n, t) \<Rightarrow> Inr (n, st\<lparr>model_folders := t\<rparr>))"


section \<open>Skills and their revision triggers\<close>

definition skill_snapshot :: "string \<Rightarrow> int \<Rightarrow> skill_row \<Rightarrow> string option \<Rightarrow> skill_revision_row" where
  "skill_snapshot now rv new del =
     \<lparr>sr_id = 0, sr_skill_id = sk_id new, sr_folder_id = sk_folder_id new, sr_name = sk_name new,
      sr_description = sk_description new, sr_revision = rv,
      sr_prompt_template = sk_prompt_template new, sr_output_schema = sk_output_schema new,
      sr_created_at = now, sr_updated_at = Some now, sr_deleted_at = del\<rparr>"

definition max_skill_revision :: "skill_revision_row table \<Rightarrow> int \<Rightarrow> int" where
  "max_skill_revision t i =
     (case map sr_revision (filter (\<lambda>r. sr_skill_id r = i) (rows t)) of
        [] \<Rightarrow> 0
      | v # vs \<Rightarrow> fold max vs v)"

definition insert_skill_revisions :: "skill_revision_row \<Rightarrow> store \<Rightarrow> sql_constraint + store" where
  "insert_skill_revisions new st =
     (if \<exists>r\<in>set (rows (skill_revisions st)).
            sr_skill_id r = sr_skill_id new \<and> sr_revision r = sr_revision new
      then Inl SQLITE_CONSTRAINT_UNIQUE
      else if \<not> has_row sk_id (skills st) (sr_skill_id new) then Inl SQLITE_CONSTRAINT_FOREIGNKEY
      else Inr (st\<lparr>skill_revisions := tbl_ins (\<lambda>i. new\<lparr>sr_id := i\<rparr>) (skill_revisions st)\<rparr>))"

definition skills_create_initial_revision :: "string \<Rightarrow> skill_row \<Rightarrow> store \<Rightarrow> sql_constraint + store" where
  "skills_create_initial_revision now new st =
     insert_skill_revisions (skill_snapshot now 1 new None) st"

definition skill_content_differs :: "skill_row \<Rightarrow> skill_row \<Rightarrow> bool" where
  "skill_content_differs old new \<longleftrightarrow>
      sk_folder_id new \<noteq> sk_folder_id old \<or>
      sk_name new \<noteq> sk_name old \<or>
      sk_description new \<noteq> sk_description old \<or>
      sk_prompt_template new \<noteq> sk_prompt_template old \<or>
      sk_output_schema new \<noteq> sk_output_schema old"

definition skills_update_revision :: "string \<Rightarrow> skill_row \<Rightarrow> skill_row \<Rightarrow> store \<Rightarrow> sql_constraint + store" where
  "skills_update_revision now old new st =
     (if sk_deleted_at old = None \<and> sk_deleted_at new = None \<and> skill_content_differs old new
      then insert_skill_revisions
             (skill_snapshot now (max_skill_revision (skill_revisions st) (sk_id new) + 1) new None) st
      else Inr st)"

definition skills_soft_delete_revision :: "string \<Rightarrow> skill_row \<Rightarrow> skill_row \<Rightarrow> store \<Rightarrow> sql_constraint + store" where
  "skills_soft_delete_revision now old new st =
     (if sk_deleted_at old = None \<and> sk_deleted_at new \<noteq> None
      then insert_skill_revisions
             (skill_snapshot now (max_skill_revision (skill_revisions st) (sk_id new) + 1) new
                (sk_deleted_at new)) st
      else Inr st)"

text \<open>
  INSERT and UPDATE on \<^verbatim>\<open>skills\<close>. \<open>content\<close> says whether the UPDATE's SET list names a column
  of the \<^verbatim>\<open>AFTER UPDATE OF\<close> list of \<^verbatim>\<open>skills_update_revision\<close>; an UPDATE that does not
  sets \<^verbatim>\<open>deleted_at\<close> and so is one of \<^verbatim>\<open>skills_soft_delete_revision\<close>.
\<close>

definition insert_skills :: "string \<Rightarrow> skill_row \<Rightarrow> stmt" where
  "insert_skills now new st =
     (let i = seq (skills st) + 1; r = new\<lparr>sk_id := i\<rparr> in
      if uq_clash sk_id sk_folder_id sk_name (skills st) r then Inl SQLITE_CONSTRAINT_UNIQUE
      else case skills_create_initial_revision now r
                  (st\<lparr>skills := tbl_ins (\<lambda>i. new\<lparr>sk_id := i\<rparr>) (skills st)\<rparr>) of
             Inl rc \<Rightarrow> Inl rc
           | Inr st' \<Rightarrow>
               if fk_ok fo_id (skill_folders st) (sk_folder_id r) then Inr (i, st')
               else Inl SQLITE_CONSTRAINT_FOREIGNKEY)"

definition update_skills ::
  "string \<Rightarrow> int \<Rightarrow> (skill_row \<Rightarrow> bool) \<Rightarrow> bool \<Rightarrow> (skill_row \<Rightarrow> skill_row) \<Rightarrow> stmt" where
  "update_skills now i guard content f st =
     (case tbl_get sk_id (skills st) i of
        None \<Rightarrow> Inr (0, st)
      | Some old \<Rightarrow>
          if \<not> guard old then Inr (0, st)
          else let new = f old; st1 = st\<lparr>skills := tbl_upd (\<lambda>r. sk_id r = i) f (skills st)\<rparr> in
            if (sk_folder_id new, sk_name new) \<noteq> (sk_folder_id old, sk_name old)
               \<and> uq_clash sk_id sk_folder_id sk_name (skills st) new then Inl SQLITE_CONSTRAINT_UNIQUE
            else case (if content then skills_update_revision now old new st1
                       else skills_soft_delete_revision now old new st1) of
                   Inl rc \<Rightarrow> Inl rc
                 | Inr st2 \<Rightarrow>
                     if sk_folder_id new \<noteq> sk_folder_id old
                        \<and> \<not> fk_ok fo_id (skill_folders st) (sk_folder_id new)
                     then Inl SQLITE_CONSTRAINT_FOREIGNKEY
                     else Inr (1, st2))"

section \<open>Models and their revision triggers\<close>

definition model_snapshot :: "string \<Rightarrow> int \<Rightarrow> model_row \<Rightarrow> string option \<Rightarrow> model_revision_row" where
  "model_snapshot now rv new del =
     \<lparr>mr_id = 0, mr_model_id = mo_id new, mr_revision = rv, mr_folder_id = mo_folder_id new,
      mr_name = mo_name new, mr_description = mo_description new, mr_backend = mo_backend new,
      mr_base_url = mo_base_url new, mr_model_identifier = mo_model_identifier new,
      mr_configuration = mo_configuration new,
      mr_created_at = now, mr_updated_at = Some now, mr_deleted_at = del\<rparr>"

definition max_model_revision :: "model_revision_row table \<Rightarrow> int \<Rightarrow> int" where
  "max_model_revision t i =
     (case map mr_revision (filter (\<lambda>r. mr_model_id r = i) (rows t)) of
        [] \<Rightarrow> 0
      | v # vs \<Rightarrow> fold max vs v)"

definition insert_model_revisions :: "model_revision_row \<Rightarrow> store \<Rightarrow> sql_constraint + store" where
  "insert_model_revisions new st =
     (if \<exists>r\<in>set (rows (model_revisions st)).
            mr_model_id r = mr_model_id new \<and> mr_revision r = mr_revision new
      then Inl SQLITE_CONSTRAINT_UNIQUE
      else if \<not> has_row mo_id (models st) (mr_model_id new) then Inl SQLITE_CONSTRAINT_FOREIGNKEY
      else Inr (st\<lparr>model_revisions := tbl_ins (\<lambda>i. new\<lparr>mr_id := i\<rparr>) (model_revisions st)\<rparr>))"

definition models_create_initial_revision :: "string \<Rightarrow> model_row \<Rightarrow> store \<Rightarrow> sql_constraint + store" where
  "models_create_initial_revision now new st =
     insert_model_revisions (model_snapshot now 1 new None) st"

definition model_content_differs :: "model_row \<Rightarrow> model_row \<Rightarrow> bool" where
  "model_content_differs old new \<longleftrightarrow>
      mo_folder_id new \<noteq> mo_folder_id old \<or>
      mo_name new \<noteq> mo_name old \<or>
      mo_description new \<noteq> mo_description old \<or>
      mo_backend new \<noteq> mo_backend old \<or>
      mo_base_url new \<noteq> mo_base_url old \<or>
      mo_model_identifier new \<noteq> mo_model_identifier old \<or>
      mo_configuration new \<noteq> mo_configuration old"

definition models_update_revision :: "string \<Rightarrow> model_row \<Rightarrow> model_row \<Rightarrow> store \<Rightarrow> sql_constraint + store" where
  "models_update_revision now old new st =
     (if mo_deleted_at old = None \<and> mo_deleted_at new = None \<and> model_content_differs old new
      then insert_model_revisions
             (model_snapshot now (max_model_revision (model_revisions st) (mo_id new) + 1) new None) st
      else Inr st)"

definition models_soft_delete_revision :: "string \<Rightarrow> model_row \<Rightarrow> model_row \<Rightarrow> store \<Rightarrow> sql_constraint + store" where
  "models_soft_delete_revision now old new st =
     (if mo_deleted_at old = None \<and> mo_deleted_at new \<noteq> None
      then insert_model_revisions
             (model_snapshot now (max_model_revision (model_revisions st) (mo_id new) + 1) new
                (mo_deleted_at new)) st
      else Inr st)"

text \<open>
  INSERT and UPDATE on \<^verbatim>\<open>models\<close>. \<open>content\<close> says whether the UPDATE's SET list names a column
  of the \<^verbatim>\<open>AFTER UPDATE OF\<close> list of \<^verbatim>\<open>models_update_revision\<close>; an UPDATE that does not
  sets \<^verbatim>\<open>deleted_at\<close> and so is one of \<^verbatim>\<open>models_soft_delete_revision\<close>.
\<close>

definition insert_models :: "string \<Rightarrow> model_row \<Rightarrow> stmt" where
  "insert_models now new st =
     (let i = seq (models st) + 1; r = new\<lparr>mo_id := i\<rparr> in
      if uq_clash mo_id mo_folder_id mo_name (models st) r then Inl SQLITE_CONSTRAINT_UNIQUE
      else case models_create_initial_revision now r
                  (st\<lparr>models := tbl_ins (\<lambda>i. new\<lparr>mo_id := i\<rparr>) (models st)\<rparr>) of
             Inl rc \<Rightarrow> Inl rc
           | Inr st' \<Rightarrow>
               if fk_ok fo_id (model_folders st) (mo_folder_id r) then Inr (i, st')
               else Inl SQLITE_CONSTRAINT_FOREIGNKEY)"

definition update_models ::
  "string \<Rightarrow> int \<Rightarrow> (model_row \<Rightarrow> bool) \<Rightarrow> bool \<Rightarrow> (model_row \<Rightarrow> model_row) \<Rightarrow> stmt" where
  "update_models now i guard content f st =
     (case tbl_get mo_id (models st) i of
        None \<Rightarrow> Inr (0, st)
      | Some old \<Rightarrow>
          if \<not> guard old then Inr (0, st)
          else let new = f old; st1 = st\<lparr>models := tbl_upd (\<lambda>r. mo_id r = i) f (models st)\<rparr> in
            if (mo_folder_id new, mo_name new) \<noteq> (mo_folder_id old, mo_name old)
               \<and> uq_clash mo_id mo_folder_id mo_name (models st) new then Inl SQLITE_CONSTRAINT_UNIQUE
            else case (if content then models_update_revision now old new st1
                       else models_soft_delete_revision now old new st1) of
                   Inl rc \<Rightarrow> Inl rc
                 | Inr st2 \<Rightarrow>
                     if mo_folder_id new \<noteq> mo_folder_id old
                        \<and> \<not> fk_ok fo_id (model_folders st) (mo_folder_id new)
                     then Inl SQLITE_CONSTRAINT_FOREIGNKEY
                     else Inr (1, st2))"

section \<open>Contexts\<close>

definition insert_contexts :: "context_row \<Rightarrow> stmt" where
  "insert_contexts new st =
     Inr (seq (contexts st) + 1, st\<lparr>contexts := tbl_ins (\<lambda>i. new\<lparr>cx_id := i\<rparr>) (contexts st)\<rparr>)"

text \<open>The BEFORE UPDATE trigger: only \<^verbatim>\<open>deleted_at\<close> (and the id) may change.\<close>

definition contexts_soft_delete_only :: "context_row \<Rightarrow> context_row \<Rightarrow> bool" where
  "contexts_soft_delete_only old new \<longleftrightarrow>
     \<not> (cx_type new \<noteq> cx_type old \<or> cx_content new \<noteq> cx_content old
        \<or> cx_content_hash new \<noteq> cx_content_hash old \<or> cx_metadata new \<noteq> cx_metadata old)"

definition update_contexts ::
  "int \<Rightarrow> (context_row \<Rightarrow> bool) \<Rightarrow> (context_row \<Rightarrow> context_row) \<Rightarrow> stmt" where
  "update_contexts i guard f st =
     (case tbl_get cx_id (contexts st) i of
        None \<Rightarrow> Inr (0, st)
      | Some old \<Rightarrow>
          if \<not> guard old then Inr (0, st)
          else if \<not> contexts_soft_delete_only old (f old) then Inl SQLITE_CONSTRAINT_TRIGGER
          else Inr (1, st\<lparr>contexts := tbl_upd (\<lambda>r. cx_id r = i) f (contexts st)\<rparr>))"

section \<open>Executions and their log\<close>

definition exec_status_check :: "string \<Rightarrow> bool" where
  "exec_status_check s \<longleftrightarrow>
     s \<in> {''pending'', ''running'', ''completed'', ''failed'', ''cancelled''}"

definition insert_executions :: "execution_row \<Rightarrow> stmt" where
  "insert_executions new st =
     (let i = seq (executions st) + 1 in
      if \<not> exec_status_check (ex_status new) then Inl SQLITE_CONSTRAINT_CHECK
      else if has_row cx_id (contexts st) (ex_context_id new)
         \<and> has_row sr_id (skill_revisions st) (ex_skill_revision_id new)
         \<and> has_row mr_id (model_revisions st) (ex_model_revision_id new)
         \<and> (fk_ok ex_id (executions st) (ex_parent_execution_id new)
             \<or> ex_parent_execution_id new = Some i)
      then Inr (i, st\<lparr>executions := tbl_ins (\<lambda>i. new\<lparr>ex_id := i\<rparr>) (executions st)\<rparr>)
      else Inl SQLITE_CONSTRAINT_FOREIGNKEY)"

text \<open>No UPDATE of the library touches the foreign keys of an execution.\<close>

definition update_executions ::
  "int \<Rightarrow> (execution_row \<Rightarrow> bool) \<Rightarrow> (execution_row \<Rightarrow> execution_row) \<Rightarrow> stmt" where
  "update_executions i guard f st =
     (case tbl_get ex_id (executions st) i of
        None \<Rightarrow> Inr (0, st)
      | Some old \<Rightarrow>
          if \<not> guard old then Inr (0, st)
          else if \<not> exec_status_check (ex_status (f old)) then Inl SQLITE_CONSTRAINT_CHECK
          else Inr (1, st\<lparr>executions := tbl_upd (\<lambda>r. ex_id r = i) f (executions st)\<rparr>))"

definition log_level_check :: "string \<Rightarrow> bool" where
  "log_level_check s \<longleftrightarrow> s \<in> {''debug'', ''info'', ''warn'', ''error''}"

definition insert_execution_logs :: "log_row \<Rightarrow> stmt" where
  "insert_execution_logs new st =
     (if \<not> log_level_check (lg_level new) then Inl SQLITE_CONSTRAINT_CHECK
      else if has_row ex_id (executions st) (lg_execution_id new)
      then Inr (seq (execution_logs st) + 1,
                st\<lparr>execution_logs := tbl_ins (\<lambda>i. new\<lparr>lg_id := i\<rparr>) (execution_logs st)\<rparr>)
      else Inl SQLITE_CONSTRAINT_FOREIGNKEY)"

end
