(* ===== verification/Database.thy ===== *)
theory Database
  imports Schema
begin

text \<open>
  The connection of \<^verbatim>\<open>acta_db/src/db.c\<close> and \<^verbatim>\<open>acta_db/include/internal.h\<close>: the
  handle \<open>db_t\<close>, error recording, running a prepared statement, and the transaction and
  schema-version calls.

  SQLite itself is outside the repository. The library relies on two things of it: the meaning of
  the SQL it sends (the functions of \<open>Schema\<close> and of the component theories, one per statement) and
  that any call may fail. The field \<open>engine\<close> is the engine's behaviour still to come, one event per
  statement, consumed in order: it runs (\<open>EvOk\<close>), it cannot be prepared (\<open>EvPrepare\<close>), stepping it
  breaks after \<open>k\<close> delivered rows (\<open>EvStep k\<close>), it meets a lock that outlives the busy timeout
  (\<open>EvBusy\<close>), or the heap is exhausted while row number \<open>k\<close> is decoded (\<open>EvAlloc k\<close>). An empty list
  is an engine without faults. Everything proved for every \<open>db_t\<close> is therefore proved for every
  pattern of faults. \<open>clock\<close> is what \<^verbatim>\<open>datetime('now')\<close> and CURRENT_TIMESTAMP read,
  \<open>engine_msg\<close> the text of \<^verbatim>\<open>sqlite3_errmsg\<close>, and \<open>saved\<close> the content SQLite would
  go back to on ROLLBACK (\<open>None\<close> in autocommit mode).

  A \<open>db_t\<close> argument is a non-NULL handle: the NULL tests of the C functions have no counterpart.
\<close>

datatype engine_event = EvOk | EvPrepare | EvStep nat | EvBusy | EvAlloc nat

record db_t =
  store :: store
  saved :: "store option"
  engine :: "engine_event list"
  clock :: string
  engine_msg :: string
  last_error :: "string option"
  in_transaction :: bool
  path :: string

definition db_set_error :: "string \<Rightarrow> db_t \<Rightarrow> db_t" where
  "db_set_error msg d = d\<lparr>last_error := Some msg\<rparr>"

definition acta_db_last_error :: "db_t \<Rightarrow> string option" where
  "acta_db_last_error d = last_error d"

definition acta_db_main_path :: "db_t \<Rightarrow> string" where
  "acta_db_main_path d = path d"

section \<open>Running a statement\<close>

definition next_event :: "db_t \<Rightarrow> engine_event \<times> db_t" where
  "next_event d = (case engine d of [] \<Rightarrow> (EvOk, d) | e # es \<Rightarrow> (e, d\<lparr>engine := es\<rparr>))"

text \<open>
  \<^verbatim>\<open>prepare / bind / step / finalize\<close> of a statement that writes: not prepared, or the
  code of \<^verbatim>\<open>sqlite3_step\<close> with the number that matters to the caller (the new rowid of an
  INSERT, \<^verbatim>\<open>sqlite3_changes\<close> of an UPDATE).
\<close>

datatype write_result = Unprepared | Stepped sql_rc int

definition sql_write :: "stmt \<Rightarrow> db_t \<Rightarrow> write_result \<times> db_t" where
  "sql_write s d =
     (case next_event d of (ev, d1) \<Rightarrow>
        (case ev of
           EvPrepare \<Rightarrow> (Unprepared, d1)
         | EvStep k \<Rightarrow> (Stepped SQLITE_ERROR 0, d1)
         | EvBusy \<Rightarrow> (Stepped SQLITE_BUSY 0, d1)
         | _ \<Rightarrow> (case s (store d1) of
                  Inl c \<Rightarrow> (Stepped (Constraint c) 0, d1)
                | Inr (n, st) \<Rightarrow> (Stepped SQLITE_DONE n, d1\<lparr>store := st\<rparr>))))"

text \<open>
  A SELECT: not prepared, or the rows \<^verbatim>\<open>sqlite3_step\<close> delivers one by one, the code that
  ends them, and the index of the row whose decoding runs out of memory, if any.
\<close>

datatype 'r read_result = Unreadable | Fetched "'r list" sql_rc "nat option"

definition sql_read :: "(store \<Rightarrow> 'r list) \<Rightarrow> db_t \<Rightarrow> 'r read_result \<times> db_t" where
  "sql_read q d =
     (case next_event d of (ev, d1) \<Rightarrow>
        (case ev of
           EvPrepare \<Rightarrow> (Unreadable, d1)
         | EvStep k \<Rightarrow> (Fetched (take k (q (store d1))) SQLITE_ERROR None, d1)
         | EvBusy \<Rightarrow> (Fetched [] SQLITE_BUSY None, d1)
         | EvAlloc k \<Rightarrow> (Fetched (q (store d1)) SQLITE_DONE (Some k), d1)
         | EvOk \<Rightarrow> (Fetched (q (store d1)) SQLITE_DONE None, d1)))"

text \<open>
  A statement that is prepared once and stepped many times: \<open>sql_prepare\<close> is the preparation;
  each step after a reset is a \<open>sql_read\<close> of its own, whose \<open>Unreadable\<close> is a failed step.
\<close>

definition sql_prepare :: "db_t \<Rightarrow> bool \<times> db_t" where
  "sql_prepare d = (case next_event d of (ev, d1) \<Rightarrow> (ev \<noteq> EvPrepare, d1))"

text \<open>
  The grow-and-collect loop all listers share: the rows are decoded in order and appended; an
  allocation failure at a row abandons what was collected (\<open>None\<close>).
\<close>

fun collect_loop :: "('r \<Rightarrow> 'c) \<Rightarrow> nat option \<Rightarrow> 'r list \<Rightarrow> 'c list \<Rightarrow> 'c list option" where
  "collect_loop dec oom [] items = Some items"
| "collect_loop dec oom (r # rs) items =
     (if oom = Some 0 then None
      else collect_loop dec (map_option (\<lambda>k. k - 1) oom) rs (items @ [dec r]))"

text \<open>
  The COUNT queries of the folder, skill and model files: -1 and an SQL error unless a row with a
  non-negative number came back.
\<close>

definition sql_count :: "(store \<Rightarrow> nat) \<Rightarrow> db_t \<Rightarrow> int \<times> int option \<times> db_t" where
  "sql_count q d =
     (case sql_read (\<lambda>st. [int (q st)]) d of
        (Unreadable, d1) \<Rightarrow> (- 1, Some ACTA_DB_ERR_SQL, d1)
      | (Fetched [] rc oom, d1) \<Rightarrow> (- 1, Some ACTA_DB_ERR_SQL, d1)
      | (Fetched (n # ns) rc oom, d1) \<Rightarrow>
          (c_int n, Some (if c_int n \<ge> 0 then ACTA_DB_OK else ACTA_DB_ERR_SQL), d1))"

lemma collect_loop_None: "collect_loop dec None rs items = Some (items @ map dec rs)"
  by (induction rs arbitrary: items) auto

lemma collect_loop_Some:
  "collect_loop dec (Some k) rs items = (if k < length rs then None else Some (items @ map dec rs))"
  by (induction rs arbitrary: items k) auto

lemma collect_loop_result:
  "collect_loop dec oom rs [] = Some items \<Longrightarrow> items = map dec rs"
  by (cases oom) (auto simp: collect_loop_None collect_loop_Some split: if_splits)

text \<open>
  The common tail of the library's UPDATE calls: a statement that was not prepared or did not
  reach SQLITE_DONE is an SQL error, a changed row is success, and no changed row is the refusal
  \<open>code\<close> with its message recorded.
\<close>

fun finish_update :: "int \<Rightarrow> string \<Rightarrow> write_result \<times> db_t \<Rightarrow> int \<times> db_t" where
  "finish_update code msg (Unprepared, d) = (ACTA_DB_ERR_SQL, d)"
| "finish_update code msg (Stepped rc n, d) =
     (if rc \<noteq> SQLITE_DONE then (ACTA_DB_ERR_SQL, d)
      else if n > 0 then (ACTA_DB_OK, d)
      else (code, db_set_error msg d))"

section \<open>Facts about running statements\<close>

definition healthy :: "db_t \<Rightarrow> bool" where
  "healthy d \<longleftrightarrow> engine d = []"

lemma next_event_healthy [simp]: "healthy d \<Longrightarrow> next_event d = (EvOk, d)"
  by (simp add: healthy_def next_event_def)

lemma healthy_upd [simp]:
  "healthy (d\<lparr>store := st\<rparr>) = healthy d" "healthy (d\<lparr>last_error := e\<rparr>) = healthy d"
  "healthy (d\<lparr>clock := c\<rparr>) = healthy d" "healthy (d\<lparr>saved := s\<rparr>) = healthy d"
  "healthy (d\<lparr>in_transaction := b\<rparr>) = healthy d" "healthy (db_set_error m d) = healthy d"
  by (simp_all add: healthy_def db_set_error_def)

lemma sql_write_healthy:
  "healthy d \<Longrightarrow> sql_write s d =
     (case s (store d) of Inl c \<Rightarrow> (Stepped (Constraint c) 0, d)
      | Inr (n, st) \<Rightarrow> (Stepped SQLITE_DONE n, d\<lparr>store := st\<rparr>))"
  by (simp add: sql_write_def)

lemma sql_read_healthy:
  "healthy d \<Longrightarrow> sql_read q d = (Fetched (q (store d)) SQLITE_DONE None, d)"
  by (simp add: sql_read_def)

lemma store_set_error [simp]: "store (db_set_error m d) = store d"
  and clock_set_error [simp]: "clock (db_set_error m d) = clock d"
  and saved_set_error [simp]: "saved (db_set_error m d) = saved d"
  and in_transaction_set_error [simp]: "in_transaction (db_set_error m d) = in_transaction d"
  and last_error_set_error [simp]: "last_error (db_set_error m d) = Some m"
  by (simp_all add: db_set_error_def)

lemma next_event_fields:
  "next_event d = (ev, d1) \<Longrightarrow> store d1 = store d \<and> clock d1 = clock d \<and> saved d1 = saved d
     \<and> in_transaction d1 = in_transaction d \<and> last_error d1 = last_error d"
  by (auto simp: next_event_def split: list.splits)

lemma sql_read_fields:
  "sql_read q d = (res, d1) \<Longrightarrow> store d1 = store d \<and> clock d1 = clock d \<and> saved d1 = saved d
     \<and> in_transaction d1 = in_transaction d \<and> last_error d1 = last_error d"
  by (auto simp: sql_read_def dest: next_event_fields split: prod.splits engine_event.splits)

lemma sql_prepare_healthy [simp]: "healthy d \<Longrightarrow> sql_prepare d = (True, d)"
  by (simp add: sql_prepare_def)

lemma sql_prepare_fields:
  "sql_prepare d = (b, d1) \<Longrightarrow> store d1 = store d \<and> clock d1 = clock d \<and> saved d1 = saved d
     \<and> in_transaction d1 = in_transaction d \<and> last_error d1 = last_error d"
  by (auto simp: sql_prepare_def dest: next_event_fields split: prod.splits)

lemma sql_read_store: "sql_read q d = (res, d1) \<Longrightarrow> store d1 = store d"
  by (simp add: sql_read_fields)

lemma sql_read_rows:
  "sql_read q d = (Fetched rs rc oom, d1) \<Longrightarrow> \<exists>k. rs = take k (q (store d))"
  by (auto simp: sql_read_def next_event_def split: list.splits engine_event.splits
      intro: exI [of _ "length (q (store d))"] exI [of _ 0])

lemma sql_write_cases:
  assumes "sql_write s d = (res, d1)"
  obtains (ran) n where "s (store d) = Inr (n, store d1)" and "res = Stepped SQLITE_DONE n"
  | (unprepared) "res = Unprepared" and "store d1 = store d"
  | (refused) rc where "res = Stepped rc 0" and "rc \<noteq> SQLITE_DONE" and "store d1 = store d"
      and "\<And>c. rc = Constraint c \<Longrightarrow> s (store d) = Inl c"
  using assms
  by (auto simp: sql_write_def dest!: next_event_fields
      split: prod.splits engine_event.splits sum.splits)

lemma sql_write_fields:
  "sql_write s d = (res, d1) \<Longrightarrow> clock d1 = clock d \<and> saved d1 = saved d
     \<and> in_transaction d1 = in_transaction d \<and> last_error d1 = last_error d"
  by (auto simp: sql_write_def dest!: next_event_fields
      split: prod.splits engine_event.splits sum.splits)

text \<open>
  An UPDATE call whose statement reports a count of 0 exactly when it leaves the store alone
  changes the store on success only.
\<close>

definition counts_changes :: "stmt \<Rightarrow> bool" where
  "counts_changes s \<longleftrightarrow> (\<forall>st n st'. s st = Inr (n, st') \<longrightarrow> n > 0 \<or> st' = st)"

lemma finish_update_ok:
  assumes "finish_update code msg (sql_write s d) = (ACTA_DB_OK, d')" and "code \<noteq> ACTA_DB_OK"
  obtains n where "s (store d) = Inr (n, store d')" and "n > 0" and "clock d' = clock d"
    and "saved d' = saved d" and "in_transaction d' = in_transaction d"
proof -
  obtain res d1 where w: "sql_write s d = (res, d1)" by (cases "sql_write s d")
  show ?thesis
    using w assms(1) [unfolded w] assms(2) sql_write_fields [OF w]
    by (cases rule: sql_write_cases) (auto split: if_splits intro: that)
qed

lemma finish_update_err:
  assumes "finish_update code msg (sql_write s d) = (rc, d')" and "rc \<noteq> ACTA_DB_OK"
    and "counts_changes s"
  shows "store d' = store d"
proof -
  obtain res d1 where w: "sql_write s d = (res, d1)" by (cases "sql_write s d")
  show ?thesis
    using w
  proof (cases rule: sql_write_cases)
    case (ran n)
    with assms w show ?thesis
      by (auto simp: counts_changes_def split: if_splits dest!: spec)
  qed (use assms w in \<open>simp_all split: if_splits\<close>)
qed

lemma finish_update_rc:
  "finish_update code msg w = (rc, d') \<Longrightarrow> rc \<in> {ACTA_DB_OK, ACTA_DB_ERR_SQL, code}"
  by (cases "(code, msg, w)" rule: finish_update.cases) (auto split: if_splits)

lemma finish_update_healthy:
  "healthy d \<Longrightarrow> finish_update code msg (sql_write s d) =
     (case s (store d) of
        Inl c \<Rightarrow> (ACTA_DB_ERR_SQL, d)
      | Inr (n, st) \<Rightarrow>
          if n > 0 then (ACTA_DB_OK, d\<lparr>store := st\<rparr>)
          else (code, db_set_error msg (d\<lparr>store := st\<rparr>)))"
  by (simp add: sql_write_healthy split: sum.split)

section \<open>The contract of an UPDATE statement with its callers\<close>

text \<open>
  What the calls of the component theories need of the UPDATE they issue: a statement that reports
  a changed row made the change \<open>eff\<close> describes, one that reports none changed nothing. The C
  callers then report success exactly for the first.
\<close>

locale update_stmt =
  fixes upd :: "'a \<Rightarrow> stmt"
    and eff :: "'a \<Rightarrow> store \<Rightarrow> store \<Rightarrow> bool"
  assumes hit: "upd a st = Inr (n, st') \<Longrightarrow> n > 0 \<Longrightarrow> eff a st st'"
    and miss: "upd a st = Inr (n, st') \<Longrightarrow> \<not> n > 0 \<Longrightarrow> st' = st"
begin

definition effect :: "'a \<Rightarrow> store \<Rightarrow> int \<Rightarrow> store \<Rightarrow> bool" where
  "effect a st rc st' \<longleftrightarrow> (if rc = ACTA_DB_OK then eff a st st' else st' = st)"

lemma counts: "counts_changes (upd a)"
  unfolding counts_changes_def using miss by blast

lemma finish:
  assumes "finish_update code msg (sql_write (upd a) d) = (rc, d')" and "code \<noteq> ACTA_DB_OK"
  shows "effect a (store d) rc (store d')"
proof (cases "rc = ACTA_DB_OK")
  case True
  with assms obtain n where "upd a (store d) = Inr (n, store d')" "n > 0"
    by (metis finish_update_ok)
  with True show ?thesis by (simp add: effect_def hit)
next
  case False
  with assms counts show ?thesis by (simp add: effect_def finish_update_err)
qed

lemma effect_fail: "rc \<noteq> ACTA_DB_OK \<Longrightarrow> effect a st rc st"
  by (simp add: effect_def)

lemma effect_ok: "effect a st ACTA_DB_OK st' \<Longrightarrow> eff a st st'"
  by (simp add: effect_def)

lemma stepped_ok:
  "sql_write (upd a) d = (Stepped SQLITE_DONE n, d') \<Longrightarrow> n > 0 \<Longrightarrow> eff a (store d) (store d')"
  by (erule sql_write_cases) (auto intro: hit)

lemma stepped_none:
  "sql_write (upd a) d = (Stepped rc n, d') \<Longrightarrow> rc \<noteq> SQLITE_DONE \<or> \<not> n > 0 \<Longrightarrow> store d' = store d"
  by (erule sql_write_cases) (auto dest: miss)

lemma unprepared: "sql_write (upd a) d = (Unprepared, d') \<Longrightarrow> store d' = store d"
  by (erule sql_write_cases) auto

end

section \<open>One-shot statements and transactions\<close>

text \<open>
  \<open>db_exec_capture\<close> runs a one-shot statement (\<^verbatim>\<open>sqlite3_exec\<close>) given by its effect and
  records the engine's text, or the single-writer diagnostic for SQLITE_BUSY. SQLite's own
  transaction statements fail when there is a transaction already (BEGIN) or none (COMMIT,
  ROLLBACK).
\<close>

definition busy_text :: string where
  "busy_text = ''SQLITE_BUSY: concurrent write detected; this database is single-writer by design ''
     @ [CHR 0xE2, CHR 0x80, CHR 0x94] @ '' wait for the other process to finish and rerun''"

definition db_exec_capture :: "(db_t \<Rightarrow> db_t option) \<Rightarrow> db_t \<Rightarrow> sql_rc \<times> db_t" where
  "db_exec_capture effect d =
     (case next_event (d\<lparr>last_error := None\<rparr>) of (ev, d1) \<Rightarrow>
        (case ev of
           EvPrepare \<Rightarrow> (SQLITE_ERROR, d1\<lparr>last_error := Some (engine_msg d1)\<rparr>)
         | EvStep k \<Rightarrow> (SQLITE_ERROR, d1\<lparr>last_error := Some (engine_msg d1)\<rparr>)
         | EvBusy \<Rightarrow> (SQLITE_BUSY, d1\<lparr>last_error := Some busy_text\<rparr>)
         | _ \<Rightarrow> (case effect d1 of
                  None \<Rightarrow> (SQLITE_ERROR, d1\<lparr>last_error := Some (engine_msg d1)\<rparr>)
                | Some d2 \<Rightarrow> (SQLITE_OK, d2))))"

definition sql_begin :: "db_t \<Rightarrow> db_t option" where
  "sql_begin d = (if saved d = None then Some (d\<lparr>saved := Some (store d)\<rparr>) else None)"

definition sql_commit :: "db_t \<Rightarrow> db_t option" where
  "sql_commit d = (if saved d = None then None else Some (d\<lparr>saved := None\<rparr>))"

definition sql_rollback :: "db_t \<Rightarrow> db_t option" where
  "sql_rollback d = (case saved d of None \<Rightarrow> None | Some st \<Rightarrow> Some (d\<lparr>store := st, saved := None\<rparr>))"

definition acta_db_exec :: "(db_t \<Rightarrow> db_t option) \<Rightarrow> db_t \<Rightarrow> int \<times> db_t" where
  "acta_db_exec sql d =
     (case db_exec_capture sql d of (rc, d1) \<Rightarrow>
        (if rc = SQLITE_OK then ACTA_DB_OK else ACTA_DB_ERR_SQL, d1))"

definition acta_db_begin :: "db_t \<Rightarrow> int \<times> db_t" where
  "acta_db_begin d =
     (if in_transaction d then (ACTA_DB_ERR_INVALID, d)
      else case db_exec_capture sql_begin d of (rc, d1) \<Rightarrow>
        if rc \<noteq> SQLITE_OK then (ACTA_DB_ERR_SQL, d1)
        else (ACTA_DB_OK, d1\<lparr>in_transaction := True\<rparr>))"

definition acta_db_commit :: "db_t \<Rightarrow> int \<times> db_t" where
  "acta_db_commit d =
     (if \<not> in_transaction d then (ACTA_DB_ERR_INVALID, d)
      else case db_exec_capture sql_commit d of (rc, d1) \<Rightarrow>
        if rc \<noteq> SQLITE_OK then (ACTA_DB_ERR_SQL, d1)
        else (ACTA_DB_OK, d1\<lparr>in_transaction := False\<rparr>))"

definition acta_db_rollback :: "db_t \<Rightarrow> int \<times> db_t" where
  "acta_db_rollback d =
     (if \<not> in_transaction d then (ACTA_DB_ERR_INVALID, d)
      else case db_exec_capture sql_rollback d of (rc, d1) \<Rightarrow>
        if rc \<noteq> SQLITE_OK then (ACTA_DB_ERR_SQL, d1)
        else (ACTA_DB_OK, d1\<lparr>in_transaction := False\<rparr>))"

definition acta_db_transaction :: "(db_t \<Rightarrow> int \<times> db_t) \<Rightarrow> db_t \<Rightarrow> int \<times> db_t" where
  "acta_db_transaction fn d =
     (if in_transaction d then (ACTA_DB_ERR_INVALID, d)
      else case db_exec_capture sql_begin d of (rc0, d1) \<Rightarrow>
        if rc0 \<noteq> SQLITE_OK then (ACTA_DB_ERR_SQL, d1)
        else case fn (d1\<lparr>in_transaction := True\<rparr>) of (result, d2) \<Rightarrow>
          if in_transaction d2
          then case db_exec_capture (if result = ACTA_DB_OK then sql_commit else sql_rollback)
                      (d2\<lparr>in_transaction := False\<rparr>) of (rc, d3) \<Rightarrow>
                 (if rc \<noteq> SQLITE_OK then ACTA_DB_ERR_SQL else result, d3)
          else (result, d2))"

text \<open>
  \<open>acta_db_close\<close>: \<open>rc\<close> is what \<^verbatim>\<open>sqlite3_close\<close> answers (SQLITE_BUSY when a prepared
  statement is still open). The handle that survives, if any, is the second component. The
  best-effort ROLLBACK ignores its own failure.
\<close>

definition acta_db_close :: "sql_rc \<Rightarrow> db_t \<Rightarrow> int \<times> db_t option" where
  "acta_db_close rc d =
     (let d1 = (if in_transaction d
                then (case next_event d of (ev, d0) \<Rightarrow>
                        (case (if ev = EvOk then sql_rollback d0 else None) of
                           None \<Rightarrow> d0 | Some d' \<Rightarrow> d'))\<lparr>in_transaction := False\<rparr>
                else d) in
      if rc = SQLITE_BUSY then (ACTA_DB_ERR_SQL, Some d1)
      else (if rc = SQLITE_OK then ACTA_DB_OK else ACTA_DB_ERR_SQL, None))"

definition acta_db_force_close :: "db_t \<Rightarrow> int \<times> db_t option" where
  "acta_db_force_close d = (ACTA_DB_OK, None)"

section \<open>Schema version\<close>

definition acta_db_schema_version :: "db_t \<Rightarrow> int \<times> int option \<times> db_t" where
  "acta_db_schema_version d =
     (case next_event d of (ev, d1) \<Rightarrow>
        (if ev = EvOk then (ACTA_DB_OK, Some (c_int (user_version (store d1))), d1)
         else (ACTA_DB_ERR_SQL, None, db_set_error ''failed to read PRAGMA user_version'' d1)))"

definition acta_db_set_schema_version :: "int \<Rightarrow> db_t \<Rightarrow> int \<times> db_t" where
  "acta_db_set_schema_version version d =
     (if version < 0 then (ACTA_DB_ERR_INVALID, d)
      else case acta_db_exec (\<lambda>d. Some (d\<lparr>store := (store d)\<lparr>user_version := version\<rparr>\<rparr>)) d of
        (rc, d1) \<Rightarrow>
          (rc, if rc \<noteq> ACTA_DB_OK then db_set_error ''failed to set PRAGMA user_version'' d1 else d1))"

end
