(* ===== verification/Executions.thy ===== *)
theory Executions
  imports Database
begin

text \<open>
  \<^verbatim>\<open>acta_db/src/execution.c\<close>: the execution rows, their life cycle
  (pending, running, completed, failed, cancelled; soft delete and restore) and the query family.
  Each transition of the C code is a status probe (\<open>exec_verify_status\<close>, or the probe inlined in
  reset and delete) followed by an UPDATE that carries the status guard again; the guard is what
  decides a race. The SET clauses of the UPDATEs are the constructors of \<open>exec_edit\<close>.
\<close>

section \<open>Rows, queries and the SET clauses\<close>

record execution_t =
  e_id :: int
  e_context_id :: int
  e_skill_revision_id :: int
  e_model_revision_id :: int
  e_raw_response :: "string option"
  e_result :: "string option"
  e_status :: "string option"
  e_error :: "string option"
  e_created_at :: "string option"
  e_started_at :: "string option"
  e_completed_at :: "string option"
  e_parent_execution_id :: int
  e_deleted_at :: "string option"

record execution_query_t =
  q_status :: "string option"
  q_parent_execution_id :: int
  q_context_id :: int
  q_skill_revision_id :: int
  q_model_revision_id :: int
  q_include_deleted :: bool

definition ACTA_EXEC_QUERY_ANY :: execution_query_t where
  "ACTA_EXEC_QUERY_ANY = \<lparr>q_status = None, q_parent_execution_id = 0, q_context_id = 0,
     q_skill_revision_id = 0, q_model_revision_id = 0, q_include_deleted = False\<rparr>"

datatype exec_edit =
    SetRunning string
  | SetCancelled string
  | SetCompleted "string option" string
  | SetFailed "string option" string
  | SetPending
  | SetExecDeleted string
  | ClearExecDeleted
  | SetRaw "string option"

fun exec_apply :: "exec_edit \<Rightarrow> execution_row \<Rightarrow> execution_row" where
  "exec_apply (SetRunning now) r = r\<lparr>ex_status := ''running'', ex_started_at := Some now\<rparr>"
| "exec_apply (SetCancelled now) r = r\<lparr>ex_status := ''cancelled'', ex_completed_at := Some now\<rparr>"
| "exec_apply (SetCompleted result now) r =
     r\<lparr>ex_status := ''completed'', ex_result := result, ex_completed_at := Some now\<rparr>"
| "exec_apply (SetFailed error now) r =
     r\<lparr>ex_status := ''failed'', ex_error := error, ex_completed_at := Some now\<rparr>"
| "exec_apply SetPending r =
     r\<lparr>ex_status := ''pending'', ex_error := None, ex_raw_response := None,
       ex_started_at := None, ex_completed_at := None\<rparr>"
| "exec_apply (SetExecDeleted now) r = r\<lparr>ex_deleted_at := Some now\<rparr>"
| "exec_apply ClearExecDeleted r = r\<lparr>ex_deleted_at := None\<rparr>"
| "exec_apply (SetRaw raw) r = r\<lparr>ex_raw_response := raw\<rparr>"

interpretation exec_rows: keyed_rows ex_id "\<lambda>r i. r\<lparr>ex_id := i\<rparr>" exec_apply
proof
  show "ex_id (exec_apply e r) = ex_id r" for e r
    by (cases e) auto
qed simp

definition row_to_execution :: "execution_row \<Rightarrow> execution_t" where
  "row_to_execution r =
     \<lparr>e_id = c_int (ex_id r), e_context_id = c_int (ex_context_id r),
      e_skill_revision_id = c_int (ex_skill_revision_id r),
      e_model_revision_id = c_int (ex_model_revision_id r),
      e_raw_response = ex_raw_response r, e_result = ex_result r,
      e_status = Some (ex_status r), e_error = ex_error r,
      e_created_at = Some (ex_created_at r), e_started_at = ex_started_at r,
      e_completed_at = ex_completed_at r,
      e_parent_execution_id = (case ex_parent_execution_id r of None \<Rightarrow> 0 | Some i \<Rightarrow> c_int i),
      e_deleted_at = ex_deleted_at r\<rparr>"

definition row_to_execution_light :: "execution_row \<Rightarrow> execution_t" where
  "row_to_execution_light r =
     \<lparr>e_id = c_int (ex_id r), e_context_id = c_int (ex_context_id r),
      e_skill_revision_id = c_int (ex_skill_revision_id r),
      e_model_revision_id = c_int (ex_model_revision_id r),
      e_raw_response = None, e_result = None,
      e_status = Some (ex_status r), e_error = None,
      e_created_at = Some (ex_created_at r), e_started_at = ex_started_at r,
      e_completed_at = ex_completed_at r,
      e_parent_execution_id = (case ex_parent_execution_id r of None \<Rightarrow> 0 | Some i \<Rightarrow> c_int i),
      e_deleted_at = ex_deleted_at r\<rparr>"

section \<open>The WHERE builder\<close>

text \<open>
  The clause text is built in a buffer of \<open>sz\<close> bytes; \<open>None\<close> is the overflow result -1. The
  state of the building is the text so far and the number of predicates.
\<close>

definition where_append :: "nat \<Rightarrow> string \<Rightarrow> string \<times> nat \<Rightarrow> (string \<times> nat) option" where
  "where_append sz clause acc =
     (case acc of (buf, n) \<Rightarrow>
        let piece = (if n \<noteq> 0 then '' AND '' else '''') @ clause in
        if length piece \<ge> sz - length buf then None else Some (buf @ piece, n + 1))"

definition where_if :: "nat \<Rightarrow> bool \<Rightarrow> string \<Rightarrow> (string \<times> nat) option \<Rightarrow> (string \<times> nat) option" where
  "where_if sz c clause acc =
     (case acc of None \<Rightarrow> None
      | Some a \<Rightarrow> if c then where_append sz clause a else Some a)"

definition exec_build_where :: "nat \<Rightarrow> execution_query_t \<Rightarrow> (string \<times> nat) option" where
  "exec_build_where sz q =
     (if sz = 0 \<or> length '' WHERE '' \<ge> sz then None
      else
        let a0 = Some ('' WHERE '', 0);
            a1 = where_if sz (q_status q \<noteq> None) ''status = ?'' a0;
            a2 = where_if sz (q_parent_execution_id q \<noteq> 0) ''parent_execution_id = ?'' a1;
            a3 = where_if sz (q_context_id q \<noteq> 0) ''context_id = ?'' a2;
            a4 = where_if sz (q_skill_revision_id q \<noteq> 0) ''skill_revision_id = ?'' a3;
            a5 = where_if sz (q_model_revision_id q \<noteq> 0) ''model_revision_id = ?'' a4;
            a6 = where_if sz (\<not> q_include_deleted q) ''deleted_at IS NULL'' a5
        in case a6 of None \<Rightarrow> None
           | Some (buf, n) \<Rightarrow> Some (if n = 0 then '''' else buf, n))"

text \<open>What the built clause, with the parameters of \<^verbatim>\<open>exec_bind_where\<close> bound, selects.\<close>

definition exec_matches :: "execution_query_t \<Rightarrow> execution_row \<Rightarrow> bool" where
  "exec_matches q r \<longleftrightarrow>
     (case q_status q of None \<Rightarrow> True | Some s \<Rightarrow> ex_status r = s)
     \<and> (q_parent_execution_id q = 0 \<or> ex_parent_execution_id r = Some (q_parent_execution_id q))
     \<and> (q_context_id q = 0 \<or> ex_context_id r = q_context_id q)
     \<and> (q_skill_revision_id q = 0 \<or> ex_skill_revision_id r = q_skill_revision_id q)
     \<and> (q_model_revision_id q = 0 \<or> ex_model_revision_id r = q_model_revision_id q)
     \<and> (q_include_deleted q \<or> ex_deleted_at r = None)"

definition EXEC_SELECT :: string where
  "EXEC_SELECT = ''SELECT id, context_id, skill_revision_id, model_revision_id, ''
     @ ''raw_response, result, status, error, created_at, started_at, ''
     @ ''completed_at, parent_execution_id, deleted_at FROM executions''"

definition EXEC_SELECT_LIGHT :: string where
  "EXEC_SELECT_LIGHT = ''SELECT id, context_id, skill_revision_id, model_revision_id, status, ''
     @ ''created_at, started_at, completed_at, parent_execution_id, ''
     @ ''deleted_at FROM executions''"

section \<open>Query, count and get\<close>

text \<open>
  A lister returns its items (\<open>[]\<close> for the NULL array), the value it stored through
  \<^verbatim>\<open>out_count\<close> and through \<^verbatim>\<open>err\<close> (\<open>None\<close> when it did not write through the
  pointer), and the handle. The row loop stops at the first code other than SQLITE_ROW, whichever
  it is.
\<close>

definition execution_query_impl ::
  "execution_query_t option \<Rightarrow> int \<Rightarrow> int \<Rightarrow> bool \<Rightarrow> db_t
     \<Rightarrow> execution_t list \<times> int option \<times> int option \<times> db_t" where
  "execution_query_impl q offset limit light d =
     (if offset < 0 then ([], None, Some ACTA_DB_ERR_INVALID, d)
      else
        let limit = db_clamp_limit limit;
            eff = (case q of None \<Rightarrow> ACTA_EXEC_QUERY_ANY | Some q' \<Rightarrow> q')
        in case exec_build_where 384 eff of
             None \<Rightarrow> ([], Some 0, Some ACTA_DB_ERR_INVALID, d)
           | Some (where_clause, n) \<Rightarrow>
               if length ((if light then EXEC_SELECT_LIGHT else EXEC_SELECT) @ where_clause
                    @ '' ORDER BY id ASC LIMIT ? OFFSET ?;'') \<ge> 600
               then ([], Some 0, Some ACTA_DB_ERR_INVALID, d)
               else case sql_read (\<lambda>st. sql_page limit offset
                             (sort_key ex_id (filter (exec_matches eff) (rows (executions st))))) d of
                 (Unreadable, d1) \<Rightarrow> ([], Some 0, Some ACTA_DB_ERR_SQL, d1)
               | (Fetched rs rc oom, d1) \<Rightarrow>
                   (case collect_loop (if light then row_to_execution_light else row_to_execution)
                           oom rs [] of
                      None \<Rightarrow> ([], Some 0, Some ACTA_DB_ERR_ALLOC, d1)
                    | Some items \<Rightarrow> (items, Some (int (length items)), Some ACTA_DB_OK, d1)))"

definition acta_db_execution_query ::
  "execution_query_t option \<Rightarrow> int \<Rightarrow> int \<Rightarrow> db_t
     \<Rightarrow> execution_t list \<times> int option \<times> int option \<times> db_t" where
  "acta_db_execution_query q offset limit d = execution_query_impl q offset limit False d"

definition acta_db_execution_query_light ::
  "execution_query_t option \<Rightarrow> int \<Rightarrow> int \<Rightarrow> db_t
     \<Rightarrow> execution_t list \<times> int option \<times> int option \<times> db_t" where
  "acta_db_execution_query_light q offset limit d = execution_query_impl q offset limit True d"

definition acta_db_execution_count ::
  "execution_query_t option \<Rightarrow> db_t \<Rightarrow> int \<times> int option \<times> db_t" where
  "acta_db_execution_count q d =
     (let eff = (case q of None \<Rightarrow> ACTA_EXEC_QUERY_ANY | Some q' \<Rightarrow> q') in
      case exec_build_where 384 eff of
        None \<Rightarrow> (- 1, Some ACTA_DB_ERR_INVALID, d)
      | Some (where_clause, n) \<Rightarrow>
          if length (''SELECT COUNT(*) FROM executions'' @ where_clause @ '';'') \<ge> 500
          then (- 1, Some ACTA_DB_ERR_INVALID, d)
          else case sql_read (\<lambda>st. [int (length (filter (exec_matches eff) (rows (executions st))))]) d of
            (Unreadable, d1) \<Rightarrow> (- 1, Some ACTA_DB_ERR_SQL, d1)
          | (Fetched [] rc oom, d1) \<Rightarrow> (- 1, Some ACTA_DB_ERR_SQL, d1)
          | (Fetched (n # ns) rc oom, d1) \<Rightarrow>
              (c_int n, Some (if c_int n \<ge> 0 then ACTA_DB_OK else ACTA_DB_ERR_SQL), d1))"

definition acta_db_execution_get :: "int \<Rightarrow> db_t \<Rightarrow> execution_t option \<times> int option \<times> db_t" where
  "acta_db_execution_get eid d =
     (if eid \<le> 0 then (None, Some ACTA_DB_ERR_INVALID, d)
      else case sql_read (\<lambda>st. filter (\<lambda>r. ex_id r = eid) (rows (executions st))) d of
        (Unreadable, d1) \<Rightarrow> (None, Some ACTA_DB_ERR_SQL, d1)
      | (Fetched [] rc oom, d1) \<Rightarrow> (None, None, d1)
      | (Fetched (r # rs) rc oom, d1) \<Rightarrow>
          if oom = Some 0 then (None, Some ACTA_DB_ERR_ALLOC, d1)
          else (Some (row_to_execution r), Some ACTA_DB_OK, d1))"

section \<open>Create\<close>

definition acta_db_execution_create :: "execution_t \<Rightarrow> db_t \<Rightarrow> int \<times> int option \<times> db_t" where
  "acta_db_execution_create e d =
     (if e_context_id e \<le> 0 \<or> e_skill_revision_id e \<le> 0 \<or> e_model_revision_id e \<le> 0
      then (ACTA_DB_ERR_INVALID, None, d)
      else case sql_read (\<lambda>st. filter (\<lambda>c. cx_id c = e_context_id e) (rows (contexts st))) d of
        (Unreadable, d1) \<Rightarrow> (ACTA_DB_ERR_SQL, None, d1)
      | (Fetched [] rc oom, d1) \<Rightarrow>
          (ACTA_DB_ERR_FK, None,
           db_set_error (snprintf 160 (''FOREIGN KEY violation: context ''
              @ show_int (e_context_id e) @ '' does not exist'')) d1)
      | (Fetched (c # cs) rc oom, d1) \<Rightarrow>
          if cx_deleted_at c \<noteq> None
          then (ACTA_DB_ERR_NOT_FOUND, None,
                db_set_error (snprintf 160 (''context '' @ show_int (e_context_id e)
                  @ '' is soft-deleted'')) d1)
          else case sql_write (insert_executions
                 \<lparr>ex_id = 0, ex_context_id = e_context_id e,
                  ex_skill_revision_id = e_skill_revision_id e,
                  ex_model_revision_id = e_model_revision_id e,
                  ex_raw_response = None, ex_result = None, ex_status = ''pending'',
                  ex_error = None, ex_created_at = clock d1, ex_started_at = None,
                  ex_completed_at = None, ex_deleted_at = None,
                  ex_parent_execution_id =
                    (if e_parent_execution_id e = 0 then None else Some (e_parent_execution_id e))\<rparr>) d1 of
              (Unprepared, d2) \<Rightarrow> (ACTA_DB_ERR_SQL, None, d2)
            | (Stepped rc' n, d2) \<Rightarrow>
                if rc' = Constraint SQLITE_CONSTRAINT_FOREIGNKEY then (ACTA_DB_ERR_FK, None, d2)
                else if rc' \<noteq> SQLITE_DONE then (ACTA_DB_ERR_SQL, None, d2)
                else (ACTA_DB_OK, Some (c_int n), d2))"

section \<open>State transitions\<close>

definition exec_msg :: "int \<Rightarrow> string \<Rightarrow> string" where
  "exec_msg eid text = snprintf 192 (''execution '' @ show_int eid @ text)"

definition exec_verify_status :: "int \<Rightarrow> string \<Rightarrow> string \<Rightarrow> db_t \<Rightarrow> int \<times> db_t" where
  "exec_verify_status eid expected why d =
     (case sql_read (\<lambda>st. filter (\<lambda>r. ex_id r = eid) (rows (executions st))) d of
        (Unreadable, d1) \<Rightarrow> (ACTA_DB_ERR_SQL, d1)
      | (Fetched [] rc oom, d1) \<Rightarrow>
          (ACTA_DB_ERR_NOT_FOUND,
           db_set_error (snprintf 80 (''execution '' @ show_int eid @ '' does not exist'')) d1)
      | (Fetched (r # rs) rc oom, d1) \<Rightarrow>
          if ex_status r = expected then (ACTA_DB_OK, d1)
          else (ACTA_DB_ERR_INVALID,
                db_set_error (exec_msg eid ('' is '' @ [CHR 0x27] @ ex_status r @ [CHR 0x27] @ ''; '' @ why)) d1))"

text \<open>The guarded UPDATE of each transition, with the tail that reports a lost race.\<close>

definition exec_update ::
  "int \<Rightarrow> (execution_row \<Rightarrow> bool) \<Rightarrow> exec_edit \<Rightarrow> string \<Rightarrow> db_t \<Rightarrow> int \<times> db_t" where
  "exec_update eid guard e what d =
     finish_update ACTA_DB_ERR_INVALID
       (exec_msg eid ('' changed concurrently; '' @ what @ '' not applied''))
       (sql_write (update_executions eid guard (exec_apply e)) d)"

definition acta_db_execution_start :: "int \<Rightarrow> db_t \<Rightarrow> int \<times> db_t" where
  "acta_db_execution_start eid d =
     (case exec_verify_status eid ''pending'' (''start requires status '' @ [CHR 0x27] @ ''pending'' @ [CHR 0x27]) d of
        (rc, d1) \<Rightarrow>
          if rc \<noteq> ACTA_DB_OK then (rc, d1)
          else exec_update eid (\<lambda>r. ex_status r = ''pending'') (SetRunning (clock d1)) ''start'' d1)"

definition acta_db_execution_cancel :: "int \<Rightarrow> db_t \<Rightarrow> int \<times> db_t" where
  "acta_db_execution_cancel eid d =
     (let why = ''cancel requires status '' @ [CHR 0x27] @ ''pending'' @ [CHR 0x27] @ '' or ''
                @ [CHR 0x27] @ ''running'' @ [CHR 0x27] in
      case exec_verify_status eid ''pending'' why d of
        (rc0, d0) \<Rightarrow>
      case (if rc0 = ACTA_DB_ERR_INVALID then exec_verify_status eid ''running'' why d0
            else (rc0, d0)) of
        (rc, d1) \<Rightarrow>
          if rc \<noteq> ACTA_DB_OK then (rc, d1)
          else exec_update eid (\<lambda>r. ex_status r \<in> {''pending'', ''running''})
                 (SetCancelled (clock d1)) ''cancel'' d1)"

definition acta_db_execution_complete :: "int \<Rightarrow> string option \<Rightarrow> db_t \<Rightarrow> int \<times> db_t" where
  "acta_db_execution_complete eid result d =
     (case exec_verify_status eid ''running'' (''complete requires status '' @ [CHR 0x27] @ ''running'' @ [CHR 0x27]) d of
        (rc, d1) \<Rightarrow>
          if rc \<noteq> ACTA_DB_OK then (rc, d1)
          else exec_update eid (\<lambda>r. ex_status r = ''running'') (SetCompleted result (clock d1))
                 ''complete'' d1)"

definition acta_db_execution_fail :: "int \<Rightarrow> string option \<Rightarrow> db_t \<Rightarrow> int \<times> db_t" where
  "acta_db_execution_fail eid error d =
     (case exec_verify_status eid ''running'' (''fail requires status '' @ [CHR 0x27] @ ''running'' @ [CHR 0x27]) d of
        (rc, d1) \<Rightarrow>
          if rc \<noteq> ACTA_DB_OK then (rc, d1)
          else exec_update eid (\<lambda>r. ex_status r = ''running'') (SetFailed error (clock d1))
                 ''fail'' d1)"

definition acta_db_execution_reset :: "int \<Rightarrow> db_t \<Rightarrow> int \<times> db_t" where
  "acta_db_execution_reset eid d =
     (case sql_read (\<lambda>st. filter (\<lambda>r. ex_id r = eid) (rows (executions st))) d of
        (Unreadable, d1) \<Rightarrow> (ACTA_DB_ERR_SQL, d1)
      | (Fetched [] rc oom, d1) \<Rightarrow>
          (ACTA_DB_ERR_NOT_FOUND, db_set_error (exec_msg eid '' does not exist'') d1)
      | (Fetched (r # rs) rc oom, d1) \<Rightarrow>
          if ex_deleted_at r \<noteq> None
          then (ACTA_DB_ERR_NOT_FOUND,
                db_set_error (exec_msg eid '' is soft-deleted; restore it before reset'') d1)
          else if ex_status r = ''failed''
          then exec_update eid (\<lambda>r. ex_status r = ''failed'') SetPending ''reset'' d1
          else (ACTA_DB_ERR_INVALID,
                db_set_error (exec_msg eid ('' is '' @ [CHR 0x27] @ ex_status r @ [CHR 0x27]
                  @ ''; reset requires status '' @ [CHR 0x27] @ ''failed'' @ [CHR 0x27])) d1))"

section \<open>Soft delete, restore, raw response\<close>

definition acta_db_execution_delete :: "int \<Rightarrow> db_t \<Rightarrow> int \<times> db_t" where
  "acta_db_execution_delete eid d =
     (case sql_read (\<lambda>st. filter (\<lambda>r. ex_id r = eid) (rows (executions st))) d of
        (Unreadable, d1) \<Rightarrow> (ACTA_DB_ERR_SQL, d1)
      | (Fetched [] rc oom, d1) \<Rightarrow>
          (ACTA_DB_ERR_NOT_FOUND, db_set_error (exec_msg eid '' does not exist'') d1)
      | (Fetched (r # rs) rc oom, d1) \<Rightarrow>
          if ex_deleted_at r \<noteq> None
          then (ACTA_DB_ERR_NOT_FOUND, db_set_error (exec_msg eid '' is already deleted'') d1)
          else if ex_status r = ''running''
          then (ACTA_DB_ERR_INVALID,
                db_set_error (snprintf 192 (''cannot delete execution '' @ show_int eid
                  @ '' while its status is '' @ [CHR 0x27] @ ''running'' @ [CHR 0x27])) d1)
          else exec_update eid
                 (\<lambda>r. ex_status r \<in> {''pending'', ''completed'', ''failed'', ''cancelled''}
                      \<and> ex_deleted_at r = None)
                 (SetExecDeleted (clock d1)) ''delete'' d1)"

definition acta_db_execution_restore :: "int \<Rightarrow> db_t \<Rightarrow> int \<times> db_t" where
  "acta_db_execution_restore eid d =
     finish_update ACTA_DB_ERR_NOT_FOUND
       (exec_msg eid '' is not deleted (nothing to restore)'')
       (sql_write (update_executions eid (\<lambda>r. ex_deleted_at r \<noteq> None) (exec_apply ClearExecDeleted)) d)"

definition acta_db_execution_set_raw_response :: "int \<Rightarrow> string option \<Rightarrow> db_t \<Rightarrow> int \<times> db_t" where
  "acta_db_execution_set_raw_response eid raw d =
     finish_update ACTA_DB_ERR_NOT_FOUND (exec_msg eid '' does not exist'')
       (sql_write (update_executions eid (\<lambda>r. True) (exec_apply (SetRaw raw))) d)"

lemmas exec_mutator_defs = acta_db_execution_start_def acta_db_execution_cancel_def
  acta_db_execution_complete_def acta_db_execution_fail_def acta_db_execution_reset_def
  acta_db_execution_delete_def acta_db_execution_restore_def acta_db_execution_set_raw_response_def

section \<open>What a mutator does\<close>

text \<open>
  Every mutator of this file either fails and leaves the store alone, or succeeds and applies one
  edit to one row that satisfied its guard.
\<close>

definition exec_edited ::
  "int \<times> (execution_row \<Rightarrow> bool) \<times> exec_edit \<Rightarrow> store \<Rightarrow> store \<Rightarrow> bool" where
  "exec_edited a st st' =
     (case a of (eid, guard, e) \<Rightarrow>
        \<exists>r. tbl_get ex_id (executions st) eid = Some r \<and> guard r
          \<and> st' = st\<lparr>executions := tbl_upd (\<lambda>r. ex_id r = eid) (exec_apply e) (executions st)\<rparr>)"

interpretation exec_stmt: update_stmt
  "\<lambda>a. case a of (eid, guard, e) \<Rightarrow> update_executions eid guard (exec_apply e)" exec_edited
  by unfold_locales
    (auto simp: exec_edited_def update_executions_def split: option.splits if_splits)

abbreviation exec_effect ::
  "int \<Rightarrow> (execution_row \<Rightarrow> bool) \<Rightarrow> exec_edit \<Rightarrow> store \<Rightarrow> int \<Rightarrow> store \<Rightarrow> bool" where
  "exec_effect eid guard e \<equiv> exec_stmt.effect (eid, guard, e)"

lemma exec_effect_def:
  "exec_effect eid guard e st rc st' \<longleftrightarrow>
     (if rc = ACTA_DB_OK
      then \<exists>r. tbl_get ex_id (executions st) eid = Some r \<and> guard r
             \<and> st' = st\<lparr>executions := tbl_upd (\<lambda>r. ex_id r = eid) (exec_apply e) (executions st)\<rparr>
      else st' = st)"
  by (simp add: exec_stmt.effect_def exec_edited_def)

lemmas finish_exec_effect = exec_stmt.finish [of _ _ "(eid, g, e)" for eid g e, unfolded prod.case]
lemmas exec_effect_fail = exec_stmt.effect_fail

lemma exec_update_effect:
  "exec_update eid g e what d = (rc, d') \<Longrightarrow> exec_effect eid g e (store d) rc (store d')"
  unfolding exec_update_def by (rule finish_exec_effect) auto

lemma exec_verify_status_store:
  "exec_verify_status eid s why d = (rc, d1) \<Longrightarrow>
     store d1 = store d \<and> clock d1 = clock d \<and> (rc = ACTA_DB_OK \<or> rc < 0)"
  by (auto simp: exec_verify_status_def split: prod.splits read_result.splits list.splits if_splits
      dest!: sql_read_fields)

lemma start_effect:
  "acta_db_execution_start eid d = (rc, d') \<Longrightarrow>
     exec_effect eid (\<lambda>r. ex_status r = ''pending'') (SetRunning (clock d)) (store d) rc (store d')"
  by (auto simp: acta_db_execution_start_def exec_effect_fail split: prod.splits if_splits
      dest!: exec_verify_status_store exec_update_effect)

lemma cancel_effect:
  "acta_db_execution_cancel eid d = (rc, d') \<Longrightarrow>
     exec_effect eid (\<lambda>r. ex_status r \<in> {''pending'', ''running''}) (SetCancelled (clock d))
       (store d) rc (store d')"
  by (auto simp: acta_db_execution_cancel_def Let_def exec_effect_fail split: prod.splits if_splits
      dest!: exec_verify_status_store exec_update_effect)

lemma complete_effect:
  "acta_db_execution_complete eid res d = (rc, d') \<Longrightarrow>
     exec_effect eid (\<lambda>r. ex_status r = ''running'') (SetCompleted res (clock d)) (store d) rc (store d')"
  by (auto simp: acta_db_execution_complete_def exec_effect_fail split: prod.splits if_splits
      dest!: exec_verify_status_store exec_update_effect)

lemma fail_effect:
  "acta_db_execution_fail eid err d = (rc, d') \<Longrightarrow>
     exec_effect eid (\<lambda>r. ex_status r = ''running'') (SetFailed err (clock d)) (store d) rc (store d')"
  by (auto simp: acta_db_execution_fail_def exec_effect_fail split: prod.splits if_splits
      dest!: exec_verify_status_store exec_update_effect)

lemma reset_effect:
  "acta_db_execution_reset eid d = (rc, d') \<Longrightarrow>
     exec_effect eid (\<lambda>r. ex_status r = ''failed'') SetPending (store d) rc (store d')"
  by (auto simp: acta_db_execution_reset_def exec_effect_fail
      split: prod.splits if_splits read_result.splits list.splits
      dest!: sql_read_store exec_update_effect)

lemma delete_effect:
  "acta_db_execution_delete eid d = (rc, d') \<Longrightarrow>
     exec_effect eid
       (\<lambda>r. ex_status r \<in> {''pending'', ''completed'', ''failed'', ''cancelled''} \<and> ex_deleted_at r = None)
       (SetExecDeleted (clock d)) (store d) rc (store d')"
  by (auto simp: acta_db_execution_delete_def exec_effect_fail
      split: prod.splits if_splits read_result.splits list.splits
      dest!: sql_read_fields exec_update_effect)

lemma restore_effect:
  "acta_db_execution_restore eid d = (rc, d') \<Longrightarrow>
     exec_effect eid (\<lambda>r. ex_deleted_at r \<noteq> None) ClearExecDeleted (store d) rc (store d')"
  unfolding acta_db_execution_restore_def by (rule finish_exec_effect) auto

lemma set_raw_response_effect:
  "acta_db_execution_set_raw_response eid raw d = (rc, d') \<Longrightarrow>
     exec_effect eid (\<lambda>r. True) (SetRaw raw) (store d) rc (store d')"
  unfolding acta_db_execution_set_raw_response_def by (rule finish_exec_effect) auto

lemmas exec_effects = start_effect cancel_effect complete_effect fail_effect reset_effect
  delete_effect restore_effect set_raw_response_effect

end
