(* ===== verification/Execution_Lifecycle.thy ===== *)
theory Execution_Lifecycle
  imports Executions
begin

text \<open>
  What the execution calls promise together (the state machine documented in
  \<^verbatim>\<open>acta_db/include/execution.h\<close>): the abstract phases and their legal steps, the relation
  of one library call, the well-formedness of rows, and what a row in a terminal phase keeps.
  \<open>exec_call\<close> has one rule per mutator, under every engine behaviour.
\<close>

section \<open>The abstract machine\<close>

datatype exec_phase = Pending | Running | Completed | Failed | Cancelled

fun phase_of :: "string \<Rightarrow> exec_phase option" where
  "phase_of s =
     (if s = ''pending'' then Some Pending else if s = ''running'' then Some Running
      else if s = ''completed'' then Some Completed else if s = ''failed'' then Some Failed
      else if s = ''cancelled'' then Some Cancelled else None)"

inductive phase_step :: "exec_phase \<Rightarrow> exec_phase \<Rightarrow> bool" where
  p_start: "phase_step Pending Running"
| p_cancel_pending: "phase_step Pending Cancelled"
| p_cancel_running: "phase_step Running Cancelled"
| p_complete: "phase_step Running Completed"
| p_fail: "phase_step Running Failed"
| p_reset: "phase_step Failed Pending"

inductive_cases phase_step_from_terminal: "phase_step Completed p" "phase_step Cancelled p"
inductive_simps phase_step_simps:
  "phase_step Pending p" "phase_step Running p" "phase_step Failed p"

definition phase :: "store \<Rightarrow> int \<Rightarrow> exec_phase option" where
  "phase st i = (case tbl_get ex_id (executions st) i of None \<Rightarrow> None | Some r \<Rightarrow> phase_of (ex_status r))"

section \<open>Calls\<close>

inductive exec_call :: "db_t \<Rightarrow> int \<Rightarrow> db_t \<Rightarrow> bool" where
  c_create: "acta_db_execution_create e d = (rc, out, d') \<Longrightarrow> exec_call d rc d'"
| c_start: "acta_db_execution_start eid d = (rc, d') \<Longrightarrow> exec_call d rc d'"
| c_cancel: "acta_db_execution_cancel eid d = (rc, d') \<Longrightarrow> exec_call d rc d'"
| c_complete: "acta_db_execution_complete eid res d = (rc, d') \<Longrightarrow> exec_call d rc d'"
| c_fail: "acta_db_execution_fail eid err d = (rc, d') \<Longrightarrow> exec_call d rc d'"
| c_reset: "acta_db_execution_reset eid d = (rc, d') \<Longrightarrow> exec_call d rc d'"
| c_delete: "acta_db_execution_delete eid d = (rc, d') \<Longrightarrow> exec_call d rc d'"
| c_restore: "acta_db_execution_restore eid d = (rc, d') \<Longrightarrow> exec_call d rc d'"
| c_raw: "acta_db_execution_set_raw_response eid raw d = (rc, d') \<Longrightarrow> exec_call d rc d'"

section \<open>Well-formed executions\<close>

definition exec_row_ok :: "execution_row \<Rightarrow> bool" where
  "exec_row_ok r \<longleftrightarrow>
     (case phase_of (ex_status r) of
        None \<Rightarrow> False
      | Some Pending \<Rightarrow> ex_started_at r = None \<and> ex_completed_at r = None
                        \<and> ex_error r = None \<and> ex_result r = None
      | Some Running \<Rightarrow> ex_started_at r \<noteq> None \<and> ex_completed_at r = None
                        \<and> ex_error r = None \<and> ex_result r = None
      | Some Completed \<Rightarrow> ex_started_at r \<noteq> None \<and> ex_completed_at r \<noteq> None \<and> ex_error r = None
      | Some Failed \<Rightarrow> ex_started_at r \<noteq> None \<and> ex_completed_at r \<noteq> None \<and> ex_result r = None
      | Some Cancelled \<Rightarrow> ex_completed_at r \<noteq> None \<and> ex_error r = None \<and> ex_result r = None)"

definition exec_ok :: "store \<Rightarrow> bool" where
  "exec_ok st \<longleftrightarrow> tbl_ok ex_id (executions st) \<and> (\<forall>r\<in>set (rows (executions st)). exec_row_ok r)"

lemma exec_row_ok_id [simp]: "exec_row_ok (r\<lparr>ex_id := i\<rparr>) = exec_row_ok r"
  by (simp add: exec_row_ok_def)

text \<open>The guards under which each edit is applied by some call.\<close>

fun edit_guard :: "exec_edit \<Rightarrow> execution_row \<Rightarrow> bool" where
  "edit_guard (SetRunning now) r = (ex_status r = ''pending'')"
| "edit_guard (SetCancelled now) r = (ex_status r \<in> {''pending'', ''running''})"
| "edit_guard (SetCompleted res now) r = (ex_status r = ''running'')"
| "edit_guard (SetFailed err now) r = (ex_status r = ''running'')"
| "edit_guard SetPending r = (ex_status r = ''failed'')"
| "edit_guard (SetExecDeleted now) r =
     (ex_status r \<in> {''pending'', ''completed'', ''failed'', ''cancelled''} \<and> ex_deleted_at r = None)"
| "edit_guard ClearExecDeleted r = (ex_deleted_at r \<noteq> None)"
| "edit_guard (SetRaw raw) r = True"

lemma exec_apply_row_ok: "exec_row_ok r \<Longrightarrow> edit_guard e r \<Longrightarrow> exec_row_ok (exec_apply e r)"
  by (cases e) (auto simp: exec_row_ok_def split: if_splits)

lemma exec_apply_phase:
  "edit_guard e r \<Longrightarrow> phase_of (ex_status r) = Some p \<Longrightarrow>
     \<exists>p'. phase_of (ex_status (exec_apply e r)) = Some p' \<and> (p' = p \<or> phase_step p p')"
  by (cases e) (auto simp: phase_step_simps)

section \<open>Every call is a create, one guarded edit, or a refusal that keeps the store\<close>

lemma create_effect:
  assumes "acta_db_execution_create e d = (rc, out, d')"
  shows "if rc = ACTA_DB_OK
    then out = Some (c_int (seq (executions (store d)) + 1))
         \<and> has_row cx_id (contexts (store d)) (e_context_id e)
         \<and> has_row sr_id (skill_revisions (store d)) (e_skill_revision_id e)
         \<and> has_row mr_id (model_revisions (store d)) (e_model_revision_id e)
         \<and> (e_parent_execution_id e \<noteq> 0 \<longrightarrow>
              has_row ex_id (executions (store d)) (e_parent_execution_id e)
              \<or> e_parent_execution_id e = seq (executions (store d)) + 1)
         \<and> store d' = (store d)\<lparr>executions := tbl_ins (\<lambda>i.
              \<lparr>ex_id = i, ex_context_id = e_context_id e,
               ex_skill_revision_id = e_skill_revision_id e,
               ex_model_revision_id = e_model_revision_id e,
               ex_raw_response = None, ex_result = None, ex_status = ''pending'',
               ex_error = None, ex_created_at = clock d, ex_started_at = None,
               ex_completed_at = None, ex_deleted_at = None,
               ex_parent_execution_id =
                 (if e_parent_execution_id e = 0 then None else Some (e_parent_execution_id e))\<rparr>)
              (executions (store d))\<rparr>
    else store d' = store d \<and> out = None"
  using assms
  by (auto simp: acta_db_execution_create_def insert_executions_def Let_def fk_ok_def
      split: if_splits prod.splits read_result.splits list.splits write_result.splits
      dest!: sql_read_fields elim!: sql_write_cases)

text \<open>The three ways a call can end, as one predicate on the stores.\<close>

definition call_outcome :: "store \<Rightarrow> int \<Rightarrow> store \<Rightarrow> bool" where
  "call_outcome st rc st' \<longleftrightarrow>
     (rc \<noteq> ACTA_DB_OK \<and> st' = st)
     \<or> (rc = ACTA_DB_OK \<and> (\<exists>new. exec_row_ok new \<and> ex_status new = ''pending''
          \<and> st' = st\<lparr>executions := tbl_ins (\<lambda>i. new\<lparr>ex_id := i\<rparr>) (executions st)\<rparr>))
     \<or> (rc = ACTA_DB_OK \<and> (\<exists>eid e r. edit_guard e r \<and> tbl_get ex_id (executions st) eid = Some r
          \<and> st' = st\<lparr>executions := tbl_upd (\<lambda>r. ex_id r = eid) (exec_apply e) (executions st)\<rparr>))"

lemma effect_outcome:
  assumes "exec_effect eid g e st rc st'" and "\<And>r. g r \<Longrightarrow> edit_guard e r"
  shows "call_outcome st rc st'"
proof (cases "rc = ACTA_DB_OK")
  case True
  with assms obtain r where "tbl_get ex_id (executions st) eid = Some r" and "edit_guard e r"
    and "st' = st\<lparr>executions := tbl_upd (\<lambda>r. ex_id r = eid) (exec_apply e) (executions st)\<rparr>"
    unfolding exec_effect_def by auto
  with True show ?thesis unfolding call_outcome_def by blast
qed (use assms in \<open>simp add: exec_effect_def call_outcome_def\<close>)

lemma create_outcome:
  assumes "acta_db_execution_create e d = (rc, out, d')"
  shows "call_outcome (store d) rc (store d')"
proof (cases "rc = ACTA_DB_OK")
  case True
  let ?new = "\<lparr>ex_id = 0, ex_context_id = e_context_id e,
     ex_skill_revision_id = e_skill_revision_id e, ex_model_revision_id = e_model_revision_id e,
     ex_raw_response = None, ex_result = None, ex_status = ''pending'',
     ex_error = None, ex_created_at = clock d, ex_started_at = None,
     ex_completed_at = None, ex_deleted_at = None,
     ex_parent_execution_id =
       (if e_parent_execution_id e = 0 then None else Some (e_parent_execution_id e))\<rparr>"
  have "exec_row_ok ?new" and "ex_status ?new = ''pending''"
    and "store d' = (store d)\<lparr>executions := tbl_ins (\<lambda>i. ?new\<lparr>ex_id := i\<rparr>) (executions (store d))\<rparr>"
    using create_effect [OF assms] True by (simp_all add: exec_row_ok_def)
  with True show ?thesis unfolding call_outcome_def by blast
next
  case False
  then show ?thesis using create_effect [OF assms] by (simp add: call_outcome_def)
qed

lemma exec_call_outcome: "exec_call d rc d' \<Longrightarrow> call_outcome (store d) rc (store d')"
proof (induction rule: exec_call.induct)
  case (c_create e d rc out d')
  then show ?case by (rule create_outcome)
qed (auto dest!: exec_effects elim!: effect_outcome)

section \<open>Preservation and refinement\<close>

lemma outcome_exec_ok:
  assumes "call_outcome st rc st'" and "exec_ok st"
  shows "exec_ok st'"
  using assms(1) unfolding call_outcome_def
proof (elim disjE conjE exE)
  fix new assume "exec_row_ok new"
    "st' = st\<lparr>executions := tbl_ins (\<lambda>i. new\<lparr>ex_id := i\<rparr>) (executions st)\<rparr>"
  with assms(2) show ?thesis
    using exec_rows.ok_ins [of "executions st" new] by (auto simp: exec_ok_def)
next
  fix eid e r
  assume g: "edit_guard e r" "tbl_get ex_id (executions st) eid = Some r"
    and st': "st' = st\<lparr>executions := tbl_upd (\<lambda>r. ex_id r = eid) (exec_apply e) (executions st)\<rparr>"
  have t: "tbl_ok ex_id (executions st)" using assms(2) by (simp add: exec_ok_def)
  have "exec_row_ok r" using g(2) assms(2) by (auto simp: exec_ok_def dest: tbl_get_SomeD)
  with g(1) have "exec_row_ok (exec_apply e r)" by (simp add: exec_apply_row_ok)
  then show ?thesis
    unfolding exec_ok_def st'
    using assms(2) exec_rows.ok_upd [OF t] exec_rows.rows_upd_id [OF t g(2)]
    by (simp add: exec_ok_def) blast
qed (use assms in simp)

lemma outcome_phase:
  assumes "call_outcome st rc st'" and "exec_ok st" and "phase st i = Some p"
  shows "\<exists>p'. phase st' i = Some p' \<and> (p' = p \<or> phase_step p p')"
proof -
  from assms(3) obtain q where q: "tbl_get ex_id (executions st) i = Some q" "phase_of (ex_status q) = Some p"
    by (auto simp: phase_def split: option.splits)
  have t: "tbl_ok ex_id (executions st)" using assms(2) by (simp add: exec_ok_def)
  show ?thesis
    using assms(1) unfolding call_outcome_def
  proof (elim disjE conjE exE)
    fix new assume "st' = st\<lparr>executions := tbl_ins (\<lambda>i. new\<lparr>ex_id := i\<rparr>) (executions st)\<rparr>"
    then show ?thesis using exec_rows.get_ins_old [OF t q(1)] q(2) by (simp add: phase_def)
  next
    fix eid e r assume g: "edit_guard e r" "tbl_get ex_id (executions st) eid = Some r"
      and st': "st' = st\<lparr>executions := tbl_upd (\<lambda>r. ex_id r = eid) (exec_apply e) (executions st)\<rparr>"
    show ?thesis
    proof (cases "i = eid")
      case True
      with g q exec_apply_phase [of e q p] show ?thesis
        by (simp add: st' phase_def exec_rows.get_upd_id del: phase_of.simps)
    next
      case False
      with q show ?thesis by (simp add: st' phase_def exec_rows.get_upd_id)
    qed
  qed (use assms in simp)
qed

section \<open>Frozen executions\<close>

text \<open>
  A row in a terminal phase: everything but the raw response and the deletion mark is fixed.
\<close>

definition frozen_as :: "execution_row \<Rightarrow> execution_row \<Rightarrow> bool" where
  "frozen_as r r' \<longleftrightarrow>
     r'\<lparr>ex_raw_response := ex_raw_response r, ex_deleted_at := ex_deleted_at r\<rparr> = r"

lemma frozen_refl: "frozen_as r r"
  by (simp add: frozen_as_def)

lemma frozen_trans: "frozen_as r r1 \<Longrightarrow> frozen_as r1 r2 \<Longrightarrow> frozen_as r r2"
  by (cases r, cases r1, cases r2) (simp add: frozen_as_def)

lemma frozen_status: "frozen_as r r' \<Longrightarrow> ex_status r' = ex_status r"
  by (cases r, cases r') (simp add: frozen_as_def)

lemma terminal_edit_frozen:
  "edit_guard e r \<Longrightarrow> ex_status r \<in> {''completed'', ''cancelled''} \<Longrightarrow> frozen_as r (exec_apply e r)"
  by (cases e) (auto simp: frozen_as_def)

end
