(* ===== verification/Contexts.thy ===== *)
theory Contexts
  imports Database
begin

text \<open>
  \<^verbatim>\<open>acta_db/src/context.c\<close>: the content rows a skill is run on. A row is written once;
  afterwards only its deletion mark moves, which the schema enforces with a trigger. The listers
  and the counters of the file are one implementation each, parameterised by \<open>live_only\<close> and
  \<open>light\<close>; their SQL is assembled in a fixed buffer.
\<close>

section \<open>Rows and the SET clauses\<close>

record context_t =
  c_id :: int
  c_type :: "string option"
  c_content :: "string option"
  c_content_hash :: "string option"
  c_metadata :: "string option"
  c_created_at :: "string option"
  c_deleted_at :: "string option"

record context_query_t =
  cq_type :: "string option"
  cq_hash :: "string option"

datatype ctx_edit = SetCtxDeleted string | ClearCtxDeleted

fun ctx_apply :: "ctx_edit \<Rightarrow> context_row \<Rightarrow> context_row" where
  "ctx_apply (SetCtxDeleted now) r = r\<lparr>cx_deleted_at := Some now\<rparr>"
| "ctx_apply ClearCtxDeleted r = r\<lparr>cx_deleted_at := None\<rparr>"

interpretation ctx_rows: keyed_rows cx_id "\<lambda>r i. r\<lparr>cx_id := i\<rparr>" ctx_apply
proof
  show "cx_id (ctx_apply e r) = cx_id r" for e r
    by (cases e) auto
qed simp

definition row_to_context :: "bool \<Rightarrow> context_row \<Rightarrow> context_t" where
  "row_to_context light r =
     \<lparr>c_id = c_int (cx_id r), c_type = Some (cx_type r),
      c_content = (if light then None else Some (cx_content r)),
      c_content_hash = Some (cx_content_hash r), c_metadata = cx_metadata r,
      c_created_at = Some (cx_created_at r), c_deleted_at = cx_deleted_at r\<rparr>"

section \<open>SQL builders\<close>

text \<open>
  \<open>pos\<close> and the bytes before it are the accumulated text; each step appends one fragment and
  gives up (\<open>None\<close>, the C result -1) when it does not fit.
\<close>

definition build_where :: "nat \<Rightarrow> context_query_t option \<Rightarrow> bool \<Rightarrow> string option" where
  "build_where sz q live_only =
     (let typ = (case q of None \<Rightarrow> None | Some q' \<Rightarrow> cq_type q');
          hash = (case q of None \<Rightarrow> None | Some q' \<Rightarrow> cq_hash q');
          step1 =
            (if typ \<noteq> None
             then case buf_append sz '''' '' WHERE type = ?'' of
                    None \<Rightarrow> None
                  | Some b1 \<Rightarrow>
                      if hash \<noteq> None
                      then case buf_append sz b1 '' AND content_hash = ?'' of
                             None \<Rightarrow> None | Some b2 \<Rightarrow> Some (b2, True)
                      else Some (b1, True)
             else if hash \<noteq> None
             then case buf_append sz '''' '' WHERE content_hash = ?'' of
                    None \<Rightarrow> None | Some b1 \<Rightarrow> Some (b1, True)
             else Some ('''', False))
      in case step1 of
           None \<Rightarrow> None
         | Some (b, have_predicate) \<Rightarrow>
             if live_only
             then buf_append sz b ((if have_predicate then '' AND'' else '' WHERE'') @ '' deleted_at IS NULL'')
             else Some b)"

definition build_select_sql ::
  "nat \<Rightarrow> context_query_t option \<Rightarrow> int \<Rightarrow> int \<Rightarrow> bool \<Rightarrow> bool \<Rightarrow> string option" where
  "build_select_sql sz q offset limit live_only light =
     (case buf_append sz ''''
             (if light then ''SELECT id, type, content_hash, metadata, ''
                            @ ''created_at, deleted_at FROM contexts''
              else ''SELECT id, type, content, content_hash, metadata, ''
                   @ ''created_at, deleted_at FROM contexts'') of
        None \<Rightarrow> None
      | Some b0 \<Rightarrow>
      (case build_where (sz - length b0) q live_only of
        None \<Rightarrow> None
      | Some w \<Rightarrow>
      (case buf_append sz (b0 @ w) '' ORDER BY id'' of
        None \<Rightarrow> None
      | Some b1 \<Rightarrow>
      (case buf_append sz b1 '' LIMIT ?'' of
        None \<Rightarrow> None
      | Some b2 \<Rightarrow> if offset > 0 then buf_append sz b2 '' OFFSET ?'' else Some b2))))"

definition build_count_sql :: "nat \<Rightarrow> context_query_t option \<Rightarrow> bool \<Rightarrow> string option" where
  "build_count_sql sz q live_only =
     (case buf_append sz '''' ''SELECT COUNT(*) FROM contexts'' of
        None \<Rightarrow> None
      | Some b0 \<Rightarrow>
          (case build_where (sz - length b0) q live_only of
             None \<Rightarrow> None | Some w \<Rightarrow> Some (b0 @ w)))"

text \<open>What the clause selects once \<^verbatim>\<open>bind_where\<close> has bound type and hash.\<close>

definition context_matches :: "context_query_t option \<Rightarrow> bool \<Rightarrow> context_row \<Rightarrow> bool" where
  "context_matches q live_only r \<longleftrightarrow>
     (case q of None \<Rightarrow> True
      | Some q' \<Rightarrow> (case cq_type q' of None \<Rightarrow> True | Some t \<Rightarrow> cx_type r = t)
                 \<and> (case cq_hash q' of None \<Rightarrow> True | Some h \<Rightarrow> cx_content_hash r = h))
     \<and> (\<not> live_only \<or> cx_deleted_at r = None)"

section \<open>Create, get\<close>

definition acta_db_context_create :: "context_t \<Rightarrow> db_t \<Rightarrow> int \<times> int option \<times> db_t" where
  "acta_db_context_create c d =
     (case (c_type c, c_content c, c_content_hash c) of
        (Some typ, Some content, Some hash) \<Rightarrow>
          (case sql_write (insert_contexts
                  \<lparr>cx_id = 0, cx_type = typ, cx_content = content, cx_content_hash = hash,
                   cx_metadata = c_metadata c, cx_created_at = clock d, cx_deleted_at = None\<rparr>) d of
             (Unprepared, d1) \<Rightarrow> (ACTA_DB_ERR_SQL, None, d1)
           | (Stepped rc n, d1) \<Rightarrow>
               if rc = SQLITE_DONE then (ACTA_DB_OK, Some (c_int n), d1)
               else (ACTA_DB_ERR_SQL, None, d1))
      | _ \<Rightarrow> (ACTA_DB_ERR_INVALID, None, d))"

definition acta_db_context_get :: "int \<Rightarrow> db_t \<Rightarrow> context_t option \<times> int option \<times> db_t" where
  "acta_db_context_get cid d =
     (case sql_read (\<lambda>st. filter (\<lambda>r. cx_id r = cid) (rows (contexts st))) d of
        (Unreadable, d1) \<Rightarrow> (None, Some ACTA_DB_ERR_SQL, d1)
      | (Fetched [] rc oom, d1) \<Rightarrow> (None, Some ACTA_DB_OK, d1)
      | (Fetched (r # rs) rc oom, d1) \<Rightarrow>
          if oom = Some 0 then (None, Some ACTA_DB_ERR_ALLOC, d1)
          else (Some (row_to_context False r), Some ACTA_DB_OK, d1))"

definition acta_db_context_get_live :: "int \<Rightarrow> db_t \<Rightarrow> context_t option \<times> int option \<times> db_t" where
  "acta_db_context_get_live cid d =
     (case sql_read (\<lambda>st. filter (\<lambda>r. cx_id r = cid \<and> cx_deleted_at r = None) (rows (contexts st))) d of
        (Unreadable, d1) \<Rightarrow> (None, Some ACTA_DB_ERR_SQL, d1)
      | (Fetched [] rc oom, d1) \<Rightarrow> (None, Some ACTA_DB_OK, d1)
      | (Fetched (r # rs) rc oom, d1) \<Rightarrow>
          if oom = Some 0 then (None, Some ACTA_DB_ERR_ALLOC, d1)
          else (Some (row_to_context False r), Some ACTA_DB_OK, d1))"

section \<open>Delete and restore\<close>

definition acta_db_context_delete :: "int \<Rightarrow> db_t \<Rightarrow> int \<times> db_t" where
  "acta_db_context_delete cid d =
     finish_update ACTA_DB_ERR_NOT_FOUND
       (snprintf 192 (''context '' @ show_int cid @ '' does not exist or is already deleted''))
       (sql_write (update_contexts cid (\<lambda>r. cx_deleted_at r = None)
                     (ctx_apply (SetCtxDeleted (clock d)))) d)"

definition acta_db_context_restore :: "int \<Rightarrow> db_t \<Rightarrow> int \<times> db_t" where
  "acta_db_context_restore cid d =
     (case sql_write (update_contexts cid (\<lambda>r. cx_deleted_at r \<noteq> None) (ctx_apply ClearCtxDeleted)) d of
        (Unprepared, d1) \<Rightarrow> (ACTA_DB_ERR_SQL, d1)
      | (Stepped rc n, d1) \<Rightarrow>
          if rc \<noteq> SQLITE_DONE then (ACTA_DB_ERR_SQL, d1)
          else if n > 0 then (ACTA_DB_OK, d1)
          else case sql_read (\<lambda>st. filter (\<lambda>r. cx_id r = cid) (rows (contexts st))) d1 of
                 (Unreadable, d2) \<Rightarrow> (ACTA_DB_ERR_SQL, d2)
               | (Fetched rs rc' oom, d2) \<Rightarrow>
                   (ACTA_DB_ERR_NOT_FOUND,
                    db_set_error (snprintf 192 (''context '' @ show_int cid @
                      (if rs \<noteq> [] then '' is not deleted (nothing to restore)''
                       else '' does not exist''))) d2))"

section \<open>Query and count\<close>

definition context_query_impl ::
  "context_query_t option \<Rightarrow> int \<Rightarrow> int \<Rightarrow> bool \<Rightarrow> bool \<Rightarrow> db_t
     \<Rightarrow> context_t list \<times> int option \<times> int option \<times> db_t" where
  "context_query_impl q offset limit live_only light d =
     (if offset < 0 then ([], Some 0, Some ACTA_DB_ERR_INVALID, d)
      else
        let limit = db_clamp_limit limit in
        if build_select_sql 512 q offset limit live_only light = None
        then ([], Some 0, Some ACTA_DB_ERR_INVALID, d)
        else case sql_read (\<lambda>st. sql_page limit offset
                      (sort_key cx_id (filter (context_matches q live_only) (rows (contexts st))))) d of
          (Unreadable, d1) \<Rightarrow> ([], Some 0, Some ACTA_DB_ERR_SQL, d1)
        | (Fetched rs rc oom, d1) \<Rightarrow>
            (case collect_loop (row_to_context light) oom rs [] of
               None \<Rightarrow> ([], Some 0, Some ACTA_DB_ERR_ALLOC, d1)
             | Some items \<Rightarrow> (items, Some (int (length items)), Some ACTA_DB_OK, d1)))"

definition acta_db_context_query ::
  "context_query_t option \<Rightarrow> int \<Rightarrow> int \<Rightarrow> db_t \<Rightarrow> context_t list \<times> int option \<times> int option \<times> db_t" where
  "acta_db_context_query q offset limit d = context_query_impl q offset limit True False d"

definition acta_db_context_query_light ::
  "context_query_t option \<Rightarrow> int \<Rightarrow> int \<Rightarrow> db_t \<Rightarrow> context_t list \<times> int option \<times> int option \<times> db_t" where
  "acta_db_context_query_light q offset limit d = context_query_impl q offset limit True True d"

definition acta_db_context_query_with_deleted ::
  "context_query_t option \<Rightarrow> int \<Rightarrow> int \<Rightarrow> db_t \<Rightarrow> context_t list \<times> int option \<times> int option \<times> db_t" where
  "acta_db_context_query_with_deleted q offset limit d = context_query_impl q offset limit False False d"

definition acta_db_context_query_with_deleted_light ::
  "context_query_t option \<Rightarrow> int \<Rightarrow> int \<Rightarrow> db_t \<Rightarrow> context_t list \<times> int option \<times> int option \<times> db_t" where
  "acta_db_context_query_with_deleted_light q offset limit d =
     context_query_impl q offset limit False True d"

text \<open>
  The two counters. A statement that yields no row leaves \<^verbatim>\<open>*err\<close> at the OK stored on
  entry, with the result -1.
\<close>

definition acta_db_context_count :: "context_query_t option \<Rightarrow> db_t \<Rightarrow> int \<times> int option \<times> db_t" where
  "acta_db_context_count q d =
     (if build_count_sql 256 q True = None then (- 1, Some ACTA_DB_ERR_INVALID, d)
      else case sql_read (\<lambda>st. [int (length (filter (context_matches q True) (rows (contexts st))))]) d of
        (Unreadable, d1) \<Rightarrow> (- 1, Some ACTA_DB_ERR_SQL, d1)
      | (Fetched [] rc oom, d1) \<Rightarrow> (- 1, Some ACTA_DB_OK, d1)
      | (Fetched (n # ns) rc oom, d1) \<Rightarrow> (c_int n, Some ACTA_DB_OK, d1))"

definition acta_db_context_count_with_deleted ::
  "context_query_t option \<Rightarrow> db_t \<Rightarrow> int \<times> int option \<times> db_t" where
  "acta_db_context_count_with_deleted q d =
     (if build_count_sql 256 q False = None then (- 1, Some ACTA_DB_ERR_INVALID, d)
      else case sql_read (\<lambda>st. [int (length (filter (context_matches q False) (rows (contexts st))))]) d of
        (Unreadable, d1) \<Rightarrow> (- 1, Some ACTA_DB_ERR_SQL, d1)
      | (Fetched [] rc oom, d1) \<Rightarrow> (- 1, Some ACTA_DB_OK, d1)
      | (Fetched (n # ns) rc oom, d1) \<Rightarrow> (c_int n, Some ACTA_DB_OK, d1))"

definition acta_db_context_list_all ::
  "int \<Rightarrow> int \<Rightarrow> db_t \<Rightarrow> context_t list \<times> int option \<times> int option \<times> db_t" where
  "acta_db_context_list_all offset limit d = acta_db_context_query None offset limit d"

definition acta_db_context_list_by_type ::
  "string option \<Rightarrow> int \<Rightarrow> int \<Rightarrow> db_t \<Rightarrow> context_t list \<times> int option \<times> int option \<times> db_t" where
  "acta_db_context_list_by_type typ offset limit d =
     (if typ = None then ([], Some 0, Some ACTA_DB_ERR_INVALID, d)
      else acta_db_context_query (Some \<lparr>cq_type = typ, cq_hash = None\<rparr>) offset limit d)"

definition acta_db_context_list_by_hash ::
  "string option \<Rightarrow> int \<Rightarrow> int \<Rightarrow> db_t \<Rightarrow> context_t list \<times> int option \<times> int option \<times> db_t" where
  "acta_db_context_list_by_hash hash offset limit d =
     (if hash = None then ([], Some 0, Some ACTA_DB_ERR_INVALID, d)
      else acta_db_context_query (Some \<lparr>cq_type = None, cq_hash = hash\<rparr>) offset limit d)"

section \<open>What the mutators do\<close>

definition ctx_edited ::
  "int \<times> (context_row \<Rightarrow> bool) \<times> ctx_edit \<Rightarrow> store \<Rightarrow> store \<Rightarrow> bool" where
  "ctx_edited a st st' =
     (case a of (cid, guard, e) \<Rightarrow>
        \<exists>r. tbl_get cx_id (contexts st) cid = Some r \<and> guard r
          \<and> st' = st\<lparr>contexts := tbl_upd (\<lambda>r. cx_id r = cid) (ctx_apply e) (contexts st)\<rparr>)"

interpretation ctx_stmt: update_stmt
  "\<lambda>a. case a of (cid, guard, e) \<Rightarrow> update_contexts cid guard (ctx_apply e)" ctx_edited
  by unfold_locales
    (auto simp: ctx_edited_def update_contexts_def split: option.splits if_splits)

lemma context_trigger_permits [simp]: "contexts_soft_delete_only r (ctx_apply e r)"
  by (cases e) (simp_all add: contexts_soft_delete_only_def)

lemma context_create_effect:
  assumes "acta_db_context_create c d = (rc, out, d')"
  shows "if rc = ACTA_DB_OK
    then out = Some (c_int (seq (contexts (store d)) + 1))
         \<and> (\<exists>typ content hash. c_type c = Some typ \<and> c_content c = Some content
              \<and> c_content_hash c = Some hash
              \<and> store d' = (store d)\<lparr>contexts := tbl_ins (\<lambda>i.
                   \<lparr>cx_id = i, cx_type = typ, cx_content = content, cx_content_hash = hash,
                    cx_metadata = c_metadata c, cx_created_at = clock d, cx_deleted_at = None\<rparr>)
                   (contexts (store d))\<rparr>)
    else store d' = store d \<and> out = None"
  using assms
  by (auto simp: acta_db_context_create_def insert_contexts_def
      split: if_splits prod.splits option.splits write_result.splits
      elim!: sql_write_cases)

lemma context_delete_effect:
  "acta_db_context_delete cid d = (rc, d') \<Longrightarrow>
     ctx_stmt.effect (cid, \<lambda>r. cx_deleted_at r = None, SetCtxDeleted (clock d)) (store d) rc (store d')"
  unfolding acta_db_context_delete_def
  by (rule ctx_stmt.finish [of _ _ "(cid, g, e)" for g e, unfolded prod.case]) auto

lemma context_restore_effect:
  "acta_db_context_restore cid d = (rc, d') \<Longrightarrow>
     ctx_stmt.effect (cid, \<lambda>r. cx_deleted_at r \<noteq> None, ClearCtxDeleted) (store d) rc (store d')"
  unfolding acta_db_context_restore_def
  using ctx_stmt.stepped_ok [of "(cid, \<lambda>r. cx_deleted_at r \<noteq> None, ClearCtxDeleted)"]
    ctx_stmt.stepped_none [of "(cid, \<lambda>r. cx_deleted_at r \<noteq> None, ClearCtxDeleted)"]
    ctx_stmt.unprepared [of "(cid, \<lambda>r. cx_deleted_at r \<noteq> None, ClearCtxDeleted)"]
  by (force simp: ctx_stmt.effect_def split: prod.splits write_result.splits read_result.splits if_splits
      dest: sql_read_store)

end
