(* ===== verification/Execution_Logs.thy ===== *)
theory Execution_Logs
  imports Database "HOL-Library.List_Lexorder" "HOL-Library.Char_ord" "HOL-Library.Product_Lexorder"
begin

text \<open>
  \<^verbatim>\<open>acta_db/src/execution_log.c\<close>: the log of an execution. Entries are only ever added;
  a listing is the page of one execution's entries, filtered by level, in the order of creation
  time and id (times compare as the bytes of their text, SQLite's BINARY collation). The branch of
  \<^verbatim>\<open>row_to_execution_log\<close> for a NULL level or event has no counterpart: both columns are NOT
  NULL in the schema and in \<open>log_row\<close>.
\<close>

record execution_log_t =
  l_id :: int
  l_execution_id :: int
  l_level :: "string option"
  l_event :: "string option"
  l_message :: "string option"
  l_metadata :: "string option"
  l_created_at :: "string option"

interpretation log_rows: keyed_rows lg_id "\<lambda>r i. r\<lparr>lg_id := i\<rparr>" "\<lambda>(e::unit) r. r"
  by unfold_locales simp_all

definition acta_log_level_is_valid :: "string option \<Rightarrow> bool" where
  "acta_log_level_is_valid level =
     (case level of None \<Rightarrow> False
      | Some l \<Rightarrow> l = ''debug'' \<or> l = ''info'' \<or> l = ''warn'' \<or> l = ''error'')"

definition level_active :: "string option \<Rightarrow> bool" where
  "level_active level = (case level of None \<Rightarrow> False | Some l \<Rightarrow> l \<noteq> [])"

definition row_to_execution_log :: "log_row \<Rightarrow> execution_log_t" where
  "row_to_execution_log r =
     \<lparr>l_id = c_int (lg_id r), l_execution_id = c_int (lg_execution_id r),
      l_level = Some (lg_level r), l_event = Some (lg_event r), l_message = lg_message r,
      l_metadata = lg_metadata r, l_created_at = Some (lg_created_at r)\<rparr>"

section \<open>Create, get\<close>

definition acta_db_execution_log_create :: "execution_log_t \<Rightarrow> db_t \<Rightarrow> int \<times> int option \<times> db_t" where
  "acta_db_execution_log_create l d =
     (case (l_level l, l_event l) of
        (Some level, Some event) \<Rightarrow>
          if \<not> acta_log_level_is_valid (Some level) then (ACTA_DB_ERR_INVALID, None, d)
          else (case sql_write (insert_execution_logs
                       \<lparr>lg_id = 0, lg_execution_id = l_execution_id l, lg_level = level,
                        lg_event = event, lg_message = l_message l, lg_metadata = l_metadata l,
                        lg_created_at = clock d\<rparr>) d of
                  (Unprepared, d1) \<Rightarrow> (ACTA_DB_ERR_SQL, None, d1)
                | (Stepped rc n, d1) \<Rightarrow>
                    if rc \<noteq> SQLITE_DONE then (ACTA_DB_ERR_SQL, None, d1)
                    else (ACTA_DB_OK, Some (c_int n), d1))
      | _ \<Rightarrow> (ACTA_DB_ERR_INVALID, None, d))"

definition acta_db_execution_log_get :: "int \<Rightarrow> db_t \<Rightarrow> execution_log_t option \<times> int option \<times> db_t" where
  "acta_db_execution_log_get lid d =
     (if lid \<le> 0 then (None, Some ACTA_DB_ERR_INVALID, d)
      else case sql_read (\<lambda>st. filter (\<lambda>r. lg_id r = lid) (rows (execution_logs st))) d of
        (Unreadable, d1) \<Rightarrow> (None, Some ACTA_DB_ERR_SQL, d1)
      | (Fetched [] rc oom, d1) \<Rightarrow>
          (None, Some (if rc = SQLITE_DONE then ACTA_DB_OK else ACTA_DB_ERR_SQL), d1)
      | (Fetched (r # rs) rc oom, d1) \<Rightarrow>
          if oom = Some 0 then (None, Some ACTA_DB_ERR_ALLOC, d1)
          else (Some (row_to_execution_log r), Some ACTA_DB_OK, d1))"

section \<open>List and count\<close>

definition log_selected :: "int \<Rightarrow> string option \<Rightarrow> log_row \<Rightarrow> bool" where
  "log_selected xid level r \<longleftrightarrow>
     lg_execution_id r = xid
     \<and> (case level of None \<Rightarrow> True | Some l \<Rightarrow> l = [] \<or> lg_level r = l)"

definition log_order :: "log_row \<Rightarrow> string \<times> int" where
  "log_order r = (lg_created_at r, lg_id r)"

definition acta_db_execution_log_list_by_execution ::
  "int \<Rightarrow> string option \<Rightarrow> int \<Rightarrow> int \<Rightarrow> db_t
     \<Rightarrow> execution_log_t list \<times> int option \<times> int option \<times> db_t" where
  "acta_db_execution_log_list_by_execution xid level offset limit d =
     (if level_active level \<and> \<not> acta_log_level_is_valid level
      then ([], None, Some ACTA_DB_ERR_INVALID, d)
      else if offset < 0 then ([], None, Some ACTA_DB_ERR_INVALID, d)
      else
        let eff_limit = db_clamp_limit limit in
        case sql_read (\<lambda>st. sql_page eff_limit offset
               (sort_key log_order (filter (log_selected xid level) (rows (execution_logs st))))) d of
          (Unreadable, d1) \<Rightarrow> ([], Some 0, Some ACTA_DB_ERR_SQL, d1)
        | (Fetched rs rc oom, d1) \<Rightarrow>
            (case collect_loop row_to_execution_log oom rs [] of
               None \<Rightarrow> ([], Some 0, Some ACTA_DB_ERR_ALLOC, d1)
             | Some items \<Rightarrow> (items, Some (int (length items)), Some ACTA_DB_OK, d1)))"

definition acta_db_execution_log_count ::
  "int \<Rightarrow> string option \<Rightarrow> db_t \<Rightarrow> int \<times> int option \<times> db_t" where
  "acta_db_execution_log_count xid level d =
     (if level_active level \<and> \<not> acta_log_level_is_valid level
      then (- 1, Some ACTA_DB_ERR_INVALID, d)
      else case sql_read (\<lambda>st. [int (length (filter (log_selected xid level) (rows (execution_logs st))))]) d of
        (Unreadable, d1) \<Rightarrow> (- 1, Some ACTA_DB_ERR_SQL, d1)
      | (Fetched [] rc oom, d1) \<Rightarrow> (- 1, Some ACTA_DB_ERR_SQL, d1)
      | (Fetched (n # ns) rc oom, d1) \<Rightarrow> (c_int n, Some ACTA_DB_OK, d1))"

section \<open>What create does\<close>

lemma log_create_effect:
  assumes "acta_db_execution_log_create l d = (rc, out, d')"
  shows "if rc = ACTA_DB_OK
    then out = Some (c_int (seq (execution_logs (store d)) + 1))
         \<and> has_row ex_id (executions (store d)) (l_execution_id l)
         \<and> (\<exists>level event. l_level l = Some level \<and> l_event l = Some event \<and> log_level_check level
              \<and> store d' = (store d)\<lparr>execution_logs := tbl_ins (\<lambda>i.
                   \<lparr>lg_id = i, lg_execution_id = l_execution_id l, lg_level = level, lg_event = event,
                    lg_message = l_message l, lg_metadata = l_metadata l, lg_created_at = clock d\<rparr>)
                   (execution_logs (store d))\<rparr>)
    else store d' = store d \<and> out = None"
  using assms
  by (auto simp: acta_db_execution_log_create_def insert_execution_logs_def
      split: if_splits prod.splits option.splits write_result.splits
      elim!: sql_write_cases)

end
