(* ===== verification/Folders.thy ===== *)
theory Folders
  imports Database
begin

text \<open>
  What the two folder components (\<^verbatim>\<open>skill_folder.c\<close>, \<^verbatim>\<open>model_folder.c\<close>) share:
  the struct they return, the SET clauses of their UPDATEs, the effect of an UPDATE on a folder
  table, the invariant the schema keeps (ids, parents that exist, unique names), and the theory of
  the parent links: their graph, its acyclicity, and how many steps a walk to the root can take.
\<close>

section \<open>Structs and SET clauses\<close>

record folder_t =
  f_id :: int
  f_name :: "string option"
  f_parent_id :: int
  f_created_at :: "string option"
  f_updated_at :: "string option"
  f_deleted_at :: "string option"

definition row_to_folder :: "folder_row \<Rightarrow> folder_t" where
  "row_to_folder r =
     \<lparr>f_id = c_int (fo_id r), f_name = Some (fo_name r),
      f_parent_id = (case fo_parent_id r of None \<Rightarrow> 0 | Some i \<Rightarrow> c_int i),
      f_created_at = Some (fo_created_at r), f_updated_at = fo_updated_at r,
      f_deleted_at = fo_deleted_at r\<rparr>"

text \<open>A folder id of the C interface as a bound parameter: 0 binds NULL.\<close>

definition bind_parent :: "int \<Rightarrow> int option" where
  "bind_parent i = (if i = 0 then None else Some i)"

definition new_folder :: "string \<Rightarrow> int \<Rightarrow> string \<Rightarrow> folder_row" where
  "new_folder name parent_id now =
     \<lparr>fo_id = 0, fo_name = name, fo_parent_id = bind_parent parent_id, fo_created_at = now,
      fo_updated_at = None, fo_deleted_at = None\<rparr>"

datatype folder_edit =
    SetFolderName string string
  | SetFolderParent "int option" string
  | SetFolderDeleted string
  | ClearFolderDeleted string
  | UndeleteFolder string

fun folder_apply :: "folder_edit \<Rightarrow> folder_row \<Rightarrow> folder_row" where
  "folder_apply (SetFolderName name now) r = r\<lparr>fo_name := name, fo_updated_at := Some now\<rparr>"
| "folder_apply (SetFolderParent p now) r = r\<lparr>fo_parent_id := p, fo_updated_at := Some now\<rparr>"
| "folder_apply (SetFolderDeleted now) r = r\<lparr>fo_deleted_at := Some now, fo_updated_at := Some now\<rparr>"
| "folder_apply (ClearFolderDeleted now) r = r\<lparr>fo_deleted_at := None, fo_updated_at := Some now\<rparr>"
| "folder_apply (UndeleteFolder now) r =
     r\<lparr>fo_deleted_at := None,
       fo_updated_at := (if fo_deleted_at r \<noteq> None then Some now else fo_updated_at r)\<rparr>"

interpretation folder_rows: named_rows fo_id "\<lambda>r i. r\<lparr>fo_id := i\<rparr>" folder_apply fo_parent_id fo_name
proof
  show "fo_id (folder_apply e r) = fo_id r" for e r
    by (cases e) auto
qed simp

section \<open>Probes and selections\<close>

text \<open>A COUNT probe whose step fails counts as 0, as in the C code.\<close>

definition probe_count :: "(store \<Rightarrow> nat) \<Rightarrow> db_t \<Rightarrow> int option \<times> db_t" where
  "probe_count q d =
     (case sql_read (\<lambda>st. [int (q st)]) d of
        (Unreadable, d1) \<Rightarrow> (None, d1)
      | (Fetched [] rc oom, d1) \<Rightarrow> (Some 0, d1)
      | (Fetched (n # ns) rc oom, d1) \<Rightarrow> (Some (c_int n), d1))"

lemma probe_count_fields: "probe_count q d = (n, d1) \<Longrightarrow> store d1 = store d \<and> clock d1 = clock d"
  by (auto simp: probe_count_def split: prod.splits read_result.splits list.splits dest!: sql_read_fields)

definition folder_selected :: "int \<Rightarrow> bool \<Rightarrow> bool \<Rightarrow> folder_row \<Rightarrow> bool" where
  "folder_selected parent_id has_parent_filter include_deleted r \<longleftrightarrow>
     (\<not> has_parent_filter \<or> fo_parent_id r = bind_parent parent_id)
     \<and> (include_deleted \<or> fo_deleted_at r = None)"

section \<open>The effect of the statements on a folder table\<close>

definition folder_edited ::
  "int \<times> (folder_row \<Rightarrow> bool) \<times> folder_edit \<Rightarrow> folder_row table \<Rightarrow> folder_row table \<Rightarrow> bool" where
  "folder_edited a t t' =
     (case a of (i, guard, e) \<Rightarrow>
        \<exists>r. tbl_get fo_id t i = Some r \<and> guard r
          \<and> ((fo_parent_id (folder_apply e r), fo_name (folder_apply e r)) = (fo_parent_id r, fo_name r)
             \<or> \<not> uq_clash fo_id fo_parent_id fo_name t (folder_apply e r))
          \<and> (fo_parent_id (folder_apply e r) = fo_parent_id r \<or> fk_ok fo_id t (fo_parent_id (folder_apply e r)))
          \<and> t' = tbl_upd (\<lambda>r. fo_id r = i) (folder_apply e) t)"

lemma update_folder_hit:
  "update_folder i g (folder_apply e) t = Inr (n, t') \<Longrightarrow> n > 0 \<Longrightarrow> folder_edited (i, g, e) t t'"
  by (auto simp: update_folder_def folder_edited_def Let_def split: option.splits if_splits)

lemma update_folder_miss:
  "update_folder i g f t = Inr (n, t') \<Longrightarrow> \<not> n > 0 \<Longrightarrow> t' = t"
  by (auto simp: update_folder_def Let_def split: option.splits if_splits)

lemma insert_folder_ran:
  "insert_folder new t = Inr (n, t') \<Longrightarrow>
     n = seq t + 1 \<and> t' = tbl_ins (\<lambda>i. new\<lparr>fo_id := i\<rparr>) t
     \<and> \<not> uq_clash fo_id fo_parent_id fo_name t (new\<lparr>fo_id := seq t + 1\<rparr>)
     \<and> (fk_ok fo_id t (fo_parent_id new) \<or> fo_parent_id new = Some (seq t + 1))"
  by (auto simp: insert_folder_def Let_def split: if_splits)

section \<open>The invariant of a folder table\<close>

definition folders_ok :: "folder_row table \<Rightarrow> bool" where
  "folders_ok t \<longleftrightarrow> tbl_ok fo_id t \<and> uq_ok fo_id fo_parent_id fo_name t
     \<and> (\<forall>r\<in>set (rows t). fk_ok fo_id t (fo_parent_id r))"

lemma fk_ok_ins:
  fixes t :: "folder_row table"
  shows "tbl_ok fo_id t \<Longrightarrow> fk_ok fo_id t k \<or> k = Some (seq t + 1) \<Longrightarrow>
     fk_ok fo_id (tbl_ins (\<lambda>i. new\<lparr>fo_id := i\<rparr>) t) k"
  using folder_rows.get_ins [of t new] by (auto simp: fk_ok_def has_row_def split: option.splits)

lemma fk_ok_upd: "fk_ok fo_id (tbl_upd p (folder_apply e) t) k = fk_ok fo_id t k"
  by (auto simp: fk_ok_def has_row_def folder_rows.get_upd split: option.splits)

lemma folders_ok_insert:
  assumes "insert_folder new t = Inr (n, t')" and "folders_ok t"
  shows "folders_ok t'"
proof -
  from insert_folder_ran [OF assms(1)] assms(2) show ?thesis
    using folder_rows.ok_ins [of t new] folder_rows.uq_ins [of t new] fk_ok_ins [of t _ new]
    by (auto simp: folders_ok_def)
qed

lemma folders_ok_edited:
  assumes "folder_edited (i, g, e) t t'" and ok: "folders_ok t"
  shows "folders_ok t'"
proof -
  from assms(1) obtain r where r: "tbl_get fo_id t i = Some r"
    and uq: "(fo_parent_id (folder_apply e r), fo_name (folder_apply e r)) = (fo_parent_id r, fo_name r)
             \<or> \<not> uq_clash fo_id fo_parent_id fo_name t (folder_apply e r)"
    and fk: "fo_parent_id (folder_apply e r) = fo_parent_id r \<or> fk_ok fo_id t (fo_parent_id (folder_apply e r))"
    and t': "t' = tbl_upd (\<lambda>r. fo_id r = i) (folder_apply e) t"
    by (auto simp: folder_edited_def)
  have t: "tbl_ok fo_id t" using ok by (simp add: folders_ok_def)
  have "fk_ok fo_id t (fo_parent_id (folder_apply e r))"
    using fk ok tbl_get_SomeD [OF r] by (auto simp: folders_ok_def)
  then have "\<forall>q\<in>set (rows t'). fk_ok fo_id t' (fo_parent_id q)"
    using ok folder_rows.rows_upd_id [OF t r, of _ e]
    unfolding t' fk_ok_upd folders_ok_def by blast
  then show ?thesis
    using ok folder_rows.uq_upd [OF _ t r uq] folder_rows.ok_upd [OF t] by (simp add: folders_ok_def t')
qed

lemma folders_ok_empty [simp]: "folders_ok empty_table"
  by (simp add: folders_ok_def) (simp add: empty_table_def)

section \<open>The parent links\<close>

definition edges :: "folder_row table \<Rightarrow> (int \<times> int) set" where
  "edges t = {(fo_id r, p) | r p. r \<in> set (rows t) \<and> fo_parent_id r = Some p}"

text \<open>No folder is below itself.\<close>

definition folder_tree :: "folder_row table \<Rightarrow> bool" where
  "folder_tree t \<longleftrightarrow> acyclic (edges t)"

lemma folder_tree_empty [simp]: "folder_tree empty_table"
  by (simp add: folder_tree_def edges_def empty_table_def acyclic_def)

lemma finite_edges: "finite (edges t)"
proof (rule finite_subset)
  show "edges t \<subseteq> (\<lambda>r. (fo_id r, the (fo_parent_id r))) ` set (rows t)"
    by (force simp: edges_def)
qed simp

lemma edges_row:
  assumes "tbl_ok fo_id t" and "tbl_get fo_id t i = Some r"
  shows "(i, p) \<in> edges t \<longleftrightarrow> fo_parent_id r = Some p"
proof
  assume "(i, p) \<in> edges t"
  then obtain q where "q \<in> set (rows t)" "fo_id q = i" "fo_parent_id q = Some p"
    by (auto simp: edges_def)
  then show "fo_parent_id r = Some p" using tbl_get_unique [OF assms(1)] assms(2) by auto
next
  assume "fo_parent_id r = Some p"
  then show "(i, p) \<in> edges t" using tbl_get_SomeD [OF assms(2)] by (auto simp: edges_def)
qed

lemma edges_no_row: "tbl_get fo_id t i = None \<Longrightarrow> (i, p) \<notin> edges t"
  by (auto simp: edges_def tbl_get_None)

lemma edges_ins:
  "edges (tbl_ins (\<lambda>i. new\<lparr>fo_id := i\<rparr>) t) =
     edges t \<union> {(seq t + 1, p) | p. fo_parent_id new = Some p}"
  unfolding edges_def rows_tbl_ins by force

text \<open>A new folder is a leaf, unless it is its own parent.\<close>

lemma folder_tree_insert:
  assumes ins: "insert_folder new t = Inr (n, t')" and ok: "folders_ok t" and tree: "folder_tree t"
    and self: "fo_parent_id new \<noteq> Some n"
  shows "folder_tree t'"
proof (cases "fo_parent_id new")
  case None
  then have "edges t' = edges t"
    using insert_folder_ran [OF ins] by (simp add: edges_ins)
  then show ?thesis using tree by (simp add: folder_tree_def)
next
  case (Some p)
  let ?n = "seq t + 1"
  have n: "n = ?n" and fk: "fk_ok fo_id t (Some p)"
    using insert_folder_ran [OF ins] Some self by auto
  have e: "edges t' = insert (?n, p) (edges t)"
    using insert_folder_ran [OF ins] Some by (auto simp: edges_ins)
  have "?n \<noteq> p" using self Some n by simp
  moreover have "(q, ?n) \<notin> edges t" for q
  proof
    assume "(q, ?n) \<in> edges t"
    then have "has_row fo_id t ?n" using ok by (force simp: edges_def folders_ok_def fk_ok_def)
    then show False using ok folder_rows.fresh_id [of t] by (simp add: folders_ok_def has_row_def)
  qed
  ultimately have "(p, ?n) \<notin> (edges t)\<^sup>*"
    by (metis rtranclE)
  then show ?thesis using tree by (simp add: folder_tree_def e acyclic_insert)
qed

text \<open>An edit that leaves the parents alone keeps the links; a move replaces one.\<close>

lemma edges_edit:
  assumes "tbl_ok fo_id t" and "tbl_get fo_id t i = Some old"
  shows "edges (tbl_upd (\<lambda>r. fo_id r = i) (folder_apply e) t) \<subseteq>
     edges t \<union> {(i, p) | p. fo_parent_id (folder_apply e old) = Some p}"
proof
  fix x assume "x \<in> edges (tbl_upd (\<lambda>r. fo_id r = i) (folder_apply e) t)"
  then obtain r p where x: "x = (fo_id r, p)" "fo_parent_id r = Some p"
    and r: "r \<in> set (rows (tbl_upd (\<lambda>r. fo_id r = i) (folder_apply e) t))"
    by (auto simp: edges_def)
  from folder_rows.rows_upd_id [OF assms r] x tbl_get_SomeD [OF assms(2)] folder_rows.rid_edit
  show "x \<in> edges t \<union> {(i, p) | p. fo_parent_id (folder_apply e old) = Some p}"
    by (auto simp: edges_def)
qed

lemma folder_tree_same_parent:
  assumes "folder_edited (i, g, e) t t'" and "folders_ok t" and "folder_tree t"
    and "\<And>r. fo_parent_id (folder_apply e r) = fo_parent_id r"
  shows "folder_tree t'"
proof -
  from assms(1) obtain r where r: "tbl_get fo_id t i = Some r"
    and t': "t' = tbl_upd (\<lambda>r. fo_id r = i) (folder_apply e) t"
    by (auto simp: folder_edited_def)
  have t: "tbl_ok fo_id t" using assms(2) by (simp add: folders_ok_def)
  have "edges t' \<subseteq> edges t"
    using edges_edit [OF t r, of e] edges_row [OF t r] unfolding t' assms(4) by auto
  then show ?thesis using assms(3) unfolding folder_tree_def by (rule acyclic_subset [rotated])
qed

lemma folder_tree_move:
  assumes ed: "folder_edited (i, g, SetFolderParent k now) t t'" and ok: "folders_ok t"
    and tree: "folder_tree t" and k: "\<And>p. k = Some p \<Longrightarrow> (p, i) \<notin> (edges t)\<^sup>*"
  shows "folder_tree t'"
proof -
  from ed obtain r where r: "tbl_get fo_id t i = Some r"
    and t': "t' = tbl_upd (\<lambda>r. fo_id r = i) (folder_apply (SetFolderParent k now)) t"
    by (auto simp: folder_edited_def)
  have t: "tbl_ok fo_id t" using ok by (simp add: folders_ok_def)
  note sub = edges_edit [OF t r, of "SetFolderParent k now", folded t']
  show ?thesis
  proof (cases k)
    case None
    with sub have "edges t' \<subseteq> edges t" by simp
    then show ?thesis using tree unfolding folder_tree_def by (rule acyclic_subset [rotated])
  next
    case (Some p)
    with sub have "edges t' \<subseteq> insert (i, p) (edges t)" by auto
    moreover have "acyclic (insert (i, p) (edges t))"
      using tree k [OF Some] by (simp add: folder_tree_def acyclic_insert)
    ultimately show ?thesis unfolding folder_tree_def by (metis acyclic_subset)
  qed
qed

section \<open>How long a walk to the root is\<close>

definition height :: "folder_row table \<Rightarrow> int \<Rightarrow> nat" where
  "height t i = card ((edges t)\<^sup>+ `` {i})"

lemma above_subset: "(edges t)\<^sup>+ `` {i} \<subseteq> snd ` edges t"
proof -
  have "(edges t)\<^sup>+ `` {i} \<subseteq> Range ((edges t)\<^sup>+)" by blast
  also have "\<dots> = snd ` edges t" unfolding trancl_range by (rule Range_snd)
  finally show ?thesis .
qed

lemma finite_above: "finite ((edges t)\<^sup>+ `` {i})"
  by (rule finite_subset [OF above_subset]) (simp add: finite_edges)

lemma height_le: "height t i \<le> length (rows t)"
proof -
  have "(edges t)\<^sup>+ `` {i} \<subseteq> snd ` edges t" by (rule above_subset)
  also have "\<dots> \<subseteq> (\<lambda>r. the (fo_parent_id r)) ` set (rows t)"
    by (force simp: edges_def)
  finally have "height t i \<le> card ((\<lambda>r. the (fo_parent_id r)) ` set (rows t))"
    unfolding height_def by (intro card_mono) simp_all
  also have "\<dots> \<le> length (rows t)"
    by (meson card_image_le card_length finite_set le_trans)
  finally show ?thesis .
qed

lemma height_step:
  assumes "folder_tree t" and "(i, p) \<in> edges t"
  shows "height t p < height t i"
  unfolding height_def
proof (rule psubset_card_mono [OF finite_above])
  have "(edges t)\<^sup>+ `` {p} \<subseteq> (edges t)\<^sup>+ `` {i}"
    using assms(2) by (auto intro: trancl_into_trancl2)
  moreover have "p \<in> (edges t)\<^sup>+ `` {i}" using assms(2) by auto
  moreover have "p \<notin> (edges t)\<^sup>+ `` {p}" using assms(1) by (simp add: folder_tree_def acyclic_def)
  ultimately show "(edges t)\<^sup>+ `` {p} \<subset> (edges t)\<^sup>+ `` {i}" by blast
qed

lemma reach_first_step:
  assumes "(i, j) \<in> (edges t)\<^sup>*" and "i \<noteq> j" and "\<And>q. (i, q) \<in> edges t \<longleftrightarrow> q = p"
  shows "(p, j) \<in> (edges t)\<^sup>*"
  using assms by (metis converse_rtranclE)

end
