(* ===== verification/Skill_Folders.thy ===== *)
theory Skill_Folders
  imports Folders
begin

text \<open>
  \<^verbatim>\<open>acta_db/src/skill_folder.c\<close>: the folder tree of the skills. A move walks from the new
  parent towards the root, at most 4096 steps, and refuses when it meets the folder; a soft delete
  refuses while live sub-folders or live skills are inside. Unlike its siblings this file does not
  clamp the page limit and reports a scan that breaks off.
\<close>

section \<open>Mutators\<close>

definition acta_db_skill_folder_create :: "string option \<Rightarrow> int \<Rightarrow> db_t \<Rightarrow> int \<times> int option \<times> db_t" where
  "acta_db_skill_folder_create name parent_id d =
     (case name of
        None \<Rightarrow> (ACTA_DB_ERR_INVALID, None, d)
      | Some nm \<Rightarrow>
          if nm = [] then (ACTA_DB_ERR_INVALID, None, d)
          else case sql_write (on_skill_folders (insert_folder (new_folder nm parent_id (clock d)))) d of
            (Unprepared, d1) \<Rightarrow> (ACTA_DB_ERR_SQL, None, d1)
          | (Stepped rc n, d1) \<Rightarrow>
              if rc \<noteq> SQLITE_DONE
              then (if rc = Constraint SQLITE_CONSTRAINT_UNIQUE then ACTA_DB_ERR_DUPLICATE
                    else if rc = Constraint SQLITE_CONSTRAINT_FOREIGNKEY then ACTA_DB_ERR_FK
                    else ACTA_DB_ERR_SQL, None, d1)
              else (ACTA_DB_OK, Some (c_int n), d1))"

definition sf_missing :: "int \<Rightarrow> string" where
  "sf_missing fid = snprintf 192 (''skill_folder '' @ show_int fid @ '' does not exist or is soft-deleted'')"

definition acta_db_skill_folder_rename :: "int \<Rightarrow> string option \<Rightarrow> db_t \<Rightarrow> int \<times> db_t" where
  "acta_db_skill_folder_rename fid new_name d =
     (if fid \<le> 0 then (ACTA_DB_ERR_INVALID, d)
      else case new_name of
        None \<Rightarrow> (ACTA_DB_ERR_INVALID, d)
      | Some nm \<Rightarrow>
          if nm = [] then (ACTA_DB_ERR_INVALID, d)
          else case sql_write (on_skill_folders (update_folder fid (\<lambda>r. fo_deleted_at r = None)
                                 (folder_apply (SetFolderName nm (clock d))))) d of
            (Unprepared, d1) \<Rightarrow> (ACTA_DB_ERR_SQL, d1)
          | (Stepped rc n, d1) \<Rightarrow>
              if rc \<noteq> SQLITE_DONE
              then (if rc = Constraint SQLITE_CONSTRAINT_UNIQUE then ACTA_DB_ERR_DUPLICATE
                    else if rc = Constraint SQLITE_CONSTRAINT_FOREIGNKEY then ACTA_DB_ERR_FK
                    else ACTA_DB_ERR_SQL, d1)
              else if n > 0 then (ACTA_DB_OK, d1)
              else (ACTA_DB_ERR_NOT_FOUND, db_set_error (sf_missing fid) d1))"

text \<open>
  The cycle test of a move: \<open>fuel\<close> is what is left of the 4096 iterations, \<open>cursor\<close> the folder the
  walk has reached. The result says whether the walk met \<open>fid\<close>.
\<close>

fun skill_folder_walk :: "nat \<Rightarrow> int \<Rightarrow> int \<Rightarrow> db_t \<Rightarrow> bool \<times> db_t" where
  "skill_folder_walk 0 fid cursor d = (False, d)"
| "skill_folder_walk (Suc fuel) fid cursor d =
     (if cursor = fid then (True, d)
      else case sql_read (\<lambda>st. map fo_parent_id
                  (filter (\<lambda>r. fo_id r = cursor) (rows (skill_folders st)))) d of
        (Unreadable, d1) \<Rightarrow> (False, d1)
      | (Fetched [] rc oom, d1) \<Rightarrow> (False, d1)
      | (Fetched (p # ps) rc oom, d1) \<Rightarrow>
          (case p of None \<Rightarrow> (False, d1)
           | Some i \<Rightarrow> skill_folder_walk fuel fid (c_int i) d1))"

definition skill_folder_live :: "int \<Rightarrow> db_t \<Rightarrow> unit read_result \<times> db_t" where
  "skill_folder_live fid d =
     sql_read (\<lambda>st. map (\<lambda>r. ()) (filter (\<lambda>r. fo_id r = fid \<and> fo_deleted_at r = None)
                                          (rows (skill_folders st)))) d"

definition acta_db_skill_folder_move_to :: "int \<Rightarrow> int \<Rightarrow> db_t \<Rightarrow> int \<times> db_t" where
  "acta_db_skill_folder_move_to fid new_parent_id d =
     (if fid \<le> 0 then (ACTA_DB_ERR_INVALID, d)
      else case skill_folder_live fid d of
        (Unreadable, d1) \<Rightarrow> (ACTA_DB_ERR_SQL, d1)
      | (Fetched [] rc oom, d1) \<Rightarrow> (ACTA_DB_ERR_NOT_FOUND, db_set_error (sf_missing fid) d1)
      | (Fetched (u # us) rc oom, d1) \<Rightarrow>
          (case (if new_parent_id = 0 then (ACTA_DB_OK, d1)
                 else case skill_folder_live new_parent_id d1 of
                   (Unreadable, d2) \<Rightarrow> (ACTA_DB_ERR_SQL, d2)
                 | (Fetched [] rc oom, d2) \<Rightarrow>
                     (ACTA_DB_ERR_NOT_FOUND,
                      db_set_error (snprintf 192 (''parent skill_folder '' @ show_int new_parent_id
                        @ '' does not exist or is soft-deleted'')) d2)
                 | (Fetched (u # us) rc oom, d2) \<Rightarrow>
                     (case sql_prepare d2 of (prepared, d3) \<Rightarrow>
                        if \<not> prepared then (ACTA_DB_ERR_SQL, d3)
                        else case skill_folder_walk 4096 fid new_parent_id d3 of
                          (True, d4) \<Rightarrow>
                            (ACTA_DB_ERR_INVALID,
                             db_set_error (snprintf 192 (''cannot move skill_folder '' @ show_int fid
                               @ '' into its own subtree: parent '' @ show_int new_parent_id
                               @ '' is a descendant of '' @ show_int fid)) d4)
                        | (False, d4) \<Rightarrow> (ACTA_DB_OK, d4))) of
             (rc, d5) \<Rightarrow>
               if rc \<noteq> ACTA_DB_OK then (rc, d5)
               else finish_update ACTA_DB_ERR_NOT_FOUND (sf_missing fid)
                      (sql_write (on_skill_folders (update_folder fid (\<lambda>r. fo_deleted_at r = None)
                         (folder_apply (SetFolderParent (bind_parent new_parent_id) (clock d5))))) d5)))"

definition live_skill_subfolders :: "int \<Rightarrow> store \<Rightarrow> nat" where
  "live_skill_subfolders fid st =
     length (filter (\<lambda>r. fo_parent_id r = Some fid \<and> fo_deleted_at r = None) (rows (skill_folders st)))"

definition live_skills_inside :: "int \<Rightarrow> store \<Rightarrow> nat" where
  "live_skills_inside fid st =
     length (filter (\<lambda>r. sk_folder_id r = Some fid \<and> sk_deleted_at r = None) (rows (skills st)))"

definition acta_db_skill_folder_soft_delete :: "int \<Rightarrow> db_t \<Rightarrow> int \<times> db_t" where
  "acta_db_skill_folder_soft_delete fid d =
     (if fid \<le> 0 then (ACTA_DB_ERR_INVALID, d)
      else case probe_count (live_skill_subfolders fid) d of
        (None, d1) \<Rightarrow> (ACTA_DB_ERR_SQL, d1)
      | (Some child_count, d1) \<Rightarrow>
          if child_count > 0
          then (ACTA_DB_ERR_INVALID,
                db_set_error (snprintf 192 (''cannot delete skill_folder '' @ show_int fid
                  @ '': it has live sub-folders'')) d1)
          else case probe_count (live_skills_inside fid) d1 of
            (None, d2) \<Rightarrow> (ACTA_DB_ERR_SQL, d2)
          | (Some skill_count, d2) \<Rightarrow>
              if skill_count > 0
              then (ACTA_DB_ERR_INVALID,
                    db_set_error (snprintf 192 (''cannot delete skill_folder '' @ show_int fid
                      @ '': live skills are assigned to it'')) d2)
              else finish_update ACTA_DB_ERR_NOT_FOUND (sf_missing fid)
                     (sql_write (on_skill_folders (update_folder fid (\<lambda>r. fo_deleted_at r = None)
                        (folder_apply (SetFolderDeleted (clock d2))))) d2))"

definition acta_db_skill_folder_restore :: "int \<Rightarrow> db_t \<Rightarrow> int \<times> db_t" where
  "acta_db_skill_folder_restore fid d =
     (if fid \<le> 0 then (ACTA_DB_ERR_INVALID, d)
      else finish_update ACTA_DB_ERR_NOT_FOUND
             (snprintf 192 (''skill_folder '' @ show_int fid @ '' does not exist''))
             (sql_write (on_skill_folders (update_folder fid (\<lambda>r. fo_deleted_at r \<noteq> None)
                (folder_apply (ClearFolderDeleted (clock d))))) d))"

section \<open>Getter and listers\<close>

definition acta_db_skill_folder_get :: "int \<Rightarrow> db_t \<Rightarrow> folder_t option \<times> int option \<times> db_t" where
  "acta_db_skill_folder_get fid d =
     (if fid \<le> 0 then (None, Some ACTA_DB_ERR_INVALID, d)
      else case sql_read (\<lambda>st. filter (\<lambda>r. fo_id r = fid) (rows (skill_folders st))) d of
        (Unreadable, d1) \<Rightarrow> (None, Some ACTA_DB_ERR_SQL, d1)
      | (Fetched [] rc oom, d1) \<Rightarrow> (None, Some ACTA_DB_OK, d1)
      | (Fetched (r # rs) rc oom, d1) \<Rightarrow>
          if oom = Some 0 then (None, Some ACTA_DB_ERR_ALLOC, d1)
          else (Some (row_to_folder r), Some ACTA_DB_OK, d1))"

definition folder_query_sql :: "int \<Rightarrow> bool \<Rightarrow> bool \<Rightarrow> int \<Rightarrow> int \<Rightarrow> string option" where
  "folder_query_sql parent_id has_parent_filter include_deleted offset limit =
     (let whr =
        (if has_parent_filter \<and> parent_id = 0
         then (if include_deleted then '' WHERE parent_id IS NULL''
               else '' WHERE parent_id IS NULL AND deleted_at IS NULL'')
         else if has_parent_filter
         then (if include_deleted then '' WHERE parent_id = ?''
               else '' WHERE parent_id = ? AND deleted_at IS NULL'')
         else (if include_deleted then [] else '' WHERE deleted_at IS NULL''))
      in case buf_append 256 [] (''SELECT id, name, parent_id, created_at, updated_at, deleted_at''
                @ '' FROM skill_folders'' @ whr @ '' ORDER BY id'') of
           None \<Rightarrow> None
         | Some sql \<Rightarrow>
             if limit > 0 \<or> offset > 0 then buf_append 256 sql '' LIMIT ? OFFSET ?'' else Some sql)"

text \<open>
  \<^verbatim>\<open>prepare_folder_query\<close> followed by \<^verbatim>\<open>collect_rows\<close>. \<^verbatim>\<open>*out_count\<close> is 0
  from the caller on.
\<close>

definition skill_folder_list ::
  "int \<Rightarrow> bool \<Rightarrow> bool \<Rightarrow> int \<Rightarrow> int \<Rightarrow> db_t \<Rightarrow> folder_t list \<times> int option \<times> int option \<times> db_t" where
  "skill_folder_list parent_id has_parent_filter include_deleted offset limit d =
     (if folder_query_sql parent_id has_parent_filter include_deleted offset limit = None
      then ([], Some 0, Some ACTA_DB_ERR_SQL, d)
      else case sql_read (\<lambda>st. let rs = sort_key fo_id
                     (filter (folder_selected parent_id has_parent_filter include_deleted)
                             (rows (skill_folders st))) in
                   if limit > 0 \<or> offset > 0
                   then sql_page (if limit > 0 then limit else - 1) offset rs else rs) d of
        (Unreadable, d1) \<Rightarrow> ([], Some 0, Some ACTA_DB_ERR_SQL, d1)
      | (Fetched rs rc oom, d1) \<Rightarrow>
          (case collect_loop row_to_folder oom rs [] of
             None \<Rightarrow> ([], Some 0, Some ACTA_DB_ERR_ALLOC, d1)
           | Some items \<Rightarrow>
               if rc \<noteq> SQLITE_DONE then ([], Some 0, Some ACTA_DB_ERR_SQL, d1)
               else (items, Some (int (length items)), Some ACTA_DB_OK, d1)))"

definition acta_db_skill_folder_list_children ::
  "int \<Rightarrow> int \<Rightarrow> int \<Rightarrow> db_t \<Rightarrow> folder_t list \<times> int option \<times> int option \<times> db_t" where
  "acta_db_skill_folder_list_children parent_id offset limit d =
     (if offset < 0 then ([], Some 0, Some ACTA_DB_ERR_INVALID, d)
      else skill_folder_list parent_id True False offset limit d)"

definition acta_db_skill_folder_list_all ::
  "int \<Rightarrow> int \<Rightarrow> db_t \<Rightarrow> folder_t list \<times> int option \<times> int option \<times> db_t" where
  "acta_db_skill_folder_list_all offset limit d =
     (if offset < 0 then ([], Some 0, Some ACTA_DB_ERR_INVALID, d)
      else skill_folder_list 0 False False offset limit d)"

definition acta_db_skill_folder_list_all_with_deleted ::
  "int \<Rightarrow> int \<Rightarrow> db_t \<Rightarrow> folder_t list \<times> int option \<times> int option \<times> db_t" where
  "acta_db_skill_folder_list_all_with_deleted offset limit d =
     (if offset < 0 then ([], Some 0, Some ACTA_DB_ERR_INVALID, d)
      else skill_folder_list 0 False True offset limit d)"

definition acta_db_skill_folder_count_children :: "int \<Rightarrow> db_t \<Rightarrow> int \<times> int option \<times> db_t" where
  "acta_db_skill_folder_count_children parent_id d =
     sql_count (\<lambda>st. length (filter (folder_selected parent_id True False) (rows (skill_folders st)))) d"

definition acta_db_skill_folder_count_all :: "db_t \<Rightarrow> int \<times> int option \<times> db_t" where
  "acta_db_skill_folder_count_all d =
     sql_count (\<lambda>st. length (filter (\<lambda>r. fo_deleted_at r = None) (rows (skill_folders st)))) d"

section \<open>What the mutators do\<close>

definition skill_folder_edited ::
  "int \<times> (folder_row \<Rightarrow> bool) \<times> folder_edit \<Rightarrow> store \<Rightarrow> store \<Rightarrow> bool" where
  "skill_folder_edited a st st' \<longleftrightarrow>
     (\<exists>t. folder_edited a (skill_folders st) t \<and> st' = st\<lparr>skill_folders := t\<rparr>)"

interpretation skill_folder_stmt: update_stmt
  "\<lambda>a. case a of (i, guard, e) \<Rightarrow> on_skill_folders (update_folder i guard (folder_apply e))"
  skill_folder_edited
proof (unfold_locales, goal_cases)
  case (1 a st n st')
  then show ?case
    by (cases a) (auto simp: skill_folder_edited_def on_skill_folders_def split: sum.splits
        intro!: exI dest: update_folder_hit)
next
  case (2 a st n st')
  then show ?case
    by (cases a) (auto simp: on_skill_folders_def split: sum.splits
        dest!: update_folder_miss [OF _ 2(2)])
qed

lemmas skill_folder_finish =
  skill_folder_stmt.finish [of _ _ "(i, g, e)" for i g e, unfolded prod.case]
lemmas skill_folder_stepped_ok =
  skill_folder_stmt.stepped_ok [of "(i, g, e)" for i g e, unfolded prod.case]
lemmas skill_folder_stepped_none =
  skill_folder_stmt.stepped_none [of "(i, g, e)" for i g e, unfolded prod.case]
lemmas skill_folder_unprepared =
  skill_folder_stmt.unprepared [of "(i, g, e)" for i g e, unfolded prod.case]

lemma skill_folder_create_effect:
  assumes "acta_db_skill_folder_create name p d = (rc, out, d')"
  shows "if rc = ACTA_DB_OK
    then \<exists>nm n t. name = Some nm \<and> nm \<noteq> [] \<and> out = Some (c_int n)
           \<and> insert_folder (new_folder nm p (clock d)) (skill_folders (store d)) = Inr (n, t)
           \<and> store d' = (store d)\<lparr>skill_folders := t\<rparr>
    else store d' = store d \<and> out = None"
  using assms
  by (auto simp: acta_db_skill_folder_create_def on_skill_folders_def
      split: if_splits prod.splits option.splits write_result.splits sum.splits
      elim!: sql_write_cases)

lemma skill_folder_rename_effect:
  assumes "acta_db_skill_folder_rename fid name d = (rc, d')"
  shows "\<exists>nm. (rc = ACTA_DB_OK \<longrightarrow> name = Some nm \<and> nm \<noteq> []) \<and>
    skill_folder_stmt.effect (fid, \<lambda>r. fo_deleted_at r = None, SetFolderName nm (clock d))
      (store d) rc (store d')"
  using assms
  by (force simp: acta_db_skill_folder_rename_def skill_folder_stmt.effect_def
      split: if_splits prod.splits option.splits write_result.splits
      dest: skill_folder_stepped_ok skill_folder_stepped_none skill_folder_unprepared)

lemma skill_folder_walk_store: "skill_folder_walk n fid cur d = (b, d') \<Longrightarrow> store d' = store d \<and> clock d' = clock d"
  by (induction n fid cur d arbitrary: b d' rule: skill_folder_walk.induct)
    (auto split: if_splits prod.splits read_result.splits list.splits option.splits dest!: sql_read_fields)

lemma skill_folder_live_fields:
  "skill_folder_live fid d = (res, d1) \<Longrightarrow> store d1 = store d \<and> clock d1 = clock d"
  by (auto simp: skill_folder_live_def dest!: sql_read_fields)

lemma skill_folder_move_effect:
  assumes "acta_db_skill_folder_move_to fid p d = (rc, d')"
  shows "skill_folder_stmt.effect
     (fid, \<lambda>r. fo_deleted_at r = None, SetFolderParent (bind_parent p) (clock d)) (store d) rc (store d')"
  using assms
  by (auto simp: acta_db_skill_folder_move_to_def skill_folder_stmt.effect_fail
      split: if_splits prod.splits read_result.splits list.splits bool.splits
      dest!: skill_folder_live_fields skill_folder_walk_store sql_prepare_fields
        skill_folder_finish)

lemma skill_folder_soft_delete_effect:
  assumes "acta_db_skill_folder_soft_delete fid d = (rc, d')"
  shows "skill_folder_stmt.effect
     (fid, \<lambda>r. fo_deleted_at r = None, SetFolderDeleted (clock d)) (store d) rc (store d')"
  using assms
  by (auto simp: acta_db_skill_folder_soft_delete_def skill_folder_stmt.effect_fail
      split: if_splits prod.splits option.splits
      dest!: probe_count_fields skill_folder_finish)

lemma skill_folder_restore_effect:
  assumes "acta_db_skill_folder_restore fid d = (rc, d')"
  shows "skill_folder_stmt.effect
     (fid, \<lambda>r. fo_deleted_at r \<noteq> None, ClearFolderDeleted (clock d)) (store d) rc (store d')"
  using assms
  by (auto simp: acta_db_skill_folder_restore_def skill_folder_stmt.effect_fail
      split: if_splits dest!: skill_folder_finish)

end
