(* ===== verification/Model_Folders.thy ===== *)
theory Model_Folders
  imports Folders
begin

text \<open>
  \<^verbatim>\<open>acta_db/src/model_folder.c\<close>: the folder tree of the models. It differs from the
  skills' one where the code does: moving a folder to the parent it has is a no-op, the cycle test
  (\<open>ancestor_reaches\<close>, at most 10000 steps) only follows live folders, restoring a live folder is a
  no-op success, listings clamp their limit and treat a broken scan as its end.
\<close>

section \<open>Mutators\<close>

definition acta_db_model_folder_create :: "string option \<Rightarrow> int \<Rightarrow> db_t \<Rightarrow> int \<times> int option \<times> db_t" where
  "acta_db_model_folder_create name parent_id d =
     (case name of
        None \<Rightarrow> (ACTA_DB_ERR_INVALID, None, d)
      | Some nm \<Rightarrow>
          if nm = [] then (ACTA_DB_ERR_INVALID, None, d)
          else case sql_write (on_model_folders (insert_folder (new_folder nm parent_id (clock d)))) d of
            (Unprepared, d1) \<Rightarrow> (ACTA_DB_ERR_SQL, None, d1)
          | (Stepped rc n, d1) \<Rightarrow>
              if rc \<noteq> SQLITE_DONE
              then (if rc = Constraint SQLITE_CONSTRAINT_UNIQUE then ACTA_DB_ERR_DUPLICATE
                    else if rc = Constraint SQLITE_CONSTRAINT_FOREIGNKEY then ACTA_DB_ERR_FK
                    else ACTA_DB_ERR_SQL, None, d1)
              else (ACTA_DB_OK, Some (c_int n), d1))"

definition mf_missing :: "int \<Rightarrow> string" where
  "mf_missing fid = snprintf 192 (''model_folder '' @ show_int fid @ '' does not exist or is soft-deleted'')"

definition acta_db_model_folder_rename :: "int \<Rightarrow> string option \<Rightarrow> db_t \<Rightarrow> int \<times> db_t" where
  "acta_db_model_folder_rename fid new_name d =
     (case new_name of
        None \<Rightarrow> (ACTA_DB_ERR_INVALID, d)
      | Some nm \<Rightarrow>
          if nm = [] \<or> fid \<le> 0 then (ACTA_DB_ERR_INVALID, d)
          else case sql_write (on_model_folders (update_folder fid (\<lambda>r. fo_deleted_at r = None)
                                 (folder_apply (SetFolderName nm (clock d))))) d of
            (Unprepared, d1) \<Rightarrow> (ACTA_DB_ERR_SQL, d1)
          | (Stepped rc n, d1) \<Rightarrow>
              if rc \<noteq> SQLITE_DONE
              then (if rc = Constraint SQLITE_CONSTRAINT_UNIQUE then ACTA_DB_ERR_DUPLICATE
                    else if rc = Constraint SQLITE_CONSTRAINT_FOREIGNKEY then ACTA_DB_ERR_FK
                    else ACTA_DB_ERR_SQL, d1)
              else if n > 0 then (ACTA_DB_OK, d1)
              else (ACTA_DB_ERR_NOT_FOUND, db_set_error (mf_missing fid) d1))"

definition live_model_subfolders :: "int \<Rightarrow> store \<Rightarrow> nat" where
  "live_model_subfolders fid st =
     length (filter (\<lambda>r. fo_parent_id r = Some fid \<and> fo_deleted_at r = None) (rows (model_folders st)))"

definition live_models_inside :: "int \<Rightarrow> store \<Rightarrow> nat" where
  "live_models_inside fid st =
     length (filter (\<lambda>r. mo_folder_id r = Some fid \<and> mo_deleted_at r = None) (rows (models st)))"

definition acta_db_model_folder_soft_delete :: "int \<Rightarrow> db_t \<Rightarrow> int \<times> db_t" where
  "acta_db_model_folder_soft_delete fid d =
     (if fid \<le> 0 then (ACTA_DB_ERR_INVALID, d)
      else case probe_count (live_model_subfolders fid) d of
        (None, d1) \<Rightarrow> (ACTA_DB_ERR_SQL, d1)
      | (Some child_count, d1) \<Rightarrow>
          if child_count > 0
          then (ACTA_DB_ERR_INVALID,
                db_set_error (snprintf 192 (''cannot delete model_folder '' @ show_int fid
                  @ '': it has live sub-folders'')) d1)
          else case probe_count (live_models_inside fid) d1 of
            (None, d2) \<Rightarrow> (ACTA_DB_ERR_SQL, d2)
          | (Some model_count, d2) \<Rightarrow>
              if model_count > 0
              then (ACTA_DB_ERR_INVALID,
                    db_set_error (snprintf 192 (''cannot delete model_folder '' @ show_int fid
                      @ '': live models are assigned to it'')) d2)
              else finish_update ACTA_DB_ERR_NOT_FOUND (mf_missing fid)
                     (sql_write (on_model_folders (update_folder fid (\<lambda>r. fo_deleted_at r = None)
                        (folder_apply (SetFolderDeleted (clock d2))))) d2))"

definition acta_db_model_folder_restore :: "int \<Rightarrow> db_t \<Rightarrow> int \<times> db_t" where
  "acta_db_model_folder_restore fid d =
     (if fid \<le> 0 then (ACTA_DB_ERR_INVALID, d)
      else finish_update ACTA_DB_ERR_NOT_FOUND
             (snprintf 192 (''model_folder '' @ show_int fid @ '' does not exist''))
             (sql_write (on_model_folders (update_folder fid (\<lambda>r. True)
                (folder_apply (UndeleteFolder (clock d))))) d))"

text \<open>
  The ancestor walk: \<open>fuel\<close> is what is left of MAX_DEPTH = 10000 iterations. \<open>ancestor_reaches\<close>
  answers -1 when the statement cannot be prepared.
\<close>

fun ancestor_walk :: "nat \<Rightarrow> int \<Rightarrow> int \<Rightarrow> db_t \<Rightarrow> bool \<times> db_t" where
  "ancestor_walk 0 target cur d = (False, d)"
| "ancestor_walk (Suc fuel) target cur d =
     (if \<not> cur > 0 then (False, d)
      else if cur = target then (True, d)
      else case sql_read (\<lambda>st. map fo_parent_id
                  (filter (\<lambda>r. fo_id r = cur \<and> fo_deleted_at r = None) (rows (model_folders st)))) d of
        (Unreadable, d1) \<Rightarrow> (False, d1)
      | (Fetched [] rc oom, d1) \<Rightarrow> (False, d1)
      | (Fetched (p # ps) rc oom, d1) \<Rightarrow>
          ancestor_walk fuel target (case p of None \<Rightarrow> 0 | Some i \<Rightarrow> c_int i) d1)"

definition ancestor_reaches :: "int \<Rightarrow> int \<Rightarrow> db_t \<Rightarrow> int \<times> db_t" where
  "ancestor_reaches start_id target_id d =
     (case sql_prepare d of (prepared, d1) \<Rightarrow>
        if \<not> prepared then (- 1, d1)
        else case ancestor_walk 10000 target_id start_id d1 of
          (found, d2) \<Rightarrow> (if found then 1 else 0, d2))"

definition acta_db_model_folder_move_to :: "int \<Rightarrow> int \<Rightarrow> db_t \<Rightarrow> int \<times> db_t" where
  "acta_db_model_folder_move_to folder_id new_parent_id d =
     (if folder_id \<le> 0 then (ACTA_DB_ERR_INVALID, d)
      else case sql_read (\<lambda>st. map fo_parent_id
                  (filter (\<lambda>r. fo_id r = folder_id \<and> fo_deleted_at r = None) (rows (model_folders st)))) d of
        (Unreadable, d1) \<Rightarrow> (ACTA_DB_ERR_SQL, d1)
      | (Fetched ps rc oom, d1) \<Rightarrow>
          let cur_parent = (case ps of [] \<Rightarrow> - 1
                            | p # _ \<Rightarrow> (case p of None \<Rightarrow> 0 | Some i \<Rightarrow> c_int i)) in
          if cur_parent < 0 then (ACTA_DB_ERR_NOT_FOUND, db_set_error (mf_missing folder_id) d1)
          else if cur_parent = new_parent_id then (ACTA_DB_OK, d1)
          else
            (case (if \<not> new_parent_id > 0 then (ACTA_DB_OK, d1)
                   else case sql_read (\<lambda>st. map (\<lambda>r. ())
                               (filter (\<lambda>r. fo_id r = new_parent_id \<and> fo_deleted_at r = None)
                                       (rows (model_folders st)))) d1 of
                     (Unreadable, d2) \<Rightarrow> (ACTA_DB_ERR_SQL, d2)
                   | (Fetched [] rc oom, d2) \<Rightarrow>
                       (ACTA_DB_ERR_NOT_FOUND,
                        db_set_error (snprintf 192 (''parent model_folder '' @ show_int new_parent_id
                          @ '' does not exist or is soft-deleted'')) d2)
                   | (Fetched (u # us) rc oom, d2) \<Rightarrow>
                       (case ancestor_reaches new_parent_id folder_id d2 of (cycle, d3) \<Rightarrow>
                          if cycle < 0 then (ACTA_DB_ERR_SQL, d3)
                          else if cycle > 0
                          then (ACTA_DB_ERR_INVALID,
                                db_set_error (snprintf 192 (''cannot move model_folder '' @ show_int folder_id
                                  @ '' into its own subtree: parent '' @ show_int new_parent_id
                                  @ '' is a descendant of '' @ show_int folder_id)) d3)
                          else (ACTA_DB_OK, d3))) of
               (rc, d5) \<Rightarrow>
                 if rc \<noteq> ACTA_DB_OK then (rc, d5)
                 else finish_update ACTA_DB_ERR_NOT_FOUND (mf_missing folder_id)
                        (sql_write (on_model_folders (update_folder folder_id (\<lambda>r. fo_deleted_at r = None)
                           (folder_apply (SetFolderParent (bind_parent new_parent_id) (clock d5))))) d5)))"

section \<open>Getter, listers, counts\<close>

definition acta_db_model_folder_get :: "int \<Rightarrow> db_t \<Rightarrow> folder_t option \<times> int option \<times> db_t" where
  "acta_db_model_folder_get fid d =
     (if fid \<le> 0 then (None, Some ACTA_DB_ERR_INVALID, d)
      else case sql_read (\<lambda>st. filter (\<lambda>r. fo_id r = fid) (rows (model_folders st))) d of
        (Unreadable, d1) \<Rightarrow> (None, Some ACTA_DB_ERR_SQL, d1)
      | (Fetched [] rc oom, d1) \<Rightarrow> (None, Some ACTA_DB_OK, d1)
      | (Fetched (r # rs) rc oom, d1) \<Rightarrow>
          if oom = Some 0 then (None, Some ACTA_DB_ERR_ALLOC, d1)
          else (Some (row_to_folder r), Some ACTA_DB_OK, d1))"

text \<open>The prepare, step and hand-over code that the three listers repeat.\<close>

definition model_folder_list ::
  "(folder_row \<Rightarrow> bool) \<Rightarrow> int \<Rightarrow> int \<Rightarrow> db_t \<Rightarrow> folder_t list \<times> int option \<times> int option \<times> db_t" where
  "model_folder_list sel offset limit d =
     (case sql_read (\<lambda>st. sql_page (db_clamp_limit limit) offset
               (sort_key fo_id (filter sel (rows (model_folders st))))) d of
        (Unreadable, d1) \<Rightarrow> ([], None, Some ACTA_DB_ERR_SQL, d1)
      | (Fetched rs rc oom, d1) \<Rightarrow>
          (case collect_loop row_to_folder oom rs [] of
             None \<Rightarrow> ([], Some 0, Some ACTA_DB_ERR_ALLOC, d1)
           | Some items \<Rightarrow> (items, Some (int (length items)), Some ACTA_DB_OK, d1)))"

definition acta_db_model_folder_list_children ::
  "int \<Rightarrow> int \<Rightarrow> int \<Rightarrow> db_t \<Rightarrow> folder_t list \<times> int option \<times> int option \<times> db_t" where
  "acta_db_model_folder_list_children parent_id offset limit d =
     (if offset < 0 then ([], None, Some ACTA_DB_ERR_INVALID, d)
      else model_folder_list (folder_selected parent_id True False) offset limit d)"

definition acta_db_model_folder_list_all ::
  "int \<Rightarrow> int \<Rightarrow> db_t \<Rightarrow> folder_t list \<times> int option \<times> int option \<times> db_t" where
  "acta_db_model_folder_list_all offset limit d =
     (if offset < 0 then ([], None, Some ACTA_DB_ERR_INVALID, d)
      else model_folder_list (\<lambda>r. fo_deleted_at r = None) offset limit d)"

definition acta_db_model_folder_list_all_with_deleted ::
  "int \<Rightarrow> int \<Rightarrow> db_t \<Rightarrow> folder_t list \<times> int option \<times> int option \<times> db_t" where
  "acta_db_model_folder_list_all_with_deleted offset limit d =
     (if offset < 0 then ([], None, Some ACTA_DB_ERR_INVALID, d)
      else model_folder_list (\<lambda>r. True) offset limit d)"

definition model_folder_count :: "(store \<Rightarrow> nat) \<Rightarrow> db_t \<Rightarrow> int \<times> int option \<times> db_t" where
  "model_folder_count q d =
     (case sql_read (\<lambda>st. [int (q st)]) d of
        (Unreadable, d1) \<Rightarrow> (- 1, Some ACTA_DB_ERR_SQL, d1)
      | (Fetched [] rc oom, d1) \<Rightarrow> (- 1, Some ACTA_DB_ERR_SQL, d1)
      | (Fetched (n # ns) rc oom, d1) \<Rightarrow> (c_int n, Some ACTA_DB_OK, d1))"

definition acta_db_model_folder_count_children :: "int \<Rightarrow> db_t \<Rightarrow> int \<times> int option \<times> db_t" where
  "acta_db_model_folder_count_children parent_id d =
     model_folder_count (\<lambda>st. length (filter (folder_selected parent_id True False) (rows (model_folders st)))) d"

definition acta_db_model_folder_count_all :: "db_t \<Rightarrow> int \<times> int option \<times> db_t" where
  "acta_db_model_folder_count_all d =
     model_folder_count (\<lambda>st. length (filter (\<lambda>r. fo_deleted_at r = None) (rows (model_folders st)))) d"

section \<open>What the mutators do\<close>

definition model_folder_edited ::
  "int \<times> (folder_row \<Rightarrow> bool) \<times> folder_edit \<Rightarrow> store \<Rightarrow> store \<Rightarrow> bool" where
  "model_folder_edited a st st' \<longleftrightarrow>
     (\<exists>t. folder_edited a (model_folders st) t \<and> st' = st\<lparr>model_folders := t\<rparr>)"

interpretation model_folder_stmt: update_stmt
  "\<lambda>a. case a of (i, guard, e) \<Rightarrow> on_model_folders (update_folder i guard (folder_apply e))"
  model_folder_edited
proof (unfold_locales, goal_cases)
  case (1 a st n st')
  then show ?case
    by (cases a) (auto simp: model_folder_edited_def on_model_folders_def split: sum.splits
        intro!: exI dest: update_folder_hit)
next
  case (2 a st n st')
  then show ?case
    by (cases a) (auto simp: on_model_folders_def split: sum.splits
        dest!: update_folder_miss [OF _ 2(2)])
qed

lemmas model_folder_finish =
  model_folder_stmt.finish [of _ _ "(i, g, e)" for i g e, unfolded prod.case]
lemmas model_folder_stepped_ok =
  model_folder_stmt.stepped_ok [of "(i, g, e)" for i g e, unfolded prod.case]
lemmas model_folder_stepped_none =
  model_folder_stmt.stepped_none [of "(i, g, e)" for i g e, unfolded prod.case]
lemmas model_folder_unprepared =
  model_folder_stmt.unprepared [of "(i, g, e)" for i g e, unfolded prod.case]

lemma model_folder_create_effect:
  assumes "acta_db_model_folder_create name p d = (rc, out, d')"
  shows "if rc = ACTA_DB_OK
    then \<exists>nm n t. name = Some nm \<and> nm \<noteq> [] \<and> out = Some (c_int n)
           \<and> insert_folder (new_folder nm p (clock d)) (model_folders (store d)) = Inr (n, t)
           \<and> store d' = (store d)\<lparr>model_folders := t\<rparr>
    else store d' = store d \<and> out = None"
  using assms
  by (auto simp: acta_db_model_folder_create_def on_model_folders_def
      split: if_splits prod.splits option.splits write_result.splits sum.splits
      elim!: sql_write_cases)

lemma model_folder_rename_effect:
  assumes "acta_db_model_folder_rename fid name d = (rc, d')"
  shows "\<exists>nm. (rc = ACTA_DB_OK \<longrightarrow> name = Some nm \<and> nm \<noteq> []) \<and>
    model_folder_stmt.effect (fid, \<lambda>r. fo_deleted_at r = None, SetFolderName nm (clock d))
      (store d) rc (store d')"
  using assms
  by (force simp: acta_db_model_folder_rename_def model_folder_stmt.effect_def
      split: if_splits prod.splits option.splits write_result.splits
      dest: model_folder_stepped_ok model_folder_stepped_none model_folder_unprepared)

lemma ancestor_walk_store: "ancestor_walk n target cur d = (b, d') \<Longrightarrow> store d' = store d \<and> clock d' = clock d"
  by (induction n target cur d arbitrary: b d' rule: ancestor_walk.induct)
    (auto split: if_splits prod.splits read_result.splits list.splits dest!: sql_read_fields)

lemma ancestor_reaches_store:
  "ancestor_reaches s target d = (n, d') \<Longrightarrow> store d' = store d \<and> clock d' = clock d"
  by (auto simp: ancestor_reaches_def split: prod.splits if_splits
      dest!: ancestor_walk_store sql_prepare_fields)

text \<open>A successful move either was the no-op or made the edit.\<close>

lemma model_folder_move_effect:
  assumes "acta_db_model_folder_move_to fid p d = (rc, d')"
  shows "store d' = store d \<or> model_folder_stmt.effect
     (fid, \<lambda>r. fo_deleted_at r = None, SetFolderParent (bind_parent p) (clock d)) (store d) rc (store d')"
  using assms
  by (auto simp: acta_db_model_folder_move_to_def Let_def
      split: if_splits prod.splits read_result.splits list.splits bool.splits
      dest!: sql_read_fields ancestor_reaches_store model_folder_finish)

lemma model_folder_soft_delete_effect:
  assumes "acta_db_model_folder_soft_delete fid d = (rc, d')"
  shows "model_folder_stmt.effect
     (fid, \<lambda>r. fo_deleted_at r = None, SetFolderDeleted (clock d)) (store d) rc (store d')"
  using assms
  by (auto simp: acta_db_model_folder_soft_delete_def model_folder_stmt.effect_fail
      split: if_splits prod.splits option.splits
      dest!: probe_count_fields model_folder_finish)

lemma model_folder_restore_effect:
  assumes "acta_db_model_folder_restore fid d = (rc, d')"
  shows "model_folder_stmt.effect (fid, \<lambda>r. True, UndeleteFolder (clock d)) (store d) rc (store d')"
  using assms
  by (auto simp: acta_db_model_folder_restore_def model_folder_stmt.effect_fail
      split: if_splits dest!: model_folder_finish)

end
