(* ===== verification/Revisions.thy ===== *)
theory Revisions
  imports Tables
begin

text \<open>
  What the two revision tables share. The schema's triggers number the revisions of an owner (a
  skill, a model) with \<^verbatim>\<open>COALESCE(MAX(revision), 0) + 1\<close>. The locale states that
  numbering as the law of \<open>top\<close> and draws the consequences: the history of an owner is 1, 2, ..., n
  without gaps, and the next snapshot can never clash with the UNIQUE (owner, revision) index.
\<close>

lemma fold_max_upto: "fold max [i + 1..j] i = max i (j::int)"
proof (induction "nat (j - i)" arbitrary: i)
  case 0
  then show ?case by simp
next
  case (Suc n)
  then have "i + 1 \<le> j" "n = nat (j - (i + 1))" by linarith+
  then show ?case using Suc.hyps(1) [of "i + 1"] by (simp add: upto_rec1 [of "i + 1"])
qed

locale revisions =
  fixes owner :: "'r \<Rightarrow> int"
    and rev_no :: "'r \<Rightarrow> int"
    and top :: "'r table \<Rightarrow> int \<Rightarrow> int"
  assumes top_law: "top t i =
    (case map rev_no (filter (\<lambda>r. owner r = i) (rows t)) of [] \<Rightarrow> 0 | v # vs \<Rightarrow> fold max vs v)"
begin

definition history :: "'r table \<Rightarrow> int \<Rightarrow> 'r list" where
  "history t i = filter (\<lambda>r. owner r = i) (rows t)"

definition numbered :: "'r table \<Rightarrow> int \<Rightarrow> nat \<Rightarrow> bool" where
  "numbered t i n \<longleftrightarrow> map rev_no (history t i) = [1..int n]"

lemma top_numbered: "numbered t i n \<Longrightarrow> top t i = int n"
  using fold_max_upto [of 1 "int n"]
  by (cases n) (simp_all add: top_law numbered_def history_def upto_rec1 [of 1])

lemma history_ins:
  "history (tbl_ins mk t) i =
     history t i @ (if owner (mk (seq t + 1)) = i then [mk (seq t + 1)] else [])"
  by (simp add: history_def)

lemma numbered_ins_other:
  "owner (mk (seq t + 1)) \<noteq> i \<Longrightarrow> numbered (tbl_ins mk t) i n = numbered t i n"
  by (simp add: numbered_def history_ins)

lemma numbered_ins:
  "numbered t i n \<Longrightarrow> owner (mk (seq t + 1)) = i \<Longrightarrow> rev_no (mk (seq t + 1)) = int n + 1 \<Longrightarrow>
     numbered (tbl_ins mk t) i (Suc n)"
  by (simp add: numbered_def history_ins upto_rec2 add.commute)

lemma no_clash:
  assumes "numbered t i n" and "r \<in> set (rows t)" and "owner r = i"
  shows "rev_no r \<noteq> int n + 1"
proof -
  have "rev_no r \<in> set (map rev_no (history t i))"
    using assms(2,3) by (auto simp: history_def)
  then show ?thesis using assms(1) by (simp add: numbered_def del: set_map)
qed

lemma numbered_empty_iff: "numbered t i 0 \<longleftrightarrow> (\<forall>r\<in>set (rows t). owner r \<noteq> i)"
  by (simp add: numbered_def history_def filter_empty_conv)

lemma numbered_last:
  assumes "numbered t i n" and "0 < n"
  shows "history t i \<noteq> [] \<and> rev_no (last (history t i)) = int n"
proof -
  have "map rev_no (history t i) = [1..int n]" using assms(1) by (simp add: numbered_def)
  moreover from assms(2) have "[1..int n] \<noteq> [] \<and> last [1..int n] = int n" by (simp add: upto_rec2)
  ultimately show ?thesis by (metis last_map list.simps(8))
qed

lemma numbered_distinct: "numbered t i n \<Longrightarrow> distinct (map rev_no (history t i))"
  by (simp add: numbered_def)

end

end
