(* ===== verification/Skills.thy ===== *)
theory Skills
  imports Revisions Folders
begin

text \<open>
  \<^verbatim>\<open>acta_db/src/skill.c\<close>: skills, and the revision rows the schema's triggers snapshot
  for them. The SET clauses are the constructors of \<open>skill_edit\<close>; \<open>skill_sets_content\<close> says which
  of them name a column that the revision trigger watches. The last part is the invariant of the
  two tables: the history of every skill is 1, 2, ..., n and its last entry is the skill as it is.
\<close>

record skill_t =
  s_id :: int
  s_folder_id :: int
  s_name :: "string option"
  s_description :: "string option"
  s_prompt_template :: "string option"
  s_output_schema :: "string option"
  s_created_at :: "string option"
  s_updated_at :: "string option"
  s_deleted_at :: "string option"

definition row_to_skill :: "skill_row \<Rightarrow> skill_t" where
  "row_to_skill r =
     \<lparr>s_id = c_int (sk_id r),
      s_folder_id = (case sk_folder_id r of None \<Rightarrow> 0 | Some i \<Rightarrow> c_int i),
      s_name = Some (sk_name r), s_description = sk_description r,
      s_prompt_template = Some (sk_prompt_template r), s_output_schema = sk_output_schema r,
      s_created_at = Some (sk_created_at r), s_updated_at = sk_updated_at r,
      s_deleted_at = sk_deleted_at r\<rparr>"

datatype skill_edit =
    SetSkill "int option" string "string option" string "string option" string
  | SetSkillFolder "int option" string
  | SetSkillDeleted string
  | ClearSkillDeleted string

fun skill_apply :: "skill_edit \<Rightarrow> skill_row \<Rightarrow> skill_row" where
  "skill_apply (SetSkill fld nm desc prompt out now) r =
     r\<lparr>sk_folder_id := fld, sk_name := nm, sk_description := desc, sk_prompt_template := prompt,
       sk_output_schema := out, sk_updated_at := Some now\<rparr>"
| "skill_apply (SetSkillFolder fld now) r = r\<lparr>sk_folder_id := fld, sk_updated_at := Some now\<rparr>"
| "skill_apply (SetSkillDeleted now) r = r\<lparr>sk_deleted_at := Some now, sk_updated_at := Some now\<rparr>"
| "skill_apply (ClearSkillDeleted now) r = r\<lparr>sk_deleted_at := None, sk_updated_at := Some now\<rparr>"

fun skill_sets_content :: "skill_edit \<Rightarrow> bool" where
  "skill_sets_content (SetSkill fld nm desc prompt out now) = True"
| "skill_sets_content (SetSkillFolder fld now) = True"
| "skill_sets_content (SetSkillDeleted now) = False"
| "skill_sets_content (ClearSkillDeleted now) = False"

interpretation skill_rows: named_rows sk_id "\<lambda>r i. r\<lparr>sk_id := i\<rparr>" skill_apply sk_folder_id sk_name
proof
  show "sk_id (skill_apply e r) = sk_id r" for e r
    by (cases e) auto
qed simp

interpretation skill_rev_rows: keyed_rows sr_id "\<lambda>r i. r\<lparr>sr_id := i\<rparr>" "\<lambda>(e::unit) r. r"
  by unfold_locales simp_all

interpretation skill_revs: revisions sr_skill_id sr_revision max_skill_revision
  by unfold_locales (simp add: max_skill_revision_def)

section \<open>Mutators\<close>

definition acta_db_skill_create :: "skill_t \<Rightarrow> db_t \<Rightarrow> int \<times> int option \<times> db_t" where
  "acta_db_skill_create s d =
     (case (s_name s, s_prompt_template s) of
        (Some nm, Some prompt) \<Rightarrow>
          (case sql_write (insert_skills (clock d)
                  \<lparr>sk_id = 0, sk_folder_id = bind_parent (s_folder_id s), sk_name = nm,
                   sk_description = s_description s, sk_prompt_template = prompt,
                   sk_output_schema = s_output_schema s, sk_created_at = clock d,
                   sk_updated_at = None, sk_deleted_at = None\<rparr>) d of
             (Unprepared, d1) \<Rightarrow> (ACTA_DB_ERR_SQL, None, d1)
           | (Stepped rc n, d1) \<Rightarrow>
               if rc \<noteq> SQLITE_DONE
               then (if rc = Constraint SQLITE_CONSTRAINT_UNIQUE then ACTA_DB_ERR_DUPLICATE
                     else if rc = Constraint SQLITE_CONSTRAINT_FOREIGNKEY then ACTA_DB_ERR_FK
                     else ACTA_DB_ERR_SQL, None, d1)
               else (ACTA_DB_OK, Some (c_int n), d1))
      | _ \<Rightarrow> (ACTA_DB_ERR_INVALID, None, d))"

definition sk_missing :: "int \<Rightarrow> string" where
  "sk_missing sid = snprintf 192 (''skill '' @ show_int sid @ '' does not exist or is soft-deleted'')"

definition skill_update_stmt :: "string \<Rightarrow> int \<Rightarrow> (skill_row \<Rightarrow> bool) \<Rightarrow> skill_edit \<Rightarrow> stmt" where
  "skill_update_stmt now sid guard e = update_skills now sid guard (skill_sets_content e) (skill_apply e)"

definition acta_db_skill_update :: "skill_t \<Rightarrow> db_t \<Rightarrow> int \<times> db_t" where
  "acta_db_skill_update s d =
     (if s_id s \<le> 0 then (ACTA_DB_ERR_INVALID, d)
      else case (s_name s, s_prompt_template s) of
        (Some nm, Some prompt) \<Rightarrow>
          (case sql_write (skill_update_stmt (clock d) (s_id s) (\<lambda>r. sk_deleted_at r = None)
                  (SetSkill (bind_parent (s_folder_id s)) nm (s_description s) prompt
                     (s_output_schema s) (clock d))) d of
             (Unprepared, d1) \<Rightarrow> (ACTA_DB_ERR_SQL, d1)
           | (Stepped rc n, d1) \<Rightarrow>
               if rc \<noteq> SQLITE_DONE
               then (if rc = Constraint SQLITE_CONSTRAINT_UNIQUE then ACTA_DB_ERR_DUPLICATE
                     else if rc = Constraint SQLITE_CONSTRAINT_FOREIGNKEY then ACTA_DB_ERR_FK
                     else ACTA_DB_ERR_SQL, d1)
               else if n > 0 then (ACTA_DB_OK, d1)
               else (ACTA_DB_ERR_NOT_FOUND, db_set_error (sk_missing (s_id s)) d1))
      | _ \<Rightarrow> (ACTA_DB_ERR_INVALID, d))"

definition acta_db_skill_soft_delete :: "int \<Rightarrow> db_t \<Rightarrow> int \<times> db_t" where
  "acta_db_skill_soft_delete sid d =
     finish_update ACTA_DB_ERR_NOT_FOUND (sk_missing sid)
       (sql_write (skill_update_stmt (clock d) sid (\<lambda>r. sk_deleted_at r = None)
          (SetSkillDeleted (clock d))) d)"

definition acta_db_skill_restore :: "int \<Rightarrow> db_t \<Rightarrow> int \<times> db_t" where
  "acta_db_skill_restore sid d =
     (case sql_write (skill_update_stmt (clock d) sid (\<lambda>r. sk_deleted_at r \<noteq> None)
             (ClearSkillDeleted (clock d))) d of
        (Unprepared, d1) \<Rightarrow> (ACTA_DB_ERR_SQL, d1)
      | (Stepped rc n, d1) \<Rightarrow>
          if rc \<noteq> SQLITE_DONE then (ACTA_DB_ERR_SQL, d1)
          else if n > 0 then (ACTA_DB_OK, d1)
          else case sql_read (\<lambda>st. filter (\<lambda>r. sk_id r = sid) (rows (skills st))) d1 of
                 (Unreadable, d2) \<Rightarrow> (ACTA_DB_ERR_SQL, d2)
               | (Fetched rs rc' oom, d2) \<Rightarrow>
                   if rs \<noteq> [] then (ACTA_DB_OK, d2)
                   else (ACTA_DB_ERR_NOT_FOUND,
                         db_set_error (snprintf 192 (''skill '' @ show_int sid @ '' does not exist'')) d2))"

definition acta_db_skill_move_to_folder :: "int \<Rightarrow> int \<Rightarrow> db_t \<Rightarrow> int \<times> db_t" where
  "acta_db_skill_move_to_folder skill_id folder_id d =
     (case (if folder_id = 0 then (ACTA_DB_OK, d)
            else case sql_read (\<lambda>st. filter (\<lambda>r. fo_id r = folder_id \<and> fo_deleted_at r = None)
                                            (rows (skill_folders st))) d of
              (Unreadable, d1) \<Rightarrow> (ACTA_DB_ERR_SQL, d1)
            | (Fetched rs rc oom, d1) \<Rightarrow>
                if rs = []
                then (ACTA_DB_ERR_NOT_FOUND,
                      db_set_error (snprintf 192 (''skill_folder '' @ show_int folder_id
                        @ '' does not exist or is soft-deleted'')) d1)
                else (ACTA_DB_OK, d1)) of
        (rc, d2) \<Rightarrow>
          if rc \<noteq> ACTA_DB_OK then (rc, d2)
          else finish_update ACTA_DB_ERR_NOT_FOUND (sk_missing skill_id)
                 (sql_write (skill_update_stmt (clock d2) skill_id (\<lambda>r. sk_deleted_at r = None)
                    (SetSkillFolder (bind_parent folder_id) (clock d2))) d2))"

section \<open>Getters, listers, counts\<close>

definition skill_fetch :: "(skill_row \<Rightarrow> bool) \<Rightarrow> db_t \<Rightarrow> skill_t option \<times> int option \<times> db_t" where
  "skill_fetch sel d =
     (case sql_read (\<lambda>st. filter sel (rows (skills st))) d of
        (Unreadable, d1) \<Rightarrow> (None, Some ACTA_DB_ERR_SQL, d1)
      | (Fetched [] rc oom, d1) \<Rightarrow> (None, Some ACTA_DB_OK, d1)
      | (Fetched (r # rs) rc oom, d1) \<Rightarrow>
          if oom = Some 0 then (None, Some ACTA_DB_ERR_ALLOC, d1)
          else (Some (row_to_skill r), Some ACTA_DB_OK, d1))"

definition acta_db_skill_get :: "int \<Rightarrow> db_t \<Rightarrow> skill_t option \<times> int option \<times> db_t" where
  "acta_db_skill_get sid d =
     (if sid \<le> 0 then (None, Some ACTA_DB_ERR_INVALID, d) else skill_fetch (\<lambda>r. sk_id r = sid) d)"

definition acta_db_skill_get_live :: "int \<Rightarrow> db_t \<Rightarrow> skill_t option \<times> int option \<times> db_t" where
  "acta_db_skill_get_live sid d =
     (if sid \<le> 0 then (None, Some ACTA_DB_ERR_INVALID, d)
      else skill_fetch (\<lambda>r. sk_id r = sid \<and> sk_deleted_at r = None) d)"

text \<open>The body the listers share: prepare, clamp and bind, \<open>collect_skill_rows\<close>.\<close>

definition skill_list :: "(skill_row \<Rightarrow> bool) \<Rightarrow> int \<Rightarrow> int \<Rightarrow> db_t \<Rightarrow> skill_t list \<times> int option \<times> int option \<times> db_t" where
  "skill_list sel offset limit d =
     (if offset < 0 then ([], None, Some ACTA_DB_ERR_INVALID, d)
      else case sql_read (\<lambda>st. sql_page (db_clamp_limit limit) offset
                     (sort_key sk_id (filter sel (rows (skills st))))) d of
        (Unreadable, d1) \<Rightarrow> ([], Some 0, Some ACTA_DB_ERR_SQL, d1)
      | (Fetched rs rc oom, d1) \<Rightarrow>
          (case collect_loop row_to_skill oom rs [] of
             None \<Rightarrow> ([], Some 0, Some ACTA_DB_ERR_ALLOC, d1)
           | Some items \<Rightarrow> (items, Some (int (length items)), Some ACTA_DB_OK, d1)))"

definition acta_db_skill_list_in_folder ::
  "int \<Rightarrow> int \<Rightarrow> int \<Rightarrow> db_t \<Rightarrow> skill_t list \<times> int option \<times> int option \<times> db_t" where
  "acta_db_skill_list_in_folder folder_id offset limit d =
     skill_list (\<lambda>r. sk_folder_id r = bind_parent folder_id \<and> sk_deleted_at r = None) offset limit d"

definition acta_db_skill_list_in_folder_with_deleted ::
  "int \<Rightarrow> int \<Rightarrow> int \<Rightarrow> db_t \<Rightarrow> skill_t list \<times> int option \<times> int option \<times> db_t" where
  "acta_db_skill_list_in_folder_with_deleted folder_id offset limit d =
     skill_list (\<lambda>r. sk_folder_id r = bind_parent folder_id) offset limit d"

definition acta_db_skill_list_all_with_deleted ::
  "int \<Rightarrow> int \<Rightarrow> db_t \<Rightarrow> skill_t list \<times> int option \<times> int option \<times> db_t" where
  "acta_db_skill_list_all_with_deleted offset limit d = skill_list (\<lambda>r. True) offset limit d"

definition acta_db_skill_list_all ::
  "int \<Rightarrow> int \<Rightarrow> db_t \<Rightarrow> skill_t list \<times> int option \<times> int option \<times> db_t" where
  "acta_db_skill_list_all offset limit d = skill_list (\<lambda>r. sk_deleted_at r = None) offset limit d"

definition skills_where :: "(skill_row \<Rightarrow> bool) \<Rightarrow> store \<Rightarrow> nat" where
  "skills_where sel st = length (filter sel (rows (skills st)))"

definition acta_db_skill_count_in_folder :: "int \<Rightarrow> db_t \<Rightarrow> int \<times> int option \<times> db_t" where
  "acta_db_skill_count_in_folder folder_id d =
     sql_count (skills_where (\<lambda>r. sk_folder_id r = bind_parent folder_id \<and> sk_deleted_at r = None)) d"

definition acta_db_skill_count_in_folder_with_deleted :: "int \<Rightarrow> db_t \<Rightarrow> int \<times> int option \<times> db_t" where
  "acta_db_skill_count_in_folder_with_deleted folder_id d =
     sql_count (skills_where (\<lambda>r. sk_folder_id r = bind_parent folder_id)) d"

definition acta_db_skill_count_all_with_deleted :: "db_t \<Rightarrow> int \<times> int option \<times> db_t" where
  "acta_db_skill_count_all_with_deleted d = sql_count (skills_where (\<lambda>r. True)) d"

definition acta_db_skill_count_all :: "db_t \<Rightarrow> int \<times> int option \<times> db_t" where
  "acta_db_skill_count_all d = sql_count (skills_where (\<lambda>r. sk_deleted_at r = None)) d"

section \<open>What the statements do\<close>

text \<open>The revision table after the triggers of an INSERT and of an UPDATE.\<close>

definition skill_logged :: "string \<Rightarrow> skill_edit \<Rightarrow> skill_row \<Rightarrow> skill_revision_row table \<Rightarrow> skill_revision_row table" where
  "skill_logged now e old t =
     (let new = skill_apply e old; rv = max_skill_revision t (sk_id new) + 1 in
      if (if skill_sets_content e
          then sk_deleted_at old = None \<and> sk_deleted_at new = None \<and> skill_content_differs old new
          else sk_deleted_at old = None \<and> sk_deleted_at new \<noteq> None)
      then tbl_ins (\<lambda>i. (skill_snapshot now rv new (sk_deleted_at new))\<lparr>sr_id := i\<rparr>) t
      else t)"

definition skill_edited ::
  "string \<times> int \<times> (skill_row \<Rightarrow> bool) \<times> skill_edit \<Rightarrow> store \<Rightarrow> store \<Rightarrow> bool" where
  "skill_edited a st st' =
     (case a of (now, sid, guard, e) \<Rightarrow>
        \<exists>r. tbl_get sk_id (skills st) sid = Some r \<and> guard r
          \<and> ((sk_folder_id (skill_apply e r), sk_name (skill_apply e r)) = (sk_folder_id r, sk_name r)
             \<or> \<not> uq_clash sk_id sk_folder_id sk_name (skills st) (skill_apply e r))
          \<and> (sk_folder_id (skill_apply e r) = sk_folder_id r
             \<or> fk_ok fo_id (skill_folders st) (sk_folder_id (skill_apply e r)))
          \<and> st' = st\<lparr>skills := tbl_upd (\<lambda>r. sk_id r = sid) (skill_apply e) (skills st),
                     skill_revisions := skill_logged now e r (skill_revisions st)\<rparr>)"

lemma insert_skill_revisions_ran:
  "insert_skill_revisions new st = Inr st' \<Longrightarrow>
     st' = st\<lparr>skill_revisions := tbl_ins (\<lambda>i. new\<lparr>sr_id := i\<rparr>) (skill_revisions st)\<rparr>"
  by (simp add: insert_skill_revisions_def split: if_splits)

lemma skill_update_hit:
  assumes "skill_update_stmt now sid g e st = Inr (n, st')" and "n > 0"
  shows "skill_edited (now, sid, g, e) st st'"
  using assms
  by (auto simp: skill_update_stmt_def update_skills_def skill_edited_def skill_logged_def Let_def
      skills_update_revision_def skills_soft_delete_revision_def
      split: option.splits if_splits sum.splits dest!: insert_skill_revisions_ran)

lemma skill_update_miss:
  "skill_update_stmt now sid g e st = Inr (n, st') \<Longrightarrow> \<not> n > 0 \<Longrightarrow> st' = st"
  by (auto simp: skill_update_stmt_def update_skills_def Let_def
      split: option.splits if_splits sum.splits)

interpretation skill_stmt: update_stmt
  "\<lambda>a. case a of (now, sid, guard, e) \<Rightarrow> skill_update_stmt now sid guard e" skill_edited
  by unfold_locales (auto dest: skill_update_hit skill_update_miss)

lemmas skill_finish = skill_stmt.finish [of _ _ "(now, i, g, e)" for now i g e, unfolded prod.case]
lemmas skill_stepped_ok = skill_stmt.stepped_ok [of "(now, i, g, e)" for now i g e, unfolded prod.case]
lemmas skill_stepped_none = skill_stmt.stepped_none [of "(now, i, g, e)" for now i g e, unfolded prod.case]
lemmas skill_unprepared = skill_stmt.unprepared [of "(now, i, g, e)" for now i g e, unfolded prod.case]

lemma skill_update_effect:
  assumes "acta_db_skill_update s d = (rc, d')"
  shows "\<exists>nm prompt. (rc = ACTA_DB_OK \<longrightarrow> s_name s = Some nm \<and> s_prompt_template s = Some prompt) \<and>
    skill_stmt.effect (clock d, s_id s, \<lambda>r. sk_deleted_at r = None,
      SetSkill (bind_parent (s_folder_id s)) nm (s_description s) prompt (s_output_schema s) (clock d))
      (store d) rc (store d')"
  using assms
  by (force simp: acta_db_skill_update_def skill_stmt.effect_def
      split: if_splits prod.splits option.splits write_result.splits
      dest: skill_stepped_ok skill_stepped_none skill_unprepared)

lemma skill_soft_delete_effect:
  "acta_db_skill_soft_delete sid d = (rc, d') \<Longrightarrow>
     skill_stmt.effect (clock d, sid, \<lambda>r. sk_deleted_at r = None, SetSkillDeleted (clock d))
       (store d) rc (store d')"
  unfolding acta_db_skill_soft_delete_def by (rule skill_finish) auto

text \<open>Restoring a live skill is the success that changes nothing.\<close>

lemma skill_restore_effect:
  assumes "acta_db_skill_restore sid d = (rc, d')"
  shows "store d' = store d \<or>
    skill_stmt.effect (clock d, sid, \<lambda>r. sk_deleted_at r \<noteq> None, ClearSkillDeleted (clock d))
      (store d) rc (store d')"
  using assms
  by (force simp: acta_db_skill_restore_def skill_stmt.effect_def
      split: if_splits prod.splits write_result.splits read_result.splits
      dest: skill_stepped_ok skill_stepped_none skill_unprepared sql_read_store)

lemma skill_move_effect:
  assumes "acta_db_skill_move_to_folder sid fid d = (rc, d')"
  shows "skill_stmt.effect (clock d, sid, \<lambda>r. sk_deleted_at r = None,
     SetSkillFolder (bind_parent fid) (clock d)) (store d) rc (store d')"
  using assms
  by (auto simp: acta_db_skill_move_to_folder_def skill_stmt.effect_fail
      split: if_splits prod.splits read_result.splits
      dest!: sql_read_fields skill_finish)

definition skill_inserted :: "string \<Rightarrow> skill_row \<Rightarrow> store \<Rightarrow> store \<Rightarrow> bool" where
  "skill_inserted now new st st' \<longleftrightarrow>
     (let i = seq (skills st) + 1 in
      \<not> uq_clash sk_id sk_folder_id sk_name (skills st) (new\<lparr>sk_id := i\<rparr>)
      \<and> fk_ok fo_id (skill_folders st) (sk_folder_id new)
      \<and> st' = st\<lparr>skills := tbl_ins (\<lambda>i. new\<lparr>sk_id := i\<rparr>) (skills st),
                 skill_revisions := tbl_ins (\<lambda>k. (skill_snapshot now 1 (new\<lparr>sk_id := i\<rparr>) None)\<lparr>sr_id := k\<rparr>)
                                      (skill_revisions st)\<rparr>)"

lemma insert_skills_ran:
  "insert_skills now new st = Inr (n, st') \<Longrightarrow> n = seq (skills st) + 1 \<and> skill_inserted now new st st'"
  by (auto simp: insert_skills_def skill_inserted_def skills_create_initial_revision_def Let_def
      split: if_splits sum.splits dest!: insert_skill_revisions_ran)

lemma skill_create_effect:
  assumes "acta_db_skill_create s d = (rc, out, d')"
  shows "if rc = ACTA_DB_OK
    then out = Some (c_int (seq (skills (store d)) + 1))
         \<and> (\<exists>nm prompt. s_name s = Some nm \<and> s_prompt_template s = Some prompt
              \<and> skill_inserted (clock d)
                  \<lparr>sk_id = 0, sk_folder_id = bind_parent (s_folder_id s), sk_name = nm,
                   sk_description = s_description s, sk_prompt_template = prompt,
                   sk_output_schema = s_output_schema s, sk_created_at = clock d,
                   sk_updated_at = None, sk_deleted_at = None\<rparr> (store d) (store d'))
    else store d' = store d \<and> out = None"
  using assms
  by (auto simp: acta_db_skill_create_def
      split: if_splits prod.splits option.splits write_result.splits
      elim!: sql_write_cases dest!: insert_skills_ran)

section \<open>The invariant of skills and their history\<close>

definition skill_snapshot_of :: "skill_revision_row \<Rightarrow> skill_row \<Rightarrow> bool" where
  "skill_snapshot_of v s \<longleftrightarrow>
     sr_skill_id v = sk_id s \<and> sr_folder_id v = sk_folder_id s \<and> sr_name v = sk_name s
     \<and> sr_description v = sk_description s \<and> sr_prompt_template v = sk_prompt_template s
     \<and> sr_output_schema v = sk_output_schema s"

definition skill_recorded :: "skill_revision_row table \<Rightarrow> skill_row \<Rightarrow> bool" where
  "skill_recorded t s \<longleftrightarrow>
     (\<exists>n>0. skill_revs.numbered t (sk_id s) n) \<and> skill_snapshot_of (last (skill_revs.history t (sk_id s))) s"

definition skills_ok :: "store \<Rightarrow> bool" where
  "skills_ok st \<longleftrightarrow>
     tbl_ok sk_id (skills st) \<and> uq_ok sk_id sk_folder_id sk_name (skills st)
     \<and> (\<forall>s\<in>set (rows (skills st)). fk_ok fo_id (skill_folders st) (sk_folder_id s))
     \<and> tbl_ok sr_id (skill_revisions st)
     \<and> (\<forall>v\<in>set (rows (skill_revisions st)). has_row sk_id (skills st) (sr_skill_id v))
     \<and> (\<forall>s\<in>set (rows (skills st)). skill_recorded (skill_revisions st) s)"

lemma skills_ok_empty [simp]: "skills_ok empty_store"
  by (simp add: skills_ok_def empty_store_def) (simp add: empty_table_def)

lemma skill_snapshot_snapshot [simp]:
  "skill_snapshot_of ((skill_snapshot now rv s del)\<lparr>sr_id := k\<rparr>) s"
  by (simp add: skill_snapshot_of_def skill_snapshot_def)

lemma skill_snapshot_simps [simp]:
  "sr_skill_id (skill_snapshot now rv s del) = sk_id s" "sr_revision (skill_snapshot now rv s del) = rv"
  "sr_deleted_at (skill_snapshot now rv s del) = del"
  by (simp_all add: skill_snapshot_def)

lemma skill_logged_other:
  "sk_id old \<noteq> i \<Longrightarrow> skill_revs.history (skill_logged now e old t) i = skill_revs.history t i"
  by (simp add: skill_logged_def Let_def skill_revs.history_ins skill_rows.rid_edit)

lemma skill_logged_ok: "tbl_ok sr_id t \<Longrightarrow> tbl_ok sr_id (skill_logged now e old t)"
  by (simp add: skill_logged_def Let_def skill_rev_rows.ok_ins)

lemma skill_logged_owner:
  "v \<in> set (rows (skill_logged now e old t)) \<Longrightarrow> v \<in> set (rows t) \<or> sr_skill_id v = sk_id old"
  by (auto simp: skill_logged_def Let_def skill_rows.rid_edit split: if_splits)

lemma skill_recorded_cong:
  "skill_revs.history t' (sk_id s) = skill_revs.history t (sk_id s) \<Longrightarrow>
     skill_recorded t s \<Longrightarrow> skill_recorded t' s"
  by (auto simp: skill_recorded_def skill_revs.numbered_def)

lemma skill_logged_recorded:
  assumes rec: "skill_recorded t old" and live: "skill_sets_content e \<Longrightarrow> sk_deleted_at old = None"
  shows "skill_recorded (skill_logged now e old t) (skill_apply e old)"
proof (cases "skill_logged now e old t = t")
  case True
  then have "skill_snapshot_of v old \<Longrightarrow> skill_snapshot_of v (skill_apply e old)" for v
    using live
    by (cases e) (auto simp: skill_logged_def Let_def skill_snapshot_of_def skill_content_differs_def
        tbl_ins_def split: if_splits dest: arg_cong [of _ _ "\<lambda>t. length (rows t)"])
  with rec True show ?thesis by (simp add: skill_recorded_def skill_rows.rid_edit)
next
  case False
  let ?new = "skill_apply e old"
  from rec obtain n where n: "n > 0" "skill_revs.numbered t (sk_id old) n"
    by (auto simp: skill_recorded_def)
  let ?snap = "\<lambda>k. (skill_snapshot now (int n + 1) ?new (sk_deleted_at ?new))\<lparr>sr_id := k\<rparr>"
  have l: "skill_logged now e old t = tbl_ins ?snap t"
    using False skill_revs.top_numbered [OF n(2)]
    by (auto simp: skill_logged_def Let_def skill_rows.rid_edit split: if_splits)
  have "skill_revs.numbered (tbl_ins ?snap t) (sk_id old) (Suc n)"
    using n(2) by (rule skill_revs.numbered_ins) (simp_all add: skill_rows.rid_edit)
  moreover have "last (skill_revs.history (tbl_ins ?snap t) (sk_id old)) = ?snap (seq t + 1)"
    by (simp add: skill_revs.history_ins skill_rows.rid_edit)
  ultimately show ?thesis
    unfolding skill_recorded_def l skill_rows.rid_edit by auto
qed

lemma skills_ok_edited:
  assumes ed: "skill_edited (now, sid, g, e) st st'" and ok: "skills_ok st"
    and live: "\<And>r. g r \<Longrightarrow> skill_sets_content e \<Longrightarrow> sk_deleted_at r = None"
  shows "skills_ok st'"
proof -
  from ed obtain r where r: "tbl_get sk_id (skills st) sid = Some r" and g: "g r"
    and uq: "(sk_folder_id (skill_apply e r), sk_name (skill_apply e r)) = (sk_folder_id r, sk_name r)
       \<or> \<not> uq_clash sk_id sk_folder_id sk_name (skills st) (skill_apply e r)"
    and fk: "sk_folder_id (skill_apply e r) = sk_folder_id r
       \<or> fk_ok fo_id (skill_folders st) (sk_folder_id (skill_apply e r))"
    and st': "st' = st\<lparr>skills := tbl_upd (\<lambda>r. sk_id r = sid) (skill_apply e) (skills st),
                     skill_revisions := skill_logged now e r (skill_revisions st)\<rparr>"
    by (auto simp: skill_edited_def)
  have t: "tbl_ok sk_id (skills st)" using ok by (simp add: skills_ok_def)
  have r': "r \<in> set (rows (skills st))" "sk_id r = sid" using tbl_get_SomeD [OF r] by auto
  have rowsD: "q = skill_apply e r \<or> q \<in> set (rows (skills st)) \<and> sk_id q \<noteq> sid"
    if "q \<in> set (rows (skills st'))" for q
    using skill_rows.rows_upd_id [OF t r] that by (simp add: st')
  have fks: "fk_ok fo_id (skill_folders st') (sk_folder_id q)" if "q \<in> set (rows (skills st'))" for q
    using rowsD [OF that] fk ok r'(1) by (auto simp: skills_ok_def st')
  have recs: "skill_recorded (skill_revisions st') q" if "q \<in> set (rows (skills st'))" for q
    using rowsD [OF that]
  proof
    assume "q = skill_apply e r"
    then show ?thesis
      using skill_logged_recorded [of "skill_revisions st" r e now] live [OF g] ok r'(1)
      by (simp add: st' skills_ok_def)
  next
    assume "q \<in> set (rows (skills st)) \<and> sk_id q \<noteq> sid"
    then show ?thesis
      using ok r'(2) skill_recorded_cong [OF skill_logged_other [of r "sk_id q" now e "skill_revisions st"]]
      by (auto simp: st' skills_ok_def)
  qed
  have owners: "has_row sk_id (skills st') (sr_skill_id v)" if "v \<in> set (rows (skill_revisions st'))" for v
    using skill_logged_owner [of v now e r "skill_revisions st"] that ok r r'(2)
    by (auto simp: st' skills_ok_def has_row_def skill_rows.get_upd_id)
  show ?thesis
    unfolding skills_ok_def
    using fks recs owners ok skill_rows.ok_upd [OF t, of _ e] skill_rows.uq_upd [OF _ t r uq]
      skill_logged_ok [of "skill_revisions st" now e r]
    by (simp add: st' skills_ok_def)
qed

lemma skills_ok_inserted:
  assumes ins: "skill_inserted now new st st'" and ok: "skills_ok st"
  shows "skills_ok st'"
proof -
  let ?i = "seq (skills st) + 1"
  let ?new = "new\<lparr>sk_id := ?i\<rparr>"
  let ?snap = "\<lambda>k. (skill_snapshot now 1 ?new None)\<lparr>sr_id := k\<rparr>"
  have uq: "\<not> uq_clash sk_id sk_folder_id sk_name (skills st) ?new"
    and fk: "fk_ok fo_id (skill_folders st) (sk_folder_id new)"
    and st': "st' = st\<lparr>skills := tbl_ins (\<lambda>i. new\<lparr>sk_id := i\<rparr>) (skills st),
                       skill_revisions := tbl_ins ?snap (skill_revisions st)\<rparr>"
    using ins by (auto simp: skill_inserted_def Let_def)
  have t: "tbl_ok sk_id (skills st)" using ok by (simp add: skills_ok_def)
  have fresh: "sr_skill_id v \<noteq> ?i" if "v \<in> set (rows (skill_revisions st))" for v
    using ok that skill_rows.fresh_id [OF t] by (auto simp: skills_ok_def has_row_def)
  then have "skill_revs.numbered (skill_revisions st) ?i 0"
    by (auto simp: skill_revs.numbered_empty_iff)
  then have "skill_revs.numbered (tbl_ins ?snap (skill_revisions st)) ?i (Suc 0)"
    by (rule skill_revs.numbered_ins) simp_all
  then have new: "skill_recorded (tbl_ins ?snap (skill_revisions st)) ?new"
    unfolding skill_recorded_def by (auto simp: skill_revs.history_ins)
  have old: "skill_recorded (tbl_ins ?snap (skill_revisions st)) s" if "s \<in> set (rows (skills st))" for s
  proof (rule skill_recorded_cong)
    have "sk_id s \<noteq> ?i" using t that by (force simp: tbl_ok_def)
    then show "skill_revs.history (tbl_ins ?snap (skill_revisions st)) (sk_id s)
               = skill_revs.history (skill_revisions st) (sk_id s)"
      by (simp add: skill_revs.history_ins)
  qed (use ok that in \<open>simp add: skills_ok_def\<close>)
  have owners: "has_row sk_id (tbl_ins (\<lambda>i. new\<lparr>sk_id := i\<rparr>) (skills st)) k"
    if "has_row sk_id (skills st) k \<or> k = ?i" for k
    using that skill_rows.get_ins [OF t, of new] by (auto simp: has_row_def)
  show ?thesis
    unfolding skills_ok_def
    using ok fk uq new old owners skill_rows.ok_ins [OF t, of new] skill_rows.uq_ins [of "skills st" new]
      skill_rev_rows.ok_ins [of "skill_revisions st" "skill_snapshot now 1 ?new None"]
    by (auto simp: st' skills_ok_def)
qed

end
