(* ===== verification/Models.thy ===== *)
theory Models
  imports Revisions Folders "HOL-Library.Sublist"
begin

text \<open>
  \<^verbatim>\<open>acta_db/src/model.c\<close>: models, and the revision rows the schema's triggers snapshot
  for them; the counterpart of \<open>Skills\<close>, with the differences the code has: a failed INSERT is
  classified by the text of \<^verbatim>\<open>sqlite3_errmsg\<close>, a failed UPDATE not at all, the getters do
  not write \<^verbatim>\<open>*err\<close> on success, and the listers store the count on other branches.
\<close>

record model_t =
  m_id :: int
  m_folder_id :: int
  m_name :: "string option"
  m_description :: "string option"
  m_backend :: "string option"
  m_base_url :: "string option"
  m_model_identifier :: "string option"
  m_configuration :: "string option"
  m_created_at :: "string option"
  m_updated_at :: "string option"
  m_deleted_at :: "string option"

definition row_to_model :: "model_row \<Rightarrow> model_t" where
  "row_to_model r =
     \<lparr>m_id = c_int (mo_id r),
      m_folder_id = (case mo_folder_id r of None \<Rightarrow> 0 | Some i \<Rightarrow> c_int i),
      m_name = Some (mo_name r), m_description = mo_description r,
      m_backend = Some (mo_backend r), m_base_url = mo_base_url r,
      m_model_identifier = Some (mo_model_identifier r), m_configuration = mo_configuration r,
      m_created_at = Some (mo_created_at r), m_updated_at = mo_updated_at r,
      m_deleted_at = mo_deleted_at r\<rparr>"

datatype model_edit =
    SetModel "int option" string "string option" string "string option" string "string option" string
  | SetModelFolder "int option" string
  | SetModelDeleted string
  | ClearModelDeleted string

fun model_apply :: "model_edit \<Rightarrow> model_row \<Rightarrow> model_row" where
  "model_apply (SetModel fld nm desc backend url ident conf now) r =
     r\<lparr>mo_folder_id := fld, mo_name := nm, mo_description := desc, mo_backend := backend,
       mo_base_url := url, mo_model_identifier := ident, mo_configuration := conf,
       mo_updated_at := Some now\<rparr>"
| "model_apply (SetModelFolder fld now) r = r\<lparr>mo_folder_id := fld, mo_updated_at := Some now\<rparr>"
| "model_apply (SetModelDeleted now) r = r\<lparr>mo_deleted_at := Some now, mo_updated_at := Some now\<rparr>"
| "model_apply (ClearModelDeleted now) r = r\<lparr>mo_deleted_at := None, mo_updated_at := Some now\<rparr>"

fun model_sets_content :: "model_edit \<Rightarrow> bool" where
  "model_sets_content (SetModel fld nm desc backend url ident conf now) = True"
| "model_sets_content (SetModelFolder fld now) = True"
| "model_sets_content (SetModelDeleted now) = False"
| "model_sets_content (ClearModelDeleted now) = False"

interpretation model_rows: named_rows mo_id "\<lambda>r i. r\<lparr>mo_id := i\<rparr>" model_apply mo_folder_id mo_name
proof
  show "mo_id (model_apply e r) = mo_id r" for e r
    by (cases e) auto
qed simp

interpretation model_rev_rows: keyed_rows mr_id "\<lambda>r i. r\<lparr>mr_id := i\<rparr>" "\<lambda>(e::unit) r. r"
  by unfold_locales simp_all

interpretation model_revs: revisions mr_model_id mr_revision max_model_revision
  by unfold_locales (simp add: max_model_revision_def)

section \<open>Mutators\<close>

text \<open>
  The text of \<^verbatim>\<open>sqlite3_errmsg\<close> after a failed step: SQLite's fixed wording for the
  constraints, \<open>engine_msg\<close> for anything else. \<^verbatim>\<open>strstr\<close> is \<open>sublist\<close>.
\<close>

fun sqlite3_errmsg :: "sql_rc \<Rightarrow> db_t \<Rightarrow> string" where
  "sqlite3_errmsg (Constraint SQLITE_CONSTRAINT_UNIQUE) d = ''UNIQUE constraint failed: models.folder_id, models.name''"
| "sqlite3_errmsg (Constraint SQLITE_CONSTRAINT_FOREIGNKEY) d = ''FOREIGN KEY constraint failed''"
| "sqlite3_errmsg (Constraint SQLITE_CONSTRAINT_CHECK) d = ''CHECK constraint failed''"
| "sqlite3_errmsg rc d = engine_msg d"

definition acta_db_model_create :: "model_t \<Rightarrow> db_t \<Rightarrow> int \<times> int option \<times> db_t" where
  "acta_db_model_create m d =
     (case (m_name m, m_backend m, m_model_identifier m) of
        (Some nm, Some backend, Some ident) \<Rightarrow>
          (case sql_write (insert_models (clock d)
                  \<lparr>mo_id = 0, mo_folder_id = bind_parent (m_folder_id m), mo_name = nm,
                   mo_description = m_description m, mo_backend = backend,
                   mo_base_url = m_base_url m, mo_model_identifier = ident,
                   mo_configuration = m_configuration m, mo_created_at = clock d,
                   mo_updated_at = None, mo_deleted_at = None\<rparr>) d of
             (Unprepared, d1) \<Rightarrow> (ACTA_DB_ERR_SQL, None, d1)
           | (Stepped rc n, d1) \<Rightarrow>
               if rc \<noteq> SQLITE_DONE
               then let msg = sqlite3_errmsg rc d1 in
                    (if sublist ''UNIQUE constraint failed'' msg then ACTA_DB_ERR_DUPLICATE
                     else if sublist ''FOREIGN KEY'' msg then ACTA_DB_ERR_FK
                     else ACTA_DB_ERR_SQL, None, d1)
               else (ACTA_DB_OK, Some (c_int n), d1))
      | _ \<Rightarrow> (ACTA_DB_ERR_INVALID, None, d))"

definition mo_missing :: "int \<Rightarrow> string" where
  "mo_missing mid = snprintf 192 (''model '' @ show_int mid @ '' does not exist or is soft-deleted'')"

definition model_update_stmt :: "string \<Rightarrow> int \<Rightarrow> (model_row \<Rightarrow> bool) \<Rightarrow> model_edit \<Rightarrow> stmt" where
  "model_update_stmt now mid guard e = update_models now mid guard (model_sets_content e) (model_apply e)"

definition acta_db_model_update :: "model_t \<Rightarrow> db_t \<Rightarrow> int \<times> db_t" where
  "acta_db_model_update m d =
     (if m_id m \<le> 0 then (ACTA_DB_ERR_INVALID, d)
      else case (m_name m, m_backend m, m_model_identifier m) of
        (Some nm, Some backend, Some ident) \<Rightarrow>
          finish_update ACTA_DB_ERR_NOT_FOUND (mo_missing (m_id m))
            (sql_write (model_update_stmt (clock d) (m_id m) (\<lambda>r. mo_deleted_at r = None)
               (SetModel (bind_parent (m_folder_id m)) nm (m_description m) backend (m_base_url m)
                  ident (m_configuration m) (clock d))) d)
      | _ \<Rightarrow> (ACTA_DB_ERR_INVALID, d))"

definition acta_db_model_soft_delete :: "int \<Rightarrow> db_t \<Rightarrow> int \<times> db_t" where
  "acta_db_model_soft_delete mid d =
     finish_update ACTA_DB_ERR_NOT_FOUND (mo_missing mid)
       (sql_write (model_update_stmt (clock d) mid (\<lambda>r. mo_deleted_at r = None)
          (SetModelDeleted (clock d))) d)"

definition acta_db_model_restore :: "int \<Rightarrow> db_t \<Rightarrow> int \<times> db_t" where
  "acta_db_model_restore mid d =
     (case sql_write (model_update_stmt (clock d) mid (\<lambda>r. mo_deleted_at r \<noteq> None)
             (ClearModelDeleted (clock d))) d of
        (Unprepared, d1) \<Rightarrow> (ACTA_DB_ERR_SQL, d1)
      | (Stepped rc n, d1) \<Rightarrow>
          if rc \<noteq> SQLITE_DONE then (ACTA_DB_ERR_SQL, d1)
          else if n > 0 then (ACTA_DB_OK, d1)
          else case sql_read (\<lambda>st. filter (\<lambda>r. mo_id r = mid) (rows (models st))) d1 of
                 (Unreadable, d2) \<Rightarrow> (ACTA_DB_ERR_SQL, d2)
               | (Fetched rs rc' oom, d2) \<Rightarrow>
                   if rs \<noteq> [] then (ACTA_DB_OK, d2)
                   else (ACTA_DB_ERR_NOT_FOUND,
                         db_set_error (snprintf 192 (''model '' @ show_int mid @ '' does not exist'')) d2))"

definition acta_db_model_move_to_folder :: "int \<Rightarrow> int \<Rightarrow> db_t \<Rightarrow> int \<times> db_t" where
  "acta_db_model_move_to_folder model_id folder_id d =
     (case (if folder_id = 0 then (ACTA_DB_OK, d)
            else case sql_read (\<lambda>st. filter (\<lambda>r. fo_id r = folder_id \<and> fo_deleted_at r = None)
                                            (rows (model_folders st))) d of
              (Unreadable, d1) \<Rightarrow> (ACTA_DB_ERR_SQL, d1)
            | (Fetched rs rc oom, d1) \<Rightarrow>
                if rs = []
                then (ACTA_DB_ERR_NOT_FOUND,
                      db_set_error (snprintf 192 (''model_folder '' @ show_int folder_id
                        @ '' does not exist or is soft-deleted'')) d1)
                else (ACTA_DB_OK, d1)) of
        (rc, d2) \<Rightarrow>
          if rc \<noteq> ACTA_DB_OK then (rc, d2)
          else finish_update ACTA_DB_ERR_NOT_FOUND (mo_missing model_id)
                 (sql_write (model_update_stmt (clock d2) model_id (\<lambda>r. mo_deleted_at r = None)
                    (SetModelFolder (bind_parent folder_id) (clock d2))) d2))"

section \<open>Getters, listers, counts\<close>

text \<open>The getters leave \<^verbatim>\<open>*err\<close> alone when they return a row.\<close>

definition model_fetch :: "(model_row \<Rightarrow> bool) \<Rightarrow> db_t \<Rightarrow> model_t option \<times> int option \<times> db_t" where
  "model_fetch sel d =
     (case sql_read (\<lambda>st. filter sel (rows (models st))) d of
        (Unreadable, d1) \<Rightarrow> (None, Some ACTA_DB_ERR_SQL, d1)
      | (Fetched [] rc oom, d1) \<Rightarrow> (None, Some ACTA_DB_OK, d1)
      | (Fetched (r # rs) rc oom, d1) \<Rightarrow>
          if oom = Some 0 then (None, Some ACTA_DB_ERR_ALLOC, d1)
          else (Some (row_to_model r), None, d1))"

definition acta_db_model_get :: "int \<Rightarrow> db_t \<Rightarrow> model_t option \<times> int option \<times> db_t" where
  "acta_db_model_get mid d = model_fetch (\<lambda>r. mo_id r = mid) d"

definition acta_db_model_get_live :: "int \<Rightarrow> db_t \<Rightarrow> model_t option \<times> int option \<times> db_t" where
  "acta_db_model_get_live mid d = model_fetch (\<lambda>r. mo_id r = mid \<and> mo_deleted_at r = None) d"

text \<open>The body the listers share: prepare, clamp and bind, \<open>run_model_query\<close>.\<close>

definition model_list :: "(model_row \<Rightarrow> bool) \<Rightarrow> int \<Rightarrow> int \<Rightarrow> db_t \<Rightarrow> model_t list \<times> int option \<times> int option \<times> db_t" where
  "model_list sel offset limit d =
     (if offset < 0 then ([], Some 0, Some ACTA_DB_ERR_INVALID, d)
      else case sql_read (\<lambda>st. sql_page (db_clamp_limit limit) offset
                     (sort_key mo_id (filter sel (rows (models st))))) d of
        (Unreadable, d1) \<Rightarrow> ([], None, Some ACTA_DB_ERR_SQL, d1)
      | (Fetched rs rc oom, d1) \<Rightarrow>
          (case collect_loop row_to_model oom rs [] of
             None \<Rightarrow> ([], Some 0, Some ACTA_DB_ERR_ALLOC, d1)
           | Some items \<Rightarrow> (items, Some (int (length items)), Some ACTA_DB_OK, d1)))"

definition acta_db_model_list_in_folder ::
  "int \<Rightarrow> int \<Rightarrow> int \<Rightarrow> db_t \<Rightarrow> model_t list \<times> int option \<times> int option \<times> db_t" where
  "acta_db_model_list_in_folder folder_id offset limit d =
     model_list (\<lambda>r. mo_folder_id r = bind_parent folder_id \<and> mo_deleted_at r = None) offset limit d"

definition acta_db_model_list_in_folder_with_deleted ::
  "int \<Rightarrow> int \<Rightarrow> int \<Rightarrow> db_t \<Rightarrow> model_t list \<times> int option \<times> int option \<times> db_t" where
  "acta_db_model_list_in_folder_with_deleted folder_id offset limit d =
     model_list (\<lambda>r. mo_folder_id r = bind_parent folder_id) offset limit d"

definition acta_db_model_list_all_with_deleted ::
  "int \<Rightarrow> int \<Rightarrow> db_t \<Rightarrow> model_t list \<times> int option \<times> int option \<times> db_t" where
  "acta_db_model_list_all_with_deleted offset limit d = model_list (\<lambda>r. True) offset limit d"

definition acta_db_model_list_all ::
  "int \<Rightarrow> int \<Rightarrow> db_t \<Rightarrow> model_t list \<times> int option \<times> int option \<times> db_t" where
  "acta_db_model_list_all offset limit d = model_list (\<lambda>r. mo_deleted_at r = None) offset limit d"

definition models_where :: "(model_row \<Rightarrow> bool) \<Rightarrow> store \<Rightarrow> nat" where
  "models_where sel st = length (filter sel (rows (models st)))"

definition acta_db_model_count_in_folder :: "int \<Rightarrow> db_t \<Rightarrow> int \<times> int option \<times> db_t" where
  "acta_db_model_count_in_folder folder_id d =
     sql_count (models_where (\<lambda>r. mo_folder_id r = bind_parent folder_id \<and> mo_deleted_at r = None)) d"

definition acta_db_model_count_in_folder_with_deleted :: "int \<Rightarrow> db_t \<Rightarrow> int \<times> int option \<times> db_t" where
  "acta_db_model_count_in_folder_with_deleted folder_id d =
     sql_count (models_where (\<lambda>r. mo_folder_id r = bind_parent folder_id)) d"

definition acta_db_model_count_all_with_deleted :: "db_t \<Rightarrow> int \<times> int option \<times> db_t" where
  "acta_db_model_count_all_with_deleted d = sql_count (models_where (\<lambda>r. True)) d"

definition acta_db_model_count_all :: "db_t \<Rightarrow> int \<times> int option \<times> db_t" where
  "acta_db_model_count_all d = sql_count (models_where (\<lambda>r. mo_deleted_at r = None)) d"

section \<open>What the statements do\<close>

text \<open>The revision table after the triggers of an INSERT and of an UPDATE.\<close>

definition model_logged :: "string \<Rightarrow> model_edit \<Rightarrow> model_row \<Rightarrow> model_revision_row table \<Rightarrow> model_revision_row table" where
  "model_logged now e old t =
     (let new = model_apply e old; rv = max_model_revision t (mo_id new) + 1 in
      if (if model_sets_content e
          then mo_deleted_at old = None \<and> mo_deleted_at new = None \<and> model_content_differs old new
          else mo_deleted_at old = None \<and> mo_deleted_at new \<noteq> None)
      then tbl_ins (\<lambda>i. (model_snapshot now rv new (mo_deleted_at new))\<lparr>mr_id := i\<rparr>) t
      else t)"

definition model_edited ::
  "string \<times> int \<times> (model_row \<Rightarrow> bool) \<times> model_edit \<Rightarrow> store \<Rightarrow> store \<Rightarrow> bool" where
  "model_edited a st st' =
     (case a of (now, mid, guard, e) \<Rightarrow>
        \<exists>r. tbl_get mo_id (models st) mid = Some r \<and> guard r
          \<and> ((mo_folder_id (model_apply e r), mo_name (model_apply e r)) = (mo_folder_id r, mo_name r)
             \<or> \<not> uq_clash mo_id mo_folder_id mo_name (models st) (model_apply e r))
          \<and> (mo_folder_id (model_apply e r) = mo_folder_id r
             \<or> fk_ok fo_id (model_folders st) (mo_folder_id (model_apply e r)))
          \<and> st' = st\<lparr>models := tbl_upd (\<lambda>r. mo_id r = mid) (model_apply e) (models st),
                     model_revisions := model_logged now e r (model_revisions st)\<rparr>)"

lemma insert_model_revisions_ran:
  "insert_model_revisions new st = Inr st' \<Longrightarrow>
     st' = st\<lparr>model_revisions := tbl_ins (\<lambda>i. new\<lparr>mr_id := i\<rparr>) (model_revisions st)\<rparr>"
  by (simp add: insert_model_revisions_def split: if_splits)

lemma model_update_hit:
  assumes "model_update_stmt now mid g e st = Inr (n, st')" and "n > 0"
  shows "model_edited (now, mid, g, e) st st'"
  using assms
  by (auto simp: model_update_stmt_def update_models_def model_edited_def model_logged_def Let_def
      models_update_revision_def models_soft_delete_revision_def
      split: option.splits if_splits sum.splits dest!: insert_model_revisions_ran)

lemma model_update_miss:
  "model_update_stmt now mid g e st = Inr (n, st') \<Longrightarrow> \<not> n > 0 \<Longrightarrow> st' = st"
  by (auto simp: model_update_stmt_def update_models_def Let_def
      split: option.splits if_splits sum.splits)

interpretation model_stmt: update_stmt
  "\<lambda>a. case a of (now, mid, guard, e) \<Rightarrow> model_update_stmt now mid guard e" model_edited
  by unfold_locales (auto dest: model_update_hit model_update_miss)

lemmas model_finish = model_stmt.finish [of _ _ "(now, i, g, e)" for now i g e, unfolded prod.case]
lemmas model_stepped_ok = model_stmt.stepped_ok [of "(now, i, g, e)" for now i g e, unfolded prod.case]
lemmas model_stepped_none = model_stmt.stepped_none [of "(now, i, g, e)" for now i g e, unfolded prod.case]
lemmas model_unprepared = model_stmt.unprepared [of "(now, i, g, e)" for now i g e, unfolded prod.case]

lemma model_update_effect:
  assumes "acta_db_model_update m d = (rc, d')"
  shows "\<exists>nm backend ident.
    (rc = ACTA_DB_OK \<longrightarrow> m_name m = Some nm \<and> m_backend m = Some backend \<and> m_model_identifier m = Some ident) \<and>
    model_stmt.effect (clock d, m_id m, \<lambda>r. mo_deleted_at r = None,
      SetModel (bind_parent (m_folder_id m)) nm (m_description m) backend (m_base_url m) ident
        (m_configuration m) (clock d)) (store d) rc (store d')"
  using assms
  by (force simp: acta_db_model_update_def model_stmt.effect_fail
      split: if_splits option.splits dest!: model_finish)

lemma model_soft_delete_effect:
  "acta_db_model_soft_delete mid d = (rc, d') \<Longrightarrow>
     model_stmt.effect (clock d, mid, \<lambda>r. mo_deleted_at r = None, SetModelDeleted (clock d))
       (store d) rc (store d')"
  unfolding acta_db_model_soft_delete_def by (rule model_finish) auto

text \<open>Restoring a live model is the success that changes nothing.\<close>

lemma model_restore_effect:
  assumes "acta_db_model_restore mid d = (rc, d')"
  shows "store d' = store d \<or>
    model_stmt.effect (clock d, mid, \<lambda>r. mo_deleted_at r \<noteq> None, ClearModelDeleted (clock d))
      (store d) rc (store d')"
  using assms
  by (force simp: acta_db_model_restore_def model_stmt.effect_def
      split: if_splits prod.splits write_result.splits read_result.splits
      dest: model_stepped_ok model_stepped_none model_unprepared sql_read_store)

lemma model_move_effect:
  assumes "acta_db_model_move_to_folder mid fid d = (rc, d')"
  shows "model_stmt.effect (clock d, mid, \<lambda>r. mo_deleted_at r = None,
     SetModelFolder (bind_parent fid) (clock d)) (store d) rc (store d')"
  using assms
  by (auto simp: acta_db_model_move_to_folder_def model_stmt.effect_fail
      split: if_splits prod.splits read_result.splits
      dest!: sql_read_fields model_finish)

definition model_inserted :: "string \<Rightarrow> model_row \<Rightarrow> store \<Rightarrow> store \<Rightarrow> bool" where
  "model_inserted now new st st' \<longleftrightarrow>
     (let i = seq (models st) + 1 in
      \<not> uq_clash mo_id mo_folder_id mo_name (models st) (new\<lparr>mo_id := i\<rparr>)
      \<and> fk_ok fo_id (model_folders st) (mo_folder_id new)
      \<and> st' = st\<lparr>models := tbl_ins (\<lambda>i. new\<lparr>mo_id := i\<rparr>) (models st),
                 model_revisions := tbl_ins (\<lambda>k. (model_snapshot now 1 (new\<lparr>mo_id := i\<rparr>) None)\<lparr>mr_id := k\<rparr>)
                                      (model_revisions st)\<rparr>)"

lemma insert_models_ran:
  "insert_models now new st = Inr (n, st') \<Longrightarrow> n = seq (models st) + 1 \<and> model_inserted now new st st'"
  by (auto simp: insert_models_def model_inserted_def models_create_initial_revision_def Let_def
      split: if_splits sum.splits dest!: insert_model_revisions_ran)

lemma model_create_effect:
  assumes "acta_db_model_create m d = (rc, out, d')"
  shows "if rc = ACTA_DB_OK
    then out = Some (c_int (seq (models (store d)) + 1))
         \<and> (\<exists>nm backend ident. m_name m = Some nm \<and> m_backend m = Some backend
              \<and> m_model_identifier m = Some ident
              \<and> model_inserted (clock d)
                  \<lparr>mo_id = 0, mo_folder_id = bind_parent (m_folder_id m), mo_name = nm,
                   mo_description = m_description m, mo_backend = backend,
                   mo_base_url = m_base_url m, mo_model_identifier = ident,
                   mo_configuration = m_configuration m, mo_created_at = clock d,
                   mo_updated_at = None, mo_deleted_at = None\<rparr> (store d) (store d'))
    else store d' = store d \<and> out = None"
  using assms
  by (auto simp: acta_db_model_create_def Let_def
      split: if_splits prod.splits option.splits write_result.splits
      elim!: sql_write_cases dest!: insert_models_ran)

section \<open>The invariant of models and their history\<close>

definition model_snapshot_of :: "model_revision_row \<Rightarrow> model_row \<Rightarrow> bool" where
  "model_snapshot_of v s \<longleftrightarrow>
     mr_model_id v = mo_id s \<and> mr_folder_id v = mo_folder_id s \<and> mr_name v = mo_name s
     \<and> mr_description v = mo_description s \<and> mr_backend v = mo_backend s
     \<and> mr_base_url v = mo_base_url s \<and> mr_model_identifier v = mo_model_identifier s
     \<and> mr_configuration v = mo_configuration s"

definition model_recorded :: "model_revision_row table \<Rightarrow> model_row \<Rightarrow> bool" where
  "model_recorded t s \<longleftrightarrow>
     (\<exists>n>0. model_revs.numbered t (mo_id s) n) \<and> model_snapshot_of (last (model_revs.history t (mo_id s))) s"

definition models_ok :: "store \<Rightarrow> bool" where
  "models_ok st \<longleftrightarrow>
     tbl_ok mo_id (models st) \<and> uq_ok mo_id mo_folder_id mo_name (models st)
     \<and> (\<forall>s\<in>set (rows (models st)). fk_ok fo_id (model_folders st) (mo_folder_id s))
     \<and> tbl_ok mr_id (model_revisions st)
     \<and> (\<forall>v\<in>set (rows (model_revisions st)). has_row mo_id (models st) (mr_model_id v))
     \<and> (\<forall>s\<in>set (rows (models st)). model_recorded (model_revisions st) s)"

lemma models_ok_empty [simp]: "models_ok empty_store"
  by (simp add: models_ok_def empty_store_def) (simp add: empty_table_def)

lemma model_snapshot_snapshot [simp]:
  "model_snapshot_of ((model_snapshot now rv s del)\<lparr>mr_id := k\<rparr>) s"
  by (simp add: model_snapshot_of_def model_snapshot_def)

lemma model_snapshot_simps [simp]:
  "mr_model_id (model_snapshot now rv s del) = mo_id s" "mr_revision (model_snapshot now rv s del) = rv"
  "mr_deleted_at (model_snapshot now rv s del) = del"
  by (simp_all add: model_snapshot_def)

lemma model_logged_other:
  "mo_id old \<noteq> i \<Longrightarrow> model_revs.history (model_logged now e old t) i = model_revs.history t i"
  by (simp add: model_logged_def Let_def model_revs.history_ins model_rows.rid_edit)

lemma model_logged_ok: "tbl_ok mr_id t \<Longrightarrow> tbl_ok mr_id (model_logged now e old t)"
  by (simp add: model_logged_def Let_def model_rev_rows.ok_ins)

lemma model_logged_owner:
  "v \<in> set (rows (model_logged now e old t)) \<Longrightarrow> v \<in> set (rows t) \<or> mr_model_id v = mo_id old"
  by (auto simp: model_logged_def Let_def model_rows.rid_edit split: if_splits)

lemma model_recorded_cong:
  "model_revs.history t' (mo_id s) = model_revs.history t (mo_id s) \<Longrightarrow>
     model_recorded t s \<Longrightarrow> model_recorded t' s"
  by (auto simp: model_recorded_def model_revs.numbered_def)

lemma model_logged_recorded:
  assumes rec: "model_recorded t old" and live: "model_sets_content e \<Longrightarrow> mo_deleted_at old = None"
  shows "model_recorded (model_logged now e old t) (model_apply e old)"
proof (cases "model_logged now e old t = t")
  case True
  then have "model_snapshot_of v old \<Longrightarrow> model_snapshot_of v (model_apply e old)" for v
    using live
    by (cases e) (auto simp: model_logged_def Let_def model_snapshot_of_def model_content_differs_def
        tbl_ins_def split: if_splits dest: arg_cong [of _ _ "\<lambda>t. length (rows t)"])
  with rec True show ?thesis by (simp add: model_recorded_def model_rows.rid_edit)
next
  case False
  let ?new = "model_apply e old"
  from rec obtain n where n: "n > 0" "model_revs.numbered t (mo_id old) n"
    by (auto simp: model_recorded_def)
  let ?snap = "\<lambda>k. (model_snapshot now (int n + 1) ?new (mo_deleted_at ?new))\<lparr>mr_id := k\<rparr>"
  have l: "model_logged now e old t = tbl_ins ?snap t"
    using False model_revs.top_numbered [OF n(2)]
    by (auto simp: model_logged_def Let_def model_rows.rid_edit split: if_splits)
  have "model_revs.numbered (tbl_ins ?snap t) (mo_id old) (Suc n)"
    using n(2) by (rule model_revs.numbered_ins) (simp_all add: model_rows.rid_edit)
  moreover have "last (model_revs.history (tbl_ins ?snap t) (mo_id old)) = ?snap (seq t + 1)"
    by (simp add: model_revs.history_ins model_rows.rid_edit)
  ultimately show ?thesis
    unfolding model_recorded_def l model_rows.rid_edit by auto
qed

lemma models_ok_edited:
  assumes ed: "model_edited (now, mid, g, e) st st'" and ok: "models_ok st"
    and live: "\<And>r. g r \<Longrightarrow> model_sets_content e \<Longrightarrow> mo_deleted_at r = None"
  shows "models_ok st'"
proof -
  from ed obtain r where r: "tbl_get mo_id (models st) mid = Some r" and g: "g r"
    and uq: "(mo_folder_id (model_apply e r), mo_name (model_apply e r)) = (mo_folder_id r, mo_name r)
       \<or> \<not> uq_clash mo_id mo_folder_id mo_name (models st) (model_apply e r)"
    and fk: "mo_folder_id (model_apply e r) = mo_folder_id r
       \<or> fk_ok fo_id (model_folders st) (mo_folder_id (model_apply e r))"
    and st': "st' = st\<lparr>models := tbl_upd (\<lambda>r. mo_id r = mid) (model_apply e) (models st),
                     model_revisions := model_logged now e r (model_revisions st)\<rparr>"
    by (auto simp: model_edited_def)
  have t: "tbl_ok mo_id (models st)" using ok by (simp add: models_ok_def)
  have r': "r \<in> set (rows (models st))" "mo_id r = mid" using tbl_get_SomeD [OF r] by auto
  have rowsD: "q = model_apply e r \<or> q \<in> set (rows (models st)) \<and> mo_id q \<noteq> mid"
    if "q \<in> set (rows (models st'))" for q
    using model_rows.rows_upd_id [OF t r] that by (simp add: st')
  have fks: "fk_ok fo_id (model_folders st') (mo_folder_id q)" if "q \<in> set (rows (models st'))" for q
    using rowsD [OF that] fk ok r'(1) by (auto simp: models_ok_def st')
  have recs: "model_recorded (model_revisions st') q" if "q \<in> set (rows (models st'))" for q
    using rowsD [OF that]
  proof
    assume "q = model_apply e r"
    then show ?thesis
      using model_logged_recorded [of "model_revisions st" r e now] live [OF g] ok r'(1)
      by (simp add: st' models_ok_def)
  next
    assume "q \<in> set (rows (models st)) \<and> mo_id q \<noteq> mid"
    then show ?thesis
      using ok r'(2) model_recorded_cong [OF model_logged_other [of r "mo_id q" now e "model_revisions st"]]
      by (auto simp: st' models_ok_def)
  qed
  have owners: "has_row mo_id (models st') (mr_model_id v)" if "v \<in> set (rows (model_revisions st'))" for v
    using model_logged_owner [of v now e r "model_revisions st"] that ok r r'(2)
    by (auto simp: st' models_ok_def has_row_def model_rows.get_upd_id)
  show ?thesis
    unfolding models_ok_def
    using fks recs owners ok model_rows.ok_upd [OF t, of _ e] model_rows.uq_upd [OF _ t r uq]
      model_logged_ok [of "model_revisions st" now e r]
    by (simp add: st' models_ok_def)
qed

lemma models_ok_inserted:
  assumes ins: "model_inserted now new st st'" and ok: "models_ok st"
  shows "models_ok st'"
proof -
  let ?i = "seq (models st) + 1"
  let ?new = "new\<lparr>mo_id := ?i\<rparr>"
  let ?snap = "\<lambda>k. (model_snapshot now 1 ?new None)\<lparr>mr_id := k\<rparr>"
  have uq: "\<not> uq_clash mo_id mo_folder_id mo_name (models st) ?new"
    and fk: "fk_ok fo_id (model_folders st) (mo_folder_id new)"
    and st': "st' = st\<lparr>models := tbl_ins (\<lambda>i. new\<lparr>mo_id := i\<rparr>) (models st),
                       model_revisions := tbl_ins ?snap (model_revisions st)\<rparr>"
    using ins by (auto simp: model_inserted_def Let_def)
  have t: "tbl_ok mo_id (models st)" using ok by (simp add: models_ok_def)
  have fresh: "mr_model_id v \<noteq> ?i" if "v \<in> set (rows (model_revisions st))" for v
    using ok that model_rows.fresh_id [OF t] by (auto simp: models_ok_def has_row_def)
  then have "model_revs.numbered (model_revisions st) ?i 0"
    by (auto simp: model_revs.numbered_empty_iff)
  then have "model_revs.numbered (tbl_ins ?snap (model_revisions st)) ?i (Suc 0)"
    by (rule model_revs.numbered_ins) simp_all
  then have new: "model_recorded (tbl_ins ?snap (model_revisions st)) ?new"
    unfolding model_recorded_def by (auto simp: model_revs.history_ins)
  have old: "model_recorded (tbl_ins ?snap (model_revisions st)) s" if "s \<in> set (rows (models st))" for s
  proof (rule model_recorded_cong)
    have "mo_id s \<noteq> ?i" using t that by (force simp: tbl_ok_def)
    then show "model_revs.history (tbl_ins ?snap (model_revisions st)) (mo_id s)
               = model_revs.history (model_revisions st) (mo_id s)"
      by (simp add: model_revs.history_ins)
  qed (use ok that in \<open>simp add: models_ok_def\<close>)
  have owners: "has_row mo_id (tbl_ins (\<lambda>i. new\<lparr>mo_id := i\<rparr>) (models st)) k"
    if "has_row mo_id (models st) k \<or> k = ?i" for k
    using that model_rows.get_ins [OF t, of new] by (auto simp: has_row_def)
  show ?thesis
    unfolding models_ok_def
    using ok fk uq new old owners model_rows.ok_ins [OF t, of new] model_rows.uq_ins [of "models st" new]
      model_rev_rows.ok_ins [of "model_revisions st" "model_snapshot now 1 ?new None"]
    by (auto simp: st' models_ok_def)
qed

end
