(* ===== verification/System.thy ===== *)
theory System
  imports Execution_Lifecycle Contexts Execution_Logs Skill_Folders Model_Folders Skills Models
begin

text \<open>
  The library as a whole. \<open>lib_call\<close> is one call of any of its mutators, under any engine behaviour;
  \<open>db_step\<close> is the specification of what a call may do to the store: one guarded change of one
  table (with the revision its trigger adds), and nothing else. Every call refines \<open>db_step\<close>: it
  fails and leaves the store alone, or it succeeds by such a step. The invariants \<open>db_ok\<close> of the
  nine tables and the provenance of executions are then proved once, for \<open>db_step\<close>.
\<close>

section \<open>Calls\<close>

inductive lib_call :: "db_t \<Rightarrow> int \<Rightarrow> db_t \<Rightarrow> bool" where
  sf_create: "acta_db_skill_folder_create name p d = (rc, out, d') \<Longrightarrow> lib_call d rc d'"
| sf_rename: "acta_db_skill_folder_rename i name d = (rc, d') \<Longrightarrow> lib_call d rc d'"
| sf_move: "acta_db_skill_folder_move_to i p d = (rc, d') \<Longrightarrow> lib_call d rc d'"
| sf_delete: "acta_db_skill_folder_soft_delete i d = (rc, d') \<Longrightarrow> lib_call d rc d'"
| sf_restore: "acta_db_skill_folder_restore i d = (rc, d') \<Longrightarrow> lib_call d rc d'"
| mf_create: "acta_db_model_folder_create name p d = (rc, out, d') \<Longrightarrow> lib_call d rc d'"
| mf_rename: "acta_db_model_folder_rename i name d = (rc, d') \<Longrightarrow> lib_call d rc d'"
| mf_move: "acta_db_model_folder_move_to i p d = (rc, d') \<Longrightarrow> lib_call d rc d'"
| mf_delete: "acta_db_model_folder_soft_delete i d = (rc, d') \<Longrightarrow> lib_call d rc d'"
| mf_restore: "acta_db_model_folder_restore i d = (rc, d') \<Longrightarrow> lib_call d rc d'"
| sk_create: "acta_db_skill_create s d = (rc, out, d') \<Longrightarrow> lib_call d rc d'"
| sk_update: "acta_db_skill_update s d = (rc, d') \<Longrightarrow> lib_call d rc d'"
| sk_delete: "acta_db_skill_soft_delete i d = (rc, d') \<Longrightarrow> lib_call d rc d'"
| sk_restore: "acta_db_skill_restore i d = (rc, d') \<Longrightarrow> lib_call d rc d'"
| sk_move: "acta_db_skill_move_to_folder i f d = (rc, d') \<Longrightarrow> lib_call d rc d'"
| mo_create: "acta_db_model_create m d = (rc, out, d') \<Longrightarrow> lib_call d rc d'"
| mo_update: "acta_db_model_update m d = (rc, d') \<Longrightarrow> lib_call d rc d'"
| mo_delete: "acta_db_model_soft_delete i d = (rc, d') \<Longrightarrow> lib_call d rc d'"
| mo_restore: "acta_db_model_restore i d = (rc, d') \<Longrightarrow> lib_call d rc d'"
| mo_move: "acta_db_model_move_to_folder i f d = (rc, d') \<Longrightarrow> lib_call d rc d'"
| cx_create: "acta_db_context_create c d = (rc, out, d') \<Longrightarrow> lib_call d rc d'"
| cx_delete: "acta_db_context_delete i d = (rc, d') \<Longrightarrow> lib_call d rc d'"
| cx_restore: "acta_db_context_restore i d = (rc, d') \<Longrightarrow> lib_call d rc d'"
| ex_mutate: "exec_call d rc d' \<Longrightarrow> lib_call d rc d'"
| lg_create: "acta_db_execution_log_create l d = (rc, out, d') \<Longrightarrow> lib_call d rc d'"

section \<open>What a call may do to the store\<close>

inductive db_step :: "store \<Rightarrow> store \<Rightarrow> bool" where
  st_skip: "db_step st st"
| st_sf_ins: "insert_folder new (skill_folders st) = Inr (n, t) \<Longrightarrow> db_step st (st\<lparr>skill_folders := t\<rparr>)"
| st_sf_edit: "folder_edited a (skill_folders st) t \<Longrightarrow> db_step st (st\<lparr>skill_folders := t\<rparr>)"
| st_mf_ins: "insert_folder new (model_folders st) = Inr (n, t) \<Longrightarrow> db_step st (st\<lparr>model_folders := t\<rparr>)"
| st_mf_edit: "folder_edited a (model_folders st) t \<Longrightarrow> db_step st (st\<lparr>model_folders := t\<rparr>)"
| st_sk_ins: "skill_inserted now snew st st' \<Longrightarrow> db_step st st'"
| st_sk_edit: "skill_edited (now, i, sg, se) st st' \<Longrightarrow>
    (\<And>r. sg r \<Longrightarrow> skill_sets_content se \<Longrightarrow> sk_deleted_at r = None) \<Longrightarrow> db_step st st'"
| st_mo_ins: "model_inserted now mnew st st' \<Longrightarrow> db_step st st'"
| st_mo_edit: "model_edited (now, i, mg, me) st st' \<Longrightarrow>
    (\<And>r. mg r \<Longrightarrow> model_sets_content me \<Longrightarrow> mo_deleted_at r = None) \<Longrightarrow> db_step st st'"
| st_cx_ins: "db_step st (st\<lparr>contexts := tbl_ins (\<lambda>i. cnew\<lparr>cx_id := i\<rparr>) (contexts st)\<rparr>)"
| st_cx_edit: "ctx_edited (i, cg, ce) st st' \<Longrightarrow> db_step st st'"
| st_ex_ins: "exec_row_ok enew \<Longrightarrow> ex_status enew = ''pending'' \<Longrightarrow>
    has_row cx_id (contexts st) (ex_context_id enew) \<Longrightarrow>
    has_row sr_id (skill_revisions st) (ex_skill_revision_id enew) \<Longrightarrow>
    has_row mr_id (model_revisions st) (ex_model_revision_id enew) \<Longrightarrow>
    fk_ok ex_id (executions st) (ex_parent_execution_id enew)
      \<or> ex_parent_execution_id enew = Some (seq (executions st) + 1) \<Longrightarrow>
    db_step st (st\<lparr>executions := tbl_ins (\<lambda>i. enew\<lparr>ex_id := i\<rparr>) (executions st)\<rparr>)"
| st_ex_edit: "tbl_get ex_id (executions st) i = Some r \<Longrightarrow> edit_guard ee r \<Longrightarrow>
    db_step st (st\<lparr>executions := tbl_upd (\<lambda>r. ex_id r = i) (exec_apply ee) (executions st)\<rparr>)"
| st_lg_ins: "log_level_check (lg_level lnew) \<Longrightarrow>
    has_row ex_id (executions st) (lg_execution_id lnew) \<Longrightarrow>
    db_step st (st\<lparr>execution_logs := tbl_ins (\<lambda>i. lnew\<lparr>lg_id := i\<rparr>) (execution_logs st)\<rparr>)"

definition step_or_keep :: "store \<Rightarrow> int \<Rightarrow> store \<Rightarrow> bool" where
  "step_or_keep st rc st' \<longleftrightarrow> (if rc = ACTA_DB_OK then db_step st st' else st' = st)"

lemma keep: "rc \<noteq> ACTA_DB_OK \<Longrightarrow> step_or_keep st rc st"
  and skip: "step_or_keep st rc st"
  by (simp_all add: step_or_keep_def st_skip)

lemma sf_effect_step: "skill_folder_stmt.effect a st rc st' \<Longrightarrow> step_or_keep st rc st'"
  by (auto simp: skill_folder_stmt.effect_def step_or_keep_def skill_folder_edited_def
      intro: st_sf_edit split: if_splits)

lemma mf_effect_step: "model_folder_stmt.effect a st rc st' \<Longrightarrow> step_or_keep st rc st'"
  by (auto simp: model_folder_stmt.effect_def step_or_keep_def model_folder_edited_def
      intro: st_mf_edit split: if_splits)

lemma sk_effect_step:
  "skill_stmt.effect (now, i, g, e) st rc st' \<Longrightarrow>
     (\<And>r. g r \<Longrightarrow> skill_sets_content e \<Longrightarrow> sk_deleted_at r = None) \<Longrightarrow> step_or_keep st rc st'"
  by (auto simp: skill_stmt.effect_def step_or_keep_def intro: st_sk_edit split: if_splits)

lemma mo_effect_step:
  "model_stmt.effect (now, i, g, e) st rc st' \<Longrightarrow>
     (\<And>r. g r \<Longrightarrow> model_sets_content e \<Longrightarrow> mo_deleted_at r = None) \<Longrightarrow> step_or_keep st rc st'"
  by (auto simp: model_stmt.effect_def step_or_keep_def intro: st_mo_edit split: if_splits)

lemma cx_effect_step: "ctx_stmt.effect (i, g, e) st rc st' \<Longrightarrow> step_or_keep st rc st'"
  by (auto simp: ctx_stmt.effect_def step_or_keep_def intro: st_cx_edit split: if_splits)

lemma ex_effect_step:
  "exec_effect i g e st rc st' \<Longrightarrow> (\<And>r. g r \<Longrightarrow> edit_guard e r) \<Longrightarrow> step_or_keep st rc st'"
  by (auto simp: exec_effect_def step_or_keep_def intro: st_ex_edit split: if_splits)

lemma exec_create_step:
  assumes "acta_db_execution_create e d = (rc, out, d')"
  shows "step_or_keep (store d) rc (store d')"
proof (cases "rc = ACTA_DB_OK")
  case True
  let ?new = "\<lparr>ex_id = 0, ex_context_id = e_context_id e,
     ex_skill_revision_id = e_skill_revision_id e, ex_model_revision_id = e_model_revision_id e,
     ex_raw_response = None, ex_result = None, ex_status = ''pending'',
     ex_error = None, ex_created_at = clock d, ex_started_at = None,
     ex_completed_at = None, ex_deleted_at = None,
     ex_parent_execution_id =
       (if e_parent_execution_id e = 0 then None else Some (e_parent_execution_id e))\<rparr>"
  have "db_step (store d)
      ((store d)\<lparr>executions := tbl_ins (\<lambda>i. ?new\<lparr>ex_id := i\<rparr>) (executions (store d))\<rparr>)"
    by (rule st_ex_ins)
      (use create_effect [OF assms] True in \<open>auto simp: exec_row_ok_def fk_ok_def\<close>)
  then show ?thesis
    using create_effect [OF assms] True by (simp add: step_or_keep_def)
qed (use create_effect [OF assms] in \<open>simp add: step_or_keep_def\<close>)

lemma exec_call_step: "exec_call d rc d' \<Longrightarrow> step_or_keep (store d) rc (store d')"
  by (induction rule: exec_call.induct)
    (auto dest!: exec_effects exec_create_step elim!: ex_effect_step)

lemma skill_folder_create_step:
  "acta_db_skill_folder_create name p d = (rc, out, d') \<Longrightarrow> step_or_keep (store d) rc (store d')"
  by (drule skill_folder_create_effect) (auto simp: step_or_keep_def intro: st_sf_ins split: if_splits)

lemma model_folder_create_step:
  "acta_db_model_folder_create name p d = (rc, out, d') \<Longrightarrow> step_or_keep (store d) rc (store d')"
  by (drule model_folder_create_effect) (auto simp: step_or_keep_def intro: st_mf_ins split: if_splits)

lemma skill_create_step:
  "acta_db_skill_create s d = (rc, out, d') \<Longrightarrow> step_or_keep (store d) rc (store d')"
  by (drule skill_create_effect) (auto simp: step_or_keep_def intro: st_sk_ins split: if_splits)

lemma model_create_step:
  "acta_db_model_create s d = (rc, out, d') \<Longrightarrow> step_or_keep (store d) rc (store d')"
  by (drule model_create_effect) (auto simp: step_or_keep_def intro: st_mo_ins split: if_splits)

lemma context_create_step:
  assumes "acta_db_context_create c d = (rc, out, d')"
  shows "step_or_keep (store d) rc (store d')"
proof (cases "rc = ACTA_DB_OK")
  case True
  then obtain ty content hash where "store d' = (store d)\<lparr>contexts := tbl_ins (\<lambda>i.
       \<lparr>cx_id = 0, cx_type = ty, cx_content = content, cx_content_hash = hash,
        cx_metadata = c_metadata c, cx_created_at = clock d, cx_deleted_at = None\<rparr>\<lparr>cx_id := i\<rparr>)
       (contexts (store d))\<rparr>"
    using context_create_effect [OF assms] by auto
  then show ?thesis unfolding step_or_keep_def using True st_cx_ins by (metis (full_types))
qed (use context_create_effect [OF assms] in \<open>simp add: step_or_keep_def\<close>)

lemma log_create_step:
  assumes "acta_db_execution_log_create l d = (rc, out, d')"
  shows "step_or_keep (store d) rc (store d')"
proof (cases "rc = ACTA_DB_OK")
  case True
  then obtain level event where level: "log_level_check level"
    and owner: "has_row ex_id (executions (store d)) (l_execution_id l)"
    and st: "store d' = (store d)\<lparr>execution_logs := tbl_ins (\<lambda>i.
       \<lparr>lg_id = i, lg_execution_id = l_execution_id l, lg_level = level, lg_event = event,
        lg_message = l_message l, lg_metadata = l_metadata l, lg_created_at = clock d\<rparr>)
       (execution_logs (store d))\<rparr>"
    using log_create_effect [OF assms] by auto
  let ?new = "\<lparr>lg_id = 0, lg_execution_id = l_execution_id l, lg_level = level, lg_event = event,
     lg_message = l_message l, lg_metadata = l_metadata l, lg_created_at = clock d\<rparr>"
  have "db_step (store d)
      ((store d)\<lparr>execution_logs := tbl_ins (\<lambda>i. ?new\<lparr>lg_id := i\<rparr>) (execution_logs (store d))\<rparr>)"
    by (rule st_lg_ins) (use level owner in simp_all)
  then show ?thesis using True by (simp add: step_or_keep_def st)
qed (use log_create_effect [OF assms] in \<open>simp add: step_or_keep_def\<close>)

lemmas create_steps = skill_folder_create_step model_folder_create_step skill_create_step
  model_create_step context_create_step log_create_step exec_call_step

lemma lib_call_step: "lib_call d rc d' \<Longrightarrow> step_or_keep (store d) rc (store d')"
proof (induction rule: lib_call.induct)
  case (sf_rename i name d rc d')
  then show ?case by (blast dest: skill_folder_rename_effect intro: sf_effect_step)
next
  case (mf_rename i name d rc d')
  then show ?case by (blast dest: model_folder_rename_effect intro: mf_effect_step)
next
  case (mf_move i p d rc d')
  then show ?case by (auto dest!: model_folder_move_effect intro: mf_effect_step skip)
next
  case (sk_update s d rc d')
  then show ?case by (auto dest!: skill_update_effect elim!: sk_effect_step)
next
  case (mo_update s d rc d')
  then show ?case by (auto dest!: model_update_effect elim!: mo_effect_step)
next
  case (sk_restore i d rc d')
  then show ?case by (auto dest!: skill_restore_effect elim!: sk_effect_step intro: skip)
next
  case (mo_restore i d rc d')
  then show ?case by (auto dest!: model_restore_effect elim!: mo_effect_step intro: skip)
qed (auto dest: create_steps dest!: skill_folder_move_effect skill_folder_soft_delete_effect
    skill_folder_restore_effect model_folder_soft_delete_effect model_folder_restore_effect
    skill_soft_delete_effect skill_move_effect model_soft_delete_effect model_move_effect
    context_delete_effect context_restore_effect
    intro: sf_effect_step mf_effect_step cx_effect_step elim: sk_effect_step mo_effect_step)

section \<open>The invariant of the store\<close>

definition exec_refs_ok :: "store \<Rightarrow> bool" where
  "exec_refs_ok st \<longleftrightarrow> (\<forall>r\<in>set (rows (executions st)).
     has_row cx_id (contexts st) (ex_context_id r)
     \<and> has_row sr_id (skill_revisions st) (ex_skill_revision_id r)
     \<and> has_row mr_id (model_revisions st) (ex_model_revision_id r)
     \<and> fk_ok ex_id (executions st) (ex_parent_execution_id r))"

definition logs_ok :: "store \<Rightarrow> bool" where
  "logs_ok st \<longleftrightarrow> tbl_ok lg_id (execution_logs st)
     \<and> (\<forall>l\<in>set (rows (execution_logs st)).
           log_level_check (lg_level l) \<and> has_row ex_id (executions st) (lg_execution_id l))"

definition db_ok :: "store \<Rightarrow> bool" where
  "db_ok st \<longleftrightarrow> folders_ok (skill_folders st) \<and> folders_ok (model_folders st)
     \<and> skills_ok st \<and> models_ok st \<and> tbl_ok cx_id (contexts st)
     \<and> exec_ok st \<and> exec_refs_ok st \<and> logs_ok st"

lemma db_ok_empty [simp]: "db_ok empty_store"
  by (simp add: db_ok_def exec_ok_def exec_refs_ok_def logs_ok_def)
    (simp add: empty_store_def, simp add: empty_table_def)

lemma folder_edited_has:
  "folder_edited a t t' \<Longrightarrow> has_row fo_id t' k = has_row fo_id t k"
  by (cases a) (auto simp: folder_edited_def)

lemma fk_folder_edited: "folder_edited a t t' \<Longrightarrow> fk_ok fo_id t' k = fk_ok fo_id t k"
  by (cases k) (simp_all add: fk_ok_def folder_edited_has)

lemma insert_folder_fk:
  "insert_folder new t = Inr (n, t') \<Longrightarrow> tbl_ok fo_id t \<Longrightarrow> fk_ok fo_id t k \<Longrightarrow> fk_ok fo_id t' k"
  by (auto dest!: insert_folder_ran intro: folder_rows.fk_ins_mono)

lemma skills_ok_folders:
  "skills_ok st \<Longrightarrow> (\<And>k. fk_ok fo_id (skill_folders st) k \<Longrightarrow> fk_ok fo_id t k) \<Longrightarrow>
     skills_ok (st\<lparr>skill_folders := t\<rparr>)"
  by (simp add: skills_ok_def)

lemma models_ok_folders:
  "models_ok st \<Longrightarrow> (\<And>k. fk_ok fo_id (model_folders st) k \<Longrightarrow> fk_ok fo_id t k) \<Longrightarrow>
     models_ok (st\<lparr>model_folders := t\<rparr>)"
  by (simp add: models_ok_def)

text \<open>The invariant of a component only looks at its own tables.\<close>

lemma ok_congs [simp]:
  "skills_ok (st\<lparr>model_folders := mf\<rparr>) = skills_ok st" "skills_ok (st\<lparr>models := mo\<rparr>) = skills_ok st"
  "skills_ok (st\<lparr>model_revisions := mr\<rparr>) = skills_ok st" "skills_ok (st\<lparr>contexts := cx\<rparr>) = skills_ok st"
  "skills_ok (st\<lparr>executions := ex\<rparr>) = skills_ok st" "skills_ok (st\<lparr>execution_logs := lg\<rparr>) = skills_ok st"
  "models_ok (st\<lparr>skill_folders := sf\<rparr>) = models_ok st" "models_ok (st\<lparr>skills := sk\<rparr>) = models_ok st"
  "models_ok (st\<lparr>skill_revisions := sr\<rparr>) = models_ok st" "models_ok (st\<lparr>contexts := cx\<rparr>) = models_ok st"
  "models_ok (st\<lparr>executions := ex\<rparr>) = models_ok st" "models_ok (st\<lparr>execution_logs := lg\<rparr>) = models_ok st"
  by (simp_all add: skills_ok_def models_ok_def)

lemma exec_congs [simp]:
  "exec_ok (st\<lparr>model_folders := mf\<rparr>) = exec_ok st" "exec_ok (st\<lparr>skill_folders := mf\<rparr>) = exec_ok st"
  "exec_ok (st\<lparr>contexts := cx\<rparr>) = exec_ok st" "exec_ok (st\<lparr>execution_logs := lg\<rparr>) = exec_ok st"
  "exec_ok (st\<lparr>skills := sk, skill_revisions := sr\<rparr>) = exec_ok st"
  "exec_ok (st\<lparr>models := mo, model_revisions := mr\<rparr>) = exec_ok st"
  by (simp_all add: exec_ok_def)

lemma refs_congs [simp]:
  "exec_refs_ok (st\<lparr>model_folders := mf\<rparr>) = exec_refs_ok st"
  "exec_refs_ok (st\<lparr>skill_folders := mf\<rparr>) = exec_refs_ok st"
  "exec_refs_ok (st\<lparr>execution_logs := lg\<rparr>) = exec_refs_ok st"
  "logs_ok (st\<lparr>model_folders := mf\<rparr>) = logs_ok st" "logs_ok (st\<lparr>skill_folders := mf\<rparr>) = logs_ok st"
  "logs_ok (st\<lparr>contexts := cx\<rparr>) = logs_ok st"
  "logs_ok (st\<lparr>skills := sk, skill_revisions := sr\<rparr>) = logs_ok st"
  "logs_ok (st\<lparr>models := mo, model_revisions := mr\<rparr>) = logs_ok st"
  by (simp_all add: exec_refs_ok_def logs_ok_def)

text \<open>References stay valid when the table they point to only gains rows.\<close>

lemma refs_mono:
  assumes "exec_refs_ok st" and "executions st' = executions st"
    and "\<And>i. has_row cx_id (contexts st) i \<Longrightarrow> has_row cx_id (contexts st') i"
    and "\<And>i. has_row sr_id (skill_revisions st) i \<Longrightarrow> has_row sr_id (skill_revisions st') i"
    and "\<And>i. has_row mr_id (model_revisions st) i \<Longrightarrow> has_row mr_id (model_revisions st') i"
  shows "exec_refs_ok st'"
  using assms by (simp add: exec_refs_ok_def)

lemma skill_logged_has:
  "tbl_ok sr_id t \<Longrightarrow> has_row sr_id t i \<Longrightarrow> has_row sr_id (skill_logged now e old t) i"
  using skill_rev_rows.has_ins [of t] by (simp add: skill_logged_def Let_def)

lemma model_logged_has:
  "tbl_ok mr_id t \<Longrightarrow> has_row mr_id t i \<Longrightarrow> has_row mr_id (model_logged now e old t) i"
  using model_rev_rows.has_ins [of t] by (simp add: model_logged_def Let_def)

definition skill_tables_grow :: "store \<Rightarrow> store \<Rightarrow> bool" where
  "skill_tables_grow st st' \<longleftrightarrow>
     (\<exists>t v. st' = st\<lparr>skills := t, skill_revisions := v\<rparr>
        \<and> (\<forall>i. has_row sr_id (skill_revisions st) i \<longrightarrow> has_row sr_id v i))"

lemma skill_step_ok:
  assumes ok: "db_ok st" and sk: "skills_ok st'" and grow: "skill_tables_grow st st'"
  shows "db_ok st'"
proof -
  from grow obtain t v where st': "st' = st\<lparr>skills := t, skill_revisions := v\<rparr>"
    and mono: "\<And>i. has_row sr_id (skill_revisions st) i \<Longrightarrow> has_row sr_id v i"
    by (auto simp: skill_tables_grow_def)
  have "exec_refs_ok st'"
    by (rule refs_mono [of st]) (use ok mono in \<open>simp_all add: db_ok_def st'\<close>)
  then show ?thesis using ok sk by (simp add: db_ok_def st')
qed

lemma skill_inserted_grow:
  assumes "skill_inserted now new st st'" and t: "tbl_ok sr_id (skill_revisions st)"
  shows "skill_tables_grow st st'"
  unfolding skill_tables_grow_def
proof (intro exI conjI)
  let ?new = "new\<lparr>sk_id := seq (skills st) + 1\<rparr>"
  show "st' = st\<lparr>skills := tbl_ins (\<lambda>i. new\<lparr>sk_id := i\<rparr>) (skills st),
      skill_revisions := tbl_ins (\<lambda>k. (skill_snapshot now 1 ?new None)\<lparr>sr_id := k\<rparr>) (skill_revisions st)\<rparr>"
    using assms(1) by (simp add: skill_inserted_def Let_def)
qed (use skill_rev_rows.has_ins [OF t] in simp)

lemma skill_edited_grow:
  assumes "skill_edited (now, i, g, e) st st'" and t: "tbl_ok sr_id (skill_revisions st)"
  shows "skill_tables_grow st st'"
proof -
  from assms(1) obtain r where "st' = st\<lparr>skills := tbl_upd (\<lambda>r. sk_id r = i) (skill_apply e) (skills st),
      skill_revisions := skill_logged now e r (skill_revisions st)\<rparr>"
    by (auto simp: skill_edited_def)
  then show ?thesis
    unfolding skill_tables_grow_def using skill_logged_has [OF t] by blast
qed

definition model_tables_grow :: "store \<Rightarrow> store \<Rightarrow> bool" where
  "model_tables_grow st st' \<longleftrightarrow>
     (\<exists>t v. st' = st\<lparr>models := t, model_revisions := v\<rparr>
        \<and> (\<forall>i. has_row mr_id (model_revisions st) i \<longrightarrow> has_row mr_id v i))"

lemma model_step_ok:
  assumes ok: "db_ok st" and sk: "models_ok st'" and grow: "model_tables_grow st st'"
  shows "db_ok st'"
proof -
  from grow obtain t v where st': "st' = st\<lparr>models := t, model_revisions := v\<rparr>"
    and mono: "\<And>i. has_row mr_id (model_revisions st) i \<Longrightarrow> has_row mr_id v i"
    by (auto simp: model_tables_grow_def)
  have "exec_refs_ok st'"
    by (rule refs_mono [of st]) (use ok mono in \<open>simp_all add: db_ok_def st'\<close>)
  then show ?thesis using ok sk by (simp add: db_ok_def st')
qed

lemma model_inserted_grow:
  assumes "model_inserted now new st st'" and t: "tbl_ok mr_id (model_revisions st)"
  shows "model_tables_grow st st'"
  unfolding model_tables_grow_def
proof (intro exI conjI)
  let ?new = "new\<lparr>mo_id := seq (models st) + 1\<rparr>"
  show "st' = st\<lparr>models := tbl_ins (\<lambda>i. new\<lparr>mo_id := i\<rparr>) (models st),
      model_revisions := tbl_ins (\<lambda>k. (model_snapshot now 1 ?new None)\<lparr>mr_id := k\<rparr>) (model_revisions st)\<rparr>"
    using assms(1) by (simp add: model_inserted_def Let_def)
qed (use model_rev_rows.has_ins [OF t] in simp)

lemma model_edited_grow:
  assumes "model_edited (now, i, g, e) st st'" and t: "tbl_ok mr_id (model_revisions st)"
  shows "model_tables_grow st st'"
proof -
  from assms(1) obtain r where "st' = st\<lparr>models := tbl_upd (\<lambda>r. mo_id r = i) (model_apply e) (models st),
      model_revisions := model_logged now e r (model_revisions st)\<rparr>"
    by (auto simp: model_edited_def)
  then show ?thesis
    unfolding model_tables_grow_def using model_logged_has [OF t] by blast
qed

lemma exec_ins_ok:
  assumes ok: "db_ok st" and new: "exec_row_ok new"
    and refs: "has_row cx_id (contexts st) (ex_context_id new)"
      "has_row sr_id (skill_revisions st) (ex_skill_revision_id new)"
      "has_row mr_id (model_revisions st) (ex_model_revision_id new)"
    and par: "fk_ok ex_id (executions st) (ex_parent_execution_id new)
      \<or> ex_parent_execution_id new = Some (seq (executions st) + 1)"
  shows "db_ok (st\<lparr>executions := tbl_ins (\<lambda>i. new\<lparr>ex_id := i\<rparr>) (executions st)\<rparr>)"
proof -
  have t: "tbl_ok ex_id (executions st)" using ok by (simp add: db_ok_def exec_ok_def)
  let ?t = "tbl_ins (\<lambda>i. new\<lparr>ex_id := i\<rparr>) (executions st)"
  have mono: "has_row ex_id (executions st) i \<Longrightarrow> has_row ex_id ?t i" for i
    using exec_rows.has_ins [OF t] by simp
  have "fk_ok ex_id ?t (ex_parent_execution_id new)"
    using par exec_rows.has_ins [OF t] by (auto simp: fk_ok_def split: option.splits)
  then have "exec_refs_ok (st\<lparr>executions := ?t\<rparr>)"
    using ok refs exec_rows.fk_ins_mono [OF t] by (simp add: db_ok_def exec_refs_ok_def)
  moreover have "exec_ok (st\<lparr>executions := ?t\<rparr>)"
    using ok new exec_rows.ok_ins [OF t] by (auto simp: db_ok_def exec_ok_def)
  moreover have "logs_ok (st\<lparr>executions := ?t\<rparr>)"
    using ok mono by (simp add: db_ok_def logs_ok_def)
  ultimately show ?thesis using ok by (simp add: db_ok_def)
qed

lemma exec_refs_edit: "ex_context_id (exec_apply e r) = ex_context_id r"
  "ex_skill_revision_id (exec_apply e r) = ex_skill_revision_id r"
  "ex_model_revision_id (exec_apply e r) = ex_model_revision_id r"
  "ex_parent_execution_id (exec_apply e r) = ex_parent_execution_id r"
  by (cases e; simp)+

lemma exec_edit_ok:
  assumes ok: "db_ok st" and r: "tbl_get ex_id (executions st) i = Some r" and g: "edit_guard e r"
  shows "db_ok (st\<lparr>executions := tbl_upd (\<lambda>r. ex_id r = i) (exec_apply e) (executions st)\<rparr>)"
    (is "db_ok ?st")
proof -
  have "call_outcome st ACTA_DB_OK ?st"
    unfolding call_outcome_def using r g by blast
  then have "exec_ok ?st" using ok outcome_exec_ok by (simp add: db_ok_def)
  moreover have "exec_refs_ok ?st"
    using ok by (auto simp: db_ok_def exec_refs_ok_def rows_tbl_upd exec_refs_edit)
  moreover have "logs_ok ?st"
    using ok by (simp add: db_ok_def logs_ok_def)
  ultimately show ?thesis using ok by (simp add: db_ok_def)
qed

lemma db_step_ok: "db_step st st' \<Longrightarrow> db_ok st \<Longrightarrow> db_ok st'"
proof (induction rule: db_step.induct)
  case (st_sf_ins new st n t)
  then show ?case
    using folders_ok_insert skills_ok_folders [of st t] insert_folder_fk [OF st_sf_ins.hyps]
    by (auto simp: db_ok_def folders_ok_def)
next
  case (st_sf_edit a st t)
  then show ?case
    using skills_ok_folders [of st t] fk_folder_edited [OF st_sf_edit.hyps]
    by (cases a) (auto simp: db_ok_def dest: folders_ok_edited)
next
  case (st_mf_ins new st n t)
  then show ?case
    using folders_ok_insert models_ok_folders [of st t] insert_folder_fk [OF st_mf_ins.hyps]
    by (auto simp: db_ok_def folders_ok_def)
next
  case (st_mf_edit a st t)
  then show ?case
    using models_ok_folders [of st t] fk_folder_edited [OF st_mf_edit.hyps]
    by (cases a) (auto simp: db_ok_def dest: folders_ok_edited)
next
  case (st_sk_ins now new st st')
  then have "skills_ok st'" and "skill_tables_grow st st'"
    by (auto simp: db_ok_def skills_ok_def [of st] dest: skills_ok_inserted intro: skill_inserted_grow)
  with st_sk_ins show ?case by (blast intro: skill_step_ok)
next
  case (st_sk_edit now i g e st st')
  then have "skills_ok st" by (simp add: db_ok_def)
  then have "skills_ok st'" and "skill_tables_grow st st'"
    using skills_ok_edited [OF st_sk_edit(1)] st_sk_edit(2) skill_edited_grow [OF st_sk_edit(1)]
    by (blast, simp add: skills_ok_def)
  with st_sk_edit show ?case by (blast intro: skill_step_ok)
next
  case (st_mo_ins now new st st')
  then have "models_ok st'" and "model_tables_grow st st'"
    by (auto simp: db_ok_def models_ok_def [of st] dest: models_ok_inserted intro: model_inserted_grow)
  with st_mo_ins show ?case by (blast intro: model_step_ok)
next
  case (st_mo_edit now i g e st st')
  then have "models_ok st" by (simp add: db_ok_def)
  then have "models_ok st'" and "model_tables_grow st st'"
    using models_ok_edited [OF st_mo_edit(1)] st_mo_edit(2) model_edited_grow [OF st_mo_edit(1)]
    by (blast, simp add: models_ok_def)
  with st_mo_edit show ?case by (blast intro: model_step_ok)
next
  case (st_cx_ins st new)
  then have t: "tbl_ok cx_id (contexts st)" by (simp add: db_ok_def)
  have "exec_refs_ok (st\<lparr>contexts := tbl_ins (\<lambda>i. new\<lparr>cx_id := i\<rparr>) (contexts st)\<rparr>)"
    by (rule refs_mono [of st]) (use st_cx_ins ctx_rows.has_ins [OF t] in \<open>simp_all add: db_ok_def\<close>)
  with st_cx_ins show ?case using ctx_rows.ok_ins [OF t] by (simp add: db_ok_def)
next
  case (st_cx_edit i g e st st')
  then have t: "tbl_ok cx_id (contexts st)" by (simp add: db_ok_def)
  from st_cx_edit(1) have st': "st' = st\<lparr>contexts := tbl_upd (\<lambda>r. cx_id r = i) (ctx_apply e) (contexts st)\<rparr>"
    by (auto simp: ctx_edited_def)
  have "exec_refs_ok st'"
    by (rule refs_mono [of st]) (use st_cx_edit in \<open>simp_all add: db_ok_def st'\<close>)
  with st_cx_edit show ?case using ctx_rows.ok_upd [OF t] by (simp add: db_ok_def st')
next
  case (st_lg_ins new st)
  then show ?case
    using log_rows.ok_ins [of "execution_logs st" new]
    by (auto simp: db_ok_def logs_ok_def exec_ok_def)
qed (auto intro: exec_ins_ok exec_edit_ok)

section \<open>What never changes\<close>

text \<open>The columns of a context that its trigger protects, and the time it was created.\<close>

definition context_body :: "context_row \<Rightarrow> string \<times> string \<times> string \<times> string option \<times> string" where
  "context_body r = (cx_type r, cx_content r, cx_content_hash r, cx_metadata r, cx_created_at r)"

definition exec_inputs :: "execution_row \<Rightarrow> int \<times> int \<times> int \<times> int option \<times> string" where
  "exec_inputs r = (ex_context_id r, ex_skill_revision_id r, ex_model_revision_id r,
     ex_parent_execution_id r, ex_created_at r)"

lemma context_body_edit [simp]: "context_body (ctx_apply e r) = context_body r"
  by (cases e) (simp_all add: context_body_def)

lemma exec_inputs_edit [simp]: "exec_inputs (exec_apply e r) = exec_inputs r"
  by (cases e) (simp_all add: exec_inputs_def)

lemma skill_logged_get:
  "tbl_ok sr_id t \<Longrightarrow> tbl_get sr_id t i = Some v \<Longrightarrow> tbl_get sr_id (skill_logged now e old t) i = Some v"
  using skill_rev_rows.get_ins_old [of t] by (simp add: skill_logged_def Let_def)

lemma model_logged_get:
  "tbl_ok mr_id t \<Longrightarrow> tbl_get mr_id t i = Some v \<Longrightarrow> tbl_get mr_id (model_logged now e old t) i = Some v"
  using model_rev_rows.get_ins_old [of t] by (simp add: model_logged_def Let_def)

lemma step_skill_revision:
  assumes "db_step st st'" and "db_ok st" and "tbl_get sr_id (skill_revisions st) k = Some v"
  shows "tbl_get sr_id (skill_revisions st') k = Some v"
proof -
  have t: "tbl_ok sr_id (skill_revisions st)" using assms(2) by (simp add: db_ok_def skills_ok_def)
  from assms(1) show ?thesis
  proof cases
    case (st_sk_ins now snew)
    then show ?thesis
      using skill_rev_rows.get_ins_old [OF t assms(3)] by (simp add: skill_inserted_def Let_def)
  next
    case (st_sk_edit now i sg se)
    then show ?thesis using skill_logged_get [OF t assms(3)] by (auto simp: skill_edited_def)
  qed (use assms(3) in \<open>auto simp: model_inserted_def model_edited_def ctx_edited_def Let_def\<close>)
qed

lemma step_model_revision:
  assumes "db_step st st'" and "db_ok st" and "tbl_get mr_id (model_revisions st) k = Some v"
  shows "tbl_get mr_id (model_revisions st') k = Some v"
proof -
  have t: "tbl_ok mr_id (model_revisions st)" using assms(2) by (simp add: db_ok_def models_ok_def)
  from assms(1) show ?thesis
  proof cases
    case (st_mo_ins now mnew)
    then show ?thesis
      using model_rev_rows.get_ins_old [OF t assms(3)] by (simp add: model_inserted_def Let_def)
  next
    case (st_mo_edit now i mg me)
    then show ?thesis using model_logged_get [OF t assms(3)] by (auto simp: model_edited_def)
  qed (use assms(3) in \<open>auto simp: skill_inserted_def skill_edited_def ctx_edited_def Let_def\<close>)
qed

lemma step_context:
  assumes "db_step st st'" and "db_ok st" and "tbl_get cx_id (contexts st) k = Some c"
  shows "\<exists>c'. tbl_get cx_id (contexts st') k = Some c' \<and> context_body c' = context_body c"
proof -
  have t: "tbl_ok cx_id (contexts st)" using assms(2) by (simp add: db_ok_def)
  from assms(1) show ?thesis
  proof cases
    case (st_cx_ins cnew)
    then show ?thesis using ctx_rows.get_ins_old [OF t assms(3)] by simp
  next
    case (st_cx_edit i cg ce)
    then show ?thesis
      using assms(3) by (cases "k = i") (auto simp: ctx_edited_def ctx_rows.get_upd_id)
  qed (use assms(3) in
      \<open>auto simp: skill_inserted_def skill_edited_def model_inserted_def model_edited_def Let_def\<close>)
qed

lemma step_execution:
  assumes "db_step st st'" and "db_ok st" and "tbl_get ex_id (executions st) k = Some r"
  shows "\<exists>r'. tbl_get ex_id (executions st') k = Some r' \<and> exec_inputs r' = exec_inputs r"
proof -
  have t: "tbl_ok ex_id (executions st)" using assms(2) by (simp add: db_ok_def exec_ok_def)
  from assms(1) show ?thesis
  proof cases
    case (st_ex_ins enew)
    then show ?thesis using exec_rows.get_ins_old [OF t assms(3)] by simp
  next
    case (st_ex_edit i q e)
    then show ?thesis
      using assms(3) by (cases "k = i") (auto simp: exec_rows.get_upd_id)
  qed (use assms(3) in
      \<open>auto simp: skill_inserted_def skill_edited_def model_inserted_def model_edited_def
         ctx_edited_def Let_def\<close>)
qed

lemma step_log:
  assumes "db_step st st'" and "db_ok st" and "tbl_get lg_id (execution_logs st) k = Some l"
  shows "tbl_get lg_id (execution_logs st') k = Some l"
proof -
  have t: "tbl_ok lg_id (execution_logs st)" using assms(2) by (simp add: db_ok_def logs_ok_def)
  from assms(1) show ?thesis
  proof cases
    case (st_lg_ins lnew)
    then show ?thesis using log_rows.get_ins_old [OF t assms(3)] by simp
  qed (use assms(3) in
      \<open>auto simp: skill_inserted_def skill_edited_def model_inserted_def model_edited_def
         ctx_edited_def Let_def\<close>)
qed

section \<open>Provenance of an execution\<close>

text \<open>
  What an execution was run on: the body of its context, the revision rows of its skill and its
  model, and the rest of its inputs. It is the answer the schema was designed to keep available.
\<close>

definition provenance ::
  "store \<Rightarrow> int \<Rightarrow> ((int \<times> int \<times> int \<times> int option \<times> string)
     \<times> (string \<times> string \<times> string \<times> string option \<times> string)
     \<times> skill_revision_row \<times> model_revision_row) option" where
  "provenance st i =
     (case tbl_get ex_id (executions st) i of None \<Rightarrow> None
      | Some r \<Rightarrow>
     (case tbl_get cx_id (contexts st) (ex_context_id r) of None \<Rightarrow> None
      | Some c \<Rightarrow>
     (case tbl_get sr_id (skill_revisions st) (ex_skill_revision_id r) of None \<Rightarrow> None
      | Some v \<Rightarrow>
     (case tbl_get mr_id (model_revisions st) (ex_model_revision_id r) of None \<Rightarrow> None
      | Some w \<Rightarrow> Some (exec_inputs r, context_body c, v, w)))))"

lemma exec_inputs_ids:
  "exec_inputs r' = exec_inputs r \<Longrightarrow> ex_context_id r' = ex_context_id r
     \<and> ex_skill_revision_id r' = ex_skill_revision_id r \<and> ex_model_revision_id r' = ex_model_revision_id r"
  by (simp add: exec_inputs_def)

lemma step_provenance:
  assumes "db_step st st'" and "db_ok st" and "provenance st i = Some p"
  shows "provenance st' i = Some p"
proof -
  from assms(3) obtain r c v w where r: "tbl_get ex_id (executions st) i = Some r"
    and c: "tbl_get cx_id (contexts st) (ex_context_id r) = Some c"
    and v: "tbl_get sr_id (skill_revisions st) (ex_skill_revision_id r) = Some v"
    and w: "tbl_get mr_id (model_revisions st) (ex_model_revision_id r) = Some w"
    and p: "p = (exec_inputs r, context_body c, v, w)"
    by (auto simp: provenance_def split: option.splits)
  obtain r' where r': "tbl_get ex_id (executions st') i = Some r'" "exec_inputs r' = exec_inputs r"
    using step_execution [OF assms(1,2) r] by blast
  obtain c' where c': "tbl_get cx_id (contexts st') (ex_context_id r) = Some c'"
      "context_body c' = context_body c"
    using step_context [OF assms(1,2) c] by blast
  show ?thesis
    using r' c' exec_inputs_ids [OF r'(2)] step_skill_revision [OF assms(1,2) v]
      step_model_revision [OF assms(1,2) w]
    by (simp add: provenance_def p)
qed

lemma provenance_known:
  assumes "db_ok st" and r: "tbl_get ex_id (executions st) i = Some r"
  shows "provenance st i \<noteq> None"
proof -
  have "r \<in> set (rows (executions st))" using r by (auto dest: tbl_get_SomeD)
  then obtain c v w where "tbl_get cx_id (contexts st) (ex_context_id r) = Some c"
    and "tbl_get sr_id (skill_revisions st) (ex_skill_revision_id r) = Some v"
    and "tbl_get mr_id (model_revisions st) (ex_model_revision_id r) = Some w"
    using assms(1) unfolding db_ok_def exec_refs_ok_def has_row_def by blast
  with r show ?thesis by (simp add: provenance_def)
qed

section \<open>Runs\<close>

text \<open>
  A run of the library on one handle. Between two calls the clock moves, the engine behaves anew and
  other processes that use the same file through the library make steps of their own (\<open>l_env\<close>).
\<close>

inductive lib_run :: "db_t \<Rightarrow> db_t \<Rightarrow> bool" where
  l_refl: "lib_run d d"
| l_call: "lib_run d d1 \<Longrightarrow> lib_call d1 rc d2 \<Longrightarrow> lib_run d d2"
| l_env: "lib_run d d1 \<Longrightarrow> db_step (store d1) (store d2) \<Longrightarrow> lib_run d d2"

lemma lib_call_db_step: "lib_call d rc d' \<Longrightarrow> db_step (store d) (store d')"
  using lib_call_step [of d rc d'] by (auto simp: step_or_keep_def intro: st_skip split: if_splits)

lemma lib_run_steps: "lib_run d d' \<Longrightarrow> db_step\<^sup>*\<^sup>* (store d) (store d')"
  by (induction rule: lib_run.induct) (auto dest: lib_call_db_step intro: rtranclp.rtrancl_into_rtrancl)

lemma steps_ok: "db_step\<^sup>*\<^sup>* st st' \<Longrightarrow> db_ok st \<Longrightarrow> db_ok st'"
  by (induction rule: rtranclp_induct) (auto intro: db_step_ok)

lemma steps_keep:
  assumes "db_step\<^sup>*\<^sup>* st st'" and "db_ok st" and "P st"
    and "\<And>s s'. db_step s s' \<Longrightarrow> db_ok s \<Longrightarrow> P s \<Longrightarrow> P s'"
  shows "P st'"
  using assms(1)
proof (induction rule: rtranclp_induct)
  case (step s s')
  then show ?case using steps_ok [OF step.hyps(1) assms(2)] assms(4) by blast
qed (rule assms(3))

end
