(* ===== verification/Skill_Revisions.thy ===== *)
theory Skill_Revisions
  imports Skills
begin

text \<open>
  \<^verbatim>\<open>acta_db/src/skill_revision.c\<close>: the read side of the skill history. There is no
  mutator: the rows come from the triggers in \<open>Schema\<close>. Unlike most getters of the library these
  report a step that fails, and the lister gives up a broken scan.
\<close>

record skill_revision_t =
  svr_id :: int
  svr_skill_id :: int
  svr_revision :: int
  svr_folder_id :: int
  svr_name :: "string option"
  svr_description :: "string option"
  svr_prompt_template :: "string option"
  svr_output_schema :: "string option"
  svr_created_at :: "string option"
  svr_updated_at :: "string option"
  svr_deleted_at :: "string option"

definition row_to_skill_revision :: "skill_revision_row \<Rightarrow> skill_revision_t" where
  "row_to_skill_revision r =
     \<lparr>svr_id = c_int (sr_id r), svr_skill_id = c_int (sr_skill_id r),
      svr_revision = c_int (sr_revision r),
      svr_folder_id = (case sr_folder_id r of None \<Rightarrow> 0 | Some i \<Rightarrow> c_int i),
      svr_name = Some (sr_name r), svr_description = sr_description r,
      svr_prompt_template = Some (sr_prompt_template r), svr_output_schema = sr_output_schema r,
      svr_created_at = Some (sr_created_at r), svr_updated_at = sr_updated_at r,
      svr_deleted_at = sr_deleted_at r\<rparr>"

text \<open>Step, decode and finalize, as the three getters do after binding.\<close>

definition skill_revision_fetch ::
  "(skill_revision_row list \<Rightarrow> skill_revision_row list) \<Rightarrow> db_t
     \<Rightarrow> skill_revision_t option \<times> int option \<times> db_t" where
  "skill_revision_fetch q d =
     (case sql_read (\<lambda>st. q (rows (skill_revisions st))) d of
        (Unreadable, d1) \<Rightarrow> (None, Some ACTA_DB_ERR_SQL, d1)
      | (Fetched [] rc oom, d1) \<Rightarrow>
          (None, Some (if rc \<noteq> SQLITE_DONE then ACTA_DB_ERR_SQL else ACTA_DB_OK), d1)
      | (Fetched (r # rs) rc oom, d1) \<Rightarrow>
          if oom = Some 0 then (None, Some ACTA_DB_ERR_ALLOC, d1)
          else (Some (row_to_skill_revision r), Some ACTA_DB_OK, d1))"

definition acta_db_skill_revision_get :: "int \<Rightarrow> db_t \<Rightarrow> skill_revision_t option \<times> int option \<times> db_t" where
  "acta_db_skill_revision_get rid d = skill_revision_fetch (filter (\<lambda>r. sr_id r = rid)) d"

definition acta_db_skill_revision_get_by_skill_and_rev ::
  "int \<Rightarrow> int \<Rightarrow> db_t \<Rightarrow> skill_revision_t option \<times> int option \<times> db_t" where
  "acta_db_skill_revision_get_by_skill_and_rev skill_id revision d =
     skill_revision_fetch (filter (\<lambda>r. sr_skill_id r = skill_id \<and> sr_revision r = revision)) d"

definition acta_db_skill_revision_get_latest ::
  "int \<Rightarrow> db_t \<Rightarrow> skill_revision_t option \<times> int option \<times> db_t" where
  "acta_db_skill_revision_get_latest skill_id d =
     skill_revision_fetch
       (\<lambda>rs. take 1 (List.rev (sort_key sr_revision (filter (\<lambda>r. sr_skill_id r = skill_id) rs)))) d"

definition acta_db_skill_revision_list_by_skill ::
  "int \<Rightarrow> int \<Rightarrow> int \<Rightarrow> db_t \<Rightarrow> skill_revision_t list \<times> int option \<times> int option \<times> db_t" where
  "acta_db_skill_revision_list_by_skill skill_id offset limit d =
     (if offset < 0 then ([], Some 0, Some ACTA_DB_ERR_INVALID, d)
      else case sql_read (\<lambda>st. sql_page (db_clamp_limit limit) offset
                     (sort_key sr_revision (filter (\<lambda>r. sr_skill_id r = skill_id)
                                                   (rows (skill_revisions st))))) d of
        (Unreadable, d1) \<Rightarrow> ([], Some 0, Some ACTA_DB_ERR_SQL, d1)
      | (Fetched rs rc oom, d1) \<Rightarrow>
          (case collect_loop row_to_skill_revision oom rs [] of
             None \<Rightarrow> ([], Some 0, Some ACTA_DB_ERR_ALLOC, d1)
           | Some items \<Rightarrow>
               if rc \<noteq> SQLITE_DONE then ([], Some 0, Some ACTA_DB_ERR_SQL, d1)
               else (items, Some (int (length items)), Some ACTA_DB_OK, d1)))"

definition acta_db_skill_revision_count :: "int \<Rightarrow> db_t \<Rightarrow> int \<times> int option \<times> db_t" where
  "acta_db_skill_revision_count skill_id d =
     (case sql_read (\<lambda>st. [int (length (filter (\<lambda>r. sr_skill_id r = skill_id)
                                               (rows (skill_revisions st))))]) d of
        (Unreadable, d1) \<Rightarrow> (- 1, Some ACTA_DB_ERR_SQL, d1)
      | (Fetched [] rc oom, d1) \<Rightarrow> (- 1, Some ACTA_DB_ERR_SQL, d1)
      | (Fetched (n # ns) rc oom, d1) \<Rightarrow> (c_int n, Some ACTA_DB_OK, d1))"

end
