(* ===== verification/Model_Revisions.thy ===== *)
theory Model_Revisions
  imports Models
begin

text \<open>
  \<^verbatim>\<open>acta_db/src/model_revision.c\<close>: the read side of the model history. The getters by id
  and of the latest revision, the plain lister and the plain count see live revision rows only; the
  getter by number and the \<^verbatim>\<open>_with_deleted\<close> variants see all.
\<close>

record model_revision_t =
  mvr_id :: int
  mvr_model_id :: int
  mvr_revision :: int
  mvr_folder_id :: int
  mvr_name :: "string option"
  mvr_description :: "string option"
  mvr_backend :: "string option"
  mvr_base_url :: "string option"
  mvr_model_identifier :: "string option"
  mvr_configuration :: "string option"
  mvr_created_at :: "string option"
  mvr_updated_at :: "string option"
  mvr_deleted_at :: "string option"

definition row_to_model_revision :: "model_revision_row \<Rightarrow> model_revision_t" where
  "row_to_model_revision r =
     \<lparr>mvr_id = c_int (mr_id r), mvr_model_id = c_int (mr_model_id r),
      mvr_revision = c_int (mr_revision r),
      mvr_folder_id = (case mr_folder_id r of None \<Rightarrow> 0 | Some i \<Rightarrow> c_int i),
      mvr_name = Some (mr_name r), mvr_description = mr_description r,
      mvr_backend = Some (mr_backend r), mvr_base_url = mr_base_url r,
      mvr_model_identifier = Some (mr_model_identifier r), mvr_configuration = mr_configuration r,
      mvr_created_at = Some (mr_created_at r), mvr_updated_at = mr_updated_at r,
      mvr_deleted_at = mr_deleted_at r\<rparr>"

text \<open>The SQL text of a query, in a buffer of REV_SQL_BUF = 512 bytes; \<open>None\<close> is the result -1.\<close>

definition REV_SELECT :: string where
  "REV_SELECT = ''SELECT id, model_id, revision, folder_id, name, description, ''
     @ ''backend, base_url, model_identifier, configuration, ''
     @ ''created_at, updated_at, deleted_at FROM model_revisions''"

definition rev_build_sql :: "nat \<Rightarrow> string \<Rightarrow> string option" where
  "rev_build_sql buf_sz tail_sql = buf_append buf_sz [] (REV_SELECT @ '' '' @ tail_sql @ '';'')"

definition model_revision_fetch ::
  "string \<Rightarrow> (model_revision_row list \<Rightarrow> model_revision_row list) \<Rightarrow> db_t
     \<Rightarrow> model_revision_t option \<times> int option \<times> db_t" where
  "model_revision_fetch tail_sql q d =
     (if rev_build_sql 512 tail_sql = None then (None, Some ACTA_DB_ERR_INVALID, d)
      else case sql_read (\<lambda>st. q (rows (model_revisions st))) d of
        (Unreadable, d1) \<Rightarrow> (None, Some ACTA_DB_ERR_SQL, d1)
      | (Fetched [] rc oom, d1) \<Rightarrow>
          (None, Some (if rc \<noteq> SQLITE_DONE then ACTA_DB_ERR_SQL else ACTA_DB_OK), d1)
      | (Fetched (r # rs) rc oom, d1) \<Rightarrow>
          if oom = Some 0 then (None, Some ACTA_DB_ERR_ALLOC, d1)
          else (Some (row_to_model_revision r), Some ACTA_DB_OK, d1))"

definition acta_db_model_revision_get :: "int \<Rightarrow> db_t \<Rightarrow> model_revision_t option \<times> int option \<times> db_t" where
  "acta_db_model_revision_get rid d =
     (if rid \<le> 0 then (None, Some ACTA_DB_ERR_INVALID, d)
      else model_revision_fetch ''WHERE id = ? AND deleted_at IS NULL''
             (filter (\<lambda>r. mr_id r = rid \<and> mr_deleted_at r = None)) d)"

definition acta_db_model_revision_get_by_model_and_rev ::
  "int \<Rightarrow> int \<Rightarrow> db_t \<Rightarrow> model_revision_t option \<times> int option \<times> db_t" where
  "acta_db_model_revision_get_by_model_and_rev model_id revision d =
     (if model_id \<le> 0 \<or> revision \<le> 0 then (None, Some ACTA_DB_ERR_INVALID, d)
      else model_revision_fetch ''WHERE model_id = ? AND revision = ?''
             (filter (\<lambda>r. mr_model_id r = model_id \<and> mr_revision r = revision)) d)"

definition acta_db_model_revision_get_latest ::
  "int \<Rightarrow> db_t \<Rightarrow> model_revision_t option \<times> int option \<times> db_t" where
  "acta_db_model_revision_get_latest model_id d =
     (if model_id \<le> 0 then (None, Some ACTA_DB_ERR_INVALID, d)
      else model_revision_fetch
             (''WHERE model_id = ? AND deleted_at IS NULL '' @ ''ORDER BY revision DESC LIMIT 1'')
             (\<lambda>rs. take 1 (List.rev (sort_key mr_revision
                (filter (\<lambda>r. mr_model_id r = model_id \<and> mr_deleted_at r = None) rs)))) d)"

definition rev_list_run ::
  "string \<Rightarrow> (model_revision_row \<Rightarrow> bool) \<Rightarrow> int \<Rightarrow> int \<Rightarrow> int \<Rightarrow> db_t
     \<Rightarrow> model_revision_t list \<times> int option \<times> int option \<times> db_t" where
  "rev_list_run tail_sql sel model_id offset limit d =
     (if model_id \<le> 0 then ([], Some 0, Some ACTA_DB_ERR_INVALID, d)
      else if offset < 0 then ([], Some 0, Some ACTA_DB_ERR_INVALID, d)
      else if rev_build_sql 512 tail_sql = None then ([], Some 0, Some ACTA_DB_ERR_INVALID, d)
      else case sql_read (\<lambda>st. sql_page (db_clamp_limit limit) offset
                     (sort_key mr_revision (filter sel (rows (model_revisions st))))) d of
        (Unreadable, d1) \<Rightarrow> ([], Some 0, Some ACTA_DB_ERR_SQL, d1)
      | (Fetched rs rc oom, d1) \<Rightarrow>
          (case collect_loop row_to_model_revision oom rs [] of
             None \<Rightarrow> ([], Some 0, Some ACTA_DB_ERR_ALLOC, d1)
           | Some items \<Rightarrow>
               if rc \<noteq> SQLITE_DONE then ([], Some 0, Some ACTA_DB_ERR_SQL, d1)
               else (items, Some (int (length items)), Some ACTA_DB_OK, d1)))"

definition acta_db_model_revision_list_by_model ::
  "int \<Rightarrow> int \<Rightarrow> int \<Rightarrow> db_t \<Rightarrow> model_revision_t list \<times> int option \<times> int option \<times> db_t" where
  "acta_db_model_revision_list_by_model model_id offset limit d =
     rev_list_run (''WHERE model_id = ? AND deleted_at IS NULL '' @ ''ORDER BY revision LIMIT ? OFFSET ?'')
       (\<lambda>r. mr_model_id r = model_id \<and> mr_deleted_at r = None) model_id offset limit d"

definition acta_db_model_revision_list_by_model_with_deleted ::
  "int \<Rightarrow> int \<Rightarrow> int \<Rightarrow> db_t \<Rightarrow> model_revision_t list \<times> int option \<times> int option \<times> db_t" where
  "acta_db_model_revision_list_by_model_with_deleted model_id offset limit d =
     rev_list_run ''WHERE model_id = ? ORDER BY revision LIMIT ? OFFSET ?''
       (\<lambda>r. mr_model_id r = model_id) model_id offset limit d"

text \<open>A count whose statement yields no row without an error leaves \<^verbatim>\<open>*err\<close> at OK.\<close>

definition rev_count_run :: "(model_revision_row \<Rightarrow> bool) \<Rightarrow> int \<Rightarrow> db_t \<Rightarrow> int \<times> int option \<times> db_t" where
  "rev_count_run sel model_id d =
     (if model_id \<le> 0 then (- 1, Some ACTA_DB_ERR_INVALID, d)
      else case sql_read (\<lambda>st. [int (length (filter sel (rows (model_revisions st))))]) d of
        (Unreadable, d1) \<Rightarrow> (- 1, Some ACTA_DB_ERR_SQL, d1)
      | (Fetched [] rc oom, d1) \<Rightarrow>
          (- 1, Some (if rc \<noteq> SQLITE_DONE then ACTA_DB_ERR_SQL else ACTA_DB_OK), d1)
      | (Fetched (n # ns) rc oom, d1) \<Rightarrow> (c_int n, Some ACTA_DB_OK, d1))"

definition acta_db_model_revision_count :: "int \<Rightarrow> db_t \<Rightarrow> int \<times> int option \<times> db_t" where
  "acta_db_model_revision_count model_id d =
     rev_count_run (\<lambda>r. mr_model_id r = model_id \<and> mr_deleted_at r = None) model_id d"

definition acta_db_model_revision_count_with_deleted :: "int \<Rightarrow> db_t \<Rightarrow> int \<times> int option \<times> db_t" where
  "acta_db_model_revision_count_with_deleted model_id d =
     rev_count_run (\<lambda>r. mr_model_id r = model_id) model_id d"

end
