(* ===== verification/Samples.thy ===== *)
theory Samples
  imports System Skill_Revisions Model_Revisions
begin

text \<open>
  A small database made by the library's own calls, for the concrete instances of the theorems: a
  skill, a model, a context, an execution of them.
\<close>

definition sample_empty :: db_t where
  "sample_empty = \<lparr>store = empty_store, saved = None, engine = [], clock = ''2024-01-01 00:00:00'',
     engine_msg = ''disk I/O error'', last_error = None, in_transaction = False, path = ''acta.db''\<rparr>"

definition sample_skill :: skill_t where
  "sample_skill = \<lparr>s_id = 0, s_folder_id = 0, s_name = Some ''sum'', s_description = None,
     s_prompt_template = Some ''p'', s_output_schema = None, s_created_at = None,
     s_updated_at = None, s_deleted_at = None\<rparr>"

definition sample_model :: model_t where
  "sample_model = \<lparr>m_id = 0, m_folder_id = 0, m_name = Some ''m'', m_description = None,
     m_backend = Some ''openai'', m_base_url = None, m_model_identifier = Some ''x'',
     m_configuration = None, m_created_at = None, m_updated_at = None, m_deleted_at = None\<rparr>"

definition sample_context :: context_t where
  "sample_context = \<lparr>c_id = 0, c_type = Some ''text'', c_content = Some ''hi'',
     c_content_hash = Some ''h'', c_metadata = None, c_created_at = None, c_deleted_at = None\<rparr>"

definition sample_execution :: execution_t where
  "sample_execution = \<lparr>e_id = 0, e_context_id = 1, e_skill_revision_id = 1, e_model_revision_id = 1,
     e_raw_response = None, e_result = None, e_status = None, e_error = None, e_created_at = None,
     e_started_at = None, e_completed_at = None, e_parent_execution_id = 0, e_deleted_at = None\<rparr>"

definition sample_inputs :: db_t where
  "sample_inputs = snd (snd (acta_db_context_create sample_context
     (snd (snd (acta_db_model_create sample_model
        (snd (snd (acta_db_skill_create sample_skill sample_empty))))))))"

definition sample_pending :: db_t where
  "sample_pending = snd (snd (acta_db_execution_create sample_execution sample_inputs))"

definition sample_running :: db_t where
  "sample_running = snd (acta_db_execution_start 1 sample_pending)"

definition sample_done :: db_t where
  "sample_done = snd (acta_db_execution_complete 1 (Some ''42'') sample_running)"

text \<open>The sample databases are reached by runs, so they satisfy the invariant.\<close>

lemma run_trans: "lib_run d1 d2 \<Longrightarrow> lib_run d d1 \<Longrightarrow> lib_run d d2"
  by (induction rule: lib_run.induct) (auto intro: lib_run.intros)

lemma run_one: "lib_call d rc d' \<Longrightarrow> lib_run d d'"
  by (rule l_call [OF l_refl])

lemma collapse3: "x = (fst x, fst (snd x), snd (snd x))"
  by simp

lemma collapse2: "x = (fst x, snd x)"
  by simp

lemma sample_inputs_run: "lib_run sample_empty sample_inputs"
  unfolding sample_inputs_def
  by (rule l_call [OF l_call [OF l_call [OF l_refl sk_create [OF collapse3]] mo_create [OF collapse3]]
        cx_create [OF collapse3]])

lemma sample_pending_run: "lib_run sample_inputs sample_pending"
  unfolding sample_pending_def by (rule run_one [OF ex_mutate [OF c_create [OF collapse3]]])

lemma sample_running_run: "lib_run sample_pending sample_running"
  unfolding sample_running_def by (rule run_one [OF ex_mutate [OF c_start [OF collapse2]]])

lemma sample_done_run: "lib_run sample_running sample_done"
  unfolding sample_done_def by (rule run_one [OF ex_mutate [OF c_complete [OF collapse2]]])

lemma sample_empty_ok: "db_ok (store sample_empty)"
  by (simp add: sample_empty_def)

lemma run_db_ok: "lib_run d d' \<Longrightarrow> db_ok (store d) \<Longrightarrow> db_ok (store d')"
  by (rule steps_ok [OF lib_run_steps])

lemma sample_ok: "db_ok (store sample_inputs)" "db_ok (store sample_pending)"
  "db_ok (store sample_running)" "db_ok (store sample_done)"
  using run_db_ok [OF sample_inputs_run sample_empty_ok] run_db_ok sample_pending_run
    sample_running_run sample_done_run by blast+

end
