(* ===== verification/Execution_Properties.thy ===== *)
theory Execution_Properties
  imports Samples
begin

text \<open>
  The properties of \<^verbatim>\<open>execution.c\<close>: the state machine under faults and races, what each
  call does on an engine without faults, and the query family.
\<close>

section \<open>The life cycle\<close>

text \<open>Claim C2: Whatever the engine does, one call of a mutator of executions keeps every row
  well formed (status and timestamps agree), moves no execution by more than one legal step of the
  documented state machine, and changes nothing at all when it reports an error.\<close>

theorem exec_call_refines_machine:
  assumes "exec_call d rc d'" and "exec_ok (store d)"
  shows "exec_ok (store d')
    \<and> (\<forall>i p. phase (store d) i = Some p \<longrightarrow> (\<exists>p'. phase (store d') i = Some p' \<and> (p' = p \<or> phase_step p p')))
    \<and> (rc \<noteq> ACTA_DB_OK \<longrightarrow> store d' = store d)"
proof -
  have out: "call_outcome (store d) rc (store d')" by (rule exec_call_outcome [OF assms(1)])
  then have "rc \<noteq> ACTA_DB_OK \<longrightarrow> store d' = store d" by (auto simp: call_outcome_def)
  then show ?thesis using outcome_exec_ok [OF out assms(2)] outcome_phase [OF out assms(2)] by blast
qed

lemma exec_call_refines_machine_witness:
  "exec_ok (store sample_running) \<and> phase (store sample_running) 1 = Some Running"
proof
  have "acta_db_execution_start 1 sample_pending = (fst (acta_db_execution_start 1 sample_pending), sample_running)"
    by (simp add: sample_running_def)
  moreover have "exec_ok (store sample_pending)" using sample_ok(2) by (simp add: db_ok_def)
  ultimately show "exec_ok (store sample_running)"
    using exec_call_refines_machine [OF c_start] by blast
  show "phase (store sample_running) 1 = Some Running"
    by code_simp
qed

lemma step_phase:
  assumes "db_step st st'" and "db_ok st" and "phase st i = Some p"
  shows "\<exists>p'. phase st' i = Some p' \<and> (p' = p \<or> phase_step p p')"
proof -
  have ok: "exec_ok st" using assms(2) by (simp add: db_ok_def)
  from assms(1) show ?thesis
  proof cases
    case (st_ex_ins enew)
    then have "call_outcome st ACTA_DB_OK st'" unfolding call_outcome_def by blast
    then show ?thesis using ok assms(3) by (rule outcome_phase)
  next
    case (st_ex_edit k r e)
    then have "call_outcome st ACTA_DB_OK st'" unfolding call_outcome_def by blast
    then show ?thesis using ok assms(3) by (rule outcome_phase)
  qed (use assms(3) in
      \<open>auto simp: phase_def skill_inserted_def skill_edited_def model_inserted_def model_edited_def
         ctx_edited_def Let_def\<close>)
qed

lemma step_frozen:
  assumes "db_step st st'" and "db_ok st"
    and "tbl_get ex_id (executions st) i = Some r" and "ex_status r \<in> {''completed'', ''cancelled''}"
  shows "\<exists>r'. tbl_get ex_id (executions st') i = Some r' \<and> frozen_as r r'"
proof -
  have t: "tbl_ok ex_id (executions st)" using assms(2) by (simp add: db_ok_def exec_ok_def)
  from assms(1) show ?thesis
  proof cases
    case (st_ex_ins enew)
    then show ?thesis using exec_rows.get_ins_old [OF t assms(3)] frozen_refl by simp
  next
    case (st_ex_edit k q e)
    then show ?thesis
      using assms(3,4) frozen_refl terminal_edit_frozen [of e r]
      by (cases "i = k") (auto simp: exec_rows.get_upd_id)
  qed (use assms(3) frozen_refl in
      \<open>auto simp: skill_inserted_def skill_edited_def model_inserted_def model_edited_def
         ctx_edited_def Let_def\<close>)
qed

text \<open>Over any run of the library, with other processes and engine faults in between, an
  execution never disappears and its status only moves along the documented state machine.\<close>

theorem run_follows_machine:
  assumes "lib_run d d'" and "db_ok (store d)" and "phase (store d) i = Some p"
  shows "\<exists>p'. phase (store d') i = Some p' \<and> phase_step\<^sup>*\<^sup>* p p'"
proof (rule steps_keep [OF lib_run_steps [OF assms(1)] assms(2)])
  show "\<exists>p'. phase (store d) i = Some p' \<and> phase_step\<^sup>*\<^sup>* p p'" using assms(3) by blast
next
  fix s s' assume "db_step s s'" "db_ok s" "\<exists>p'. phase s i = Some p' \<and> phase_step\<^sup>*\<^sup>* p p'"
  then show "\<exists>p'. phase s' i = Some p' \<and> phase_step\<^sup>*\<^sup>* p p'"
    using step_phase by (metis rtranclp.simps)
qed

lemma run_follows_machine_witness:
  "\<exists>p'. phase (store sample_done) 1 = Some p' \<and> phase_step\<^sup>*\<^sup>* Pending p'"
proof (rule run_follows_machine)
  show "lib_run sample_pending sample_done"
    by (rule run_trans [OF sample_done_run sample_running_run])
  show "db_ok (store sample_pending)" by (rule sample_ok)
  show "phase (store sample_pending) 1 = Some Pending" by code_simp
qed

text \<open>Once an execution is completed or cancelled, nothing the library does later changes
  it, except the stored raw response and the deletion mark.\<close>

theorem terminal_execution_frozen:
  assumes "lib_run d d'" and "db_ok (store d)"
    and "tbl_get ex_id (executions (store d)) i = Some r"
    and "ex_status r \<in> {''completed'', ''cancelled''}"
  shows "\<exists>r'. tbl_get ex_id (executions (store d')) i = Some r' \<and> frozen_as r r'"
proof (rule steps_keep [OF lib_run_steps [OF assms(1)] assms(2)])
  show "\<exists>r'. tbl_get ex_id (executions (store d)) i = Some r' \<and> frozen_as r r'"
    using assms(3) frozen_refl by blast
next
  fix s s' assume s: "db_step s s'" "db_ok s"
    "\<exists>r'. tbl_get ex_id (executions s) i = Some r' \<and> frozen_as r r'"
  then obtain r1 where r1: "tbl_get ex_id (executions s) i = Some r1" "frozen_as r r1" by blast
  then have "ex_status r1 \<in> {''completed'', ''cancelled''}"
    using assms(4) frozen_status [OF r1(2)] by simp
  then show "\<exists>r'. tbl_get ex_id (executions s') i = Some r' \<and> frozen_as r r'"
    using step_frozen [OF s(1,2) r1(1)] frozen_trans [OF r1(2)] by blast
qed


lemma terminal_execution_frozen_witness:
  "\<exists>r'. tbl_get ex_id (executions (store (snd (acta_db_execution_delete 1 sample_done)))) 1 = Some r'
     \<and> frozen_as (the (tbl_get ex_id (executions (store sample_done)) 1)) r'"
proof (rule terminal_execution_frozen)
  show "lib_run sample_done (snd (acta_db_execution_delete 1 sample_done))"
    by (rule run_one [OF ex_mutate [OF c_delete [OF collapse2]]])
  show "db_ok (store sample_done)" by (rule sample_ok)
  show "tbl_get ex_id (executions (store sample_done)) 1 = Some (the (tbl_get ex_id (executions (store sample_done)) 1))"
    by code_simp
  show "ex_status (the (tbl_get ex_id (executions (store sample_done)) 1)) \<in> {''completed'', ''cancelled''}"
    by code_simp
qed

section \<open>Return codes on an engine without faults\<close>

text \<open>What the header promises: NOT_FOUND without a (suitable) row, INVALID for a wrong status.\<close>

definition exec_code :: "execution_row option \<Rightarrow> (execution_row \<Rightarrow> bool) \<Rightarrow> int" where
  "exec_code row legal =
     (case row of None \<Rightarrow> ACTA_DB_ERR_NOT_FOUND
      | Some r \<Rightarrow> if legal r then ACTA_DB_OK else ACTA_DB_ERR_INVALID)"

definition live_row :: "execution_row option \<Rightarrow> execution_row option" where
  "live_row row = (case row of None \<Rightarrow> None | Some r \<Rightarrow> if ex_deleted_at r = None then Some r else None)"

definition row_at :: "db_t \<Rightarrow> int \<Rightarrow> execution_row option" where
  "row_at d eid = tbl_get ex_id (executions (store d)) eid"

lemma read_row_healthy:
  assumes "healthy d"
  shows "sql_read (\<lambda>st. filter (\<lambda>r. ex_id r = eid) (rows (executions st))) d =
    (Fetched (filter (\<lambda>r. ex_id r = eid) (rows (executions (store d)))) SQLITE_DONE None, d)"
  by (rule sql_read_healthy [OF assms])

lemma verify_status_healthy:
  assumes "healthy d"
  shows "fst (exec_verify_status eid s why d) = exec_code (tbl_get ex_id (executions (store d)) eid) (\<lambda>r. ex_status r = s)
    \<and> (fst (exec_verify_status eid s why d) = ACTA_DB_OK \<longrightarrow> snd (exec_verify_status eid s why d) = d)
    \<and> store (snd (exec_verify_status eid s why d)) = store d \<and> healthy (snd (exec_verify_status eid s why d))"
proof (cases "tbl_get ex_id (executions (store d)) eid")
  case None
  with assms show ?thesis
    by (simp add: exec_verify_status_def read_row_healthy filter_get_None exec_code_def)
next
  case (Some r)
  then obtain rs where "filter (\<lambda>r. ex_id r = eid) (rows (executions (store d))) = r # rs"
    using filter_get_Some [OF Some] by blast
  with assms Some show ?thesis
    by (simp add: exec_verify_status_def read_row_healthy exec_code_def)
qed

lemma exec_status_check_phase: "exec_row_ok r \<Longrightarrow> exec_status_check (ex_status r)"
  by (auto simp: exec_row_ok_def exec_status_check_def split: if_splits)

lemma finish_exec_healthy:
  assumes "healthy d" and "exec_ok (store d)" and "\<And>r. g r \<Longrightarrow> edit_guard e r"
  shows "fst (finish_update code msg (sql_write (update_executions eid g (exec_apply e)) d)) =
    (case tbl_get ex_id (executions (store d)) eid of
       None \<Rightarrow> code | Some r \<Rightarrow> if g r then ACTA_DB_OK else code)"
proof (cases "tbl_get ex_id (executions (store d)) eid")
  case None
  with assms show ?thesis by (simp add: finish_update_healthy update_executions_def)
next
  case (Some r)
  then have "exec_row_ok r" using assms(2) by (auto simp: exec_ok_def dest: tbl_get_SomeD)
  then have "g r \<Longrightarrow> exec_status_check (ex_status (exec_apply e r))"
    using assms(3) by (blast intro: exec_status_check_phase exec_apply_row_ok)
  with Some assms(1) show ?thesis by (simp add: finish_update_healthy update_executions_def)
qed

lemma exec_update_healthy:
  assumes "healthy d" and "exec_ok (store d)" and "\<And>r. g r \<Longrightarrow> edit_guard e r"
  shows "fst (exec_update eid g e what d) =
    (case tbl_get ex_id (executions (store d)) eid of
       None \<Rightarrow> ACTA_DB_ERR_INVALID | Some r \<Rightarrow> if g r then ACTA_DB_OK else ACTA_DB_ERR_INVALID)"
  unfolding exec_update_def by (rule finish_exec_healthy [OF assms])

lemma guarded_code:
  assumes "healthy d" and "exec_ok (store d)"
    and verify: "fst v = exec_code (tbl_get ex_id (executions (store d)) eid) g"
      "fst v = ACTA_DB_OK \<Longrightarrow> snd v = d"
    and "\<And>r. g r \<Longrightarrow> edit_guard (e d) r"
  shows "fst (case v of (rc, d1) \<Rightarrow> if rc \<noteq> ACTA_DB_OK then (rc, d1) else exec_update eid g (e d1) what d1)
    = exec_code (tbl_get ex_id (executions (store d)) eid) g"
  using verify exec_update_healthy [OF assms(1,2,5), where eid = eid and what = what]
  by (cases v) (auto simp: exec_code_def split: option.splits if_splits)

lemma cancel_verify_healthy:
  fixes eid :: int and why :: string
  assumes "healthy d"
  defines "v \<equiv> (case exec_verify_status eid ''pending'' why d of (rc0, d0) \<Rightarrow>
      if rc0 = ACTA_DB_ERR_INVALID then exec_verify_status eid ''running'' why d0 else (rc0, d0))"
  shows "fst v = exec_code (tbl_get ex_id (executions (store d)) eid) (\<lambda>r. ex_status r \<in> {''pending'', ''running''})"
    and "fst v = ACTA_DB_OK \<Longrightarrow> store (snd v) = store d \<and> healthy (snd v)"
proof -
  obtain rc0 d0 where p: "exec_verify_status eid ''pending'' why d = (rc0, d0)" by fastforce
  have h: "healthy d0" and s: "store d0 = store d"
    and c: "rc0 = exec_code (tbl_get ex_id (executions (store d)) eid) (\<lambda>r. ex_status r = ''pending'')"
    using verify_status_healthy [OF assms(1), of eid "''pending''" why] by (simp_all add: p)
  note r = verify_status_healthy [OF h, of eid "''running''" why, unfolded s]
  show "fst v = exec_code (tbl_get ex_id (executions (store d)) eid) (\<lambda>r. ex_status r \<in> {''pending'', ''running''})"
    using c r by (auto simp: v_def p exec_code_def split: option.splits)
  show "fst v = ACTA_DB_OK \<Longrightarrow> store (snd v) = store d \<and> healthy (snd v)"
    using r h s by (auto simp: v_def p split: if_splits)
qed

text \<open>The codes of the calls a run makes, on an engine without faults.\<close>

lemma transition_codes:
  assumes d: "healthy d" and ok: "exec_ok (store d)"
  shows start_code: "fst (acta_db_execution_start eid d) = exec_code (row_at d eid) (\<lambda>r. ex_status r = ''pending'')"
    and complete_code: "fst (acta_db_execution_complete eid res d) = exec_code (row_at d eid) (\<lambda>r. ex_status r = ''running'')"
    and fail_code: "fst (acta_db_execution_fail eid err d) = exec_code (row_at d eid) (\<lambda>r. ex_status r = ''running'')"
    and cancel_code: "fst (acta_db_execution_cancel eid d) =
      exec_code (row_at d eid) (\<lambda>r. ex_status r \<in> {''pending'', ''running''})"
proof -
  note v = verify_status_healthy [OF d, of eid]
  show "fst (acta_db_execution_start eid d) = exec_code (row_at d eid) (\<lambda>r. ex_status r = ''pending'')"
    unfolding acta_db_execution_start_def row_at_def
    by (rule guarded_code [OF d ok, where e = "\<lambda>d1. SetRunning (clock d1)"]) (use v in auto)
  show "fst (acta_db_execution_complete eid res d) = exec_code (row_at d eid) (\<lambda>r. ex_status r = ''running'')"
    unfolding acta_db_execution_complete_def row_at_def
    by (rule guarded_code [OF d ok, where e = "\<lambda>d1. SetCompleted res (clock d1)"]) (use v in auto)
  show "fst (acta_db_execution_fail eid err d) = exec_code (row_at d eid) (\<lambda>r. ex_status r = ''running'')"
    unfolding acta_db_execution_fail_def row_at_def
    by (rule guarded_code [OF d ok, where e = "\<lambda>d1. SetFailed err (clock d1)"]) (use v in auto)
  show "fst (acta_db_execution_cancel eid d) = exec_code (row_at d eid) (\<lambda>r. ex_status r \<in> {''pending'', ''running''})"
  proof -
    let ?why = "''cancel requires status '' @ [CHR 0x27] @ ''pending'' @ [CHR 0x27] @ '' or ''
                @ [CHR 0x27] @ ''running'' @ [CHR 0x27]"
    define w where "w = (case exec_verify_status eid ''pending'' ?why d of (rc0, d0) \<Rightarrow>
      if rc0 = ACTA_DB_ERR_INVALID then exec_verify_status eid ''running'' ?why d0 else (rc0, d0))"
    note c = cancel_verify_healthy [OF d, of eid ?why, folded w_def]
    have eq: "acta_db_execution_cancel eid d = (case w of (rc, d1) \<Rightarrow>
        if rc \<noteq> ACTA_DB_OK then (rc, d1)
        else exec_update eid (\<lambda>r. ex_status r \<in> {''pending'', ''running''}) (SetCancelled (clock d1)) ''cancel'' d1)"
      by (simp add: acta_db_execution_cancel_def w_def Let_def split: prod.splits)
    obtain rc d1 where w: "w = (rc, d1)" by fastforce
    show ?thesis
    proof (cases "rc = ACTA_DB_OK")
      case True
      then have "store d1 = store d" "healthy d1" using c(2) by (simp_all add: w)
      then show ?thesis
        using True c(1) exec_update_healthy [where d = d1 and e = "SetCancelled (clock d1)" and eid = eid
            and g = "\<lambda>r. ex_status r \<in> {''pending'', ''running''}" and what = "''cancel''"] ok
        unfolding eq w row_at_def by (auto simp: exec_code_def w split: option.splits if_splits)
    next
      case False
      then show ?thesis using c(1) unfolding eq w row_at_def by simp
    qed
  qed
qed

lemma set_raw_code:
  assumes "healthy d" and "exec_ok (store d)"
  shows "fst (acta_db_execution_set_raw_response eid raw d) = exec_code (row_at d eid) (\<lambda>r. True)"
  unfolding acta_db_execution_set_raw_response_def row_at_def
  by (subst finish_exec_healthy [OF assms]) (auto simp: exec_code_def split: option.splits)

lemma reset_code:
  assumes "healthy d" and "exec_ok (store d)"
  shows "fst (acta_db_execution_reset eid d) = exec_code (live_row (row_at d eid)) (\<lambda>r. ex_status r = ''failed'')"
proof (cases "row_at d eid")
  case None
  then show ?thesis
    using assms(1) by (simp add: acta_db_execution_reset_def read_row_healthy row_at_def filter_get_None exec_code_def live_row_def)
next
  case (Some r)
  then obtain rs where "filter (\<lambda>r. ex_id r = eid) (rows (executions (store d))) = r # rs"
    using filter_get_Some [of ex_id "executions (store d)" eid r] by (auto simp: row_at_def)
  with Some assms(1) show ?thesis
    using exec_update_healthy [OF assms, where g = "\<lambda>r. ex_status r = ''failed''" and e = SetPending
        and eid = eid and what = "''reset''"]
    by (auto simp: acta_db_execution_reset_def read_row_healthy row_at_def exec_code_def live_row_def)
qed



section \<open>What a successful transition does\<close>

text \<open>One row satisfied the guard and was edited; every other row and every other table is as before.\<close>

definition applied :: "int \<Rightarrow> exec_edit \<Rightarrow> (execution_row \<Rightarrow> bool) \<Rightarrow> db_t \<Rightarrow> db_t \<Rightarrow> bool" where
  "applied eid e g d d' \<longleftrightarrow>
     (\<exists>r. row_at d eid = Some r \<and> g r \<and> row_at d' eid = Some (exec_apply e r))
     \<and> (\<forall>j. j \<noteq> eid \<longrightarrow> row_at d' j = row_at d j)
     \<and> store d' = (store d)\<lparr>executions := executions (store d')\<rparr>"

lemma effect_applied:
  "exec_effect eid g e (store d) ACTA_DB_OK (store d') \<Longrightarrow> applied eid e g d d'"
  by (auto simp: exec_effect_def applied_def row_at_def exec_rows.get_upd_id)

text \<open>A transition that reports success, whatever faults the engine had up to then, made
  exactly its documented change to its own row: starting stamps a pending row, completing stores the
  result and the time over a running row, failing stores the error, cancelling stamps a pending or
  running row, resetting a failed row clears error, raw response and both times.\<close>

theorem transition_outcomes:
  "(acta_db_execution_start eid d = (ACTA_DB_OK, d') \<longrightarrow>
      applied eid (SetRunning (clock d)) (\<lambda>r. ex_status r = ''pending'') d d')
   \<and> (acta_db_execution_complete eid res d = (ACTA_DB_OK, d') \<longrightarrow>
      applied eid (SetCompleted res (clock d)) (\<lambda>r. ex_status r = ''running'') d d')
   \<and> (acta_db_execution_fail eid err d = (ACTA_DB_OK, d') \<longrightarrow>
      applied eid (SetFailed err (clock d)) (\<lambda>r. ex_status r = ''running'') d d')
   \<and> (acta_db_execution_cancel eid d = (ACTA_DB_OK, d') \<longrightarrow>
      applied eid (SetCancelled (clock d)) (\<lambda>r. ex_status r \<in> {''pending'', ''running''}) d d')
   \<and> (acta_db_execution_reset eid d = (ACTA_DB_OK, d') \<longrightarrow>
      applied eid SetPending (\<lambda>r. ex_status r = ''failed'') d d')"
  by (auto dest!: exec_effects intro: effect_applied)

lemma transition_outcomes_witness:
  "applied 1 (SetCompleted (Some ''42'') (clock sample_running)) (\<lambda>r. ex_status r = ''running'')
     sample_running sample_done"
proof -
  have "fst (acta_db_execution_complete 1 (Some ''42'') sample_running) = ACTA_DB_OK"
    by code_simp
  then have "acta_db_execution_complete 1 (Some ''42'') sample_running = (ACTA_DB_OK, sample_done)"
    by (simp add: sample_done_def prod_eq_iff)
  then show ?thesis using transition_outcomes by blast
qed

section \<open>Two processes start the same execution\<close>

text \<open>
  \<open>acta_db_execution_start\<close> is a probe and a guarded update. Two handles \<open>a\<close> and \<open>b\<close> on the same
  file both probe before either updates; the updates then run one after the other.
\<close>

definition two_starts :: "int \<Rightarrow> db_t \<Rightarrow> db_t \<Rightarrow> int \<times> int \<times> db_t" where
  "two_starts eid a b =
     (let why = ''start requires status '' @ [CHR 0x27] @ ''pending'' @ [CHR 0x27] in
      case exec_verify_status eid ''pending'' why a of (ra, a1) \<Rightarrow>
      case exec_verify_status eid ''pending'' why (b\<lparr>store := store a\<rparr>) of (rb, b1) \<Rightarrow>
      case (if ra \<noteq> ACTA_DB_OK then (ra, a1)
            else exec_update eid (\<lambda>r. ex_status r = ''pending'') (SetRunning (clock a1)) ''start'' a1) of
        (ca, a2) \<Rightarrow>
      case (if rb \<noteq> ACTA_DB_OK then (rb, b1)
            else exec_update eid (\<lambda>r. ex_status r = ''pending'') (SetRunning (clock b1)) ''start''
                   (b1\<lparr>store := store a2\<rparr>)) of
        (cb, b2) \<Rightarrow> (ca, cb, b2))"

lemma not_pending_after_start:
  "exec_effect eid (\<lambda>r. ex_status r = ''pending'') (SetRunning now) st ACTA_DB_OK st' \<Longrightarrow>
   \<not> exec_effect eid (\<lambda>r. ex_status r = ''pending'') (SetRunning now') st' ACTA_DB_OK st''"
  by (auto simp: exec_effect_def exec_rows.get_upd_id)

text \<open>Claim C19: Two processes that start the same execution at the same time, both having seen it
  pending, never both succeed, whatever faults either meets; without faults, when it is pending,
  the first update wins and the second is refused with INVALID.\<close>

theorem start_race:
  assumes "two_starts eid a b = (ca, cb, b2)"
  shows "\<not> (ca = ACTA_DB_OK \<and> cb = ACTA_DB_OK)
    \<and> (healthy a \<and> healthy b \<and> exec_ok (store a)
       \<and> (\<exists>r. row_at a eid = Some r \<and> ex_status r = ''pending'')
       \<longrightarrow> ca = ACTA_DB_OK \<and> cb = ACTA_DB_ERR_INVALID)"
proof -
  define why where "why = ''start requires status '' @ [CHR 0x27] @ ''pending'' @ [CHR 0x27]"
  obtain ra a1 where va: "exec_verify_status eid ''pending'' why a = (ra, a1)" by fastforce
  obtain rb b1 where vb: "exec_verify_status eid ''pending'' why (b\<lparr>store := store a\<rparr>) = (rb, b1)"
    by fastforce
  obtain ca' a2 where ua: "(if ra \<noteq> ACTA_DB_OK then (ra, a1)
      else exec_update eid (\<lambda>r. ex_status r = ''pending'') (SetRunning (clock a1)) ''start'' a1) = (ca', a2)"
    by fastforce
  have res: "ca' = ca" and ub: "(if rb \<noteq> ACTA_DB_OK then (rb, b1)
      else exec_update eid (\<lambda>r. ex_status r = ''pending'') (SetRunning (clock b1)) ''start''
             (b1\<lparr>store := store a2\<rparr>)) = (cb, b2)"
    using assms [unfolded two_starts_def Let_def, folded why_def] va vb ua
    by (simp_all split: prod.splits)
  have "\<not> (ca = ACTA_DB_OK \<and> cb = ACTA_DB_OK)"
    using ua ub not_pending_after_start res
    by (auto dest!: exec_update_effect split: if_splits)
  moreover have "ca = ACTA_DB_OK \<and> cb = ACTA_DB_ERR_INVALID"
    if "healthy a" "healthy b" and ok: "exec_ok (store a)"
      and r: "row_at a eid = Some r" "ex_status r = ''pending''" for r
  proof -
    have probe: "rb = ACTA_DB_OK" "ra = ACTA_DB_OK" "a1 = a" "b1 = b\<lparr>store := store a\<rparr>"
      using verify_status_healthy [OF that(1), of eid "''pending''" why] va
        verify_status_healthy [of "b\<lparr>store := store a\<rparr>" eid "''pending''" why] vb that
      by (auto simp: row_at_def exec_code_def)
    have "ca = ACTA_DB_OK"
      using ua res exec_update_healthy [OF that(1) ok, where eid = eid and e = "SetRunning (clock a)"
          and g = "\<lambda>r. ex_status r = ''pending''" and what = "''start''"] r
      by (simp add: probe row_at_def)
    then have st: "store a2 = (store a)\<lparr>executions :=
        tbl_upd (\<lambda>r. ex_id r = eid) (exec_apply (SetRunning (clock a))) (executions (store a))\<rparr>"
      using ua res by (auto simp: probe exec_effect_def dest!: exec_update_effect)
    have "call_outcome (store a) ACTA_DB_OK (store a2)"
      unfolding st by (rule effect_outcome [where g = "\<lambda>r. ex_status r = ''pending''" and eid = eid])
        (use r in \<open>auto simp: exec_effect_def row_at_def\<close>)
    then have ok2: "exec_ok (store a2)" using ok by (rule outcome_exec_ok)
    have "cb = ACTA_DB_ERR_INVALID"
      using ub r exec_update_healthy [where d = "b\<lparr>store := store a2\<rparr>" and eid = eid
          and e = "SetRunning (clock b)" and g = "\<lambda>r. ex_status r = ''pending''" and what = "''start''"] that(2) ok2
      by (simp add: probe row_at_def st exec_rows.get_upd_id)
    with \<open>ca = ACTA_DB_OK\<close> show ?thesis by simp
  qed
  ultimately show ?thesis by blast
qed

lemma start_race_witness:
  "two_starts 1 sample_pending sample_pending
     = (ACTA_DB_OK, ACTA_DB_ERR_INVALID, snd (snd (two_starts 1 sample_pending sample_pending)))"
proof -
  let ?x = "two_starts 1 sample_pending sample_pending"
  have "healthy sample_pending" by code_simp
  moreover have "exec_ok (store sample_pending)" using sample_ok(2) by (simp add: db_ok_def)
  moreover have "map_option ex_status (row_at sample_pending 1) = Some ''pending''" by code_simp
  ultimately have "fst ?x = ACTA_DB_OK \<and> fst (snd ?x) = ACTA_DB_ERR_INVALID"
    using start_race [of 1 sample_pending sample_pending "fst ?x" "fst (snd ?x)" "snd (snd ?x)"]
    by auto
  then show ?thesis by (simp add: prod_eq_iff)
qed

section \<open>Create, then read back\<close>

lemma exec_get_healthy:
  assumes "healthy d" and "0 < eid"
  shows "acta_db_execution_get eid d =
    (case tbl_get ex_id (executions (store d)) eid of
       None \<Rightarrow> (None, None, d) | Some r \<Rightarrow> (Some (row_to_execution r), Some ACTA_DB_OK, d))"
proof (cases "tbl_get ex_id (executions (store d)) eid")
  case None
  with assms show ?thesis by (simp add: acta_db_execution_get_def sql_read_healthy filter_get_None)
next
  case (Some r)
  with assms show ?thesis
    using filter_get_Some [OF Some] by (auto simp: acta_db_execution_get_def sql_read_healthy)
qed

text \<open>An execution that was created is read back with the ids it was given, pending, with
  no result, error, raw response or times, under an id no execution had before; what the create
  returns through out_id is that id. (Ids are below 2^31; the engine has no fault in the read.)\<close>

theorem exec_create_get:
  assumes "acta_db_execution_create e d = (ACTA_DB_OK, out, d')" and "exec_ok (store d)"
    and "healthy d'" and "seq (executions (store d)) < 2147483647"
    and "e_context_id e < 2147483648" and "e_skill_revision_id e < 2147483648"
    and "e_model_revision_id e < 2147483648"
    and "- 2147483648 \<le> e_parent_execution_id e" and "e_parent_execution_id e < 2147483648"
  shows "\<exists>i. out = Some i \<and> row_at d i = None \<and> 0 < i
    \<and> acta_db_execution_get i d' =
        (Some \<lparr>e_id = i, e_context_id = e_context_id e, e_skill_revision_id = e_skill_revision_id e,
           e_model_revision_id = e_model_revision_id e, e_raw_response = None, e_result = None,
           e_status = Some ''pending'', e_error = None, e_created_at = Some (clock d),
           e_started_at = None, e_completed_at = None,
           e_parent_execution_id = e_parent_execution_id e, e_deleted_at = None\<rparr>,
         Some ACTA_DB_OK, d')"
proof (intro exI conjI)
  let ?i = "seq (executions (store d)) + 1"
  have t: "tbl_ok ex_id (executions (store d))" using assms(2) by (simp add: exec_ok_def)
  then have pos: "0 < ?i" by (simp add: tbl_ok_def)
  have int: "c_int ?i = ?i" using pos assms(4) by (simp add: c_int_id)
  note eff = create_effect [OF assms(1), simplified]
  show "out = Some ?i" using eff int by simp
  show "row_at d ?i = None" using exec_rows.fresh_id [OF t] by (simp add: row_at_def)
  show "0 < ?i" by (rule pos)
  have ids: "0 < e_context_id e" "0 < e_skill_revision_id e" "0 < e_model_revision_id e"
    using assms(1) by (auto simp: acta_db_execution_create_def split: if_splits)
  let ?new = "\<lambda>i. \<lparr>ex_id = i, ex_context_id = e_context_id e,
     ex_skill_revision_id = e_skill_revision_id e, ex_model_revision_id = e_model_revision_id e,
     ex_raw_response = None, ex_result = None, ex_status = ''pending'', ex_error = None,
     ex_created_at = clock d, ex_started_at = None, ex_completed_at = None, ex_deleted_at = None,
     ex_parent_execution_id =
       (if e_parent_execution_id e = 0 then None else Some (e_parent_execution_id e))\<rparr>"
  have "tbl_get ex_id (executions (store d')) ?i = Some (?new ?i)"
    using eff exec_rows.get_ins [OF t, of "?new 0" ?i] by simp
  then show "acta_db_execution_get ?i d' =
        (Some \<lparr>e_id = ?i, e_context_id = e_context_id e, e_skill_revision_id = e_skill_revision_id e,
           e_model_revision_id = e_model_revision_id e, e_raw_response = None, e_result = None,
           e_status = Some ''pending'', e_error = None, e_created_at = Some (clock d),
           e_started_at = None, e_completed_at = None,
           e_parent_execution_id = e_parent_execution_id e, e_deleted_at = None\<rparr>,
         Some ACTA_DB_OK, d')"
    using exec_get_healthy [OF assms(3) pos] int ids assms(5-9) c_int_id
    by (auto simp: row_to_execution_def)
qed

lemma exec_create_get_witness:
  "\<exists>i. row_at sample_inputs i = None
     \<and> map_option e_status (fst (acta_db_execution_get i sample_pending)) = Some (Some ''pending'')"
proof -
  have "fst (acta_db_execution_create sample_execution sample_inputs) = ACTA_DB_OK" by code_simp
  then have c: "acta_db_execution_create sample_execution sample_inputs =
      (ACTA_DB_OK, fst (snd (acta_db_execution_create sample_execution sample_inputs)), sample_pending)"
    by (simp add: sample_pending_def prod_eq_iff)
  have ok: "exec_ok (store sample_inputs)" using sample_ok(1) by (simp add: db_ok_def)
  have h: "healthy sample_pending" and s: "seq (executions (store sample_inputs)) = 0" by code_simp+
  show ?thesis
    using exec_create_get [OF c ok h] by (auto simp: s sample_execution_def)
qed

section \<open>Delete and restore\<close>

text \<open>Restoring a soft-deleted execution undoes the deletion exactly: after a delete and a
  restore that both succeed, the table of executions is what it was, for any faults before, between
  and after.\<close>

theorem exec_delete_restore:
  assumes "acta_db_execution_delete eid d = (ACTA_DB_OK, d1)" and "exec_ok (store d)"
    and "store d2 = store d1" and "acta_db_execution_restore eid d2 = (ACTA_DB_OK, d3)"
  shows "store d3 = store d"
proof -
  have t: "tbl_ok ex_id (executions (store d))" using assms(2) by (simp add: exec_ok_def)
  from delete_effect [OF assms(1)] obtain r where r: "tbl_get ex_id (executions (store d)) eid = Some r"
    and live: "ex_deleted_at r = None"
    and d1: "store d1 = (store d)\<lparr>executions :=
       tbl_upd (\<lambda>r. ex_id r = eid) (exec_apply (SetExecDeleted (clock d))) (executions (store d))\<rparr>"
    by (auto simp: exec_effect_def)
  from restore_effect [OF assms(4)] have d3: "store d3 = (store d1)\<lparr>executions :=
       tbl_upd (\<lambda>r. ex_id r = eid) (exec_apply ClearExecDeleted) (executions (store d1))\<rparr>"
    by (auto simp: exec_effect_def assms(3))
  have "map (\<lambda>q. if ex_id q = eid then q\<lparr>ex_deleted_at := None\<rparr> else q) (rows (executions (store d)))
      = rows (executions (store d))"
  proof (rule map_idI)
    fix q assume "q \<in> set (rows (executions (store d)))"
    then show "(if ex_id q = eid then q\<lparr>ex_deleted_at := None\<rparr> else q) = q"
      using tbl_get_unique [OF t] r live by (cases q) auto
  qed
  then have "tbl_upd (\<lambda>r. ex_id r = eid) (exec_apply ClearExecDeleted)
      (tbl_upd (\<lambda>r. ex_id r = eid) (exec_apply (SetExecDeleted (clock d))) (executions (store d)))
      = executions (store d)"
    by (simp add: tbl_upd_def o_def if_distrib [of "\<lambda>q. if ex_id q = eid then q\<lparr>ex_deleted_at := None\<rparr> else q"]
        cong: if_cong)
  then show ?thesis by (simp add: d3 d1)
qed

lemma exec_delete_restore_witness:
  "store (snd (acta_db_execution_restore 1 (snd (acta_db_execution_delete 1 sample_done))))
     = store sample_done"
proof (rule exec_delete_restore)
  show "acta_db_execution_delete 1 sample_done = (ACTA_DB_OK, snd (acta_db_execution_delete 1 sample_done))"
    by (simp add: prod_eq_iff) code_simp
  show "exec_ok (store sample_done)" using sample_ok(4) by (simp add: db_ok_def)
  show "acta_db_execution_restore 1 (snd (acta_db_execution_delete 1 sample_done)) =
      (ACTA_DB_OK, snd (acta_db_execution_restore 1 (snd (acta_db_execution_delete 1 sample_done))))"
    by (simp add: prod_eq_iff) code_simp
qed simp

section \<open>Queries\<close>

text \<open>The predicates a query asks for, in the order of the builder.\<close>

definition exec_preds :: "execution_query_t \<Rightarrow> string list" where
  "exec_preds q =
     (if q_status q \<noteq> None then [''status = ?''] else [])
     @ (if q_parent_execution_id q \<noteq> 0 then [''parent_execution_id = ?''] else [])
     @ (if q_context_id q \<noteq> 0 then [''context_id = ?''] else [])
     @ (if q_skill_revision_id q \<noteq> 0 then [''skill_revision_id = ?''] else [])
     @ (if q_model_revision_id q \<noteq> 0 then [''model_revision_id = ?''] else [])
     @ (if \<not> q_include_deleted q then [''deleted_at IS NULL''] else [])"

lemma where_if_fits:
  "length buf + 5 + length clause < sz \<Longrightarrow>
   where_if sz c clause (Some (buf, n)) =
     Some (if c then (buf @ (if n \<noteq> 0 then '' AND '' else '''') @ clause, n + 1) else (buf, n))"
  by (auto simp: where_if_def where_append_def Let_def)

lemma exec_where_text_eq:
  "exec_build_where 384 q = Some (and_join (exec_preds q), length (exec_preds q))"
  by (cases "q_status q = None"; cases "q_parent_execution_id q = 0"; cases "q_context_id q = 0";
      cases "q_skill_revision_id q = 0"; cases "q_model_revision_id q = 0"; cases "q_include_deleted q";
      simp add: exec_build_where_def where_if_fits exec_preds_def Let_def)

lemma and_join_length:
  assumes "\<And>p. p \<in> set ps \<Longrightarrow> length p \<le> b"
  shows "length (and_join ps) \<le> 7 + length ps * (b + 5)"
proof (cases ps)
  case (Cons p qs)
  have "length (concat (map ((@) '' AND '') qs)) \<le> length qs * (b + 5)"
    if "\<And>p. p \<in> set qs \<Longrightarrow> length p \<le> b" for qs :: "string list"
    using that by (induction qs) fastforce+
  from this [of qs] have "length (concat (map ((@) '' AND '') qs)) \<le> length qs * (b + 5)"
    using assms Cons by (meson list.set_intros(2))
  moreover have "length (and_join ps) = 7 + length p + length (concat (map ((@) '' AND '') qs))"
    by (simp only: Cons and_join.simps length_append) simp
  moreover have "length p \<le> b" using assms Cons by simp
  ultimately show ?thesis unfolding Cons length_Cons mult_Suc by linarith
qed simp

lemma exec_where_length: "length (and_join (exec_preds q)) \<le> 175"
proof -
  have "length p \<le> 23" if "p \<in> set (exec_preds q)" for p
    using that by (auto simp: exec_preds_def split: if_splits)
  then have "length (and_join (exec_preds q)) \<le> 7 + length (exec_preds q) * (23 + 5)"
    by (rule and_join_length)
  moreover have "length (exec_preds q) \<le> 6" by (simp add: exec_preds_def)
  ultimately show ?thesis by simp
qed

text \<open>The query a caller means: without one, every live execution.\<close>

definition exec_asked :: "execution_query_t option \<Rightarrow> execution_row \<Rightarrow> bool" where
  "exec_asked q = (case q of None \<Rightarrow> (\<lambda>r. ex_deleted_at r = None) | Some q' \<Rightarrow> exec_matches q')"

lemma exec_asked_eq:
  "exec_matches (case q of None \<Rightarrow> ACTA_EXEC_QUERY_ANY | Some q' \<Rightarrow> q') = exec_asked q"
  by (cases q) (auto simp: exec_asked_def exec_matches_def ACTA_EXEC_QUERY_ANY_def)

lemma exec_query_rows:
  assumes "healthy d" and "exec_ok (store d)"
  shows "execution_query_impl q offset limit light d =
      (if offset < 0 then ([], None, Some ACTA_DB_ERR_INVALID, d)
       else let page = sql_page (db_clamp_limit limit) offset (filter (exec_asked q) (rows (executions (store d))))
            in (map (if light then row_to_execution_light else row_to_execution) page,
                Some (int (length page)), Some ACTA_DB_OK, d))"
proof -
  define eff where "eff = (case q of None \<Rightarrow> ACTA_EXEC_QUERY_ANY | Some q' \<Rightarrow> q')"
  have asked: "exec_matches eff = exec_asked q" unfolding eff_def by (rule exec_asked_eq)
  have sort: "sort_key ex_id (filter p (rows (executions (store d)))) = filter p (rows (executions (store d)))" for p
    using assms(2) by (intro sort_key_filter_rows) (simp add: exec_ok_def)
  have short: "length (EXEC_SELECT @ and_join (exec_preds eff) @ '' ORDER BY id ASC LIMIT ? OFFSET ?;'') < 600"
      "length (EXEC_SELECT_LIGHT @ and_join (exec_preds eff) @ '' ORDER BY id ASC LIMIT ? OFFSET ?;'') < 600"
    using exec_where_length [of eff] by (simp_all add: EXEC_SELECT_def EXEC_SELECT_LIGHT_def)
  show ?thesis
    using short assms(1)
    by (cases light) (simp_all add: execution_query_impl_def eff_def [symmetric] exec_where_text_eq asked sort
        sql_read_healthy collect_loop_None Let_def not_le)
qed

text \<open>The query builder never runs out of its 384 bytes: for every query it produces the
  conjunction of exactly the predicates asked for, joined by AND behind one WHERE (no clause when there
  are none), with their number.\<close>

theorem exec_where_text:
  "exec_build_where 384 q = Some (and_join (exec_preds q), length (exec_preds q))"
  by (rule exec_where_text_eq)

text \<open>On an engine without faults, a query page is what its caller means by it: the
  matching executions in id order, from the offset on, at most the clamped limit of them, decoded;
  the count is their number without paging; the light variant has the same rows with the two large
  columns left out. A negative offset is refused. The SQL buffers never overflow.\<close>

theorem exec_query_page:
  assumes "healthy d" and "exec_ok (store d)"
  shows "acta_db_execution_query q offset limit d =
      (if offset < 0 then ([], None, Some ACTA_DB_ERR_INVALID, d)
       else let page = sql_page (db_clamp_limit limit) offset (filter (exec_asked q) (rows (executions (store d))))
            in (map row_to_execution page, Some (int (length page)), Some ACTA_DB_OK, d))
    \<and> fst (acta_db_execution_query_light q offset limit d) =
        map (\<lambda>e. e\<lparr>e_raw_response := None, e_result := None, e_error := None\<rparr>)
          (fst (acta_db_execution_query q offset limit d))
    \<and> (length (rows (executions (store d))) < 2147483648 \<longrightarrow>
         acta_db_execution_count q d =
           (int (length (filter (exec_asked q) (rows (executions (store d))))), Some ACTA_DB_OK, d))"
proof (intro conjI impI)
  define eff where "eff = (case q of None \<Rightarrow> ACTA_EXEC_QUERY_ANY | Some q' \<Rightarrow> q')"
  have asked: "exec_matches eff = exec_asked q" unfolding eff_def by (rule exec_asked_eq)
  have short: "length (''SELECT COUNT(*) FROM executions'' @ and_join (exec_preds eff) @ '';'') < 500"
    using exec_where_length [of eff] by simp
  note impl = exec_query_rows [OF assms]
  show "acta_db_execution_query q offset limit d =
      (if offset < 0 then ([], None, Some ACTA_DB_ERR_INVALID, d)
       else let page = sql_page (db_clamp_limit limit) offset (filter (exec_asked q) (rows (executions (store d))))
            in (map row_to_execution page, Some (int (length page)), Some ACTA_DB_OK, d))"
    by (simp add: acta_db_execution_query_def impl)
  have light: "row_to_execution_light r =
      (row_to_execution r)\<lparr>e_raw_response := None, e_result := None, e_error := None\<rparr>" for r
    by (simp add: row_to_execution_def row_to_execution_light_def)
  show "fst (acta_db_execution_query_light q offset limit d) =
        map (\<lambda>e. e\<lparr>e_raw_response := None, e_result := None, e_error := None\<rparr>)
          (fst (acta_db_execution_query q offset limit d))"
    by (simp add: acta_db_execution_query_def acta_db_execution_query_light_def impl Let_def light)
  assume "length (rows (executions (store d))) < 2147483648"
  then have "length (filter (exec_asked q) (rows (executions (store d)))) < 2147483648"
    using length_filter_le [of "exec_asked q" "rows (executions (store d))"] by linarith
  then have "c_int (int (length (filter (exec_asked q) (rows (executions (store d))))))
      = int (length (filter (exec_asked q) (rows (executions (store d)))))"
    by (intro c_int_id) auto
  then show "acta_db_execution_count q d =
      (int (length (filter (exec_asked q) (rows (executions (store d))))), Some ACTA_DB_OK, d)"
    using short assms(1)
    by (simp add: acta_db_execution_count_def eff_def [symmetric] exec_where_text_eq asked
        sql_read_healthy Let_def not_le)
qed

lemma exec_query_page_witness:
  "fst (acta_db_execution_query None 0 50 sample_pending) = map row_to_execution (rows (executions (store sample_pending)))
   \<and> fst (acta_db_execution_count None sample_pending) = 1"
proof -
  have h: "healthy sample_pending" by code_simp
  have ok: "exec_ok (store sample_pending)" using sample_ok(2) by (simp add: db_ok_def)
  have f: "sql_page (db_clamp_limit 50) 0 (filter (exec_asked None) (rows (executions (store sample_pending))))
      = rows (executions (store sample_pending))"
    and n: "length (filter (exec_asked None) (rows (executions (store sample_pending)))) = 1"
    and m: "length (rows (executions (store sample_pending))) = 1"
    by code_simp+
  from m have "length (rows (executions (store sample_pending))) < 2147483648" by simp
  then show ?thesis
    using exec_query_page [OF h ok, of None 0 50] f n by (simp add: Let_def)
qed

end
