(* ===== verification/System_Properties.thy ===== *)
theory System_Properties
  imports Samples
begin

text \<open>
  The properties of the library as a whole: what a failing call leaves, the invariant of the nine
  tables over any run, and the provenance of an execution, the record the schema exists for.
\<close>

section \<open>Provenance\<close>

text \<open>Claim C1: The inputs of an execution can always be recovered, and never change: in a store
  kept by the library every execution leads to the context body, the skill revision and the model
  revision it was created with, and after any further run (edits, deletions, other processes, engine
  faults) it still leads to the same four values.\<close>

theorem provenance_preserved:
  assumes "lib_run d d'" and "db_ok (store d)" and "tbl_get ex_id (executions (store d)) i = Some r"
  shows "\<exists>p. provenance (store d) i = Some p \<and> provenance (store d') i = Some p"
proof -
  obtain p where p: "provenance (store d) i = Some p"
    using provenance_known [OF assms(2,3)] by blast
  have "provenance (store d') i = Some p"
    by (rule steps_keep [where P = "\<lambda>s. provenance s i = Some p", OF lib_run_steps [OF assms(1)] assms(2) p])
      (rule step_provenance)
  with p show ?thesis by blast
qed

lemma provenance_preserved_witness:
  "\<exists>p. provenance (store sample_pending) 1 = Some p \<and> provenance (store sample_done) 1 = Some p"
proof (rule provenance_preserved)
  show "lib_run sample_pending sample_done" by (rule run_trans [OF sample_done_run sample_running_run])
  show "db_ok (store sample_pending)" by (rule sample_ok)
  show "tbl_get ex_id (executions (store sample_pending)) 1
      = Some (the (tbl_get ex_id (executions (store sample_pending)) 1))"
    by code_simp
qed

section \<open>The invariant of the store\<close>

text \<open>Claim C3: Starting from an empty database, whatever sequence of library calls runs, on one
  handle or several, under any engine faults: ids are distinct and below the counter, no reference
  dangles (folder of a folder, of a skill, of a model; owner of a revision; context, revisions and
  parent of an execution; execution of a log line), folder, skill and model names are unique in
  their folder, statuses, timestamps and log levels are legal, and every skill and model has its
  numbered history.\<close>

theorem library_keeps_invariant:
  assumes "lib_run d d'" and "store d = empty_store"
  shows "folders_ok (skill_folders (store d')) \<and> folders_ok (model_folders (store d'))
    \<and> skills_ok (store d') \<and> models_ok (store d') \<and> tbl_ok cx_id (contexts (store d'))
    \<and> exec_ok (store d') \<and> exec_refs_ok (store d') \<and> logs_ok (store d')"
  using run_db_ok [OF assms(1)] assms(2) unfolding db_ok_def [symmetric] by simp

lemma library_keeps_invariant_witness:
  "exec_refs_ok (store sample_inputs) \<and> skills_ok (store sample_inputs)"
  using library_keeps_invariant [OF sample_inputs_run] by (simp add: sample_empty_def)

section \<open>A call that fails\<close>

text \<open>Claim C13: A call of any mutator of the library that does not report OK, for whatever reason,
  leaves all nine tables as they were; one that reports OK makes one specified step.\<close>

theorem failed_call_changes_nothing:
  assumes "lib_call d rc d'"
  shows "if rc = ACTA_DB_OK then db_step (store d) (store d') else store d' = store d"
  using lib_call_step [OF assms] unfolding step_or_keep_def .

lemma failed_call_changes_nothing_witness:
  "store (snd (acta_db_execution_start 1 sample_done)) = store sample_done"
proof -
  have "lib_call sample_done (fst (acta_db_execution_start 1 sample_done))
      (snd (acta_db_execution_start 1 sample_done))"
    by (rule ex_mutate [OF c_start [OF collapse2]])
  moreover have "fst (acta_db_execution_start 1 sample_done) \<noteq> ACTA_DB_OK" by code_simp
  ultimately show ?thesis using failed_call_changes_nothing by presburger
qed

section \<open>What is written once\<close>

text \<open>Claim C29: Revisions of skills and of models and log lines, once written, are never changed
  or removed by the library, and neither are type, content, hash, metadata and time of a context.\<close>

theorem written_once:
  assumes "lib_run d d'" and "db_ok (store d)"
  shows "(\<forall>v. tbl_get sr_id (skill_revisions (store d)) i = Some v \<longrightarrow>
        tbl_get sr_id (skill_revisions (store d')) i = Some v)
    \<and> (\<forall>v. tbl_get mr_id (model_revisions (store d)) i = Some v \<longrightarrow>
        tbl_get mr_id (model_revisions (store d')) i = Some v)
    \<and> (\<forall>l. tbl_get lg_id (execution_logs (store d)) i = Some l \<longrightarrow>
        tbl_get lg_id (execution_logs (store d')) i = Some l)
    \<and> (\<forall>c. tbl_get cx_id (contexts (store d)) i = Some c \<longrightarrow>
        (\<exists>c'. tbl_get cx_id (contexts (store d')) i = Some c' \<and> context_body c' = context_body c))"
proof (intro conjI allI impI)
  note keep = steps_keep [OF lib_run_steps [OF assms(1)] assms(2)]
  fix v assume "tbl_get sr_id (skill_revisions (store d)) i = Some v"
  then show "tbl_get sr_id (skill_revisions (store d')) i = Some v"
    by (rule keep) (rule step_skill_revision)
next
  note keep = steps_keep [OF lib_run_steps [OF assms(1)] assms(2)]
  fix v assume "tbl_get mr_id (model_revisions (store d)) i = Some v"
  then show "tbl_get mr_id (model_revisions (store d')) i = Some v"
    by (rule keep) (rule step_model_revision)
next
  note keep = steps_keep [OF lib_run_steps [OF assms(1)] assms(2)]
  fix l assume "tbl_get lg_id (execution_logs (store d)) i = Some l"
  then show "tbl_get lg_id (execution_logs (store d')) i = Some l"
    by (rule keep) (rule step_log)
next
  fix c assume c: "tbl_get cx_id (contexts (store d)) i = Some c"
  show "\<exists>c'. tbl_get cx_id (contexts (store d')) i = Some c' \<and> context_body c' = context_body c"
  proof (rule steps_keep [OF lib_run_steps [OF assms(1)] assms(2)])
    show "\<exists>c'. tbl_get cx_id (contexts (store d)) i = Some c' \<and> context_body c' = context_body c"
      using c by blast
  next
    fix s s' assume "db_step s s'" "db_ok s"
      "\<exists>c'. tbl_get cx_id (contexts s) i = Some c' \<and> context_body c' = context_body c"
    then show "\<exists>c'. tbl_get cx_id (contexts s') i = Some c' \<and> context_body c' = context_body c"
      using step_context by metis
  qed
qed

lemma written_once_witness:
  "tbl_get sr_id (skill_revisions (store sample_done)) 1
     = tbl_get sr_id (skill_revisions (store sample_pending)) 1"
proof -
  have run: "lib_run sample_pending sample_done"
    by (rule run_trans [OF sample_done_run sample_running_run])
  have "tbl_get sr_id (skill_revisions (store sample_pending)) 1
      = Some (the (tbl_get sr_id (skill_revisions (store sample_pending)) 1))"
    by code_simp
  then show ?thesis using written_once [OF run sample_ok(2), of 1] by auto
qed

end
