(* ===== verification/Folder_Properties.thy ===== *)
theory Folder_Properties
  imports Samples
begin

text \<open>
  The properties of the two folder components: their trees stay trees, the guards of the moves and
  the deletions are exact, names are unique, and the two ways in which a cycle can still be made.
\<close>

section \<open>The walk to the root decides the subtree\<close>

text \<open>Ids fit a C int, and the walk of the skill folders (4096 steps) outruns the table.\<close>

definition folder_bounds :: "folder_row table \<Rightarrow> bool" where
  "folder_bounds t \<longleftrightarrow> seq t < 2147483648 \<and> length (rows t) < 4096"

definition live_folder :: "folder_row table \<Rightarrow> int \<Rightarrow> bool" where
  "live_folder t i = (case tbl_get fo_id t i of None \<Rightarrow> False | Some r \<Rightarrow> fo_deleted_at r = None)"

lemma live_folder_iff: "live_folder t i \<longleftrightarrow> (\<exists>r. tbl_get fo_id t i = Some r \<and> fo_deleted_at r = None)"
  by (simp add: live_folder_def split: option.split)

text \<open>\<open>below t p i\<close>: folder \<open>p\<close> is \<open>i\<close> or lies under it.\<close>

definition below :: "folder_row table \<Rightarrow> int \<Rightarrow> int \<Rightarrow> bool" where
  "below t p i \<longleftrightarrow> (p, i) \<in> (edges t)\<^sup>*"

lemma parent_bounds:
  assumes "folders_ok t" and "seq t < 2147483648" and "tbl_get fo_id t i = Some r"
    and "fo_parent_id r = Some p"
  shows "0 < p \<and> c_int p = p"
proof -
  have "r \<in> set (rows t)" using assms(3) by (auto dest: tbl_get_SomeD)
  then obtain q where "tbl_get fo_id t p = Some q"
    using assms(1,4) by (force simp: folders_ok_def fk_ok_def has_row_def)
  then have "q \<in> set (rows t)" "fo_id q = p" by (auto dest: tbl_get_SomeD)
  then have "0 < p \<and> p \<le> seq t" using assms(1) by (auto simp: folders_ok_def tbl_ok_def)
  then show ?thesis using assms(2) by (simp add: c_int_id)
qed

lemma below_root:
  assumes "\<And>p. (i, p) \<notin> edges t" and "i \<noteq> j"
  shows "\<not> below t i j"
  unfolding below_def using assms by (metis converse_rtranclE)

lemma below_parent:
  assumes "\<And>q. (i, q) \<in> edges t \<longleftrightarrow> q = p" and "i \<noteq> j"
  shows "below t i j \<longleftrightarrow> below t p j"
  unfolding below_def
proof
  show "(i, j) \<in> (edges t)\<^sup>* \<Longrightarrow> (p, j) \<in> (edges t)\<^sup>*"
    using reach_first_step [OF _ assms(2,1)] .
  have "(i, p) \<in> edges t" using assms(1) by simp
  then show "(p, j) \<in> (edges t)\<^sup>* \<Longrightarrow> (i, j) \<in> (edges t)\<^sup>*" by (rule converse_rtrancl_into_rtrancl)
qed

lemma skill_walk_exact:
  assumes "healthy d" and "folders_ok (skill_folders (store d))" and "folder_tree (skill_folders (store d))"
    and "seq (skill_folders (store d)) < 2147483648"
    and "height (skill_folders (store d)) cursor < fuel"
  shows "skill_folder_walk fuel fid cursor d = (below (skill_folders (store d)) cursor fid, d)"
  using assms(5)
proof (induction fuel arbitrary: cursor)
  case (Suc fuel)
  let ?t = "skill_folders (store d)"
  have t: "tbl_ok fo_id ?t" using assms(2) by (simp add: folders_ok_def)
  show ?case
  proof (cases "cursor = fid")
    case True
    then show ?thesis by (simp add: below_def)
  next
    case ne: False
    show ?thesis
    proof (cases "tbl_get fo_id ?t cursor")
      case None
      then show ?thesis
        using ne below_root [OF edges_no_row [OF None] ne] assms(1)
        by (simp add: sql_read_healthy filter_get_None)
    next
      case (Some r)
      then obtain rs where f: "filter (\<lambda>r. fo_id r = cursor) (rows ?t) = r # rs"
        using filter_get_Some [OF Some] by blast
      show ?thesis
      proof (cases "fo_parent_id r")
        case None
        then have "\<And>p. (cursor, p) \<notin> edges ?t" using edges_row [OF t Some] by simp
        then show ?thesis
          using ne below_root [OF _ ne] f None assms(1) by (simp add: sql_read_healthy)
      next
        case (Some p)
        note par = edges_row [OF t \<open>tbl_get fo_id ?t cursor = Some r\<close>]
        have c: "c_int p = p"
          using parent_bounds [OF assms(2,4) \<open>tbl_get fo_id ?t cursor = Some r\<close> Some] by simp
        have "height ?t p < fuel"
          using height_step [OF assms(3), of cursor p] par Some Suc.prems by auto
        then have "skill_folder_walk fuel fid p d = (below ?t p fid, d)" by (rule Suc.IH)
        moreover have "below ?t cursor fid = below ?t p fid"
          by (rule below_parent [OF _ ne]) (use par Some in auto)
        ultimately show ?thesis using ne f Some c assms(1) by (simp add: sql_read_healthy)
      qed
    qed
  qed
qed simp

lemma skill_live_healthy:
  assumes "healthy d"
  shows "skill_folder_live i d =
    (Fetched (map (\<lambda>r. ()) (filter (\<lambda>r. fo_id r = i \<and> fo_deleted_at r = None) (rows (skill_folders (store d)))))
       SQLITE_DONE None, d)"
  using assms by (simp add: skill_folder_live_def sql_read_healthy)

lemma live_filter:
  assumes "tbl_ok fo_id t"
  shows "filter (\<lambda>r. fo_id r = i \<and> fo_deleted_at r = None) (rows t) = [] \<longleftrightarrow> \<not> live_folder t i"
  using tbl_get_unique [OF assms] tbl_get_SomeD [of fo_id t i]
  by (auto simp: live_folder_iff filter_empty_conv)

text \<open>Some other folder under \<open>k\<close> has the name \<open>nm\<close> (deleted folders count, as in the index).\<close>

definition sibling_named :: "folder_row table \<Rightarrow> int \<Rightarrow> int option \<Rightarrow> string \<Rightarrow> bool" where
  "sibling_named t i k nm \<longleftrightarrow> (\<exists>q\<in>set (rows t). fo_id q \<noteq> i \<and> fo_parent_id q = k \<and> fo_name q = nm)"

lemma clash_sibling:
  "uq_clash fo_id fo_parent_id fo_name t r \<longleftrightarrow> sibling_named t (fo_id r) (fo_parent_id r) (fo_name r)"
  by (simp add: uq_clash_iff sibling_named_def)

lemma no_own_sibling:
  assumes "folders_ok t" and "tbl_get fo_id t i = Some r"
  shows "\<not> sibling_named t i (fo_parent_id r) (fo_name r)"
proof
  have r: "r \<in> set (rows t)" "fo_id r = i" using tbl_get_SomeD [OF assms(2)] by auto
  assume "sibling_named t i (fo_parent_id r) (fo_name r)"
  then obtain q where "q \<in> set (rows t)" "fo_id q \<noteq> i" "fo_parent_id q = fo_parent_id r" "fo_name q = fo_name r"
    by (auto simp: sibling_named_def)
  then show False using assms(1) r unfolding folders_ok_def uq_ok_def by metis
qed

text \<open>What the guarded UPDATE of a live folder answers, over the folders of a healthy handle.\<close>

lemma update_live_folder:
  assumes "folders_ok t" and "tbl_get fo_id t i = Some r" and "fo_deleted_at r = None"
    and "fk_ok fo_id t (fo_parent_id (folder_apply e r))"
  shows "update_folder i (\<lambda>r. fo_deleted_at r = None) (folder_apply e) t =
    (if sibling_named t i (fo_parent_id (folder_apply e r)) (fo_name (folder_apply e r))
     then Inl SQLITE_CONSTRAINT_UNIQUE
     else Inr (1, tbl_upd (\<lambda>r. fo_id r = i) (folder_apply e) t))"
proof -
  have id: "fo_id (folder_apply e r) = i"
    using tbl_get_SomeD [OF assms(2)] by (simp add: folder_rows.rid_edit)
  show ?thesis
    using assms(2-4) no_own_sibling [OF assms(1,2)]
    by (auto simp: update_folder_def Let_def clash_sibling id)
qed

lemma update_dead_folder:
  assumes "\<not> live_folder t i"
  shows "update_folder i (\<lambda>r. fo_deleted_at r = None) f t = Inr (0, t)"
  using assms by (auto simp: update_folder_def live_folder_iff split: option.split)

lemma live_fk: "live_folder t p \<Longrightarrow> fk_ok fo_id t (Some p)"
  by (auto simp: live_folder_iff fk_ok_def has_row_def)

text \<open>The name of folder \<open>i\<close>.\<close>

definition name_of :: "folder_row table \<Rightarrow> int \<Rightarrow> string" where
  "name_of t i = (case tbl_get fo_id t i of None \<Rightarrow> [] | Some r \<Rightarrow> fo_name r)"

section \<open>Moving a skill folder\<close>

text \<open>Claim C11: On an engine without faults a move of a skill folder answers exactly: INVALID for a
  bad id and for a target inside the folder's own subtree (however deep), NOT_FOUND when the folder or
  the target is missing or deleted, an SQL error when a sibling in the target has its name, OK
  otherwise; and the folders are a tree again afterwards. (Below 4096 folders, ids in an int.)\<close>

theorem skill_folder_move_exact:
  assumes d: "healthy d" and ok: "folders_ok (skill_folders (store d))"
    and tree: "folder_tree (skill_folders (store d))" and b: "folder_bounds (skill_folders (store d))"
  shows "fst (acta_db_skill_folder_move_to fid p d) =
      (let t = skill_folders (store d) in
       if fid \<le> 0 then ACTA_DB_ERR_INVALID
       else if \<not> live_folder t fid \<or> (p \<noteq> 0 \<and> \<not> live_folder t p) then ACTA_DB_ERR_NOT_FOUND
       else if p \<noteq> 0 \<and> below t p fid then ACTA_DB_ERR_INVALID
       else if sibling_named t fid (bind_parent p) (name_of t fid) then ACTA_DB_ERR_SQL
       else ACTA_DB_OK)
    \<and> folder_tree (skill_folders (store (snd (acta_db_skill_folder_move_to fid p d))))"
proof -
  let ?t = "skill_folders (store d)"
  have t: "tbl_ok fo_id ?t" using ok by (simp add: folders_ok_def)
  have h: "height ?t p < 4096" using height_le [of ?t p] b by (simp add: folder_bounds_def)
  note walk = skill_walk_exact [OF d ok tree _ h, of fid] and live = live_filter [OF t]
  have walk: "skill_folder_walk 4096 fid p d = (below ?t p fid, d)"
    using walk b by (simp add: folder_bounds_def)
  show ?thesis
  proof (cases "fid \<le> 0 \<or> \<not> live_folder ?t fid \<or> p \<noteq> 0 \<and> (\<not> live_folder ?t p \<or> below ?t p fid)")
    case True
    then show ?thesis
      using d tree live [of fid] live [of p] walk
      by (auto simp: acta_db_skill_folder_move_to_def skill_live_healthy Let_def split: list.split)
  next
    case False
    then obtain r where r: "tbl_get fo_id ?t fid = Some r" "fo_deleted_at r = None"
      by (auto simp: live_folder_iff)
    let ?e = "SetFolderParent (bind_parent p) (clock d)"
    have "fk_ok fo_id ?t (fo_parent_id (folder_apply ?e r))"
      using False live_fk by (auto simp: bind_parent_def fk_ok_def)
    note upd = update_live_folder [OF ok r this]
    have move: "acta_db_skill_folder_move_to fid p d =
        finish_update ACTA_DB_ERR_NOT_FOUND (sf_missing fid)
          (sql_write (on_skill_folders (update_folder fid (\<lambda>r. fo_deleted_at r = None) (folder_apply ?e))) d)"
      using False d live [of fid] live [of p] walk
      by (auto simp: acta_db_skill_folder_move_to_def skill_live_healthy neq_Nil_conv)
    have code: "fst (acta_db_skill_folder_move_to fid p d) =
        (if sibling_named ?t fid (bind_parent p) (fo_name r) then ACTA_DB_ERR_SQL else ACTA_DB_OK)"
      using upd by (simp add: move finish_update_healthy [OF d] on_skill_folders_def)
    have "folder_tree (skill_folders (store (snd (acta_db_skill_folder_move_to fid p d))))"
    proof (cases "sibling_named ?t fid (bind_parent p) (fo_name r)")
      case True
      then show ?thesis
        using upd tree by (simp add: move finish_update_healthy [OF d] on_skill_folders_def)
    next
      case nosib: False
      let ?t' = "tbl_upd (\<lambda>r. fo_id r = fid) (folder_apply ?e) ?t"
      have ed: "folder_edited (fid, \<lambda>r. fo_deleted_at r = None, ?e) ?t ?t'"
        using upd nosib by (intro update_folder_hit [where n = 1]) simp_all
      have "folder_tree ?t'"
        by (rule folder_tree_move [OF ed ok tree])
          (use False in \<open>auto simp: below_def bind_parent_def split: if_splits\<close>)
      then show ?thesis
        using upd nosib by (simp add: move finish_update_healthy [OF d] on_skill_folders_def)
    qed
    with code False r show ?thesis by (auto simp: Let_def name_of_def)
  qed
qed

definition sample_folders :: db_t where
  "sample_folders = snd (snd (acta_db_skill_folder_create (Some ''b'') 1
     (snd (snd (acta_db_skill_folder_create (Some ''a'') 0 sample_inputs)))))"

lemma sample_folders_ok: "db_ok (store sample_folders)"
  unfolding sample_folders_def
  by (rule run_db_ok [OF l_call [OF run_one [OF sf_create [OF collapse3]] sf_create [OF collapse3]] sample_ok(1)])

lemma sample_folders_rows:
  "map (\<lambda>r. (fo_id r, fo_parent_id r)) (rows (skill_folders (store sample_folders))) = [(1, None), (2, Some 1)]"
  by code_simp

lemma folder_tree_rows:
  assumes "\<And>r p. r \<in> set (rows t) \<Longrightarrow> fo_parent_id r = Some p \<Longrightarrow> p < fo_id r"
  shows "folder_tree t"
proof -
  have "j < i" if "(i, j) \<in> (edges t)\<^sup>+" for i j
    using that by (induction rule: trancl_induct) (use assms in \<open>force simp: edges_def\<close>)+
  then show ?thesis unfolding folder_tree_def acyclic_def by fastforce
qed

lemma sample_folders_tree: "folder_tree (skill_folders (store sample_folders))"
proof (rule folder_tree_rows)
  fix r p assume "r \<in> set (rows (skill_folders (store sample_folders)))" "fo_parent_id r = Some p"
  then have "(fo_id r, Some p) \<in> set [(1, None), (2, Some 1)]"
    unfolding sample_folders_rows [symmetric] by force
  then show "p < fo_id r" by auto
qed

lemma sample_folders_facts: "healthy sample_folders" "folder_bounds (skill_folders (store sample_folders))"
  "folders_ok (skill_folders (store sample_folders))"
proof -
  show "healthy sample_folders" by code_simp
  have "seq (skill_folders (store sample_folders)) = 2" and "length (rows (skill_folders (store sample_folders))) = 2"
    by code_simp+
  then show "folder_bounds (skill_folders (store sample_folders))" by (simp add: folder_bounds_def)
  show "folders_ok (skill_folders (store sample_folders))"
    using sample_folders_ok by (simp add: db_ok_def)
qed

lemma skill_folder_move_exact_witness:
  "fst (acta_db_skill_folder_move_to 1 2 sample_folders) = ACTA_DB_ERR_INVALID
   \<and> folder_tree (skill_folders (store (snd (acta_db_skill_folder_move_to 2 0 sample_folders))))"
proof
  note m = skill_folder_move_exact [OF sample_folders_facts(1,3) sample_folders_tree sample_folders_facts(2)]
  have "(2, Some 1) \<in> set (map (\<lambda>r. (fo_id r, fo_parent_id r)) (rows (skill_folders (store sample_folders))))"
    unfolding sample_folders_rows by simp
  then have "(2, 1) \<in> edges (skill_folders (store sample_folders))" by (force simp: edges_def)
  then have "below (skill_folders (store sample_folders)) 2 1" by (simp add: below_def r_into_rtrancl)
  moreover have "live_folder (skill_folders (store sample_folders)) 1"
    "live_folder (skill_folders (store sample_folders)) 2" by code_simp+
  ultimately show "fst (acta_db_skill_folder_move_to 1 2 sample_folders) = ACTA_DB_ERR_INVALID"
    using m [where fid = 1 and p = 2] by (simp add: Let_def)
  show "folder_tree (skill_folders (store (snd (acta_db_skill_folder_move_to 2 0 sample_folders))))"
    using m [where fid = 2 and p = 0] by blast
qed

section \<open>The other calls keep the trees\<close>

lemma skill_folder_effect_tree:
  assumes "skill_folder_stmt.effect (i, g, e) st rc st'" and "folders_ok (skill_folders st)"
    and "\<And>r. fo_parent_id (folder_apply e r) = fo_parent_id r" and "folder_tree (skill_folders st)"
  shows "folder_tree (skill_folders st')"
  using assms folder_tree_same_parent
  by (fastforce simp: skill_folder_stmt.effect_def skill_folder_edited_def split: if_splits)

lemma model_folder_effect_tree:
  assumes "model_folder_stmt.effect (i, g, e) st rc st'" and "folders_ok (model_folders st)"
    and "\<And>r. fo_parent_id (folder_apply e r) = fo_parent_id r" and "folder_tree (model_folders st)"
  shows "folder_tree (model_folders st')"
  using assms folder_tree_same_parent
  by (fastforce simp: model_folder_stmt.effect_def model_folder_edited_def split: if_splits)

lemma new_folder_parent: "fo_parent_id (new_folder nm p now) = bind_parent p"
  by (simp add: new_folder_def)

lemma folder_create_tree:
  assumes "insert_folder (new_folder nm p now) t = Inr (n, t')" and "folders_ok t" and "folder_tree t"
    and "p \<noteq> seq t + 1"
  shows "folder_tree t'"
  using folder_tree_insert [OF assms(1-3)] insert_folder_ran [OF assms(1)] assms(4)
  by (auto simp: new_folder_parent bind_parent_def split: if_splits)

text \<open>Claim C37: No other call on folders can break a tree, whatever the engine does: renaming,
  deleting and restoring never touch a parent link, and a created folder is a leaf, provided it is not
  created as its own parent.\<close>

theorem folder_calls_keep_tree:
  assumes "db_ok (store d)"
  shows "(folder_tree (skill_folders (store d)) \<longrightarrow>
        (p \<noteq> seq (skill_folders (store d)) + 1 \<longrightarrow>
           folder_tree (skill_folders (store (snd (snd (acta_db_skill_folder_create name p d))))))
        \<and> folder_tree (skill_folders (store (snd (acta_db_skill_folder_rename fid name d))))
        \<and> folder_tree (skill_folders (store (snd (acta_db_skill_folder_soft_delete fid d))))
        \<and> folder_tree (skill_folders (store (snd (acta_db_skill_folder_restore fid d)))))
    \<and> (folder_tree (model_folders (store d)) \<longrightarrow>
        (p \<noteq> seq (model_folders (store d)) + 1 \<longrightarrow>
           folder_tree (model_folders (store (snd (snd (acta_db_model_folder_create name p d))))))
        \<and> folder_tree (model_folders (store (snd (acta_db_model_folder_rename fid name d))))
        \<and> folder_tree (model_folders (store (snd (acta_db_model_folder_soft_delete fid d))))
        \<and> folder_tree (model_folders (store (snd (acta_db_model_folder_restore fid d)))))"
proof (intro conjI impI)
  have s: "folders_ok (skill_folders (store d))" and m: "folders_ok (model_folders (store d))"
    using assms by (simp_all add: db_ok_def)
  {
    assume t: "folder_tree (skill_folders (store d))"
    note keep = skill_folder_effect_tree [OF _ s _ t]
    assume "p \<noteq> seq (skill_folders (store d)) + 1"
    then show "folder_tree (skill_folders (store (snd (snd (acta_db_skill_folder_create name p d)))))"
      using skill_folder_create_effect [OF collapse3, of name p d] folder_create_tree [OF _ s t] t
      by (fastforce split: if_splits)
  next
    assume t: "folder_tree (skill_folders (store d))"
    note keep = skill_folder_effect_tree [OF _ s _ t]
    show "folder_tree (skill_folders (store (snd (acta_db_skill_folder_rename fid name d))))"
      using skill_folder_rename_effect [OF collapse2, of fid name d] by (auto intro: keep)
    show "folder_tree (skill_folders (store (snd (acta_db_skill_folder_soft_delete fid d))))"
      by (rule keep [OF skill_folder_soft_delete_effect [OF collapse2]]) simp
    show "folder_tree (skill_folders (store (snd (acta_db_skill_folder_restore fid d))))"
      by (rule keep [OF skill_folder_restore_effect [OF collapse2]]) simp
  next
    assume t: "folder_tree (model_folders (store d))"
    note keep = model_folder_effect_tree [OF _ m _ t]
    assume "p \<noteq> seq (model_folders (store d)) + 1"
    then show "folder_tree (model_folders (store (snd (snd (acta_db_model_folder_create name p d)))))"
      using model_folder_create_effect [OF collapse3, of name p d] folder_create_tree [OF _ m t] t
      by (fastforce split: if_splits)
  next
    assume t: "folder_tree (model_folders (store d))"
    note keep = model_folder_effect_tree [OF _ m _ t]
    show "folder_tree (model_folders (store (snd (acta_db_model_folder_rename fid name d))))"
      using model_folder_rename_effect [OF collapse2, of fid name d] by (auto intro: keep)
    show "folder_tree (model_folders (store (snd (acta_db_model_folder_soft_delete fid d))))"
      by (rule keep [OF model_folder_soft_delete_effect [OF collapse2]]) simp
    show "folder_tree (model_folders (store (snd (acta_db_model_folder_restore fid d))))"
      by (rule keep [OF model_folder_restore_effect [OF collapse2]]) simp
  }
qed

lemma folder_calls_keep_tree_witness:
  "folder_tree (skill_folders (store (snd (acta_db_skill_folder_rename 2 (Some ''c'') sample_folders))))
   \<and> folder_tree (skill_folders (store (snd (snd (acta_db_skill_folder_create (Some ''c'') 2 sample_folders)))))"
proof -
  have "seq (skill_folders (store sample_folders)) = 2" by code_simp
  then show ?thesis
    using folder_calls_keep_tree [OF sample_folders_ok, where p = 2] sample_folders_tree by auto
qed

section \<open>Two ways to make a cycle\<close>

text \<open>A folder can be created as its own parent: the parent id is only checked by the
  foreign key, and the id the new row is about to get satisfies it. The result is not a tree.\<close>

theorem own_parent_created:
  assumes "healthy d" and "folders_ok (skill_folders (store d))" and "folders_ok (model_folders (store d))"
    and "nm \<noteq> []"
  shows "(let n = seq (skill_folders (store d)) + 1 in
        fst (acta_db_skill_folder_create (Some nm) n d) = ACTA_DB_OK
        \<and> \<not> folder_tree (skill_folders (store (snd (snd (acta_db_skill_folder_create (Some nm) n d))))))
    \<and> (let n = seq (model_folders (store d)) + 1 in
        fst (acta_db_model_folder_create (Some nm) n d) = ACTA_DB_OK
        \<and> \<not> folder_tree (model_folders (store (snd (snd (acta_db_model_folder_create (Some nm) n d))))))"
proof -
  have ins: "insert_folder (new_folder nm (seq t + 1) now) t =
      Inr (seq t + 1, tbl_ins (\<lambda>i. (new_folder nm (seq t + 1) now)\<lparr>fo_id := i\<rparr>) t)
    \<and> \<not> folder_tree (tbl_ins (\<lambda>i. (new_folder nm (seq t + 1) now)\<lparr>fo_id := i\<rparr>) t)"
    if ok: "folders_ok t" for t :: "folder_row table" and now
  proof
    have seq: "seq t + 1 \<noteq> 0" using ok by (simp add: folders_ok_def tbl_ok_def)
    have "fo_parent_id q \<noteq> Some (seq t + 1)" if "q \<in> set (rows t)" for q
      using ok that folder_rows.fresh_id [of t] by (force simp: folders_ok_def fk_ok_def has_row_def)
    then show "insert_folder (new_folder nm (seq t + 1) now) t =
      Inr (seq t + 1, tbl_ins (\<lambda>i. (new_folder nm (seq t + 1) now)\<lparr>fo_id := i\<rparr>) t)"
      using seq by (auto simp: insert_folder_def Let_def new_folder_def bind_parent_def uq_clash_iff)
    have "(seq t + 1, seq t + 1) \<in> edges (tbl_ins (\<lambda>i. (new_folder nm (seq t + 1) now)\<lparr>fo_id := i\<rparr>) t)"
      unfolding edges_ins using seq by (simp add: new_folder_def bind_parent_def)
    then show "\<not> folder_tree (tbl_ins (\<lambda>i. (new_folder nm (seq t + 1) now)\<lparr>fo_id := i\<rparr>) t)"
      unfolding folder_tree_def acyclic_def by blast
  qed
  show ?thesis
    using assms(1,4) ins [OF assms(2), of "clock d"] ins [OF assms(3), of "clock d"]
    by (simp add: Let_def acta_db_skill_folder_create_def acta_db_model_folder_create_def
        sql_write_healthy on_skill_folders_def on_model_folders_def)
qed

lemma own_parent_created_witness:
  "\<not> folder_tree (skill_folders (store (snd (snd (acta_db_skill_folder_create (Some ''x'') 3 sample_folders)))))"
proof -
  have "seq (skill_folders (store sample_folders)) = 2" by code_simp
  moreover have "folders_ok (model_folders (store sample_folders))"
    using sample_folders_ok by (simp add: db_ok_def)
  ultimately show ?thesis
    using own_parent_created [OF sample_folders_facts(1,3), of "''x''"] by (simp add: Let_def)
qed

lemma edges_map: "edges t = {(i, p). (i, Some p) \<in> set (map (\<lambda>r. (fo_id r, fo_parent_id r)) (rows t))}"
  by (auto simp: edges_def)

text \<open>The calls that tie a knot: \<open>a\<close>, \<open>c\<close> under \<open>a\<close>, \<open>c\<close> deleted, \<open>b\<close> under \<open>c\<close>.\<close>

definition sample_detour :: db_t where
  "sample_detour = snd (snd (acta_db_model_folder_create (Some ''b'') 2
     (snd (acta_db_model_folder_soft_delete 2
       (snd (snd (acta_db_model_folder_create (Some ''c'') 1
         (snd (snd (acta_db_model_folder_create (Some ''a'') 0 sample_empty))))))))))"


section \<open>Moving a model folder when nothing above the target is deleted\<close>

text \<open>Every folder from \<open>p\<close> to the root is live.\<close>

definition live_above :: "folder_row table \<Rightarrow> int \<Rightarrow> bool" where
  "live_above t p \<longleftrightarrow> (\<forall>q r. below t p q \<longrightarrow> tbl_get fo_id t q = Some r \<longrightarrow> fo_deleted_at r = None)"

lemma model_walk_exact:
  assumes "healthy d" and "folders_ok (model_folders (store d))" and "folder_tree (model_folders (store d))"
    and "seq (model_folders (store d)) < 2147483648"
    and "height (model_folders (store d)) cur < fuel" and "0 < cur" and "live_above (model_folders (store d)) cur"
  shows "ancestor_walk fuel target cur d = (below (model_folders (store d)) cur target, d)"
  using assms(5-7)
proof (induction fuel arbitrary: cur)
  case (Suc fuel)
  let ?t = "model_folders (store d)"
  have t: "tbl_ok fo_id ?t" using assms(2) by (simp add: folders_ok_def)
  show ?case
  proof (cases "cur = target")
    case True
    then show ?thesis using Suc.prems by (simp add: below_def)
  next
    case ne: False
    show ?thesis
    proof (cases "tbl_get fo_id ?t cur")
      case None
      then have "filter (\<lambda>r. fo_id r = cur \<and> fo_deleted_at r = None) (rows ?t) = []"
        by (simp add: tbl_get_None filter_empty_conv)
      then show ?thesis
        using ne below_root [OF edges_no_row [OF None] ne] assms(1) Suc.prems
        by (simp add: sql_read_healthy)
    next
      case (Some r)
      have "below ?t cur cur" by (simp add: below_def)
      then have live: "fo_deleted_at r = None" using Suc.prems Some unfolding live_above_def by blast
      then have f: "filter (\<lambda>r. fo_id r = cur \<and> fo_deleted_at r = None) (rows ?t) \<noteq> []"
        using tbl_get_SomeD [OF Some] by (auto simp: filter_empty_conv)
      then obtain q rs where q: "filter (\<lambda>r. fo_id r = cur \<and> fo_deleted_at r = None) (rows ?t) = q # rs"
        by (auto simp: neq_Nil_conv)
      then have "q \<in> set (filter (\<lambda>r. fo_id r = cur \<and> fo_deleted_at r = None) (rows ?t))" by simp
      then have "q = r" using tbl_get_unique [OF t] Some by auto
      note q = q [unfolded this]
      note par = edges_row [OF t Some]
      show ?thesis
      proof (cases "fo_parent_id r")
        case None
        then have "\<And>p. (cur, p) \<notin> edges ?t" using par by simp
        moreover have "ancestor_walk fuel target 0 d = (False, d)" by (cases fuel) simp_all
        ultimately show ?thesis
          using ne below_root [OF _ ne] q None assms(1) Suc.prems by (simp add: sql_read_healthy)
      next
        case (Some p)
        have c: "0 < p" "c_int p = p"
          using parent_bounds [OF assms(2,4) \<open>tbl_get fo_id ?t cur = Some r\<close> Some] by auto
        have "height ?t p < fuel"
          using height_step [OF assms(3), of cur p] par Some Suc.prems by auto
        moreover have "below ?t cur i = below ?t p i" if "cur \<noteq> i" for i
          by (rule below_parent [OF _ that]) (use par Some in auto)
        moreover have "live_above ?t p"
          using Suc.prems(3) par Some unfolding live_above_def below_def
          by (meson converse_rtrancl_into_rtrancl)
        ultimately show ?thesis using ne q Some c assms(1) Suc Suc.prems by (simp add: sql_read_healthy)
      qed
    qed
  qed
qed simp

text \<open>Without such a hidden ancestor the move of a model folder is safe: when every folder
  from the target up to the root is live, no engine fault occurs and there are fewer than 10000
  folders, a move into the folder's own subtree is refused with INVALID, and whatever the move answers
  the folders are still a tree. (A move to the parent a folder has is the documented no-op.)\<close>

theorem model_folder_move_guarded:
  assumes d: "healthy d" and ok: "folders_ok (model_folders (store d))"
    and tree: "folder_tree (model_folders (store d))"
    and b: "seq (model_folders (store d)) < 2147483648" "length (rows (model_folders (store d))) < 10000"
    and live: "live_above (model_folders (store d)) p"
  shows "folder_tree (model_folders (store (snd (acta_db_model_folder_move_to fid p d))))
    \<and> (live_folder (model_folders (store d)) fid \<and> live_folder (model_folders (store d)) p
       \<and> below (model_folders (store d)) p fid \<and> \<not> (fid, p) \<in> edges (model_folders (store d))
       \<longrightarrow> fst (acta_db_model_folder_move_to fid p d) = ACTA_DB_ERR_INVALID)"
proof -
  let ?t = "model_folders (store d)"
  have t: "tbl_ok fo_id ?t" using ok by (simp add: folders_ok_def)
  have pos: "0 < i" if "tbl_get fo_id ?t i = Some r" for i r
    using t tbl_get_SomeD [OF that] by (auto simp: tbl_ok_def)
  have walk: "ancestor_reaches p fid d = (1, d)" if "0 < p" "below ?t p fid"
  proof -
    have "height ?t p < 10000" using height_le [of ?t p] b by simp
    from model_walk_exact [OF d ok tree b(1) this that(1) live] show ?thesis
      using d that(2) by (simp add: ancestor_reaches_def)
  qed
  have up: "0 < p" if "below ?t p fid" "0 < fid" "p \<noteq> 0"
  proof (rule ccontr)
    assume "\<not> 0 < p"
    then have "tbl_get fo_id ?t p = None" using pos [of p] that(3) by (cases "tbl_get fo_id ?t p") auto
    then show False using below_root [OF edges_no_row] that \<open>\<not> 0 < p\<close> by metis
  qed
  let ?q = "\<lambda>i. filter (\<lambda>r. fo_id r = i \<and> fo_deleted_at r = None) (rows ?t)"
  have kept: "store (snd (acta_db_model_folder_move_to fid p d)) = store d
      \<and> (live_folder ?t fid \<and> live_folder ?t p \<and> (fid, p) \<notin> edges ?t \<longrightarrow>
           fst (acta_db_model_folder_move_to fid p d) = ACTA_DB_ERR_INVALID)"
    if bel: "below ?t p fid" and p0: "p \<noteq> 0"
  proof (cases "0 < fid \<and> ?q fid \<noteq> []")
    case False
    then have "\<not> (0 < fid \<and> live_folder ?t fid)" using live_filter [OF t] by blast
    moreover have "live_folder ?t fid \<Longrightarrow> 0 < fid" using pos by (auto simp: live_folder_iff)
    ultimately show ?thesis
      using False d by (auto simp: acta_db_model_folder_move_to_def sql_read_healthy Let_def)
  next
    case True
    then obtain r rs where q: "?q fid = r # rs" by (auto simp: neq_Nil_conv)
    then have "r \<in> set (?q fid)" by simp
    then have r: "tbl_get fo_id ?t fid = Some r" using tbl_get_unique [OF t] by auto
    have p: "0 < p" using up [OF bel _ p0] True by simp
    let ?c = "case fo_parent_id r of None \<Rightarrow> 0 | Some i \<Rightarrow> c_int i"
    have c: "?c = k \<longleftrightarrow> (case fo_parent_id r of None \<Rightarrow> k = 0 | Some i \<Rightarrow> i = k)" "0 \<le> ?c" for k
      using parent_bounds [OF ok b(1) r] by (auto split: option.split simp: less_imp_le)
    have "?c = p \<Longrightarrow> (fid, p) \<in> edges ?t"
      using c(1) [of p] p edges_row [OF t r, of p] by (auto split: option.splits)
    then show ?thesis
      using True q c(2) d walk [OF p bel] p live_filter [OF t, of p] live_filter [OF t, of fid]
      by (auto simp: acta_db_model_folder_move_to_def sql_read_healthy Let_def not_less split: list.split)
  qed
  have "folder_tree (model_folders (store (snd (acta_db_model_folder_move_to fid p d))))"
  proof (cases "p \<noteq> 0 \<and> below ?t p fid")
    case True
    then show ?thesis using kept tree by simp
  next
    case False
    then have "\<And>q. bind_parent p = Some q \<Longrightarrow> (q, fid) \<notin> (edges ?t)\<^sup>*"
      by (auto simp: bind_parent_def below_def split: if_splits)
    then show ?thesis
      using model_folder_move_effect [OF collapse2, of fid p d] folder_tree_move [OF _ ok tree] tree
      by (fastforce simp: model_folder_stmt.effect_def model_folder_edited_def split: if_splits)
  qed
  moreover have "below ?t p fid \<and> live_folder ?t p \<Longrightarrow> p \<noteq> 0" using pos by (force simp: live_folder_iff)
  ultimately show ?thesis using kept by blast
qed

definition sample_models_tree :: db_t where
  "sample_models_tree = snd (snd (acta_db_model_folder_create (Some ''c'') 2
     (snd (snd (acta_db_model_folder_create (Some ''b'') 1
       (snd (snd (acta_db_model_folder_create (Some ''a'') 0 sample_empty))))))))"

lemma sample_models_tree_ok: "db_ok (store sample_models_tree)"
  unfolding sample_models_tree_def
  by (rule run_db_ok [OF l_call [OF l_call [OF run_one [OF mf_create [OF collapse3]]
      mf_create [OF collapse3]] mf_create [OF collapse3]] sample_empty_ok])

lemma model_folder_move_guarded_witness:
  "fst (acta_db_model_folder_move_to 1 3 sample_models_tree) = ACTA_DB_ERR_INVALID"
proof -
  let ?t = "model_folders (store sample_models_tree)"
  have e: "edges ?t = {(2, 1), (3, 2)}"
  proof -
    have "map (\<lambda>r. (fo_id r, fo_parent_id r)) (rows ?t) = [(1, None), (2, Some 1), (3, Some 2)]"
      by code_simp
    then show ?thesis unfolding edges_map by auto
  qed
  have f: "healthy sample_models_tree" "folders_ok ?t"
    by code_simp (use sample_models_tree_ok in \<open>simp add: db_ok_def\<close>)
  have "seq ?t = 3" "length (rows ?t) = 3" by code_simp+
  then have b: "seq ?t < 2147483648" "length (rows ?t) < 10000" by simp_all
  have tree: "folder_tree ?t"
  proof (rule folder_tree_rows)
    fix r p assume "r \<in> set (rows ?t)" "fo_parent_id r = Some p"
    then have "(fo_id r, p) \<in> edges ?t" by (auto simp: edges_def)
    then show "p < fo_id r" unfolding e by auto
  qed
  have "list_all (\<lambda>r. fo_deleted_at r = None) (rows ?t)" by code_simp
  then have live: "live_above ?t 3" by (auto simp: live_above_def list_all_iff dest: tbl_get_SomeD)
  have "below ?t 3 1" unfolding below_def e by (meson insertI1 insertI2 r_into_rtrancl rtrancl_into_rtrancl)
  moreover have "live_folder ?t 1" "live_folder ?t 3" by code_simp+
  ultimately show ?thesis
    using model_folder_move_guarded [OF f tree b live, of 1] unfolding e by simp
qed

section \<open>Return codes\<close>

definition folder_create_code :: "folder_row table \<Rightarrow> string option \<Rightarrow> int \<Rightarrow> int" where
  "folder_create_code t name p =
     (case name of None \<Rightarrow> ACTA_DB_ERR_INVALID
      | Some nm \<Rightarrow>
          if nm = [] then ACTA_DB_ERR_INVALID
          else if \<exists>q\<in>set (rows t). fo_parent_id q = bind_parent p \<and> fo_name q = nm
          then ACTA_DB_ERR_DUPLICATE
          else if p \<noteq> 0 \<and> tbl_get fo_id t p = None \<and> p \<noteq> seq t + 1 then ACTA_DB_ERR_FK
          else ACTA_DB_OK)"

definition folder_rename_code :: "folder_row table \<Rightarrow> int \<Rightarrow> string option \<Rightarrow> int" where
  "folder_rename_code t i name =
     (case (name, tbl_get fo_id t i) of
        (None, _) \<Rightarrow> ACTA_DB_ERR_INVALID
      | (Some nm, row) \<Rightarrow>
          if nm = [] \<or> i \<le> 0 then ACTA_DB_ERR_INVALID
          else case row of None \<Rightarrow> ACTA_DB_ERR_NOT_FOUND
          | Some r \<Rightarrow>
              if fo_deleted_at r \<noteq> None then ACTA_DB_ERR_NOT_FOUND
              else if sibling_named t i (fo_parent_id r) nm then ACTA_DB_ERR_DUPLICATE
              else ACTA_DB_OK)"

lemma insert_folder_code:
  assumes "tbl_ok fo_id t" and "nm \<noteq> []"
  shows "(case insert_folder (new_folder nm p now) t of
       Inl c \<Rightarrow> if c = SQLITE_CONSTRAINT_UNIQUE then ACTA_DB_ERR_DUPLICATE
         else if c = SQLITE_CONSTRAINT_FOREIGNKEY then ACTA_DB_ERR_FK else ACTA_DB_ERR_SQL
     | Inr x \<Rightarrow> ACTA_DB_OK) = folder_create_code t (Some nm) p"
proof -
  have "fo_id q \<noteq> seq t + 1" if "q \<in> set (rows t)" for q
    using assms(1) that by (force simp: tbl_ok_def)
  then show ?thesis
    using assms(2)
    by (auto simp: folder_create_code_def insert_folder_def Let_def new_folder_def uq_clash_iff
        bind_parent_def fk_ok_def has_row_def split: if_splits)
qed

lemma rename_folder_code:
  assumes "folders_ok t" and "0 < i" and "nm \<noteq> []"
  shows "(case update_folder i (\<lambda>r. fo_deleted_at r = None) (folder_apply (SetFolderName nm now)) t of
       Inl c \<Rightarrow> if c = SQLITE_CONSTRAINT_UNIQUE then ACTA_DB_ERR_DUPLICATE
         else if c = SQLITE_CONSTRAINT_FOREIGNKEY then ACTA_DB_ERR_FK else ACTA_DB_ERR_SQL
     | Inr (n, t') \<Rightarrow> if n > 0 then ACTA_DB_OK else ACTA_DB_ERR_NOT_FOUND) = folder_rename_code t i (Some nm)"
proof (cases "tbl_get fo_id t i")
  case None
  then show ?thesis using assms by (simp add: folder_rename_code_def update_folder_def)
next
  case (Some r)
  then have "r \<in> set (rows t)" by (auto dest: tbl_get_SomeD)
  then have fk: "fk_ok fo_id t (fo_parent_id r)" using assms(1) by (simp add: folders_ok_def)
  show ?thesis
  proof (cases "fo_deleted_at r = None")
    case True
    then show ?thesis
      using update_live_folder [OF assms(1) Some True, of "SetFolderName nm now"] fk assms Some
      by (simp add: folder_rename_code_def)
  next
    case False
    then show ?thesis using assms Some by (simp add: folder_rename_code_def update_folder_def)
  qed
qed

text \<open>Creating and renaming folders answer as documented, for skills and models alike, on an
  engine without faults: INVALID for a missing or empty name (or bad id), DUPLICATE exactly when another
  folder of the same parent has the name, FK when the parent does not exist, NOT_FOUND when the folder
  to rename is missing or deleted, OK otherwise.\<close>

theorem folder_name_codes:
  assumes "healthy d" and "folders_ok (skill_folders (store d))" and "folders_ok (model_folders (store d))"
  shows "fst (acta_db_skill_folder_create name p d) = folder_create_code (skill_folders (store d)) name p
    \<and> fst (acta_db_model_folder_create name p d) = folder_create_code (model_folders (store d)) name p
    \<and> fst (acta_db_skill_folder_rename i name d) = folder_rename_code (skill_folders (store d)) i name
    \<and> fst (acta_db_model_folder_rename i name d) = folder_rename_code (model_folders (store d)) i name"
proof -
  have t: "tbl_ok fo_id (skill_folders (store d))" "tbl_ok fo_id (model_folders (store d))"
    using assms(2,3) by (simp_all add: folders_ok_def)
  have create: "fst (acta_db_skill_folder_create name p d) = folder_create_code (skill_folders (store d)) name p"
    "fst (acta_db_model_folder_create name p d) = folder_create_code (model_folders (store d)) name p"
  proof -
    show "fst (acta_db_skill_folder_create name p d) = folder_create_code (skill_folders (store d)) name p"
    proof (cases "name = None \<or> name = Some []")
      case False
      then obtain nm where nm: "name = Some nm" "nm \<noteq> []" by auto
      show ?thesis
        using insert_folder_code [OF t(1) nm(2), of p "clock d", symmetric] assms(1) nm
        by (simp add: acta_db_skill_folder_create_def sql_write_healthy on_skill_folders_def split: sum.split)
    qed (auto simp: folder_create_code_def acta_db_skill_folder_create_def)
    show "fst (acta_db_model_folder_create name p d) = folder_create_code (model_folders (store d)) name p"
    proof (cases "name = None \<or> name = Some []")
      case False
      then obtain nm where nm: "name = Some nm" "nm \<noteq> []" by auto
      show ?thesis
        using insert_folder_code [OF t(2) nm(2), of p "clock d", symmetric] assms(1) nm
        by (simp add: acta_db_model_folder_create_def sql_write_healthy on_model_folders_def split: sum.split)
    qed (auto simp: folder_create_code_def acta_db_model_folder_create_def)
  qed
  have rename: "fst (acta_db_skill_folder_rename i name d) = folder_rename_code (skill_folders (store d)) i name"
    "fst (acta_db_model_folder_rename i name d) = folder_rename_code (model_folders (store d)) i name"
  proof -
    show "fst (acta_db_skill_folder_rename i name d) = folder_rename_code (skill_folders (store d)) i name"
    proof (cases "name = None \<or> name = Some [] \<or> i \<le> 0")
      case False
      then obtain nm where nm: "name = Some nm" "nm \<noteq> []" "0 < i" by auto
      show ?thesis
        using rename_folder_code [OF assms(2) nm(3,2), of "clock d", symmetric] assms(1) nm
        by (simp add: acta_db_skill_folder_rename_def sql_write_healthy on_skill_folders_def
            split: sum.split prod.split)
    qed (auto simp: folder_rename_code_def acta_db_skill_folder_rename_def split: option.split)
    show "fst (acta_db_model_folder_rename i name d) = folder_rename_code (model_folders (store d)) i name"
    proof (cases "name = None \<or> name = Some [] \<or> i \<le> 0")
      case False
      then obtain nm where nm: "name = Some nm" "nm \<noteq> []" "0 < i" by auto
      show ?thesis
        using rename_folder_code [OF assms(3) nm(3,2), of "clock d", symmetric] assms(1) nm
        by (simp add: acta_db_model_folder_rename_def sql_write_healthy on_model_folders_def
            split: sum.split prod.split)
    qed (auto simp: folder_rename_code_def acta_db_model_folder_rename_def split: option.split)
  qed
  show ?thesis using create rename by blast
qed

lemma folder_name_codes_witness:
  "fst (acta_db_skill_folder_create (Some ''b'') 1 sample_folders) = ACTA_DB_ERR_DUPLICATE
   \<and> fst (acta_db_skill_folder_create (Some ''b'') 0 sample_folders) = ACTA_DB_OK"
proof -
  have m: "folders_ok (model_folders (store sample_folders))" using sample_folders_ok by (simp add: db_ok_def)
  have "folder_create_code (skill_folders (store sample_folders)) (Some ''b'') 1 = ACTA_DB_ERR_DUPLICATE"
    "folder_create_code (skill_folders (store sample_folders)) (Some ''b'') 0 = ACTA_DB_OK" by code_simp+
  then show ?thesis using folder_name_codes [OF sample_folders_facts(1,3) m] by simp
qed

section \<open>Deleting and restoring folders\<close>

lemma probe_count_healthy:
  "healthy d \<Longrightarrow> int (q (store d)) < 2147483648 \<Longrightarrow> probe_count q d = (Some (int (q (store d))), d)"
  by (simp add: probe_count_def sql_read_healthy c_int_id)

lemma update_folder_flag:
  assumes "\<And>r. fo_parent_id (folder_apply e r) = fo_parent_id r \<and> fo_name (folder_apply e r) = fo_name r"
  shows "update_folder i g (folder_apply e) t =
    (case tbl_get fo_id t i of None \<Rightarrow> Inr (0, t)
     | Some r \<Rightarrow> if g r then Inr (1, tbl_upd (\<lambda>r. fo_id r = i) (folder_apply e) t) else Inr (0, t))"
  using assms by (simp add: update_folder_def Let_def split: option.split)

lemma some_row: "0 < int (length (filter p xs)) \<longleftrightarrow> (\<exists>x\<in>set xs. p x)"
  by (auto simp: filter_empty_conv)

lemma count_fits: "length xs < 2147483648 \<Longrightarrow> int (length (filter p xs)) < 2147483648"
  using length_filter_le [of p xs] by linarith

text \<open>On an engine without faults a folder is deleted exactly when it is live, holds no live
  sub-folder and no live skill (model); otherwise the answer is INVALID for a bad id or live content,
  and NOT_FOUND for a folder that is missing or already deleted. Restoring brings back a deleted
  folder; a live one is NOT_FOUND for skills and the no-op OK for models.\<close>

theorem folder_delete_codes:
  assumes "healthy d"
    and "length (rows (skill_folders (store d))) < 2147483648" "length (rows (skills (store d))) < 2147483648"
    and "length (rows (model_folders (store d))) < 2147483648" "length (rows (models (store d))) < 2147483648"
  shows "fst (acta_db_skill_folder_soft_delete i d) =
      (if i \<le> 0 \<or> (\<exists>q\<in>set (rows (skill_folders (store d))). fo_parent_id q = Some i \<and> fo_deleted_at q = None)
         \<or> (\<exists>s\<in>set (rows (skills (store d))). sk_folder_id s = Some i \<and> sk_deleted_at s = None)
       then ACTA_DB_ERR_INVALID
       else if live_folder (skill_folders (store d)) i then ACTA_DB_OK else ACTA_DB_ERR_NOT_FOUND)
    \<and> fst (acta_db_model_folder_soft_delete i d) =
      (if i \<le> 0 \<or> (\<exists>q\<in>set (rows (model_folders (store d))). fo_parent_id q = Some i \<and> fo_deleted_at q = None)
         \<or> (\<exists>s\<in>set (rows (models (store d))). mo_folder_id s = Some i \<and> mo_deleted_at s = None)
       then ACTA_DB_ERR_INVALID
       else if live_folder (model_folders (store d)) i then ACTA_DB_OK else ACTA_DB_ERR_NOT_FOUND)
    \<and> fst (acta_db_skill_folder_restore i d) =
      (if i \<le> 0 then ACTA_DB_ERR_INVALID
       else if has_row fo_id (skill_folders (store d)) i \<and> \<not> live_folder (skill_folders (store d)) i
       then ACTA_DB_OK else ACTA_DB_ERR_NOT_FOUND)
    \<and> fst (acta_db_model_folder_restore i d) =
      (if i \<le> 0 then ACTA_DB_ERR_INVALID
       else if has_row fo_id (model_folders (store d)) i then ACTA_DB_OK else ACTA_DB_ERR_NOT_FOUND)"
proof (intro conjI)
  note h = finish_update_healthy [OF assms(1)]
  have sc: "probe_count (live_skill_subfolders i) d = (Some (int (live_skill_subfolders i (store d))), d)"
    "probe_count (live_skills_inside i) d = (Some (int (live_skills_inside i (store d))), d)"
    "probe_count (live_model_subfolders i) d = (Some (int (live_model_subfolders i (store d))), d)"
    "probe_count (live_models_inside i) d = (Some (int (live_models_inside i (store d))), d)"
    by (rule probe_count_healthy [OF assms(1)], simp only: live_skill_subfolders_def
        live_skills_inside_def live_model_subfolders_def live_models_inside_def, intro count_fits assms)+
  show "fst (acta_db_skill_folder_soft_delete i d) =
      (if i \<le> 0 \<or> (\<exists>q\<in>set (rows (skill_folders (store d))). fo_parent_id q = Some i \<and> fo_deleted_at q = None)
         \<or> (\<exists>s\<in>set (rows (skills (store d))). sk_folder_id s = Some i \<and> sk_deleted_at s = None)
       then ACTA_DB_ERR_INVALID
       else if live_folder (skill_folders (store d)) i then ACTA_DB_OK else ACTA_DB_ERR_NOT_FOUND)"
    unfolding acta_db_skill_folder_soft_delete_def sc option.case prod.case
      live_skill_subfolders_def live_skills_inside_def some_row
    by (simp add: h on_skill_folders_def update_folder_flag live_folder_def split: option.split)
  show "fst (acta_db_model_folder_soft_delete i d) =
      (if i \<le> 0 \<or> (\<exists>q\<in>set (rows (model_folders (store d))). fo_parent_id q = Some i \<and> fo_deleted_at q = None)
         \<or> (\<exists>s\<in>set (rows (models (store d))). mo_folder_id s = Some i \<and> mo_deleted_at s = None)
       then ACTA_DB_ERR_INVALID
       else if live_folder (model_folders (store d)) i then ACTA_DB_OK else ACTA_DB_ERR_NOT_FOUND)"
    unfolding acta_db_model_folder_soft_delete_def sc option.case prod.case
      live_model_subfolders_def live_models_inside_def some_row
    by (simp add: h on_model_folders_def update_folder_flag live_folder_def split: option.split)
  show "fst (acta_db_skill_folder_restore i d) =
      (if i \<le> 0 then ACTA_DB_ERR_INVALID
       else if has_row fo_id (skill_folders (store d)) i \<and> \<not> live_folder (skill_folders (store d)) i
       then ACTA_DB_OK else ACTA_DB_ERR_NOT_FOUND)"
    by (simp add: acta_db_skill_folder_restore_def h on_skill_folders_def update_folder_flag
        live_folder_def has_row_def split: option.split)
  show "fst (acta_db_model_folder_restore i d) =
      (if i \<le> 0 then ACTA_DB_ERR_INVALID
       else if has_row fo_id (model_folders (store d)) i then ACTA_DB_OK else ACTA_DB_ERR_NOT_FOUND)"
    by (simp add: acta_db_model_folder_restore_def h on_model_folders_def update_folder_flag
        has_row_def split: option.split)
qed

lemma folder_delete_codes_witness:
  "fst (acta_db_skill_folder_soft_delete 1 sample_folders) = ACTA_DB_ERR_INVALID
   \<and> fst (acta_db_skill_folder_soft_delete 2 sample_folders) = ACTA_DB_OK"
proof -
  have "length (rows (skill_folders (store sample_folders))) = 2" "length (rows (skills (store sample_folders))) = 1"
    "length (rows (model_folders (store sample_folders))) = 0" "length (rows (models (store sample_folders))) = 1"
    by code_simp+
  then have b: "length (rows (skill_folders (store sample_folders))) < 2147483648"
    "length (rows (skills (store sample_folders))) < 2147483648"
    "length (rows (model_folders (store sample_folders))) < 2147483648"
    "length (rows (models (store sample_folders))) < 2147483648" by simp_all
  have l: "live_folder (skill_folders (store sample_folders)) 2"
    "\<exists>q\<in>set (rows (skill_folders (store sample_folders))). fo_parent_id q = Some 1 \<and> fo_deleted_at q = None"
    "\<not> (\<exists>q\<in>set (rows (skill_folders (store sample_folders))). fo_parent_id q = Some 2 \<and> fo_deleted_at q = None)"
    "\<not> (\<exists>s\<in>set (rows (skills (store sample_folders))). sk_folder_id s = Some 2 \<and> sk_deleted_at s = None)"
    by code_simp+
  then show ?thesis using folder_delete_codes [OF sample_folders_facts(1) b] by simp
qed

section \<open>Listings\<close>

lemma folder_query_fits: "folder_query_sql p has_filter deleted offset limit \<noteq> None"
  by (cases "p = 0"; cases has_filter; cases deleted; cases "limit > 0 \<or> offset > 0")
    (simp_all add: folder_query_sql_def buf_append_def Let_def)

text \<open>On an engine without faults the listings of folders are the pages they are meant to be,
  in id order: the live children of a folder (of the root for 0), all live folders, or all folders. The
  skill folders take the limit as it is, with 0 or less for everything; the model folders clamp it to
  10000. A negative offset gives nothing. The 256-byte statement buffer of the skill folders is enough
  for every combination of filters.\<close>

theorem folder_listings:
  assumes "healthy d" and "folders_ok (skill_folders (store d))" and "folders_ok (model_folders (store d))"
  shows "(let page = (\<lambda>sel. if offset < 0 then [] else map row_to_folder
              (sql_page (if limit > 0 then limit else - 1) offset (filter sel (rows (skill_folders (store d)))))) in
        fst (acta_db_skill_folder_list_children p offset limit d) =
          page (\<lambda>r. fo_parent_id r = bind_parent p \<and> fo_deleted_at r = None)
        \<and> fst (acta_db_skill_folder_list_all offset limit d) = page (\<lambda>r. fo_deleted_at r = None)
        \<and> fst (acta_db_skill_folder_list_all_with_deleted offset limit d) = page (\<lambda>r. True))
    \<and> (let page = (\<lambda>sel. if offset < 0 then [] else map row_to_folder
              (sql_page (db_clamp_limit limit) offset (filter sel (rows (model_folders (store d)))))) in
        fst (acta_db_model_folder_list_children p offset limit d) =
          page (\<lambda>r. fo_parent_id r = bind_parent p \<and> fo_deleted_at r = None)
        \<and> fst (acta_db_model_folder_list_all offset limit d) = page (\<lambda>r. fo_deleted_at r = None)
        \<and> fst (acta_db_model_folder_list_all_with_deleted offset limit d) = page (\<lambda>r. True))
    \<and> folder_query_sql p has_filter deleted offset limit \<noteq> None"
proof (intro conjI)
  have sort: "sort_key fo_id (filter sel (rows t)) = filter sel (rows t)" if "folders_ok t" for sel t
    using that by (intro sort_key_filter_rows) (simp add: folders_ok_def)
  have whole: "sql_page (- 1) 0 xs = xs" for xs :: "folder_row list"
    by (simp add: sql_page_def)
  have skill: "fst (skill_folder_list p hf del offset limit d) = map row_to_folder
      (sql_page (if limit > 0 then limit else - 1) offset
        (filter (folder_selected p hf del) (rows (skill_folders (store d)))))" if "\<not> offset < 0" for p hf del
    using that assms(1) folder_query_fits [of p hf del offset limit] whole
    by (auto simp: skill_folder_list_def sql_read_healthy collect_loop_None sort [OF assms(2)] Let_def)
  have model: "fst (model_folder_list sel offset limit d) = map row_to_folder
      (sql_page (db_clamp_limit limit) offset (filter sel (rows (model_folders (store d)))))" for sel
    using assms(1) by (simp add: model_folder_list_def sql_read_healthy collect_loop_None sort [OF assms(3)])
  show "let page = (\<lambda>sel. if offset < 0 then [] else map row_to_folder
              (sql_page (if limit > 0 then limit else - 1) offset (filter sel (rows (skill_folders (store d)))))) in
        fst (acta_db_skill_folder_list_children p offset limit d) =
          page (\<lambda>r. fo_parent_id r = bind_parent p \<and> fo_deleted_at r = None)
        \<and> fst (acta_db_skill_folder_list_all offset limit d) = page (\<lambda>r. fo_deleted_at r = None)
        \<and> fst (acta_db_skill_folder_list_all_with_deleted offset limit d) = page (\<lambda>r. True)"
    by (simp add: acta_db_skill_folder_list_children_def acta_db_skill_folder_list_all_def
        acta_db_skill_folder_list_all_with_deleted_def skill folder_selected_def [abs_def] Let_def)
  show "let page = (\<lambda>sel. if offset < 0 then [] else map row_to_folder
              (sql_page (db_clamp_limit limit) offset (filter sel (rows (model_folders (store d)))))) in
        fst (acta_db_model_folder_list_children p offset limit d) =
          page (\<lambda>r. fo_parent_id r = bind_parent p \<and> fo_deleted_at r = None)
        \<and> fst (acta_db_model_folder_list_all offset limit d) = page (\<lambda>r. fo_deleted_at r = None)
        \<and> fst (acta_db_model_folder_list_all_with_deleted offset limit d) = page (\<lambda>r. True)"
    by (simp add: acta_db_model_folder_list_children_def acta_db_model_folder_list_all_def
        acta_db_model_folder_list_all_with_deleted_def model folder_selected_def [abs_def] Let_def)
  show "folder_query_sql p has_filter deleted offset limit \<noteq> None" by (rule folder_query_fits)
qed

lemma folder_listings_witness:
  "map f_id (fst (acta_db_skill_folder_list_children 1 0 10 sample_folders)) = [2]"
proof -
  have m: "folders_ok (model_folders (store sample_folders))" using sample_folders_ok by (simp add: db_ok_def)
  have "map f_id (map row_to_folder (sql_page (if (10::int) > 0 then 10 else - 1) 0
     (filter (\<lambda>r. fo_parent_id r = bind_parent 1 \<and> fo_deleted_at r = None) (rows (skill_folders (store sample_folders)))))) = [2]"
    by code_simp
  then show ?thesis
    using folder_listings [OF sample_folders_facts(1,3) m, of 0 10 1] by (simp add: Let_def)
qed

end
