(* ===== verification/History_Properties.thy ===== *)
theory History_Properties
  imports Samples
begin

text \<open>
  The properties of skills, models and their revision histories: what each call adds to a history, that
  the history is complete and numbered, what the readers return of it, and the answers of the calls.
\<close>

section \<open>Numbered histories\<close>

context revisions
begin

lemma numbered_sorted: "numbered t i n \<Longrightarrow> sort_key rev_no (history t i) = history t i"
  by (rule sort_key_sorted) (simp add: numbered_def)

lemma numbered_length: "numbered t i n \<Longrightarrow> length (history t i) = n"
  unfolding numbered_def by (drule arg_cong [of _ _ length]) simp

lemma numbered_filter:
  assumes "map rev_no h = [1..int (length h)]"
  shows "filter (\<lambda>r. rev_no r = k) h = (if 1 \<le> k \<and> k \<le> int (length h) then [h ! nat (k - 1)] else [])"
  using assms
proof (induction h rule: rev_induct)
  case (snoc r h)
  have "[1..int (length (h @ [r]))] = [1..int (length h)] @ [int (length h) + 1]"
    using upto_rec2 [of 1 "int (length h) + 1"] by (simp add: add.commute)
  with snoc.prems have "map rev_no h = [1..int (length h)]" "rev_no r = int (length h) + 1" by simp_all
  with snoc.IH show ?case by (auto simp: nth_append)
qed simp

lemma numbered_lookup:
  assumes "numbered t i n"
  shows "filter (\<lambda>r. owner r = i \<and> rev_no r = k) (rows t) =
    (if 1 \<le> k \<and> k \<le> int n then [history t i ! nat (k - 1)] else [])"
proof -
  have "filter (\<lambda>r. owner r = i \<and> rev_no r = k) (rows t) = filter (\<lambda>r. rev_no r = k) (history t i)"
    by (simp add: history_def conj_commute)
  then show ?thesis
    using numbered_filter [of "history t i" k] assms numbered_length [OF assms] by (simp add: numbered_def)
qed

lemma numbered_latest:
  assumes "numbered t i n" and "history t i \<noteq> []"
  shows "take 1 (rev (sort_key rev_no (history t i))) = [last (history t i)]"
  unfolding numbered_sorted [OF assms(1)] using assms(2) by (cases "history t i" rule: rev_cases) simp_all

end

section \<open>What a skill call records\<close>

definition skill_history :: "store \<Rightarrow> int \<Rightarrow> skill_revision_row list" where
  "skill_history st i = filter (\<lambda>v. sr_skill_id v = i) (rows (skill_revisions st))"

lemma skill_history_rev: "skill_history st i = skill_revs.history (skill_revisions st) i"
  by (simp add: skill_history_def skill_revs.history_def)

text \<open>
  The history of the skill \<open>new\<close> gains one snapshot of it, numbered on, if \<open>c\<close> holds, and nothing
  otherwise; no other history changes.
\<close>

definition skill_records :: "string \<Rightarrow> bool \<Rightarrow> skill_row \<Rightarrow> store \<Rightarrow> store \<Rightarrow> bool" where
  "skill_records now c new st st' \<longleftrightarrow>
     (\<exists>k. skill_history st' (sk_id new) = skill_history st (sk_id new) @
        (if c then [(skill_snapshot now (int (length (skill_history st (sk_id new))) + 1) new
                       (sk_deleted_at new))\<lparr>sr_id := k\<rparr>] else []))
     \<and> (\<forall>j. j \<noteq> sk_id new \<longrightarrow> skill_history st' j = skill_history st j)"

lemma skill_numbered:
  assumes "skills_ok st" and "tbl_get sk_id (skills st) i = Some r"
  shows "skill_revs.numbered (skill_revisions st) i (length (skill_history st i)) \<and> skill_history st i \<noteq> []
    \<and> skill_snapshot_of (last (skill_history st i)) r"
proof -
  have r: "r \<in> set (rows (skills st))" "sk_id r = i" using tbl_get_SomeD [OF assms(2)] by auto
  then have "skill_recorded (skill_revisions st) r" using assms(1) by (simp add: skills_ok_def)
  then obtain n where n: "0 < n" "skill_revs.numbered (skill_revisions st) i n"
    and last: "skill_snapshot_of (last (skill_history st i)) r"
    by (auto simp: skill_recorded_def skill_history_rev r(2))
  then have "length (skill_history st i) = n"
    unfolding skill_history_rev by (intro skill_revs.numbered_length)
  with n last show ?thesis by auto
qed

lemma skill_edited_records:
  assumes "skill_edited (now, i, g, e) st st'" and "skills_ok st"
  shows "\<exists>old. tbl_get sk_id (skills st) i = Some old \<and> g old
    \<and> tbl_get sk_id (skills st') i = Some (skill_apply e old)
    \<and> skill_records now (if skill_sets_content e
         then sk_deleted_at old = None \<and> sk_deleted_at (skill_apply e old) = None
              \<and> skill_content_differs old (skill_apply e old)
         else sk_deleted_at old = None \<and> sk_deleted_at (skill_apply e old) \<noteq> None) (skill_apply e old) st st'"
proof -
  from assms(1) obtain r where r: "tbl_get sk_id (skills st) i = Some r" and g: "g r"
    and st': "st' = st\<lparr>skills := tbl_upd (\<lambda>r. sk_id r = i) (skill_apply e) (skills st),
                     skill_revisions := skill_logged now e r (skill_revisions st)\<rparr>"
    by (auto simp: skill_edited_def)
  have id: "sk_id (skill_apply e r) = i" using tbl_get_SomeD [OF r] by (simp add: skill_rows.rid_edit)
  have "max_skill_revision (skill_revisions st) i = int (length (skill_history st i))"
    using skill_numbered [OF assms(2) r] skill_revs.top_numbered by blast
  then have "skill_records now (if skill_sets_content e
         then sk_deleted_at r = None \<and> sk_deleted_at (skill_apply e r) = None
              \<and> skill_content_differs r (skill_apply e r)
         else sk_deleted_at r = None \<and> sk_deleted_at (skill_apply e r) \<noteq> None) (skill_apply e r) st st'"
    by (auto simp: skill_records_def skill_history_rev st' skill_logged_def Let_def id skill_revs.history_ins
        intro: exI [of _ "seq (skill_revisions st) + 1"])
  then show ?thesis using r g by (auto simp: st' skill_rows.get_upd_id)
qed

text \<open>Claim C9: What a successful call on a skill leaves, whatever the engine's faults. An update
  stores the given fields over a live skill and adds exactly one revision, the snapshot of the new
  content with the next number, if any field but the times changed, and none if nothing changed; a move
  does so for the folder; a deletion marks the skill and adds one revision with the deletion time. No
  other skill's history changes.\<close>

theorem skill_call_records:
  assumes "skills_ok (store d)"
  shows "(acta_db_skill_update s d = (ACTA_DB_OK, d') \<longrightarrow>
      (\<exists>old new. tbl_get sk_id (skills (store d)) (s_id s) = Some old \<and> sk_deleted_at old = None
        \<and> tbl_get sk_id (skills (store d')) (s_id s) = Some new
        \<and> s_name s = Some (sk_name new) \<and> s_prompt_template s = Some (sk_prompt_template new)
        \<and> new = old\<lparr>sk_folder_id := bind_parent (s_folder_id s), sk_name := sk_name new,
            sk_description := s_description s, sk_prompt_template := sk_prompt_template new,
            sk_output_schema := s_output_schema s, sk_updated_at := Some (clock d)\<rparr>
        \<and> skill_records (clock d) (skill_content_differs old new) new (store d) (store d')))
    \<and> (acta_db_skill_move_to_folder i f d = (ACTA_DB_OK, d') \<longrightarrow>
      (\<exists>old new. tbl_get sk_id (skills (store d)) i = Some old \<and> sk_deleted_at old = None
        \<and> tbl_get sk_id (skills (store d')) i = Some new
        \<and> new = old\<lparr>sk_folder_id := bind_parent f, sk_updated_at := Some (clock d)\<rparr>
        \<and> skill_records (clock d) (sk_folder_id old \<noteq> bind_parent f) new (store d) (store d')))
    \<and> (acta_db_skill_soft_delete i d = (ACTA_DB_OK, d') \<longrightarrow>
      (\<exists>old new. tbl_get sk_id (skills (store d)) i = Some old \<and> sk_deleted_at old = None
        \<and> tbl_get sk_id (skills (store d')) i = Some new
        \<and> new = old\<lparr>sk_deleted_at := Some (clock d), sk_updated_at := Some (clock d)\<rparr>
        \<and> skill_records (clock d) True new (store d) (store d')))"
proof (intro conjI impI)
  assume "acta_db_skill_update s d = (ACTA_DB_OK, d')"
  then obtain nm prompt where f: "s_name s = Some nm" "s_prompt_template s = Some prompt"
    and ed: "skill_edited (clock d, s_id s, \<lambda>r. sk_deleted_at r = None,
      SetSkill (bind_parent (s_folder_id s)) nm (s_description s) prompt (s_output_schema s) (clock d))
      (store d) (store d')"
    by (auto simp: skill_stmt.effect_def dest!: skill_update_effect)
  show "\<exists>old new. tbl_get sk_id (skills (store d)) (s_id s) = Some old \<and> sk_deleted_at old = None
        \<and> tbl_get sk_id (skills (store d')) (s_id s) = Some new
        \<and> s_name s = Some (sk_name new) \<and> s_prompt_template s = Some (sk_prompt_template new)
        \<and> new = old\<lparr>sk_folder_id := bind_parent (s_folder_id s), sk_name := sk_name new,
            sk_description := s_description s, sk_prompt_template := sk_prompt_template new,
            sk_output_schema := s_output_schema s, sk_updated_at := Some (clock d)\<rparr>
        \<and> skill_records (clock d) (skill_content_differs old new) new (store d) (store d')"
    using skill_edited_records [OF ed assms] f by auto
next
  assume "acta_db_skill_move_to_folder i f d = (ACTA_DB_OK, d')"
  then have ed: "skill_edited (clock d, i, \<lambda>r. sk_deleted_at r = None,
      SetSkillFolder (bind_parent f) (clock d)) (store d) (store d')"
    by (auto simp: skill_stmt.effect_def dest!: skill_move_effect)
  show "\<exists>old new. tbl_get sk_id (skills (store d)) i = Some old \<and> sk_deleted_at old = None
        \<and> tbl_get sk_id (skills (store d')) i = Some new
        \<and> new = old\<lparr>sk_folder_id := bind_parent f, sk_updated_at := Some (clock d)\<rparr>
        \<and> skill_records (clock d) (sk_folder_id old \<noteq> bind_parent f) new (store d) (store d')"
    using skill_edited_records [OF ed assms] by (auto simp: skill_content_differs_def eq_commute)
next
  assume "acta_db_skill_soft_delete i d = (ACTA_DB_OK, d')"
  then have ed: "skill_edited (clock d, i, \<lambda>r. sk_deleted_at r = None, SetSkillDeleted (clock d))
      (store d) (store d')"
    by (auto simp: skill_stmt.effect_def dest!: skill_soft_delete_effect)
  show "\<exists>old new. tbl_get sk_id (skills (store d)) i = Some old \<and> sk_deleted_at old = None
        \<and> tbl_get sk_id (skills (store d')) i = Some new
        \<and> new = old\<lparr>sk_deleted_at := Some (clock d), sk_updated_at := Some (clock d)\<rparr>
        \<and> skill_records (clock d) True new (store d) (store d')"
    using skill_edited_records [OF ed assms] by auto
qed

lemma skill_call_records_witness:
  "\<exists>new. skill_records (clock sample_inputs) True new (store sample_inputs)
      (store (snd (acta_db_skill_soft_delete 1 sample_inputs)))"
proof -
  have ok: "skills_ok (store sample_inputs)" using sample_ok(1) by (simp add: db_ok_def)
  have "fst (acta_db_skill_soft_delete 1 sample_inputs) = ACTA_DB_OK" by code_simp
  then have "acta_db_skill_soft_delete 1 sample_inputs = (ACTA_DB_OK, snd (acta_db_skill_soft_delete 1 sample_inputs))"
    by (simp add: prod_eq_iff)
  then show ?thesis using skill_call_records [OF ok] by blast
qed

section \<open>Reading a skill's history\<close>

text \<open>Claim C36: The readers return the recorded history of a skill, on an engine without faults: it is
  numbered 1, 2, ..., n without gaps; its last entry is the skill as it stands and is what get_latest
  returns; entry k is what a lookup of revision k returns, and no other number is found; the listing is
  a page of it in that order; the count is n.\<close>

theorem skill_history_readers:
  assumes "healthy d" and "skills_ok (store d)" and r: "tbl_get sk_id (skills (store d)) i = Some r"
    and "length (rows (skill_revisions (store d))) < 2147483648"
  shows "let h = skill_history (store d) i in
      map sr_revision h = [1..int (length h)] \<and> skill_snapshot_of (last h) r
      \<and> acta_db_skill_revision_get_latest i d = (Some (row_to_skill_revision (last h)), Some ACTA_DB_OK, d)
      \<and> acta_db_skill_revision_get_by_skill_and_rev i k d =
          (if 1 \<le> k \<and> k \<le> int (length h) then Some (row_to_skill_revision (h ! nat (k - 1))) else None,
           Some ACTA_DB_OK, d)
      \<and> acta_db_skill_revision_list_by_skill i offset limit d =
          (if offset < 0 then ([], Some 0, Some ACTA_DB_ERR_INVALID, d)
           else let page = sql_page (db_clamp_limit limit) offset h
                in (map row_to_skill_revision page, Some (int (length page)), Some ACTA_DB_OK, d))
      \<and> acta_db_skill_revision_count i d = (int (length h), Some ACTA_DB_OK, d)"
proof -
  let ?t = "skill_revisions (store d)"
  let ?h = "skill_history (store d) i"
  have num: "skill_revs.numbered ?t i (length ?h)" and ne: "?h \<noteq> []" and last: "skill_snapshot_of (last ?h) r"
    using skill_numbered [OF assms(2) r] by auto
  have h: "filter (\<lambda>v. sr_skill_id v = i) (rows ?t) = ?h"
    by (simp add: skill_history_def)
  note readers = skill_revs.numbered_sorted [OF num, folded skill_history_rev]
    skill_revs.numbered_latest [OF num ne [unfolded skill_history_rev], folded skill_history_rev]
    skill_revs.numbered_lookup [OF num, of k, folded skill_history_rev]
  have "length ?h < 2147483648" using assms(4) length_filter_le [of _ "rows ?t"] h by (metis le_less_trans)
  then have c: "c_int (int (length ?h)) = int (length ?h)" by (simp add: c_int_id)
  show ?thesis
    using num last readers c assms(1)
    by (simp add: Let_def skill_revs.numbered_def skill_history_rev [symmetric] skill_revision_fetch_def
        acta_db_skill_revision_get_latest_def acta_db_skill_revision_get_by_skill_and_rev_def
        acta_db_skill_revision_list_by_skill_def acta_db_skill_revision_count_def h sql_read_healthy
        collect_loop_None)
qed

lemma skill_history_readers_witness:
  "map_option svr_revision (fst (acta_db_skill_revision_get_latest 1 sample_inputs)) = Some 1"
proof -
  have ok: "skills_ok (store sample_inputs)" using sample_ok(1) by (simp add: db_ok_def)
  have h: "healthy sample_inputs" by code_simp
  have r: "tbl_get sk_id (skills (store sample_inputs)) 1 = Some (the (tbl_get sk_id (skills (store sample_inputs)) 1))"
    by code_simp
  have "length (rows (skill_revisions (store sample_inputs))) = 1" by code_simp
  then have b: "length (rows (skill_revisions (store sample_inputs))) < 2147483648" by simp
  have "map sr_revision (skill_history (store sample_inputs) 1) = [1]" by code_simp
  then obtain v where v: "skill_history (store sample_inputs) 1 = [v]" "sr_revision v = 1" by auto
  then show ?thesis
    using skill_history_readers [OF h ok r b]
    by (simp add: Let_def row_to_skill_revision_def c_int_id)
qed

section \<open>What a model call records\<close>

definition model_history :: "store \<Rightarrow> int \<Rightarrow> model_revision_row list" where
  "model_history st i = filter (\<lambda>v. mr_model_id v = i) (rows (model_revisions st))"

lemma model_history_rev: "model_history st i = model_revs.history (model_revisions st) i"
  by (simp add: model_history_def model_revs.history_def)

text \<open>
  The history of the model \<open>new\<close> gains one snapshot of it, numbered on, if \<open>c\<close> holds, and nothing
  otherwise; no other history changes.
\<close>

definition model_records :: "string \<Rightarrow> bool \<Rightarrow> model_row \<Rightarrow> store \<Rightarrow> store \<Rightarrow> bool" where
  "model_records now c new st st' \<longleftrightarrow>
     (\<exists>k. model_history st' (mo_id new) = model_history st (mo_id new) @
        (if c then [(model_snapshot now (int (length (model_history st (mo_id new))) + 1) new
                       (mo_deleted_at new))\<lparr>mr_id := k\<rparr>] else []))
     \<and> (\<forall>j. j \<noteq> mo_id new \<longrightarrow> model_history st' j = model_history st j)"

lemma model_numbered:
  assumes "models_ok st" and "tbl_get mo_id (models st) i = Some r"
  shows "model_revs.numbered (model_revisions st) i (length (model_history st i)) \<and> model_history st i \<noteq> []
    \<and> model_snapshot_of (last (model_history st i)) r"
proof -
  have r: "r \<in> set (rows (models st))" "mo_id r = i" using tbl_get_SomeD [OF assms(2)] by auto
  then have "model_recorded (model_revisions st) r" using assms(1) by (simp add: models_ok_def)
  then obtain n where n: "0 < n" "model_revs.numbered (model_revisions st) i n"
    and last: "model_snapshot_of (last (model_history st i)) r"
    by (auto simp: model_recorded_def model_history_rev r(2))
  then have "length (model_history st i) = n"
    unfolding model_history_rev by (intro model_revs.numbered_length)
  with n last show ?thesis by auto
qed

lemma model_edited_records:
  assumes "model_edited (now, i, g, e) st st'" and "models_ok st"
  shows "\<exists>old. tbl_get mo_id (models st) i = Some old \<and> g old
    \<and> tbl_get mo_id (models st') i = Some (model_apply e old)
    \<and> model_records now (if model_sets_content e
         then mo_deleted_at old = None \<and> mo_deleted_at (model_apply e old) = None
              \<and> model_content_differs old (model_apply e old)
         else mo_deleted_at old = None \<and> mo_deleted_at (model_apply e old) \<noteq> None) (model_apply e old) st st'"
proof -
  from assms(1) obtain r where r: "tbl_get mo_id (models st) i = Some r" and g: "g r"
    and st': "st' = st\<lparr>models := tbl_upd (\<lambda>r. mo_id r = i) (model_apply e) (models st),
                     model_revisions := model_logged now e r (model_revisions st)\<rparr>"
    by (auto simp: model_edited_def)
  have id: "mo_id (model_apply e r) = i" using tbl_get_SomeD [OF r] by (simp add: model_rows.rid_edit)
  have "max_model_revision (model_revisions st) i = int (length (model_history st i))"
    using model_numbered [OF assms(2) r] model_revs.top_numbered by blast
  then have "model_records now (if model_sets_content e
         then mo_deleted_at r = None \<and> mo_deleted_at (model_apply e r) = None
              \<and> model_content_differs r (model_apply e r)
         else mo_deleted_at r = None \<and> mo_deleted_at (model_apply e r) \<noteq> None) (model_apply e r) st st'"
    by (auto simp: model_records_def model_history_rev st' model_logged_def Let_def id model_revs.history_ins
        intro: exI [of _ "seq (model_revisions st) + 1"])
  then show ?thesis using r g by (auto simp: st' model_rows.get_upd_id)
qed

text \<open>What a successful call on a model leaves, whatever the engine's faults: as for skills,
  an update stores the given fields over a live model and adds one numbered snapshot exactly if a
  watched field changed, a move does so for the folder, a deletion adds one with the deletion time, and
  no other model's history changes.\<close>

theorem model_call_records:
  assumes "models_ok (store d)"
  shows "(acta_db_model_update m d = (ACTA_DB_OK, d') \<longrightarrow>
      (\<exists>old new. tbl_get mo_id (models (store d)) (m_id m) = Some old \<and> mo_deleted_at old = None
        \<and> tbl_get mo_id (models (store d')) (m_id m) = Some new
        \<and> m_name m = Some (mo_name new) \<and> m_backend m = Some (mo_backend new)
        \<and> m_model_identifier m = Some (mo_model_identifier new)
        \<and> new = old\<lparr>mo_folder_id := bind_parent (m_folder_id m), mo_name := mo_name new,
            mo_description := m_description m, mo_backend := mo_backend new, mo_base_url := m_base_url m,
            mo_model_identifier := mo_model_identifier new, mo_configuration := m_configuration m,
            mo_updated_at := Some (clock d)\<rparr>
        \<and> model_records (clock d) (model_content_differs old new) new (store d) (store d')))
    \<and> (acta_db_model_move_to_folder i f d = (ACTA_DB_OK, d') \<longrightarrow>
      (\<exists>old new. tbl_get mo_id (models (store d)) i = Some old \<and> mo_deleted_at old = None
        \<and> tbl_get mo_id (models (store d')) i = Some new
        \<and> new = old\<lparr>mo_folder_id := bind_parent f, mo_updated_at := Some (clock d)\<rparr>
        \<and> model_records (clock d) (mo_folder_id old \<noteq> bind_parent f) new (store d) (store d')))
    \<and> (acta_db_model_soft_delete i d = (ACTA_DB_OK, d') \<longrightarrow>
      (\<exists>old new. tbl_get mo_id (models (store d)) i = Some old \<and> mo_deleted_at old = None
        \<and> tbl_get mo_id (models (store d')) i = Some new
        \<and> new = old\<lparr>mo_deleted_at := Some (clock d), mo_updated_at := Some (clock d)\<rparr>
        \<and> model_records (clock d) True new (store d) (store d')))"
proof (intro conjI impI)
  assume "acta_db_model_update m d = (ACTA_DB_OK, d')"
  then obtain nm backend ident where f: "m_name m = Some nm" "m_backend m = Some backend"
      "m_model_identifier m = Some ident"
    and ed: "model_edited (clock d, m_id m, \<lambda>r. mo_deleted_at r = None,
      SetModel (bind_parent (m_folder_id m)) nm (m_description m) backend (m_base_url m) ident
        (m_configuration m) (clock d)) (store d) (store d')"
    by (auto simp: model_stmt.effect_def dest!: model_update_effect)
  show "\<exists>old new. tbl_get mo_id (models (store d)) (m_id m) = Some old \<and> mo_deleted_at old = None
        \<and> tbl_get mo_id (models (store d')) (m_id m) = Some new
        \<and> m_name m = Some (mo_name new) \<and> m_backend m = Some (mo_backend new)
        \<and> m_model_identifier m = Some (mo_model_identifier new)
        \<and> new = old\<lparr>mo_folder_id := bind_parent (m_folder_id m), mo_name := mo_name new,
            mo_description := m_description m, mo_backend := mo_backend new, mo_base_url := m_base_url m,
            mo_model_identifier := mo_model_identifier new, mo_configuration := m_configuration m,
            mo_updated_at := Some (clock d)\<rparr>
        \<and> model_records (clock d) (model_content_differs old new) new (store d) (store d')"
    using model_edited_records [OF ed assms] f by auto
next
  assume "acta_db_model_move_to_folder i f d = (ACTA_DB_OK, d')"
  then have ed: "model_edited (clock d, i, \<lambda>r. mo_deleted_at r = None,
      SetModelFolder (bind_parent f) (clock d)) (store d) (store d')"
    by (auto simp: model_stmt.effect_def dest!: model_move_effect)
  show "\<exists>old new. tbl_get mo_id (models (store d)) i = Some old \<and> mo_deleted_at old = None
        \<and> tbl_get mo_id (models (store d')) i = Some new
        \<and> new = old\<lparr>mo_folder_id := bind_parent f, mo_updated_at := Some (clock d)\<rparr>
        \<and> model_records (clock d) (mo_folder_id old \<noteq> bind_parent f) new (store d) (store d')"
    using model_edited_records [OF ed assms] by (auto simp: model_content_differs_def eq_commute)
next
  assume "acta_db_model_soft_delete i d = (ACTA_DB_OK, d')"
  then have ed: "model_edited (clock d, i, \<lambda>r. mo_deleted_at r = None, SetModelDeleted (clock d))
      (store d) (store d')"
    by (auto simp: model_stmt.effect_def dest!: model_soft_delete_effect)
  show "\<exists>old new. tbl_get mo_id (models (store d)) i = Some old \<and> mo_deleted_at old = None
        \<and> tbl_get mo_id (models (store d')) i = Some new
        \<and> new = old\<lparr>mo_deleted_at := Some (clock d), mo_updated_at := Some (clock d)\<rparr>
        \<and> model_records (clock d) True new (store d) (store d')"
    using model_edited_records [OF ed assms] by auto
qed

lemma model_call_records_witness:
  "\<exists>new. model_records (clock sample_inputs) True new (store sample_inputs)
      (store (snd (acta_db_model_soft_delete 1 sample_inputs)))"
proof -
  have ok: "models_ok (store sample_inputs)" using sample_ok(1) by (simp add: db_ok_def)
  have "fst (acta_db_model_soft_delete 1 sample_inputs) = ACTA_DB_OK" by code_simp
  then have "acta_db_model_soft_delete 1 sample_inputs = (ACTA_DB_OK, snd (acta_db_model_soft_delete 1 sample_inputs))"
    by (simp add: prod_eq_iff)
  then show ?thesis using model_call_records [OF ok] by blast
qed

text \<open>The readers of model revisions, on an engine without faults, for an existing model:
  its history is numbered 1, 2, ..., n and ends with the model as it stands; a lookup of revision k
  returns entry k; the listing with deleted snapshots and its count are the whole history, those
  without are its snapshots that carry no deletion time; get_latest is the last of these. The
  512-byte statement buffer is enough for all of them.\<close>

theorem model_history_readers:
  assumes "healthy d" and "models_ok (store d)" and r: "tbl_get mo_id (models (store d)) i = Some r"
    and "length (rows (model_revisions (store d))) < 2147483648"
  shows "let h = model_history (store d) i; live = filter (\<lambda>v. mr_deleted_at v = None) h;
       paged = (\<lambda>vs. if offset < 0 then ([], Some 0, Some ACTA_DB_ERR_INVALID, d)
         else let page = sql_page (db_clamp_limit limit) offset vs
              in (map row_to_model_revision page, Some (int (length page)), Some ACTA_DB_OK, d)) in
      map mr_revision h = [1..int (length h)] \<and> model_snapshot_of (last h) r
      \<and> acta_db_model_revision_get_latest i d =
          (if live = [] then None else Some (row_to_model_revision (last live)), Some ACTA_DB_OK, d)
      \<and> (1 \<le> k \<longrightarrow> acta_db_model_revision_get_by_model_and_rev i k d =
          (if k \<le> int (length h) then Some (row_to_model_revision (h ! nat (k - 1))) else None,
           Some ACTA_DB_OK, d))
      \<and> acta_db_model_revision_list_by_model i offset limit d = paged live
      \<and> acta_db_model_revision_list_by_model_with_deleted i offset limit d = paged h
      \<and> acta_db_model_revision_count i d = (int (length live), Some ACTA_DB_OK, d)
      \<and> acta_db_model_revision_count_with_deleted i d = (int (length h), Some ACTA_DB_OK, d)"
proof -
  let ?t = "model_revisions (store d)"
  let ?h = "model_history (store d) i"
  let ?live = "filter (\<lambda>v. mr_deleted_at v = None) ?h"
  have num: "model_revs.numbered ?t i (length ?h)" and last: "model_snapshot_of (last ?h) r"
    using model_numbered [OF assms(2) r] by auto
  have pos: "0 < i"
    using tbl_get_SomeD [OF r] assms(2) by (auto simp: models_ok_def tbl_ok_def)
  have h: "filter (\<lambda>v. mr_model_id v = i) (rows ?t) = ?h"
    by (simp add: model_history_def)
  have live: "filter (\<lambda>v. mr_model_id v = i \<and> mr_deleted_at v = None) (rows ?t) = ?live"
    unfolding h [symmetric] by (simp add: conj_commute)
  have "sorted (map mr_revision ?h)"
    using num by (simp add: model_revs.numbered_def model_history_rev)
  then have sort: "sort_key mr_revision ?h = ?h" "sort_key mr_revision ?live = ?live"
    by (simp_all add: sort_key_sorted sorted_map_filter)
  have latest: "take 1 (rev ?live) = (if ?live = [] then [] else [last ?live])"
    by (cases "?live" rule: rev_cases) simp_all
  note lookup = model_revs.numbered_lookup [OF num, of k, folded model_history_rev]
  have "length ?h < 2147483648" using assms(4) length_filter_le [of _ "rows ?t"] h by (metis le_less_trans)
  moreover have "length ?live \<le> length ?h" by simp
  ultimately have c: "c_int (int (length ?h)) = int (length ?h)" "c_int (int (length ?live)) = int (length ?live)"
    by (intro c_int_id; linarith)+
  have fits: "rev_build_sql 512 (''WHERE model_id = ? AND deleted_at IS NULL '' @ ''ORDER BY revision DESC LIMIT 1'') \<noteq> None"
    "rev_build_sql 512 ''WHERE model_id = ? AND revision = ?'' \<noteq> None"
    "rev_build_sql 512 (''WHERE model_id = ? AND deleted_at IS NULL '' @ ''ORDER BY revision LIMIT ? OFFSET ?'') \<noteq> None"
    "rev_build_sql 512 ''WHERE model_id = ? ORDER BY revision LIMIT ? OFFSET ?'' \<noteq> None"
    by (simp_all add: rev_build_sql_def buf_append_def REV_SELECT_def)
  have 1: "map mr_revision ?h = [1..int (length ?h)]"
    using num by (simp add: model_revs.numbered_def model_history_rev)
  have 2: "acta_db_model_revision_get_latest i d =
      (if ?live = [] then None else Some (row_to_model_revision (last ?live)), Some ACTA_DB_OK, d)"
    using pos fits(1) assms(1)
    unfolding acta_db_model_revision_get_latest_def model_revision_fetch_def live sql_read_healthy [OF assms(1)] sort latest
    by simp
  have 3: "acta_db_model_revision_get_by_model_and_rev i k d =
      (if k \<le> int (length ?h) then Some (row_to_model_revision (?h ! nat (k - 1))) else None, Some ACTA_DB_OK, d)"
    if "1 \<le> k"
    using pos fits(2) that
    unfolding acta_db_model_revision_get_by_model_and_rev_def model_revision_fetch_def
      sql_read_healthy [OF assms(1)] lookup by simp
  have 4: "acta_db_model_revision_list_by_model i offset limit d =
      (if offset < 0 then ([], Some 0, Some ACTA_DB_ERR_INVALID, d)
         else let page = sql_page (db_clamp_limit limit) offset ?live
              in (map row_to_model_revision page, Some (int (length page)), Some ACTA_DB_OK, d))"
    using pos fits(3)
    unfolding acta_db_model_revision_list_by_model_def rev_list_run_def live sort sql_read_healthy [OF assms(1)]
    by (auto simp: collect_loop_None Let_def)
  have 5: "acta_db_model_revision_list_by_model_with_deleted i offset limit d =
      (if offset < 0 then ([], Some 0, Some ACTA_DB_ERR_INVALID, d)
         else let page = sql_page (db_clamp_limit limit) offset ?h
              in (map row_to_model_revision page, Some (int (length page)), Some ACTA_DB_OK, d))"
    using pos fits(4)
    unfolding acta_db_model_revision_list_by_model_with_deleted_def rev_list_run_def h sort
      sql_read_healthy [OF assms(1)]
    by (auto simp: collect_loop_None Let_def)
  have 6: "acta_db_model_revision_count i d = (int (length ?live), Some ACTA_DB_OK, d)"
    "acta_db_model_revision_count_with_deleted i d = (int (length ?h), Some ACTA_DB_OK, d)"
    using pos c
    unfolding acta_db_model_revision_count_def acta_db_model_revision_count_with_deleted_def
      rev_count_run_def live h sql_read_healthy [OF assms(1)] by simp_all
  show ?thesis unfolding Let_def using 1 2 3 4 5 6 last by (simp add: Let_def)
qed

lemma model_history_readers_witness:
  "map_option mvr_revision (fst (acta_db_model_revision_get_by_model_and_rev 1 1 sample_inputs)) = Some 1"
proof -
  have ok: "models_ok (store sample_inputs)" using sample_ok(1) by (simp add: db_ok_def)
  have h: "healthy sample_inputs" by code_simp
  have r: "tbl_get mo_id (models (store sample_inputs)) 1 = Some (the (tbl_get mo_id (models (store sample_inputs)) 1))"
    by code_simp
  have "length (rows (model_revisions (store sample_inputs))) = 1" by code_simp
  then have b: "length (rows (model_revisions (store sample_inputs))) < 2147483648" by simp
  have "map mr_revision (model_history (store sample_inputs) 1) = [1]" by code_simp
  then obtain v where v: "model_history (store sample_inputs) 1 = [v]" "mr_revision v = 1" by auto
  then show ?thesis
    using model_history_readers [OF h ok r b, where k = 1]
    by (simp add: Let_def row_to_model_revision_def c_int_id)
qed

end
