(* ===== verification/Connections.thy ===== *)
theory Connections
  imports Database
begin

text \<open>
  The rest of \<^verbatim>\<open>acta_db/src/db.c\<close>: opening a database, listing its tables, and taking a
  backup. What SQLite and the file system answer in the course of one call is collected in a record
  that the definition takes as an argument (\<open>open_env\<close>, \<open>backup_env\<close>), one field per outside call
  in the order of the code; \<^verbatim>\<open>sqlite3_mprintf\<close> is taken to succeed.
\<close>

section \<open>Open\<close>

record open_env =
  oe_open :: bool
  oe_handle :: bool
  oe_fk :: int
  oe_mode :: "string option"
  oe_tables :: "int option"
  oe_malloc :: bool
  oe_strdup :: bool
  oe_version :: "int option"
  oe_store :: store
  oe_clock :: string
  oe_engine :: "engine_event list"
  oe_engine_msg :: string

definition wal_note :: "string \<Rightarrow> string" where
  "wal_note mode_str = ''PRAGMA journal_mode=WAL did not take effect (effective journal_mode: ''
     @ mode_str @ ''; WAL is unsupported on :memory: databases and some filesystems). ''
     @ ''Informational note, not an error: the connection is fully usable.''"

definition fk_note :: "int \<Rightarrow> string" where
  "fk_note rc = ''PRAGMA foreign_keys=ON failed at open (rc='' @ show_int rc
     @ ''); FK enforcement may be off on this connection, making ACTA_DB_ERR_FK mapping ''
     @ ''unreliable. Informational note, not an error.''"

definition version_note :: "int \<Rightarrow> string" where
  "version_note uv = '' Schema version: 0.'' @ show_int uv @ '' (PRAGMA user_version='' @ show_int uv
     @ ''). Informational note, not an error.''"

definition open_note :: "open_env \<Rightarrow> string option" where
  "open_note env =
     (let wal_active = (oe_mode env = Some ''wal'');
          mode_str = (case oe_mode env of None \<Rightarrow> ''(unknown)'' | Some m \<Rightarrow> m);
          note1 = (if \<not> wal_active then Some (wal_note mode_str) else None);
          note2 = (if oe_fk env \<noteq> 0 then Some (fk_note (oe_fk env)) else note1)
      in case oe_version env of
           None \<Rightarrow> note2
         | Some uv \<Rightarrow>
             if uv = 0 then note2
             else Some ((case note2 of None \<Rightarrow> [] | Some n \<Rightarrow> n) @ version_note uv))"

text \<open>
  \<open>creationMode\<close> 0 is ACTA_DB_OPEN_EXISTING. The second component is what was stored through
  \<^verbatim>\<open>err\<close>; the third says whether a SQLite handle opened by the call is still open without
  a \<open>db_t\<close> that owns it.
\<close>

definition acta_db_open :: "string option \<Rightarrow> int \<Rightarrow> open_env \<Rightarrow> db_t option \<times> int \<times> bool" where
  "acta_db_open path_opt creationMode env =
     (case path_opt of
        None \<Rightarrow> (None, ACTA_DB_ERR_INVALID, False)
      | Some p \<Rightarrow>
          if \<not> oe_open env then (None, ACTA_DB_ERR_SQL, False)
          else if creationMode = 0 \<and> oe_tables env = None then (None, ACTA_DB_ERR_SQL, False)
          else if creationMode = 0 \<and> oe_tables env = Some 0 then (None, ACTA_DB_ERR_INVALID_DB, False)
          else if \<not> oe_malloc env then (None, ACTA_DB_ERR_ALLOC, False)
          else if \<not> oe_strdup env then (None, ACTA_DB_ERR_ALLOC, True)
          else (Some \<lparr>store = oe_store env, saved = None, engine = oe_engine env,
                      clock = oe_clock env, engine_msg = oe_engine_msg env,
                      last_error = open_note env, in_transaction = False, path = p\<rparr>,
                ACTA_DB_OK, False))"

section \<open>User tables\<close>

text \<open>
  The loop of \<open>acta_db_user_tables\<close>: \<open>names\<close> are the rows of the query, \<open>oom\<close> the row at which
  an allocation fails. \<open>None\<close> is the NULL result.
\<close>

definition acta_db_user_tables ::
  "(store \<Rightarrow> string list) \<Rightarrow> db_t \<Rightarrow> string list option \<times> int option \<times> int option \<times> db_t" where
  "acta_db_user_tables table_names d =
     (case sql_read table_names d of
        (Unreadable, d1) \<Rightarrow>
          (None, Some 0, Some ACTA_DB_ERR_SQL,
           db_set_error ''failed to prepare the user-table query'' d1)
      | (Fetched rs rc oom, d1) \<Rightarrow>
          (case collect_loop (\<lambda>n. n) oom rs [] of
             None \<Rightarrow> (None, Some 0, Some ACTA_DB_ERR_ALLOC,
                      if last_error d1 = None then db_set_error ''memory allocation failed'' d1 else d1)
           | Some names \<Rightarrow> (Some names, Some (int (length names)), Some ACTA_DB_OK, d1)))"

section \<open>Backup\<close>

text \<open>
  The steps of \<open>acta_db_backup\<close> that SQLite or the file system may refuse, in order. \<open>be_check\<close> is
  the code of \<^verbatim>\<open>sqlite3_exec\<close> on \<^verbatim>\<open>PRAGMA quick_check\<close>, \<open>be_report\<close> the
  rows it delivers (\<^verbatim>\<open>ok\<close>, or the damage found).
\<close>

record backup_env =
  be_open :: bool
  be_init :: bool
  be_step :: sql_rc
  be_stat :: "int option"
  be_reopen :: bool
  be_check :: sql_rc
  be_report :: "string list"

text \<open>
  The file system as far as the call touches it: the content of the target, if it exists. The copy
  is complete when the step reached SQLITE_DONE; the content of a file left by an unfinished copy is
  whatever was there (\<open>partial\<close>).
\<close>

definition acta_db_backup ::
  "string option \<Rightarrow> backup_env \<Rightarrow> store option \<Rightarrow> db_t \<Rightarrow> int \<times> int option \<times> int option \<times> store option \<times> db_t" where
  "acta_db_backup target env partial d =
     (case target of
        None \<Rightarrow> (ACTA_DB_ERR_INVALID, Some 0, Some ACTA_DB_ERR_INVALID, partial, d)
      | Some t \<Rightarrow>
          if t = [] then (ACTA_DB_ERR_INVALID, Some 0, Some ACTA_DB_ERR_INVALID, partial, d)
          else if \<not> be_open env
          then (ACTA_DB_ERR_SQL, Some 0, Some ACTA_DB_ERR_SQL, partial,
                db_set_error ''cannot open backup target for writing'' d)
          else
            let d1 = (if be_init env
                      then (if be_step env = SQLITE_DONE then d else db_set_error ''backup step failed'' d)
                      else db_set_error ''backup init failed'' d);
                ok = (be_init env \<and> be_step env = SQLITE_DONE)
            in if \<not> ok then (ACTA_DB_ERR_SQL, Some 0, Some ACTA_DB_ERR_SQL, None, d1)
               else (case be_stat env of
                 None \<Rightarrow> (ACTA_DB_ERR_SQL, Some 0, Some ACTA_DB_ERR_SQL, None,
                          db_set_error ''cannot stat the backup file'' d1)
               | Some sz \<Rightarrow>
                   if sz = 0
                   then (ACTA_DB_ERR_SQL, Some 0, Some ACTA_DB_ERR_SQL, None,
                         db_set_error ''cannot stat the backup file'' d1)
                   else if \<not> be_reopen env
                   then (ACTA_DB_ERR_SQL, Some sz, Some ACTA_DB_ERR_SQL, None,
                         db_set_error ''cannot reopen the backup for quick_check'' d1)
                   else if be_check env \<noteq> SQLITE_OK
                   then (ACTA_DB_ERR_SQL, Some sz, Some ACTA_DB_ERR_SQL, None,
                         db_set_error ''PRAGMA quick_check failed on the backup'' d1)
                   else (ACTA_DB_OK, Some sz, Some ACTA_DB_OK, Some (store d), d1)))"

end
