(* ===== verification/Json.thy ===== *)
theory Json
  imports Prelude Complex_Main
begin

text \<open>
  JSON as the program sees it. The parser and printer (cJSON) are not in the repository: \<open>cJSON\<close> is
  the tree the parser returns and the accessors below are the documented behaviour of the cJSON
  functions of the same name, including that \<^verbatim>\<open>cJSON_GetObjectItem\<close> and
  \<^verbatim>\<open>cJSON_HasObjectItem\<close> compare member names without regard to case and that only
  objects have named members. Numbers are rationals, the values of finite doubles.

  The second half is the repository's own string printer, \<^verbatim>\<open>json_str\<close> of
  \<^verbatim>\<open>acta_runner/include/runner_util.h\<close>, with a reader for what it prints.
\<close>

datatype cJSON = JNull | JBool bool | JNumber rat | JString string | JArray "cJSON list"
  | JObject "(string \<times> cJSON) list"

section \<open>Accessors\<close>

definition cJSON_GetObjectItemCaseSensitive :: "(string \<times> cJSON) list \<Rightarrow> string \<Rightarrow> cJSON option" where
  "cJSON_GetObjectItemCaseSensitive obj key = map_option snd (find (\<lambda>kv. fst kv = key) obj)"

definition to_lower :: "char \<Rightarrow> char" where
  "to_lower c = (let n = (of_char c :: nat) in if 65 \<le> n \<and> n \<le> 90 then char_of (n + 32) else c)"

definition same_name :: "string \<Rightarrow> string \<Rightarrow> bool" where
  "same_name a b \<longleftrightarrow> map to_lower a = map to_lower b"

definition cJSON_GetObjectItem :: "cJSON \<Rightarrow> string \<Rightarrow> cJSON option" where
  "cJSON_GetObjectItem j key =
     (case j of JObject obj \<Rightarrow> map_option snd (find (\<lambda>kv. same_name (fst kv) key) obj) | _ \<Rightarrow> None)"

text \<open>The accessor on a pointer that may be NULL.\<close>

definition get_item :: "cJSON option \<Rightarrow> string \<Rightarrow> cJSON option" where
  "get_item j key = (case j of None \<Rightarrow> None | Some v \<Rightarrow> cJSON_GetObjectItem v key)"

definition string_of :: "cJSON option \<Rightarrow> string option" where
  "string_of j = (case j of Some (JString s) \<Rightarrow> Some s | _ \<Rightarrow> None)"

definition elements_of :: "cJSON option \<Rightarrow> cJSON list" where
  "elements_of j = (case j of Some (JArray xs) \<Rightarrow> xs | _ \<Rightarrow> [])"

lemma same_name_refl [simp]: "same_name a a"
  by (simp add: same_name_def)

lemma get_item_None [simp]: "get_item None k = None"
  by (simp add: get_item_def)

section \<open>Printing a string\<close>

definition hex_digit :: "nat \<Rightarrow> char" where
  "hex_digit n = ''0123456789abcdef'' ! n"

text \<open>One character of the text, as \<^verbatim>\<open>json_str\<close> prints it.\<close>

definition json_char :: "char \<Rightarrow> string" where
  "json_char c =
     (if c = CHR 0x22 then [CHR 0x5C, CHR 0x22]
      else if c = CHR 0x5C then [CHR 0x5C, CHR 0x5C]
      else if c = CHR 0x0A then [CHR 0x5C, CHR 0x6E]
      else if c = CHR 0x0D then [CHR 0x5C, CHR 0x72]
      else if c = CHR 0x09 then [CHR 0x5C, CHR 0x74]
      else if (of_char c :: nat) < 32
      then [CHR 0x5C, CHR 0x75, CHR 0x30, CHR 0x30,
            hex_digit (of_char c div 16), hex_digit (of_char c mod 16)]
      else [c])"

definition json_str :: "string \<Rightarrow> string" where
  "json_str s = [CHR 0x22] @ concat (map json_char s) @ [CHR 0x22]"

section \<open>Reading it back\<close>

text \<open>
  A reader for JSON string bodies up to the closing quote, by RFC 8259 (the escapes
  \<^verbatim>\<open>json_str\<close> uses): the string read and the rest of the input. It is the
  specification the printer is checked against.
\<close>

definition hex_value :: "char \<Rightarrow> nat option" where
  "hex_value c =
     (let n = (of_char c :: nat) in
      if 48 \<le> n \<and> n \<le> 57 then Some (n - 48)
      else if 97 \<le> n \<and> n \<le> 102 then Some (n - 87)
      else if 65 \<le> n \<and> n \<le> 70 then Some (n - 55) else None)"

fun read_body :: "string \<Rightarrow> (string \<times> string) option" where
  "read_body [] = None"
| "read_body (c # s) =
     (if c = CHR 0x22 then Some ([], s)
      else if (of_char c :: nat) < 32 then None
      else if c \<noteq> CHR 0x5C then map_option (\<lambda>(t, r). (c # t, r)) (read_body s)
      else (case s of
          [] \<Rightarrow> None
        | e # s1 \<Rightarrow>
            if e = CHR 0x22 \<or> e = CHR 0x5C \<or> e = CHR 0x2F
            then map_option (\<lambda>(t, r). (e # t, r)) (read_body s1)
            else if e = CHR 0x6E then map_option (\<lambda>(t, r). (CHR 0x0A # t, r)) (read_body s1)
            else if e = CHR 0x72 then map_option (\<lambda>(t, r). (CHR 0x0D # t, r)) (read_body s1)
            else if e = CHR 0x74 then map_option (\<lambda>(t, r). (CHR 0x09 # t, r)) (read_body s1)
            else if e = CHR 0x75
            then (case s1 of
                a # b # x # y # s2 \<Rightarrow>
                  (case (hex_value a, hex_value b, hex_value x, hex_value y) of
                     (Some 0, Some 0, Some h, Some l) \<Rightarrow>
                       map_option (\<lambda>(t, r). (char_of (16 * h + l) # t, r)) (read_body s2)
                   | _ \<Rightarrow> None)
              | _ \<Rightarrow> None)
            else None))"

definition read_string :: "string \<Rightarrow> (string \<times> string) option" where
  "read_string s = (case s of c # t \<Rightarrow> if c = CHR 0x22 then read_body t else None | [] \<Rightarrow> None)"

lemma hex_value_digit: "n < 16 \<Longrightarrow> hex_value (hex_digit n) = Some n"
  by (simp add: hex_digit_def hex_value_def less_Suc_eq numeral_eq_Suc) (elim disjE; simp)

lemma read_body_char: "read_body (json_char c @ s) = map_option (\<lambda>(t, r). (c # t, r)) (read_body s)"
proof (cases "(of_char c :: nat) < 32 \<and> c \<noteq> CHR 0x0A \<and> c \<noteq> CHR 0x0D \<and> c \<noteq> CHR 0x09")
  case True
  let ?n = "of_char c :: nat"
  from True have "c \<noteq> CHR 0x22" "c \<noteq> CHR 0x5C" by auto
  with True have j: "json_char c = [CHR 0x5C, CHR 0x75, CHR 0x30, CHR 0x30,
      hex_digit (?n div 16), hex_digit (?n mod 16)]"
    by (simp add: json_char_def)
  have "hex_value (hex_digit (?n div 16)) = Some (?n div 16)"
    and "hex_value (hex_digit (?n mod 16)) = Some (?n mod 16)"
    using True by (auto intro!: hex_value_digit)
  moreover have "hex_value (CHR 0x30) = Some 0" by (simp add: hex_value_def)
  ultimately show ?thesis by (simp add: j)
next
  case False
  then show ?thesis by (auto simp: json_char_def)
qed

lemma read_body_chars:
  "read_body (concat (map json_char t) @ CHR 0x22 # rest) = Some (t, rest)"
  by (induction t) (simp_all add: read_body_char del: read_body.simps, simp)

end
