(* ===== verification/Conf.thy ===== *)
theory Conf
  imports Json
begin

text \<open>
  \<^verbatim>\<open>acta_db/src/conf.c\<close>: the per-machine configuration file that the command line tool and
  the runner share. The JSON parser (cJSON) is not in the repository: \<open>ParseWithOpts\<close> (the document, or nothing when the text is not exactly one JSON value) and
  \<open>GetErrorPtr\<close> are parameters. So are \<open>getenv\<close>, the file mode \<open>stat\<close> and the bytes of a file that
  can be opened, \<open>file\<close>; \<open>mem key\<close> says whether copying the value of \<open>key\<close> finds memory
  (\<open>mem ''file''\<close>: the buffer of \<open>slurp_file\<close>). Numbers are
  rationals, the values of finite doubles; \<open>long_of\<close> is the C conversion of a double to
  \<^verbatim>\<open>long\<close>, which the language defines only where the truncated value fits.
\<close>

record acta_conf_t =
  conf_api_key :: "string option"
  conf_db :: "string option"
  conf_max_chars :: int
  conf_timeout :: int

definition zero_conf :: acta_conf_t where
  "zero_conf = \<lparr>conf_api_key = None, conf_db = None, conf_max_chars = 0, conf_timeout = 0\<rparr>"

definition known_keys :: "string list" where
  "known_keys = [''api_key'', ''db'', ''max_chars'', ''timeout'']"

definition key_known :: "string \<Rightarrow> bool" where
  "key_known k \<longleftrightarrow> k \<in> set known_keys"

text \<open>A diagnostic is cut at 255 characters.\<close>

definition set_err :: "string \<Rightarrow> string" where
  "set_err msg = snprintf 256 msg"

definition quoted :: "string \<Rightarrow> string" where
  "quoted k = [CHR 0x27] @ k @ [CHR 0x27]"

section \<open>Parsing\<close>

definition parse_root ::
  "(string \<Rightarrow> cJSON option) \<Rightarrow> (string \<Rightarrow> string option) \<Rightarrow> string option
     \<Rightarrow> string + (string \<times> cJSON) list" where
  "parse_root ParseWithOpts GetErrorPtr blob =
     (case blob of
        None \<Rightarrow> Inl (set_err ''config: empty input'')
      | Some text \<Rightarrow>
          (case ParseWithOpts text of
             None \<Rightarrow> Inl (set_err (''config is not valid JSON'' @
                       (case GetErrorPtr text of None \<Rightarrow> [] | Some e \<Rightarrow> '': '' @ e)))
           | Some (JObject obj) \<Rightarrow> Inr obj
           | Some other \<Rightarrow> Inl (set_err ''config root is not an object'')))"

definition get_str ::
  "(string \<Rightarrow> bool) \<Rightarrow> (string \<times> cJSON) list \<Rightarrow> string \<Rightarrow> string + string option" where
  "get_str mem obj key =
     (case cJSON_GetObjectItemCaseSensitive obj key of
        None \<Rightarrow> Inr None
      | Some (JString s) \<Rightarrow>
          if mem key then Inr (Some s)
          else Inl (set_err (''out of memory copying config key '' @ quoted key))
      | Some other \<Rightarrow> Inl (set_err (''config key '' @ quoted key @ '' must be a string'')))"


text \<open>
  \<open>(double)LONG_MAX\<close> is 2^63: the nearest double.
\<close>

definition get_posint ::
  "(rat \<Rightarrow> int) \<Rightarrow> (string \<times> cJSON) list \<Rightarrow> string \<Rightarrow> string + int" where
  "get_posint long_of obj key =
     (case cJSON_GetObjectItemCaseSensitive obj key of
        None \<Rightarrow> Inr 0
      | Some (JNumber d) \<Rightarrow>
          if d \<noteq> of_int (long_of d)
          then Inl (set_err (''config key '' @ quoted key @ '' must be an integer''))
          else if d \<le> 0 \<or> d > of_int (LONG_MAX + 1)
          then Inl (set_err (''config key '' @ quoted key @ '' must be a positive integer''))
          else Inr (long_of d)
      | Some other \<Rightarrow> Inl (set_err (''config key '' @ quoted key @ '' must be a number'')))"

text \<open>The result code, the struct, and the diagnostic.\<close>

definition acta_conf_parse ::
  "(string \<Rightarrow> cJSON option) \<Rightarrow> (string \<Rightarrow> string option) \<Rightarrow> (rat \<Rightarrow> int) \<Rightarrow> (string \<Rightarrow> bool)
     \<Rightarrow> string option \<Rightarrow> int \<times> acta_conf_t \<times> string option" where
  "acta_conf_parse ParseWithOpts GetErrorPtr long_of mem blob =
     (case parse_root ParseWithOpts GetErrorPtr blob of
        Inl msg \<Rightarrow> (- 1, zero_conf, Some msg)
      | Inr obj \<Rightarrow>
          (case find (\<lambda>kv. \<not> key_known (fst kv)) obj of
             Some kv \<Rightarrow> (- 1, zero_conf, Some (set_err (''unknown config key: '' @ quoted (fst kv))))
           | None \<Rightarrow>
               (case get_str mem obj ''api_key'' of
                  Inl msg \<Rightarrow> (- 1, zero_conf, Some msg)
                | Inr api_key \<Rightarrow>
               (case get_str mem obj ''db'' of
                  Inl msg \<Rightarrow> (- 1, zero_conf, Some msg)
                | Inr db \<Rightarrow>
               (case get_posint long_of obj ''max_chars'' of
                  Inl msg \<Rightarrow> (- 1, zero_conf, Some msg)
                | Inr max_chars \<Rightarrow>
               (case get_posint long_of obj ''timeout'' of
                  Inl msg \<Rightarrow> (- 1, zero_conf, Some msg)
                | Inr timeout \<Rightarrow>
                    (0, \<lparr>conf_api_key = api_key, conf_db = db, conf_max_chars = max_chars,
                         conf_timeout = timeout\<rparr>, None)))))))"

section \<open>Where the file is, and reading it\<close>

abbreviation (input) ACTA_CONFPATH_MAX :: nat where "ACTA_CONFPATH_MAX \<equiv> 4096"

text \<open>The POSIX branch of \<^verbatim>\<open>conf_appdata_base\<close>.\<close>

definition conf_appdata_base :: "(string \<Rightarrow> string option) \<Rightarrow> string option" where
  "conf_appdata_base getenv =
     (case getenv ''XDG_DATA_HOME'' of
        Some p \<Rightarrow> if p \<noteq> [] then Some p else
          (case getenv ''HOME'' of
             None \<Rightarrow> None
           | Some home \<Rightarrow>
               if home = [] then None
               else if length home + 1 + 13 + 1 > ACTA_CONFPATH_MAX then None
               else Some (home @ ''/.local/share''))
      | None \<Rightarrow>
          (case getenv ''HOME'' of
             None \<Rightarrow> None
           | Some home \<Rightarrow>
               if home = [] then None
               else if length home + 1 + 13 + 1 > ACTA_CONFPATH_MAX then None
               else Some (home @ ''/.local/share'')))"

definition acta_conf_default_path :: "(string \<Rightarrow> string option) \<Rightarrow> string" where
  "acta_conf_default_path getenv =
     (case conf_appdata_base getenv of
        None \<Rightarrow> ''./ACTA_Gamma.conf''
      | Some base \<Rightarrow>
          if length base + 1 + 28 > ACTA_CONFPATH_MAX then ''./ACTA_Gamma.conf''
          else snprintf ACTA_CONFPATH_MAX (base @ ''/ACTA_Gamma/ACTA_Gamma.conf''))"

text \<open>
  The loop of \<open>slurp_file\<close>: the buffer grows only when it is full to the last byte, but a read asks
  for one byte less than is free.
\<close>

function slurp_loop :: "bool \<Rightarrow> nat \<Rightarrow> string \<Rightarrow> string \<Rightarrow> string option" where
  "slurp_loop mem cap buf rest =
     (let grow = (length buf + 1 > cap);
          cap1 = (if grow then (if cap \<noteq> 0 then cap * 2 else 4096) else cap);
          got = take (cap1 - length buf - 1) rest
      in if grow \<and> \<not> mem then None
         else if got = [] then Some buf
         else slurp_loop mem cap1 (buf @ got) (drop (length got) rest))"
  by pat_completeness auto
termination
  by (relation "measure (\<lambda>(mem, cap, buf, rest). length rest)") (auto simp: min_def)

declare slurp_loop.simps [simp del]

text \<open>What is handed on is a C string: it ends at its first NUL.\<close>

definition slurp_file :: "bool \<Rightarrow> string \<Rightarrow> string option" where
  "slurp_file mem content = map_option (takeWhile (\<lambda>c. c \<noteq> CHR 0x00)) (slurp_loop mem 0 [] content)"

text \<open>So it never grows, and no more than 4095 bytes of a file are read.\<close>

lemma slurp_file_cut: "slurp_file True content = Some (takeWhile (\<lambda>c. c \<noteq> CHR 0x00) (take 4095 content))"
proof -
  have full: "slurp_loop True 4096 buf rest = Some (buf @ take (4095 - length buf) rest)"
    if "length buf \<le> 4095" for buf rest
    using that
  proof (induction "length rest" arbitrary: buf rest rule: less_induct)
    case less
    let ?got = "take (4095 - length buf) rest"
    have step: "slurp_loop True 4096 buf rest
        = (if ?got = [] then Some buf else slurp_loop True 4096 (buf @ ?got) (drop (length ?got) rest))"
      using less.prems by (subst slurp_loop.simps) (simp add: Let_def)
    show ?case
    proof (cases "?got = []")
      case False
      then have "slurp_loop True 4096 (buf @ ?got) (drop (length ?got) rest)
          = Some ((buf @ ?got) @ take (4095 - length (buf @ ?got)) (drop (length ?got) rest))"
        using less.prems by (intro less.hyps) auto
      moreover have "take (4095 - length (buf @ ?got)) (drop (length ?got) rest) = []" by auto
      ultimately show ?thesis using False step by simp
    qed (use step in simp)
  qed
  show ?thesis
  proof (cases "take 4095 content = []")
    case True
    then show ?thesis by (subst slurp_file_def, subst slurp_loop.simps) (simp add: Let_def)
  next
    case False
    have "slurp_loop True 0 [] content
        = slurp_loop True 4096 (take 4095 content) (drop (length (take 4095 content)) content)"
      using False by (subst slurp_loop.simps) (simp add: Let_def)
    also have "\<dots> = Some (take 4095 content)" by (subst full) auto
    finally show ?thesis by (simp add: slurp_file_def)
  qed
qed

text \<open>
  \<open>mode\<close> holds the two permission bits the gate looks at (group read, other read), \<open>None\<close> when
  \<^verbatim>\<open>stat\<close> fails. The C call that builds the message of the gate passes no argument for its
  \<^verbatim>\<open>%s\<close>; \<open>vararg\<close> is whatever is printed there.
\<close>

definition acta_conf_read ::
  "(string \<Rightarrow> cJSON option) \<Rightarrow> (string \<Rightarrow> string option) \<Rightarrow> (rat \<Rightarrow> int) \<Rightarrow> (string \<Rightarrow> bool)
     \<Rightarrow> (string \<Rightarrow> (bool \<times> bool) option) \<Rightarrow> (string \<Rightarrow> string option) \<Rightarrow> string \<Rightarrow> string option
     \<Rightarrow> int \<times> acta_conf_t \<times> bool \<times> string option" where
  "acta_conf_read ParseWithOpts GetErrorPtr long_of mem stat file vararg path =
     (case path of
        None \<Rightarrow> (- 1, zero_conf, False, Some (set_err ''config: NULL path''))
      | Some p \<Rightarrow>
          if (case stat p of None \<Rightarrow> False | Some (group_read, other_read) \<Rightarrow> group_read \<or> other_read)
          then (- 1, zero_conf, False,
                Some (set_err (''config file '' @ vararg @ '' is group- or other-readable ''
                  @ ''(mode has group/other read bits set); it must be 0600 (owner read/write only)'')))
          else (case Option.bind (file p) (slurp_file (mem ''file'')) of
            None \<Rightarrow> (0, zero_conf, True, None)
          | Some blob \<Rightarrow>
              (case acta_conf_parse ParseWithOpts GetErrorPtr long_of mem (Some blob) of
                 (rc, conf, msg) \<Rightarrow> (rc, conf, False, msg))))"

section \<open>The effective key and limits\<close>

abbreviation (input) ACTA_KEY_OK :: int where "ACTA_KEY_OK \<equiv> 0"
abbreviation (input) ACTA_KEY_EMPTY_WARN :: int where "ACTA_KEY_EMPTY_WARN \<equiv> 1"
abbreviation (input) ACTA_KEY_UNSET_ERR :: int where "ACTA_KEY_UNSET_ERR \<equiv> 2"

definition acta_conf_api_key_status :: "string option \<Rightarrow> string option \<Rightarrow> int \<times> string option" where
  "acta_conf_api_key_status env_key file_key =
     (let key = (if env_key \<noteq> None then env_key else file_key) in
      case key of
        None \<Rightarrow> (ACTA_KEY_UNSET_ERR,
                 Some (''OPENAI_API_KEY is not set and the config file provides no \"api_key\"; ''
                   @ ''set the environment variable or add \"api_key\" to the config file''))
      | Some k \<Rightarrow>
          if k = []
          then (ACTA_KEY_EMPTY_WARN,
                Some (if env_key \<noteq> None
                  then ''warning: OPENAI_API_KEY is empty - no Authorization header will be sent ''
                    @ ''(acceptable only for a keyless localhost server; a bad idea in general)''
                  else ''warning: the config file \"api_key\" is empty - no Authorization header ''
                    @ ''will be sent (acceptable only for a keyless localhost server; a bad idea in general)''))
          else (ACTA_KEY_OK, None))"

definition acta_conf_api_key_shadow_warning :: "string option \<Rightarrow> string option \<Rightarrow> int \<times> string option" where
  "acta_conf_api_key_shadow_warning env_key file_key =
     (if env_key = None then (0, None)
      else if file_key = None \<or> file_key = Some [] then (0, None)
      else (1, Some (''warning: OPENAI_API_KEY is set (empty or not) and shadows the config file ''
                 @ ''\"api_key\"; the effective key is the environment value'')))"

abbreviation (input) ACTA_CONF_DEFAULT_MAX_CHARS :: int where "ACTA_CONF_DEFAULT_MAX_CHARS \<equiv> 100000"
abbreviation (input) ACTA_CONF_DEFAULT_TIMEOUT :: int where "ACTA_CONF_DEFAULT_TIMEOUT \<equiv> 600"

definition acta_conf_resolve_max_chars :: "acta_conf_t option \<Rightarrow> int" where
  "acta_conf_resolve_max_chars conf =
     (case conf of
        None \<Rightarrow> ACTA_CONF_DEFAULT_MAX_CHARS
      | Some c \<Rightarrow> if conf_max_chars c > 0 then conf_max_chars c else ACTA_CONF_DEFAULT_MAX_CHARS)"

definition acta_conf_resolve_timeout :: "acta_conf_t option \<Rightarrow> int \<Rightarrow> int" where
  "acta_conf_resolve_timeout conf flag_timeout =
     (if flag_timeout > 0 then flag_timeout
      else case conf of
        None \<Rightarrow> ACTA_CONF_DEFAULT_TIMEOUT
      | Some c \<Rightarrow> if conf_timeout c > 0 then c_int (conf_timeout c) else ACTA_CONF_DEFAULT_TIMEOUT)"

end
