(* ===== verification/Dialect.thy ===== *)
theory Dialect
  imports Json
begin

text \<open>
  \<^verbatim>\<open>acta_runner/src/dialect.c\<close>: the two HTTP dialects a model server can speak, as
  descriptors. A \<^verbatim>\<open>dialect_t\<close> holds two functions: how the context ceiling is read out
  of the server's documents, and the \<^verbatim>\<open>response_format\<close> envelope. \<open>long_of\<close> is the
  C conversion of a double to \<^verbatim>\<open>long\<close>; a NULL document is \<open>None\<close>. The copies cJSON makes
  are taken to find memory.
\<close>

datatype dialect_id_t = DIALECT_LLAMACPP | DIALECT_OPENAI | DIALECT_UNKNOWN

record dialect_t =
  dl_id :: dialect_id_t
  dl_name :: string
  fetch_catalog :: bool
  sends_top_k :: bool
  build_response_format :: "cJSON option \<Rightarrow> cJSON option"
  max_context_of :: "cJSON option \<Rightarrow> cJSON option \<Rightarrow> int \<times> string"

section \<open>The context ceiling\<close>

definition json_positive_int :: "(rat \<Rightarrow> int) \<Rightarrow> cJSON option \<Rightarrow> string \<Rightarrow> int" where
  "json_positive_int long_of obj key =
     (case get_item obj key of
        Some (JNumber d) \<Rightarrow> if d \<le> 0 then 0 else long_of d
      | _ \<Rightarrow> 0)"

definition entry_max_context :: "(rat \<Rightarrow> int) \<Rightarrow> cJSON option \<Rightarrow> int" where
  "entry_max_context long_of entry = json_positive_int long_of entry ''max_context''"

definition entry_meta_n_ctx :: "(rat \<Rightarrow> int) \<Rightarrow> cJSON option \<Rightarrow> int" where
  "entry_meta_n_ctx long_of entry = json_positive_int long_of (get_item entry ''meta'') ''n_ctx''"

definition health_max_context :: "(rat \<Rightarrow> int) \<Rightarrow> cJSON option \<Rightarrow> int" where
  "health_max_context long_of health_body = json_positive_int long_of health_body ''max_context''"

definition max_context_llamacpp ::
  "(rat \<Rightarrow> int) \<Rightarrow> cJSON option \<Rightarrow> cJSON option \<Rightarrow> int \<times> string" where
  "max_context_llamacpp long_of entry health =
     (if entry_max_context long_of entry > 0
      then (entry_max_context long_of entry, ''entry.max_context'')
      else if entry_meta_n_ctx long_of entry > 0
      then (entry_meta_n_ctx long_of entry, ''entry.meta.n_ctx'')
      else if health_max_context long_of health > 0
      then (health_max_context long_of health, ''health.max_context'')
      else (0, ''none''))"

definition max_context_openai ::
  "(rat \<Rightarrow> int) \<Rightarrow> cJSON option \<Rightarrow> cJSON option \<Rightarrow> int \<times> string" where
  "max_context_openai long_of entry health =
     (if entry_meta_n_ctx long_of entry > 0
      then (entry_meta_n_ctx long_of entry, ''entry.meta.n_ctx'')
      else if entry_max_context long_of entry > 0
      then (entry_max_context long_of entry, ''entry.max_context'')
      else if health_max_context long_of health > 0
      then (health_max_context long_of health, ''health.max_context'')
      else (0, ''none''))"

section \<open>The structured-output envelope\<close>

definition ACTA_OPENAI_SCHEMA_NAME :: string where
  "ACTA_OPENAI_SCHEMA_NAME = ''acta_output''"

definition response_format_llamacpp :: "cJSON option \<Rightarrow> cJSON option" where
  "response_format_llamacpp schema =
     map_option (\<lambda>sc. JObject [(''type'', JString ''json_schema''), (''schema'', sc)]) schema"

definition response_format_openai :: "cJSON option \<Rightarrow> cJSON option" where
  "response_format_openai schema =
     map_option (\<lambda>sc. JObject [(''type'', JString ''json_schema''),
       (''json_schema'', JObject [(''name'', JString ACTA_OPENAI_SCHEMA_NAME),
          (''strict'', JBool True), (''schema'', sc)])]) schema"

section \<open>The table\<close>

definition DIALECT_TABLE :: "(rat \<Rightarrow> int) \<Rightarrow> dialect_t list" where
  "DIALECT_TABLE long_of =
     [\<lparr>dl_id = DIALECT_LLAMACPP, dl_name = ''llamacpp'', fetch_catalog = True, sends_top_k = True,
       build_response_format = response_format_llamacpp,
       max_context_of = max_context_llamacpp long_of\<rparr>,
      \<lparr>dl_id = DIALECT_OPENAI, dl_name = ''openai'', fetch_catalog = False, sends_top_k = False,
       build_response_format = response_format_openai,
       max_context_of = max_context_openai long_of\<rparr>]"

definition dialect_from_string :: "string option \<Rightarrow> dialect_id_t" where
  "dialect_from_string backend =
     (case backend of
        None \<Rightarrow> DIALECT_UNKNOWN
      | Some b \<Rightarrow>
          (case find (\<lambda>d. dl_name d = b) (DIALECT_TABLE (\<lambda>d. 0)) of
             None \<Rightarrow> DIALECT_UNKNOWN | Some d \<Rightarrow> dl_id d))"

definition dialect_get :: "(rat \<Rightarrow> int) \<Rightarrow> dialect_id_t \<Rightarrow> dialect_t option" where
  "dialect_get long_of i = find (\<lambda>d. dl_id d = i) (DIALECT_TABLE long_of)"

definition dialect_name :: "dialect_id_t \<Rightarrow> string" where
  "dialect_name i =
     (case dialect_get (\<lambda>d. 0) i of None \<Rightarrow> ''(unknown)'' | Some d \<Rightarrow> dl_name d)"

definition dialect_expected_names :: string where
  "dialect_expected_names = ''llamacpp or openai''"

lemma dialect_get_cases:
  "dialect_get lo i = Some d \<Longrightarrow> dl_id d = i \<and> (d = DIALECT_TABLE lo ! 0 \<or> d = DIALECT_TABLE lo ! 1)"
  by (auto simp: dialect_get_def DIALECT_TABLE_def split: if_splits)

lemma dialect_get_known: "dialect_get lo i = None \<longleftrightarrow> i = DIALECT_UNKNOWN"
  by (cases i) (simp_all add: dialect_get_def DIALECT_TABLE_def)

lemma dialect_from_string_known:
  "dialect_from_string b = DIALECT_UNKNOWN \<longleftrightarrow> b \<noteq> Some ''llamacpp'' \<and> b \<noteq> Some ''openai''"
  by (auto simp: dialect_from_string_def DIALECT_TABLE_def split: option.splits)

end
