(* ===== verification/Runner_Util.thy ===== *)
theory Runner_Util
  imports Json
begin

text \<open>
  The helpers of \<^verbatim>\<open>acta_runner/include/runner_util.h\<close> and the exit codes of
  \<^verbatim>\<open>acta_runner/include/runner.h\<close>: strict number arguments over \<^verbatim>\<open>strtol\<close>,
  the mapping of library codes to exit codes, and the single-line JSON reports on the two output
  streams. An emitter returns the line it writes (with the exit code it returns, if it returns one);
  the trailing newline is left out.
\<close>

section \<open>Exit codes\<close>

abbreviation (input) EXIT_OK :: int where "EXIT_OK \<equiv> 0"
abbreviation (input) EXIT_NOT_FOUND :: int where "EXIT_NOT_FOUND \<equiv> 1"
abbreviation (input) EXIT_SQL :: int where "EXIT_SQL \<equiv> 2"
abbreviation (input) EXIT_ALLOC :: int where "EXIT_ALLOC \<equiv> 3"
abbreviation (input) EXIT_INVALID :: int where "EXIT_INVALID \<equiv> 4"
abbreviation (input) EXIT_CLI :: int where "EXIT_CLI \<equiv> 10"
abbreviation (input) EXIT_DB_OPEN :: int where "EXIT_DB_OPEN \<equiv> 11"
abbreviation (input) EXIT_HTTP :: int where "EXIT_HTTP \<equiv> 12"
abbreviation (input) EXIT_TIMEOUT :: int where "EXIT_TIMEOUT \<equiv> 13"
abbreviation (input) EXIT_CANCELED :: int where "EXIT_CANCELED \<equiv> 14"

definition map_rc_to_exit :: "int \<Rightarrow> int" where
  "map_rc_to_exit rc =
     (if rc = ACTA_DB_OK then EXIT_OK
      else if rc = ACTA_DB_ERR_NOT_FOUND then EXIT_NOT_FOUND
      else if rc = ACTA_DB_ERR_SQL then EXIT_SQL
      else if rc = ACTA_DB_ERR_ALLOC then EXIT_ALLOC
      else EXIT_INVALID)"

section \<open>Number arguments\<close>

definition is_space :: "char \<Rightarrow> bool" where
  "is_space c \<longleftrightarrow> c = CHR 0x20 \<or> (9 \<le> (of_char c :: nat) \<and> (of_char c :: nat) \<le> 13)"

definition is_digit :: "char \<Rightarrow> bool" where
  "is_digit c \<longleftrightarrow> 48 \<le> (of_char c :: nat) \<and> (of_char c :: nat) \<le> 57"

definition digits_value :: "string \<Rightarrow> int" where
  "digits_value ds = foldl (\<lambda>n c. 10 * n + int (of_char c - 48)) 0 ds"

text \<open>
  \<^verbatim>\<open>strtol(s, &end, 10)\<close>: the value, whether errno became ERANGE, and the text at
  \<^verbatim>\<open>end\<close>. Leading blanks and one sign are accepted; without digits nothing is consumed.
\<close>

definition strtol :: "string \<Rightarrow> int \<times> bool \<times> string" where
  "strtol s =
     (let t = dropWhile is_space s;
          neg = (t \<noteq> [] \<and> hd t = CHR 0x2D);
          u = (if t \<noteq> [] \<and> (hd t = CHR 0x2D \<or> hd t = CHR 0x2B) then tl t else t);
          ds = takeWhile is_digit u;
          v = (if neg then - digits_value ds else digits_value ds)
      in if ds = [] then (0, False, s)
         else if v > LONG_MAX then (LONG_MAX, True, dropWhile is_digit u)
         else if v < - LONG_MAX - 1 then (- LONG_MAX - 1, True, dropWhile is_digit u)
         else (v, False, dropWhile is_digit u))"

definition parse_positive_id :: "string \<Rightarrow> int option" where
  "parse_positive_id s =
     (case strtol s of (v, erange, rest) \<Rightarrow>
        if erange \<or> rest \<noteq> [] \<or> v \<le> 0 \<or> v > INT_MAX then None else Some v)"

definition parse_nonneg_int :: "string \<Rightarrow> int option" where
  "parse_nonneg_int s =
     (case strtol s of (v, erange, rest) \<Rightarrow>
        if erange \<or> rest \<noteq> [] \<or> v < 0 \<or> v > INT_MAX then None else Some v)"

section \<open>Report lines\<close>

definition dquoted :: "string \<Rightarrow> string" where
  "dquoted s = [CHR 0x22] @ s @ [CHR 0x22]"

text \<open>The line both kinds of report share.\<close>

definition error_line :: "string \<Rightarrow> int \<Rightarrow> string \<Rightarrow> string" where
  "error_line name code msg =
     ''{'' @ dquoted ''error'' @ '':'' @ dquoted name @ '','' @ dquoted ''code'' @ '':'' @ show_int code
       @ '','' @ dquoted ''message'' @ '':'' @ json_str msg @ ''}''"

definition db_error_name :: "int \<Rightarrow> string option" where
  "db_error_name rc =
     map_option snd (find (\<lambda>e. fst e = rc)
       [(ACTA_DB_ERR_NOT_FOUND, ''ACTA_DB_ERR_NOT_FOUND''), (ACTA_DB_ERR_SQL, ''ACTA_DB_ERR_SQL''),
        (ACTA_DB_ERR_ALLOC, ''ACTA_DB_ERR_ALLOC''), (ACTA_DB_ERR_INVALID, ''ACTA_DB_ERR_INVALID''),
        (ACTA_DB_ERR_INVALID_DB, ''ACTA_DB_ERR_INVALID_DB''),
        (ACTA_DB_ERR_DUPLICATE, ''ACTA_DB_ERR_DUPLICATE''), (ACTA_DB_ERR_FK, ''ACTA_DB_ERR_FK'')])"

definition finish_db_error :: "int \<Rightarrow> string \<Rightarrow> int \<times> string" where
  "finish_db_error rc what =
     (case db_error_name rc of
        Some name \<Rightarrow> (map_rc_to_exit rc, error_line name rc what)
      | None \<Rightarrow> (map_rc_to_exit ACTA_DB_ERR_INVALID,
                 error_line ''ACTA_DB_ERR_INVALID'' ACTA_DB_ERR_INVALID what))"

text \<open>\<open>msg\<close> is what \<^verbatim>\<open>acta_db_last_error\<close> gives.\<close>

definition finish_op_error :: "string option \<Rightarrow> int \<Rightarrow> string \<Rightarrow> int \<times> string" where
  "finish_op_error msg rc op =
     finish_db_error rc (snprintf 512 (op @ '' failed: '' @
       (case msg of None \<Rightarrow> ''(no detail)'' | Some m \<Rightarrow> m)))"

definition emit_error :: "string \<Rightarrow> string" where
  "emit_error msg = error_line ''ACTA_DB_ERR_INVALID'' ACTA_DB_ERR_INVALID msg"

definition emit_not_found :: "string \<Rightarrow> int \<times> string" where
  "emit_not_found entity = finish_db_error ACTA_DB_ERR_NOT_FOUND (snprintf 128 (entity @ '' not found''))"

definition emit_runner_error :: "int \<Rightarrow> string \<Rightarrow> int \<times> string" where
  "emit_runner_error exit_code msg = (exit_code, error_line ''ACTA_RUNNER_ERROR'' exit_code msg)"

definition emit_check_verdict :: "bool \<Rightarrow> string \<Rightarrow> string \<Rightarrow> int \<Rightarrow> string option \<Rightarrow> string" where
  "emit_check_verdict ok model base_url max_context verdict =
     (if ok
      then ''{'' @ dquoted ''ok'' @ '':true,'' @ dquoted ''model'' @ '':'' @ json_str model
        @ '','' @ dquoted ''max_context'' @ '':'' @ show_int max_context
        @ '','' @ dquoted ''base_url'' @ '':'' @ json_str base_url @ ''}''
      else ''{'' @ dquoted ''ok'' @ '':false,'' @ dquoted ''model'' @ '':'' @ json_str model
        @ '','' @ dquoted ''base_url'' @ '':'' @ json_str base_url
        @ '','' @ dquoted ''verdict'' @ '':'' @ json_str (case verdict of None \<Rightarrow> [] | Some v \<Rightarrow> v) @ ''}'')"

abbreviation (input) KEY_OK :: int where "KEY_OK \<equiv> 0"
abbreviation (input) KEY_EMPTY_WARN :: int where "KEY_EMPTY_WARN \<equiv> 1"
abbreviation (input) KEY_UNSET_ERR :: int where "KEY_UNSET_ERR \<equiv> 2"

definition runner_api_key_status :: "string option \<Rightarrow> int" where
  "runner_api_key_status key =
     (case key of None \<Rightarrow> KEY_UNSET_ERR | Some k \<Rightarrow> if k = [] then KEY_EMPTY_WARN else KEY_OK)"

definition runner_api_key_message :: "int \<Rightarrow> string option" where
  "runner_api_key_message status =
     (if status = KEY_UNSET_ERR then Some ''OPENAI_API_KEY is not set; set the environment variable''
      else if status = KEY_EMPTY_WARN
      then Some (''warning: OPENAI_API_KEY is empty - no Authorization header will be sent ''
        @ ''(acceptable only for a keyless localhost server; a bad idea in general)'')
      else None)"

section \<open>What strtol consumes\<close>

lemma digits_value_nonneg: "0 \<le> digits_value ds"
proof -
  have "0 \<le> n \<Longrightarrow> 0 \<le> foldl (\<lambda>n c. 10 * n + int (of_char c - 48)) n ds" for n
    by (induction ds arbitrary: n) auto
  then show ?thesis by (simp add: digits_value_def)
qed

lemma digit_no_space: "is_digit c \<Longrightarrow> \<not> is_space c"
  by (auto simp: is_digit_def is_space_def)

lemma sign_no_space: "\<not> is_space (CHR 0x2B)" "\<not> is_space (CHR 0x2D)"
  by (simp_all add: is_space_def)

lemma sign_no_digit: "\<not> is_digit (CHR 0x2B)" "\<not> is_digit (CHR 0x2D)"
  by (simp_all add: is_digit_def)

text \<open>The numerals \<^verbatim>\<open>strtol\<close> reads to the end of the text: blanks, a sign, digits.\<close>

definition c_numeral :: "string \<Rightarrow> int \<Rightarrow> bool" where
  "c_numeral s v \<longleftrightarrow>
     (\<exists>ws sg ds. s = ws @ sg @ ds \<and> (\<forall>c\<in>set ws. is_space c) \<and> ds \<noteq> [] \<and> (\<forall>c\<in>set ds. is_digit c)
        \<and> ((sg = [] \<or> sg = [CHR 0x2B]) \<and> v = digits_value ds \<or> sg = [CHR 0x2D] \<and> v = - digits_value ds))"

lemma dropWhile_blanks:
  assumes "\<forall>c\<in>set ws. is_space c" and "rest = [] \<or> \<not> is_space (hd rest)"
  shows "dropWhile is_space (ws @ rest) = rest"
  using assms by (induction ws) (cases rest; auto)+

lemma strtol_numeral:
  assumes "c_numeral s v"
  shows "strtol s = (if v > LONG_MAX then (LONG_MAX, True, [])
     else if v < - LONG_MAX - 1 then (- LONG_MAX - 1, True, []) else (v, False, []))"
proof -
  obtain ws sg ds where s: "s = ws @ sg @ ds" "\<forall>c\<in>set ws. is_space c" "ds \<noteq> []"
    "\<forall>c\<in>set ds. is_digit c" and
    v: "(sg = [] \<or> sg = [CHR 0x2B]) \<and> v = digits_value ds \<or> sg = [CHR 0x2D] \<and> v = - digits_value ds"
    using assms unfolding c_numeral_def by blast
  have d0: "is_digit (hd ds)" using s(3,4) by (simp add: hd_in_set)
  have ns: "hd ds \<noteq> CHR 0x2B" "hd ds \<noteq> CHR 0x2D" using d0 sign_no_digit by auto
  have dw: "dropWhile is_space s = sg @ ds"
    unfolding s(1) using s(2,3) v d0 digit_no_space sign_no_space
    by (intro dropWhile_blanks) auto
  have tw: "takeWhile is_digit ds = ds" "dropWhile is_digit ds = []"
    using s(4) by (simp_all add: takeWhile_eq_all_conv dropWhile_eq_Nil_conv)
  show ?thesis
    using v by (elim disjE conjE) (simp_all add: strtol_def Let_def dw ns tw s(3))
qed

lemma strtol_split:
  obtains sg u where "s = takeWhile is_space s @ sg @ u"
    and "sg = [] \<or> sg = [CHR 0x2B] \<or> sg = [CHR 0x2D]"
    and "snd (snd (strtol s)) = (if takeWhile is_digit u = [] then s else dropWhile is_digit u)"
proof (cases "dropWhile is_space s \<noteq> []
    \<and> (hd (dropWhile is_space s) = CHR 0x2D \<or> hd (dropWhile is_space s) = CHR 0x2B)")
  case True
  then have "s = takeWhile is_space s @ [hd (dropWhile is_space s)] @ tl (dropWhile is_space s)"
    by simp
  with True show ?thesis by (elim that) (auto simp: strtol_def Let_def)
next
  case False
  have "s = takeWhile is_space s @ [] @ dropWhile is_space s" by simp
  with False show ?thesis by (elim that) (auto simp: strtol_def Let_def)
qed

lemma strtol_consumed:
  assumes "strtol s = (v, e, [])" and "s \<noteq> []"
  shows "\<exists>w. c_numeral s w"
proof -
  obtain sg u where s: "s = takeWhile is_space s @ sg @ u"
    and sg: "sg = [] \<or> sg = [CHR 0x2B] \<or> sg = [CHR 0x2D]"
    and r: "snd (snd (strtol s)) = (if takeWhile is_digit u = [] then s else dropWhile is_digit u)"
    by (rule strtol_split)
  have ne: "takeWhile is_digit u \<noteq> []" and dr: "dropWhile is_digit u = []"
    using r assms by (auto simp del: dropWhile_eq_Nil_conv split: if_splits)
  have u: "u \<noteq> []" "\<forall>c\<in>set u. is_digit c"
    using ne dr by (auto simp: dropWhile_eq_Nil_conv simp del: takeWhile_eq_Nil_iff)
  have ws: "\<forall>c\<in>set (takeWhile is_space s). is_space c" by (auto dest: set_takeWhileD)
  from sg s ws u show ?thesis unfolding c_numeral_def by blast
qed

lemma strtol_empty: "strtol [] = (0, False, [])"
  by (simp add: strtol_def)

end
