(* ===== verification/Backend.thy ===== *)
theory Backend
  imports Dialect Runner_Util System
begin

text \<open>
  \<^verbatim>\<open>acta_runner/src/backend.c\<close>: one HTTP exchange, and the two-request preflight.

  libcurl and the servers are outside the repository. \<open>env\<close> holds what the runner gets from outside:
  the outcome of the n-th transfer (\<open>perform\<close>), what other processes do to the database meanwhile
  (\<open>others\<close>), the answers of the cancel flag that another thread sets (\<open>cancel_flag\<close>, by poll
  number), the JSON parser and printer, and the C conversions between double and
  \<^verbatim>\<open>long\<close>. \<open>runner\<close> is the state of the process: the database handle, the requests sent so
  far (oldest first), the number of polls made, the lines written to the two streams and the
  execution the death marker guards. Diagnostics printed only with
  \<^verbatim>\<open>--verbose\<close> are left out.
\<close>

record http_request =
  rq_method :: string
  rq_url :: string
  rq_body :: "string option"
  rq_key :: "string option"
  rq_timeout :: int

text \<open>
  What a transfer comes to: no curl handle, no memory for the headers, the codes of
  \<^verbatim>\<open>curl_easy_perform\<close> the runner tells apart, or a complete exchange with its status and
  the chunks handed to the write callback.
\<close>

datatype curl_reply = NO_HANDLE | NO_HEADERS | CURLE_ABORTED_BY_CALLBACK | CURLE_OPERATION_TIMEDOUT
  | CURLE_OTHER | CURLE_OK int "string list" | NO_BODY int

record env =
  perform :: "nat \<Rightarrow> http_request \<Rightarrow> curl_reply \<times> int"
  others :: "nat \<Rightarrow> store \<Rightarrow> store"
  cancel_flag :: "nat \<Rightarrow> bool"
  cJSON_Parse :: "string \<Rightarrow> cJSON option"
  cJSON_PrintUnformatted :: "cJSON \<Rightarrow> string option"
  cJSON_GetErrorPtr :: "string \<Rightarrow> string option"
  long_of :: "rat \<Rightarrow> int"
  double_of :: "int \<Rightarrow> rat"

record runner =
  rn_db :: db_t
  rn_requests :: "http_request list"
  rn_polls :: nat
  rn_stdout :: "string list"
  rn_stderr :: "string list"
  rn_mark :: "int option"

definition with_db :: "(db_t \<Rightarrow> 'a \<times> db_t) \<Rightarrow> runner \<Rightarrow> 'a \<times> runner" where
  "with_db f s = (case f (rn_db s) of (x, d) \<Rightarrow> (x, s\<lparr>rn_db := d\<rparr>))"

definition put_err :: "string \<Rightarrow> runner \<Rightarrow> runner" where
  "put_err line s = s\<lparr>rn_stderr := rn_stderr s @ [line]\<rparr>"

definition put_out :: "string \<Rightarrow> runner \<Rightarrow> runner" where
  "put_out line s = s\<lparr>rn_stdout := rn_stdout s @ [line]\<rparr>"

definition backend_cancel_requested :: "env \<Rightarrow> runner \<Rightarrow> bool \<times> runner" where
  "backend_cancel_requested E s = (cancel_flag E (rn_polls s), s\<lparr>rn_polls := rn_polls s + 1\<rparr>)"

section \<open>The response buffer\<close>

record buf_t =
  buf_data :: "string option"
  buf_len :: nat
  buf_cap :: nat

function grow_cap :: "nat \<Rightarrow> nat \<Rightarrow> nat" where
  "grow_cap need ncap = (if need \<le> ncap \<or> ncap = 0 then ncap else grow_cap need (2 * ncap))"
  by pat_completeness auto
termination by (relation "measure (\<lambda>(need, ncap). need - ncap)") auto

declare grow_cap.simps [simp del]

text \<open>\<open>mem\<close>: \<^verbatim>\<open>realloc\<close> finds memory. The boolean is success.\<close>

definition buf_reserve :: "bool \<Rightarrow> nat \<Rightarrow> buf_t \<Rightarrow> bool \<times> buf_t" where
  "buf_reserve mem extra b =
     (let need = buf_len b + extra + 1 in
      if buf_cap b \<ge> need then (True, b)
      else let ncap = grow_cap need (if buf_cap b \<noteq> 0 then buf_cap b else 256) in
        if \<not> mem then (False, b)
        else (True, b\<lparr>buf_data := Some (case buf_data b of None \<Rightarrow> [] | Some t \<Rightarrow> t), buf_cap := ncap\<rparr>))"

definition buf_add :: "bool \<Rightarrow> string \<Rightarrow> buf_t \<Rightarrow> bool \<times> buf_t" where
  "buf_add mem s b =
     (case buf_reserve mem (length s) b of
        (ok, b1) \<Rightarrow>
          if \<not> ok then (False, b1)
          else (True, b1\<lparr>buf_data := map_option (\<lambda>t. take (buf_len b1) t @ s) (buf_data b1),
                         buf_len := buf_len b1 + length s\<rparr>))"

text \<open>
  The write callback's return value: short of the chunk's length it makes curl fail the transfer.
\<close>

definition on_body :: "bool \<Rightarrow> string \<Rightarrow> buf_t \<Rightarrow> nat \<times> buf_t" where
  "on_body mem chunk b =
     (case buf_add mem chunk b of (ok, b1) \<Rightarrow> (if ok then length chunk else 0, b1))"

definition empty_buf :: buf_t where
  "empty_buf = \<lparr>buf_data = None, buf_len = 0, buf_cap = 0\<rparr>"

text \<open>A transfer that ends with CURLE_OK has delivered every chunk.\<close>

definition received :: "string list \<Rightarrow> buf_t" where
  "received chunks = foldl (\<lambda>b c. snd (on_body True c b)) empty_buf chunks"

section \<open>One request\<close>

abbreviation (input) BACKEND_OK :: int where "BACKEND_OK \<equiv> 0"
abbreviation (input) BACKEND_ERR_TRANSPORT :: int where "BACKEND_ERR_TRANSPORT \<equiv> - 1"
abbreviation (input) BACKEND_ERR_TIMEOUT :: int where "BACKEND_ERR_TIMEOUT \<equiv> - 2"
abbreviation (input) BACKEND_ERR_ALLOC :: int where "BACKEND_ERR_ALLOC \<equiv> - 3"
abbreviation (input) BACKEND_ERR_CANCELED :: int where "BACKEND_ERR_CANCELED \<equiv> - 4"

record backend_response_t =
  http_status :: int
  resp_body :: "string option"
  latency_ms :: int

text \<open>The body is read as a C string: up to its first NUL.\<close>

definition c_string :: "string \<Rightarrow> string" where
  "c_string t = takeWhile (\<lambda>c. c \<noteq> CHR 0x00) t"

definition no_response :: backend_response_t where
  "no_response = \<lparr>http_status = 0, resp_body = None, latency_ms = 0\<rparr>"

definition backend_request ::
  "env \<Rightarrow> string \<Rightarrow> string \<Rightarrow> string option \<Rightarrow> string option \<Rightarrow> int \<Rightarrow> runner
     \<Rightarrow> (int \<times> backend_response_t) \<times> runner" where
  "backend_request E meth url json_body api_key timeout_sec s =
     (if timeout_sec \<le> 0 then ((BACKEND_ERR_ALLOC, no_response), s)
      else if meth \<noteq> ''GET'' \<and> meth \<noteq> ''POST'' then ((BACKEND_ERR_ALLOC, no_response), s)
      else
        let n = length (rn_requests s);
            rq = \<lparr>rq_method = meth, rq_url = url,
                  rq_body = (if meth = ''POST'' then Some (case json_body of None \<Rightarrow> [] | Some b \<Rightarrow> b)
                             else None),
                  rq_key = (if api_key = Some [] then None else api_key),
                  rq_timeout = timeout_sec\<rparr>;
            sent = s\<lparr>rn_requests := rn_requests s @ [rq],
                     rn_db := (rn_db s)\<lparr>store := others E n (store (rn_db s))\<rparr>\<rparr>
        in case perform E n rq of (reply, ms) \<Rightarrow>
          (case reply of
             NO_HANDLE \<Rightarrow> ((BACKEND_ERR_TRANSPORT, no_response), s)
           | NO_HEADERS \<Rightarrow> ((BACKEND_ERR_ALLOC, no_response), s)
           | CURLE_ABORTED_BY_CALLBACK \<Rightarrow> ((BACKEND_ERR_CANCELED, no_response\<lparr>latency_ms := ms\<rparr>), sent)
           | CURLE_OPERATION_TIMEDOUT \<Rightarrow> ((BACKEND_ERR_TIMEOUT, no_response\<lparr>latency_ms := ms\<rparr>), sent)
           | CURLE_OTHER \<Rightarrow> ((BACKEND_ERR_TRANSPORT, no_response\<lparr>latency_ms := ms\<rparr>), sent)
           | NO_BODY code \<Rightarrow>
               ((BACKEND_ERR_ALLOC, \<lparr>http_status = c_int code, resp_body = None, latency_ms = ms\<rparr>), sent)
           | CURLE_OK code chunks \<Rightarrow>
               ((BACKEND_OK, \<lparr>http_status = c_int code,
                   resp_body = Some (c_string (case buf_data (received chunks) of None \<Rightarrow> [] | Some t \<Rightarrow> t)),
                   latency_ms = ms\<rparr>), sent)))"

definition backend_strerror :: "int \<Rightarrow> string" where
  "backend_strerror rc =
     (if rc = BACKEND_OK then ''ok''
      else if rc = BACKEND_ERR_TRANSPORT then ''transport failure''
      else if rc = BACKEND_ERR_TIMEOUT then ''timeout''
      else if rc = BACKEND_ERR_ALLOC then ''allocation failure''
      else if rc = BACKEND_ERR_CANCELED then ''cancelled''
      else ''unknown backend error'')"

text \<open>A NULL base is the empty string here: the C function treats the two alike.\<close>

definition build_url :: "nat \<Rightarrow> string \<Rightarrow> string \<Rightarrow> string" where
  "build_url outsz base tail =
     snprintf outsz (rev (dropWhile (\<lambda>c. c = CHR 0x2F) (rev base)) @ tail)"

section \<open>The preflight\<close>

datatype preflight_result_t = PREFLIGHT_OK | PREFLIGHT_CANCELED | PREFLIGHT_HEALTH_TIMEOUT
  | PREFLIGHT_HEALTH_TRANSPORT | PREFLIGHT_HEALTH_NOT_200 | PREFLIGHT_MODELS_TIMEOUT
  | PREFLIGHT_MODELS_TRANSPORT | PREFLIGHT_MODELS_NOT_200 | PREFLIGHT_MODELS_UNPARSEABLE
  | PREFLIGHT_MODEL_NOT_SERVED

record backend_preflight_t =
  pf_brc :: int
  pf_http_status :: int
  pf_max_context :: int
  pf_max_context_source :: string
  pf_available_ids :: string

definition no_preflight :: backend_preflight_t where
  "no_preflight = \<lparr>pf_brc = 0, pf_http_status = 0, pf_max_context = 0,
     pf_max_context_source = [], pf_available_ids = []\<rparr>"

text \<open>The entry of a catalog whose id is the given one: the first match.\<close>

definition find_entry :: "cJSON option \<Rightarrow> string \<Rightarrow> cJSON option" where
  "find_entry doc model_id =
     find (\<lambda>it. string_of (cJSON_GetObjectItem it ''id'') = Some model_id)
       (elements_of (get_item doc ''data''))"

definition add_available :: "string \<Rightarrow> cJSON \<Rightarrow> string" where
  "add_available avail it =
     (case string_of (cJSON_GetObjectItem it ''id'') of
        None \<Rightarrow> avail
      | Some sid \<Rightarrow>
          let left = 512 - length avail - 1 in
          if left > 0
          then avail @ snprintf left ((if avail \<noteq> [] then '', '' else []) @ sid)
          else avail)"

definition available_ids :: "cJSON option \<Rightarrow> string" where
  "available_ids doc = foldl add_available [] (elements_of (get_item doc ''data''))"

definition backend_preflight ::
  "env \<Rightarrow> string \<Rightarrow> string \<Rightarrow> dialect_t option \<Rightarrow> string option \<Rightarrow> int \<Rightarrow> runner
     \<Rightarrow> (preflight_result_t \<times> backend_preflight_t) \<times> runner" where
  "backend_preflight E base_url model_id dialect api_key timeout_sec s =
     (let out = no_preflight;
          dl = (case dialect of None \<Rightarrow> DIALECT_TABLE (long_of E) ! 0 | Some d \<Rightarrow> d)
      in case backend_request E ''GET'' (build_url 1024 base_url ''/health'') None api_key timeout_sec s of
        ((brc, r), s1) \<Rightarrow>
          if brc \<noteq> BACKEND_OK
          then (((if brc = BACKEND_ERR_CANCELED then PREFLIGHT_CANCELED
                  else if brc = BACKEND_ERR_TIMEOUT then PREFLIGHT_HEALTH_TIMEOUT
                  else PREFLIGHT_HEALTH_TRANSPORT), out\<lparr>pf_brc := brc\<rparr>), s1)
          else if http_status r \<noteq> 200
          then ((PREFLIGHT_HEALTH_NOT_200, out\<lparr>pf_http_status := http_status r\<rparr>), s1)
          else
            let jh = Option.bind (resp_body r) (cJSON_Parse E) in
            case backend_request E ''GET'' (build_url 1024 base_url ''/v1/models'') None api_key
                   timeout_sec s1 of
              ((brc2, r2), s2) \<Rightarrow>
                if brc2 \<noteq> BACKEND_OK
                then (((if brc2 = BACKEND_ERR_CANCELED then PREFLIGHT_CANCELED
                        else if brc2 = BACKEND_ERR_TIMEOUT then PREFLIGHT_MODELS_TIMEOUT
                        else PREFLIGHT_MODELS_TRANSPORT),
                       out\<lparr>pf_brc := brc2, pf_http_status := http_status r\<rparr>), s2)
                else if http_status r2 \<noteq> 200
                then ((PREFLIGHT_MODELS_NOT_200, out\<lparr>pf_http_status := http_status r2\<rparr>), s2)
                else (case Option.bind (resp_body r2) (cJSON_Parse E) of
                  None \<Rightarrow> ((PREFLIGHT_MODELS_UNPARSEABLE, out\<lparr>pf_http_status := http_status r2\<rparr>), s2)
                | Some jm \<Rightarrow>
                    (case find_entry (Some jm) model_id of
                       None \<Rightarrow>
                         ((PREFLIGHT_MODEL_NOT_SERVED,
                           out\<lparr>pf_http_status := http_status r2,
                               pf_available_ids := snprintf 512 (available_ids (Some jm))\<rparr>), s2)
                     | Some match \<Rightarrow>
                         (case max_context_of dl (Some match) jh of
                            (window, source) \<Rightarrow>
                              ((PREFLIGHT_OK,
                                out\<lparr>pf_http_status := http_status r2, pf_max_context := window,
                                    pf_max_context_source := snprintf 24 source\<rparr>), s2)))))"

definition preflight_verdict ::
  "preflight_result_t \<Rightarrow> backend_preflight_t \<Rightarrow> string option \<times> int" where
  "preflight_verdict prc pf =
     (case prc of
        PREFLIGHT_OK \<Rightarrow> (None, EXIT_OK)
      | PREFLIGHT_CANCELED \<Rightarrow> (Some ''server unreachable'', EXIT_HTTP)
      | PREFLIGHT_HEALTH_TRANSPORT \<Rightarrow> (Some ''server unreachable'', EXIT_HTTP)
      | PREFLIGHT_HEALTH_TIMEOUT \<Rightarrow> (Some ''server unreachable'', EXIT_TIMEOUT)
      | PREFLIGHT_HEALTH_NOT_200 \<Rightarrow>
          (Some (if pf_http_status pf = 503 then ''model still loading'' else ''server unreachable''), EXIT_HTTP)
      | PREFLIGHT_MODELS_TIMEOUT \<Rightarrow> (Some ''catalog unreachable'', EXIT_TIMEOUT)
      | PREFLIGHT_MODELS_TRANSPORT \<Rightarrow> (Some ''catalog unreachable'', EXIT_HTTP)
      | PREFLIGHT_MODELS_NOT_200 \<Rightarrow> (Some ''catalog unreachable'', EXIT_HTTP)
      | PREFLIGHT_MODELS_UNPARSEABLE \<Rightarrow> (Some ''catalog unreachable'', EXIT_HTTP)
      | PREFLIGHT_MODEL_NOT_SERVED \<Rightarrow> (Some ''model not served'', EXIT_HTTP))"

end
