(* ===== verification/Schema_Check.thy ===== *)
theory Schema_Check
  imports Runner_Util
begin

text \<open>
  The post-hoc output validation of \<^verbatim>\<open>acta_runner/src/run.c\<close>: \<open>type_ok\<close> and
  \<open>schema_check\<close>, with the rules of the schema subset they implement (\<open>conforms\<close>) stated apart from
  the code's order of tests, depth limit and messages.
\<close>

definition type_ok :: "string \<Rightarrow> cJSON \<Rightarrow> bool" where
  "type_ok type v =
     (if type = ''object'' then (case v of JObject _ \<Rightarrow> True | _ \<Rightarrow> False)
      else if type = ''array'' then (case v of JArray _ \<Rightarrow> True | _ \<Rightarrow> False)
      else if type = ''string'' then (case v of JString _ \<Rightarrow> True | _ \<Rightarrow> False)
      else if type = ''number'' then (case v of JNumber _ \<Rightarrow> True | _ \<Rightarrow> False)
      else if type = ''integer'' then (case v of JNumber d \<Rightarrow> d = of_int \<lfloor>d\<rfloor> | _ \<Rightarrow> False)
      else if type = ''boolean'' then (case v of JBool _ \<Rightarrow> True | _ \<Rightarrow> False)
      else if type = ''null'' then v = JNull
      else True)"

text \<open>The loops of the C function stop at the first violation.\<close>

fun first_some :: "('a \<Rightarrow> 'b option) \<Rightarrow> 'a list \<Rightarrow> 'b option" where
  "first_some f [] = None"
| "first_some f (x # xs) = (case f x of None \<Rightarrow> first_some f xs | Some e \<Rightarrow> Some e)"

lemma first_some_cong [fundef_cong]:
  "xs = ys \<Longrightarrow> (\<And>x. x \<in> set ys \<Longrightarrow> f x = g x) \<Longrightarrow> first_some f xs = first_some g ys"
proof (induction ys arbitrary: xs)
  case (Cons y ys)
  then have "f y = g y" "first_some f ys = first_some g ys" by auto
  with Cons.prems(1) show ?case by (simp split: option.split)
qed simp

lemma first_some_None: "first_some f xs = None \<longleftrightarrow> (\<forall>x\<in>set xs. f x = None)"
  by (induction xs) (auto split: option.splits)

definition schema_msg :: "string \<Rightarrow> string \<Rightarrow> string \<Rightarrow> string" where
  "schema_msg where what name = snprintf 256 (where @ what @ [CHR 0x27] @ name @ [CHR 0x27])"

definition check_type :: "cJSON \<Rightarrow> cJSON \<Rightarrow> string \<Rightarrow> string option" where
  "check_type schema v where =
     (case string_of (cJSON_GetObjectItem schema ''type'') of
        None \<Rightarrow> None
      | Some type \<Rightarrow> if type_ok type v then None else Some (schema_msg where '': expected type '' type))"

definition check_required :: "cJSON \<Rightarrow> cJSON \<Rightarrow> string \<Rightarrow> string option" where
  "check_required schema v where =
     first_some (\<lambda>k. case string_of (Some k) of
          None \<Rightarrow> None
        | Some name \<Rightarrow> if cJSON_GetObjectItem v name \<noteq> None then None
                     else Some (schema_msg where '': missing required property '' name))
       (elements_of (cJSON_GetObjectItem schema ''required''))"

definition members_of :: "cJSON option \<Rightarrow> (string \<times> cJSON) list" where
  "members_of j = (case j of Some (JObject m) \<Rightarrow> m | _ \<Rightarrow> [])"

definition is_container :: "cJSON \<Rightarrow> bool" where
  "is_container j = (case j of JObject _ \<Rightarrow> True | JArray _ \<Rightarrow> True | _ \<Rightarrow> False)"

text \<open>The result is the first violation's message, \<open>None\<close> for a conforming value.\<close>

function schema_check :: "cJSON \<Rightarrow> cJSON \<Rightarrow> nat \<Rightarrow> string \<Rightarrow> string option" where
  "schema_check schema v depth where =
     (if depth > 32 then None
      else case check_type schema v where of
        Some e \<Rightarrow> Some e
      | None \<Rightarrow>
          (case v of
             JObject _ \<Rightarrow>
               (case check_required schema v where of
                  Some e \<Rightarrow> Some e
                | None \<Rightarrow>
                    first_some (\<lambda>(name, p).
                        case cJSON_GetObjectItem v name of
                          None \<Rightarrow> None
                        | Some x \<Rightarrow> schema_check p x (depth + 1) (snprintf 160 (where @ ''.'' @ name)))
                      (members_of (cJSON_GetObjectItem schema ''properties'')))
           | JArray xs \<Rightarrow>
               (case cJSON_GetObjectItem schema ''items'' of
                  Some items \<Rightarrow>
                    if is_container items
                    then first_some (\<lambda>(i, x).
                        schema_check items x (depth + 1)
                          (snprintf 160 (where @ ''['' @ show_nat i @ '']'')))
                      (enumerate 0 xs)
                    else None
                | None \<Rightarrow> None)
           | _ \<Rightarrow> None))"
  by pat_completeness auto
termination by (relation "measure (\<lambda>(schema, v, depth, where). 33 - depth)") auto

declare schema_check.simps [simp del]

section \<open>The rules\<close>

text \<open>
  \<open>conforms n\<close>: the value satisfies the schema in the first \<open>n\<close> levels of nesting.
\<close>

fun conforms :: "nat \<Rightarrow> cJSON \<Rightarrow> cJSON \<Rightarrow> bool" where
  "conforms 0 schema v = True"
| "conforms (Suc n) schema v =
     ((\<forall>type. string_of (cJSON_GetObjectItem schema ''type'') = Some type \<longrightarrow> type_ok type v)
      \<and> (\<forall>obj. v = JObject obj \<longrightarrow>
           (\<forall>name. JString name \<in> set (elements_of (cJSON_GetObjectItem schema ''required''))
              \<longrightarrow> cJSON_GetObjectItem v name \<noteq> None)
           \<and> (\<forall>name p x. (name, p) \<in> set (members_of (cJSON_GetObjectItem schema ''properties''))
              \<longrightarrow> cJSON_GetObjectItem v name = Some x \<longrightarrow> conforms n p x))
      \<and> (\<forall>xs items x. v = JArray xs \<longrightarrow> cJSON_GetObjectItem schema ''items'' = Some items
           \<longrightarrow> is_container items \<longrightarrow> x \<in> set xs \<longrightarrow> conforms n items x))"

lemma check_type_None:
  "check_type schema v w = None \<longleftrightarrow>
     (\<forall>type. string_of (cJSON_GetObjectItem schema ''type'') = Some type \<longrightarrow> type_ok type v)"
  by (auto simp: check_type_def split: option.splits)

lemma check_required_None:
  "check_required schema v w = None \<longleftrightarrow>
     (\<forall>name. JString name \<in> set (elements_of (cJSON_GetObjectItem schema ''required''))
        \<longrightarrow> cJSON_GetObjectItem v name \<noteq> None)"
proof -
  have "(case string_of (Some k) of None \<Rightarrow> None
      | Some name \<Rightarrow> if cJSON_GetObjectItem v name \<noteq> None then None
                   else Some (schema_msg w '': missing required property '' name)) = None
    \<longleftrightarrow> (\<forall>name. k = JString name \<longrightarrow> cJSON_GetObjectItem v name \<noteq> None)" for k
    by (cases k) (auto simp: string_of_def)
  then show ?thesis by (auto simp: check_required_def first_some_None)
qed

lemma in_enumerate: "(i, x) \<in> set (enumerate 0 xs) \<longleftrightarrow> i < length xs \<and> x = xs ! i"
  by (auto simp: in_set_enumerate_eq)

lemma all_enumerate: "(\<forall>e\<in>set (enumerate 0 xs). P e) \<longleftrightarrow> (\<forall>i<length xs. P (i, xs ! i))"
  by (force simp: in_enumerate)

lemma conforms_Suc:
  "conforms (Suc n) schema v \<longleftrightarrow> check_type schema v w = None
     \<and> (\<forall>obj. v = JObject obj \<longrightarrow> check_required schema v w = None
        \<and> (\<forall>name p x. (name, p) \<in> set (members_of (cJSON_GetObjectItem schema ''properties''))
              \<longrightarrow> cJSON_GetObjectItem v name = Some x \<longrightarrow> conforms n p x))
     \<and> (\<forall>xs items x. v = JArray xs \<longrightarrow> cJSON_GetObjectItem schema ''items'' = Some items
           \<longrightarrow> is_container items \<longrightarrow> x \<in> set xs \<longrightarrow> conforms n items x)"
  by (simp add: check_type_None check_required_None)

lemma schema_check_conforms:
  "depth \<le> 33 \<Longrightarrow> schema_check schema v depth w = None \<longleftrightarrow> conforms (33 - depth) schema v"
proof (induction schema v depth w rule: schema_check.induct)
  case (1 schema v depth w)
  show ?case
  proof (cases "depth > 32")
    case True
    with "1.prems" have "depth = 33" by simp
    then show ?thesis by (subst schema_check.simps) simp
  next
    case False
    then obtain n where n: "33 - depth = Suc n" "33 - (depth + 1) = n" by (cases "33 - depth") auto
    show ?thesis
    proof (cases v)
      case (JObject obj)
      have "schema_check p x (depth + 1) (snprintf 160 (w @ ''.'' @ name)) = None \<longleftrightarrow> conforms n p x"
        if "check_type schema v w = None" "check_required schema v w = None"
          "(name, p) \<in> set (members_of (cJSON_GetObjectItem schema ''properties''))"
          "cJSON_GetObjectItem v name = Some x" for name p x
        using "1.IH"(2) [OF False that(1) JObject that(2) that(3) refl that(4)] False n by simp
      then show ?thesis
        unfolding n
        by (subst schema_check.simps)
          (auto simp: False JObject first_some_None conforms_Suc [where w = w]
            simp del: conforms.simps split: option.splits)
    next
      case (JArray xs)
      have "schema_check items x (depth + 1) (snprintf 160 (w @ ''['' @ show_nat i @ '']'')) = None
          \<longleftrightarrow> conforms n items x"
        if "check_type schema v w = None" "cJSON_GetObjectItem schema ''items'' = Some items"
          "is_container items" "i < length xs" "x = xs ! i" for items i x
        using "1.IH"(1) [OF False that(1) JArray that(2) that(3) _ refl, of i x] that(4,5)
          False n by (simp add: in_enumerate)
      then show ?thesis
        unfolding n
        by (subst schema_check.simps)
          (auto simp: False JArray first_some_None conforms_Suc [where w = w]
            all_enumerate in_set_conv_nth simp del: conforms.simps split: option.splits)
    qed (use n in \<open>simp_all add: schema_check.simps False conforms_Suc [where w = w]
          del: conforms.simps split: option.splits\<close>)
  qed
qed

end
