(* ===== verification/Run.thy ===== *)
theory Run
  imports Backend Schema_Check Skill_Revisions Model_Revisions
begin

text \<open>
  The execution pipeline of \<^verbatim>\<open>acta_runner/src/run.c\<close>, from claiming a pending execution to
  closing it. The phases between the claim and the label \<^verbatim>\<open>done\<close> are actions: they change the
  state of the process and either go on with a value or leave with an exit code and a message, as
  \<^verbatim>\<open>FAIL\<close>, \<^verbatim>\<open>CANCEL\<close> and the early \<^verbatim>\<open>fail_execution\<close> returns
  do; \<open>and_then\<close> is the sequence of two phases. What happens to the row afterwards is decided in
  \<open>run_execution_dialect\<close> alone. Copies of strings and cJSON nodes are taken to find memory.
\<close>

type_synonym 'a act = "runner \<Rightarrow> ((int \<times> string) + 'a) \<times> runner"

definition go_on :: "'a \<Rightarrow> 'a act" where
  "go_on x s = (Inr x, s)"

definition leave :: "int \<Rightarrow> string \<Rightarrow> 'a act" where
  "leave exit_code msg s = (Inl (exit_code, msg), s)"

definition and_then :: "'a act \<Rightarrow> ('a \<Rightarrow> 'b act) \<Rightarrow> 'b act" where
  "and_then m k s = (case m s of (Inl e, s1) \<Rightarrow> (Inl e, s1) | (Inr x, s1) \<Rightarrow> k x s1)"

definition FAIL :: "int \<Rightarrow> string \<Rightarrow> 'a act" where
  "FAIL exit_code msg = leave exit_code (snprintf 512 msg)"

definition CANCEL :: "'a act" where
  "CANCEL = leave EXIT_CANCELED (snprintf 512 ''execution cancelled by user'')"

definition poll_cancel :: "env \<Rightarrow> unit act" where
  "poll_cancel E s =
     (case backend_cancel_requested E s of (c, s1) \<Rightarrow> if c then CANCEL s1 else (Inr (), s1))"

text \<open>A string literal's worth of quoting, and \<^verbatim>\<open>%.Ns\<close>.\<close>

definition in_quotes :: "string \<Rightarrow> string" where
  "in_quotes s = [CHR 0x27] @ s @ [CHR 0x27]"

definition or_empty :: "string option \<Rightarrow> string" where
  "or_empty s = (case s of None \<Rightarrow> [] | Some t \<Rightarrow> t)"

section \<open>Logging and closing\<close>

definition log_phase ::
  "int \<Rightarrow> string \<Rightarrow> string \<Rightarrow> string \<Rightarrow> string option \<Rightarrow> runner \<Rightarrow> int \<times> runner" where
  "log_phase exec_id level event message metadata_json s =
     (case acta_db_execution_log_create
             \<lparr>l_id = 0, l_execution_id = exec_id, l_level = Some level, l_event = Some event,
              l_message = Some message, l_metadata = metadata_json, l_created_at = None\<rparr> (rn_db s) of
        (rc, out, d) \<Rightarrow> (rc, s\<lparr>rn_db := d\<rparr>))"

definition log_step :: "int \<Rightarrow> string \<Rightarrow> string \<Rightarrow> string \<Rightarrow> string option \<Rightarrow> unit act" where
  "log_step exec_id level event message metadata_json s =
     (Inr (), snd (log_phase exec_id level event message metadata_json s))"

definition fail_execution :: "int \<Rightarrow> int \<Rightarrow> string \<Rightarrow> runner \<Rightarrow> int \<times> runner" where
  "fail_execution exec_id exit_code msg s =
     (case log_phase exec_id ''error'' ''execution_failed'' msg None s of (rc, s1) \<Rightarrow>
      case with_db (acta_db_execution_fail exec_id (Some msg)) s1 of (rc', s2) \<Rightarrow>
      case emit_runner_error exit_code msg of (ex, line) \<Rightarrow> (ex, put_err line s2))"

definition cancel_execution :: "int \<Rightarrow> runner \<Rightarrow> int \<times> runner" where
  "cancel_execution exec_id s =
     (case log_phase exec_id ''info'' ''execution_cancelled'' ''execution cancelled by user'' None s of
        (rc, s1) \<Rightarrow>
      case with_db (acta_db_execution_cancel exec_id) s1 of (rc', s2) \<Rightarrow> (EXIT_CANCELED, s2))"

section \<open>Claim and references\<close>

text \<open>
  A getter that does not write through \<^verbatim>\<open>err\<close> leaves the ACTA_DB_OK that is there.
\<close>

definition err_of :: "int option \<Rightarrow> int" where
  "err_of err = (case err of None \<Rightarrow> ACTA_DB_OK | Some e \<Rightarrow> e)"

definition fetch ::
  "string \<Rightarrow> int \<Rightarrow> (int \<Rightarrow> db_t \<Rightarrow> 'a option \<times> int option \<times> db_t) \<Rightarrow> 'a act" where
  "fetch what i get s =
     (case get i (rn_db s) of
        (item, err, d) \<Rightarrow>
          (case (err_of err = ACTA_DB_OK, item) of
             (True, Some x) \<Rightarrow> (Inr x, s\<lparr>rn_db := d\<rparr>)
           | _ \<Rightarrow> leave (if err_of err \<noteq> ACTA_DB_OK then EXIT_SQL else EXIT_INVALID)
                    (snprintf 192 (what @ '' fetch failed (id '' @ show_int i @ ''): '' @
                       (case acta_db_last_error d of None \<Rightarrow> ''not found'' | Some m \<Rightarrow> m)))
                    (s\<lparr>rn_db := d\<rparr>)))"

definition has_endpoint :: "model_revision_t \<Rightarrow> bool" where
  "has_endpoint model \<longleftrightarrow> or_empty (mvr_base_url model) \<noteq> [] \<and> or_empty (mvr_model_identifier model) \<noteq> []"

definition resolve_refs ::
  "execution_t \<Rightarrow> (context_t \<times> skill_revision_t \<times> model_revision_t) act" where
  "resolve_refs e =
     and_then (fetch ''context'' (e_context_id e) acta_db_context_get) (\<lambda>ctx.
     and_then (fetch ''skill revision'' (e_skill_revision_id e) acta_db_skill_revision_get) (\<lambda>skill.
     and_then (fetch ''model revision'' (e_model_revision_id e) acta_db_model_revision_get) (\<lambda>model.
       if has_endpoint model then go_on (ctx, skill, model)
       else leave EXIT_INVALID ''model revision missing base_url or model_identifier'')))"

section \<open>Dialect\<close>

definition unsupported :: "int \<Rightarrow> string option \<Rightarrow> string" where
  "unsupported rid backend =
     ''model revision '' @ show_int rid @ '' has unsupported backend '' @ in_quotes (or_empty backend)
       @ '' (expected '' @ dialect_expected_names @ '')''"

definition resolve_dialect ::
  "env \<Rightarrow> int \<Rightarrow> execution_t \<Rightarrow> model_revision_t \<Rightarrow> dialect_id_t \<Rightarrow> (dialect_t \<times> string) act" where
  "resolve_dialect E exec_id e model dialect_override =
     (let row_backend = or_empty (mvr_backend model);
          row_did = dialect_from_string (mvr_backend model);
          use_did = (if dialect_override \<noteq> DIALECT_UNKNOWN then dialect_override else row_did);
          source = (if dialect_override \<noteq> DIALECT_UNKNOWN then ''cli-override'' else ''model_revision'')
      in case dialect_get (long_of E) use_did of
        None \<Rightarrow> FAIL EXIT_INVALID (unsupported (e_model_revision_id e) (mvr_backend model))
      | Some dialect \<Rightarrow>
          if dialect_override \<noteq> DIALECT_UNKNOWN \<and> dialect_override \<noteq> row_did
          then and_then
            (log_step exec_id ''warn'' ''dialect_override'' ''--dialect overrides the model revision backend''
               (cJSON_PrintUnformatted E (JObject [(''dialect'', JString (dl_name dialect)),
                  (''model_backend'', JString row_backend), (''reason'', JString ''cli-override'')])))
            (\<lambda>_ s. (Inr (dialect, source),
               put_err (''[warn] --dialect '' @ dl_name dialect @ '' overrides model revision ''
                 @ show_int (e_model_revision_id e) @ '' backend '' @ in_quotes row_backend) s))
          else go_on (dialect, source))"

section \<open>Prompt, configuration, schema\<close>

definition load_prompt ::
  "env \<Rightarrow> int \<Rightarrow> execution_t \<Rightarrow> context_t \<Rightarrow> skill_revision_t \<Rightarrow> (string \<times> string option) act" where
  "load_prompt E exec_id e ctx skill =
     (let user = or_empty (c_content ctx); system = svr_prompt_template skill in
      if user = [] then leave EXIT_INVALID ''empty context content''
      else
        and_then (log_step exec_id ''info'' ''context_loaded'' ''context loaded''
          (cJSON_PrintUnformatted E (JObject [(''context_id'', JNumber (of_int (e_context_id e))),
             (''content_bytes'', JNumber (double_of E (int (length user))))]))) (\<lambda>_.
        and_then (log_step exec_id ''info'' ''prompt_resolved'' ''prompt resolved (system + user)''
          (cJSON_PrintUnformatted E (JObject
             [(''system_bytes'', JNumber (double_of E (int (length (or_empty system))))),
              (''user_bytes'', JNumber (double_of E (int (length user)))),
              (''system'', JString (or_empty system)), (''user'', JString user)]))) (\<lambda>_.
        go_on (user, system))))"

record run_config =
  temperature :: rat
  max_tokens :: int
  top_k :: int
  supports_rf :: bool

definition default_config :: run_config where
  "default_config = \<lparr>temperature = - 1, max_tokens = 0, top_k = 0, supports_rf = True\<rparr>"

definition config_keys :: "string list" where
  "config_keys = [''temperature'', ''max_tokens'', ''top_k'', ''supports_response_format'']"

text \<open>The list of unknown keys is built in 256 bytes; a key that does not fit is left out.\<close>

definition add_unknown :: "string \<Rightarrow> string \<Rightarrow> string" where
  "add_unknown unknown key =
     (if key \<notin> set config_keys \<and> length unknown + length key + 2 < 256
      then (if unknown \<noteq> [] then unknown @ '','' @ key else key)
      else unknown)"

definition unknown_keys :: "cJSON \<Rightarrow> string" where
  "unknown_keys cfg = foldl add_unknown [] (map fst (members_of (Some cfg)))"

definition key_error :: "string \<Rightarrow> string \<Rightarrow> string" where
  "key_error key what = ''model configuration key '' @ in_quotes key @ what"

text \<open>\<open>positive_key\<close>: the two positive-number keys; the value is truncated to a long.\<close>

definition positive_key :: "env \<Rightarrow> cJSON \<Rightarrow> string \<Rightarrow> int act" where
  "positive_key E cfg key =
     (case cJSON_GetObjectItem cfg key of
        None \<Rightarrow> go_on 0
      | Some (JNumber d) \<Rightarrow>
          if d \<le> 0 then FAIL EXIT_INVALID (key_error key '' must be a positive number'')
          else go_on (long_of E d)
      | Some other \<Rightarrow> FAIL EXIT_INVALID (key_error key '' must be a positive number''))"

definition read_config :: "env \<Rightarrow> string option \<Rightarrow> run_config act" where
  "read_config E configuration =
     (if or_empty configuration = [] then go_on default_config
      else case cJSON_Parse E (or_empty configuration) of
        None \<Rightarrow>
          FAIL EXIT_INVALID (''model configuration is not valid JSON'' @
            (case cJSON_GetErrorPtr E (or_empty configuration) of None \<Rightarrow> [] | Some p \<Rightarrow> '': '' @ p))
      | Some cfg \<Rightarrow>
          and_then (case cJSON_GetObjectItem cfg ''temperature'' of
              None \<Rightarrow> go_on (- 1)
            | Some (JNumber d) \<Rightarrow> go_on d
            | Some other \<Rightarrow> FAIL EXIT_INVALID (key_error ''temperature'' '' must be a number'')) (\<lambda>temp.
          and_then (positive_key E cfg ''max_tokens'') (\<lambda>tokens.
          and_then (positive_key E cfg ''top_k'') (\<lambda>k.
          and_then (case cJSON_GetObjectItem cfg ''supports_response_format'' of
              None \<Rightarrow> go_on True
            | Some (JBool b) \<Rightarrow> go_on b
            | Some other \<Rightarrow>
                FAIL EXIT_INVALID (key_error ''supports_response_format'' '' must be a boolean'')) (\<lambda>rf.
          if unknown_keys cfg \<noteq> []
          then FAIL EXIT_INVALID (''unknown model configuration keys: '' @ unknown_keys cfg)
          else go_on \<lparr>temperature = temp, max_tokens = tokens, top_k = k, supports_rf = rf\<rparr>)))))"

definition read_schema :: "env \<Rightarrow> skill_revision_t \<Rightarrow> cJSON option act" where
  "read_schema E skill =
     (if or_empty (svr_output_schema skill) = [] then go_on None
      else case cJSON_Parse E (or_empty (svr_output_schema skill)) of
        None \<Rightarrow> leave EXIT_INVALID ''skill output_schema is not valid JSON''
      | Some sj \<Rightarrow> go_on (Some sj))"

definition size_check :: "string \<Rightarrow> string option \<Rightarrow> int \<Rightarrow> unit act" where
  "size_check user system max_chars =
     (let ctx_chars = int (length user); sys_chars = int (length (or_empty system));
          total_chars = ctx_chars + sys_chars
      in if total_chars > max_chars
         then FAIL EXIT_INVALID (''prompt too large: '' @ show_int total_chars @ '' chars total (context ''
           @ show_int ctx_chars @ '' + skill prompt '' @ show_int sys_chars @ '') exceeds max_chars ''
           @ show_int max_chars)
         else go_on ())"

section \<open>Preflight\<close>

text \<open>\<^verbatim>\<open>printf\<close>'s precision: \<open>%.Ns\<close> prints at most N characters.\<close>

definition at_most :: "nat \<Rightarrow> string \<Rightarrow> string" where
  "at_most n s = take n s"

definition preflight_stage ::
  "env \<Rightarrow> model_revision_t \<Rightarrow> dialect_t \<Rightarrow> string option \<Rightarrow> int \<Rightarrow> (int \<times> string) act" where
  "preflight_stage E model dialect api_key timeout_sec s =
     (let model_id = or_empty (mvr_model_identifier model) in
      case backend_preflight E (or_empty (mvr_base_url model)) model_id (Some dialect) api_key
             timeout_sec s of
        ((prc, pf), s1) \<Rightarrow>
          (case prc of
             PREFLIGHT_CANCELED \<Rightarrow> CANCEL s1
           | PREFLIGHT_OK \<Rightarrow>
               (Inr (pf_max_context pf,
                     snprintf 24 (if pf_max_context_source pf \<noteq> [] then pf_max_context_source pf
                                  else ''none'')), s1)
           | PREFLIGHT_HEALTH_TIMEOUT \<Rightarrow>
               FAIL EXIT_TIMEOUT (''health check timed out after '' @ show_int timeout_sec @ '' s'') s1
           | PREFLIGHT_HEALTH_TRANSPORT \<Rightarrow>
               FAIL EXIT_HTTP (''health check transport failure: '' @ backend_strerror (pf_brc pf)) s1
           | PREFLIGHT_HEALTH_NOT_200 \<Rightarrow>
               if pf_http_status pf = 503
               then FAIL EXIT_HTTP ''backend /health returned 503: model still loading'' s1
               else FAIL EXIT_HTTP (''backend /health returned '' @ show_int (pf_http_status pf)) s1
           | PREFLIGHT_MODELS_TIMEOUT \<Rightarrow>
               FAIL EXIT_TIMEOUT (''models check timed out after '' @ show_int timeout_sec @ '' s'') s1
           | PREFLIGHT_MODELS_TRANSPORT \<Rightarrow>
               FAIL EXIT_HTTP (''models check transport failure: '' @ backend_strerror (pf_brc pf)) s1
           | PREFLIGHT_MODELS_NOT_200 \<Rightarrow>
               FAIL EXIT_HTTP (''backend /v1/models returned '' @ show_int (pf_http_status pf)) s1
           | PREFLIGHT_MODELS_UNPARSEABLE \<Rightarrow>
               FAIL EXIT_HTTP ''unparseable /v1/models response body'' s1
           | PREFLIGHT_MODEL_NOT_SERVED \<Rightarrow>
               FAIL EXIT_HTTP (''execution model '' @ in_quotes (at_most 200 model_id)
                 @ '' not served by server (available: ''
                 @ at_most 200 (if pf_available_ids pf \<noteq> [] then pf_available_ids pf else ''(none)'')
                 @ '')'') s1))"

section \<open>Catalog\<close>

text \<open>The parts of the matched entry kept for the audit.\<close>

definition catalog_audit :: "cJSON \<Rightarrow> cJSON" where
  "catalog_audit entry =
     JObject
       ((case get_item (case cJSON_GetObjectItem entry ''status'' of
                          Some (JObject m) \<Rightarrow> Some (JObject m) | _ \<Rightarrow> None) ''args'' of
           Some (JArray xs) \<Rightarrow> [(''args'', JArray xs)] | _ \<Rightarrow> [])
        @ (case cJSON_GetObjectItem entry ''meta'' of
             Some (JObject m) \<Rightarrow> [(''meta'', JObject m)] | _ \<Rightarrow> []))"

definition fetch_catalog_doc ::
  "env \<Rightarrow> model_revision_t \<Rightarrow> dialect_t \<Rightarrow> string option \<Rightarrow> int \<Rightarrow> cJSON option act" where
  "fetch_catalog_doc E model dialect api_key timeout_sec s =
     (if \<not> fetch_catalog dialect then (Inr None, s)
      else case backend_request E ''GET'' (build_url 1024 (or_empty (mvr_base_url model)) ''/'') None
                  api_key timeout_sec s of
        ((brc, r), s1) \<Rightarrow>
          if brc = BACKEND_ERR_CANCELED then CANCEL s1
          else (Inr (if brc = BACKEND_OK \<and> http_status r = 200
                     then Option.bind (resp_body r) (cJSON_Parse E) else None), s1))"

definition preflight_record ::
  "env \<Rightarrow> model_revision_t \<Rightarrow> dialect_t \<Rightarrow> int \<times> string \<Rightarrow> cJSON option \<Rightarrow> cJSON" where
  "preflight_record E model dialect window cat =
     JObject
       ([(''model_id'', JString (or_empty (mvr_model_identifier model)))]
        @ (if fst window > 0 then [(''max_context'', JNumber (double_of E (fst window)))] else [])
        @ [(''max_context_source'', JString (snd window)), (''dialect'', JString (dl_name dialect)),
           (''catalog'',
             (case find_entry cat (or_empty (mvr_model_identifier model)) of
                None \<Rightarrow> JNull | Some entry \<Rightarrow> catalog_audit entry))])"

definition catalog_stage ::
  "env \<Rightarrow> int \<Rightarrow> model_revision_t \<Rightarrow> dialect_t \<Rightarrow> string option \<Rightarrow> int \<Rightarrow> int \<times> string \<Rightarrow> unit act" where
  "catalog_stage E exec_id model dialect api_key timeout_sec window =
     and_then (fetch_catalog_doc E model dialect api_key timeout_sec) (\<lambda>cat.
       log_step exec_id ''info'' ''preflight_passed''
         ''preflight passed (model id matched; server catalog recorded or unavailable)''
         (cJSON_PrintUnformatted E (preflight_record E model dialect window cat)))"

section \<open>The chat request\<close>

definition chat_message :: "string \<Rightarrow> string \<Rightarrow> cJSON" where
  "chat_message role content = JObject [(''role'', JString role), (''content'', JString content)]"

definition chat_request ::
  "env \<Rightarrow> model_revision_t \<Rightarrow> dialect_t \<Rightarrow> string \<Rightarrow> string option \<Rightarrow> run_config \<Rightarrow> cJSON option
     \<Rightarrow> cJSON" where
  "chat_request E model dialect user system cfg schema_j =
     JObject
       ([(''model'', JString (or_empty (mvr_model_identifier model))),
         (''messages'', JArray
            ((if or_empty system \<noteq> [] then [chat_message ''system'' (or_empty system)] else [])
             @ [chat_message ''user'' user]))]
        @ (if temperature cfg \<ge> 0 then [(''temperature'', JNumber (temperature cfg))] else [])
        @ (if max_tokens cfg > 0 then [(''max_tokens'', JNumber (double_of E (max_tokens cfg)))] else [])
        @ (if top_k cfg > 0 \<and> sends_top_k dialect
           then [(''top_k'', JNumber (double_of E (top_k cfg)))] else [])
        @ (if schema_j \<noteq> None \<and> supports_rf cfg
           then (case build_response_format dialect schema_j of
                   None \<Rightarrow> [] | Some rf \<Rightarrow> [(''response_format'', rf)])
           else []))"

definition chat_stage ::
  "env \<Rightarrow> int \<Rightarrow> model_revision_t \<Rightarrow> dialect_t \<Rightarrow> string \<Rightarrow> string \<Rightarrow> string option \<Rightarrow> run_config
     \<Rightarrow> cJSON option \<Rightarrow> string option \<Rightarrow> int \<Rightarrow> backend_response_t act" where
  "chat_stage E exec_id model dialect source user system cfg schema_j api_key timeout_sec =
     (let reqbody = cJSON_PrintUnformatted E (chat_request E model dialect user system cfg schema_j);
          url = build_url 1024 (or_empty (mvr_base_url model)) ''/v1/chat/completions'';
          model_id = or_empty (mvr_model_identifier model)
      in and_then
        (log_step exec_id ''info'' ''llm_request''
           (snprintf 1100 (''POST '' @ url @ '' model='' @ model_id))
           (cJSON_PrintUnformatted E (JObject
              [(''url'', JString url), (''model'', JString model_id),
               (''response_format'', JBool (schema_j \<noteq> None \<and> supports_rf cfg)),
               (''dialect'', JString (dl_name dialect)), (''dialect_source'', JString source),
               (''model_backend'', JString (or_empty (mvr_backend model)))])))
        (\<lambda>_ s.
          case backend_request E ''POST'' url reqbody api_key timeout_sec s of
            ((brc, resp), s1) \<Rightarrow>
              if brc \<noteq> BACKEND_OK
              then (if brc = BACKEND_ERR_CANCELED then CANCEL s1
                    else if brc = BACKEND_ERR_TIMEOUT
                    then FAIL EXIT_TIMEOUT (''backend call timed out after '' @ show_int timeout_sec @ '' s'') s1
                    else FAIL EXIT_HTTP (''backend transport failure: '' @ backend_strerror brc) s1)
              else if http_status resp < 200 \<or> http_status resp \<ge> 300
              then FAIL EXIT_HTTP (''backend HTTP '' @ show_int (http_status resp) @ '': ''
                     @ at_most 300 (or_empty (resp_body resp))) s1
              else (Inr resp, s1)))"

section \<open>Record and validate\<close>

text \<open>\<^verbatim>\<open>choices[0].message.content\<close>, when it is a non-empty string.\<close>

definition reply_content :: "cJSON \<Rightarrow> string option" where
  "reply_content jr =
     (let c0 = (case elements_of (cJSON_GetObjectItem jr ''choices'') of [] \<Rightarrow> None | c # cs \<Rightarrow> Some c) in
      case string_of (get_item (get_item c0 ''message'') ''content'') of
        Some (c # cs) \<Rightarrow> Some (c # cs)
      | _ \<Rightarrow> None)"

definition token_count :: "env \<Rightarrow> cJSON \<Rightarrow> string \<Rightarrow> int" where
  "token_count E jr key =
     (case get_item (cJSON_GetObjectItem jr ''usage'') key of
        Some (JNumber d) \<Rightarrow> long_of E d | _ \<Rightarrow> 0)"

definition record_stage :: "env \<Rightarrow> int \<Rightarrow> backend_response_t \<Rightarrow> string act" where
  "record_stage E exec_id resp =
     (case Option.bind (resp_body resp) (cJSON_Parse E) of
        None \<Rightarrow> FAIL EXIT_HTTP ''malformed chat/completions response (not JSON)''
      | Some jr \<Rightarrow>
          (case reply_content jr of
             None \<Rightarrow> FAIL EXIT_HTTP ''response has no non-empty choices[0].message.content''
           | Some content \<Rightarrow> (\<lambda>s.
               case with_db (acta_db_execution_set_raw_response exec_id (Some content)) s of (rc, s1) \<Rightarrow>
                 if rc \<noteq> ACTA_DB_OK
                 then FAIL EXIT_SQL (''set_raw_response failed: '' @
                        (case acta_db_last_error (rn_db s1) of None \<Rightarrow> ''unknown'' | Some m \<Rightarrow> m)) s1
                 else and_then
                   (log_step exec_id ''info'' ''llm_response''
                      (snprintf 128 (''HTTP '' @ show_int (http_status resp) @ '' in ''
                         @ show_int (latency_ms resp) @ '' ms''))
                      (cJSON_PrintUnformatted E (JObject
                         [(''http_status'', JNumber (of_int (http_status resp))),
                          (''latency_ms'', JNumber (double_of E (latency_ms resp))),
                          (''prompt_tokens'', JNumber (double_of E (token_count E jr ''prompt_tokens''))),
                          (''completion_tokens'', JNumber (double_of E (token_count E jr ''completion_tokens''))),
                          (''total_tokens'', JNumber (double_of E (token_count E jr ''total_tokens'')))])))
                   (\<lambda>_. go_on content) s1)))"

definition reject_output :: "int \<Rightarrow> string \<Rightarrow> unit act" where
  "reject_output exec_id verr =
     and_then (log_step exec_id ''error'' ''validation_failed'' verr None)
       (\<lambda>_. FAIL EXIT_INVALID (''output_schema validation failed: '' @ verr))"

definition validate_stage :: "env \<Rightarrow> int \<Rightarrow> cJSON option \<Rightarrow> run_config \<Rightarrow> string \<Rightarrow> unit act" where
  "validate_stage E exec_id schema_j cfg content =
     (case schema_j of
        None \<Rightarrow> go_on ()
      | Some schema \<Rightarrow>
          if supports_rf cfg then go_on ()
          else and_then
            (log_step exec_id ''info'' ''validation_started''
               ''validating raw response against skill output_schema'' None) (\<lambda>_.
              case cJSON_Parse E content of
                None \<Rightarrow> reject_output exec_id ''raw response is not valid JSON''
              | Some jv \<Rightarrow>
                  (case schema_check schema jv 0 ''$'' of
                     None \<Rightarrow> go_on ()
                   | Some verr \<Rightarrow> reject_output exec_id verr)))"

section \<open>The pipeline\<close>

text \<open>From the log line of the claim to the label \<^verbatim>\<open>done\<close>; the value is the reply.\<close>

definition pipeline ::
  "env \<Rightarrow> int \<Rightarrow> int \<Rightarrow> int \<Rightarrow> string option \<Rightarrow> dialect_id_t \<Rightarrow> execution_t \<Rightarrow> string act" where
  "pipeline E exec_id timeout_sec max_chars api_key dialect_override e =
     and_then (log_step exec_id ''info'' ''execution_started''
       ''execution claimed (pending -> running)'' None) (\<lambda>_.
     and_then (poll_cancel E) (\<lambda>_.
     and_then (resolve_refs e) (\<lambda>(ctx, skill, model).
     and_then (resolve_dialect E exec_id e model dialect_override) (\<lambda>(dialect, source).
     and_then (load_prompt E exec_id e ctx skill) (\<lambda>(user, system).
     and_then (read_config E (mvr_configuration model)) (\<lambda>cfg.
     and_then (read_schema E skill) (\<lambda>schema_j.
     and_then (poll_cancel E) (\<lambda>_.
     and_then (size_check user system max_chars) (\<lambda>_.
     and_then (preflight_stage E model dialect api_key timeout_sec) (\<lambda>window.
     and_then (catalog_stage E exec_id model dialect api_key timeout_sec window) (\<lambda>_.
     and_then (chat_stage E exec_id model dialect source user system cfg schema_j api_key timeout_sec) (\<lambda>resp.
     and_then (record_stage E exec_id resp) (\<lambda>content.
     and_then (validate_stage E exec_id schema_j cfg content) (\<lambda>_.
     and_then (poll_cancel E) (\<lambda>_. go_on content)))))))))))))))"

text \<open>The label \<^verbatim>\<open>done\<close> and the closing of the row.\<close>

definition close_execution :: "int \<Rightarrow> (int \<times> string) + string \<Rightarrow> runner \<Rightarrow> int \<times> runner" where
  "close_execution exec_id r s =
     (case r of
        Inl (exit_code, errmsg) \<Rightarrow>
          if exit_code = EXIT_CANCELED then cancel_execution exec_id s
          else fail_execution exec_id exit_code errmsg s
      | Inr content \<Rightarrow>
          (case with_db (acta_db_execution_complete exec_id (Some content)) s of (rc, s1) \<Rightarrow>
             if rc \<noteq> ACTA_DB_OK then fail_execution exec_id EXIT_SQL ''complete() transition failed'' s1
             else (EXIT_OK, snd (log_phase exec_id ''info'' ''execution_completed''
                                   ''execution completed'' None s1))))"

definition not_pending :: string where
  "not_pending = ''execution is not pending; only pending executions can be run''"

definition report :: "int \<times> string \<Rightarrow> runner \<Rightarrow> int \<times> runner" where
  "report r s = (fst r, put_err (snd r) s)"

definition run_execution_dialect ::
  "env \<Rightarrow> int \<Rightarrow> int \<Rightarrow> int \<Rightarrow> string option \<Rightarrow> dialect_id_t \<Rightarrow> runner \<Rightarrow> int \<times> runner" where
  "run_execution_dialect E exec_id timeout_sec max_chars api_key dialect_override s =
     (case acta_db_execution_get exec_id (rn_db s) of
        (item, err, d) \<Rightarrow>
          let s1 = s\<lparr>rn_db := d\<rparr> in
          if err_of err \<noteq> ACTA_DB_OK
          then report (finish_op_error (acta_db_last_error d) (err_of err) ''execution_get'') s1
          else case item of
            None \<Rightarrow> report (emit_not_found ''execution'') s1
          | Some e \<Rightarrow>
              if e_deleted_at e \<noteq> None then report (emit_not_found ''execution'') s1
              else if e_status e \<noteq> None \<and> e_status e \<noteq> Some ''pending''
              then (EXIT_INVALID, put_err (emit_error not_pending) s1)
              else (case poll_cancel E s1 of
                (Inl left, s2) \<Rightarrow> close_execution exec_id (Inl left) s2
              | (Inr _, s2) \<Rightarrow>
                  (case with_db (acta_db_execution_start exec_id) s2 of (rc, s3) \<Rightarrow>
                     if rc \<noteq> ACTA_DB_OK
                     then report (emit_runner_error EXIT_INVALID
                            ''could not claim execution: start() failed'') s3
                     else (case pipeline E exec_id timeout_sec max_chars api_key dialect_override e
                                  (s3\<lparr>rn_mark := Some exec_id\<rparr>) of
                       (r, s4) \<Rightarrow> close_execution exec_id r s4))))"

definition run_execution ::
  "env \<Rightarrow> int \<Rightarrow> int \<Rightarrow> int \<Rightarrow> string option \<Rightarrow> runner \<Rightarrow> int \<times> runner" where
  "run_execution E exec_id timeout_sec max_chars api_key s =
     run_execution_dialect E exec_id timeout_sec max_chars api_key DIALECT_UNKNOWN s"

section \<open>The preflight before the claim\<close>

definition run_preflight_before_claim ::
  "env \<Rightarrow> execution_t \<Rightarrow> string option \<Rightarrow> int \<Rightarrow> runner \<Rightarrow> int \<times> runner" where
  "run_preflight_before_claim E e api_key timeout_sec s =
     (case fetch ''model revision'' (e_model_revision_id e) acta_db_model_revision_get s of
        (Inl (exit_code, msg), s1) \<Rightarrow> report (emit_runner_error exit_code msg) s1
      | (Inr model, s1) \<Rightarrow>
          if \<not> has_endpoint model
          then report (emit_runner_error EXIT_INVALID
                 ''model revision missing base_url or model_identifier'') s1
          else case dialect_get (long_of E) (dialect_from_string (mvr_backend model)) of
            None \<Rightarrow> report (emit_runner_error EXIT_INVALID
                      (snprintf 192 (unsupported (e_model_revision_id e) (mvr_backend model)))) s1
          | Some dialect \<Rightarrow>
              let base = or_empty (mvr_base_url model); model_id = or_empty (mvr_model_identifier model) in
              (case backend_preflight E base model_id (Some dialect) api_key timeout_sec s1 of
                 ((prc, pf), s2) \<Rightarrow>
                   if prc = PREFLIGHT_OK then (EXIT_OK, s2)
                   else (case preflight_verdict prc pf of
                      (verdict, code) \<Rightarrow>
                        (code, put_out (emit_check_verdict False model_id base 0 verdict) s2))))"

end
