(* ===== verification/Runner_Args.thy ===== *)
theory Runner_Args
  imports Runner_Util
begin

text \<open>
  \<^verbatim>\<open>acta_runner/src/argparse.c\<close>: the two passes over the command line. Pass 1 takes the
  global options out, pass 2 reads the flags and positionals of the action. A function that prints
  returns its lines beside its result; \<open>argv\<close> is a list of C strings.
\<close>

definition is_flag :: "string \<Rightarrow> bool" where
  "is_flag s \<longleftrightarrow> take 2 s = ''--''"

text \<open>\<^verbatim>\<open>--name\<close> or \<^verbatim>\<open>--name=value\<close>; what follows the name.\<close>

definition flag_tail :: "string \<Rightarrow> string \<Rightarrow> string" where
  "flag_tail token name = drop (2 + length name) token"

definition flag_prefix_match :: "string \<Rightarrow> string \<Rightarrow> bool" where
  "flag_prefix_match token name \<longleftrightarrow>
     take (2 + length name) token = ''--'' @ name
     \<and> (flag_tail token name = [] \<or> hd (flag_tail token name) = CHR 0x3D)"

section \<open>Pass 1\<close>

record global_opts_t =
  g_db :: "string option"
  g_verbose :: int
  g_show_version :: bool
  g_show_help :: bool
  g_argv :: "string list option"

definition zero_opts :: global_opts_t where
  "zero_opts = \<lparr>g_db = None, g_verbose = 0, g_show_version = False, g_show_help = False, g_argv = None\<rparr>"

text \<open>
  The head of the error lines the argument parser writes; the quoted argument follows, printed by
  \<^verbatim>\<open>json_str\<close>.
\<close>

definition cli_err_head :: "string \<Rightarrow> string" where
  "cli_err_head msg = ''{'' @ dquoted ''error'' @ '':'' @ dquoted ''ACTA_CLI_ERR'' @ '','' @ dquoted ''code''
     @ '':-10,'' @ dquoted ''message'' @ '':'' @ [CHR 0x22] @ msg @ '' '' @ [CHR 0x27]"

definition bad_verbose :: "string \<Rightarrow> string" where
  "bad_verbose arg = cli_err_head ''invalid --verbose level:'' @ json_str arg @ [CHR 0x27]
     @ '' (expected an integer 0-3)'' @ [CHR 0x22] @ ''}''"

text \<open>The tests of the loop body, in order.\<close>

datatype global_arg = Version | Help | Db "string option" | Verbose | Verbose_level string | Kept

definition global_arg_of :: "string \<Rightarrow> global_arg" where
  "global_arg_of a =
     (if a = ''--version'' then Version
      else if a = ''--help'' \<or> a = ''-h'' then Help
      else if flag_prefix_match a ''db''
      then Db (if take 1 (flag_tail a ''db'') = ''='' then Some (drop 5 a) else None)
      else if a = ''--verbose'' \<or> a = ''-v'' then Verbose
      else if flag_prefix_match a ''verbose''
      then (if take 1 (flag_tail a ''verbose'') \<noteq> ''='' then Verbose else Verbose_level (drop 10 a))
      else Kept)"

definition verbose_level :: "string \<Rightarrow> int option" where
  "verbose_level s = (if s = [] then None else parse_nonneg_int s)"

text \<open>
  The loop of \<^verbatim>\<open>parse_globals\<close>: \<open>rest\<close> is the array of kept arguments. The result is the
  return code, the options, and the lines printed.
\<close>

fun globals_loop ::
  "string list \<Rightarrow> global_opts_t \<Rightarrow> string list \<Rightarrow> string list \<Rightarrow> int \<times> global_opts_t \<times> string list" where
  "globals_loop [] g rest out =
     (if rest = [] then EXIT_CLI else 0, g\<lparr>g_argv := Some rest\<rparr>, out)"
| "globals_loop (a # args) g rest out =
     (case global_arg_of a of
        Version \<Rightarrow> (0, g\<lparr>g_show_version := True, g_argv := None\<rparr>, out)
      | Help \<Rightarrow> (0, g\<lparr>g_show_help := True, g_argv := None\<rparr>, out)
      | Db (Some v) \<Rightarrow> globals_loop args (g\<lparr>g_db := Some v\<rparr>) rest out
      | Db None \<Rightarrow>
          (case args of
             [] \<Rightarrow> (EXIT_CLI, g, out)
           | v # args' \<Rightarrow> globals_loop args' (g\<lparr>g_db := Some v\<rparr>) rest out)
      | Verbose \<Rightarrow> globals_loop args (g\<lparr>g_verbose := min 3 (g_verbose g + 1)\<rparr>) rest out
      | Verbose_level s \<Rightarrow>
          (case verbose_level s of
             None \<Rightarrow> (EXIT_INVALID, g, out @ [bad_verbose s])
           | Some lvl \<Rightarrow>
               globals_loop args (g\<lparr>g_verbose := min 3 lvl\<rparr>) rest
                 (if lvl > 3 then out @ [''--verbose: level clamped to 3 (got '' @ show_int lvl @ '')'']
                  else out))
      | Kept \<Rightarrow> globals_loop args g (rest @ [a]) out)"

text \<open>\<open>argv\<close> is the command line without the program name; \<open>mem\<close>: the array is allocated.\<close>

definition parse_globals :: "bool \<Rightarrow> string list \<Rightarrow> int \<times> global_opts_t \<times> string list" where
  "parse_globals mem argv =
     (if \<not> mem then (EXIT_CLI, zero_opts, []) else globals_loop argv zero_opts [] [])"

section \<open>Pass 2\<close>

record cmd_args_t =
  ca_argv :: "string list"
  ca_pos :: nat

definition cmd_args_init :: "string list \<Rightarrow> cmd_args_t" where
  "cmd_args_init argv = \<lparr>ca_argv = argv, ca_pos = 0\<rparr>"

definition runner_flag_specs :: "(string \<times> bool) list" where
  "runner_flag_specs =
     [(''pending'', False), (''max'', True), (''timeout'', True), (''stale-seconds'', True),
      (''base-url'', True), (''model-identifier'', True), (''dialect'', True)]"

definition flag_has_value :: "string \<Rightarrow> bool" where
  "flag_has_value name =
     (case find (\<lambda>e. fst e = name) runner_flag_specs of None \<Rightarrow> True | Some e \<Rightarrow> snd e)"

function next_positional :: "string list \<Rightarrow> nat \<Rightarrow> string option \<times> nat" where
  "next_positional argv pos =
     (if pos < length argv then
        let tok = argv ! pos in
        if \<not> is_flag tok then (Some tok, pos + 1)
        else if CHR 0x3D \<in> set (drop 2 tok) then next_positional argv (pos + 1)
        else if flag_has_value (drop 2 tok) \<and> pos + 1 < length argv \<and> \<not> is_flag (argv ! (pos + 1))
        then next_positional argv (pos + 2)
        else next_positional argv (pos + 1)
      else (None, pos))"
  by pat_completeness auto
termination by (relation "measure (\<lambda>(argv, pos). length argv - pos)") auto

declare next_positional.simps [simp del]

definition cmd_args_next_positional :: "cmd_args_t \<Rightarrow> string option \<times> cmd_args_t" where
  "cmd_args_next_positional it =
     (case next_positional (ca_argv it) (ca_pos it) of (r, p) \<Rightarrow> (r, it\<lparr>ca_pos := p\<rparr>))"

definition unknown_option :: "string \<Rightarrow> string" where
  "unknown_option tok = cli_err_head ''unknown option'' @ json_str tok @ [CHR 0x27]
     @ '' (see --help)'' @ [CHR 0x22] @ ''}''"

definition flag_known :: "string \<Rightarrow> bool" where
  "flag_known tok \<longleftrightarrow> takeWhile (\<lambda>c. c \<noteq> CHR 0x3D) (drop 2 tok) \<in> fst ` set runner_flag_specs"

definition cmd_args_validate :: "cmd_args_t \<Rightarrow> int \<times> string list" where
  "cmd_args_validate it =
     (case find (\<lambda>tok. is_flag tok \<and> \<not> flag_known tok) (ca_argv it) of
        None \<Rightarrow> (EXIT_OK, [])
      | Some tok \<Rightarrow> (EXIT_INVALID, [unknown_option tok]))"

fun find_flag :: "string \<Rightarrow> bool \<Rightarrow> string list \<Rightarrow> string option" where
  "find_flag name has_value [] = None"
| "find_flag name has_value (tok # toks) =
     (if \<not> flag_prefix_match tok name then find_flag name has_value toks
      else if take 1 (flag_tail tok name) = ''='' then Some (tl (flag_tail tok name))
      else if has_value \<and> toks \<noteq> [] then Some (hd toks)
      else None)"

definition cmd_args_flag :: "cmd_args_t \<Rightarrow> string \<Rightarrow> bool \<Rightarrow> string option" where
  "cmd_args_flag it name has_value = find_flag name has_value (ca_argv it)"

definition cmd_args_has_flag :: "cmd_args_t \<Rightarrow> string \<Rightarrow> bool" where
  "cmd_args_has_flag it name = list_ex (\<lambda>tok. flag_prefix_match tok name) (ca_argv it)"

end
