(* ===== verification/Sweep.thy ===== *)
theory Sweep
  imports Run Runner_Args
begin

text \<open>
  \<^verbatim>\<open>acta_runner/src/sweep.c\<close> and \<^verbatim>\<open>acta_runner/src/deathmark.c\<close>: the two ways
  an execution whose runner is gone leaves \<open>running\<close>. Time stamps are the texts SQLite writes;
  \<^verbatim>\<open>strcmp\<close> orders them as bytes.
\<close>

section \<open>Time stamps\<close>

text \<open>
  \<^verbatim>\<open>gmtime_r\<close> for a number of seconds since 1970 (proleptic Gregorian calendar), and the
  format \<^verbatim>\<open>%Y-%m-%d %H:%M:%S\<close>.
\<close>

definition civil :: "int \<Rightarrow> int \<times> int \<times> int" where
  "civil days =
     (let z = days + 719468; era = z div 146097; doe = z mod 146097;
          yoe = (doe - doe div 1460 + doe div 36524 - doe div 146096) div 365;
          doy = doe - (365 * yoe + yoe div 4 - yoe div 100);
          mp = (5 * doy + 2) div 153;
          d = doy - (153 * mp + 2) div 5 + 1;
          m = (if mp < 10 then mp + 3 else mp - 9)
      in (yoe + era * 400 + (if m \<le> 2 then 1 else 0), m, d))"

definition two :: "int \<Rightarrow> string" where
  "two n = (if n < 10 then ''0'' @ show_int n else show_int n)"

definition utc_stamp :: "int \<Rightarrow> string" where
  "utc_stamp t =
     (case civil (t div 86400) of (y, m, d) \<Rightarrow>
        let sec = t mod 86400 in
        show_int y @ ''-'' @ two m @ ''-'' @ two d @ '' '' @ two (sec div 3600) @ '':''
          @ two (sec mod 3600 div 60) @ '':'' @ two (sec mod 60))"

section \<open>Sweep\<close>

definition nonempty :: "string option \<Rightarrow> string option" where
  "nonempty s = (case s of Some (c # cs) \<Rightarrow> Some (c # cs) | _ \<Rightarrow> None)"

definition latest_log :: "int \<Rightarrow> db_t \<Rightarrow> string option \<times> db_t" where
  "latest_log xid d =
     (case acta_db_execution_log_count xid None d of
        (n_logs, err, d1) \<Rightarrow>
          if err_of err = ACTA_DB_OK \<and> n_logs > 0
          then let limit = (if n_logs < ACTA_DB_MAX_PAGE then n_logs else ACTA_DB_MAX_PAGE) in
            (case acta_db_execution_log_list_by_execution xid None (n_logs - limit) limit d1 of
               (items, n, err', d2) \<Rightarrow>
                 (if err_of err' = ACTA_DB_OK \<and> items \<noteq> []
                  then map_option (snprintf 32) (nonempty (l_created_at (last items)))
                  else None, d2))
          else (None, d1))"

definition last_activity :: "execution_t \<Rightarrow> db_t \<Rightarrow> string option \<times> db_t" where
  "last_activity e d =
     (case latest_log (e_id e) d of
        (last_log, d1) \<Rightarrow>
          let started = nonempty (e_started_at e);
              best = (case (last_log, started) of
                  (Some l, Some st) \<Rightarrow> Some (if l \<ge> st then l else st)
                | (Some l, None) \<Rightarrow> Some l
                | (None, st) \<Rightarrow> st)
          in (map_option (snprintf 32)
                (case best of None \<Rightarrow> nonempty (e_created_at e) | Some b \<Rightarrow> Some b), d1))"

definition stale_msg :: "int \<Rightarrow> string" where
  "stale_msg stale_seconds =
     snprintf 192 (''stale running: no runner activity for '' @ show_int stale_seconds @ '' s'')"

text \<open>One row of the sweep.\<close>

definition log_row :: "int \<Rightarrow> string \<Rightarrow> string \<Rightarrow> string \<Rightarrow> db_t \<Rightarrow> db_t" where
  "log_row exec_id level event message d =
     snd (snd (acta_db_execution_log_create
       \<lparr>l_id = 0, l_execution_id = exec_id, l_level = Some level, l_event = Some event,
        l_message = Some message, l_metadata = None, l_created_at = None\<rparr> d))"

definition sweep_one :: "string \<Rightarrow> string \<Rightarrow> execution_t \<Rightarrow> db_t \<Rightarrow> db_t" where
  "sweep_one threshold msg e d =
     (case last_activity e d of
        (recent, d1) \<Rightarrow>
          if (case recent of None \<Rightarrow> False | Some t \<Rightarrow> t \<ge> threshold) then d1
          else (case acta_db_execution_fail (e_id e) (Some msg) d1 of
            (rc, d2) \<Rightarrow>
              if rc \<noteq> ACTA_DB_OK then d2
              else log_row (e_id e) ''error'' ''execution_failed'' msg d2))"

definition running_query :: execution_query_t where
  "running_query = ACTA_EXEC_QUERY_ANY\<lparr>q_status := Some ''running''\<rparr>"

text \<open>\<open>now\<close> is \<^verbatim>\<open>time(NULL)\<close>.\<close>

definition cmd_sweep :: "int \<Rightarrow> cmd_args_t \<Rightarrow> runner \<Rightarrow> int \<times> runner" where
  "cmd_sweep now ga s =
     (let v = cmd_args_flag ga ''stale-seconds'' True in
      case Option.bind v parse_positive_id of
        None \<Rightarrow>
          (EXIT_INVALID, put_err (emit_error (snprintf 160
             (''--stale-seconds requires a positive integer (got ''
               @ in_quotes (case v of None \<Rightarrow> ''(absent)'' | Some t \<Rightarrow> t) @ '')''))) s)
      | Some stale_seconds \<Rightarrow>
          (case acta_db_execution_query (Some running_query) 0 ACTA_DB_MAX_PAGE (rn_db s) of
             (items, n, err, d) \<Rightarrow>
               if items = [] \<and> err_of err \<noteq> ACTA_DB_OK
               then report (finish_op_error (acta_db_last_error d) (err_of err) ''execution_query'')
                      (s\<lparr>rn_db := d\<rparr>)
               else
                 (EXIT_OK, s\<lparr>rn_db :=
                    fold (sweep_one (utc_stamp (now - stale_seconds)) (stale_msg stale_seconds)) items d\<rparr>)))"

section \<open>Death marker\<close>

definition deathmark_claim :: "int \<Rightarrow> runner \<Rightarrow> runner" where
  "deathmark_claim exec_id s = s\<lparr>rn_mark := Some exec_id\<rparr>"

definition deathmark_release :: "runner \<Rightarrow> runner" where
  "deathmark_release s = s\<lparr>rn_mark := None\<rparr>"

definition deathmark_diag :: string where
  "deathmark_diag = ''runner process exited during execution''"

definition deathmark_mark :: "int \<Rightarrow> db_t \<Rightarrow> bool \<times> db_t" where
  "deathmark_mark exec_id d =
     (if exec_id \<le> 0 then (False, d)
      else case acta_db_execution_get exec_id d of
        (item, err, d1) \<Rightarrow>
          (case item of
             None \<Rightarrow> (False, d1)
           | Some e \<Rightarrow>
               if err_of err \<noteq> ACTA_DB_OK \<or> e_status e \<noteq> Some ''running'' then (False, d1)
               else (True, snd (acta_db_execution_fail exec_id (Some deathmark_diag)
                       (log_row exec_id ''error'' ''execution_failed'' deathmark_diag d1)))))"

text \<open>What the exit hook does, also when a signal ends the process.\<close>

definition deathmark_exit_path :: "runner \<Rightarrow> runner" where
  "deathmark_exit_path s =
     (case rn_mark s of None \<Rightarrow> s | Some i \<Rightarrow> s\<lparr>rn_db := snd (deathmark_mark i (rn_db s))\<rparr>)"

end
