(* ===== verification/Dbpath.thy ===== *)
theory Dbpath
  imports Conf
begin

text \<open>
  \<^verbatim>\<open>acta_runner/src/acta_dbpath.c\<close> (the command line tool has the same file): which
  database a command works on. \<open>host\<close> is what the process finds around it: the environment, the
  configuration file as \<open>Conf\<close> takes it, whether \<^verbatim>\<open>./acta.db\<close> exists, and the clock. The
  POSIX branches are modelled.
\<close>

record host =
  getenv :: "string \<Rightarrow> string option"
  conf_parse :: "string \<Rightarrow> cJSON option"
  conf_error_ptr :: "string \<Rightarrow> string option"
  conf_long_of :: "rat \<Rightarrow> int"
  conf_mem :: "string \<Rightarrow> bool"
  conf_stat :: "string \<Rightarrow> (bool \<times> bool) option"
  conf_slurp :: "string \<Rightarrow> string option"
  conf_vararg :: string
  legacy_db :: bool
  time_now :: int

definition read_conf :: "host \<Rightarrow> int \<times> acta_conf_t \<times> bool \<times> string option" where
  "read_conf H = acta_conf_read (conf_parse H) (conf_error_ptr H) (conf_long_of H) (conf_mem H)
     (conf_stat H) (conf_slurp H) (conf_vararg H) (Some (acta_conf_default_path (getenv H)))"

abbreviation (input) ACTA_DBPATH_MAX :: nat where "ACTA_DBPATH_MAX \<equiv> 4096"

definition home_data :: "host \<Rightarrow> string option" where
  "home_data H =
     (case getenv H ''HOME'' of
        None \<Rightarrow> None
      | Some home \<Rightarrow>
          if home = [] then None
          else if length home + 1 + 13 + 1 > ACTA_DBPATH_MAX then None
          else Some (snprintf ACTA_DBPATH_MAX (home @ ''/.local/share'')))"

definition appdata_base :: "host \<Rightarrow> string option" where
  "appdata_base H =
     (case getenv H ''XDG_DATA_HOME'' of
        None \<Rightarrow> home_data H
      | Some p \<Rightarrow> if p \<noteq> [] then Some p else home_data H)"

text \<open>\<^verbatim>\<open>sizeof("/ACTA_Gamma/acta.db")\<close> is 20.\<close>

definition acta_db_default_db_path :: "host \<Rightarrow> string" where
  "acta_db_default_db_path H =
     (case appdata_base H of
        None \<Rightarrow> ''./acta.db''
      | Some base \<Rightarrow>
          if length base + 1 + 20 > ACTA_DBPATH_MAX then ''./acta.db''
          else snprintf ACTA_DBPATH_MAX (base @ ''/ACTA_Gamma/acta.db''))"

text \<open>The path, or \<open>Inl\<close> the message of a configuration file that cannot be used.\<close>

definition acta_db_resolve_db_path :: "host \<Rightarrow> string option \<Rightarrow> string option + string" where
  "acta_db_resolve_db_path H flag =
     (case flag of
        Some (c # cs) \<Rightarrow> Inr (c # cs)
      | _ \<Rightarrow>
          (case read_conf H of
             (rc, conf, missing, conf_err) \<Rightarrow>
               if rc \<noteq> 0 then Inl conf_err
               else (case getenv H ''ACTA_DB'' of
                   Some (c # cs) \<Rightarrow> Inr (c # cs)
                 | _ \<Rightarrow>
                     (case conf_db conf of
                        Some (c # cs) \<Rightarrow>
                          if length (c # cs) + 1 > ACTA_DBPATH_MAX
                          then Inl (if conf_mem H ''message''
                            then Some (snprintf 256 (''config file '' @ quoted ''db'' @ '' path is ''
                                   @ show_nat (length (c # cs)) @ '' bytes long; maximum is ''
                                   @ show_nat (ACTA_DBPATH_MAX - 1)))
                            else None)
                          else Inr (snprintf ACTA_DBPATH_MAX (c # cs))
                      | _ \<Rightarrow> Inr (acta_db_default_db_path H)))))"

definition acta_db_legacy_db_hint :: "host \<Rightarrow> nat \<Rightarrow> string option" where
  "acta_db_legacy_db_hint H hint_size =
     (if hint_size = 0 then None
      else if \<not> legacy_db H then None
      else Some (snprintf hint_size (''note: ./acta.db exists in the current directory - ''
             @ ''pass --db ./acta.db to use it'')))"

end
