(* ===== verification/Runner_Main.thy ===== *)
theory Runner_Main
  imports Sweep Dbpath Connections Models
begin

text \<open>
  \<^verbatim>\<open>cmd_run\<close> of \<^verbatim>\<open>acta_runner/src/run.c\<close>,
  \<^verbatim>\<open>acta_runner/src/check.c\<close> and \<^verbatim>\<open>acta_runner/src/main.c\<close>: the actions
  as the command line reaches them. A dereference of a NULL pointer is the outcome \<open>Crash\<close>. The usage
  texts printed after an argument error are left out.
\<close>

datatype outcome = Exit int | Crash

section \<open>run\<close>

definition invalid_args :: "string \<Rightarrow> runner \<Rightarrow> int \<times> runner" where
  "invalid_args msg s = (EXIT_INVALID, put_err (emit_error msg) s)"

text \<open>\<open>--timeout\<close>: 0 when the flag is not given. \<open>--dialect\<close>: UNKNOWN when not given.\<close>

definition max_arg :: "cmd_args_t \<Rightarrow> string + int" where
  "max_arg ga =
     (case cmd_args_flag ga ''max'' True of
        None \<Rightarrow> Inr 0
      | Some v \<Rightarrow> (case parse_nonneg_int v of
            None \<Rightarrow> Inl ''--max must be a non-negative integer'' | Some n \<Rightarrow> Inr n))"

definition timeout_arg :: "cmd_args_t \<Rightarrow> string + int" where
  "timeout_arg ga =
     (case cmd_args_flag ga ''timeout'' True of
        None \<Rightarrow> Inr 0
      | Some v \<Rightarrow> (case parse_nonneg_int v of
            None \<Rightarrow> Inl ''--timeout must be a positive integer''
          | Some n \<Rightarrow> if n = 0 then Inl ''--timeout must be a positive integer'' else Inr n))"

definition dialect_arg :: "cmd_args_t \<Rightarrow> bool \<Rightarrow> string \<Rightarrow> string + dialect_id_t" where
  "dialect_arg ga misplaced msg =
     (if \<not> cmd_args_has_flag ga ''dialect'' then Inr DIALECT_UNKNOWN
      else case nonempty (cmd_args_flag ga ''dialect'' True) of
        None \<Rightarrow> Inl ''--dialect requires a value''
      | Some dval \<Rightarrow>
          if dialect_from_string (Some dval) = DIALECT_UNKNOWN
          then Inl (snprintf 192 (''invalid --dialect '' @ in_quotes dval @ '' (expected ''
                  @ dialect_expected_names @ '')''))
          else if misplaced then Inl msg
          else Inr (dialect_from_string (Some dval)))"

definition dialect_with_pending :: string where
  "dialect_with_pending = ''--dialect cannot be combined with --pending: a --pending batch mixes ''
     @ ''model revisions, each with its own backend dialect (use run <id> --dialect)''"

definition pending_query :: execution_query_t where
  "pending_query = ACTA_EXEC_QUERY_ANY\<lparr>q_status := Some ''pending'', q_include_deleted := False\<rparr>"

text \<open>The batch loop: every row is run, the largest exit code is kept.\<close>

fun run_batch ::
  "env \<Rightarrow> int \<Rightarrow> int \<Rightarrow> string option \<Rightarrow> execution_t list \<Rightarrow> int \<Rightarrow> runner \<Rightarrow> int \<times> runner" where
  "run_batch E timeout max_chars api_key [] worst s = (worst, s)"
| "run_batch E timeout max_chars api_key (e # es) worst s =
     (case run_execution E (e_id e) timeout max_chars api_key s of
        (rc, s1) \<Rightarrow>
          run_batch E timeout max_chars api_key es
            (if rc \<noteq> EXIT_OK \<and> rc > worst then rc else worst) (deathmark_release s1))"

definition run_pending ::
  "env \<Rightarrow> int \<Rightarrow> int \<Rightarrow> int \<Rightarrow> string option \<Rightarrow> runner \<Rightarrow> int \<times> runner" where
  "run_pending E max_rows timeout max_chars api_key s =
     (case acta_db_execution_query (Some pending_query) 0 max_rows (rn_db s) of
        (items, n, err, d) \<Rightarrow>
          let s1 = s\<lparr>rn_db := d\<rparr> in
          if items = [] \<and> err_of err \<noteq> ACTA_DB_OK
          then report (finish_op_error (acta_db_last_error d) (err_of err) ''execution_query'') s1
          else (case items of
              [] \<Rightarrow> (EXIT_OK, s1)
            | e # es \<Rightarrow>
                (case run_preflight_before_claim E e api_key timeout s1 of
                   (pfc, s2) \<Rightarrow>
                     if pfc \<noteq> EXIT_OK then (pfc, s2)
                     else run_batch E timeout max_chars api_key items EXIT_OK s2)))"

definition preflight_one :: "env \<Rightarrow> int \<Rightarrow> int \<Rightarrow> string option \<Rightarrow> runner \<Rightarrow> int \<times> runner" where
  "preflight_one E i timeout api_key s =
     (case acta_db_execution_get i (rn_db s) of
        (item, err, d) \<Rightarrow>
          let s1 = s\<lparr>rn_db := d\<rparr> in
          if err_of err \<noteq> ACTA_DB_OK
          then report (finish_op_error (acta_db_last_error d) (err_of err) ''execution_get'') s1
          else case item of
            None \<Rightarrow> report (emit_not_found ''execution'') s1
          | Some e \<Rightarrow>
              if e_deleted_at e \<noteq> None then report (emit_not_found ''execution'') s1
              else if e_status e \<noteq> None \<and> e_status e \<noteq> Some ''pending''
              then (EXIT_INVALID, put_err (emit_error not_pending) s1)
              else run_preflight_before_claim E e api_key timeout s1)"

definition run_one_id ::
  "env \<Rightarrow> string \<Rightarrow> int \<Rightarrow> int \<Rightarrow> string option \<Rightarrow> dialect_id_t \<Rightarrow> runner \<Rightarrow> int \<times> runner" where
  "run_one_id E id_str timeout max_chars api_key dialect_override s =
     (case parse_positive_id id_str of
        None \<Rightarrow>
          invalid_args (snprintf 192 (''invalid <execution-id>: '' @ in_quotes id_str
            @ '' must be a positive integer'')) s
      | Some i \<Rightarrow>
          (case preflight_one E i timeout api_key s of
             (pfc, s1) \<Rightarrow>
               if pfc \<noteq> EXIT_OK then (pfc, s1)
               else (case run_execution_dialect E i timeout max_chars api_key dialect_override s1 of
                 (rc, s2) \<Rightarrow> (rc, deathmark_release s2))))"

text \<open>The API key and its messages on the error stream.\<close>

definition run_key :: "host \<Rightarrow> acta_conf_t \<Rightarrow> string + string option \<times> string list" where
  "run_key H conf =
     (let env_key = getenv H ''OPENAI_API_KEY''; file_key = conf_api_key conf in
      case acta_conf_api_key_status env_key file_key of
        (status, key_msg) \<Rightarrow>
          if status = ACTA_KEY_UNSET_ERR then Inl (or_empty key_msg)
          else Inr (if env_key \<noteq> None then env_key else file_key,
            (if status = ACTA_KEY_EMPTY_WARN then [or_empty key_msg] else [])
            @ (case acta_conf_api_key_shadow_warning env_key file_key of
                 (w, msg) \<Rightarrow> if w > 0 then [or_empty msg] else [])))"

definition cmd_run :: "env \<Rightarrow> host \<Rightarrow> cmd_args_t \<Rightarrow> runner \<Rightarrow> int \<times> runner" where
  "cmd_run E H ga s =
     (let pending = cmd_args_has_flag ga ''pending'' in
      case max_arg ga of Inl msg \<Rightarrow> invalid_args msg s | Inr max_rows \<Rightarrow>
      (case timeout_arg ga of Inl msg \<Rightarrow> invalid_args msg s | Inr flag_timeout \<Rightarrow>
      (case dialect_arg ga pending dialect_with_pending of Inl msg \<Rightarrow> invalid_args msg s
       | Inr dialect_override \<Rightarrow>
      (case read_conf H of (crc, conf, missing, conf_err) \<Rightarrow>
         if crc \<noteq> 0
         then report (emit_runner_error EXIT_INVALID
                (case conf_err of None \<Rightarrow> ''config file is invalid'' | Some m \<Rightarrow> m)) s
         else (case run_key H conf of
             Inl msg \<Rightarrow> report (emit_runner_error EXIT_INVALID msg) s
           | Inr (api_key, warnings) \<Rightarrow>
               let s1 = fold put_err warnings s;
                   timeout = acta_conf_resolve_timeout (Some conf) flag_timeout;
                   max_chars = acta_conf_resolve_max_chars (Some conf)
               in (case fst (cmd_args_next_positional ga) of
                 Some id_str \<Rightarrow>
                   if pending
                   then invalid_args ''--pending conflicts with an execution-id positional'' s1
                   else run_one_id E id_str timeout max_chars api_key dialect_override s1
               | None \<Rightarrow>
                   if \<not> pending
                   then invalid_args ''missing <execution-id>: pass an id or use --pending'' s1
                   else run_pending E max_rows timeout max_chars api_key s1))))))"

section \<open>check\<close>

text \<open>
  What \<^verbatim>\<open>check\<close> probes: base URL, model identifier, and in database mode the row's
  backend label. \<open>None\<close> in the standalone flags is \<^verbatim>\<open>strdup(NULL)\<close>. \<open>mem\<close>: the three
  copies find memory.
\<close>

definition check_timeout :: "acta_conf_t \<Rightarrow> int \<Rightarrow> int" where
  "check_timeout conf timeout = (if timeout > 0 then timeout else acta_conf_resolve_timeout (Some conf) 0)"

definition check_key :: "host \<Rightarrow> acta_conf_t \<Rightarrow> string option" where
  "check_key H conf =
     (case (if getenv H ''OPENAI_API_KEY'' \<noteq> None then getenv H ''OPENAI_API_KEY'' else conf_api_key conf) of
        Some (c # cs) \<Rightarrow> Some (c # cs) | _ \<Rightarrow> None)"

definition check_mode_error :: "bool \<Rightarrow> bool \<Rightarrow> string option \<Rightarrow> bool \<Rightarrow> string option" where
  "check_mode_error has_base has_mid pos has_db =
     (if has_base \<and> has_mid
      then (if pos \<noteq> None
            then Some ''--base-url/--model-identifier conflict with a <model-record-id> positional''
            else None)
      else if has_base \<or> has_mid
      then Some ''--base-url and --model-identifier must be used together (or pass a <model-record-id>)''
      else if pos = None
      then Some ''missing <model-record-id>: pass an id or use --base-url + --model-identifier''
      else if \<not> has_db then Some ''internal error: check (DB mode) needs the database handle''
      else None)"

definition dialect_with_row :: string where
  "dialect_with_row = ''--dialect is only valid with --base-url and --model-identifier: ''
     @ ''check <model-record-id> takes the dialect from the model row''"

definition check_probe ::
  "env \<Rightarrow> string \<Rightarrow> string \<Rightarrow> dialect_t \<Rightarrow> string option \<Rightarrow> int \<Rightarrow> runner \<Rightarrow> int \<times> runner" where
  "check_probe E base mid dialect api_key timeout_sec s =
     (case backend_preflight E base mid (Some dialect) api_key timeout_sec s of
        ((prc, pf), s1) \<Rightarrow>
          (case preflight_verdict prc pf of
             (verdict, exit_code) \<Rightarrow>
               (exit_code, put_out (emit_check_verdict (prc = PREFLIGHT_OK) mid base
                                      (pf_max_context pf) verdict) s1)))"

definition check_row ::
  "env \<Rightarrow> bool \<Rightarrow> string \<Rightarrow> string option \<Rightarrow> int \<Rightarrow> runner \<Rightarrow> int \<times> runner" where
  "check_row E mem pos api_key timeout_sec s =
     (case parse_positive_id pos of
        None \<Rightarrow> invalid_args (snprintf 192 (''invalid <model-record-id>: '' @ in_quotes pos
                  @ '' must be a positive integer'')) s
      | Some i \<Rightarrow>
          (case acta_db_model_get_live i (rn_db s) of
             (item, err, d) \<Rightarrow>
               let s1 = s\<lparr>rn_db := d\<rparr> in
               if err_of err \<noteq> ACTA_DB_OK
               then report (finish_op_error (acta_db_last_error d) (err_of err) ''model_get_live'') s1
               else (case item of
                   None \<Rightarrow> report (finish_db_error ACTA_DB_ERR_NOT_FOUND
                             (snprintf 128 (''model '' @ show_int i @ '' not found''))) s1
                 | Some m \<Rightarrow>
                     if or_empty (m_base_url m) = [] \<or> or_empty (m_model_identifier m) = []
                     then report (emit_runner_error EXIT_INVALID (snprintf 192
                            (''model '' @ show_int i @ '' has no base_url or model_identifier''))) s1
                     else if \<not> mem \<or> m_backend m = None then (EXIT_ALLOC, s1)
                     else (case dialect_get (long_of E) (dialect_from_string (m_backend m)) of
                         None \<Rightarrow> report (emit_runner_error EXIT_INVALID (snprintf 256
                             (''model '' @ pos @ '' has unsupported backend '' @ in_quotes (or_empty (m_backend m))
                               @ '' (expected '' @ dialect_expected_names @ '')''))) s1
                       | Some dialect \<Rightarrow>
                           check_probe E (or_empty (m_base_url m)) (or_empty (m_model_identifier m))
                             dialect api_key timeout_sec s1))))"

definition check_standalone ::
  "env \<Rightarrow> bool \<Rightarrow> cmd_args_t \<Rightarrow> dialect_id_t \<Rightarrow> string option \<Rightarrow> int \<Rightarrow> runner \<Rightarrow> outcome \<times> runner" where
  "check_standalone E mem ga cli_dialect api_key timeout_sec s =
     (case (cmd_args_flag ga ''base-url'' True, cmd_args_flag ga ''model-identifier'' True) of
        (Some base, Some mid) \<Rightarrow>
          if \<not> mem then (Exit EXIT_ALLOC, s)
          else (case dialect_get (long_of E)
                   (if cli_dialect \<noteq> DIALECT_UNKNOWN then cli_dialect else DIALECT_LLAMACPP) of
              None \<Rightarrow> (Crash, s)
            | Some dialect \<Rightarrow>
                (case check_probe E base mid dialect api_key timeout_sec s of (rc, s1) \<Rightarrow> (Exit rc, s1)))
      | _ \<Rightarrow> (Crash, s))"

definition exiting :: "int \<times> runner \<Rightarrow> outcome \<times> runner" where
  "exiting r = (Exit (fst r), snd r)"

text \<open>\<open>has_db\<close>: the action was given a database handle (not in standalone mode).\<close>

definition cmd_check :: "env \<Rightarrow> host \<Rightarrow> bool \<Rightarrow> bool \<Rightarrow> cmd_args_t \<Rightarrow> runner \<Rightarrow> outcome \<times> runner" where
  "cmd_check E H mem has_db ga s =
     (let has_base = cmd_args_has_flag ga ''base-url'';
          has_mid = cmd_args_has_flag ga ''model-identifier'';
          standalone = (has_base \<and> has_mid)
      in case timeout_arg ga of Inl msg \<Rightarrow> exiting (invalid_args msg s) | Inr timeout \<Rightarrow>
      (case read_conf H of (crc, conf, missing, conf_err) \<Rightarrow>
         if crc \<noteq> 0
         then exiting (report (emit_runner_error EXIT_INVALID
                (case conf_err of None \<Rightarrow> ''config file is invalid'' | Some m \<Rightarrow> m)) s)
         else
           let timeout_sec = check_timeout conf timeout;
               api_key = check_key H conf;
               pos = fst (cmd_args_next_positional ga)
           in case check_mode_error has_base has_mid pos has_db of
             Some msg \<Rightarrow> exiting (invalid_args msg s)
           | None \<Rightarrow>
               (case dialect_arg ga (\<not> standalone) dialect_with_row of
                  Inl msg \<Rightarrow> exiting (invalid_args msg s)
                | Inr cli_dialect \<Rightarrow>
                    if standalone then check_standalone E mem ga cli_dialect api_key timeout_sec s
                    else exiting (check_row E mem (or_empty pos) api_key timeout_sec s))))"

section \<open>Dispatch and main\<close>

definition commands_dispatch ::
  "env \<Rightarrow> host \<Rightarrow> bool \<Rightarrow> bool \<Rightarrow> string \<Rightarrow> cmd_args_t \<Rightarrow> runner \<Rightarrow> outcome \<times> runner" where
  "commands_dispatch E H mem has_db action args s =
     (if action = ''help'' then (Exit EXIT_OK, put_out ''help'' s)
      else if action = ''run'' then exiting (cmd_run E H args s)
      else if action = ''check'' then cmd_check E H mem has_db args s
      else if action = ''sweep'' then exiting (cmd_sweep (time_now H) args s)
      else (Exit EXIT_INVALID,
            put_err (''  Run '' @ in_quotes ''acta_runner --help'' @ '' for full usage.'')
              (put_err (''Unknown action '' @ in_quotes action @ ''.'') s)))"

definition runner_error :: "int \<Rightarrow> string \<Rightarrow> int \<times> string" where
  "runner_error rc msg = finish_db_error rc (snprintf 2048 msg)"

definition open_message :: "host \<Rightarrow> string \<Rightarrow> int \<Rightarrow> string" where
  "open_message H db_path db_err =
     (let msg = snprintf 2048 (''cannot open database '' @ in_quotes db_path @ '' ('' @ acta_db_strerror db_err
            @ ''): check the path and that it is a valid SQLite database'')
      in if db_err = ACTA_DB_ERR_INVALID_DB \<and> db_path = acta_db_default_db_path H
         then (case acta_db_legacy_db_hint H 256 of
                 None \<Rightarrow> msg | Some hint \<Rightarrow> snprintf 2048 (msg @ '' '' @ hint))
         else msg)"

definition start_state :: "db_t \<Rightarrow> string list \<Rightarrow> runner" where
  "start_state d out =
     \<lparr>rn_db = d, rn_requests = [], rn_polls = 0, rn_stdout = [], rn_stderr = out, rn_mark = None\<rparr>"

text \<open>
  \<open>opening\<close> is what \<open>acta_db_open\<close> meets, \<open>closing\<close> what \<^verbatim>\<open>sqlite3_close\<close> answers,
  \<open>nodb\<close> stands for the absent handle until the database is open. After
  \<open>parse_globals\<close> only EXIT_CLI is tested: \<open>g_argv = None\<close> is then a NULL \<^verbatim>\<open>argv\<close>.
\<close>

definition main ::
  "env \<Rightarrow> host \<Rightarrow> bool \<Rightarrow> bool \<Rightarrow> open_env \<Rightarrow> sql_rc \<Rightarrow> db_t \<Rightarrow> string list \<Rightarrow> outcome \<times> runner" where
  "main E H mem_args mem opening closing nodb argv =
     (case parse_globals mem_args argv of (rc, g, out) \<Rightarrow>
        let s0 = start_state nodb out in
        if rc = EXIT_CLI
        then exiting (report (runner_error ACTA_DB_ERR_INVALID ''missing action. See --help.'') s0)
        else if g_show_version g then (Exit EXIT_OK, put_out ''version'' s0)
        else if g_show_help g then (Exit EXIT_OK, put_out ''help'' s0)
        else (case g_argv g of
            Some (action # rest) \<Rightarrow>
              let ga = cmd_args_init rest in
              (case cmd_args_validate ga of (vrc, vout) \<Rightarrow>
                 if vrc \<noteq> EXIT_OK then (Exit EXIT_INVALID, fold put_err vout s0)
                 else if action = ''check'' \<and> cmd_args_has_flag ga ''base-url''
                   \<and> cmd_args_has_flag ga ''model-identifier''
                 then commands_dispatch E H mem False action ga s0
                 else (case acta_db_resolve_db_path H (g_db g) of
                   Inl conf_err \<Rightarrow>
                     exiting (report (runner_error ACTA_DB_ERR_INVALID
                       (case conf_err of None \<Rightarrow> ''config file is invalid'' | Some m \<Rightarrow> m)) s0)
                 | Inr db_path \<Rightarrow>
                     (case acta_db_open (Some db_path) 0 opening of
                        (None, db_err, leaked) \<Rightarrow>
                          exiting (report (runner_error db_err (open_message H db_path db_err)) s0)
                      | (Some d, db_err, leaked) \<Rightarrow>
                          let s1 = (case acta_db_last_error d of
                                None \<Rightarrow> s0\<lparr>rn_db := d\<rparr>
                              | Some note_text \<Rightarrow>
                                  put_err (''[warn] db opened with degraded pragma state: '' @ note_text)
                                    (s0\<lparr>rn_db := d\<rparr>))
                          in (case commands_dispatch E H mem True action ga s1 of
                            (Crash, s2) \<Rightarrow> (Crash, s2)
                          | (Exit code, s2) \<Rightarrow>
                              (case acta_db_close closing (rn_db s2) of (close_rc, left) \<Rightarrow>
                                 (Exit code,
                                  if close_rc = ACTA_DB_OK then s2
                                  else put_err (''[warn] db close returned '' @ acta_db_strerror close_rc) s2))))))
          | _ \<Rightarrow> (Crash, s0)))"

end
