(* ===== verification/Run_Frame.thy ===== *)
theory Run_Frame
  imports Runner_Main Execution_Properties
begin

text \<open>
  What the phases of a run do to the state of the process, once for every relation of interest. A
  relation that absorbs the few primitive effects of a phase (a log line of this execution, a read,
  a poll, a printed line) holds over every phase that makes no request and stores nothing: locale
  \<open>quiet_frame\<close>. \<open>phase_frame\<close> adds the storing of the raw response, \<open>run_frame\<close> a request; it covers
  the whole pipeline.
\<close>

section \<open>Reads\<close>

definition same_db :: "db_t \<Rightarrow> db_t \<Rightarrow> bool" where
  "same_db d d' \<longleftrightarrow> store d' = store d \<and> clock d' = clock d \<and> saved d' = saved d
     \<and> in_transaction d' = in_transaction d \<and> (healthy d \<longrightarrow> healthy d')"

lemma same_db_refl [simp]: "same_db d d"
  by (simp add: same_db_def)

lemma same_db_trans: "same_db a b \<Longrightarrow> same_db b c \<Longrightarrow> same_db a c"
  by (simp add: same_db_def)

lemma same_db_error [simp]: "same_db a (db_set_error m d) = same_db a d"
  by (simp add: same_db_def)

lemma sql_read_same: "sql_read q d = (res, d1) \<Longrightarrow> same_db d d1"
  using sql_read_healthy [of d q] by (auto simp: same_db_def dest: sql_read_fields)

lemma execution_get_same: "acta_db_execution_get i d = (item, err, d') \<Longrightarrow> same_db d d'"
  by (auto simp: acta_db_execution_get_def split: if_splits prod.splits read_result.splits list.splits
      dest: sql_read_same)

lemma context_get_same: "acta_db_context_get i d = (item, err, d') \<Longrightarrow> same_db d d'"
  by (auto simp: acta_db_context_get_def split: if_splits prod.splits read_result.splits list.splits
      dest: sql_read_same)

lemma skill_revision_get_same: "acta_db_skill_revision_get i d = (item, err, d') \<Longrightarrow> same_db d d'"
  by (auto simp: acta_db_skill_revision_get_def skill_revision_fetch_def
      split: if_splits prod.splits read_result.splits list.splits dest: sql_read_same)

lemma model_revision_get_same: "acta_db_model_revision_get i d = (item, err, d') \<Longrightarrow> same_db d d'"
  by (auto simp: acta_db_model_revision_get_def model_revision_fetch_def
      split: if_splits prod.splits read_result.splits list.splits dest: sql_read_same)

lemma execution_query_same: "acta_db_execution_query q off mx d = (items, n, err, d') \<Longrightarrow> same_db d d'"
  by (auto simp: acta_db_execution_query_def execution_query_impl_def Let_def
      split: if_splits prod.splits read_result.splits option.splits dest: sql_read_same)

lemma log_count_same: "acta_db_execution_log_count i lv d = (n, err, d') \<Longrightarrow> same_db d d'"
  by (auto simp: acta_db_execution_log_count_def
      split: if_splits prod.splits read_result.splits list.splits dest: sql_read_same)

lemma log_list_same:
  "acta_db_execution_log_list_by_execution i lv off mx d = (items, n, err, d') \<Longrightarrow> same_db d d'"
  by (auto simp: acta_db_execution_log_list_by_execution_def Let_def
      split: if_splits prod.splits read_result.splits option.splits dest: sql_read_same)

section \<open>Phases without a request\<close>

definition keeps :: "(runner \<Rightarrow> runner \<Rightarrow> bool) \<Rightarrow> 'a act \<Rightarrow> bool" where
  "keeps R m \<longleftrightarrow> (\<forall>s r s'. m s = (r, s') \<longrightarrow> R s s')"

lemma keepsD: "keeps R m \<Longrightarrow> m s = (r, s') \<Longrightarrow> R s s'"
  by (auto simp: keeps_def)

locale quiet_frame =
  fixes E :: env and i :: int and R :: "runner \<Rightarrow> runner \<Rightarrow> bool"
  assumes refl: "R s s"
    and step: "R s t \<Longrightarrow> R t u \<Longrightarrow> R s u"
    and log: "acta_db_execution_log_create l (rn_db s) = (rc, out, d) \<Longrightarrow> l_execution_id l = i
        \<Longrightarrow> R s (s\<lparr>rn_db := d\<rparr>)"
    and read: "same_db (rn_db s) d \<Longrightarrow> R s (s\<lparr>rn_db := d\<rparr>)"
    and poll: "R s (s\<lparr>rn_polls := n\<rparr>)"
    and err_line: "R s (put_err line s)"
begin

lemma go_on: "keeps R (go_on x)"
  by (simp add: keeps_def go_on_def refl)

lemma leave: "keeps R (leave c m)"
  by (simp add: keeps_def leave_def refl)

lemma fail: "keeps R (FAIL c m)"
  unfolding FAIL_def by (rule leave)

lemma cancel: "keeps R CANCEL"
  unfolding CANCEL_def by (rule leave)

lemma and_then: "keeps R m \<Longrightarrow> (\<And>x. keeps R (k x)) \<Longrightarrow> keeps R (and_then m k)"
  unfolding keeps_def and_then_def
  by (clarsimp split: prod.splits sum.splits) (metis step)

lemma if_act: "(c \<Longrightarrow> keeps R a) \<Longrightarrow> (\<not> c \<Longrightarrow> keeps R b) \<Longrightarrow> keeps R (if c then a else b)"
  by simp

lemma poll_cancel: "keeps R (poll_cancel E)"
  by (auto simp: keeps_def poll_cancel_def backend_cancel_requested_def CANCEL_def leave_def
      intro: poll split: if_splits)

lemma log_step: "keeps R (log_step i level event message metadata)"
  by (auto simp: keeps_def log_step_def log_phase_def intro: log split: prod.splits)

lemma fetch:
  assumes "\<And>d item err d'. get k d = (item, err, d') \<Longrightarrow> same_db d d'"
  shows "keeps R (fetch what k get)"
  by (auto simp: keeps_def fetch_def leave_def intro: read dest: assms split: prod.splits option.splits)

lemma resolve_refs: "keeps R (resolve_refs e)"
  unfolding resolve_refs_def
  by (intro and_then fetch if_act go_on leave)
    (auto dest: context_get_same skill_revision_get_same model_revision_get_same)

lemma resolve_dialect: "keeps R (resolve_dialect E i e model ov)"
proof -
  have line: "keeps R (\<lambda>s. (Inr x, put_err l s))" for x and l
    by (auto simp: keeps_def intro: err_line)
  show ?thesis
    unfolding resolve_dialect_def Let_def
    by (auto split: option.split intro!: and_then log_step go_on fail line)
qed

lemma load_prompt: "keeps R (load_prompt E i e ctx skill)"
  unfolding load_prompt_def Let_def by (intro if_act leave and_then log_step go_on)

lemma positive_key: "keeps R (positive_key E cfg key)"
  unfolding positive_key_def by (auto split: option.split cJSON.split intro!: go_on fail if_act)

lemma read_config: "keeps R (read_config E conf)"
  unfolding read_config_def
  by (auto split: option.split cJSON.split intro!: if_act and_then go_on fail positive_key)

lemma read_schema: "keeps R (read_schema E skill)"
  unfolding read_schema_def by (auto split: option.split intro!: go_on leave)

lemma size_check: "keeps R (size_check user system limit)"
  unfolding size_check_def Let_def by (intro if_act fail go_on)

lemma validate_stage: "keeps R (validate_stage E i schema_j cfg content)"
  unfolding validate_stage_def reject_output_def
  by (auto split: option.split intro!: go_on and_then log_step fail if_act)

end

locale phase_frame = quiet_frame +
  assumes raw: "acta_db_execution_set_raw_response i v (rn_db s) = (rc, d) \<Longrightarrow> R s (s\<lparr>rn_db := d\<rparr>)"
begin

lemma record_stage: "keeps R (record_stage E i resp)"
proof -
  have *: "keeps R (\<lambda>s. case with_db (acta_db_execution_set_raw_response i v) s of (rc, s1) \<Rightarrow>
      if rc \<noteq> ACTA_DB_OK then FAIL c (m s1) s1 else k s1)"
    if k: "keeps R k" for v c m and k :: "string act"
    using k by (auto simp: keeps_def with_db_def FAIL_def leave_def intro: raw step split: prod.splits if_splits)
  show ?thesis
    unfolding record_stage_def
    by (auto split: option.split intro!: fail * and_then log_step go_on)
qed

end

section \<open>The whole pipeline\<close>

locale run_frame = phase_frame +
  assumes request: "backend_request E meth u b k t s = (r, s') \<Longrightarrow> R s s'"
begin

lemma preflight: "backend_preflight E u m dl k t s = (r, s') \<Longrightarrow> R s s'"
  by (auto simp: backend_preflight_def Let_def split: prod.splits if_splits option.splits
      dest!: request intro: step)

lemma preflight_stage: "keeps R (preflight_stage E model dl k t)"
  by (auto simp: keeps_def preflight_stage_def Let_def CANCEL_def FAIL_def leave_def
      split: prod.splits preflight_result_t.splits if_splits dest!: preflight)

lemma fetch_catalog_doc: "keeps R (fetch_catalog_doc E model dl k t)"
  by (auto simp: keeps_def fetch_catalog_doc_def CANCEL_def leave_def refl
      split: prod.splits if_splits dest!: request)

lemma catalog_stage: "keeps R (catalog_stage E i model dl k t window)"
  unfolding catalog_stage_def by (intro and_then fetch_catalog_doc log_step)

lemma chat_stage: "keeps R (chat_stage E i model dl src user sys cfg schema_j k t)"
proof -
  have *: "keeps R (\<lambda>s. case backend_request E m u b k' t' s of ((brc, resp), s1) \<Rightarrow> f brc resp s1)"
    if f: "\<And>brc resp. keeps R (f brc resp)" for m u b k' t' and f :: "int \<Rightarrow> backend_response_t \<Rightarrow> backend_response_t act"
    using f by (auto simp: keeps_def intro: request step split: prod.splits)
  have "keeps R (\<lambda>s. if c then FAIL x m s else (Inr y, s))" for c x m and y :: backend_response_t
    by (auto simp: keeps_def FAIL_def leave_def refl)
  moreover have "keeps R (\<lambda>s. if c1 then if c2 then CANCEL s else if c3 then FAIL x m s else FAIL x' m' s
      else if c4 then FAIL y n s else (Inr z, s))" for c1 c2 c3 c4 x m x' m' y n and z :: backend_response_t
    by (auto simp: keeps_def FAIL_def CANCEL_def leave_def refl)
  ultimately show ?thesis
    unfolding chat_stage_def Let_def by (intro and_then log_step *)
qed

lemma pipeline: "keeps R (pipeline E i t limit k ov e)"
  unfolding pipeline_def
  by (intro and_then log_step poll_cancel resolve_refs resolve_dialect load_prompt read_config read_schema
      size_check preflight_stage catalog_stage chat_stage record_stage validate_stage go_on | clarify)+

end

section \<open>How phases leave and go on\<close>

lemma and_then_cases:
  assumes "and_then m k s = (r, s')"
  obtains (left) e where "m s = (Inl e, s')" and "r = Inl e"
  | (right) x s1 where "m s = (Inr x, s1)" and "k x s1 = (r, s')"
  using assms by (auto simp: and_then_def split: prod.splits sum.splits)

lemma and_then_Inr:
  "and_then m k s = (Inr y, s') \<longleftrightarrow> (\<exists>x s1. m s = (Inr x, s1) \<and> k x s1 = (Inr y, s'))"
  by (auto simp: and_then_def split: prod.splits sum.splits)

text \<open>The exit codes a phase can leave with: none of them is EXIT_OK.\<close>

definition run_codes :: "int set" where
  "run_codes = {EXIT_SQL, EXIT_INVALID, EXIT_HTTP, EXIT_TIMEOUT, EXIT_CANCELED}"

definition leaves_ok :: "'a act \<Rightarrow> bool" where
  "leaves_ok m \<longleftrightarrow> (\<forall>s c msg s'. m s = (Inl (c, msg), s') \<longrightarrow> c \<in> run_codes)"

named_theorems leaving

lemma leaves_go_on [leaving]: "leaves_ok (go_on x)"
  by (simp add: leaves_ok_def go_on_def)

lemma leaves_leave [leaving]: "c \<in> run_codes \<Longrightarrow> leaves_ok (leave c m)"
  by (simp add: leaves_ok_def leave_def)

lemma leaves_fail [leaving]: "c \<in> run_codes \<Longrightarrow> leaves_ok (FAIL c m)"
  unfolding FAIL_def by (rule leaves_leave)

lemma leaves_and_then [leaving]: "leaves_ok m \<Longrightarrow> (\<And>x. leaves_ok (k x)) \<Longrightarrow> leaves_ok (and_then m k)"
  unfolding leaves_ok_def by (safe elim!: and_then_cases) blast+

lemma leaves_if [leaving]: "(c \<Longrightarrow> leaves_ok a) \<Longrightarrow> (\<not> c \<Longrightarrow> leaves_ok b) \<Longrightarrow> leaves_ok (if c then a else b)"
  by simp

lemma run_code_in [leaving]:
  "EXIT_SQL \<in> run_codes" "EXIT_INVALID \<in> run_codes" "EXIT_HTTP \<in> run_codes" "EXIT_TIMEOUT \<in> run_codes"
  "EXIT_CANCELED \<in> run_codes"
  by (simp_all add: run_codes_def)

lemmas act_defs = go_on_def leave_def FAIL_def CANCEL_def

lemma leaves_poll [leaving]: "leaves_ok (poll_cancel E)"
  by (auto simp: leaves_ok_def poll_cancel_def act_defs run_codes_def split: prod.splits if_splits)

lemma leaves_log [leaving]: "leaves_ok (log_step i lv ev m j)"
  by (simp add: leaves_ok_def log_step_def)

lemma leaves_fetch [leaving]: "leaves_ok (fetch what i get)"
  by (auto simp: leaves_ok_def fetch_def act_defs run_codes_def split: prod.splits option.splits if_splits)

lemma leaves_refs [leaving]: "leaves_ok (resolve_refs e)"
  unfolding resolve_refs_def by (intro leaving)

lemma leaves_dialect [leaving]: "leaves_ok (resolve_dialect E i e model ov)"
proof -
  have "leaves_ok (\<lambda>s. (Inr x, f s))" for x :: "dialect_t \<times> string" and f
    by (simp add: leaves_ok_def)
  then show ?thesis
    unfolding resolve_dialect_def Let_def by (auto split: option.split intro!: leaving)
qed

lemma leaves_prompt [leaving]: "leaves_ok (load_prompt E i e ctx skill)"
  unfolding load_prompt_def Let_def by (intro leaving)

lemma leaves_positive [leaving]: "leaves_ok (positive_key E cfg key)"
  unfolding positive_key_def by (auto split: option.split cJSON.split intro!: leaving)

lemma leaves_config [leaving]: "leaves_ok (read_config E conf)"
  unfolding read_config_def by (auto split: option.split cJSON.split intro!: leaving)

lemma leaves_schema [leaving]: "leaves_ok (read_schema E skill)"
  unfolding read_schema_def by (auto split: option.split intro!: leaving)

lemma leaves_size [leaving]: "leaves_ok (size_check user system limit)"
  unfolding size_check_def Let_def by (intro leaving)

lemma leaves_preflight [leaving]: "leaves_ok (preflight_stage E model dl k t)"
  by (auto simp: leaves_ok_def preflight_stage_def Let_def act_defs run_codes_def
      split: prod.splits preflight_result_t.splits if_splits)

lemma leaves_catalog [leaving]: "leaves_ok (catalog_stage E i model dl k t window)"
proof -
  have "leaves_ok (fetch_catalog_doc E model dl k t)"
    by (auto simp: leaves_ok_def fetch_catalog_doc_def act_defs run_codes_def split: prod.splits if_splits)
  then show ?thesis unfolding catalog_stage_def by (intro leaving)
qed

lemma leaves_chat [leaving]: "leaves_ok (chat_stage E i model dl src user sys cfg schema_j k t)"
proof -
  have *: "leaves_ok (\<lambda>s. case backend_request E m u b k' t' s of ((brc, resp), s1) \<Rightarrow> f brc resp s1)"
    if "\<And>brc resp. leaves_ok (f brc resp)" for m u b k' t' and f :: "int \<Rightarrow> backend_response_t \<Rightarrow> backend_response_t act"
    using that by (auto simp: leaves_ok_def split: prod.splits)
  have **: "leaves_ok (\<lambda>s. if c1 then if c2 then CANCEL s else if c3 then FAIL EXIT_TIMEOUT m s
      else FAIL EXIT_HTTP m' s else if c4 then FAIL EXIT_HTTP n s else (Inr z, s))"
    for c1 c2 c3 c4 m m' n and z :: backend_response_t
    by (auto simp: leaves_ok_def act_defs run_codes_def)
  show ?thesis unfolding chat_stage_def Let_def by (intro leaves_and_then leaves_log * **)
qed

lemma leaves_record [leaving]: "leaves_ok (record_stage E i resp)"
proof -
  have *: "leaves_ok (\<lambda>s. case with_db f s of (rc, s1) \<Rightarrow> if rc \<noteq> ACTA_DB_OK then FAIL EXIT_SQL (m s1) s1 else k s1)"
    if "leaves_ok k" for f m and k :: "string act"
    using that by (auto simp: leaves_ok_def act_defs run_codes_def split: prod.splits)
  show ?thesis
    unfolding record_stage_def
    by (auto split: option.split intro!: leaves_fail * leaves_and_then leaves_log leaves_go_on run_code_in)
qed

lemma leaves_validate [leaving]: "leaves_ok (validate_stage E i schema_j cfg content)"
  unfolding validate_stage_def reject_output_def by (auto split: option.split intro!: leaving)

lemma leaves_pipeline: "leaves_ok (pipeline E i t limit k ov e)"
  unfolding pipeline_def by (intro leaving | clarify)+

end
