(* ===== verification/Execution_Frame.thy ===== *)
theory Execution_Frame
  imports Run_Frame
begin

text \<open>
  The frame of a whole run: \<open>execution_frame\<close> adds the transitions a run makes on its own row, and covers
  the claim, the closing and the preflight before the claim; \<open>command_frame\<close> is a relation that does so
  for every execution, which covers a batch and the \<^verbatim>\<open>run\<close> action.
\<close>

locale execution_frame = run_frame +
  assumes start: "acta_db_execution_start i (rn_db s) = (rc, d) \<Longrightarrow> R s (s\<lparr>rn_db := d\<rparr>)"
    and complete: "acta_db_execution_complete i v (rn_db s) = (rc, d) \<Longrightarrow> R s (s\<lparr>rn_db := d\<rparr>)"
    and failed: "acta_db_execution_fail i v (rn_db s) = (rc, d) \<Longrightarrow> R s (s\<lparr>rn_db := d\<rparr>)"
    and canceled: "acta_db_execution_cancel i (rn_db s) = (rc, d) \<Longrightarrow> R s (s\<lparr>rn_db := d\<rparr>)"
    and mark: "R s (s\<lparr>rn_mark := m\<rparr>)"
    and out_line: "R s (put_out line s)"
begin

lemma log_phase: "log_phase i level event message metadata s = (rc, s') \<Longrightarrow> R s s'"
  by (auto simp: log_phase_def intro: log split: prod.splits)

lemma report: "report r s = (c, s') \<Longrightarrow> R s s'"
  by (auto simp: report_def intro: err_line)

lemma fail_execution:
  assumes "fail_execution i c m s = (code, s')" shows "R s s'"
proof -
  obtain rc s1 rc' d where "log_phase i ''error'' ''execution_failed'' m None s = (rc, s1)"
    and "acta_db_execution_fail i (Some m) (rn_db s1) = (rc', d)"
    and "s' = put_err (snd (emit_runner_error c m)) (s1\<lparr>rn_db := d\<rparr>)"
    using assms by (auto simp: fail_execution_def with_db_def split: prod.splits)
  then show ?thesis by (auto intro: step [OF log_phase step [OF failed err_line]])
qed

lemma cancel_execution:
  assumes "cancel_execution i s = (code, s')" shows "R s s'"
proof -
  obtain rc s1 rc' d where "log_phase i ''info'' ''execution_cancelled'' ''execution cancelled by user'' None s = (rc, s1)"
    and "acta_db_execution_cancel i (rn_db s1) = (rc', d)" and "s' = s1\<lparr>rn_db := d\<rparr>"
    using assms by (auto simp: cancel_execution_def with_db_def split: prod.splits)
  then show ?thesis by (auto intro: step [OF log_phase canceled])
qed

lemma close_execution:
  assumes "close_execution i r s = (code, s')" shows "R s s'"
proof (cases r)
  case (Inl e)
  with assms show ?thesis
    by (auto simp: close_execution_def split: prod.splits if_splits intro: fail_execution cancel_execution)
next
  case (Inr content)
  obtain rc d where c: "acta_db_execution_complete i (Some content) (rn_db s) = (rc, d)" by fastforce
  have "R (s\<lparr>rn_db := d\<rparr>) s'"
    using assms Inr c
    by (auto simp: close_execution_def with_db_def split: if_splits intro: fail_execution log_phase
        [where rc = "fst x" and s' = "snd x" for x, simplified])
  then show ?thesis by (rule step [OF complete [OF c]])
qed

lemma run_execution_dialect:
  assumes "run_execution_dialect E i t limit key ov s = (code, s')" shows "R s s'"
proof -
  obtain item err d where g: "acta_db_execution_get i (rn_db s) = (item, err, d)"
    by (cases "acta_db_execution_get i (rn_db s)") auto
  define s1 where "s1 = s\<lparr>rn_db := d\<rparr>"
  have "R s1 s'"
  proof (cases "\<exists>l. s' = put_err l s1")
    case True
    then show ?thesis by (auto intro: err_line)
  next
    case False
    obtain q s2 where p: "poll_cancel E s1 = (q, s2)" by fastforce
    have "R s2 s'"
    proof (cases q)
      case (Inl left)
      then show ?thesis
        using assms False p
        by (auto simp: run_execution_dialect_def g s1_def [symmetric] report_def split: if_splits option.splits
            intro: close_execution)
    next
      case (Inr x)
      obtain rc d3 where st: "acta_db_execution_start i (rn_db s2) = (rc, d3)" by fastforce
      consider (refused) l where "s' = put_err l (s2\<lparr>rn_db := d3\<rparr>)"
        | (ran) e r s4 where "pipeline E i t limit key ov e (s2\<lparr>rn_db := d3, rn_mark := Some i\<rparr>) = (r, s4)"
            and "close_execution i r s4 = (code, s')"
        using assms False p st Inr
        by (cases "rc = ACTA_DB_OK") (auto simp: run_execution_dialect_def g s1_def [symmetric] report_def with_db_def
            split: if_splits option.splits prod.splits)
      then have "R (s2\<lparr>rn_db := d3\<rparr>) s'"
        by cases (auto intro: err_line step [OF mark step [OF keepsD [OF pipeline] close_execution]])
      then show ?thesis by (rule step [OF start [OF st]])
    qed
    then show ?thesis by (rule step [OF keepsD [OF poll_cancel p]])
  qed
  then show ?thesis unfolding s1_def by (rule step [OF read [OF execution_get_same [OF g]]])
qed

lemma run_preflight_before_claim:
  assumes "run_preflight_before_claim E e key t s = (code, s')" shows "R s s'"
proof -
  obtain q s1 where f: "fetch ''model revision'' (e_model_revision_id e) acta_db_model_revision_get s = (q, s1)"
    by fastforce
  have "R s1 s'"
    using assms
    by (auto simp: run_preflight_before_claim_def f Let_def
        split: sum.splits prod.splits if_splits option.splits dest!: report preflight
        intro: step out_line)
  moreover have "R s s1" by (rule keepsD [OF fetch f]) (auto dest: model_revision_get_same)
  ultimately show ?thesis by (blast intro: step)
qed

end

locale command_frame =
  fixes E :: env and R :: "runner \<Rightarrow> runner \<Rightarrow> bool"
  assumes each: "execution_frame E i R"
begin

lemma refl: "R s s"
  using each by (simp add: execution_frame_def run_frame_def phase_frame_def quiet_frame_def)

lemma step: "R s t \<Longrightarrow> R t u \<Longrightarrow> R s u"
  using each by (simp add: execution_frame_def run_frame_def phase_frame_def quiet_frame_def)

lemmas run_any = execution_frame.run_execution_dialect [OF each]
lemmas preflight_any = execution_frame.run_preflight_before_claim [OF each]
lemmas report_any = execution_frame.report [OF each]
lemmas mark_any = execution_frame.mark [OF each]

lemma read: "same_db (rn_db s) d \<Longrightarrow> R s (s\<lparr>rn_db := d\<rparr>)"
  using each by (auto simp: execution_frame_def run_frame_def phase_frame_def quiet_frame_def)

lemma err_line: "R s (put_err line s)"
  using each by (auto simp: execution_frame_def run_frame_def phase_frame_def quiet_frame_def)

lemma run_batch: "run_batch E t limit key es worst s = (code, s') \<Longrightarrow> R s s'"
proof (induction es arbitrary: worst s)
  case Nil
  then show ?case by (simp add: refl)
next
  case (Cons e es)
  obtain rc s1 where r: "run_execution E (e_id e) t limit key s = (rc, s1)" by fastforce
  have "R s s1" using r unfolding run_execution_def by (rule run_any)
  moreover have "R s1 (deathmark_release s1)" unfolding deathmark_release_def by (rule mark_any)
  moreover have "R (deathmark_release s1) s'" using Cons r by (auto intro: Cons.IH)
  ultimately show ?case by (blast intro: step)
qed

lemma run_pending:
  assumes "run_pending E mx t limit key s = (code, s')" shows "R s s'"
proof -
  obtain items n err d where q: "acta_db_execution_query (Some pending_query) 0 mx (rn_db s) = (items, n, err, d)"
    by (cases "acta_db_execution_query (Some pending_query) 0 mx (rn_db s)") auto
  have "R (s\<lparr>rn_db := d\<rparr>) s'"
    using assms
    by (auto simp: run_pending_def q Let_def simp del: run_batch.simps
        split: if_splits list.splits prod.splits
        intro: refl dest!: report_any preflight_any run_batch elim: step)
  then show ?thesis by (rule step [OF read [OF execution_query_same [OF q]]])
qed

lemma preflight_one:
  assumes "preflight_one E i t key s = (code, s')" shows "R s s'"
proof -
  obtain item err d where g: "acta_db_execution_get i (rn_db s) = (item, err, d)"
    by (cases "acta_db_execution_get i (rn_db s)") auto
  have "R (s\<lparr>rn_db := d\<rparr>) s'"
    using assms
    by (auto simp: preflight_one_def g Let_def split: if_splits option.splits
        dest!: report_any preflight_any intro: err_line)
  then show ?thesis by (rule step [OF read [OF execution_get_same [OF g]]])
qed

lemma run_one_id:
  assumes "run_one_id E txt t limit key ov s = (code, s')" shows "R s s'"
  using assms
  by (auto simp: run_one_id_def invalid_args_def deathmark_release_def split: option.splits prod.splits if_splits
      dest!: preflight_one run_any intro: err_line step [OF _ step [OF _ mark_any]])

lemma warnings: "R s (fold put_err ws s)"
  by (induction ws arbitrary: s) (auto intro: refl step [OF err_line])

lemma cmd_run:
  assumes "cmd_run E H ga s = (code, s')" shows "R s s'"
  using assms
  by (auto simp: cmd_run_def invalid_args_def Let_def split: sum.splits prod.splits if_splits option.splits
      dest!: report_any run_one_id run_pending intro: err_line step [OF warnings])

end

end
