(* ===== verification/Run_Samples.thy ===== *)
theory Run_Samples
  imports Runner_Main Samples
begin

text \<open>
  A concrete run for the instances of the run's properties: a served model, a server that answers
  \<open>42\<close>, and the run of one pending execution, evaluated phase by phase.
\<close>

section \<open>A small world\<close>

text \<open>A server that serves one model and answers \<open>42\<close>; no one else is at work.\<close>

definition sample_parse :: "string \<Rightarrow> cJSON option" where
  "sample_parse text =
     (if text = ''models'' then Some (JObject [(''data'', JArray [JObject [(''id'', JString ''x'')]])])
      else if text = ''reply''
      then Some (JObject [(''choices'', JArray [JObject [(''message'',
             JObject [(''content'', JString ''42'')])]])])
      else None)"

definition sample_env :: env where
  "sample_env = \<lparr>perform = (\<lambda>n rq. (CURLE_OK 200
       [if n = 0 then ''ok'' else if n = 1 then ''models'' else ''reply''], 5)),
     others = (\<lambda>n st. st), cancel_flag = (\<lambda>n. False), cJSON_Parse = sample_parse,
     cJSON_PrintUnformatted = (\<lambda>j. Some ''{}''), cJSON_GetErrorPtr = (\<lambda>s. None),
     long_of = (\<lambda>r. \<lfloor>r\<rfloor>), double_of = rat_of_int\<rparr>"

definition sample_served :: db_t where
  "sample_served = snd (snd (acta_db_execution_create sample_execution
     (snd (snd (acta_db_context_create sample_context
       (snd (snd (acta_db_model_create (sample_model\<lparr>m_base_url := Some ''http://h/''\<rparr>)
         (snd (snd (acta_db_skill_create sample_skill sample_empty)))))))))))"

lemma sample_served_ok: "db_ok (store sample_served)"
proof (rule run_db_ok [OF _ sample_empty_ok])
  show "lib_run sample_empty sample_served"
    unfolding sample_served_def
    by (rule l_call [OF l_call [OF l_call [OF l_call [OF l_refl sk_create [OF collapse3]]
          mo_create [OF collapse3]] cx_create [OF collapse3]] ex_mutate [OF c_create [OF collapse3]]])
qed

definition sample_runner :: runner where
  "sample_runner = start_state sample_served []"

definition sample_run :: "int \<times> runner" where
  "sample_run = run_execution_dialect sample_env 1 600 100000 (Some ''k'') DIALECT_UNKNOWN sample_runner"

lemma sample_runner_db: "rn_db sample_runner = sample_served"
  by (simp add: sample_runner_def start_state_def)


section \<open>The run, phase by phase\<close>

definition sample_row :: execution_t where
  "sample_row = the (fst (acta_db_execution_get 1 sample_served))"

definition sample_refs :: "context_t \<times> skill_revision_t \<times> model_revision_t" where
  "sample_refs = (the (fst (acta_db_context_get 1 sample_served)),
     the (fst (acta_db_skill_revision_get 1 sample_served)), the (fst (acta_db_model_revision_get 1 sample_served)))"

definition sample_mr :: model_revision_t where
  "sample_mr = snd (snd sample_refs)"

definition sample_dialect :: dialect_t where
  "sample_dialect = DIALECT_TABLE (long_of sample_env) ! 1"

definition sample_reply :: backend_response_t where
  "sample_reply = \<lparr>http_status = 200, resp_body = Some ''reply'', latency_ms = 5\<rparr>"

definition at_0 :: runner where
  "at_0 = (snd (with_db (acta_db_execution_start 1) (snd (poll_cancel sample_env sample_runner))))\<lparr>rn_mark := Some 1\<rparr>"

definition at_1 :: runner where
  "at_1 = snd (log_step 1 ''info'' ''execution_started'' ''execution claimed (pending -> running)'' None at_0)"

definition at_2 :: runner where
  "at_2 = snd (poll_cancel sample_env at_1)"

definition at_3 :: runner where
  "at_3 = snd (resolve_refs sample_row at_2)"

definition at_4 :: runner where
  "at_4 = snd (resolve_dialect sample_env 1 sample_row sample_mr DIALECT_UNKNOWN at_3)"

definition at_5 :: runner where
  "at_5 = snd (load_prompt sample_env 1 sample_row (fst sample_refs) (fst (snd sample_refs)) at_4)"

definition at_6 :: runner where
  "at_6 = snd (read_config sample_env (mvr_configuration sample_mr) at_5)"

definition at_7 :: runner where
  "at_7 = snd (read_schema sample_env (fst (snd sample_refs)) at_6)"

definition at_8 :: runner where
  "at_8 = snd (poll_cancel sample_env at_7)"

definition at_9 :: runner where
  "at_9 = snd (size_check ''hi'' (Some ''p'') 100000 at_8)"

definition at_10 :: runner where
  "at_10 = snd (preflight_stage sample_env sample_mr sample_dialect (Some ''k'') 600 at_9)"

definition at_11 :: runner where
  "at_11 = snd (catalog_stage sample_env 1 sample_mr sample_dialect (Some ''k'') 600 (0, ''none'') at_10)"

definition at_12 :: runner where
  "at_12 = snd (chat_stage sample_env 1 sample_mr sample_dialect ''model_revision'' ''hi'' (Some ''p'') default_config None (Some ''k'') 600 at_11)"

definition at_13 :: runner where
  "at_13 = snd (record_stage sample_env 1 sample_reply at_12)"

definition at_14 :: runner where
  "at_14 = snd (validate_stage sample_env 1 None default_config ''42'' at_13)"

definition at_15 :: runner where
  "at_15 = snd (poll_cancel sample_env at_14)"

lemma phase_result: "fst (m s) = Inr x \<Longrightarrow> s1 = snd (m s) \<Longrightarrow> and_then m k s = k x s1"
  by (cases "m s") (simp add: and_then_def)

lemma phase_1: "fst (log_step 1 ''info'' ''execution_started'' ''execution claimed (pending -> running)'' None at_0) = Inr ()"
  by code_simp

lemma phase_2: "fst (poll_cancel sample_env at_1) = Inr ()"
  by code_simp

lemma phase_3: "fst (resolve_refs sample_row at_2) = Inr sample_refs"
  by code_simp

lemma sample_backend: "mvr_backend sample_mr = Some ''openai''"
  by code_simp

lemma phase_4: "fst (resolve_dialect sample_env 1 sample_row sample_mr DIALECT_UNKNOWN at_3)
    = Inr (sample_dialect, ''model_revision'')"
  by (simp add: resolve_dialect_def sample_backend dialect_from_string_def DIALECT_TABLE_def dialect_get_def
      sample_dialect_def go_on_def)

lemma phase_5: "fst (load_prompt sample_env 1 sample_row (fst sample_refs) (fst (snd sample_refs)) at_4) = Inr (''hi'', Some ''p'')"
  by code_simp

lemma phase_6: "fst (read_config sample_env (mvr_configuration sample_mr) at_5) = Inr default_config"
  by code_simp

lemma phase_7: "fst (read_schema sample_env (fst (snd sample_refs)) at_6) = Inr None"
  by code_simp

lemma phase_8: "fst (poll_cancel sample_env at_7) = Inr ()"
  by code_simp

lemma phase_9: "fst (size_check ''hi'' (Some ''p'') 100000 at_8) = Inr ()"
  by code_simp

lemma phase_10: "fst (preflight_stage sample_env sample_mr sample_dialect (Some ''k'') 600 at_9) = Inr (0, ''none'')"
  by code_simp

lemma phase_11: "fst (catalog_stage sample_env 1 sample_mr sample_dialect (Some ''k'') 600 (0, ''none'') at_10) = Inr ()"
  by code_simp

lemma phase_12: "fst (chat_stage sample_env 1 sample_mr sample_dialect ''model_revision'' ''hi'' (Some ''p'') default_config None (Some ''k'') 600 at_11) = Inr sample_reply"
  by code_simp

lemma phase_13: "fst (record_stage sample_env 1 sample_reply at_12) = Inr ''42''"
  by code_simp

lemma phase_14: "fst (validate_stage sample_env 1 None default_config ''42'' at_13) = Inr ()"
  by code_simp

lemma phase_15: "fst (poll_cancel sample_env at_14) = Inr ()"
  by code_simp

lemma go_1: "and_then (log_step 1 ''info'' ''execution_started'' ''execution claimed (pending -> running)'' None) k at_0 = k () at_1"
  by (rule phase_result) (rule phase_1, rule at_1_def)

lemma go_2: "and_then (poll_cancel sample_env) k at_1 = k () at_2"
  by (rule phase_result) (rule phase_2, rule at_2_def)

lemma go_3: "and_then (resolve_refs sample_row) k at_2 = k sample_refs at_3"
  by (rule phase_result) (rule phase_3, rule at_3_def)

lemma go_4: "and_then (resolve_dialect sample_env 1 sample_row sample_mr DIALECT_UNKNOWN) k at_3 = k (sample_dialect, ''model_revision'') at_4"
  by (rule phase_result) (rule phase_4, rule at_4_def)

lemma go_5: "and_then (load_prompt sample_env 1 sample_row (fst sample_refs) (fst (snd sample_refs))) k at_4 = k (''hi'', Some ''p'') at_5"
  by (rule phase_result) (rule phase_5, rule at_5_def)

lemma go_6: "and_then (read_config sample_env (mvr_configuration sample_mr)) k at_5 = k default_config at_6"
  by (rule phase_result) (rule phase_6, rule at_6_def)

lemma go_7: "and_then (read_schema sample_env (fst (snd sample_refs))) k at_6 = k None at_7"
  by (rule phase_result) (rule phase_7, rule at_7_def)

lemma go_8: "and_then (poll_cancel sample_env) k at_7 = k () at_8"
  by (rule phase_result) (rule phase_8, rule at_8_def)

lemma go_9: "and_then (size_check ''hi'' (Some ''p'') 100000) k at_8 = k () at_9"
  by (rule phase_result) (rule phase_9, rule at_9_def)

lemma go_10: "and_then (preflight_stage sample_env sample_mr sample_dialect (Some ''k'') 600) k at_9 = k (0, ''none'') at_10"
  by (rule phase_result) (rule phase_10, rule at_10_def)

lemma go_11: "and_then (catalog_stage sample_env 1 sample_mr sample_dialect (Some ''k'') 600 (0, ''none'')) k at_10 = k () at_11"
  by (rule phase_result) (rule phase_11, rule at_11_def)

lemma go_12: "and_then (chat_stage sample_env 1 sample_mr sample_dialect ''model_revision'' ''hi'' (Some ''p'') default_config None (Some ''k'') 600) k at_11 = k sample_reply at_12"
  by (rule phase_result) (rule phase_12, rule at_12_def)

lemma go_13: "and_then (record_stage sample_env 1 sample_reply) k at_12 = k ''42'' at_13"
  by (rule phase_result) (rule phase_13, rule at_13_def)

lemma go_14: "and_then (validate_stage sample_env 1 None default_config ''42'') k at_13 = k () at_14"
  by (rule phase_result) (rule phase_14, rule at_14_def)

lemma go_15: "and_then (poll_cancel sample_env) k at_14 = k () at_15"
  by (rule phase_result) (rule phase_15, rule at_15_def)

lemma sample_pipeline:
  "pipeline sample_env 1 600 100000 (Some ''k'') DIALECT_UNKNOWN sample_row at_0 = (Inr ''42'', at_15)"
proof -
  have refs: "sample_refs = (fst sample_refs, fst (snd sample_refs), sample_mr)"
    by (simp add: sample_mr_def)
  have "pipeline sample_env 1 600 100000 (Some ''k'') DIALECT_UNKNOWN sample_row at_0 =
    ((case sample_refs of (ctx, skill, model) \<Rightarrow>
       and_then (resolve_dialect sample_env 1 sample_row model DIALECT_UNKNOWN) (\<lambda>(dialect, source).
       and_then (load_prompt sample_env 1 sample_row ctx skill) (\<lambda>(user, system).
       and_then (read_config sample_env (mvr_configuration model)) (\<lambda>cfg.
       and_then (read_schema sample_env skill) (\<lambda>schema_j.
       and_then (poll_cancel sample_env) (\<lambda>_.
       and_then (size_check user system 100000) (\<lambda>_.
       and_then (preflight_stage sample_env model dialect (Some ''k'') 600) (\<lambda>window.
       and_then (catalog_stage sample_env 1 model dialect (Some ''k'') 600 window) (\<lambda>_.
       and_then (chat_stage sample_env 1 model dialect source user system cfg schema_j (Some ''k'') 600) (\<lambda>resp.
       and_then (record_stage sample_env 1 resp) (\<lambda>content.
       and_then (validate_stage sample_env 1 schema_j cfg content) (\<lambda>_.
       and_then (poll_cancel sample_env) (\<lambda>_. go_on content))))))))))))) at_3)"
    unfolding pipeline_def go_1 go_2 go_3 ..
  also have "\<dots> = (Inr ''42'', at_15)"
    by (subst refs) (simp only: prod.case go_4 go_5 go_6 go_7 go_8 go_9 go_10 go_11 go_12 go_13 go_14 go_15
        go_on_def)
  finally show ?thesis .
qed

lemma sample_claim:
  "acta_db_execution_get 1 (rn_db sample_runner) = (Some sample_row, Some ACTA_DB_OK, rn_db sample_runner)"
  "poll_cancel sample_env sample_runner = (Inr (), snd (poll_cancel sample_env sample_runner))"
  "fst (with_db (acta_db_execution_start 1) (snd (poll_cancel sample_env sample_runner))) = ACTA_DB_OK"
  "e_deleted_at sample_row = None" "e_status sample_row = Some ''pending''"
  "fst (acta_db_execution_complete 1 (Some ''42'') (rn_db at_15)) = ACTA_DB_OK"
proof -
  have "fst (acta_db_execution_get 1 (rn_db sample_runner)) = Some sample_row"
    by code_simp
  moreover have "fst (snd (acta_db_execution_get 1 (rn_db sample_runner))) = Some ACTA_DB_OK"
    by code_simp
  moreover have "snd (snd (acta_db_execution_get 1 (rn_db sample_runner))) = rn_db sample_runner"
  proof -
    have "engine (rn_db sample_runner) = []" by code_simp
    then show ?thesis
      by (simp add: acta_db_execution_get_def sql_read_healthy healthy_def split: list.splits)
  qed
  ultimately show "acta_db_execution_get 1 (rn_db sample_runner) = (Some sample_row, Some ACTA_DB_OK, rn_db sample_runner)"
    by (metis prod.collapse)
  show "poll_cancel sample_env sample_runner = (Inr (), snd (poll_cancel sample_env sample_runner))"
    by (simp add: poll_cancel_def backend_cancel_requested_def sample_env_def)
  show "fst (with_db (acta_db_execution_start 1) (snd (poll_cancel sample_env sample_runner))) = ACTA_DB_OK"
    by code_simp
  show "e_deleted_at sample_row = None" "e_status sample_row = Some ''pending''"
    by code_simp+
  show "fst (acta_db_execution_complete 1 (Some ''42'') (rn_db at_15)) = ACTA_DB_OK"
    by code_simp
qed

lemma sample_run_ok: "fst sample_run = EXIT_OK"
proof -
  define s2 where "s2 = snd (poll_cancel sample_env sample_runner)"
  obtain s3 where s3: "with_db (acta_db_execution_start 1) s2 = (ACTA_DB_OK, s3)"
    using sample_claim(3) unfolding s2_def by (metis prod.collapse)
  have at0: "s3\<lparr>rn_mark := Some 1\<rparr> = at_0" using s3 by (simp add: at_0_def s2_def)
  obtain d where d: "acta_db_execution_complete 1 (Some ''42'') (rn_db at_15) = (ACTA_DB_OK, d)"
    using sample_claim(6) by (metis prod.collapse)
  have same: "sample_runner\<lparr>rn_db := rn_db sample_runner\<rparr> = sample_runner" by simp
  have "sample_run = close_execution 1 (Inr ''42'') at_15"
    unfolding sample_run_def run_execution_dialect_def sample_claim(1) prod.case Let_def same
      sample_claim(2) [folded s2_def] s3 err_of_def
    by (simp add: sample_claim(4,5) at0 sample_pipeline)
  then have "fst sample_run = fst (close_execution 1 (Inr ''42'') at_15)" by (rule arg_cong)
  also have "\<dots> = EXIT_OK" by (simp add: close_execution_def with_db_def d)
  finally show ?thesis .
qed

end
