(* ===== verification/Run_Properties.thy ===== *)
theory Run_Properties
  imports Execution_Frame System_Properties Run_Samples
begin

text \<open>
  The properties of a run: it is a sequence of library steps, it touches its own execution only, it
  always closes what it claims, a success means a stored and checked reply, and what it sends. Each
  rests on an interpretation of the frames of \<open>Run_Frame\<close> and \<open>Execution_Frame\<close> with one relation.
\<close>

section \<open>A run is made of library steps\<close>

definition lawful :: "env \<Rightarrow> bool" where
  "lawful E \<longleftrightarrow> (\<forall>n st. db_step\<^sup>*\<^sup>* st (others E n st))"

definition by_steps :: "env \<Rightarrow> runner \<Rightarrow> runner \<Rightarrow> bool" where
  "by_steps E s s' \<longleftrightarrow> (lawful E \<longrightarrow> db_step\<^sup>*\<^sup>* (store (rn_db s)) (store (rn_db s')))"

lemma call_steps: "lib_call d rc d' \<Longrightarrow> db_step\<^sup>*\<^sup>* (store d) (store d')"
  by (blast dest: lib_call_db_step)

lemmas exec_call_steps = exec_call.intros [THEN ex_mutate, THEN call_steps]

interpretation steps: execution_frame E i "by_steps E" for E i
proof unfold_locales
  show "by_steps E s u" if "by_steps E s t" "by_steps E t u" for s t u
    using that by (auto simp: by_steps_def)
  show "by_steps E s (s\<lparr>rn_db := d\<rparr>)" if "acta_db_execution_log_create l (rn_db s) = (rc, out, d)" for l s rc out d
    using call_steps [OF lg_create [OF that]] by (simp add: by_steps_def)
  show "by_steps E s s'" if "backend_request E meth u b k t s = (r, s')" for meth u b k t s r s'
    using that by (auto simp: by_steps_def lawful_def backend_request_def Let_def
        split: if_splits prod.splits curl_reply.splits)
qed (auto simp: by_steps_def same_db_def put_err_def put_out_def dest: exec_call_steps)

interpretation action_steps: command_frame E "by_steps E" for E
  by unfold_locales


definition sample_host :: host where
  "sample_host = \<lparr>getenv = (\<lambda>v. if v = ''OPENAI_API_KEY'' then Some ''k'' else None),
     conf_parse = (\<lambda>s. None), conf_error_ptr = (\<lambda>s. None), conf_long_of = (\<lambda>r. \<lfloor>r\<rfloor>),
     conf_mem = (\<lambda>s. True), conf_stat = (\<lambda>p. None), conf_slurp = (\<lambda>p. None), conf_vararg = [],
     legacy_db = False, time_now = 0\<rparr>"


section \<open>Its own execution only\<close>

definition undisturbed :: "env \<Rightarrow> bool" where
  "undisturbed E \<longleftrightarrow> (\<forall>n st. others E n st = st)"

definition only_own :: "int \<Rightarrow> store \<Rightarrow> store \<Rightarrow> bool" where
  "only_own i st st' \<longleftrightarrow>
     st' = st\<lparr>executions := executions st', execution_logs := execution_logs st'\<rparr>
     \<and> (\<forall>j. j \<noteq> i \<longrightarrow> tbl_get ex_id (executions st') j = tbl_get ex_id (executions st) j)
     \<and> (\<exists>ls. rows (execution_logs st') = rows (execution_logs st) @ ls \<and> (\<forall>l\<in>set ls. lg_execution_id l = i))"

lemma only_own_refl: "only_own i st st"
  by (simp add: only_own_def)

lemma only_own_trans:
  assumes a: "only_own i st st1" and b: "only_own i st1 st2"
  shows "only_own i st st2"
  using a b unfolding only_own_def by (cases st; cases st1; cases st2) auto

lemma edit_only_own: "exec_effect i g e st rc st' \<Longrightarrow> only_own i st st'"
  by (auto simp: exec_effect_def only_own_def exec_rows.get_upd_id split: if_splits)

lemma log_only_own:
  assumes "acta_db_execution_log_create l d = (rc, out, d')" and "l_execution_id l = i"
  shows "only_own i (store d) (store d')"
  using log_create_effect [OF assms(1)] assms(2) by (auto simp: only_own_def split: if_splits)

lemma request_undisturbed:
  "backend_request E meth u b k t s = (r, s') \<Longrightarrow> undisturbed E \<Longrightarrow> rn_db s' = rn_db s"
  by (auto simp: undisturbed_def backend_request_def Let_def split: if_splits prod.splits curl_reply.splits)

definition own_only :: "env \<Rightarrow> int \<Rightarrow> runner \<Rightarrow> runner \<Rightarrow> bool" where
  "own_only E i s s' \<longleftrightarrow> (undisturbed E \<longrightarrow> only_own i (store (rn_db s)) (store (rn_db s')))"

interpretation own: execution_frame E i "own_only E i" for E i
proof unfold_locales
  show "own_only E i s u" if "own_only E i s t" "own_only E i t u" for s t u
    using that by (auto simp: own_only_def intro: only_own_trans)
  show "own_only E i s s'" if "backend_request E meth u b k t s = (r, s')" for meth u b k t s r s'
    using request_undisturbed [OF that] by (auto simp: own_only_def only_own_refl)
  show "own_only E i s (s\<lparr>rn_db := d\<rparr>)"
    if "acta_db_execution_log_create l (rn_db s) = (rc, out, d)" "l_execution_id l = i" for l s rc out d
    using log_only_own [OF that] by (simp add: own_only_def)
  show "own_only E i s (s\<lparr>rn_db := d\<rparr>)" if "acta_db_execution_set_raw_response i v (rn_db s) = (rc, d)" for s v rc d
    using edit_only_own [OF set_raw_response_effect [OF that]] by (simp add: own_only_def)
  show "own_only E i s (s\<lparr>rn_db := d\<rparr>)" if "acta_db_execution_start i (rn_db s) = (rc, d)" for s rc d
    using edit_only_own [OF start_effect [OF that]] by (simp add: own_only_def)
  show "own_only E i s (s\<lparr>rn_db := d\<rparr>)" if "acta_db_execution_complete i v (rn_db s) = (rc, d)" for s v rc d
    using edit_only_own [OF complete_effect [OF that]] by (simp add: own_only_def)
  show "own_only E i s (s\<lparr>rn_db := d\<rparr>)" if "acta_db_execution_fail i v (rn_db s) = (rc, d)" for s v rc d
    using edit_only_own [OF fail_effect [OF that]] by (simp add: own_only_def)
  show "own_only E i s (s\<lparr>rn_db := d\<rparr>)" if "acta_db_execution_cancel i (rn_db s) = (rc, d)" for s rc d
    using edit_only_own [OF cancel_effect [OF that]] by (simp add: own_only_def)
qed (simp_all add: own_only_def same_db_def put_err_def put_out_def only_own_refl)

text \<open>Claim C18: With no other process at work, a run of an execution leaves everything in the database
  as it was except the row of that execution and new log lines of it, whatever the server answers and
  whatever the engine does.\<close>

theorem run_touches_its_own_row:
  assumes "run_execution_dialect E i t limit key ov s = (code, s')" and "undisturbed E"
  shows "only_own i (store (rn_db s)) (store (rn_db s'))"
  using own.run_execution_dialect [OF assms(1)] assms(2) by (simp add: own_only_def)

lemma run_touches_its_own_row_witness:
  "only_own 1 (store sample_served) (store (rn_db (snd sample_run)))"
  using run_touches_its_own_row [where E = sample_env and s = sample_runner, OF prod.collapse [symmetric]]
  by (simp add: undisturbed_def sample_env_def sample_runner_db sample_run_def)

section \<open>What is claimed is closed\<close>

text \<open>The row of the execution between the claim and the closing.\<close>

definition kept_row :: "int \<Rightarrow> db_t \<Rightarrow> db_t \<Rightarrow> bool" where
  "kept_row i d d' \<longleftrightarrow> (healthy d \<longrightarrow> healthy d') \<and> clock d' = clock d
     \<and> (exec_ok (store d) \<longrightarrow> exec_ok (store d')
        \<and> (\<forall>r. row_at d i = Some r \<longrightarrow> (\<exists>v. row_at d' i = Some (r\<lparr>ex_raw_response := v\<rparr>))))"

lemma raw_self [simp]: "\<exists>v. r = r\<lparr>ex_raw_response := v\<rparr>"
  by (rule exI [of _ "ex_raw_response r"]) simp

lemma kept_row_refl [simp]: "kept_row i d d"
  by (simp add: kept_row_def)

lemma kept_row_trans:
  assumes "kept_row i a b" and "kept_row i b c" shows "kept_row i a c"
  using assms unfolding kept_row_def by fastforce

definition keeps_row :: "env \<Rightarrow> int \<Rightarrow> runner \<Rightarrow> runner \<Rightarrow> bool" where
  "keeps_row E i s s' \<longleftrightarrow> (undisturbed E \<longrightarrow> kept_row i (rn_db s) (rn_db s'))"

lemma sql_write_health: "sql_write st d = (res, d') \<Longrightarrow> healthy d \<Longrightarrow> healthy d'"
  by (auto simp: sql_write_healthy split: sum.splits)

lemma log_keeps_row: "acta_db_execution_log_create l d = (rc, out, d') \<Longrightarrow> kept_row i d d'"
proof -
  assume l: "acta_db_execution_log_create l d = (rc, out, d')"
  have ex: "executions (store d') = executions (store d)"
    using log_create_effect [OF l] by (auto split: if_splits)
  have "healthy d \<Longrightarrow> healthy d'" and "clock d' = clock d"
    using l by (auto simp: acta_db_execution_log_create_def split: option.splits prod.splits if_splits write_result.splits
        dest: sql_write_health sql_write_fields)
  moreover have "row_at d' i = row_at d i" by (simp add: row_at_def ex)
  moreover have "exec_ok (store d') = exec_ok (store d)" by (simp add: exec_ok_def ex)
  ultimately show ?thesis using kept_row_refl [of i d] by (auto simp: kept_row_def)
qed

lemma finish_health: "finish_update code msg (sql_write st d) = (rc, d') \<Longrightarrow> (healthy d \<longrightarrow> healthy d') \<and> clock d' = clock d"
  by (cases "sql_write st d"; cases "fst (sql_write st d)")
    (auto dest: sql_write_health sql_write_fields split: if_splits)

lemma raw_keeps_row: "acta_db_execution_set_raw_response i v d = (rc, d') \<Longrightarrow> kept_row i d d'"
proof -
  assume r: "acta_db_execution_set_raw_response i v d = (rc, d')"
  have e: "exec_effect i (\<lambda>r. True) (SetRaw v) (store d) rc (store d')" by (rule set_raw_response_effect [OF r])
  have "exec_ok (store d')" if "exec_ok (store d)"
    by (rule outcome_exec_ok [OF exec_call_outcome [OF c_raw [OF r]] that])
  moreover have "\<exists>w. row_at d' i = Some (x\<lparr>ex_raw_response := w\<rparr>)" if x: "row_at d i = Some x" for x
  proof (cases "rc = ACTA_DB_OK")
    case True
    then show ?thesis using e x by (auto simp: exec_effect_def row_at_def exec_rows.get_upd_id)
  next
    case False
    then have "row_at d' i = Some (x\<lparr>ex_raw_response := ex_raw_response x\<rparr>)"
      using e x by (simp add: exec_effect_def row_at_def)
    then show ?thesis by blast
  qed
  ultimately show ?thesis
    using finish_health [OF r [unfolded acta_db_execution_set_raw_response_def]] by (simp add: kept_row_def)
qed

interpretation kept: run_frame E i "keeps_row E i" for E i
proof unfold_locales
  show "keeps_row E i s u" if "keeps_row E i s t" "keeps_row E i t u" for s t u
    using that by (auto simp: keeps_row_def intro: kept_row_trans)
  show "keeps_row E i s s'" if "backend_request E meth u b k t s = (r, s')" for meth u b k t s r s'
    using request_undisturbed [OF that] by (auto simp: keeps_row_def)
  show "keeps_row E i s (s\<lparr>rn_db := d\<rparr>)" if "same_db (rn_db s) d" for s d
    using that kept_row_refl [of i "rn_db s"]
    by (auto simp: keeps_row_def kept_row_def same_db_def row_at_def)
qed (simp_all add: keeps_row_def put_err_def log_keeps_row raw_keeps_row)

text \<open>Phases that only log leave the executions alone.\<close>

definition same_rows :: "runner \<Rightarrow> runner \<Rightarrow> bool" where
  "same_rows s s' \<longleftrightarrow> executions (store (rn_db s')) = executions (store (rn_db s))"

lemma log_same_rows:
  "acta_db_execution_log_create l d = (rc, out, d') \<Longrightarrow> executions (store d') = executions (store d)"
  using log_create_effect [of l d rc out d'] by (auto split: if_splits)

interpretation rows_kept: quiet_frame E i same_rows for E i
  by unfold_locales (auto simp: same_rows_def same_db_def put_err_def dest: log_same_rows)

lemma record_content:
  assumes "record_stage E i resp s = (Inr content, s')"
  shows "content \<noteq> [] \<and> (\<exists>r. row_at (rn_db s') i = Some r \<and> ex_raw_response r = Some content)
    \<and> (\<exists>b jr. resp_body resp = Some b \<and> cJSON_Parse E b = Some jr \<and> reply_content jr = Some content)"
proof -
  obtain b jr rc s1 where j: "resp_body resp = Some b" "cJSON_Parse E b = Some jr"
      "reply_content jr = Some content"
    and raw: "with_db (acta_db_execution_set_raw_response i (Some content)) s = (ACTA_DB_OK, s1)"
    and lg: "same_rows s1 s'"
    using assms
    by (auto simp: record_stage_def FAIL_def leave_def go_on_def and_then_Inr
        split: option.splits prod.splits if_splits bind_splits
        dest!: keepsD [OF rows_kept.log_step])
  have "exec_effect i (\<lambda>r. True) (SetRaw (Some content)) (store (rn_db s)) ACTA_DB_OK (store (rn_db s1))"
    using raw by (auto simp: with_db_def split: prod.splits dest: set_raw_response_effect)
  then have "\<exists>r. row_at (rn_db s1) i = Some r \<and> ex_raw_response r = Some content"
    by (auto simp: exec_effect_def row_at_def exec_rows.get_upd_id)
  moreover have "row_at (rn_db s') i = row_at (rn_db s1) i"
    using lg by (simp add: same_rows_def row_at_def)
  moreover have "content \<noteq> []"
    using j(3) by (auto simp: reply_content_def Let_def split: option.splits list.splits)
  ultimately show ?thesis using j by auto
qed

lemma pipeline_content:
  assumes "pipeline E i t limit key ov e s = (Inr content, s')"
  shows "content \<noteq> [] \<and> (\<exists>r. row_at (rn_db s') i = Some r \<and> ex_raw_response r = Some content)"
proof -
  obtain resp s1 s2 schema_j cfg s3 where rec: "record_stage E i resp s1 = (Inr content, s2)"
    and val: "validate_stage E i schema_j cfg content s2 = (Inr (), s3)"
    and fin: "poll_cancel E s3 = (Inr (), s')"
    using assms unfolding pipeline_def by (auto simp: and_then_Inr go_on_def split: prod.splits)
  have "row_at (rn_db s') i = row_at (rn_db s2) i"
    using keepsD [OF rows_kept.validate_stage val] keepsD [OF rows_kept.poll_cancel fin]
    by (simp add: same_rows_def row_at_def)
  then show ?thesis using record_content [OF rec] by simp
qed

definition ends :: "int \<Rightarrow> int \<Rightarrow> runner \<Rightarrow> bool" where
  "ends i code s \<longleftrightarrow>
     (\<exists>r. row_at (rn_db s) i = Some r \<and>
        (if code = EXIT_OK
         then ex_status r = ''completed'' \<and> ex_result r \<noteq> None \<and> ex_result r \<noteq> Some []
              \<and> ex_raw_response r = ex_result r
         else if code = EXIT_CANCELED then ex_status r = ''cancelled''
         else ex_status r = ''failed''
              \<and> (\<exists>msg. ex_error r = Some msg \<and> last (rn_stderr s) = error_line ''ACTA_RUNNER_ERROR'' code msg)))"

lemma fail_ends:
  assumes "fail_execution i c msg s = (code, s')" and "c \<in> run_codes" and "c \<noteq> EXIT_CANCELED"
    and "healthy (rn_db s)" and "exec_ok (store (rn_db s))"
    and "row_at (rn_db s) i = Some r" and "ex_status r = ''running''"
  shows "code = c \<and> ends i code s'"
proof -
  obtain rc s1 where l: "log_phase i ''error'' ''execution_failed'' msg None s = (rc, s1)" by fastforce
  obtain rc' d where f: "acta_db_execution_fail i (Some msg) (rn_db s1) = (rc', d)" by fastforce
  have s': "s' = put_err (snd (emit_runner_error c msg)) (s1\<lparr>rn_db := d\<rparr>)" and code: "code = c"
    using assms(1) by (auto simp: fail_execution_def l with_db_def f emit_runner_error_def)
  have k: "kept_row i (rn_db s) (rn_db s1)"
    using l by (auto simp: log_phase_def split: prod.splits dest: log_keeps_row)
  then obtain v where h: "healthy (rn_db s1)" and ok: "exec_ok (store (rn_db s1))"
    and r: "row_at (rn_db s1) i = Some (r\<lparr>ex_raw_response := v\<rparr>)"
    using assms(4,5,6) by (auto simp: kept_row_def)
  have "rc' = ACTA_DB_OK"
    using fail_code [OF h ok, of i "Some msg"] f r assms(7) by (simp add: exec_code_def)
  then have "\<exists>r'. row_at d i = Some r' \<and> ex_status r' = ''failed'' \<and> ex_error r' = Some msg"
    using fail_effect [OF f] by (auto simp: exec_effect_def row_at_def exec_rows.get_upd_id)
  then show ?thesis
    using assms(2,3) by (auto simp: ends_def s' code put_err_def emit_runner_error_def run_codes_def)
qed

lemma cancel_ends:
  assumes "cancel_execution i s = (code, s')"
    and "healthy (rn_db s)" and "exec_ok (store (rn_db s))"
    and "row_at (rn_db s) i = Some r" and "ex_status r \<in> {''pending'', ''running''}"
  shows "code = EXIT_CANCELED \<and> ends i code s'"
proof -
  obtain rc s1 where l: "log_phase i ''info'' ''execution_cancelled'' ''execution cancelled by user'' None s = (rc, s1)"
    by fastforce
  obtain rc' d where f: "acta_db_execution_cancel i (rn_db s1) = (rc', d)" by fastforce
  have s': "s' = s1\<lparr>rn_db := d\<rparr>" and code: "code = EXIT_CANCELED"
    using assms(1) by (simp_all add: cancel_execution_def l with_db_def f)
  have k: "kept_row i (rn_db s) (rn_db s1)"
    using l by (auto simp: log_phase_def split: prod.splits dest: log_keeps_row)
  then obtain v where h: "healthy (rn_db s1)" and ok: "exec_ok (store (rn_db s1))"
    and r: "row_at (rn_db s1) i = Some (r\<lparr>ex_raw_response := v\<rparr>)"
    using assms(2,3,4) by (auto simp: kept_row_def)
  have "rc' = ACTA_DB_OK"
    using cancel_code [OF h ok, of i] f r assms(5) by (simp add: exec_code_def)
  then have "\<exists>r'. row_at d i = Some r' \<and> ex_status r' = ''cancelled''"
    using cancel_effect [OF f] by (auto simp: exec_effect_def row_at_def exec_rows.get_upd_id)
  then show ?thesis by (auto simp: ends_def s' code)
qed

lemma verified_health:
  assumes "(case exec_verify_status i st why d of (rc, d1) \<Rightarrow>
      if rc \<noteq> ACTA_DB_OK then (rc, d1) else exec_update i g (e d1) op d1) = (rc', d')" and "healthy d"
  shows "healthy d'"
proof -
  obtain rc1 d1 where v: "exec_verify_status i st why d = (rc1, d1)" by fastforce
  then have h: "healthy d1" using verify_status_healthy [OF assms(2), of i st why] by simp
  have "(if rc1 \<noteq> ACTA_DB_OK then (rc1, d1) else exec_update i g (e d1) op d1) = (rc', d')"
    using assms(1) unfolding v by simp
  then show ?thesis using h finish_health unfolding exec_update_def by (auto split: if_splits)
qed

lemma start_health: "acta_db_execution_start i d = (rc, d') \<Longrightarrow> healthy d \<Longrightarrow> healthy d'"
  unfolding acta_db_execution_start_def by (rule verified_health)

lemma complete_ends:
  assumes "close_execution i (Inr content) s = (code, s')"
    and "healthy (rn_db s)" and "exec_ok (store (rn_db s))" and "content \<noteq> []"
    and "row_at (rn_db s) i = Some r" and "ex_status r = ''running''" and "ex_raw_response r = Some content"
  shows "code = EXIT_OK \<and> ends i code s'"
proof -
  obtain rc d where c: "acta_db_execution_complete i (Some content) (rn_db s) = (rc, d)" by fastforce
  have "rc = ACTA_DB_OK"
    using complete_code [OF assms(2,3), of i "Some content"] c assms(5,6) by (simp add: exec_code_def)
  moreover obtain rc' s2 where l: "log_phase i ''info'' ''execution_completed'' ''execution completed'' None
      (s\<lparr>rn_db := d\<rparr>) = (rc', s2)" by fastforce
  ultimately have s': "code = EXIT_OK" "s' = s2"
    using assms(1) by (auto simp: close_execution_def with_db_def c)
  have "row_at d i = Some (exec_apply (SetCompleted (Some content) (clock (rn_db s))) r)"
    using complete_effect [OF c] \<open>rc = ACTA_DB_OK\<close> assms(5)
    by (auto simp: exec_effect_def row_at_def exec_rows.get_upd_id)
  moreover have "same_rows (s\<lparr>rn_db := d\<rparr>) s2"
    using l by (auto simp: log_phase_def same_rows_def split: prod.splits dest: log_same_rows)
  ultimately show ?thesis
    using assms(4,7) by (simp add: ends_def s' same_rows_def row_at_def)
qed

lemma close_ends:
  assumes "close_execution i r s = (code, s')"
    and "\<And>c msg. r = Inl (c, msg) \<Longrightarrow> c \<in> run_codes"
    and "\<And>content. r = Inr content \<Longrightarrow> content \<noteq> [] \<and> ex_raw_response row = Some content"
    and "healthy (rn_db s)" and "exec_ok (store (rn_db s))"
    and "row_at (rn_db s) i = Some row" and "ex_status row = ''running''"
  shows "code \<in> insert EXIT_OK run_codes \<and> ends i code s'"
proof (cases r)
  case (Inr content)
  then show ?thesis using complete_ends assms by blast
next
  case (Inl e)
  obtain c msg where e: "e = (c, msg)" by fastforce
  have c: "c \<in> run_codes" using assms(2) Inl e by simp
  show ?thesis
  proof (cases "c = EXIT_CANCELED")
    case True
    then have "cancel_execution i s = (code, s')" using assms(1) Inl e by (simp add: close_execution_def)
    then have "code = EXIT_CANCELED \<and> ends i code s'" using cancel_ends assms(4-7) by simp
    then show ?thesis using c True by auto
  next
    case False
    then have "fail_execution i c msg s = (code, s')" using assms(1) Inl e by (simp add: close_execution_def)
    then have "code = c \<and> ends i code s'" using fail_ends c False assms(4-7) by blast
    then show ?thesis using c by auto
  qed
qed

lemma run_ends:
  assumes "run_execution_dialect E i t limit key ov s = (code, s')"
    and "undisturbed E" and "healthy (rn_db s)" and "exec_ok (store (rn_db s))"
    and "row_at (rn_db s) i = Some r" and "ex_status r = ''pending''" and "ex_deleted_at r = None"
  shows "code \<in> insert EXIT_OK run_codes \<and> ends i code s'"
proof -
  have pos: "0 < i"
    using assms(4,5) by (auto simp: exec_ok_def tbl_ok_def row_at_def dest!: tbl_get_SomeD)
  have get: "acta_db_execution_get i (rn_db s) = (Some (row_to_execution r), Some ACTA_DB_OK, rn_db s)"
    using exec_get_healthy [OF assms(3) pos] assms(5) by (simp add: row_at_def)
  obtain q s2 where p: "poll_cancel E s = (q, s2)" by fastforce
  have d2: "rn_db s2 = rn_db s"
    using p by (auto simp: poll_cancel_def backend_cancel_requested_def CANCEL_def leave_def split: if_splits)
  have same: "s\<lparr>rn_db := rn_db s\<rparr> = s" by simp
  have e: "e_deleted_at (row_to_execution r) = None" "e_status (row_to_execution r) = Some ''pending''"
    using assms(6,7) by (simp_all add: row_to_execution_def)
  show ?thesis
  proof (cases q)
    case (Inl left)
    then have left: "left = (EXIT_CANCELED, snprintf 512 ''execution cancelled by user'')"
      using p by (auto simp: poll_cancel_def CANCEL_def leave_def split: prod.splits if_splits)
    then have "cancel_execution i s2 = (code, s')"
      using assms(1) p Inl by (simp add: run_execution_dialect_def get same e err_of_def close_execution_def Let_def)
    then have "code = EXIT_CANCELED \<and> ends i code s'"
      using cancel_ends assms(3-6) by (simp add: d2)
    then show ?thesis by (auto simp: run_codes_def)
  next
    case (Inr u)
    obtain rc d3 where st: "acta_db_execution_start i (rn_db s2) = (rc, d3)" by fastforce
    have rc: "rc = ACTA_DB_OK"
      using start_code [OF assms(3,4), of i] st assms(5,6) by (simp add: d2 exec_code_def)
    define s3 where "s3 = s2\<lparr>rn_db := d3, rn_mark := Some i\<rparr>"
    obtain q4 s4 where pl: "pipeline E i t limit key ov (row_to_execution r) s3 = (q4, s4)" by fastforce
    have close: "close_execution i q4 s4 = (code, s')"
      using assms(1) p Inr st rc pl
      by (auto simp: run_execution_dialect_def get same e err_of_def with_db_def Let_def s3_def)
    have h3: "healthy d3"
      using start_health [OF st] assms(3) by (simp add: d2)
    have ok3: "exec_ok (store d3)"
      using outcome_exec_ok [OF exec_call_outcome [OF c_start [OF st]]] assms(4) by (simp add: d2)
    have r3: "row_at d3 i = Some (exec_apply (SetRunning (clock (rn_db s))) r)"
      using start_effect [OF st] rc assms(5) by (auto simp: exec_effect_def row_at_def exec_rows.get_upd_id d2)
    have "kept_row i d3 (rn_db s4)"
      using keepsD [OF kept.pipeline pl] assms(2) by (simp add: keeps_row_def s3_def)
    then obtain v where h4: "healthy (rn_db s4)" and ok4: "exec_ok (store (rn_db s4))"
      and r4: "row_at (rn_db s4) i = Some ((exec_apply (SetRunning (clock (rn_db s))) r)\<lparr>ex_raw_response := v\<rparr>)"
      using h3 ok3 r3 by (auto simp: kept_row_def)
    show ?thesis
    proof (rule close_ends [OF close _ _ h4 ok4 r4])
      show "c \<in> run_codes" if "q4 = Inl (c, msg)" for c msg
        using leaves_pipeline [of E i t limit key ov "row_to_execution r"] pl [unfolded that]
        unfolding leaves_ok_def by blast
      show "content \<noteq> [] \<and> ex_raw_response ((exec_apply (SetRunning (clock (rn_db s))) r)\<lparr>ex_raw_response := v\<rparr>)
          = Some content" if "q4 = Inr content" for content
        using pipeline_content [OF pl [unfolded that]] r4 by simp
    qed simp
  qed
qed

text \<open>Claim C4: A run never leaves its execution behind in running: on an engine without faults and
  with no one else at work, running a live pending execution ends, whatever the server answers and
  whenever cancellation is asked for, with the row completed (exit code 0, a non-empty result equal
  to the stored raw response), cancelled (exit code 14), or failed (one of the codes 2, 4, 12, 13,
  with the same message in the row and in the error line that carries the code).\<close>

theorem run_settles:
  assumes "run_execution_dialect E i t limit key ov s = (code, s')"
    and "undisturbed E" and "healthy (rn_db s)" and "exec_ok (store (rn_db s))"
    and "row_at (rn_db s) i = Some r" and "ex_status r = ''pending''" and "ex_deleted_at r = None"
  shows "code \<in> insert EXIT_OK run_codes \<and> ends i code s'"
  using assms by (rule run_ends)

lemma run_settles_witness: "ends 1 EXIT_OK (snd sample_run)"
proof -
  have r: "row_at (rn_db sample_runner) 1 = Some (the (row_at (rn_db sample_runner) 1))"
    by code_simp
  have run: "run_execution_dialect sample_env 1 600 100000 (Some ''k'') DIALECT_UNKNOWN sample_runner
      = (fst sample_run, snd sample_run)"
    by (simp add: sample_run_def)
  have "fst sample_run \<in> insert EXIT_OK run_codes \<and> ends 1 (fst sample_run) (snd sample_run)"
  proof (rule run_settles [OF run _ _ _ r])
    show "undisturbed sample_env" by (simp add: undisturbed_def sample_env_def)
    show "exec_ok (store (rn_db sample_runner))" using sample_served_ok by (simp add: sample_runner_db db_ok_def)
    show "healthy (rn_db sample_runner)" by code_simp
    show "ex_status (the (row_at (rn_db sample_runner) 1)) = ''pending''" by code_simp
    show "ex_deleted_at (the (row_at (rn_db sample_runner) 1)) = None" by code_simp
  qed
  then show ?thesis by (simp add: sample_run_ok)
qed

end
