(* ===== verification/Request_Properties.thy ===== *)
theory Request_Properties
  imports Run_Properties "HOL-Library.Sublist"
begin

text \<open>
  What a run sends and what it stores as a success. The requests of a run are read off phase by phase:
  every phase before the preflight sends nothing (an interpretation of \<open>phase_frame\<close>), and \<open>calls\<close>
  composes what the phases after it send. No assumption on the server, the engine or other processes
  is made in this theory.
\<close>

section \<open>Phases that send nothing\<close>

definition before_call :: "runner \<Rightarrow> runner \<Rightarrow> bool" where
  "before_call s s' \<longleftrightarrow> rn_requests s' = rn_requests s
     \<and> contexts (store (rn_db s')) = contexts (store (rn_db s))
     \<and> skill_revisions (store (rn_db s')) = skill_revisions (store (rn_db s))
     \<and> model_revisions (store (rn_db s')) = model_revisions (store (rn_db s))"

lemma edit_before_call:
  "exec_effect i g e (store (rn_db s)) rc (store d) \<Longrightarrow> before_call s (s\<lparr>rn_db := d\<rparr>)"
  by (auto simp: exec_effect_def before_call_def split: if_splits)

lemma log_before_call:
  "acta_db_execution_log_create l (rn_db s) = (rc, out, d) \<Longrightarrow> before_call s (s\<lparr>rn_db := d\<rparr>)"
  using log_create_effect [of l "rn_db s" rc out d] by (auto simp: before_call_def split: if_splits)

interpretation silent: phase_frame E i before_call for E i
  by unfold_locales
    (auto simp: before_call_def same_db_def put_err_def
      dest: log_before_call edit_before_call [OF set_raw_response_effect, unfolded before_call_def]
        log_before_call [unfolded before_call_def])

text \<open>If requests are sent at all, or the rest of the run goes on to its end, a silent phase has gone on.\<close>

definition gets_on :: "runner \<Rightarrow> 'e + 'a \<Rightarrow> runner \<Rightarrow> bool" where
  "gets_on s r s' \<longleftrightarrow> rn_requests s' \<noteq> rn_requests s \<or> (\<exists>x. r = Inr x)"

lemma silent_then:
  assumes "and_then m k s = (r, s')" and "gets_on s r s'" and "keeps before_call m"
  obtains x s1 where "m s = (Inr x, s1)" and "k x s1 = (r, s')" and "before_call s s1" and "gets_on s1 r s'"
  using assms(1)
proof (cases rule: and_then_cases)
  case (left e)
  then show ?thesis using keepsD [OF assms(3) left(1)] assms(2) by (simp add: before_call_def gets_on_def)
next
  case (right x s1)
  have "before_call s s1" by (rule keepsD [OF assms(3) right(1)])
  then show ?thesis using right assms(2) by (intro that [of x s1]) (auto simp: before_call_def gets_on_def)
qed

section \<open>The requests of the phases that call\<close>

text \<open>
  \<open>calls m L\<close>: the phase sends a list of \<open>L\<close> when it goes on, and an initial part of one when it leaves.
\<close>

definition calls :: "'a act \<Rightarrow> http_request list set \<Rightarrow> bool" where
  "calls m L \<longleftrightarrow> (\<forall>s r s'. m s = (r, s') \<longrightarrow>
     (\<exists>rs. rn_requests s' = rn_requests s @ rs
        \<and> (case r of Inl e \<Rightarrow> (\<exists>l\<in>L. prefix rs l) | Inr x \<Rightarrow> rs \<in> L)))"

lemma calls_silent: "keeps before_call m \<Longrightarrow> calls m {[]}"
  by (auto simp: calls_def before_call_def dest!: keepsD split: sum.split)

lemma calls_and_then:
  assumes m: "calls m L" and k: "\<And>x. calls (k x) K" and ne: "K \<noteq> {}"
  shows "calls (and_then m k) {a @ b | a b. a \<in> L \<and> b \<in> K}"
  unfolding calls_def
proof (intro allI impI)
  fix s r s'
  assume "and_then m k s = (r, s')"
  then show "\<exists>rs. rn_requests s' = rn_requests s @ rs
    \<and> (case r of Inl e \<Rightarrow> (\<exists>l\<in>{a @ b | a b. a \<in> L \<and> b \<in> K}. prefix rs l)
       | Inr x \<Rightarrow> rs \<in> {a @ b | a b. a \<in> L \<and> b \<in> K})"
  proof (cases rule: and_then_cases)
    case (left e)
    then obtain rs l where "rn_requests s' = rn_requests s @ rs" "l \<in> L" "prefix rs l"
      using m unfolding calls_def by fastforce
    moreover obtain b where "b \<in> K" using ne by blast
    ultimately show ?thesis using left(2) by (auto intro: prefix_prefix)
  next
    case (right x s1)
    then obtain a where a: "rn_requests s1 = rn_requests s @ a" "a \<in> L"
      using m unfolding calls_def by fastforce
    obtain b where b: "rn_requests s' = rn_requests s1 @ b"
      "case r of Inl e \<Rightarrow> (\<exists>l\<in>K. prefix b l) | Inr x \<Rightarrow> b \<in> K"
      using k right(2) unfolding calls_def by blast
    then have "rn_requests s' = rn_requests s @ (a @ b)" using a by simp
    moreover have "case r of Inl e \<Rightarrow> (\<exists>l\<in>{a @ b | a b. a \<in> L \<and> b \<in> K}. prefix (a @ b) l)
        | Inr x \<Rightarrow> a @ b \<in> {a @ b | a b. a \<in> L \<and> b \<in> K}"
      using a(2) b(2) by (cases r) (auto, metis same_prefix_prefix)
    ultimately show ?thesis by blast
  qed
qed

definition the_request :: "string \<Rightarrow> string \<Rightarrow> string \<Rightarrow> string option \<Rightarrow> string option \<Rightarrow> int \<Rightarrow> http_request" where
  "the_request meth base tail json_body api_key timeout_sec =
     \<lparr>rq_method = meth, rq_url = build_url 1024 base tail,
      rq_body = (if meth = ''POST'' then Some (or_empty json_body) else None),
      rq_key = (if api_key = Some [] then None else api_key), rq_timeout = timeout_sec\<rparr>"

lemma request_sends:
  assumes "backend_request E meth (build_url 1024 base tail) body key t s = ((brc, resp), s')"
  shows "rn_requests s' = rn_requests s @ [the_request meth base tail body key t]
    \<or> rn_requests s' = rn_requests s \<and> brc \<noteq> BACKEND_OK \<and> brc \<noteq> BACKEND_ERR_CANCELED"
  using assms
  by (auto simp: backend_request_def Let_def the_request_def or_empty_def split: if_splits prod.splits curl_reply.splits)


abbreviation (input) health_request where
  "health_request base key t \<equiv> the_request ''GET'' base ''/health'' None key t"

abbreviation (input) models_request where
  "models_request base key t \<equiv> the_request ''GET'' base ''/v1/models'' None key t"

lemma preflight_sends:
  assumes "backend_preflight E base mid dl key t s = ((prc, pf), s')"
  shows "\<exists>rs. rn_requests s' = rn_requests s @ rs \<and> prefix rs [health_request base key t, models_request base key t]
    \<and> (prc = PREFLIGHT_OK \<longrightarrow> rs = [health_request base key t, models_request base key t])"
proof -
  obtain brc r s1 where h: "backend_request E ''GET'' (build_url 1024 base ''/health'') None key t s = ((brc, r), s1)"
    by (metis prod.collapse)
  obtain brc2 r2 s2 where m: "backend_request E ''GET'' (build_url 1024 base ''/v1/models'') None key t s1 = ((brc2, r2), s2)"
    by (metis prod.collapse)
  note sent = request_sends [OF h] request_sends [OF m]
  show ?thesis
  proof (cases "brc = BACKEND_OK \<and> http_status r = 200")
    case True
    then have 1: "rn_requests s1 = rn_requests s @ [health_request base key t]" using sent(1) by blast
    have 2: "s' = s2" "prc = PREFLIGHT_OK \<longrightarrow> brc2 = BACKEND_OK"
      using assms True by (auto simp: backend_preflight_def h m Let_def split: if_splits option.splits prod.splits)
    show ?thesis using sent(2) 1 2 by auto
  next
    case False
    then have "s' = s1" "prc \<noteq> PREFLIGHT_OK"
      using assms by (auto simp: backend_preflight_def h Let_def split: if_splits)
    then show ?thesis using sent(1) by auto
  qed
qed

lemma calls_preflight:
  "calls (preflight_stage E model dl key t)
     {[health_request (or_empty (mvr_base_url model)) key t, models_request (or_empty (mvr_base_url model)) key t]}"
  unfolding calls_def
proof (intro allI impI)
  fix s r s'
  assume a: "preflight_stage E model dl key t s = (r, s')"
  obtain prc pf s1 where p: "backend_preflight E (or_empty (mvr_base_url model)) (or_empty (mvr_model_identifier model))
      (Some dl) key t s = ((prc, pf), s1)"
    by (metis prod.collapse)
  have "s' = s1" "prc = PREFLIGHT_OK \<or> (\<exists>e. r = Inl e)"
    using a by (auto simp: preflight_stage_def Let_def p act_defs split: preflight_result_t.splits if_splits)
  then show "\<exists>rs. rn_requests s' = rn_requests s @ rs
    \<and> (case r of Inl e \<Rightarrow> (\<exists>l\<in>{[health_request (or_empty (mvr_base_url model)) key t,
        models_request (or_empty (mvr_base_url model)) key t]}. prefix rs l)
       | Inr x \<Rightarrow> rs \<in> {[health_request (or_empty (mvr_base_url model)) key t,
        models_request (or_empty (mvr_base_url model)) key t]})"
    using preflight_sends [OF p] by (auto split: sum.split)
qed

definition catalog_calls :: "model_revision_t \<Rightarrow> dialect_t \<Rightarrow> string option \<Rightarrow> int \<Rightarrow> http_request list set" where
  "catalog_calls model dl key t =
     {[]} \<union> (if fetch_catalog dl then {[the_request ''GET'' (or_empty (mvr_base_url model)) ''/'' None key t]} else {})"

lemma calls_fetch_catalog: "calls (fetch_catalog_doc E model dl key t) (catalog_calls model dl key t)"
  unfolding calls_def
proof (intro allI impI)
  fix s r s'
  assume a: "fetch_catalog_doc E model dl key t s = (r, s')"
  show "\<exists>rs. rn_requests s' = rn_requests s @ rs
    \<and> (case r of Inl e \<Rightarrow> (\<exists>l\<in>catalog_calls model dl key t. prefix rs l) | Inr x \<Rightarrow> rs \<in> catalog_calls model dl key t)"
  proof (cases "fetch_catalog dl")
    case True
    obtain brc d s1 where b: "backend_request E ''GET'' (build_url 1024 (or_empty (mvr_base_url model)) ''/'') None key t s
        = ((brc, d), s1)"
      by (metis prod.collapse)
    have "s' = s1"
      using a True by (auto simp: fetch_catalog_doc_def b act_defs split: if_splits)
    then show ?thesis
      using request_sends [OF b] True by (auto simp: catalog_calls_def split: sum.split)
  next
    case False
    then show ?thesis using a by (auto simp: fetch_catalog_doc_def catalog_calls_def)
  qed
qed

lemma calls_catalog: "calls (catalog_stage E i model dl key t window) (catalog_calls model dl key t)"
  using calls_and_then [OF calls_fetch_catalog calls_silent [OF silent.log_step]]
  unfolding catalog_stage_def by simp

definition chat_call ::
  "env \<Rightarrow> model_revision_t \<Rightarrow> dialect_t \<Rightarrow> string \<Rightarrow> string option \<Rightarrow> run_config \<Rightarrow> cJSON option
     \<Rightarrow> string option \<Rightarrow> int \<Rightarrow> http_request" where
  "chat_call E model dl user system cfg schema_j key t =
     the_request ''POST'' (or_empty (mvr_base_url model)) ''/v1/chat/completions''
       (cJSON_PrintUnformatted E (chat_request E model dl user system cfg schema_j)) key t"

lemma calls_chat:
  "calls (chat_stage E i model dl source user system cfg schema_j key t)
     {[chat_call E model dl user system cfg schema_j key t]}"
proof -
  have *: "calls (\<lambda>s. case backend_request E ''POST'' (build_url 1024 base tail) body key t s of
      ((brc, resp), s1) \<Rightarrow>
        if brc \<noteq> BACKEND_OK
        then (if brc = BACKEND_ERR_CANCELED then CANCEL s1
              else if brc = BACKEND_ERR_TIMEOUT then FAIL c m s1 else FAIL c' (m' brc) s1)
        else if http_status resp < 200 \<or> http_status resp \<ge> 300 then FAIL c'' (m'' resp) s1
        else (Inr resp, s1)) {[the_request ''POST'' base tail body key t]}"
    for base tail body c m c' m' c'' m''
    unfolding calls_def
  proof (intro allI impI)
    fix s r s'
    assume a: "(case backend_request E ''POST'' (build_url 1024 base tail) body key t s of
      ((brc, resp), s1) \<Rightarrow>
        if brc \<noteq> BACKEND_OK
        then (if brc = BACKEND_ERR_CANCELED then CANCEL s1
              else if brc = BACKEND_ERR_TIMEOUT then FAIL c m s1 else FAIL c' (m' brc) s1)
        else if http_status resp < 200 \<or> http_status resp \<ge> 300 then FAIL c'' (m'' resp) s1
        else (Inr resp, s1)) = (r, s')"
    obtain brc resp s1 where b: "backend_request E ''POST'' (build_url 1024 base tail) body key t s = ((brc, resp), s1)"
      by (metis prod.collapse)
    have "s' = s1" "brc = BACKEND_OK \<or> (\<exists>e. r = Inl e)"
      using a by (auto simp: b act_defs split: if_splits)
    then show "\<exists>rs. rn_requests s' = rn_requests s @ rs
      \<and> (case r of Inl e \<Rightarrow> (\<exists>l\<in>{[the_request ''POST'' base tail body key t]}. prefix rs l)
         | Inr x \<Rightarrow> rs \<in> {[the_request ''POST'' base tail body key t]})"
      using request_sends [OF b] by (auto split: sum.split)
  qed
  show ?thesis
    using calls_and_then [OF calls_silent [OF silent.log_step] *]
    unfolding chat_stage_def Let_def chat_call_def by simp
qed


section \<open>The configuration of a model\<close>

text \<open>What a configuration text means: the rules \<open>read_config\<close> is to decide.\<close>

definition positive_member :: "env \<Rightarrow> cJSON \<Rightarrow> string \<Rightarrow> int \<Rightarrow> bool" where
  "positive_member E cfg key v \<longleftrightarrow>
     (case cJSON_GetObjectItem cfg key of None \<Rightarrow> v = 0 | Some x \<Rightarrow> \<exists>d. x = JNumber d \<and> 0 < d \<and> v = long_of E d)"

definition key_accepted :: "string \<Rightarrow> bool" where
  "key_accepted k \<longleftrightarrow> k \<in> set config_keys \<or> k = [] \<or> 254 \<le> length k"

definition config_means :: "env \<Rightarrow> string \<Rightarrow> run_config \<Rightarrow> bool" where
  "config_means E txt c \<longleftrightarrow>
     txt = [] \<and> c = default_config
     \<or> txt \<noteq> [] \<and> (\<exists>cfg. cJSON_Parse E txt = Some cfg
        \<and> (case cJSON_GetObjectItem cfg ''temperature'' of
              None \<Rightarrow> temperature c = - 1 | Some x \<Rightarrow> x = JNumber (temperature c))
        \<and> positive_member E cfg ''max_tokens'' (max_tokens c)
        \<and> positive_member E cfg ''top_k'' (top_k c)
        \<and> (case cJSON_GetObjectItem cfg ''supports_response_format'' of
              None \<Rightarrow> supports_rf c | Some x \<Rightarrow> x = JBool (supports_rf c))
        \<and> (\<forall>kv\<in>set (members_of (Some cfg)). key_accepted (fst kv)))"

lemma unknown_keys_nonempty: "u \<noteq> [] \<Longrightarrow> foldl add_unknown u ks \<noteq> []"
  by (induction ks arbitrary: u) (simp_all add: add_unknown_def)

lemma unknown_keys_empty: "foldl add_unknown [] ks = [] \<longleftrightarrow> (\<forall>k\<in>set ks. key_accepted k)"
proof (induction ks)
  case (Cons k ks)
  show ?case
  proof (cases "key_accepted k")
    case True
    then have "add_unknown [] k = []" by (auto simp: add_unknown_def key_accepted_def)
    then show ?thesis using Cons True by simp
  next
    case False
    then have "add_unknown [] k = k" "k \<noteq> []" by (auto simp: add_unknown_def key_accepted_def)
    then show ?thesis using False unknown_keys_nonempty by simp
  qed
qed simp

lemma positive_key_exact:
  "positive_key E cfg key s = (r, s') \<Longrightarrow> s' = s \<and> (\<forall>v. r = Inr v \<longleftrightarrow> positive_member E cfg key v)
     \<and> (\<forall>e. r = Inl e \<longrightarrow> fst e = EXIT_INVALID)"
  by (auto simp: positive_key_def positive_member_def act_defs split: option.splits cJSON.splits if_splits)

lemma positive_member_unique: "positive_member E cfg key v \<Longrightarrow> positive_member E cfg key w \<Longrightarrow> v = w"
  by (auto simp: positive_member_def split: option.splits)

lemma config_number:
  "\<exists>q. (case x of None \<Rightarrow> go_on dflt | Some (JNumber d) \<Rightarrow> go_on d | Some other \<Rightarrow> FAIL EXIT_INVALID m) s = (q, s)
     \<and> (\<forall>v. q = Inr v \<longleftrightarrow> (case x of None \<Rightarrow> v = dflt | Some y \<Rightarrow> y = JNumber v))
     \<and> (\<forall>e. q = Inl e \<longrightarrow> fst e = EXIT_INVALID)"
  by (auto simp: act_defs split: option.split cJSON.split)

lemma config_flag:
  "\<exists>q. (case x of None \<Rightarrow> go_on True | Some (JBool b) \<Rightarrow> go_on b | Some other \<Rightarrow> FAIL EXIT_INVALID m) s = (q, s)
     \<and> (\<forall>v. q = Inr v \<longleftrightarrow> (case x of None \<Rightarrow> v | Some y \<Rightarrow> y = JBool v))
     \<and> (\<forall>e. q = Inl e \<longrightarrow> fst e = EXIT_INVALID)"
  by (auto simp: act_defs split: option.split cJSON.split)

lemma config_read:
  "read_config E configuration s = (r, s') \<Longrightarrow> s' = s
     \<and> (\<forall>c. r = Inr c \<longleftrightarrow> config_means E (or_empty configuration) c) \<and> (\<forall>e. r = Inl e \<longrightarrow> fst e = EXIT_INVALID)"
proof -
  assume r: "read_config E configuration s = (r, s')"
  show ?thesis
  proof (cases "or_empty configuration = []")
    case True
    then show ?thesis using r by (auto simp: read_config_def config_means_def go_on_def)
  next
    case False
    show ?thesis
    proof (cases "cJSON_Parse E (or_empty configuration)")
      case None
      then show ?thesis using r False by (auto simp: read_config_def config_means_def act_defs)
    next
      case (Some cfg)
      obtain p1 s1 where k1: "positive_key E cfg ''max_tokens'' s = (p1, s1)" by fastforce
      obtain p2 s2 where k2: "positive_key E cfg ''top_k'' s = (p2, s2)" by fastforce
      note k = positive_key_exact [OF k1] positive_key_exact [OF k2]
      have u: "unknown_keys cfg = [] \<longleftrightarrow> (\<forall>kv\<in>set (members_of (Some cfg)). key_accepted (fst kv))"
        by (simp add: unknown_keys_def unknown_keys_empty)
      obtain q1 where q1: "(case cJSON_GetObjectItem cfg ''temperature'' of
          None \<Rightarrow> go_on (- 1) | Some (JNumber d) \<Rightarrow> go_on d
        | Some other \<Rightarrow> FAIL EXIT_INVALID (key_error ''temperature'' '' must be a number'')) s = (q1, s)"
        and t: "\<And>v. q1 = Inr v \<longleftrightarrow> (case cJSON_GetObjectItem cfg ''temperature'' of
          None \<Rightarrow> v = - 1 | Some x \<Rightarrow> x = JNumber v)" "\<And>e. q1 = Inl e \<Longrightarrow> fst e = EXIT_INVALID"
        using config_number [where x = "cJSON_GetObjectItem cfg ''temperature''"] by blast
      obtain q4 where q4: "(case cJSON_GetObjectItem cfg ''supports_response_format'' of
          None \<Rightarrow> go_on True | Some (JBool b) \<Rightarrow> go_on b
        | Some other \<Rightarrow> FAIL EXIT_INVALID
            (key_error ''supports_response_format'' '' must be a boolean'')) s = (q4, s)"
        and f: "\<And>v. q4 = Inr v \<longleftrightarrow> (case cJSON_GetObjectItem cfg ''supports_response_format'' of
          None \<Rightarrow> v | Some x \<Rightarrow> x = JBool v)" "\<And>e. q4 = Inl e \<Longrightarrow> fst e = EXIT_INVALID"
        using config_flag [where x = "cJSON_GetObjectItem cfg ''supports_response_format''"] by blast
      define rest where "rest = (\<lambda>temp tokens tk rf. if unknown_keys cfg \<noteq> []
          then FAIL EXIT_INVALID (''unknown model configuration keys: '' @ unknown_keys cfg)
          else go_on \<lparr>temperature = temp, max_tokens = tokens, top_k = tk, supports_rf = rf\<rparr>)"
      have run: "(r, s') = (case q1 of Inl e \<Rightarrow> (Inl e, s) | Inr temp \<Rightarrow>
          case p1 of Inl e \<Rightarrow> (Inl e, s) | Inr tokens \<Rightarrow>
          case p2 of Inl e \<Rightarrow> (Inl e, s) | Inr tk \<Rightarrow>
          case q4 of Inl e \<Rightarrow> (Inl e, s) | Inr rf \<Rightarrow> rest temp tokens tk rf s)"
      proof -
        have "s1 = s" "s2 = s" using k by simp_all
        then show ?thesis
          using k1 k2 unfolding r [symmetric] read_config_def rest_def
          by (cases q1; cases p1; cases p2; cases q4) (simp_all add: False Some and_then_def q1 q4)
      qed
      have means: "config_means E (or_empty configuration) c \<longleftrightarrow>
          q1 = Inr (temperature c) \<and> p1 = Inr (max_tokens c) \<and> p2 = Inr (top_k c) \<and> q4 = Inr (supports_rf c)
          \<and> unknown_keys cfg = []" for c
        using k by (simp add: config_means_def False Some u t(1) f(1))
      show ?thesis
        using run k t(2) f(2) unfolding means rest_def
        by (auto simp: act_defs split: sum.splits if_splits)
    qed
  qed
qed



section \<open>What a call rests on\<close>

text \<open>
  The inputs of the call of execution \<open>i\<close> as the store has them: its row is live and pending, its
  context has a body, its model revision is live and complete, the dialect is known, configuration and
  schema are readable, and the prompt fits.
\<close>

definition run_inputs ::
  "env \<Rightarrow> int \<Rightarrow> int \<Rightarrow> dialect_id_t \<Rightarrow> store \<Rightarrow> string \<Rightarrow> string option \<Rightarrow> model_revision_t \<Rightarrow> dialect_t
     \<Rightarrow> run_config \<Rightarrow> cJSON option \<Rightarrow> bool" where
  "run_inputs E i limit ov st user system model dl cfg schema_j \<longleftrightarrow>
     (\<exists>r\<in>set (rows (executions st)). \<exists>c\<in>set (rows (contexts st)). \<exists>sk\<in>set (rows (skill_revisions st)).
      \<exists>m\<in>set (rows (model_revisions st)).
        ex_id r = i \<and> ex_status r = ''pending'' \<and> ex_deleted_at r = None
        \<and> cx_id c = c_int (ex_context_id r) \<and> sr_id sk = c_int (ex_skill_revision_id r)
        \<and> mr_id m = c_int (ex_model_revision_id r) \<and> mr_deleted_at m = None
        \<and> user = cx_content c \<and> user \<noteq> [] \<and> system = Some (sr_prompt_template sk)
        \<and> model = row_to_model_revision m \<and> has_endpoint model
        \<and> dialect_get (long_of E) (if ov \<noteq> DIALECT_UNKNOWN then ov else dialect_from_string (Some (mr_backend m))) = Some dl
        \<and> config_means E (or_empty (mr_configuration m)) cfg
        \<and> schema_j = (if or_empty (sr_output_schema sk) = [] then None
                      else cJSON_Parse E (or_empty (sr_output_schema sk)))
        \<and> (or_empty (sr_output_schema sk) = [] \<or> schema_j \<noteq> None)
        \<and> int (length user + length (sr_prompt_template sk)) \<le> limit)"

lemma fetched_row:
  "sql_read (\<lambda>st. filter P (tab st)) d = (Fetched (r # rs) rc oom, d') \<Longrightarrow> r \<in> set (tab (store d)) \<and> P r"
proof -
  assume "sql_read (\<lambda>st. filter P (tab st)) d = (Fetched (r # rs) rc oom, d')"
  then obtain k where "r # rs = take k (filter P (tab (store d)))" using sql_read_rows by fastforce
  then have "r \<in> set (take k (filter P (tab (store d))))" by (metis list.set_intros(1))
  then show ?thesis by (auto dest: in_set_takeD)
qed

lemma execution_read:
  "acta_db_execution_get i d = (Some e, err, d') \<Longrightarrow>
     \<exists>r\<in>set (rows (executions (store d))). ex_id r = i \<and> e = row_to_execution r"
  by (auto simp: acta_db_execution_get_def split: if_splits prod.splits list.splits read_result.splits
      dest!: fetched_row)

lemma context_read:
  "acta_db_context_get i d = (Some c, err, d') \<Longrightarrow>
     \<exists>r\<in>set (rows (contexts (store d))). cx_id r = i \<and> c = row_to_context False r"
  by (auto simp: acta_db_context_get_def split: prod.splits list.splits read_result.splits if_splits
      dest!: fetched_row)

lemma skill_revision_read:
  "acta_db_skill_revision_get i d = (Some v, err, d') \<Longrightarrow>
     \<exists>r\<in>set (rows (skill_revisions (store d))). sr_id r = i \<and> v = row_to_skill_revision r"
  by (auto simp: acta_db_skill_revision_get_def skill_revision_fetch_def
      split: prod.splits list.splits read_result.splits if_splits dest!: fetched_row)

lemma model_revision_read:
  "acta_db_model_revision_get i d = (Some v, err, d') \<Longrightarrow>
     \<exists>r\<in>set (rows (model_revisions (store d))). mr_id r = i \<and> mr_deleted_at r = None \<and> v = row_to_model_revision r"
  by (auto simp: acta_db_model_revision_get_def model_revision_fetch_def
      split: prod.splits list.splits read_result.splits if_splits dest!: fetched_row)

lemma fetch_found:
  "fetch what k get s = (Inr x, s') \<Longrightarrow> \<exists>err d. get k (rn_db s) = (Some x, err, d) \<and> s' = s\<lparr>rn_db := d\<rparr>"
  by (auto simp: fetch_def leave_def split: prod.splits option.splits if_splits)

lemma refs_found:
  assumes "resolve_refs e s = (Inr (ctx, skill, model), s')"
  shows "has_endpoint model
    \<and> (\<exists>r\<in>set (rows (contexts (store (rn_db s)))). cx_id r = e_context_id e \<and> ctx = row_to_context False r)
    \<and> (\<exists>r\<in>set (rows (skill_revisions (store (rn_db s)))). sr_id r = e_skill_revision_id e \<and> skill = row_to_skill_revision r)
    \<and> (\<exists>r\<in>set (rows (model_revisions (store (rn_db s)))). mr_id r = e_model_revision_id e
         \<and> mr_deleted_at r = None \<and> model = row_to_model_revision r)"
proof -
  obtain s1 s2 where 1: "fetch ''context'' (e_context_id e) acta_db_context_get s = (Inr ctx, s1)"
    and 2: "fetch ''skill revision'' (e_skill_revision_id e) acta_db_skill_revision_get s1 = (Inr skill, s2)"
    and 3: "fetch ''model revision'' (e_model_revision_id e) acta_db_model_revision_get s2 = (Inr model, s')"
    and e: "has_endpoint model"
    using assms by (auto simp: resolve_refs_def and_then_Inr act_defs split: if_splits)
  have "before_call s s1" by (rule keepsD [OF silent.fetch 1]) (rule context_get_same)
  moreover have "before_call s1 s2" by (rule keepsD [OF silent.fetch 2]) (rule skill_revision_get_same)
  ultimately show ?thesis
    using fetch_found [OF 1] fetch_found [OF 2] fetch_found [OF 3] e
    by (auto simp: before_call_def dest!: context_read skill_revision_read model_revision_read)
qed


lemma before_call_trans: "before_call s t \<Longrightarrow> before_call t u \<Longrightarrow> before_call s u"
  by (simp add: before_call_def)

lemma dialect_found:
  "resolve_dialect E i e model ov s = (Inr (dl, src), s') \<Longrightarrow>
     dialect_get (long_of E) (if ov \<noteq> DIALECT_UNKNOWN then ov else dialect_from_string (mvr_backend model)) = Some dl"
  by (auto simp: resolve_dialect_def Let_def act_defs log_step_def and_then_def split: option.splits if_splits prod.splits)

lemma prompt_found:
  "load_prompt E i e ctx skill s = (Inr (user, system), s') \<Longrightarrow>
     user = or_empty (c_content ctx) \<and> user \<noteq> [] \<and> system = svr_prompt_template skill"
  by (auto simp: load_prompt_def Let_def act_defs log_step_def and_then_Inr split: if_splits)

lemma schema_found:
  "read_schema E skill s = (Inr sj, s') \<Longrightarrow>
     sj = (if or_empty (svr_output_schema skill) = [] then None else cJSON_Parse E (or_empty (svr_output_schema skill)))
     \<and> (or_empty (svr_output_schema skill) = [] \<or> sj \<noteq> None)"
  by (simp add: read_schema_def act_defs split: if_splits option.splits) (metis option.distinct(1))

lemma size_found: "size_check user system limit s = (Inr x, s') \<Longrightarrow> int (length user) + int (length (or_empty system)) \<le> limit"
  by (auto simp: size_check_def Let_def act_defs split: if_splits)

lemma config_found: "read_config E conf s = (Inr c, s') \<Longrightarrow> config_means E (or_empty conf) c"
  using config_read by blast

text \<open>The part of the pipeline from the preflight on.\<close>

definition call_part ::
  "env \<Rightarrow> int \<Rightarrow> model_revision_t \<Rightarrow> dialect_t \<Rightarrow> string \<Rightarrow> string \<Rightarrow> string option \<Rightarrow> run_config
     \<Rightarrow> cJSON option \<Rightarrow> string option \<Rightarrow> int \<Rightarrow> string act" where
  "call_part E i model dl source user system cfg schema_j key t =
     and_then (preflight_stage E model dl key t) (\<lambda>window.
     and_then (catalog_stage E i model dl key t window) (\<lambda>_.
     and_then (chat_stage E i model dl source user system cfg schema_j key t) (\<lambda>resp.
     and_then (record_stage E i resp) (\<lambda>content.
     and_then (validate_stage E i schema_j cfg content) (\<lambda>_.
     and_then (poll_cancel E) (\<lambda>_. go_on content))))))"

lemma pipeline_reaches_call:
  assumes p: "pipeline E i t limit key ov (row_to_execution r) s = (q, s')" and g: "gets_on s q s'"
    and r: "r \<in> set (rows (executions st))" "ex_id r = i" "ex_status r = ''pending''" "ex_deleted_at r = None"
    and st: "contexts (store (rn_db s)) = contexts st" "skill_revisions (store (rn_db s)) = skill_revisions st"
      "model_revisions (store (rn_db s)) = model_revisions st"
  obtains model dl source user system cfg schema_j s1 where
    "run_inputs E i limit ov st user system model dl cfg schema_j"
    and "call_part E i model dl source user system cfg schema_j key t s1 = (q, s')"
    and "rn_requests s1 = rn_requests s"
proof -
  let ?e = "row_to_execution r"
  obtain ctx skill model dl src user system cfg schema_j s1 s2 s3 s4 s5 s6 s7 s8 s9 where
      refs: "resolve_refs ?e s2 = (Inr (ctx, skill, model), s3)"
    and d: "resolve_dialect E i ?e model ov s3 = (Inr (dl, src), s4)"
    and u: "load_prompt E i ?e ctx skill s4 = (Inr (user, system), s5)"
    and c: "read_config E (mvr_configuration model) s5 = (Inr cfg, s6)"
    and j: "read_schema E skill s6 = (Inr schema_j, s7)"
    and z: "size_check user system limit s8 = (Inr (), s9)"
    and call: "call_part E i model dl src user system cfg schema_j key t s9 = (q, s')"
    and b: "before_call s s1" "before_call s1 s2" "before_call s2 s3" "before_call s3 s4" "before_call s4 s5"
      "before_call s5 s6" "before_call s6 s7" "before_call s7 s8" "before_call s8 s9"
    using p g unfolding pipeline_def call_part_def [symmetric]
    apply -
    apply (erule silent_then, assumption, rule silent.log_step)
    apply (erule silent_then, assumption, rule silent.poll_cancel)
    apply (erule silent_then, assumption, rule silent.resolve_refs, clarify)
    apply (erule silent_then, assumption, rule silent.resolve_dialect, clarify)
    apply (erule silent_then, assumption, rule silent.load_prompt, clarify)
    apply (erule silent_then, assumption, rule silent.read_config)
    apply (erule silent_then, assumption, rule silent.read_schema)
    apply (erule silent_then, assumption, rule silent.poll_cancel)
    apply (erule silent_then, assumption, rule silent.size_check)
    apply (rename_tac done_here s9, case_tac done_here, hypsubst)
    apply blast
    done
  have b3: "before_call s s2" and b9: "before_call s s9"
    using b by (auto simp: before_call_def)
  note found = refs_found [OF refs] dialect_found [OF d] prompt_found [OF u] config_found [OF c]
    schema_found [OF j] size_found [OF z]
  obtain rc rk rm where rows: "rc \<in> set (rows (contexts st))" "cx_id rc = e_context_id ?e" "ctx = row_to_context False rc"
      "rk \<in> set (rows (skill_revisions st))" "sr_id rk = e_skill_revision_id ?e" "skill = row_to_skill_revision rk"
      "rm \<in> set (rows (model_revisions st))" "mr_id rm = e_model_revision_id ?e" "mr_deleted_at rm = None"
      "model = row_to_model_revision rm"
    using found(1) b3 st by (auto simp: before_call_def)
  have fields: "or_empty (c_content ctx) = cx_content rc" "svr_prompt_template skill = Some (sr_prompt_template rk)"
      "svr_output_schema skill = sr_output_schema rk" "mvr_backend model = Some (mr_backend rm)"
      "mvr_configuration model = mr_configuration rm"
    unfolding rows(3,6,10)
    by (simp_all add: row_to_context_def row_to_skill_revision_def row_to_model_revision_def or_empty_def)
  have facts: "user = cx_content rc" "user \<noteq> []" "system = Some (sr_prompt_template rk)"
      "dialect_get (long_of E) (if ov \<noteq> DIALECT_UNKNOWN then ov else dialect_from_string (Some (mr_backend rm))) = Some dl"
      "config_means E (or_empty (mr_configuration rm)) cfg"
      "schema_j = (if or_empty (sr_output_schema rk) = [] then None
         else cJSON_Parse E (or_empty (sr_output_schema rk)))"
      "or_empty (sr_output_schema rk) = [] \<or> schema_j \<noteq> None"
      "int (length user + length (sr_prompt_template rk)) \<le> limit"
    using found(2-6) unfolding fields by (auto simp: or_empty_def)
  have ids: "cx_id rc = c_int (ex_context_id r)" "sr_id rk = c_int (ex_skill_revision_id r)"
      "mr_id rm = c_int (ex_model_revision_id r)"
    using rows(2,5,8) by (simp_all add: row_to_execution_def)
  show thesis
  proof (rule that)
    show "run_inputs E i limit ov st user system model dl cfg schema_j"
      unfolding run_inputs_def
      by (intro bexI [OF _ r(1)] bexI [OF _ rows(1)] bexI [OF _ rows(4)] bexI [OF _ rows(7)] conjI)
        (rule facts ids rows(9,10) r(2-4) found(1) [THEN conjunct1])+
    show "call_part E i model dl src user system cfg schema_j key t s9 = (q, s')" by (rule call)
    show "rn_requests s9 = rn_requests s" using b9 by (simp add: before_call_def)
  qed
qed


section \<open>The requests of a run\<close>

definition call_plan ::
  "env \<Rightarrow> string \<Rightarrow> string option \<Rightarrow> model_revision_t \<Rightarrow> dialect_t \<Rightarrow> run_config \<Rightarrow> cJSON option \<Rightarrow> string option
     \<Rightarrow> int \<Rightarrow> http_request list set" where
  "call_plan E user system model dl cfg schema_j key t =
     {[health_request (or_empty (mvr_base_url model)) key t, models_request (or_empty (mvr_base_url model)) key t]
        @ c @ [chat_call E model dl user system cfg schema_j key t] | c. c \<in> catalog_calls model dl key t}"

lemma calls_part:
  "calls (call_part E i model dl source user system cfg schema_j key t)
     (call_plan E user system model dl cfg schema_j key t)"
proof -
  have rest: "calls (and_then (record_stage E i resp) (\<lambda>content.
     and_then (validate_stage E i schema_j cfg content) (\<lambda>_. and_then (poll_cancel E) (\<lambda>_. go_on content)))) {[]}" for resp
    by (rule calls_silent)
      (intro silent.and_then silent.record_stage silent.validate_stage silent.poll_cancel silent.go_on)
  let ?chat = "[chat_call E model dl user system cfg schema_j key t]"
  have 3: "calls (and_then (chat_stage E i model dl source user system cfg schema_j key t) (\<lambda>resp.
      and_then (record_stage E i resp) (\<lambda>content.
      and_then (validate_stage E i schema_j cfg content) (\<lambda>_. and_then (poll_cancel E) (\<lambda>_. go_on content))))) {?chat}"
    using calls_and_then [OF calls_chat rest] by simp
  have 2: "calls (and_then (catalog_stage E i model dl key t window) (\<lambda>_.
      and_then (chat_stage E i model dl source user system cfg schema_j key t) (\<lambda>resp.
      and_then (record_stage E i resp) (\<lambda>content.
      and_then (validate_stage E i schema_j cfg content) (\<lambda>_. and_then (poll_cancel E) (\<lambda>_. go_on content))))))
      {c @ ?chat | c. c \<in> catalog_calls model dl key t}" for window
    using calls_and_then [OF calls_catalog 3] by simp
  have ne: "{c @ ?chat | c. c \<in> catalog_calls model dl key t} \<noteq> {}" by (auto simp: catalog_calls_def)
  show ?thesis
    unfolding call_part_def call_plan_def
    by (rule back_subst [where P = "calls _", OF calls_and_then [OF calls_preflight 2 ne]]) auto
qed

lemma log_phase_silent: "log_phase i level event message metadata s = (rc, s') \<Longrightarrow> before_call s s'"
  by (auto simp: log_phase_def intro: log_before_call split: prod.splits)

lemma put_err_silent [simp]: "before_call s (put_err l t) = before_call s t"
  by (simp add: before_call_def put_err_def)

lemma fail_silent: "fail_execution i c m s = (code, s') \<Longrightarrow> before_call s s' \<and> code = c"
  by (auto simp: fail_execution_def with_db_def emit_runner_error_def split: prod.splits dest!: log_phase_silent
      intro: before_call_trans [OF _ edit_before_call [OF fail_effect]])

lemma cancel_silent: "cancel_execution i s = (code, s') \<Longrightarrow> before_call s s' \<and> code = EXIT_CANCELED"
  by (auto simp: cancel_execution_def with_db_def split: prod.splits dest!: log_phase_silent
      intro: before_call_trans [OF _ edit_before_call [OF cancel_effect]])

lemma close_silent:
  assumes "close_execution i q s = (code, s')" and "\<And>c m. q = Inl (c, m) \<Longrightarrow> c \<in> run_codes"
  shows "before_call s s' \<and> (code = EXIT_OK \<longrightarrow> (\<exists>x. q = Inr x))"
proof (cases q)
  case (Inl e)
  then show ?thesis
    using assms by (cases e) (auto simp: close_execution_def run_codes_def split: if_splits dest!: fail_silent cancel_silent)
next
  case (Inr content)
  obtain rc d where c: "acta_db_execution_complete i (Some content) (rn_db s) = (rc, d)" by fastforce
  have "before_call (s\<lparr>rn_db := d\<rparr>) s'"
    using assms(1) Inr c
    by (auto simp: close_execution_def with_db_def split: if_splits dest!: fail_silent
        intro: log_phase_silent [OF prod.collapse [symmetric]])
  then show ?thesis using Inr edit_before_call [OF complete_effect [OF c]] by (auto intro: before_call_trans)
qed

lemma db_error_exit: "rc \<noteq> ACTA_DB_OK \<Longrightarrow> fst (finish_db_error rc what) \<noteq> EXIT_OK"
  by (simp add: finish_db_error_def map_rc_to_exit_def split: option.split)

lemma run_cases:
  assumes run: "run_execution_dialect E i t limit key ov s = (code, s')"
  obtains (early) "code \<noteq> EXIT_OK" and "before_call s s'"
  | (ran) r s3 q s4 where "r \<in> set (rows (executions (store (rn_db s))))" and "ex_id r = i"
      and "ex_status r = ''pending''" and "ex_deleted_at r = None" and "before_call s s3"
      and "pipeline E i t limit key ov (row_to_execution r) s3 = (q, s4)" and "close_execution i q s4 = (code, s')"
proof -
  obtain item err d where g: "acta_db_execution_get i (rn_db s) = (item, err, d)"
    by (cases "acta_db_execution_get i (rn_db s)") auto
  define s1 where "s1 = s\<lparr>rn_db := d\<rparr>"
  have b1: "before_call s s1"
    using execution_get_same [OF g] by (simp add: s1_def before_call_def same_db_def)
  show thesis
  proof (cases "\<exists>c l. (code, s') = (c, put_err l s1) \<and> c \<noteq> EXIT_OK")
    case True
    then show thesis using b1 by (auto intro: early)
  next
    case False
    then obtain e where e: "item = Some e" "e_deleted_at e = None" "e_status e = None \<or> e_status e = Some ''pending''"
      and rest: "(case poll_cancel E s1 of
            (Inl left, s2) \<Rightarrow> close_execution i (Inl left) s2
          | (Inr _, s2) \<Rightarrow>
              (case with_db (acta_db_execution_start i) s2 of (rc, s3) \<Rightarrow>
                 if rc \<noteq> ACTA_DB_OK
                 then report (emit_runner_error EXIT_INVALID ''could not claim execution: start() failed'') s3
                 else (case pipeline E i t limit key ov e (s3\<lparr>rn_mark := Some i\<rparr>) of
                   (r, s4) \<Rightarrow> close_execution i r s4))) = (code, s')"
      using run db_error_exit
      by (auto simp: run_execution_dialect_def g s1_def [symmetric] report_def finish_op_error_def emit_not_found_def
          Let_def split: if_splits option.splits)
    obtain q s2 where p: "poll_cancel E s1 = (q, s2)" by fastforce
    have b2: "before_call s s2"
      using keepsD [OF silent.poll_cancel p] b1 by (rule before_call_trans [rotated])
    obtain r where r: "r \<in> set (rows (executions (store (rn_db s))))" "ex_id r = i" "e = row_to_execution r"
      using execution_read g e(1) by blast
    have live: "ex_status r = ''pending''" "ex_deleted_at r = None"
      using e(2,3) by (simp_all add: r(3) row_to_execution_def)
    show thesis
    proof (cases q)
      case (Inl left)
      then obtain m where "left = (EXIT_CANCELED, m)"
        using p by (auto simp: poll_cancel_def act_defs split: prod.splits if_splits)
      then have "cancel_execution i s2 = (code, s')" using rest p Inl by (simp add: close_execution_def)
      note c = cancel_silent [OF this]
      show thesis using c b2 by (intro early) (auto intro: before_call_trans)
    next
      case (Inr x)
      obtain rc d3 where st: "acta_db_execution_start i (rn_db s2) = (rc, d3)" by fastforce
      have b3: "before_call s (s2\<lparr>rn_db := d3\<rparr>)"
        using b2 edit_before_call [OF start_effect [OF st]] by (rule before_call_trans)
      show thesis
      proof (cases "rc = ACTA_DB_OK")
        case True
        obtain q4 s4 where pl: "pipeline E i t limit key ov e (s2\<lparr>rn_db := d3, rn_mark := Some i\<rparr>) = (q4, s4)"
          by fastforce
        have "before_call s (s2\<lparr>rn_db := d3, rn_mark := Some i\<rparr>)" using b3 by (simp add: before_call_def)
        then show thesis
          using rest p Inr st True pl by (intro ran [OF r(1,2) live]) (auto simp: with_db_def r(3))
      next
        case False
        then show thesis
          using rest p Inr st b3
          by (intro early) (auto simp: with_db_def report_def emit_runner_error_def)
      qed
    qed
  qed
qed


text \<open>Claim C17: What a run sends. A run sends nothing at all unless its execution is live and pending,
  its context, skill revision and model revision are there, the configuration and the schema are
  readable and the prompt fits the limit; then it sends, to the base URL of that model revision and with
  the given key and time limit, an initial part of: the health request, the list of models, for a
  dialect with a catalog possibly the catalog, and one chat request made of exactly these inputs. A run
  that succeeds has sent all of it, so no run ever calls the model twice.\<close>

theorem run_requests:
  assumes "run_execution_dialect E i t limit key ov s = (code, s')"
  shows "\<exists>rs. rn_requests s' = rn_requests s @ rs
    \<and> (rs = [] \<and> code \<noteq> EXIT_OK
       \<or> (\<exists>user system model dl cfg schema_j.
            run_inputs E i limit ov (store (rn_db s)) user system model dl cfg schema_j
            \<and> (\<exists>plan\<in>call_plan E user system model dl cfg schema_j key t.
                 prefix rs plan \<and> (code = EXIT_OK \<longrightarrow> rs = plan))))"
  using assms
proof (cases rule: run_cases)
  case early
  then show ?thesis by (intro exI [of _ "[]"]) (simp add: before_call_def)
next
  case (ran r s3 q s4)
  have close: "before_call s4 s'" "code = EXIT_OK \<longrightarrow> (\<exists>x. q = Inr x)"
  proof -
    have "c \<in> run_codes" if "q = Inl (c, m)" for c m
      using leaves_pipeline [of E i t limit key ov "row_to_execution r"] ran(6) that unfolding leaves_ok_def by blast
    then show "before_call s4 s'" "code = EXIT_OK \<longrightarrow> (\<exists>x. q = Inr x)" using close_silent [OF ran(7)] by simp_all
  qed
  show ?thesis
  proof (cases "gets_on s3 q s4")
    case False
    then show ?thesis
      using close ran(5) by (intro exI [of _ "[]"]) (auto simp: gets_on_def before_call_def)
  next
    case True
    obtain model dl source user system cfg schema_j s9 where
      inp: "run_inputs E i limit ov (store (rn_db s)) user system model dl cfg schema_j"
      and call: "call_part E i model dl source user system cfg schema_j key t s9 = (q, s4)"
      and rq: "rn_requests s9 = rn_requests s3"
      using pipeline_reaches_call [OF ran(6) True ran(1-4)] ran(5) unfolding before_call_def by metis
    obtain rs where rs: "rn_requests s4 = rn_requests s9 @ rs"
      and plan: "case q of Inl e \<Rightarrow> (\<exists>l\<in>call_plan E user system model dl cfg schema_j key t. prefix rs l)
        | Inr x \<Rightarrow> rs \<in> call_plan E user system model dl cfg schema_j key t"
      using calls_part call unfolding calls_def by blast
    have "rn_requests s' = rn_requests s @ rs"
      using rs rq ran(5) close(1) by (simp add: before_call_def)
    moreover have "\<exists>l\<in>call_plan E user system model dl cfg schema_j key t. prefix rs l \<and> (code = EXIT_OK \<longrightarrow> rs = l)"
      using plan close(2) by (cases q) auto
    ultimately show ?thesis using inp by blast
  qed
qed

lemma run_requests_witness:
  "\<exists>user system model dl cfg schema_j. rn_requests (snd sample_run)
     \<in> call_plan sample_env user system model dl cfg schema_j (Some ''k'') 600"
proof -
  have run: "run_execution_dialect sample_env 1 600 100000 (Some ''k'') DIALECT_UNKNOWN sample_runner
      = (EXIT_OK, snd sample_run)"
    using sample_run_ok by (metis prod.collapse sample_run_def)
  have "rn_requests sample_runner = []" by (simp add: sample_runner_def start_state_def)
  then show ?thesis using run_requests [OF run] by simp blast
qed


section \<open>The response buffer\<close>

text \<open>The buffer holds the text, with room for the final NUL and within twice the space it needs.\<close>

definition buf_holds :: "buf_t \<Rightarrow> string \<Rightarrow> bool" where
  "buf_holds b t \<longleftrightarrow> buf_len b = length t
     \<and> (case buf_data b of
          None \<Rightarrow> t = [] \<and> buf_cap b = 0
        | Some u \<Rightarrow> u = t \<and> length t < buf_cap b \<and> buf_cap b \<le> max 256 (2 * (length t + 1)))"

lemma grow_cap_bounds:
  "0 < ncap \<Longrightarrow> need \<le> grow_cap need ncap \<and> grow_cap need ncap \<le> max ncap (2 * need)"
proof (induction need ncap rule: grow_cap.induct)
  case (1 need ncap)
  then show ?case by (subst (1 2) grow_cap.simps) (auto simp: max_def split: if_splits)
qed

lemma on_body_holds:
  assumes "buf_holds b t" and "on_body mem c b = (k, b')"
  shows "k = length c \<and> buf_holds b' (t @ c) \<or> k = 0 \<and> \<not> mem \<and> b' = b"
proof -
  let ?need = "buf_len b + length c + 1"
  have cap: "need \<le> grow_cap need (if buf_cap b \<noteq> 0 then buf_cap b else 256)
      \<and> grow_cap need (if buf_cap b \<noteq> 0 then buf_cap b else 256) \<le> max (if buf_cap b \<noteq> 0 then buf_cap b else 256) (2 * need)"
    for need by (rule grow_cap_bounds) simp
  note g = cap [of ?need]
  show ?thesis
  proof (cases "buf_cap b \<ge> ?need")
    case True
    then show ?thesis
      using assms by (auto simp: on_body_def buf_add_def buf_reserve_def buf_holds_def split: option.splits)
  next
    case False
    then show ?thesis
      using assms g by (auto simp: on_body_def buf_add_def buf_reserve_def buf_holds_def Let_def max_def
          split: option.splits if_splits)
  qed
qed


lemma received_from:
  "buf_holds b t \<Longrightarrow> buf_holds (foldl (\<lambda>b c. snd (on_body True c b)) b cs) (t @ concat cs)"
proof (induction cs arbitrary: b t)
  case (Cons c cs)
  obtain k b' where o: "on_body True c b = (k, b')" by fastforce
  then have "buf_holds b' (t @ c)" using on_body_holds [OF Cons.prems o] by simp
  note Cons.IH [OF this]
  then show ?case by (simp add: o)
qed simp

lemma received_holds: "buf_holds (received chunks) (concat chunks)"
  using received_from [of empty_buf "[]" chunks] by (simp add: received_def buf_holds_def empty_buf_def)

lemma received_text: "(case buf_data (received chunks) of None \<Rightarrow> [] | Some u \<Rightarrow> u) = concat chunks"
  using received_holds [of chunks] by (auto simp: buf_holds_def split: option.splits)



section \<open>What a success means\<close>

lemma chat_found:
  assumes "chat_stage E i model dl source user system cfg schema_j key t s = (Inr resp, s')"
  shows "\<exists>n http chunks. fst (perform E n (chat_call E model dl user system cfg schema_j key t)) = CURLE_OK http chunks
    \<and> 200 \<le> c_int http \<and> c_int http < 300 \<and> resp_body resp = Some (c_string (concat chunks))"
proof -
  let ?body = "cJSON_PrintUnformatted E (chat_request E model dl user system cfg schema_j)"
  let ?url = "build_url 1024 (or_empty (mvr_base_url model)) ''/v1/chat/completions''"
  obtain s1 where r: "(case backend_request E ''POST'' ?url ?body key t s1 of
          ((brc, resp), s1) \<Rightarrow>
              if brc \<noteq> BACKEND_OK
              then (if brc = BACKEND_ERR_CANCELED then CANCEL s1
                    else if brc = BACKEND_ERR_TIMEOUT
                    then FAIL EXIT_TIMEOUT (''backend call timed out after '' @ show_int t @ '' s'') s1
                    else FAIL EXIT_HTTP (''backend transport failure: '' @ backend_strerror brc) s1)
              else if http_status resp < 200 \<or> http_status resp \<ge> 300
              then FAIL EXIT_HTTP (''backend HTTP '' @ show_int (http_status resp) @ '': ''
                     @ at_most 300 (or_empty (resp_body resp))) s1
              else (Inr resp, s1)) = (Inr resp, s')"
    using assms unfolding chat_stage_def Let_def and_then_Inr by blast
  obtain brc resp' s2 where b': "backend_request E ''POST'' ?url ?body key t s1 = ((brc, resp'), s2)"
    by (metis prod.collapse)
  have "brc = BACKEND_OK" "resp' = resp" and h: "200 \<le> http_status resp" "http_status resp < 300"
    using r by (auto simp: b' act_defs split: if_splits)
  then have b: "backend_request E ''POST'' ?url ?body key t s1 = ((BACKEND_OK, resp), s2)" using b' by simp
  obtain http chunks ms where "perform E (length (rn_requests s1)) (the_request ''POST'' (or_empty (mvr_base_url model))
      ''/v1/chat/completions'' ?body key t) = (CURLE_OK http chunks, ms)"
    and "resp = \<lparr>http_status = c_int http, resp_body = Some (c_string (concat chunks)), latency_ms = ms\<rparr>"
    using b by (auto simp: backend_request_def Let_def the_request_def or_empty_def received_text
        split: if_splits prod.splits curl_reply.splits)
  then show ?thesis using h unfolding chat_call_def by (metis backend_response_t.select_convs(1,2) fst_conv)
qed

lemma validate_found:
  assumes "validate_stage E i schema_j cfg content s = (Inr x, s')" and "schema_j = Some schema" and "\<not> supports_rf cfg"
  shows "\<exists>j. cJSON_Parse E content = Some j \<and> conforms 33 schema j"
  using assms schema_check_conforms [of 0 schema]
  by (auto simp: validate_stage_def reject_output_def and_then_Inr act_defs log_step_def split: option.splits)

lemma close_completed:
  assumes "close_execution i (Inr content) s = (code, s')" and "code = EXIT_OK"
    and "row_at (rn_db s) i = Some r" and "ex_raw_response r = Some content"
  shows "\<exists>r. row_at (rn_db s') i = Some r \<and> ex_status r = ''completed''
         \<and> ex_raw_response r = Some content \<and> ex_result r = Some content"
proof -
  obtain rc d where c: "acta_db_execution_complete i (Some content) (rn_db s) = (rc, d)" by fastforce
  have rc: "rc = ACTA_DB_OK" and lg: "same_rows (s\<lparr>rn_db := d\<rparr>) s'"
    using assms(1,2) by (auto simp: close_execution_def with_db_def c same_rows_def log_phase_def
        split: if_splits prod.splits dest!: fail_silent log_same_rows)
  then show ?thesis
    using complete_effect [OF c] assms(3,4)
    by (auto simp: exec_effect_def row_at_def exec_rows.get_upd_id same_rows_def)
qed

text \<open>Claim C5: What a success means, whatever the server, the engine and other processes do. If a run
  ends with exit code 0, then the chat request made of the execution's own inputs was answered by a
  complete transfer with a 2xx status whose body is JSON with a non-empty first choice; the execution
  is completed and both its stored raw response and its result are that text; and when a schema is set
  that the server was not asked to enforce, the text is JSON that conforms to it (to depth 32).\<close>

theorem run_success:
  assumes "run_execution_dialect E i t limit key ov s = (EXIT_OK, s')"
  shows "\<exists>user system model dl cfg schema_j n http chunks reply content.
    run_inputs E i limit ov (store (rn_db s)) user system model dl cfg schema_j
    \<and> fst (perform E n (chat_call E model dl user system cfg schema_j key t)) = CURLE_OK http chunks
    \<and> 200 \<le> c_int http \<and> c_int http < 300
    \<and> cJSON_Parse E (c_string (concat chunks)) = Some reply \<and> reply_content reply = Some content \<and> content \<noteq> []
    \<and> (\<exists>r. row_at (rn_db s') i = Some r \<and> ex_status r = ''completed''
         \<and> ex_raw_response r = Some content \<and> ex_result r = Some content)
    \<and> (case schema_j of None \<Rightarrow> True
       | Some schema \<Rightarrow> supports_rf cfg \<or> (\<exists>j. cJSON_Parse E content = Some j \<and> conforms 33 schema j))"
  using assms
proof (cases rule: run_cases)
  case early
  then show ?thesis by simp
next
  case (ran r s3 q s4)
  have "c \<in> run_codes" if "q = Inl (c, m)" for c m
    using leaves_pipeline [of E i t limit key ov "row_to_execution r"] ran(6) that unfolding leaves_ok_def by blast
  then obtain content where q: "q = Inr content" using close_silent [OF ran(7)] by auto
  then have "gets_on s3 q s4" by (simp add: gets_on_def)
  then obtain model dl source user system cfg schema_j s9 where
    inp: "run_inputs E i limit ov (store (rn_db s)) user system model dl cfg schema_j"
    and call: "call_part E i model dl source user system cfg schema_j key t s9 = (q, s4)"
    using pipeline_reaches_call [OF ran(6) _ ran(1-4)] ran(5) unfolding before_call_def by metis
  obtain resp s10 s11 s12 s13 where chat: "chat_stage E i model dl source user system cfg schema_j key t s10 = (Inr resp, s11)"
    and rec: "record_stage E i resp s11 = (Inr content, s12)"
    and val: "validate_stage E i schema_j cfg content s12 = (Inr (), s13)" and fin: "poll_cancel E s13 = (Inr (), s4)"
    using call unfolding call_part_def q by (auto simp: and_then_Inr go_on_def)
  obtain n http chunks where perf: "fst (perform E n (chat_call E model dl user system cfg schema_j key t)) = CURLE_OK http chunks"
    "200 \<le> c_int http" "c_int http < 300" "resp_body resp = Some (c_string (concat chunks))"
    using chat_found [OF chat] by blast
  obtain r12 reply where rc: "content \<noteq> []" "row_at (rn_db s12) i = Some r12" "ex_raw_response r12 = Some content"
    "cJSON_Parse E (c_string (concat chunks)) = Some reply" "reply_content reply = Some content"
    using record_content [OF rec] perf(4) by auto
  have r4: "row_at (rn_db s4) i = Some r12"
    using keepsD [OF rows_kept.validate_stage val] keepsD [OF rows_kept.poll_cancel fin] rc(2)
    by (simp add: same_rows_def row_at_def)
  have "\<exists>r. row_at (rn_db s') i = Some r \<and> ex_status r = ''completed''
         \<and> ex_raw_response r = Some content \<and> ex_result r = Some content"
    using close_completed [OF ran(7) [unfolded q] _ r4 rc(3)] by simp
  moreover have "case schema_j of None \<Rightarrow> True
       | Some schema \<Rightarrow> supports_rf cfg \<or> (\<exists>j. cJSON_Parse E content = Some j \<and> conforms 33 schema j)"
    using validate_found [OF val] by (auto split: option.split)
  ultimately show ?thesis using inp perf(1-3) rc(1,4,5) by blast
qed

lemma run_success_witness:
  "\<exists>r content. row_at (rn_db (snd sample_run)) 1 = Some r \<and> ex_status r = ''completed''
     \<and> ex_result r = Some content \<and> content \<noteq> []"
proof -
  have run: "run_execution_dialect sample_env 1 600 100000 (Some ''k'') DIALECT_UNKNOWN sample_runner
      = (EXIT_OK, snd sample_run)"
    using sample_run_ok by (metis prod.collapse sample_run_def)
  show ?thesis using run_success [OF run] by blast
qed

end
