(* ===== verification/Runner_Properties.thy ===== *)
theory Runner_Properties
  imports Request_Properties
begin

text \<open>
  Properties of the runner's parts outside the pipeline: the output validation against its rules, the
  report lines, number arguments, the preflight, the start of \<^verbatim>\<open>main\<close>, and a batch of
  pending executions.
\<close>

section \<open>Output validation\<close>

lemma first_some_Some: "first_some f xs = Some e \<Longrightarrow> \<exists>x\<in>set xs. f x = Some e"
  by (induction xs) (auto split: option.splits)

lemma snprintf_length: "0 < n \<Longrightarrow> length (snprintf n s) < n"
  by (simp add: snprintf_def)

lemma schema_msg_length: "length (schema_msg w what name) < 256"
  unfolding schema_msg_def by (rule snprintf_length) simp

lemma schema_check_message: "schema_check schema v depth w = Some e \<Longrightarrow> length e < 256"
proof (induction schema v depth w rule: schema_check.induct)
  case (1 schema v depth w)
  have types: "check_type schema v w = Some e \<Longrightarrow> length e < 256"
    by (auto simp: check_type_def schema_msg_length split: option.splits if_splits)
  have required: "check_required schema v w = Some e \<Longrightarrow> length e < 256"
    by (auto simp: check_required_def schema_msg_length dest!: first_some_Some split: option.splits if_splits)
  show ?case
  proof (cases "depth > 32")
    case True
    then show ?thesis using "1.prems" by (simp add: schema_check.simps)
  next
    case False
    show ?thesis
      using "1.prems" False types required "1.IH"
      by (subst (asm) schema_check.simps)
        (fastforce split: option.splits cJSON.splits if_splits dest!: first_some_Some)
  qed
qed

text \<open>Claim C28: The post-hoc validation of an output is exact for the rules it implements: it reports
  nothing when the value satisfies the schema's types, required members, properties and items in the
  first 33 levels of nesting, and otherwise a message that fits its 256 bytes. (Deeper levels are not
  looked at.)\<close>

theorem schema_check_exact:
  "case schema_check schema v 0 where of
     None \<Rightarrow> conforms 33 schema v
   | Some msg \<Rightarrow> \<not> conforms 33 schema v \<and> length msg < 256"
  using schema_check_conforms [of 0 schema v "where"] schema_check_message [of schema v 0 "where"]
  by (auto split: option.split)

section \<open>Report lines and number arguments\<close>

lemma hex_digit_printable: "n < 16 \<Longrightarrow> \<not> (of_char (hex_digit n) :: nat) < 32"
  by (simp add: hex_digit_def less_Suc_eq numeral_eq_Suc) (elim disjE; simp)

lemma json_char_printable: "filter (\<lambda>x. (of_char x :: nat) < 32) (json_char c) = []"
proof (cases "(of_char c :: nat) < 32")
  case True
  then have "(of_char c :: nat) div 16 < 16" "(of_char c :: nat) mod 16 < 16" by auto
  then show ?thesis by (simp add: json_char_def hex_digit_printable)
qed (simp add: json_char_def)

text \<open>Claim C39: The string printer is faithful: any text, control characters, quotes and backslashes
  included, is printed as a JSON string that a reader gets back exactly, with whatever follows left
  over, and the printed form has no control character, so a report stays one line.\<close>

theorem json_str_roundtrip:
  "read_string (json_str s @ rest) = Some (s, rest)
   \<and> filter (\<lambda>c. (of_char c :: nat) < 32) (json_str s) = []"
  using read_body_chars [of s rest] json_char_printable
  by (simp add: read_string_def json_str_def filter_concat comp_def)

text \<open>Number arguments are decided exactly: an id is accepted when it is a C numeral (blanks,
  a sign, digits, nothing else) of a value from 1 to INT_MAX, a non-negative number when it is a C
  numeral from 0 to INT_MAX; the empty text, too, is accepted as the number 0.\<close>

theorem numbers_exact:
  "(parse_positive_id s = Some v \<longleftrightarrow> c_numeral s v \<and> 0 < v \<and> v \<le> INT_MAX)
   \<and> (parse_nonneg_int s = Some v \<longleftrightarrow> c_numeral s v \<and> 0 \<le> v \<and> v \<le> INT_MAX \<or> s = [] \<and> v = 0)"
proof -
  have nonempty: "c_numeral s w \<Longrightarrow> s \<noteq> []" for w by (auto simp: c_numeral_def)
  obtain u e r where st: "strtol s = (u, e, r)" by (cases "strtol s")
  have read: "c_numeral s w \<longleftrightarrow> w = u" if whole: "\<not> e" "r = []" "s \<noteq> []" for w
  proof -
    obtain x where x: "c_numeral s x" using strtol_consumed [of s u e] st whole(2,3) by blast
    have "u = y" if "c_numeral s y" for y
      using strtol_numeral [OF that] st \<open>\<not> e\<close> by (simp split: if_splits)
    then show ?thesis using x by blast
  qed
  have unread: "\<not> c_numeral s w \<or> \<not> w \<le> INT_MAX \<or> w < 0" if "e \<or> r \<noteq> []" for w
    using strtol_numeral [of s w] st that by (auto split: if_splits)
  show ?thesis
  proof (cases "s = []")
    case True
    then show ?thesis using nonempty by (auto simp: parse_positive_id_def parse_nonneg_int_def strtol_empty)
  next
    case False
    show ?thesis
    proof (cases "e \<or> r \<noteq> []")
      case True
      then show ?thesis
        using unread [OF True, of v] False by (auto simp: parse_positive_id_def parse_nonneg_int_def st)
    next
      case ok: False
      then show ?thesis
        using read False by (auto simp: parse_positive_id_def parse_nonneg_int_def st)
    qed
  qed
qed

section \<open>The preflight\<close>

text \<open>A request is answered: the transfer is complete with status 200; \<open>body\<close> is its text.\<close>

definition answered :: "env \<Rightarrow> nat \<Rightarrow> http_request \<Rightarrow> string \<Rightarrow> bool" where
  "answered E n rq body \<longleftrightarrow>
     (\<exists>http chunks. fst (perform E n rq) = CURLE_OK http chunks \<and> c_int http = 200 \<and> body = c_string (concat chunks))"

definition timed_out :: "env \<Rightarrow> nat \<Rightarrow> http_request \<Rightarrow> bool" where
  "timed_out E n rq \<longleftrightarrow> fst (perform E n rq) = CURLE_OPERATION_TIMEDOUT"

lemma get_answered:
  assumes "backend_request E ''GET'' (build_url 1024 base tail) None key t s = ((brc, r), s')" and "0 < t"
  shows "let n = length (rn_requests s); rq = the_request ''GET'' base tail None key t in
    (brc = BACKEND_OK \<and> http_status r = 200 \<longleftrightarrow> (\<exists>body. answered E n rq body))
    \<and> (brc = BACKEND_OK \<longrightarrow> (\<forall>body. answered E n rq body \<longrightarrow> resp_body r = Some body))
    \<and> (brc = BACKEND_ERR_TIMEOUT \<longleftrightarrow> timed_out E n rq)
    \<and> (brc = BACKEND_OK \<longrightarrow> rn_requests s' = rn_requests s @ [rq])"
proof -
  let ?n = "length (rn_requests s)" and ?rq = "the_request ''GET'' base tail None key t"
  have body: "(case buf_data (received chunks) of None \<Rightarrow> [] | Some u \<Rightarrow> u) = concat chunks" for chunks
    by (rule received_text)
  obtain reply ms where p: "perform E ?n ?rq = (reply, ms)" by fastforce
  show ?thesis
    using assms p [unfolded the_request_def]
    by (cases reply) (auto simp: backend_request_def Let_def answered_def timed_out_def the_request_def body)
qed

text \<open>The preflight passes exactly when both of its requests are answered with status 200 and
  the second answer is JSON with a data entry whose id is the model's; and the exit code of its verdict
  is 0 then, the timeout code exactly when one of the two requests made ran into the time limit, and
  the code of an HTTP failure otherwise.\<close>

theorem preflight_exact:
  assumes "backend_preflight E base mid dl key t s = ((prc, pf), s')" and "0 < t"
  shows "let n = length (rn_requests s); code = snd (preflight_verdict prc pf);
      served = (\<exists>health models jm. answered E n (health_request base key t) health
        \<and> answered E (n + 1) (models_request base key t) models
        \<and> cJSON_Parse E models = Some jm \<and> find_entry (Some jm) mid \<noteq> None);
      late = (timed_out E n (health_request base key t)
        \<or> (\<exists>health. answered E n (health_request base key t) health) \<and> timed_out E (n + 1) (models_request base key t))
    in (prc = PREFLIGHT_OK \<longleftrightarrow> served)
       \<and> code = (if served then EXIT_OK else if late then EXIT_TIMEOUT else EXIT_HTTP)"
proof -
  obtain brc r s1 where h: "backend_request E ''GET'' (build_url 1024 base ''/health'') None key t s = ((brc, r), s1)"
    by (metis prod.collapse)
  obtain brc2 r2 s2 where m: "backend_request E ''GET'' (build_url 1024 base ''/v1/models'') None key t s1 = ((brc2, r2), s2)"
    by (metis prod.collapse)
  note a1 = get_answered [OF h assms(2), unfolded Let_def]
  note a2 = get_answered [OF m assms(2), unfolded Let_def]
  let ?n = "length (rn_requests s)"
  have one: "answered E n rq b \<Longrightarrow> \<not> timed_out E n rq" for n rq b
    by (auto simp: answered_def timed_out_def)
  show ?thesis
  proof (cases "brc = BACKEND_OK \<and> http_status r = 200")
    case False
    then have "prc \<noteq> PREFLIGHT_OK" "snd (preflight_verdict prc pf) = (if brc = BACKEND_ERR_TIMEOUT then EXIT_TIMEOUT else EXIT_HTTP)"
      using assms(1) by (auto simp: backend_preflight_def h Let_def preflight_verdict_def split: if_splits)
    then show ?thesis using False a1 unfolding Let_def by auto
  next
    case True
    then obtain health where ans: "answered E ?n (health_request base key t) health" and n: "length (rn_requests s1) = ?n + 1"
      using a1 by auto
    note a2 = a2 [unfolded n]
    show ?thesis
    proof (cases "brc2 = BACKEND_OK \<and> http_status r2 = 200")
      case False
      then have "prc \<noteq> PREFLIGHT_OK" "snd (preflight_verdict prc pf) = (if brc2 = BACKEND_ERR_TIMEOUT then EXIT_TIMEOUT else EXIT_HTTP)"
        using assms(1) True by (auto simp: backend_preflight_def h m Let_def preflight_verdict_def split: if_splits)
      then show ?thesis using False a2 ans one [OF ans] unfolding Let_def by auto
    next
      case ok: True
      then obtain models where ans2: "answered E (?n + 1) (models_request base key t) models" and r2: "resp_body r2 = Some models"
        using a2 by auto
      have same: "models' = models" if "answered E (?n + 1) (models_request base key t) models'" for models'
        using a2 ok that r2 by auto
      have "(prc = PREFLIGHT_OK \<longleftrightarrow> (\<exists>jm. cJSON_Parse E models = Some jm \<and> find_entry (Some jm) mid \<noteq> None))
          \<and> snd (preflight_verdict prc pf) = (if prc = PREFLIGHT_OK then EXIT_OK else EXIT_HTTP)"
        using assms(1) True ok
        by (auto simp: backend_preflight_def h m r2 Let_def preflight_verdict_def split: if_splits option.splits prod.splits)
      moreover have "(\<exists>health models jm. answered E ?n (health_request base key t) health
          \<and> answered E (?n + 1) (models_request base key t) models
          \<and> cJSON_Parse E models = Some jm \<and> find_entry (Some jm) mid \<noteq> None)
        \<longleftrightarrow> (\<exists>jm. cJSON_Parse E models = Some jm \<and> find_entry (Some jm) mid \<noteq> None)"
        using ans ans2 same by blast
      moreover have "\<not> (timed_out E ?n (health_request base key t)
          \<or> (\<exists>health. answered E ?n (health_request base key t) health) \<and> timed_out E (?n + 1) (models_request base key t))"
        using one [OF ans] one [OF ans2] by blast
      ultimately show ?thesis unfolding Let_def
        by (cases "prc = PREFLIGHT_OK") (simp_all only: if_True if_False simp_thms)
    qed
  qed
qed

lemma preflight_exact_witness:
  "fst (fst (backend_preflight sample_env ''http://h'' ''x'' None None 5 sample_runner)) = PREFLIGHT_OK"
proof -
  obtain prc pf s' where p: "backend_preflight sample_env ''http://h'' ''x'' None None 5 sample_runner = ((prc, pf), s')"
    by (metis prod.collapse)
  have n: "length (rn_requests sample_runner) = 0" by (simp add: sample_runner_def start_state_def)
  have a: "answered sample_env 0 (health_request ''http://h'' None 5) ''ok''"
      "answered sample_env (0 + 1) (models_request ''http://h'' None 5) ''models''"
    by (simp_all add: answered_def sample_env_def c_string_def c_int_id)
  have j: "cJSON_Parse sample_env ''models'' = Some (JObject [(''data'', JArray [JObject [(''id'', JString ''x'')]])])"
    by (simp add: sample_env_def sample_parse_def)
  have f: "find_entry (Some (JObject [(''data'', JArray [JObject [(''id'', JString ''x'')]])])) ''x'' \<noteq> None"
    by code_simp
  have "prc = PREFLIGHT_OK"
    using preflight_exact [OF p zero_less_numeral, unfolded n Let_def, THEN conjunct1] a j f by blast
  then show ?thesis by (simp add: p)
qed

section \<open>The start of main\<close>

lemma verbose_arg: "global_arg_of (''--verbose='' @ t) = Verbose_level t"
  by (simp add: global_arg_of_def flag_prefix_match_def flag_tail_def)

text \<open>A verbose level that is not a number crashes the program: parse_globals refuses it
  with the invalid-argument code, main only looks for the command-line code, goes on and reads the
  first element of an argument list that is not there.\<close>

theorem bad_verbose_crashes:
  assumes "verbose_level t = None"
  shows "fst (main E H True mem opening closing nodb ((''--verbose='' @ t) # args)) = Crash"
  using assms by (simp add: main_def parse_globals_def verbose_arg zero_opts_def Let_def del: append.simps)

definition sample_opening :: open_env where
  "sample_opening = \<lparr>oe_open = True, oe_handle = True, oe_fk = 1, oe_mode = Some ''wal'', oe_tables = Some 9,
     oe_malloc = True, oe_strdup = True, oe_version = Some 1, oe_store = empty_store,
     oe_clock = ''2024-01-01 00:00:00'', oe_engine = [], oe_engine_msg = []\<rparr>"

lemma bad_verbose_crashes_witness:
  "fst (main sample_env sample_host True True sample_opening SQLITE_OK sample_empty [''--verbose=x'', ''run'']) = Crash"
proof -
  have "verbose_level ''x'' = None" by code_simp
  from bad_verbose_crashes [OF this, of sample_env sample_host True sample_opening SQLITE_OK sample_empty "[''run'']"]
  show ?thesis by simp
qed

end
