(* ===== verification/Batch_Properties.thy ===== *)
theory Batch_Properties
  imports Runner_Properties
begin

text \<open>
  A batch (\<^verbatim>\<open>run --pending\<close>): every execution of the page is settled, nothing else is
  touched.
\<close>

section \<open>The engine stays healthy\<close>

definition stays_healthy :: "env \<Rightarrow> runner \<Rightarrow> runner \<Rightarrow> bool" where
  "stays_healthy E s s' \<longleftrightarrow> (undisturbed E \<longrightarrow> healthy (rn_db s) \<longrightarrow> healthy (rn_db s'))"

lemma complete_health: "acta_db_execution_complete i v d = (rc, d') \<Longrightarrow> healthy d \<Longrightarrow> healthy d'"
  unfolding acta_db_execution_complete_def by (rule verified_health)

lemma fail_health: "acta_db_execution_fail i v d = (rc, d') \<Longrightarrow> healthy d \<Longrightarrow> healthy d'"
  unfolding acta_db_execution_fail_def by (rule verified_health)

lemma cancel_health:
  assumes "acta_db_execution_cancel i d = (rc, d')" and "healthy d"
  shows "healthy d'"
proof -
  define why where "why = ''cancel requires status '' @ [CHR 0x27] @ ''pending'' @ [CHR 0x27] @ '' or ''
                @ [CHR 0x27] @ ''running'' @ [CHR 0x27]"
  obtain rc0 d0 where v: "exec_verify_status i ''pending'' why d = (rc0, d0)" by fastforce
  then have h: "healthy d0" using verify_status_healthy [OF assms(2), of i "''pending''" why] by simp
  obtain rc1 d1 where w: "(if rc0 = ACTA_DB_ERR_INVALID then exec_verify_status i ''running'' why d0 else (rc0, d0)) = (rc1, d1)"
    by fastforce
  then have h1: "healthy d1"
    using h verify_status_healthy [OF h, of i "''running''" why] by (auto split: if_splits)
  have "(if rc1 \<noteq> ACTA_DB_OK then (rc1, d1)
      else exec_update i (\<lambda>r. ex_status r \<in> {''pending'', ''running''}) (SetCancelled (clock d1)) ''cancel'' d1) = (rc, d')"
    using assms(1) unfolding acta_db_execution_cancel_def Let_def why_def [symmetric] v prod.case w by simp
  then show ?thesis using h1 finish_health unfolding exec_update_def by (auto split: if_splits)
qed

interpretation sound: execution_frame E i "stays_healthy E" for E i
proof unfold_locales
  show "stays_healthy E s s'" if "backend_request E meth u b k t s = (r, s')" for meth u b k t s r s'
    using request_undisturbed [OF that] by (auto simp: stays_healthy_def)
  show "stays_healthy E s (s\<lparr>rn_db := d\<rparr>)" if "acta_db_execution_log_create l (rn_db s) = (rc, out, d)" for l s rc out d
    using log_keeps_row [OF that, of i] by (simp add: stays_healthy_def kept_row_def)
  show "stays_healthy E s (s\<lparr>rn_db := d\<rparr>)" if "acta_db_execution_set_raw_response i v (rn_db s) = (rc, d)" for v s rc d
    using raw_keeps_row [OF that] by (simp add: stays_healthy_def kept_row_def)
qed (auto simp: stays_healthy_def same_db_def put_err_def put_out_def
    dest: start_health complete_health fail_health cancel_health)


section \<open>One run in a batch\<close>

definition settled :: "execution_row option \<Rightarrow> bool" where
  "settled r \<longleftrightarrow> (\<exists>x. r = Some x \<and> ex_status x \<in> {''completed'', ''failed'', ''cancelled''})"

definition completed :: "execution_row option \<Rightarrow> bool" where
  "completed r \<longleftrightarrow> (\<exists>x. r = Some x \<and> ex_status x = ''completed'')"

lemma run_steps_ok:
  assumes "run_execution_dialect E i t limit key ov s = (code, s')" and "undisturbed E" and "db_ok (store (rn_db s))"
  shows "db_ok (store (rn_db s'))"
  using steps.run_execution_dialect [OF assms(1)] steps_ok [OF _ assms(3)] assms(2)
  by (auto simp: by_steps_def lawful_def undisturbed_def)

lemma run_one_settles:
  assumes run: "run_execution_dialect E i t limit key ov s = (code, s')"
    and und: "undisturbed E" and h: "healthy (rn_db s)" and ok: "db_ok (store (rn_db s))"
    and r: "row_at (rn_db s) i = Some r" "ex_status r = ''pending''" "ex_deleted_at r = None"
  shows "code \<in> insert EXIT_OK run_codes \<and> settled (row_at (rn_db s') i)
    \<and> (code = EXIT_OK \<longrightarrow> completed (row_at (rn_db s') i))
    \<and> healthy (rn_db s') \<and> db_ok (store (rn_db s'))
    \<and> (\<forall>j. j \<noteq> i \<longrightarrow> row_at (rn_db s') j = row_at (rn_db s) j)"
proof -
  have "exec_ok (store (rn_db s))" using ok by (simp add: db_ok_def)
  then have e: "code \<in> insert EXIT_OK run_codes \<and> ends i code s'" by (rule run_ends [OF run und h _ r])
  have "healthy (rn_db s')" using sound.run_execution_dialect [OF run] und h by (simp add: stays_healthy_def)
  moreover have "\<forall>j. j \<noteq> i \<longrightarrow> row_at (rn_db s') j = row_at (rn_db s) j"
    using own.run_execution_dialect [OF run] und by (simp add: own_only_def only_own_def row_at_def)
  ultimately show ?thesis
    using e run_steps_ok [OF run und ok] by (auto simp: ends_def settled_def completed_def split: if_splits)
qed

lemma run_code_nonneg: "c \<in> insert EXIT_OK run_codes \<Longrightarrow> 0 \<le> c"
  by (auto simp: run_codes_def)

text \<open>The rows a batch is about to run.\<close>

definition awaiting :: "runner \<Rightarrow> execution_row list \<Rightarrow> bool" where
  "awaiting s rs \<longleftrightarrow> distinct (map ex_id rs)
     \<and> (\<forall>r\<in>set rs. row_at (rn_db s) (ex_id r) = Some r \<and> ex_status r = ''pending'' \<and> ex_deleted_at r = None
          \<and> c_int (ex_id r) = ex_id r)"

lemma run_batch_settles:
  assumes "run_batch E t limit key (map row_to_execution rs) worst s = (code, s')"
    and "undisturbed E" and "healthy (rn_db s)" and "db_ok (store (rn_db s))" and "awaiting s rs" and "0 \<le> worst"
  shows "code \<in> insert worst run_codes \<and> worst \<le> code
    \<and> (\<forall>r\<in>set rs. settled (row_at (rn_db s') (ex_id r)))
    \<and> (code = EXIT_OK \<longrightarrow> (\<forall>r\<in>set rs. completed (row_at (rn_db s') (ex_id r))))
    \<and> (\<forall>j. j \<notin> ex_id ` set rs \<longrightarrow> row_at (rn_db s') j = row_at (rn_db s) j)"
  using assms
proof (induction rs arbitrary: worst s)
  case Nil
  then show ?case by simp
next
  case (Cons r rs)
  obtain rc s1 where run: "run_execution_dialect E (ex_id r) t limit key DIALECT_UNKNOWN s = (rc, s1)" by fastforce
  have id: "e_id (row_to_execution r) = ex_id r"
    using Cons.prems(5) by (simp add: awaiting_def row_to_execution_def)
  define w where "w = (if rc \<noteq> EXIT_OK \<and> rc > worst then rc else worst)"
  have rest: "run_batch E t limit key (map row_to_execution rs) w (deathmark_release s1) = (code, s')"
    using Cons.prems(1) by (simp add: run_execution_def id run w_def)
  have r: "row_at (rn_db s) (ex_id r) = Some r" "ex_status r = ''pending''" "ex_deleted_at r = None"
    using Cons.prems(5) by (simp_all add: awaiting_def)
  note one = run_one_settles [OF run Cons.prems(2-4) r]
  have db: "rn_db (deathmark_release s1) = rn_db s1" by (simp add: deathmark_release_def)
  have "awaiting (deathmark_release s1) rs"
  proof -
    have "row_at (rn_db s1) (ex_id x) = row_at (rn_db s) (ex_id x)" if "x \<in> set rs" for x
      using one that Cons.prems(5) unfolding awaiting_def by (metis distinct.simps(2) image_eqI list.set_map list.simps(9))
    then show ?thesis using Cons.prems(5) unfolding awaiting_def db by simp
  qed
  moreover have "0 \<le> w" "worst \<le> w" "w = EXIT_OK \<longrightarrow> worst = EXIT_OK \<and> rc = EXIT_OK" "w \<in> insert worst run_codes"
    using Cons.prems(6) one run_code_nonneg [of rc] by (auto simp: w_def)
  ultimately have ih: "code \<in> insert w run_codes \<and> w \<le> code
    \<and> (\<forall>r\<in>set rs. settled (row_at (rn_db s') (ex_id r)))
    \<and> (code = EXIT_OK \<longrightarrow> (\<forall>r\<in>set rs. completed (row_at (rn_db s') (ex_id r))))
    \<and> (\<forall>j. j \<notin> ex_id ` set rs \<longrightarrow> row_at (rn_db s') j = row_at (rn_db s1) j)"
    using Cons.IH [OF rest Cons.prems(2)] one by (simp add: db)
  have "ex_id r \<notin> ex_id ` set rs" using Cons.prems(5) by (simp add: awaiting_def)
  then have "row_at (rn_db s') (ex_id r) = row_at (rn_db s1) (ex_id r)" using ih by blast
  moreover have "code = EXIT_OK \<longrightarrow> rc = EXIT_OK"
    using ih \<open>w = EXIT_OK \<longrightarrow> worst = EXIT_OK \<and> rc = EXIT_OK\<close> \<open>0 \<le> w\<close> by auto
  ultimately show ?case
    using ih one \<open>worst \<le> w\<close> \<open>w \<in> insert worst run_codes\<close> by auto
qed


lemma preflight_keeps_db:
  assumes "run_preflight_before_claim E e key t s = (code, s')" and "undisturbed E"
  shows "same_db (rn_db s) (rn_db s')"
proof -
  obtain q s1 where f: "fetch ''model revision'' (e_model_revision_id e) acta_db_model_revision_get s = (q, s1)"
    by fastforce
  have same: "same_db (rn_db s) (rn_db s1)"
    using f by (auto simp: fetch_def leave_def split: prod.splits option.splits if_splits dest: model_revision_get_same)
  have pf: "rn_db u' = rn_db u" if "backend_preflight E base mid dl key t u = (r, u')" for base mid dl u r u'
  proof -
    note keep = request_undisturbed [OF _ assms(2)]
    show ?thesis
      using that
      by (auto simp: backend_preflight_def Let_def split: prod.splits if_splits option.splits dest!: keep)
  qed
  have "rn_db s' = rn_db s1"
    using assms(1)
    by (auto simp: run_preflight_before_claim_def f Let_def report_def put_err_def put_out_def
        split: sum.splits prod.splits if_splits option.splits dest!: pf)
  then show ?thesis using same by simp
qed

section \<open>The batch\<close>

definition pending_page :: "int \<Rightarrow> store \<Rightarrow> execution_row list" where
  "pending_page n st = sql_page (db_clamp_limit n) 0
     (filter (\<lambda>r. ex_deleted_at r = None \<and> ex_status r = ''pending'') (rows (executions st)))"

lemma pending_query_rows:
  assumes "healthy d" and "exec_ok (store d)"
  shows "acta_db_execution_query (Some pending_query) 0 n d =
    (map row_to_execution (pending_page n (store d)), Some (int (length (pending_page n (store d)))), Some ACTA_DB_OK, d)"
proof -
  have "exec_asked (Some pending_query) = (\<lambda>r. ex_deleted_at r = None \<and> ex_status r = ''pending'')"
    by (auto simp: exec_asked_def exec_matches_def pending_query_def ACTA_EXEC_QUERY_ANY_def)
  then show ?thesis
    by (simp add: acta_db_execution_query_def exec_query_rows [OF assms] pending_page_def Let_def)
qed

text \<open>The rows of a page are found under their ids, each once.\<close>

lemma page_rows:
  assumes "exec_ok (store d)" and "\<forall>r\<in>set (rows (executions (store d))). ex_id r \<le> INT_MAX"
    and page_def: "page = take k (filter P (rows (executions (store d))))"
  shows "distinct (map ex_id page)
    \<and> (\<forall>r\<in>set page. row_at d (ex_id r) = Some r \<and> P r \<and> c_int (ex_id r) = ex_id r)"
proof -
  let ?t = "executions (store d)"
  have ids: "sorted_wrt (<) (map ex_id (rows ?t))" and pos: "\<forall>r\<in>set (rows ?t). 0 < ex_id r"
    using assms(1) by (auto simp: exec_ok_def tbl_ok_def)
  have "distinct (map ex_id (rows ?t))" using ids strict_sorted_iff by blast
  then have "distinct (map ex_id page)"
    unfolding page_def take_map [symmetric] by (intro distinct_take distinct_map_filter)
  moreover have "row_at d (ex_id r) = Some r \<and> P r \<and> c_int (ex_id r) = ex_id r" if "r \<in> set page" for r
  proof -
    have r: "r \<in> set (rows ?t)" "P r"
      using in_set_takeD [OF that [unfolded page_def]] by simp_all
    have "row_at d (ex_id r) = Some r"
      unfolding row_at_def using assms(1) r(1) by (intro tbl_get_unique) (simp_all add: exec_ok_def)
    moreover have "c_int (ex_id r) = ex_id r"
      using r(1) pos assms(2) by (intro c_int_id) force+
    ultimately show ?thesis using r by simp
  qed
  ultimately show ?thesis by blast
qed

lemma page_awaiting:
  assumes "exec_ok (store (rn_db s))" and "\<forall>r\<in>set (rows (executions (store (rn_db s)))). ex_id r \<le> INT_MAX"
  shows "awaiting s (pending_page n (store (rn_db s)))"
proof -
  have "pending_page n (store (rn_db s)) = take (nat (db_clamp_limit n))
      (filter (\<lambda>r. ex_deleted_at r = None \<and> ex_status r = ''pending'') (rows (executions (store (rn_db s)))))"
    using db_clamp_limit_range [of n] by (simp add: pending_page_def sql_page_def)
  note page_rows [OF assms this]
  then show ?thesis unfolding awaiting_def by blast
qed

text \<open>Claim C20: A batch settles its page. On an engine without faults and with no other process at
  work, run --pending either stops at the preflight of the first execution, with a non-zero code and
  the database as it was, or ends with every one of the first live pending executions (up to the
  clamped limit) completed, failed or cancelled, with exit code 0 only if all of them are completed.
  No other execution changes.\<close>

theorem batch_settles:
  assumes "run_pending E n t limit key s = (code, s')"
    and "undisturbed E" and "healthy (rn_db s)" and "db_ok (store (rn_db s))"
    and "\<forall>r\<in>set (rows (executions (store (rn_db s)))). ex_id r \<le> INT_MAX"
  shows "let page = pending_page n (store (rn_db s)) in
    (page \<noteq> [] \<and> code \<noteq> EXIT_OK \<and> store (rn_db s') = store (rn_db s)
     \<or> (\<forall>r\<in>set page. settled (row_at (rn_db s') (ex_id r))) \<and> code \<in> insert EXIT_OK run_codes
       \<and> (code = EXIT_OK \<longrightarrow> (\<forall>r\<in>set page. completed (row_at (rn_db s') (ex_id r)))))
    \<and> (\<forall>j. j \<notin> ex_id ` set page \<longrightarrow> row_at (rn_db s') j = row_at (rn_db s) j)"
proof -
  have ok: "exec_ok (store (rn_db s))" using assms(4) by (simp add: db_ok_def)
  define page where "page = pending_page n (store (rn_db s))"
  have same: "s\<lparr>rn_db := rn_db s\<rparr> = s" by simp
  note q = pending_query_rows [OF assms(3) ok, of n, folded page_def]
  show ?thesis
  proof (cases page)
    case Nil
    then have "s' = s" "code = EXIT_OK"
      using assms(1) by (simp_all add: run_pending_def q same err_of_def)
    then show ?thesis using Nil by (simp add: page_def [symmetric])
  next
    case (Cons r rs)
    obtain pfc s2 where p: "run_preflight_before_claim E (row_to_execution r) key t s = (pfc, s2)" by fastforce
    note sd = preflight_keeps_db [OF p assms(2), unfolded same_db_def]
    show ?thesis
    proof (cases "pfc = EXIT_OK")
      case False
      then have "code = pfc" "s' = s2"
        using assms(1) Cons p by (simp_all add: run_pending_def q same err_of_def)
      then show ?thesis using False sd Cons by (simp add: page_def [symmetric] row_at_def)
    next
      case True
      have b: "run_batch E t limit key (map row_to_execution page) EXIT_OK s2 = (code, s')"
        using assms(1) Cons p True by (simp add: run_pending_def q same err_of_def)
      have rows: "row_at (rn_db s2) j = row_at (rn_db s) j" for j using sd by (simp add: row_at_def)
      have "awaiting s2 page"
        using page_awaiting [OF ok assms(5), of n] by (simp add: awaiting_def rows page_def)
      then show ?thesis
        using run_batch_settles [OF b assms(2)] sd assms(3,4) by (simp add: page_def [symmetric] rows)
    qed
  qed
qed

lemma batch_settles_witness:
  "row_at (rn_db (snd (run_pending sample_env 10 600 100000 (Some ''k'') sample_runner))) 2 = None"
proof -
  let ?r = "run_pending sample_env 10 600 100000 (Some ''k'') sample_runner"
  have st: "store (rn_db sample_runner) = store sample_served" by (simp add: sample_runner_db)
  have ids: "map ex_id (rows (executions (store sample_served))) = [1]" by code_simp
  have pg: "map ex_id (pending_page 10 (store sample_served)) = [1]" by code_simp
  have i1: "ex_id ` set (pending_page 10 (store sample_served)) = {1}"
    using arg_cong [OF pg, of set] by simp
  have small: "\<forall>r\<in>set (rows (executions (store (rn_db sample_runner)))). ex_id r \<le> INT_MAX"
  proof
    fix r assume "r \<in> set (rows (executions (store (rn_db sample_runner))))"
    then have "ex_id r \<in> set (map ex_id (rows (executions (store sample_served))))" by (simp add: st)
    then show "ex_id r \<le> INT_MAX" unfolding ids by simp
  qed
  have others: "row_at (rn_db sample_runner) j = None" if "j \<noteq> 1" for j
  proof -
    have "ex_id r \<noteq> j" if "r \<in> set (rows (executions (store sample_served)))" for r
    proof -
      have "ex_id r \<in> set (map ex_id (rows (executions (store sample_served))))" using that by simp
      then show ?thesis using \<open>j \<noteq> 1\<close> unfolding ids by simp
    qed
    then show ?thesis by (simp add: row_at_def st tbl_get_None)
  qed
  have h: "healthy (rn_db sample_runner)" by code_simp
  have "undisturbed sample_env" by (simp add: undisturbed_def sample_env_def)
  note b = batch_settles [OF prod.collapse [symmetric, of ?r] this h _ small, unfolded st Let_def i1]
  show ?thesis using b sample_served_ok others [of 2] by simp
qed

end
