(* ===== verification/Sweep_Properties.thy ===== *)
theory Sweep_Properties
  imports Batch_Properties
begin

text \<open>
  The sweep: exactly the running executions of the page whose last recorded activity is older than the
  threshold are failed. The death marker: it fails a running execution and nothing else.
\<close>

section \<open>Activity\<close>

definition logs_of :: "store \<Rightarrow> int \<Rightarrow> log_row list" where
  "logs_of st i = filter (\<lambda>l. lg_execution_id l = i) (rows (execution_logs st))"

definition newest_log :: "store \<Rightarrow> int \<Rightarrow> string option" where
  "newest_log st i =
     (if logs_of st i = [] then None
      else map_option (snprintf 32) (nonempty (Some (lg_created_at (last (sort_key log_order (logs_of st i)))))))"

text \<open>The later of the newest log line and the start, or the creation when there is neither.\<close>

definition activity :: "store \<Rightarrow> execution_row \<Rightarrow> string option" where
  "activity st r =
     map_option (snprintf 32)
       (case (newest_log st (ex_id r), nonempty (ex_started_at r)) of
          (Some l, Some b) \<Rightarrow> Some (max l b)
        | (Some l, None) \<Rightarrow> Some l
        | (None, Some b) \<Rightarrow> Some b
        | (None, None) \<Rightarrow> nonempty (Some (ex_created_at r)))"

definition stale :: "string \<Rightarrow> store \<Rightarrow> execution_row \<Rightarrow> bool" where
  "stale threshold st r \<longleftrightarrow> (case activity st r of None \<Rightarrow> True | Some t \<Rightarrow> t < threshold)"

lemma last_page:
  assumes "xs \<noteq> []" and "0 < k"
  shows "last (take k (drop (length xs - min (length xs) k) xs)) = last xs"
proof -
  have "take k (drop (length xs - min (length xs) k) xs) = drop (length xs - min (length xs) k) xs"
    by (intro take_all) simp
  then show ?thesis using assms by (simp add: last_drop)
qed

lemma latest_log_exact:
  assumes "healthy d" and "length (rows (execution_logs (store d))) < 2147483648"
  shows "latest_log i d = (newest_log (store d) i, d)"
proof -
  let ?xs = "logs_of (store d) i"
  have sel: "filter (log_selected i None) (rows (execution_logs (store d))) = ?xs"
  proof -
    have "log_selected i None = (\<lambda>l. lg_execution_id l = i)" by (simp add: fun_eq_iff log_selected_def)
    then show ?thesis by (simp add: logs_of_def)
  qed
  have "length ?xs < 2147483648"
    using assms(2) length_filter_le [of "\<lambda>l. lg_execution_id l = i" "rows (execution_logs (store d))"]
    unfolding logs_of_def by linarith
  then have n: "c_int (int (length ?xs)) = int (length ?xs)" by (intro c_int_id) auto
  have count: "acta_db_execution_log_count i None d = (int (length ?xs), Some ACTA_DB_OK, d)"
    by (simp add: acta_db_execution_log_count_def level_active_def sql_read_healthy [OF assms(1)] sel n)
  show ?thesis
  proof (cases "?xs = []")
    case True
    then show ?thesis by (simp add: latest_log_def count newest_log_def err_of_def)
  next
    case False
    define limit where "limit = (if int (length ?xs) < ACTA_DB_MAX_PAGE then int (length ?xs) else ACTA_DB_MAX_PAGE)"
    let ?page = "sql_page limit (int (length ?xs) - limit) (sort_key log_order ?xs)"
    have lim: "db_clamp_limit limit = limit" "0 < limit" "limit \<le> int (length ?xs)"
      using False by (auto simp: limit_def db_clamp_limit_def)
    have len: "length (sort_key log_order ?xs) = length ?xs" by simp
    have ne: "sort_key log_order ?xs \<noteq> []" using False len by (metis length_0_conv)
    have off: "nat (int (length ?xs) - limit) = length ?xs - min (length ?xs) (nat limit)" using lim by auto
    have "?page = take (nat limit) (drop (length ?xs - min (length ?xs) (nat limit)) (sort_key log_order ?xs))"
      using lim by (simp add: sql_page_def Let_def off)
    then have last: "last ?page = last (sort_key log_order ?xs)" "?page \<noteq> []"
      using last_page [OF ne, of "nat limit"] lim ne False unfolding len by auto
    have listed: "acta_db_execution_log_list_by_execution i None (int (length ?xs) - limit) limit d =
        (map row_to_execution_log ?page, Some (int (length ?page)), Some ACTA_DB_OK, d)"
      using lim by (simp add: acta_db_execution_log_list_by_execution_def level_active_def sql_read_healthy [OF assms(1)]
          sel collect_loop_None Let_def)
    show ?thesis
      unfolding latest_log_def count prod.case Let_def limit_def [symmetric] listed
      using last False by (simp add: err_of_def last_map newest_log_def row_to_execution_log_def)
  qed
qed

lemma last_activity_exact:
  assumes "healthy d" and "length (rows (execution_logs (store d))) < 2147483648" and "c_int (ex_id r) = ex_id r"
  shows "last_activity (row_to_execution r) d = (activity (store d) r, d)"
  using assms(3)
  by (simp add: last_activity_def activity_def latest_log_exact [OF assms(1,2)] row_to_execution_def max_def
      split: option.split) (metis linear)


section \<open>One row of the sweep\<close>

lemma verified_clock:
  assumes "(case exec_verify_status i st why d of (rc, d1) \<Rightarrow>
      if rc \<noteq> ACTA_DB_OK then (rc, d1) else exec_update i g (e d1) op d1) = (rc', d')"
  shows "clock d' = clock d"
proof -
  obtain rc1 d1 where v: "exec_verify_status i st why d = (rc1, d1)" by fastforce
  then have c: "clock d1 = clock d" using exec_verify_status_store by blast
  have "(if rc1 \<noteq> ACTA_DB_OK then (rc1, d1) else exec_update i g (e d1) op d1) = (rc', d')"
    using assms unfolding v by simp
  then show ?thesis using c finish_health unfolding exec_update_def by (auto split: if_splits)
qed

definition failed_line :: "string \<Rightarrow> execution_row \<Rightarrow> int \<times> string \<times> string \<times> string option" where
  "failed_line msg r = (ex_id r, ''error'', ''execution_failed'', Some msg)"

definition line_of :: "log_row \<Rightarrow> int \<times> string \<times> string \<times> string option" where
  "line_of l = (lg_execution_id l, lg_level l, lg_event l, lg_message l)"

lemma log_row_exact:
  assumes "healthy d" and "has_row ex_id (executions (store d)) i"
  shows "\<exists>l. line_of l = (i, ''error'', event, Some msg)
    \<and> log_row i ''error'' event msg d
        = d\<lparr>store := (store d)\<lparr>execution_logs := tbl_ins (\<lambda>k. l\<lparr>lg_id := k\<rparr>) (execution_logs (store d))\<rparr>\<rparr>"
  using assms
  by (auto simp: log_row_def acta_db_execution_log_create_def acta_log_level_is_valid_def log_level_check_def
      sql_write_healthy insert_execution_logs_def line_of_def
      intro!: exI [of _ "\<lparr>lg_id = 0, lg_execution_id = i, lg_level = ''error'', lg_event = event,
        lg_message = Some msg, lg_metadata = None, lg_created_at = clock d\<rparr>"])

lemma sweep_one_exact:
  assumes h: "healthy d" and ok: "exec_ok (store d)"
    and small: "length (rows (execution_logs (store d))) < 2147483648"
    and r: "row_at d (ex_id r) = Some r" "ex_status r = ''running''" "c_int (ex_id r) = ex_id r"
    and d'_def: "d' = sweep_one threshold msg (row_to_execution r) d"
  shows "healthy d' \<and> exec_ok (store d') \<and> clock d' = clock d
    \<and> (\<forall>j. row_at d' j = (if j = ex_id r \<and> stale threshold (store d) r
         then Some (exec_apply (SetFailed (Some msg) (clock d)) r) else row_at d j))
    \<and> (\<exists>ls. rows (execution_logs (store d')) = rows (execution_logs (store d)) @ ls
         \<and> map line_of ls = (if stale threshold (store d) r then [failed_line msg r] else []))"
proof (cases "stale threshold (store d) r")
  case False
  then obtain t where "activity (store d) r = Some t" "\<not> t < threshold"
    by (auto simp: stale_def split: option.splits)
  then have "d' = d"
    by (simp add: d'_def sweep_one_def last_activity_exact [OF h small r(3)])
  then show ?thesis using False h ok by simp
next
  case True
  obtain rc d2 where f: "acta_db_execution_fail (ex_id r) (Some msg) d = (rc, d2)" by fastforce
  have rc: "rc = ACTA_DB_OK"
    using fail_code [OF h ok, of "ex_id r" "Some msg"] f r by (simp add: exec_code_def)
  have h2: "healthy d2" using fail_health [OF f h] .
  have c2: "clock d2 = clock d"
    using f unfolding acta_db_execution_fail_def by (rule verified_clock)
  have ok2: "exec_ok (store d2)" by (rule outcome_exec_ok [OF exec_call_outcome [OF c_fail [OF f]] ok])
  have eff: "row_at d2 j = (if j = ex_id r then Some (exec_apply (SetFailed (Some msg) (clock d)) r) else row_at d j)"
    and logs: "execution_logs (store d2) = execution_logs (store d)" for j
    using fail_effect [OF f] rc r(1) by (auto simp: exec_effect_def row_at_def exec_rows.get_upd_id)
  have "has_row ex_id (executions (store d2)) (ex_id r)"
    using eff [of "ex_id r"] unfolding row_at_def has_row_def by (auto dest: tbl_get_SomeD)
  then obtain l where l: "line_of l = failed_line msg r"
    and log: "log_row (ex_id r) ''error'' ''execution_failed'' msg d2
      = d2\<lparr>store := (store d2)\<lparr>execution_logs := tbl_ins (\<lambda>k. l\<lparr>lg_id := k\<rparr>) (execution_logs (store d2))\<rparr>\<rparr>"
    using log_row_exact [OF h2] unfolding failed_line_def by blast
  have id: "e_id (row_to_execution r) = ex_id r" using r(3) by (simp add: row_to_execution_def)
  have "\<not> (case activity (store d) r of None \<Rightarrow> False | Some t \<Rightarrow> t \<ge> threshold)"
    using True by (auto simp: stale_def split: option.splits)
  then have d': "d' = log_row (ex_id r) ''error'' ''execution_failed'' msg d2"
    by (simp add: d'_def sweep_one_def last_activity_exact [OF h small r(3)] id f rc)
  have "healthy d'" "clock d' = clock d" "exec_ok (store d')"
    using h2 c2 ok2 by (simp_all add: d' log healthy_def exec_ok_def)
  moreover have "row_at d' j = row_at d2 j" for j by (simp add: d' log row_at_def)
  moreover have "rows (execution_logs (store d')) = rows (execution_logs (store d))
      @ [l\<lparr>lg_id := seq (execution_logs (store d)) + 1\<rparr>]"
    by (simp add: d' log logs tbl_ins_def)
  moreover have "line_of (l\<lparr>lg_id := k\<rparr>) = line_of l" for k by (simp add: line_of_def)
  ultimately show ?thesis using True eff l by auto
qed


section \<open>Instances\<close>

definition sample_stuck :: runner where
  "sample_stuck = (start_state (snd (acta_db_execution_start 1 sample_served)) [])\<lparr>rn_mark := Some 1\<rparr>"

lemma sample_stuck_facts:
  "healthy (rn_db sample_stuck)" "map ex_id (rows (executions (store (rn_db sample_stuck)))) = [1]"
  "rows (execution_logs (store (rn_db sample_stuck))) = []"
  by code_simp+

lemma sample_stuck_ok: "exec_ok (store (rn_db sample_stuck))"
proof -
  have "exec_ok (store sample_served)" using sample_served_ok by (simp add: db_ok_def)
  then show ?thesis
    using outcome_exec_ok [OF exec_call_outcome [OF c_start [OF prod.collapse [symmetric]]]]
    by (simp add: sample_stuck_def start_state_def)
qed

lemma sample_stuck_ids: "\<forall>r\<in>set (rows (executions (store (rn_db sample_stuck)))). ex_id r \<le> INT_MAX"
proof
  fix r assume "r \<in> set (rows (executions (store (rn_db sample_stuck))))"
  then have "ex_id r \<in> set (map ex_id (rows (executions (store (rn_db sample_stuck)))))" by simp
  then show "ex_id r \<le> INT_MAX" unfolding sample_stuck_facts(2) by simp
qed

section \<open>The sweep\<close>

text \<open>The rows a sweep has read, as they still are.\<close>

definition all_running :: "db_t \<Rightarrow> execution_row list \<Rightarrow> bool" where
  "all_running d rs \<longleftrightarrow> distinct (map ex_id rs)
     \<and> (\<forall>r\<in>set rs. row_at d (ex_id r) = Some r \<and> ex_status r = ''running'' \<and> c_int (ex_id r) = ex_id r)"

lemma sweep_fold:
  assumes "healthy d" and "exec_ok (store d)"
    and "length (rows (execution_logs (store d))) + length rs < 2147483648" and "all_running d rs"
    and "d' = fold (sweep_one threshold msg) (map row_to_execution rs) d"
  shows "(\<forall>j. row_at d' j = (case find (\<lambda>r. ex_id r = j \<and> stale threshold (store d) r) rs of
             None \<Rightarrow> row_at d j | Some r \<Rightarrow> Some (exec_apply (SetFailed (Some msg) (clock d)) r)))
    \<and> (\<exists>ls. rows (execution_logs (store d')) = rows (execution_logs (store d)) @ ls
         \<and> map line_of ls = map (failed_line msg) (filter (stale threshold (store d)) rs))"
  using assms
proof (induction rs arbitrary: d)
  case Nil
  then show ?case by simp
next
  case (Cons r rs)
  define d1 where d1: "d1 = sweep_one threshold msg (row_to_execution r) d"
  have r: "row_at d (ex_id r) = Some r" "ex_status r = ''running''" "c_int (ex_id r) = ex_id r"
    and fresh: "ex_id r \<notin> ex_id ` set rs" and rs: "all_running d rs"
    using Cons.prems(4) by (simp_all add: all_running_def)
  have small: "length (rows (execution_logs (store d))) < 2147483648" using Cons.prems(3) by simp
  obtain ls where one: "healthy d1" "exec_ok (store d1)" "clock d1 = clock d"
      "\<And>j. row_at d1 j = (if j = ex_id r \<and> stale threshold (store d) r
         then Some (exec_apply (SetFailed (Some msg) (clock d)) r) else row_at d j)"
    and ls: "rows (execution_logs (store d1)) = rows (execution_logs (store d)) @ ls"
      "map line_of ls = (if stale threshold (store d) r then [failed_line msg r] else [])"
    using sweep_one_exact [OF Cons.prems(1,2) small r d1] by blast
  have "length ls \<le> 1" using arg_cong [OF ls(2), of length] by (simp split: if_splits)
  then have small1: "length (rows (execution_logs (store d1))) + length rs < 2147483648"
    using Cons.prems(3) by (simp add: ls(1))
  have rs1: "all_running d1 rs"
    using rs fresh one(4) by (auto simp: all_running_def image_def)
  have same: "stale threshold (store d1) x = stale threshold (store d) x" if "x \<in> set rs" for x
  proof -
    have "lg_execution_id l = ex_id r" if "l \<in> set ls" for l
    proof -
      have "line_of l \<in> set (map line_of ls)" using that by simp
      then show ?thesis unfolding ls(2) by (simp add: line_of_def failed_line_def split: if_splits)
    qed
    moreover have "ex_id x \<noteq> ex_id r" using fresh that by (metis imageI)
    ultimately have "filter (\<lambda>l. lg_execution_id l = ex_id x) ls = []" by (auto simp: filter_empty_conv)
    then have "logs_of (store d1) (ex_id x) = logs_of (store d) (ex_id x)" by (simp add: logs_of_def ls(1))
    then show ?thesis by (simp add: stale_def activity_def newest_log_def)
  qed
  have "d' = fold (sweep_one threshold msg) (map row_to_execution rs) d1" using Cons.prems(5) by (simp add: d1)
  note ih = Cons.IH [OF one(1,2) small1 rs1 this]
  obtain ls' where ls': "rows (execution_logs (store d')) = rows (execution_logs (store d1)) @ ls'"
      "map line_of ls' = map (failed_line msg) (filter (stale threshold (store d1)) rs)"
    using ih by blast
  have filt: "filter (stale threshold (store d1)) rs = filter (stale threshold (store d)) rs"
    using same by (intro filter_cong) simp_all
  have find: "find (\<lambda>x. ex_id x = j \<and> stale threshold (store d1) x) rs
      = find (\<lambda>x. ex_id x = j \<and> stale threshold (store d) x) rs" for j
    using same by (intro find_cong) auto
  have none: "find (\<lambda>x. ex_id x = ex_id r \<and> stale threshold (store d) x) rs = None"
    unfolding find_None_iff using fresh by (metis imageI)
  have "row_at d' j = (case find (\<lambda>r. ex_id r = j \<and> stale threshold (store d) r) (r # rs) of
             None \<Rightarrow> row_at d j | Some r \<Rightarrow> Some (exec_apply (SetFailed (Some msg) (clock d)) r))" for j
    using ih none by (cases "j = ex_id r") (auto simp: find one split: option.split)
  moreover have "rows (execution_logs (store d')) = rows (execution_logs (store d)) @ (ls @ ls')"
    by (simp add: ls(1) ls'(1))
  moreover have "map line_of (ls @ ls') = map (failed_line msg) (filter (stale threshold (store d)) (r # rs))"
    by (simp add: ls(2) ls'(2) filt)
  ultimately show ?case by blast
qed

definition running_page :: "store \<Rightarrow> execution_row list" where
  "running_page st = take 10000 (filter (\<lambda>r. ex_deleted_at r = None \<and> ex_status r = ''running'') (rows (executions st)))"


text \<open>Claim C21: The sweep is exact. On an engine without faults, with a valid number of seconds, it
  reports success and fails exactly those executions among the first 10000 live running ones whose last
  activity (the later of the newest log line and the start; the creation when there is neither) is
  older than now less the seconds, each with the same message in its row and in one new error line, in
  the order of their ids; every other execution is as it was.\<close>

theorem sweep_exact:
  assumes "cmd_args_flag ga ''stale-seconds'' True = Some v" and "parse_positive_id v = Some secs"
    and "healthy (rn_db s)" and "exec_ok (store (rn_db s))"
    and "\<forall>r\<in>set (rows (executions (store (rn_db s)))). ex_id r \<le> INT_MAX"
    and "length (rows (execution_logs (store (rn_db s)))) + 10000 < 2147483648"
  shows "let d = rn_db s; d' = rn_db (snd (cmd_sweep now ga s)); msg = stale_msg secs;
      swept = filter (stale (utc_stamp (now - secs)) (store d)) (running_page (store d))
    in fst (cmd_sweep now ga s) = EXIT_OK
       \<and> (\<forall>j. row_at d' j = (case find (\<lambda>r. ex_id r = j) swept of
             None \<Rightarrow> row_at d j | Some r \<Rightarrow> Some (exec_apply (SetFailed (Some msg) (clock d)) r)))
       \<and> (\<exists>ls. rows (execution_logs (store d')) = rows (execution_logs (store d)) @ ls
            \<and> map line_of ls = map (failed_line msg) swept)"
proof -
  let ?d = "rn_db s" and ?th = "utc_stamp (now - secs)"
  have "exec_asked (Some running_query) = (\<lambda>r. ex_deleted_at r = None \<and> ex_status r = ''running'')"
    by (auto simp: exec_asked_def exec_matches_def running_query_def ACTA_EXEC_QUERY_ANY_def)
  then have q: "acta_db_execution_query (Some running_query) 0 ACTA_DB_MAX_PAGE ?d =
      (map row_to_execution (running_page (store ?d)), Some (int (length (running_page (store ?d)))), Some ACTA_DB_OK, ?d)"
    by (simp add: acta_db_execution_query_def exec_query_rows [OF assms(3,4)] running_page_def Let_def sql_page_def
        db_clamp_limit_def)
  have run: "cmd_sweep now ga s = (EXIT_OK, s\<lparr>rn_db := fold (sweep_one ?th (stale_msg secs))
      (map row_to_execution (running_page (store ?d))) ?d\<rparr>)"
    by (simp add: cmd_sweep_def assms(1,2) q err_of_def)
  have rows: "all_running ?d (running_page (store ?d))"
    using page_rows [OF assms(4,5) running_page_def] unfolding all_running_def by blast
  have "length (rows (execution_logs (store ?d))) + length (running_page (store ?d)) < 2147483648"
    using assms(6) by (simp add: running_page_def)
  note sw = sweep_fold [OF assms(3,4) this rows refl, of ?th "stale_msg secs"]
  have find: "find (\<lambda>r. ex_id r = j) (filter P rs) = find (\<lambda>r. ex_id r = j \<and> P r) rs" for j P and rs :: "execution_row list"
    by (induction rs) auto
  have "rn_db (snd (cmd_sweep now ga s)) = fold (sweep_one ?th (stale_msg secs)) (map row_to_execution (running_page (store ?d))) ?d"
    and "fst (cmd_sweep now ga s) = EXIT_OK"
    by (simp_all add: run)
  then show ?thesis unfolding Let_def find using sw by (simp only:) blast
qed

lemma sweep_exact_witness:
  "map_option ex_status (row_at (rn_db (snd (cmd_sweep 2000000000 (cmd_args_init [''--stale-seconds'', ''60'']) sample_stuck))) 1)
     = Some ''failed''"
proof -
  have a: "cmd_args_flag (cmd_args_init [''--stale-seconds'', ''60'']) ''stale-seconds'' True = Some ''60''"
    and b: "parse_positive_id ''60'' = Some 60"
    by code_simp+
  have logs: "length (rows (execution_logs (store (rn_db sample_stuck)))) + 10000 < 2147483648"
    by (simp add: sample_stuck_facts(3))
  have swept: "map_option ex_id (find (\<lambda>r. ex_id r = 1) (filter (stale (utc_stamp (2000000000 - 60)) (store (rn_db sample_stuck)))
      (running_page (store (rn_db sample_stuck))))) = Some 1"
    by code_simp
  note s = sweep_exact [OF a b sample_stuck_facts(1) sample_stuck_ok sample_stuck_ids logs, of 2000000000, unfolded Let_def]
  show ?thesis using s swept by (auto split: option.splits)
qed

section \<open>The death marker\<close>

text \<open>When the process dies while it guards an execution, that execution does not stay
  running: on an engine without faults a running one becomes failed with the marker's message and one
  error line, one in any other state keeps its row, and no other execution changes; without a marker
  nothing happens at all.\<close>

theorem death_marker_exact:
  assumes "healthy (rn_db s)" and "exec_ok (store (rn_db s))"
  shows "case rn_mark s of
      None \<Rightarrow> deathmark_exit_path s = s
    | Some i \<Rightarrow>
        let d = rn_db s; d' = rn_db (deathmark_exit_path s);
            dying = (\<exists>r. row_at d i = Some r \<and> ex_status r = ''running'')
        in (\<forall>j. row_at d' j = (if j = i \<and> dying
              then map_option (exec_apply (SetFailed (Some deathmark_diag) (clock d))) (row_at d i) else row_at d j))
           \<and> (\<exists>ls. rows (execution_logs (store d')) = rows (execution_logs (store d)) @ ls
                \<and> map line_of ls = (if dying then [(i, ''error'', ''execution_failed'', Some deathmark_diag)] else []))"
proof (cases "rn_mark s")
  case None
  then show ?thesis by (simp add: deathmark_exit_path_def)
next
  case (Some i)
  let ?d = "rn_db s" and ?line = "(i, ''error'', ''execution_failed'', Some deathmark_diag)"
  have out: "rn_db (deathmark_exit_path s) = snd (deathmark_mark i ?d)" by (simp add: deathmark_exit_path_def Some)
  show ?thesis
  proof (cases "\<exists>r. row_at ?d i = Some r \<and> ex_status r = ''running''")
    case True
    then obtain r where r: "row_at ?d i = Some r" "ex_status r = ''running''" by blast
    have pos: "0 < i"
      using assms(2) r(1) by (auto simp: exec_ok_def tbl_ok_def row_at_def dest!: tbl_get_SomeD)
    have "has_row ex_id (executions (store ?d)) i"
      using r(1) unfolding row_at_def has_row_def by (auto dest: tbl_get_SomeD)
    then obtain l where l: "line_of l = ?line" and log: "log_row i ''error'' ''execution_failed'' deathmark_diag ?d
        = ?d\<lparr>store := (store ?d)\<lparr>execution_logs := tbl_ins (\<lambda>k. l\<lparr>lg_id := k\<rparr>) (execution_logs (store ?d))\<rparr>\<rparr>"
      using log_row_exact [OF assms(1)] by blast
    define d1 where "d1 = log_row i ''error'' ''execution_failed'' deathmark_diag ?d"
    have d1: "healthy d1" "exec_ok (store d1)" "clock d1 = clock ?d" "row_at d1 j = row_at ?d j" for j
      using assms by (simp_all add: d1_def log healthy_def exec_ok_def row_at_def)
    obtain rc d2 where f: "acta_db_execution_fail i (Some deathmark_diag) d1 = (rc, d2)" by fastforce
    have "rc = ACTA_DB_OK"
      using fail_code [OF d1(1,2), of i "Some deathmark_diag"] f r by (simp add: exec_code_def d1(4))
    then have eff: "row_at d2 j = (if j = i then map_option (exec_apply (SetFailed (Some deathmark_diag) (clock ?d))) (row_at ?d i)
          else row_at ?d j)" and logs: "execution_logs (store d2) = execution_logs (store d1)" for j
      using fail_effect [OF f] d1(3,4) by (auto simp: exec_effect_def row_at_def exec_rows.get_upd_id)
    have "rows (execution_logs (store d2)) = rows (execution_logs (store ?d))
        @ [l\<lparr>lg_id := seq (execution_logs (store ?d)) + 1\<rparr>]"
      by (simp add: logs d1_def log tbl_ins_def)
    moreover have "line_of (l\<lparr>lg_id := k\<rparr>) = line_of l" for k by (simp add: line_of_def)
    moreover have "rn_db (deathmark_exit_path s) = d2"
      using pos r by (simp add: out deathmark_mark_def exec_get_healthy [OF assms(1)] row_at_def [symmetric]
          err_of_def row_to_execution_def d1_def [symmetric] f)
    ultimately show ?thesis using True l by (simp add: Some eff)
  next
    case False
    have "rn_db (deathmark_exit_path s) = ?d"
    proof (cases "0 < i")
      case True
      then show ?thesis
        using False by (auto simp: out deathmark_mark_def exec_get_healthy [OF assms(1)] row_at_def [symmetric]
            err_of_def row_to_execution_def split: option.split)
    qed (simp add: out deathmark_mark_def)
    then show ?thesis using False by (simp add: Some)
  qed
qed

lemma death_marker_exact_witness:
  "map_option ex_status (row_at (rn_db (deathmark_exit_path sample_stuck)) 1) = Some ''failed''"
proof -
  have m: "rn_mark sample_stuck = Some 1" by (simp add: sample_stuck_def)
  have r: "map_option ex_status (row_at (rn_db sample_stuck) 1) = Some ''running''" by code_simp
  show ?thesis
    using death_marker_exact [OF sample_stuck_facts(1) sample_stuck_ok] r by (auto simp: m Let_def)
qed

end
