(* ===== verification/Sha256.thy ===== *)
theory Sha256
  imports Prelude "HOL-Library.Word"
begin

text \<open>
  \<^verbatim>\<open>acta_cli/src/sha256.c\<close> and \<^verbatim>\<open>acta_cli/include/sha256.h\<close>: the digest the
  command line tool derives for a context without one, on 8-bit and 32-bit words, with the
  hexadecimal text \<^verbatim>\<open>sha256_hex\<close> of \<^verbatim>\<open>acta_cli/src/commands/context.c\<close>.
  The C arrays are lists of their fixed length. A shift of a byte by 24 is computed on 32-bit words
  (in C the intermediate type is a signed int).
\<close>

unbundle bit_operations_syntax

type_synonym BYTE = "8 word"
type_synonym WORD = "32 word"

section \<open>Macros\<close>

definition ROTRIGHT :: "WORD \<Rightarrow> nat \<Rightarrow> WORD" where
  "ROTRIGHT a b = drop_bit b a OR push_bit (32 - b) a"

definition CH :: "WORD \<Rightarrow> WORD \<Rightarrow> WORD \<Rightarrow> WORD" where
  "CH x y z = (x AND y) XOR (NOT x AND z)"

definition MAJ :: "WORD \<Rightarrow> WORD \<Rightarrow> WORD \<Rightarrow> WORD" where
  "MAJ x y z = (x AND y) XOR (x AND z) XOR (y AND z)"

definition EP0 :: "WORD \<Rightarrow> WORD" where
  "EP0 x = ROTRIGHT x 2 XOR ROTRIGHT x 13 XOR ROTRIGHT x 22"

definition EP1 :: "WORD \<Rightarrow> WORD" where
  "EP1 x = ROTRIGHT x 6 XOR ROTRIGHT x 11 XOR ROTRIGHT x 25"

definition SIG0 :: "WORD \<Rightarrow> WORD" where
  "SIG0 x = ROTRIGHT x 7 XOR ROTRIGHT x 18 XOR drop_bit 3 x"

definition SIG1 :: "WORD \<Rightarrow> WORD" where
  "SIG1 x = ROTRIGHT x 17 XOR ROTRIGHT x 19 XOR drop_bit 10 x"

definition k_table :: "WORD list" where
  "k_table =
    [0x428a2f98,0x71374491,0xb5c0fbcf,0xe9b5dba5,0x3956c25b,0x59f111f1,0x923f82a4,0xab1c5ed5,
     0xd807aa98,0x12835b01,0x243185be,0x550c7dc3,0x72be5d74,0x80deb1fe,0x9bdc06a7,0xc19bf174,
     0xe49b69c1,0xefbe4786,0x0fc19dc6,0x240ca1cc,0x2de92c6f,0x4a7484aa,0x5cb0a9dc,0x76f988da,
     0x983e5152,0xa831c66d,0xb00327c8,0xbf597fc7,0xc6e00bf3,0xd5a79147,0x06ca6351,0x14292967,
     0x27b70a85,0x2e1b2138,0x4d2c6dfc,0x53380d13,0x650a7354,0x766a0abb,0x81c2c92e,0x92722c85,
     0xa2bfe8a1,0xa81a664b,0xc24b8b70,0xc76c51a3,0xd192e819,0xd6990624,0xf40e3585,0x106aa070,
     0x19a4c116,0x1e376c08,0x2748774c,0x34b0bcb5,0x391c0cb3,0x4ed8aa4a,0x5b9cca4f,0x682e6ff3,
     0x748f82ee,0x78a5636f,0x84c87814,0x8cc70208,0x90befffa,0xa4506ceb,0xbef9a3f7,0xc67178f2]"

section \<open>The context\<close>

record SHA256_CTX =
  sha_data :: "BYTE list"
  sha_datalen :: nat
  sha_bitlen :: "64 word"
  sha_state :: "WORD list"

text \<open>One block: the message schedule, then the 64 rounds.\<close>

definition block_word :: "BYTE list \<Rightarrow> nat \<Rightarrow> WORD" where
  "block_word b j = push_bit 24 (ucast (b ! j)) OR push_bit 16 (ucast (b ! (j + 1)))
     OR push_bit 8 (ucast (b ! (j + 2))) OR ucast (b ! (j + 3))"

definition extend_schedule :: "WORD list \<Rightarrow> WORD list" where
  "extend_schedule m = (let i = length m in
     m @ [SIG1 (m ! (i - 2)) + m ! (i - 7) + SIG0 (m ! (i - 15)) + m ! (i - 16)])"

definition schedule :: "BYTE list \<Rightarrow> WORD list" where
  "schedule b = (extend_schedule ^^ 48) (map (\<lambda>i. block_word b (4 * i)) [0..<16])"

fun sha_round :: "WORD list \<Rightarrow> WORD list \<Rightarrow> nat \<Rightarrow> WORD list" where
  "sha_round m [a, b, c, d, e, f, g, h] i =
     (let t1 = h + EP1 e + CH e f g + k_table ! i + m ! i;
          t2 = EP0 a + MAJ a b c
      in [t1 + t2, a, b, c, d + t1, e, f, g])"
| "sha_round m v i = v"

definition sha256_transform :: "BYTE list \<Rightarrow> SHA256_CTX \<Rightarrow> SHA256_CTX" where
  "sha256_transform block ctx =
     ctx\<lparr>sha_state := map2 (+) (sha_state ctx) (foldl (sha_round (schedule block)) (sha_state ctx) [0..<64])\<rparr>"

section \<open>Init, update, final\<close>

text \<open>The buffer of a fresh context holds whatever the stack held.\<close>

definition sha256_init :: "SHA256_CTX \<Rightarrow> SHA256_CTX" where
  "sha256_init ctx = ctx\<lparr>sha_datalen := 0, sha_bitlen := 0,
     sha_state := [0x6a09e667, 0xbb67ae85, 0x3c6ef372, 0xa54ff53a, 0x510e527f, 0x9b05688c, 0x1f83d9ab, 0x5be0cd19]\<rparr>"

definition absorb :: "BYTE \<Rightarrow> SHA256_CTX \<Rightarrow> SHA256_CTX" where
  "absorb x ctx =
     (let c1 = ctx\<lparr>sha_data := (sha_data ctx)[sha_datalen ctx := x], sha_datalen := sha_datalen ctx + 1\<rparr>
      in if sha_datalen c1 = 64
         then let c2 = sha256_transform (sha_data c1) c1
              in c2\<lparr>sha_bitlen := sha_bitlen c2 + 512, sha_datalen := 0\<rparr>
         else c1)"

text \<open>The loop counts in a 32-bit \<open>i\<close> up to a \<^verbatim>\<open>size_t\<close>; \<open>None\<close> is a loop that never ends.\<close>

partial_function (option) update_loop :: "BYTE list \<Rightarrow> WORD \<Rightarrow> SHA256_CTX \<Rightarrow> SHA256_CTX option" where
  "update_loop bs i ctx =
     (if unat i < length bs then update_loop bs (i + 1) (absorb (bs ! unat i) ctx) else Some ctx)"

definition sha256_update :: "BYTE list \<Rightarrow> SHA256_CTX \<Rightarrow> SHA256_CTX option" where
  "sha256_update bs ctx = update_loop bs 0 ctx"

text \<open>\<^verbatim>\<open>while (i < n) data[i++] = 0\<close>.\<close>

function zero_upto :: "nat \<Rightarrow> nat \<Rightarrow> BYTE list \<Rightarrow> BYTE list" where
  "zero_upto i n xs = (if i < n then zero_upto (i + 1) n (xs[i := 0]) else xs)"
  by pat_completeness auto
termination by (relation "measure (\<lambda>(i, n, xs). n - i)") auto

declare zero_upto.simps [simp del]

definition pad_block :: "SHA256_CTX \<Rightarrow> SHA256_CTX" where
  "pad_block ctx =
     (let i = sha_datalen ctx; marked = (sha_data ctx)[i := 0x80]
      in if i < 56 then ctx\<lparr>sha_data := zero_upto (i + 1) 56 marked\<rparr>
         else let c1 = ctx\<lparr>sha_data := zero_upto (i + 1) 64 marked\<rparr>;
                  c2 = sha256_transform (sha_data c1) c1
              in c2\<lparr>sha_data := zero_upto 0 56 (sha_data c2)\<rparr>)"

definition put_length :: "64 word \<Rightarrow> BYTE list \<Rightarrow> BYTE list" where
  "put_length n xs =
     xs[63 := ucast n, 62 := ucast (drop_bit 8 n), 61 := ucast (drop_bit 16 n), 60 := ucast (drop_bit 24 n),
        59 := ucast (drop_bit 32 n), 58 := ucast (drop_bit 40 n), 57 := ucast (drop_bit 48 n),
        56 := ucast (drop_bit 56 n)]"

text \<open>The digest: the words of the state in order, each with its highest byte first.\<close>

definition state_byte :: "WORD \<Rightarrow> nat \<Rightarrow> BYTE" where
  "state_byte w i = ucast (drop_bit (24 - i * 8) w AND 0xff)"

definition sha256_final :: "SHA256_CTX \<Rightarrow> BYTE list \<times> SHA256_CTX" where
  "sha256_final ctx =
     (let c1 = pad_block ctx;
          n = sha_bitlen c1 + of_nat (sha_datalen c1 * 8);
          c2 = c1\<lparr>sha_bitlen := n, sha_data := put_length n (sha_data c1)\<rparr>;
          c3 = sha256_transform (sha_data c2) c2
      in (concat (map (\<lambda>w. map (state_byte w) [0..<4]) (sha_state c3)), c3))"

section \<open>sha256_hex\<close>

definition hexd :: "nat \<Rightarrow> char" where
  "hexd n = ''0123456789abcdef'' ! n"

definition hex_byte :: "BYTE \<Rightarrow> string" where
  "hex_byte b = [hexd (unat (drop_bit 4 b)), hexd (unat (b AND 0x0f))]"

text \<open>The context on the stack before the call: \<open>junk i\<close> is what byte \<open>i\<close> of the buffer holds.\<close>

definition stack_ctx :: "(nat \<Rightarrow> BYTE) \<Rightarrow> SHA256_CTX" where
  "stack_ctx junk = \<lparr>sha_data = map junk [0..<64], sha_datalen = 0, sha_bitlen = 0, sha_state = []\<rparr>"

definition sha256_hex :: "(nat \<Rightarrow> BYTE) \<Rightarrow> BYTE list \<Rightarrow> string option" where
  "sha256_hex junk bs =
     (case sha256_update bs (sha256_init (stack_ctx junk)) of
        None \<Rightarrow> None
      | Some c \<Rightarrow> Some (concat (map hex_byte (fst (sha256_final c)))))"

end
