(* ===== verification/Sha256_Properties.thy ===== *)
theory Sha256_Properties
  imports Sha256
begin

text \<open>
  The digest against FIPS 180-4: \<open>fips_sha256\<close> pads the whole message, cuts it into blocks
  and folds the compression function over them, written from the standard with the library's
  rotations and big-endian numbers; \<^verbatim>\<open>sha256.c\<close> streams bytes through a 64-byte
  buffer. Both agree on every message the loop counter can count.
\<close>

section \<open>FIPS 180-4\<close>

definition fips_Sigma0 :: "WORD \<Rightarrow> WORD" where
  "fips_Sigma0 x = word_rotr 2 x XOR word_rotr 13 x XOR word_rotr 22 x"

definition fips_Sigma1 :: "WORD \<Rightarrow> WORD" where
  "fips_Sigma1 x = word_rotr 6 x XOR word_rotr 11 x XOR word_rotr 25 x"

definition fips_sigma0 :: "WORD \<Rightarrow> WORD" where
  "fips_sigma0 x = word_rotr 7 x XOR word_rotr 18 x XOR drop_bit 3 x"

definition fips_sigma1 :: "WORD \<Rightarrow> WORD" where
  "fips_sigma1 x = word_rotr 17 x XOR word_rotr 19 x XOR drop_bit 10 x"

function fips_W :: "BYTE list \<Rightarrow> nat \<Rightarrow> WORD" where
  "fips_W b t =
     (if t < 16 then word_rcat (take 4 (drop (4 * t) b))
      else fips_sigma1 (fips_W b (t - 2)) + fips_W b (t - 7) + fips_sigma0 (fips_W b (t - 15)) + fips_W b (t - 16))"
  by pat_completeness auto
termination by (relation "measure snd") auto

declare fips_W.simps [simp del]

lemma vars_cases:
  obtains a b c d e f g h where "v = (a, b, c, d, e, f, g, h)"
proof (cases v rule: prod_cases7)
  case (fields a b c d e f g)
  then show ?thesis by (cases g) (auto intro: that)
qed

type_synonym vars = "WORD \<times> WORD \<times> WORD \<times> WORD \<times> WORD \<times> WORD \<times> WORD \<times> WORD"

definition fips_round :: "BYTE list \<Rightarrow> vars \<Rightarrow> nat \<Rightarrow> vars" where
  "fips_round block v t =
     (case v of (a, b, c, d, e, f, g, h) \<Rightarrow>
        let T1 = h + fips_Sigma1 e + CH e f g + k_table ! t + fips_W block t;
            T2 = fips_Sigma0 a + MAJ a b c
        in (T1 + T2, a, b, c, d + T1, e, f, g))"

definition fips_compress :: "vars \<Rightarrow> BYTE list \<Rightarrow> vars" where
  "fips_compress H block =
     (case H of (H0, H1, H2, H3, H4, H5, H6, H7) \<Rightarrow>
      case foldl (fips_round block) H [0..<64] of (a, b, c, d, e, f, g, h) \<Rightarrow>
        (H0 + a, H1 + b, H2 + c, H3 + d, H4 + e, H5 + f, H6 + g, H7 + h))"

definition fips_H :: vars where
  "fips_H = (0x6a09e667, 0xbb67ae85, 0x3c6ef372, 0xa54ff53a, 0x510e527f, 0x9b05688c, 0x1f83d9ab, 0x5be0cd19)"

definition be_bytes :: "nat \<Rightarrow> nat \<Rightarrow> BYTE list" where
  "be_bytes k n = map (\<lambda>i. of_nat (n div 256 ^ (k - 1 - i))) [0..<k]"

definition fips_pad :: "BYTE list \<Rightarrow> BYTE list" where
  "fips_pad msg = msg @ [0x80] @ replicate ((119 - length msg mod 64) mod 64) 0 @ be_bytes 8 (8 * length msg)"

function blocks :: "BYTE list \<Rightarrow> BYTE list list" where
  "blocks xs = (if length xs < 64 then [] else take 64 xs # blocks (drop 64 xs))"
  by pat_completeness auto
termination by (relation "measure length") auto

declare blocks.simps [simp del]

fun words_of :: "vars \<Rightarrow> WORD list" where
  "words_of (a, b, c, d, e, f, g, h) = [a, b, c, d, e, f, g, h]"

definition fips_sha256 :: "BYTE list \<Rightarrow> BYTE list" where
  "fips_sha256 msg =
     concat (map (\<lambda>w. be_bytes 4 (unat w)) (words_of (foldl fips_compress fips_H (blocks (fips_pad msg)))))"

section \<open>The compression function\<close>

lemma ROTRIGHT_rotr:
  assumes "0 < n" "n < 32"
  shows "ROTRIGHT x n = word_rotr n x"
proof (rule bit_word_eqI)
  fix i assume "i < LENGTH(32)"
  then have i: "i < 32" by simp
  have r: "bit (word_rotr n x) i = bit x ((i + n) mod 32)" using i by (simp add: bit_word_rotr_iff ac_simps)
  have l: "bit (ROTRIGHT x n) i = (bit x (n + i) \<or> 32 - n \<le> i \<and> bit x (i - (32 - n)))"
    using i by (simp add: ROTRIGHT_def bit_or_iff bit_drop_bit_eq bit_push_bit_iff)
  show "bit (ROTRIGHT x n) i = bit (word_rotr n x) i"
  proof (cases "i + n < 32")
    case True
    then have "\<not> 32 - n \<le> i" using assms by linarith
    then show ?thesis using True unfolding r l by (simp add: add.commute)
  next
    case False
    then have "(i + n) mod 32 = i - (32 - n)" using i assms by (simp add: mod_if)
    moreover have "\<not> bit x (n + i)" using False bit_imp_le_length [of x "n + i"] by auto
    moreover have "32 - n \<le> i" using False assms by linarith
    ultimately show ?thesis unfolding r l by simp
  qed
qed

lemma macros_fips: "EP0 = fips_Sigma0" "EP1 = fips_Sigma1" "SIG0 = fips_sigma0" "SIG1 = fips_sigma1"
  by (simp_all add: fun_eq_iff EP0_def EP1_def SIG0_def SIG1_def fips_Sigma0_def fips_Sigma1_def
      fips_sigma0_def fips_sigma1_def ROTRIGHT_rotr)

lemma byte_bit: "bit (x :: BYTE) i \<Longrightarrow> i < 8"
  using bit_imp_le_length [of x i] by simp

lemma bit_rcat:
  "bit (word_rcat (bs :: BYTE list) :: WORD) i \<longleftrightarrow> i < 32 \<and> i div 8 < length bs \<and> bit (rev bs ! (i div 8)) (i mod 8)"
  using bit_horner_sum_uint_exp_iff [of "rev bs" i] by (simp add: word_rcat_def bit_word_of_int_iff)

lemma rcat_bytes:
  "push_bit 24 (ucast (a :: BYTE)) OR push_bit 16 (ucast (b :: BYTE)) OR push_bit 8 (ucast (c :: BYTE)) OR ucast (d :: BYTE)
     = (word_rcat [a, b, c, d] :: WORD)" (is "?l = ?r")
proof (rule bit_word_eqI)
  fix i assume "i < LENGTH(32)"
  then consider "i < 8" | "8 \<le> i" "i < 16" | "16 \<le> i" "i < 24" | "24 \<le> i" "i < 32" by fastforce
  then show "bit ?l i = bit ?r i"
  proof cases
    case 1
    then show ?thesis by (auto simp: bit_simps bit_rcat)
  next
    case 2
    then have "i div 8 = 1" "i mod 8 = i - 8" by (simp_all add: div_if mod_if)
    with 2 show ?thesis
      by (auto simp: bit_simps bit_rcat dest: byte_bit)
  next
    case 3
    then have "i div 8 = 2" "i mod 8 = i - 16" by (simp_all add: div_nat_eqI mod_nat_eqI)
    with 3 show ?thesis
      by (auto simp: bit_simps bit_rcat dest: byte_bit)
  next
    case 4
    then have "i div 8 = 3" "i mod 8 = i - 24" by (simp_all add: div_nat_eqI mod_nat_eqI)
    with 4 show ?thesis
      by (auto simp: bit_simps bit_rcat dest: byte_bit)
  qed
qed

lemma block_word_rcat:
  assumes "4 * t + 4 \<le> length b"
  shows "block_word b (4 * t) = word_rcat (take 4 (drop (4 * t) b))"
proof -
  have "take 4 (drop (4 * t) b) = [b ! (4 * t), b ! (4 * t + 1), b ! (4 * t + 2), b ! (4 * t + 3)]"
    using assms by (intro nth_equalityI) (auto simp: less_Suc_eq numeral_eq_Suc)
  then show ?thesis by (simp add: block_word_def rcat_bytes)
qed

lemma schedule_steps:
  "(extend_schedule ^^ k) (map (fips_W b) [0..<16]) = map (fips_W b) [0..<16 + k]"
proof (induction k)
  case (Suc k)
  have "extend_schedule (map (fips_W b) [0..<16 + k]) = map (fips_W b) [0..<16 + k] @ [fips_W b (16 + k)]"
    by (simp add: extend_schedule_def Let_def macros_fips fips_W.simps [of b "k + 16"] ac_simps nth_append)
  moreover have "[0..<16 + Suc k] = [0..<16 + k] @ [16 + k]" using upt_Suc_append [of 0 "16 + k"] by simp
  ultimately show ?case using Suc by simp
qed simp

lemma schedule_fips:
  assumes "length b = 64"
  shows "schedule b = map (fips_W b) [0..<64]"
proof -
  have "block_word b (4 * i) = fips_W b i" if "i \<in> set [0..<16]" for i
    using that assms by (simp add: block_word_rcat fips_W.simps [of b i])
  then have eq: "map (\<lambda>i. block_word b (4 * i)) [0..<16] = map (fips_W b) [0..<16]"
    unfolding map_eq_conv by blast
  show ?thesis unfolding schedule_def eq schedule_steps by simp
qed

lemma rounds_fips:
  assumes "set ts \<subseteq> {..<64}" and "m = map (fips_W b) [0..<64]"
  shows "foldl (sha_round m) (words_of v) ts = words_of (foldl (fips_round b) v ts)"
  using assms(1)
proof (induction ts arbitrary: v)
  case (Cons t ts)
  obtain a b' c d e f g h where v: "v = (a, b', c, d, e, f, g, h)" by (rule vars_cases)
  have "m ! t = fips_W b t" using Cons.prems assms(2) by simp
  then have "sha_round m (words_of v) t = words_of (fips_round b v t)"
    by (simp add: v fips_round_def Let_def macros_fips)
  with Cons show ?case by simp
qed simp

lemma transform_fips:
  assumes "sha_state c = words_of H" and "length b = 64"
  shows "sha256_transform b c = c\<lparr>sha_state := words_of (fips_compress H b)\<rparr>"
proof -
  obtain h0 h1 h2 h3 h4 h5 h6 h7 where H: "H = (h0, h1, h2, h3, h4, h5, h6, h7)" by (rule vars_cases)
  obtain v0 v1 v2 v3 v4 v5 v6 v7 where v: "foldl (fips_round b) H [0..<64] = (v0, v1, v2, v3, v4, v5, v6, v7)"
    by (rule vars_cases)
  have "foldl (sha_round (schedule b)) (sha_state c) [0..<64] = words_of (foldl (fips_round b) H [0..<64])"
    unfolding assms(1) by (rule rounds_fips) (use assms(2) in \<open>auto simp: schedule_fips\<close>)
  then show ?thesis
    by (simp add: sha256_transform_def assms(1) fips_compress_def v) (simp add: H)
qed

section \<open>The byte loop\<close>

lemma update_loop_fold:
  assumes "length bs < 2 ^ 32" and "i \<le> length bs"
  shows "update_loop bs (of_nat i) c = Some (fold absorb (drop i bs) c)"
  using assms(2)
proof (induction "length bs - i" arbitrary: i c)
  case 0
  then show ?case using assms(1) by (simp add: update_loop.simps [of bs "of_nat i"] unat_of_nat take_bit_nat_eq_self)
next
  case (Suc k)
  then have i: "i < length bs" by simp
  then have u: "unat (of_nat i :: WORD) = i" using assms(1) by (simp add: unat_of_nat take_bit_nat_eq_self)
  have "update_loop bs (of_nat i) c = update_loop bs (of_nat (Suc i)) (absorb (bs ! i) c)"
    by (subst update_loop.simps) (simp add: u i add.commute)
  also have "\<dots> = Some (fold absorb (drop (Suc i) bs) (absorb (bs ! i) c))"
    using Suc.hyps(1) [of "Suc i" "absorb (bs ! i) c"] Suc.hyps(2) i by simp
  finally show ?case using i by (simp add: Cons_nth_drop_Suc [symmetric])
qed

lemma update_loop_returns: "update_loop bs i c = Some c' \<Longrightarrow> length bs < 2 ^ 32"
proof (rule update_loop.raw_induct [of "\<lambda>bs i c c'. length bs < 2 ^ 32"])
  fix loop :: "BYTE list \<Rightarrow> WORD \<Rightarrow> SHA256_CTX \<Rightarrow> SHA256_CTX option" and bs i c c'
  assume rest: "\<And>bs i c c'. loop bs i c = Some c' \<Longrightarrow> length bs < 2 ^ 32"
    and step: "(if unat i < length bs then loop bs (i + 1) (absorb (bs ! unat i) c) else Some c) = Some c'"
  show "length bs < 2 ^ 32"
  proof (cases "unat i < length bs")
    case True
    then show ?thesis using rest step by simp
  next
    case False
    moreover have "unat i < 2 ^ LENGTH(32)" by (rule unsigned_less)
    ultimately show ?thesis by simp
  qed
qed

lemma sha256_update_eq:
  "sha256_update bs c = (if length bs < 2 ^ 32 then Some (fold absorb bs c) else None)"
proof (cases "length bs < 2 ^ 32")
  case True
  then show ?thesis using update_loop_fold [of bs 0 c] by (simp add: sha256_update_def)
next
  case False
  then have "update_loop bs 0 c = None" using update_loop_returns by (cases "update_loop bs 0 c") auto
  then show ?thesis using False by (simp add: sha256_update_def)
qed

section \<open>Blocks\<close>

lemma blocks_append: "length a = 64 * n \<Longrightarrow> blocks (a @ b) = blocks a @ blocks b"
proof (induction n arbitrary: a)
  case 0
  then show ?case by (simp add: blocks.simps [of "[]"])
next
  case (Suc n)
  then have l: "\<not> length a < 64" "length (drop 64 a) = 64 * n" by simp_all
  have "blocks (a @ b) = take 64 a # blocks (drop 64 a @ b)"
    using l(1) by (subst blocks.simps) simp
  also have "\<dots> = take 64 a # blocks (drop 64 a) @ blocks b" using Suc.IH [OF l(2)] by simp
  also have "\<dots> = blocks a @ blocks b" using l(1) by (simp add: blocks.simps [of a])
  finally show ?case .
qed

lemma blocks_one: "length b = 64 \<Longrightarrow> blocks b = [b]"
  by (simp add: blocks.simps [of b] blocks.simps [of "[]"])

lemma blocks_two: "length a = 64 \<Longrightarrow> length b = 64 \<Longrightarrow> blocks (a @ b) = [a, b]"
  using blocks_append [of a 1 b] by (simp add: blocks_one)

lemma blocks_none: "length b < 64 \<Longrightarrow> blocks b = []"
  by (simp add: blocks.simps [of b])

definition whole :: "BYTE list \<Rightarrow> BYTE list" where
  "whole msg = take (64 * (length msg div 64)) msg"

definition tail :: "BYTE list \<Rightarrow> BYTE list" where
  "tail msg = drop (64 * (length msg div 64)) msg"

lemma whole_tail: "msg = whole msg @ tail msg" "length (whole msg) = 64 * (length msg div 64)"
  "length (tail msg) = length msg mod 64"
  by (simp_all add: whole_def tail_def minus_mult_div_eq_mod)

lemma blocks_whole: "blocks (msg @ rest) = blocks (whole msg) @ blocks (tail msg @ rest)"
  using blocks_append [OF whole_tail(2), of msg "tail msg @ rest"]
    arg_cong [OF whole_tail(1) [of msg], of "\<lambda>m. blocks (m @ rest)"] by simp

lemma blocks_msg: "blocks msg = blocks (whole msg)"
  using blocks_whole [of msg "[]"] whole_tail(3) [of msg] by (simp add: blocks_none)

section \<open>The buffer\<close>

definition holds_msg :: "SHA256_CTX \<Rightarrow> BYTE list \<Rightarrow> bool" where
  "holds_msg c msg \<longleftrightarrow> length (sha_data c) = 64 \<and> sha_datalen c = length msg mod 64
     \<and> take (length msg mod 64) (sha_data c) = tail msg
     \<and> sha_bitlen c = of_nat (512 * (length msg div 64))
     \<and> sha_state c = words_of (foldl fips_compress fips_H (blocks msg))"

lemma absorb_holds:
  assumes "holds_msg c msg"
  shows "holds_msg (absorb x c) (msg @ [x])"
proof -
  let ?n = "length msg" and ?d = "(sha_data c)[sha_datalen c := x]"
  have h: "length (sha_data c) = 64" "sha_datalen c = ?n mod 64" "take (?n mod 64) (sha_data c) = tail msg"
    "sha_bitlen c = of_nat (512 * (?n div 64))" "sha_state c = words_of (foldl fips_compress fips_H (blocks msg))"
    using assms by (simp_all add: holds_msg_def)
  have d: "take (Suc (?n mod 64)) ?d = tail msg @ [x]"
    using h by (simp add: take_Suc_conv_app_nth)
  show ?thesis
  proof (cases "?n mod 64 = 63")
    case True
    have "take 64 ?d = tail msg @ [x]" using d True by simp
    then have full: "?d = tail msg @ [x]" using h(1) by simp
    have n: "Suc ?n div 64 = Suc (?n div 64)" "Suc ?n mod 64 = 0" using True by (simp_all add: mod_Suc div_Suc)
    have b: "blocks (msg @ [x]) = blocks msg @ [?d]"
      using blocks_whole [of msg "[x]"] full blocks_one [of "tail msg @ [x]"] whole_tail(3) [of msg] True
        blocks_msg [of msg] by simp
    have t: "tail (msg @ [x]) = []" by (simp add: tail_def n)
    have tr: "sha256_transform ?d (c\<lparr>sha_data := ?d, sha_datalen := k\<rparr>)
        = c\<lparr>sha_data := ?d, sha_datalen := k,
            sha_state := words_of (fips_compress (foldl fips_compress fips_H (blocks msg)) ?d)\<rparr>" for k
      by (subst transform_fips) (simp_all add: h(1,5))
    show ?thesis
      unfolding absorb_def Let_def using True
      by (simp add: h(2) tr [unfolded h(2) True] holds_msg_def n t b [unfolded h(2) True] h(1,4))
  next
    case False
    then have m: "Suc ?n div 64 = ?n div 64" "Suc ?n mod 64 = Suc (?n mod 64)" by (simp_all add: mod_Suc div_Suc)
    have b: "blocks (msg @ [x]) = blocks msg"
      using blocks_whole [of msg "[x]"] blocks_msg [of msg] whole_tail(3) [of msg] False m(2)
      by (simp add: blocks_none)
    have t: "tail (msg @ [x]) = tail msg @ [x]"
      using whole_tail(2) [of msg] by (simp add: tail_def m)
    show ?thesis
      using False m d by (simp add: absorb_def Let_def holds_msg_def h b t)
  qed
qed

lemma absorb_all: "holds_msg c a \<Longrightarrow> holds_msg (fold absorb b c) (a @ b)"
proof (induction b arbitrary: a c)
  case (Cons x b)
  from Cons.IH [OF absorb_holds [OF Cons.prems, of x]] show ?case by simp
qed simp

lemma init_holds: "holds_msg (sha256_init (stack_ctx junk)) []"
  by (simp add: holds_msg_def sha256_init_def stack_ctx_def tail_def blocks_none fips_H_def)


section \<open>Padding\<close>

lemma zero_upto_eq:
  "i \<le> n \<Longrightarrow> n \<le> length xs \<Longrightarrow> zero_upto i n xs = take i xs @ replicate (n - i) 0 @ drop n xs"
proof (induction i n xs rule: zero_upto.induct)
  case (1 i n xs)
  show ?case
  proof (cases "i < n")
    case True
    then have "zero_upto i n xs = take (i + 1) (xs[i := 0]) @ replicate (n - (i + 1)) 0 @ drop n (xs[i := 0])"
      using 1 by (subst zero_upto.simps) simp
    also have "\<dots> = take i xs @ replicate (Suc (n - (i + 1))) 0 @ drop n xs"
      using True 1 by (simp add: take_Suc_conv_app_nth)
    also have "Suc (n - (i + 1)) = n - i" using True by simp
    finally show ?thesis .
  next
    case False
    then show ?thesis using 1 by (subst zero_upto.simps) simp
  qed
qed

lemma length_byte:
  assumes "s + 8 \<le> 64"
  shows "(ucast (drop_bit s (of_nat m :: 64 word)) :: BYTE) = of_nat (m div 2 ^ s)"
proof (rule bit_word_eqI)
  fix i assume "i < LENGTH(8)"
  then show "bit (ucast (drop_bit s (of_nat m :: 64 word)) :: BYTE) i = bit (of_nat (m div 2 ^ s) :: BYTE) i"
    using assms by (simp add: bit_simps drop_bit_eq_div [symmetric])
qed

lemma state_byte_eq:
  assumes "i < 4"
  shows "state_byte w i = of_nat (unat w div 2 ^ (24 - i * 8))"
proof (rule bit_word_eqI)
  fix j assume "j < LENGTH(8)"
  then have j: "j < 8" by simp
  have "bit (0xff :: WORD) j"
  proof -
    have "(0xff :: WORD) = mask 8" by (simp add: mask_eq_exp_minus_1)
    show ?thesis unfolding \<open>(0xff :: WORD) = mask 8\<close> using j by (simp only: bit_mask_iff) simp
  qed
  then show "bit (state_byte w i) j = bit (of_nat (unat w div 2 ^ (24 - i * 8)) :: BYTE) j"
    using j by (simp add: state_byte_def bit_simps drop_bit_eq_div [symmetric])
qed

lemma state_bytes: "map (state_byte w) [0..<4] = be_bytes 4 (unat w)"
proof -
  have "(256 :: nat) ^ (4 - 1 - i) = 2 ^ (24 - i * 8)" if "i < 4" for i
  proof -
    have "i = 0 \<or> i = 1 \<or> i = 2 \<or> i = 3" using that by arith
    then show ?thesis by (elim disjE) simp_all
  qed
  then show ?thesis by (simp add: be_bytes_def state_byte_eq)
qed

lemma put_length_eq:
  assumes "length xs = 64"
  shows "put_length (of_nat m) xs = take 56 xs @ be_bytes 8 m"
proof -
  have b: "be_bytes 8 m = map (\<lambda>s. ucast (drop_bit s (of_nat m :: 64 word))) [56, 48, 40, 32, 24, 16, 8, 0]"
    by (simp add: be_bytes_def length_byte upt_rec del: drop_bit_0)
  obtain a b c d e f g h where d: "drop 56 xs = [a, b, c, d, e, f, g, h]"
  proof -
    have "\<exists>a b c d e f g h. ys = [a, b, c, d, e, f, g, h]" if "length ys = 8" for ys :: "BYTE list"
      using that by (auto simp: length_Suc_conv numeral_eq_Suc)
    from this [of "drop 56 xs"] show ?thesis using assms that by auto
  qed
  have xs: "xs = take 56 xs @ [a, b, c, d, e, f, g, h]" by (metis append_take_drop_id d)
  have "length (take 56 xs) = 56" using assms by simp
  then have "put_length (of_nat m) (take 56 xs @ [a, b, c, d, e, f, g, h]) = take 56 xs @ be_bytes 8 m"
    unfolding b by (simp add: put_length_def list_update_append)
  then show ?thesis using xs by simp
qed


section \<open>The digest\<close>

lemma pad_blocks:
  defines "be msg \<equiv> be_bytes 8 (8 * length msg)"
  shows "blocks (fips_pad msg) = blocks msg @
     (let r = length msg mod 64 in
      if r < 56 then [tail msg @ [0x80] @ replicate (55 - r) 0 @ be msg]
      else [tail msg @ [0x80] @ replicate (63 - r) 0, replicate 56 0 @ be msg])"
proof -
  let ?r = "length msg mod 64" and ?be = "be msg"
  have lb: "length ?be = 8" by (simp add: be_def be_bytes_def)
  have lt: "length (tail msg) = ?r" "?r < 64" by (simp_all add: whole_tail)
  have b: "blocks (fips_pad msg) = blocks msg @ blocks (tail msg @ [0x80] @ replicate ((119 - ?r) mod 64) 0 @ ?be)"
    using blocks_whole [of msg "[0x80] @ replicate ((119 - ?r) mod 64) 0 @ ?be"] blocks_msg [of msg]
    by (simp add: fips_pad_def be_def)
  show ?thesis
  proof (cases "?r < 56")
    case True
    then have "119 - ?r = (55 - ?r) + 64" by arith
    then have k: "(119 - ?r) mod 64 = 55 - ?r" by (simp only: mod_add_self2) simp
    have "length (tail msg @ [0x80] @ replicate (55 - ?r) 0 @ ?be) = 64" using True lb lt(1) by simp
    then show ?thesis unfolding b k using True by (simp only: Let_def blocks_one if_True)
  next
    case False
    then have k: "119 - ?r = (63 - ?r) + 56" "119 - ?r < 64" using lt(2) by arith+
    then have k: "(119 - ?r) mod 64 = (63 - ?r) + 56" by (simp only: mod_less)
    then have "tail msg @ [0x80] @ replicate ((119 - ?r) mod 64) 0 @ ?be
        = (tail msg @ [0x80] @ replicate (63 - ?r) 0) @ (replicate 56 0 @ ?be)"
      unfolding k replicate_add by simp
    moreover have "blocks ((tail msg @ [0x80] @ replicate (63 - ?r) 0) @ (replicate 56 0 @ ?be))
        = [tail msg @ [0x80] @ replicate (63 - ?r) 0, replicate 56 0 @ ?be]"
      using False lt lb by (intro blocks_two) simp_all
    ultimately show ?thesis unfolding b Let_def using False by (simp only: if_False)
  qed
qed

lemma final_digest:
  assumes "holds_msg c msg"
  shows "fst (sha256_final c) = fips_sha256 msg"
proof -
  let ?r = "length msg mod 64" and ?H = "foldl fips_compress fips_H (blocks msg)"
  have h: "length (sha_data c) = 64" "sha_datalen c = ?r" "take ?r (sha_data c) = tail msg"
    "sha_bitlen c = of_nat (512 * (length msg div 64))" "sha_state c = words_of ?H"
    using assms by (simp_all add: holds_msg_def)
  have lt: "length (tail msg) = ?r" "?r < 64" by (simp_all add: whole_tail)
  let ?m = "(sha_data c)[?r := 0x80]"
  have m: "take (Suc ?r) ?m = tail msg @ [0x80]" "length ?m = 64"
    using h lt by (simp_all add: take_Suc_conv_app_nth)
  have n: "512 * (length msg div 64) + ?r * 8 = 8 * length msg"
    using div_mult_mod_eq [of "length msg" 64] by linarith
  then have bits: "(512 * of_nat (length msg div 64) + of_nat ?r * 8 :: 64 word) = of_nat (8 * length msg)"
    by (simp flip: n)
  obtain q H1 where pad: "sha_data (pad_block c) = q" "sha_state (pad_block c) = words_of H1" "length q = 64"
      "sha_bitlen (pad_block c) = sha_bitlen c" "sha_datalen (pad_block c) = ?r"
    and H1: "foldl fips_compress fips_H (blocks (fips_pad msg))
        = fips_compress H1 (take 56 q @ be_bytes 8 (8 * length msg))"
  proof (cases "?r < 56")
    case True
    have z: "zero_upto (Suc ?r) 56 ?m = tail msg @ [0x80] @ replicate (55 - ?r) 0 @ drop 56 ?m"
      using True m by (simp add: zero_upto_eq)
    have l56: "length (tail msg @ [0x80] @ replicate (55 - ?r) 0) = 56" using True lt by simp
    have z': "zero_upto (Suc ?r) 56 ?m = (tail msg @ [0x80] @ replicate (55 - ?r) 0) @ drop 56 ?m"
      using z by simp
    have first: "take 56 (a @ b) = a" if "length a = 56" for a b :: "BYTE list" using that by simp
    have t56: "take 56 (zero_upto (Suc ?r) 56 ?m) = tail msg @ [0x80] @ replicate (55 - ?r) 0"
      unfolding z' by (rule first [OF l56])
    have l: "length (zero_upto (Suc ?r) 56 ?m) = 64"
      unfolding z' length_append [of "tail msg @ [0x80] @ replicate (55 - ?r) 0"] l56 using m(2) by simp
    have p: "pad_block c = c\<lparr>sha_data := zero_upto (Suc ?r) 56 ?m\<rparr>"
      using True by (simp add: pad_block_def Let_def h(2))
    show ?thesis
      by (rule that [of "zero_upto (Suc ?r) 56 ?m" ?H]) (simp_all add: True p h(2,5) l t56 pad_blocks)
  next
    case False
    define b where "b = tail msg @ [0x80] @ replicate (63 - ?r) 0"
    have z: "zero_upto (Suc ?r) 64 ?m = b"
      using False m lt by (simp add: zero_upto_eq b_def)
    have lb: "length b = 64" using lt(2) by (simp add: lt(1) b_def)
    have tr: "sha256_transform b (c\<lparr>sha_data := b\<rparr>)
        = c\<lparr>sha_data := b, sha_state := words_of (fips_compress ?H b)\<rparr>"
      using transform_fips [of "c\<lparr>sha_data := b\<rparr>" ?H, OF _ lb] by (simp add: h(5))
    have p: "pad_block c = c\<lparr>sha_data := zero_upto 0 56 b, sha_state := words_of (fips_compress ?H b)\<rparr>"
      using False by (simp add: pad_block_def Let_def h(2) z tr)
    have z0: "zero_upto 0 56 b = replicate 56 0 @ drop 56 b"
      using lb by (subst zero_upto_eq) simp_all
    have pb: "blocks (fips_pad msg) = blocks msg @ [b, replicate 56 0 @ be_bytes 8 (8 * length msg)]"
      using False by (simp add: pad_blocks b_def)
    show ?thesis
      by (rule that [of "zero_upto 0 56 b" "fips_compress ?H b"]) (simp_all add: p h(2) pb z0 lb)
  qed
  define block where "block = put_length (of_nat (8 * length msg)) q"
  have pq: "block = take 56 q @ be_bytes 8 (8 * length msg)"
    unfolding block_def by (rule put_length_eq [OF pad(3)])
  then have lq: "length block = 64" by (simp add: be_bytes_def pad(3))
  have tr: "sha_state (sha256_transform block ((pad_block c)\<lparr>sha_bitlen := n, sha_data := d\<rparr>))
      = words_of (fips_compress H1 block)" for n d
    by (subst transform_fips) (simp_all add: pad(2) lq)
  have n: "sha_bitlen (pad_block c) + of_nat (sha_datalen (pad_block c) * 8) = of_nat (8 * length msg)"
    by (simp add: pad(4,5) h(4) bits)
  have "fst (sha256_final c) = concat (map (\<lambda>w. map (state_byte w) [0..<4]) (words_of (fips_compress H1 block)))"
    unfolding sha256_final_def Let_def fst_conv n pad(1) block_def [symmetric] by (simp add: tr)
  then show ?thesis by (simp only: state_bytes fips_sha256_def H1 pq)
qed

lemma digest_exact: "fst (sha256_final (fold absorb msg (sha256_init (stack_ctx junk)))) = fips_sha256 msg"
  using final_digest [OF absorb_all [OF init_holds, of msg junk]] by simp

text \<open>Claim C16: The digest is SHA-256. For every message and whatever the stack held before,
  sha256_hex writes the lowercase hexadecimal of the digest FIPS 180-4 defines for the message,
  provided the message is shorter than 2 to the 32 bytes; for a longer one the 32-bit loop counter
  wraps and the call never returns.\<close>

theorem sha256_hex_exact:
  "sha256_hex junk msg =
     (if length msg < 2 ^ 32 then Some (concat (map hex_byte (fips_sha256 msg))) else None)"
  by (simp add: sha256_hex_def sha256_update_eq digest_exact)

end
