(* ===== verification/Cli_Util.thy ===== *)
theory Cli_Util
  imports Runner_Util Database "HOL-Library.Word"
begin

text \<open>
  The ground of the command line tool: \<^verbatim>\<open>acta_cli/include/cli_util.h\<close> (error and success
  lines, the field filter, table columns, name suggestions) and the input readers of
  \<^verbatim>\<open>acta_cli/include/commands.h\<close>. The number parsers, the exit codes and the JSON string
  printer are the same text as in the runner's header and are taken from \<open>Runner_Util\<close> and \<open>Json\<close>.

  A handler is a function on the state \<open>cli\<close>: the open database, the arguments of the action,
  what was written to the two output streams, and the database files a backup writes. Output is a list of chunks: a text, or a help text of
  the program, named by the function that prints it. Verbose diagnostics (\<^verbatim>\<open>VLOG\<close>) are left
  out. \<open>cli_env\<close> is what the process meets: allocations (by place and number of bytes), the JSON parser,
  the files, the input, the text of \<^verbatim>\<open>sqlite3_errmsg\<close>, and what an uninitialised buffer
  holds.
\<close>

datatype chunk = Txt string | Help_text string

record cli_args_t =
  ga_argv :: "string list"
  ga_pos :: nat

record cli =
  cl_db :: db_t
  cl_args :: cli_args_t
  cl_out :: "chunk list"
  cl_err :: "chunk list"
  cl_files :: "string \<Rightarrow> store option"

record cli_env =
  ce_mem :: "string \<Rightarrow> nat \<Rightarrow> bool"
  ce_parse :: "string \<Rightarrow> cJSON option"
  ce_file :: "string \<Rightarrow> string option"
  ce_stdin :: string
  ce_errmsg :: "db_t \<Rightarrow> string option"
  ce_stack :: "nat \<Rightarrow> 8 word"

record cli_opts =
  go_db :: "string option"
  go_fields :: "string option"
  go_json_input :: "string option"
  go_from_stdin :: bool
  go_from_file :: "string option"
  go_out_path :: "string option"
  go_raw_out :: "string option"
  go_no_nulls :: bool
  go_id_only :: bool
  go_count :: bool
  go_table :: bool
  go_stream :: bool
  go_pretty :: bool
  go_compact :: bool
  go_show_version :: bool
  go_show_help :: bool
  go_show_tools :: bool
  go_verbose :: int
  go_argv :: "string list option"

section \<open>Handlers\<close>

text \<open>
  A step of a handler: it goes on with a value, or the handler returns with an exit code (\<open>Inl\<close>).
\<close>

type_synonym 'a cmd = "cli \<Rightarrow> (int + 'a) \<times> cli"

definition yield :: "'a \<Rightarrow> 'a cmd" where
  "yield x s = (Inr x, s)"

definition quit :: "int \<Rightarrow> 'a cmd" where
  "quit code s = (Inl code, s)"

definition next_cmd :: "'a cmd \<Rightarrow> ('a \<Rightarrow> 'b cmd) \<Rightarrow> 'b cmd" where
  "next_cmd m k s = (case m s of (Inl e, s1) \<Rightarrow> (Inl e, s1) | (Inr x, s1) \<Rightarrow> k x s1)"

text \<open>A handler whose last step is its return.\<close>

definition run_cmd :: "int cmd \<Rightarrow> cli \<Rightarrow> int \<times> cli" where
  "run_cmd m s = (case m s of (Inl e, s1) \<Rightarrow> (e, s1) | (Inr e, s1) \<Rightarrow> (e, s1))"

definition lib :: "(db_t \<Rightarrow> 'a \<times> db_t) \<Rightarrow> 'a cmd" where
  "lib f s = (case f (cl_db s) of (x, d) \<Rightarrow> (Inr x, s\<lparr>cl_db := d\<rparr>))"

definition say :: "string \<Rightarrow> cli \<Rightarrow> cli" where
  "say t s = s\<lparr>cl_out := cl_out s @ [Txt t]\<rparr>"

definition complain :: "string \<Rightarrow> cli \<Rightarrow> cli" where
  "complain t s = s\<lparr>cl_err := cl_err s @ [Txt t]\<rparr>"

definition usage :: "string \<Rightarrow> cli \<Rightarrow> cli" where
  "usage name s = s\<lparr>cl_err := cl_err s @ [Help_text name]\<rparr>"

definition show_usage :: "string \<Rightarrow> cli \<Rightarrow> cli" where
  "show_usage name s = s\<lparr>cl_out := cl_out s @ [Help_text name]\<rparr>"

section \<open>Error lines\<close>

definition newline :: string where
  "newline = [CHR 0x0A]"

definition cli_finish_db_error :: "int \<Rightarrow> string \<Rightarrow> cli \<Rightarrow> int \<times> cli" where
  "cli_finish_db_error rc what s =
     (let exit_code = map_rc_to_exit rc;
          name = (case db_error_name rc of None \<Rightarrow> ''ACTA_DB_ERR_INVALID'' | Some n \<Rightarrow> n)
      in (exit_code, complain (error_line name (- exit_code) what @ newline) s))"

definition emit_db_open_error :: "int \<Rightarrow> string \<Rightarrow> cli \<Rightarrow> int \<times> cli" where
  "emit_db_open_error rc what s =
     (let name = (case db_error_name rc of None \<Rightarrow> ''ACTA_DB_ERR_INVALID_DB'' | Some n \<Rightarrow> n)
      in (EXIT_DB_OPEN, complain (error_line name (- 11) what @ newline) s))"

definition op_detail :: "cli_env \<Rightarrow> db_t \<Rightarrow> string option" where
  "op_detail E d =
     (case acta_db_last_error d of
        Some m \<Rightarrow> Some m
      | None \<Rightarrow> (case ce_errmsg E d of Some e \<Rightarrow> if e \<noteq> ''not an error'' then Some e else None | None \<Rightarrow> None))"

definition cli_finish_op_error :: "cli_env \<Rightarrow> int \<Rightarrow> string \<Rightarrow> cli \<Rightarrow> int \<times> cli" where
  "cli_finish_op_error E rc op s =
     cli_finish_db_error rc (snprintf 512 (op @ '' failed: '' @
       (case op_detail E (cl_db s) of None \<Rightarrow> ''(no detail)'' | Some m \<Rightarrow> m))) s"

definition cli_emit_error :: "string \<Rightarrow> cli \<Rightarrow> cli" where
  "cli_emit_error msg = complain (error_line ''ACTA_DB_ERR_INVALID'' (- 4) msg @ newline)"

definition emit_cli_error :: "string \<Rightarrow> cli \<Rightarrow> int \<times> cli" where
  "emit_cli_error msg s = (EXIT_CLI, complain (error_line ''ACTA_CLI_ERR'' (- 10) msg @ newline) s)"

definition cli_emit_not_found :: "string \<Rightarrow> cli \<Rightarrow> int \<times> cli" where
  "cli_emit_not_found entity s = cli_finish_db_error ACTA_DB_ERR_NOT_FOUND (snprintf 128 (entity @ '' not found'')) s"

text \<open>The same as a step: the line is written and the handler returns the code.\<close>

definition fail_with :: "(cli \<Rightarrow> int \<times> cli) \<Rightarrow> 'a cmd" where
  "fail_with f s = (case f s of (code, s1) \<Rightarrow> (Inl code, s1))"

text \<open>An invalid argument: the error line, the help text, exit 4.\<close>

definition reject :: "string \<Rightarrow> string \<Rightarrow> 'a cmd" where
  "reject msg help = (\<lambda>s. (Inl EXIT_INVALID, usage help (cli_emit_error msg s)))"

section \<open>Success lines\<close>

definition json_pair :: "string \<Rightarrow> string \<Rightarrow> string" where
  "json_pair key value = dquoted key @ '':'' @ value"

definition emit_id_and :: "cli_opts \<Rightarrow> int \<Rightarrow> string \<Rightarrow> cli \<Rightarrow> cli" where
  "emit_id_and g i tail =
     (if go_id_only g then say (show_int i @ newline)
      else say (''{'' @ json_pair ''id'' (show_int i) @ tail @ ''}'' @ newline))"

definition emit_ok_id :: "cli_opts \<Rightarrow> int \<Rightarrow> cli \<Rightarrow> cli" where
  "emit_ok_id g i = emit_id_and g i []"

definition root_or_id :: "int \<Rightarrow> string" where
  "root_or_id i = (if i = 0 then ''null'' else show_int i)"

definition emit_ok_folder :: "cli_opts \<Rightarrow> int \<Rightarrow> int \<Rightarrow> cli \<Rightarrow> cli" where
  "emit_ok_folder g i folder_id = emit_id_and g i ('','' @ json_pair ''folder_id'' (root_or_id folder_id))"

definition emit_deleted :: "cli \<Rightarrow> cli" where
  "emit_deleted = say (''{'' @ json_pair ''deleted'' ''true'' @ ''}'' @ newline)"

definition emit_ok_transition :: "cli_opts \<Rightarrow> int \<Rightarrow> string \<Rightarrow> cli \<Rightarrow> cli" where
  "emit_ok_transition g i status = emit_id_and g i ('','' @ json_pair ''status'' (dquoted status))"

definition emit_ok_parent :: "cli_opts \<Rightarrow> int \<Rightarrow> int \<Rightarrow> cli \<Rightarrow> cli" where
  "emit_ok_parent g i parent_id = emit_id_and g i ('','' @ json_pair ''parent_id'' (root_or_id parent_id))"

definition emit_ok_restored :: "cli_opts \<Rightarrow> int \<Rightarrow> cli \<Rightarrow> cli" where
  "emit_ok_restored g i = emit_id_and g i ('','' @ json_pair ''restored'' ''true'')"

section \<open>Field filter and columns\<close>

function fields_has :: "string \<Rightarrow> string \<Rightarrow> bool" where
  "fields_has p name =
     (if p = [] then False
      else let field = takeWhile (\<lambda>c. c \<noteq> CHR 0x2C) p; rest = dropWhile (\<lambda>c. c \<noteq> CHR 0x2C) p
           in if field = name then True
              else if rest = [] then False else fields_has (tl rest) name)"
  by pat_completeness auto
termination
proof (relation "measure (\<lambda>(p, name). length p)", simp)
  fix p name :: string and field rest
  assume "p \<noteq> []" and r: "rest = dropWhile (\<lambda>c. c \<noteq> CHR 0x2C) p" and n: "rest \<noteq> []"
  have "length rest \<le> length p" unfolding r by (rule length_dropWhile_le)
  moreover have "length (tl rest) < length rest" using n by (cases rest) simp_all
  ultimately show "((tl rest, name), (p, name)) \<in> measure (\<lambda>(p, name). length p)" by simp
qed

declare fields_has.simps [simp del]

text \<open>The filter of the printers: no \<^verbatim>\<open>--fields\<close> means every field.\<close>

definition shows_field :: "cli_opts \<Rightarrow> string \<Rightarrow> bool" where
  "shows_field g name = (case go_fields g of None \<Rightarrow> True | Some fl \<Rightarrow> fields_has fl name)"

definition pad_right :: "nat \<Rightarrow> string \<Rightarrow> string" where
  "pad_right w t = t @ replicate (w - length t) (CHR 0x20)"

definition pad_left :: "nat \<Rightarrow> string \<Rightarrow> string" where
  "pad_left w t = replicate (w - length t) (CHR 0x20) @ t"

definition tcol :: "string option \<Rightarrow> nat \<Rightarrow> string" where
  "tcol t width =
     (let s = (case t of None \<Rightarrow> ''-'' | Some x \<Rightarrow> x);
          n = min (min (length s) width) 63
      in pad_right width (take n s) @ '' '')"

section \<open>Suggestions\<close>

text \<open>
  The rows of the table \<^verbatim>\<open>dp\<close>: \<open>prev\<close> is row \<open>i - 1\<close>, the new row is built from left to right.
\<close>

fun dp_cells :: "char \<Rightarrow> string \<Rightarrow> nat list \<Rightarrow> nat \<Rightarrow> nat list" where
  "dp_cells c (b # bs) (diag # up # prev) left =
     (let cost = (if c = b then 0 else 1);
          best1 = up + 1;
          best2 = (if left + 1 < best1 then left + 1 else best1);
          best3 = (if diag + cost < best2 then diag + cost else best2)
      in best3 # dp_cells c bs (up # prev) best3)"
| "dp_cells c bs prev left = []"

fun dp_rows :: "string \<Rightarrow> string \<Rightarrow> nat \<Rightarrow> nat list \<Rightarrow> nat list" where
  "dp_rows [] b i prev = prev"
| "dp_rows (c # a) b i prev = dp_rows a b (i + 1) (i # dp_cells c b prev i)"

definition edit_distance :: "string \<Rightarrow> string \<Rightarrow> nat" where
  "edit_distance a b =
     (if length a > 60 \<or> length b > 60 then 61
      else dp_rows a b 1 [0..<length b + 1] ! length b)"

definition better_name :: "string \<Rightarrow> (nat \<times> string) option \<Rightarrow> string \<Rightarrow> (nat \<times> string) option" where
  "better_name input best name =
     (let limit = (if length name \<le> 3 then 1 else 2); d = edit_distance input name
      in if d > 0 \<and> d \<le> limit \<and> (case best of None \<Rightarrow> True | Some (bd, _) \<Rightarrow> d < bd)
         then Some (d, name) else best)"

definition closest_name :: "string \<Rightarrow> string list \<Rightarrow> string option" where
  "closest_name input names =
     (if input = [] then None else map_option snd (foldl (better_name input) None names))"

definition unknown_action :: "string \<Rightarrow> string \<Rightarrow> string list \<Rightarrow> cli \<Rightarrow> int \<times> cli" where
  "unknown_action action help_target actions s =
     (case emit_cli_error (snprintf 128 (''unknown action: '' @ action)) s of (rc, s1) \<Rightarrow>
        let s2 = complain (''Unknown action '' @ [CHR 0x27] @ action @ [CHR 0x27] @ ''.'' @ newline) s1;
            s3 = (case closest_name action actions of
                    None \<Rightarrow> s2
                  | Some guess \<Rightarrow> complain (''  Did you mean '' @ [CHR 0x27] @ guess @ [CHR 0x27] @ ''?'' @ newline) s2)
        in (rc, complain (''  Run '' @ [CHR 0x27] @ help_target @ [CHR 0x27] @ '' for full usage.'' @ newline) s3))"

section \<open>Reading input\<close>

text \<open>
  The two readers grow a buffer and read until \<^verbatim>\<open>fread\<close> returns nothing; a read asks for the
  free space less one byte, and a C string ends at its first NUL. \<open>room\<close> is the test that decides to
  grow.
\<close>

function slurp :: "(nat \<Rightarrow> nat \<Rightarrow> bool) \<Rightarrow> (nat \<Rightarrow> bool) \<Rightarrow> nat \<Rightarrow> string \<Rightarrow> string \<Rightarrow> string option" where
  "slurp room mem cap buf rest =
     (let grow = \<not> room (length buf) cap; cap1 = (if grow then 2 * cap else cap);
          r = take (cap1 - length buf - 1) rest
      in if grow \<and> \<not> mem cap1 then None
         else if r = [] then Some (takeWhile (\<lambda>c. c \<noteq> CHR 0x00) buf)
         else slurp room mem cap1 (buf @ r) (drop (length r) rest))"
  by pat_completeness auto
termination
  by (relation "measure (\<lambda>(room, mem, cap, buf, rest). length rest)") (auto simp: min_def)

declare slurp.simps [simp del]

definition read_stdin_all :: "cli_env \<Rightarrow> string option" where
  "read_stdin_all E =
     (if \<not> ce_mem E ''stdin'' 8192 then None
      else slurp (\<lambda>len cap. len < cap) (ce_mem E ''stdin'') 8192 [] (ce_stdin E))"

definition read_file_all :: "cli_env \<Rightarrow> string \<Rightarrow> string option" where
  "read_file_all E p =
     (case ce_file E p of
        None \<Rightarrow> None
      | Some content \<Rightarrow>
          if \<not> ce_mem E ''file'' 8192 then None
          else slurp (\<lambda>len cap. len + 1 < cap) (ce_mem E ''file'') 8192 [] content)"

text \<open>
  The JSON source: \<open>None\<close> for no source. On an error the line has been written and the handler shows
  its help text and returns.
\<close>

definition raw_line :: "string \<Rightarrow> cli \<Rightarrow> cli" where
  "raw_line msg = complain (''{'' @ dquoted ''error'' @ '':'' @ dquoted ''ACTA_DB_ERR_INVALID'' @ '','' @ dquoted ''code''
     @ '':-4,'' @ dquoted ''message'' @ '':'' @ [CHR 0x22] @ msg @ [CHR 0x22] @ ''}'' @ newline)"

definition resolve_input_source :: "cli_env \<Rightarrow> cli_opts \<Rightarrow> cli \<Rightarrow> (unit + string option) \<times> cli" where
  "resolve_input_source E g s =
     (let n_src = (if go_json_input g \<noteq> None then 1 else 0) + (if go_from_file g \<noteq> None then 1 else 0)
            + (if go_from_stdin g then 1 else 0 :: nat)
      in if n_src = 0 then (Inr None, s)
         else if n_src > 1
         then (Inl (), raw_line (''conflicting input sources: --json, --stdin and --from_file are mutually exclusive'') s)
         else (case go_json_input g of
            Some blob \<Rightarrow>
              if blob = [] then (Inl (), raw_line ''empty --json value'' s)
              else if \<not> ce_mem E ''blob'' (length blob + 1) then (Inl (), raw_line ''out of memory'' s)
              else (Inr (Some blob), s)
          | None \<Rightarrow>
              (case go_from_file g of
                 Some p \<Rightarrow>
                   (case read_file_all E p of
                      None \<Rightarrow> (Inl (), raw_line (''cannot read file '' @ [CHR 0x27] @ json_str p @ [CHR 0x27]) s)
                    | Some blob \<Rightarrow> (Inr (Some blob), s))
               | None \<Rightarrow>
                   (case read_stdin_all E of
                      None \<Rightarrow> (Inl (), raw_line ''failed to read JSON input'' s)
                    | Some blob \<Rightarrow> (Inr (Some blob), s)))))"

end
