(* ===== verification/Cli_Args.thy ===== *)
theory Cli_Args
  imports Cli_Util
begin

text \<open>
  \<^verbatim>\<open>acta_cli/src/argparse.c\<close>: pass 1 takes the global options out of the command line, pass 2
  reads flags and positionals of the action, with the readers of \<^verbatim>\<open>cli_util.h\<close> that are built
  on it. \<open>argv\<close> is a list of C strings, without the program name.
\<close>

definition cli_is_flag :: "string \<Rightarrow> bool" where
  "cli_is_flag s \<longleftrightarrow> take 2 s = ''--''"

definition cli_flag_tail :: "string \<Rightarrow> string \<Rightarrow> string" where
  "cli_flag_tail token name = drop (2 + length name) token"

definition cli_prefix_match :: "string \<Rightarrow> string \<Rightarrow> bool" where
  "cli_prefix_match token name \<longleftrightarrow>
     take (2 + length name) token = ''--'' @ name
     \<and> (cli_flag_tail token name = [] \<or> hd (cli_flag_tail token name) = CHR 0x3D)"

definition cli_inline_value :: "string \<Rightarrow> string \<Rightarrow> string option" where
  "cli_inline_value token name =
     (case cli_flag_tail token name of c # v \<Rightarrow> if c = CHR 0x3D then Some v else None | [] \<Rightarrow> None)"

section \<open>Pass 1\<close>

definition zero_cli_opts :: cli_opts where
  "zero_cli_opts = \<lparr>go_db = None, go_fields = None, go_json_input = None, go_from_stdin = False, go_from_file = None,
     go_out_path = None, go_raw_out = None, go_no_nulls = False, go_id_only = False, go_count = False,
     go_table = False, go_stream = False, go_pretty = False, go_compact = False, go_show_version = False,
     go_show_help = False, go_show_tools = False, go_verbose = 0, go_argv = None\<rparr>"

text \<open>
  The options with a value and where the value goes, and the options without one. At most one of the
  tests of the C loop holds for an argument, so their order does not matter.
\<close>

definition value_flags :: "(string \<times> (string \<Rightarrow> cli_opts \<Rightarrow> cli_opts)) list" where
  "value_flags =
     [(''db'', \<lambda>v g. g\<lparr>go_db := Some v\<rparr>), (''fields'', \<lambda>v g. g\<lparr>go_fields := Some v\<rparr>),
      (''json'', \<lambda>v g. g\<lparr>go_json_input := Some v\<rparr>), (''from_file'', \<lambda>v g. g\<lparr>go_from_file := Some v\<rparr>),
      (''out'', \<lambda>v g. g\<lparr>go_out_path := Some v\<rparr>), (''raw_out'', \<lambda>v g. g\<lparr>go_raw_out := Some v\<rparr>)]"

definition bool_flags :: "(string \<times> (cli_opts \<Rightarrow> cli_opts)) list" where
  "bool_flags =
     [(''--no_nulls'', \<lambda>g. g\<lparr>go_no_nulls := True\<rparr>), (''--id_only'', \<lambda>g. g\<lparr>go_id_only := True\<rparr>),
      (''--count'', \<lambda>g. g\<lparr>go_count := True\<rparr>), (''--table'', \<lambda>g. g\<lparr>go_table := True\<rparr>),
      (''--stream'', \<lambda>g. g\<lparr>go_stream := True\<rparr>), (''--pretty'', \<lambda>g. g\<lparr>go_pretty := True\<rparr>),
      (''--compact'', \<lambda>g. g\<lparr>go_compact := True\<rparr>), (''--stdin'', \<lambda>g. g\<lparr>go_from_stdin := True\<rparr>),
      (''--tools'', \<lambda>g. g\<lparr>go_show_tools := True\<rparr>), (''--help'', \<lambda>g. g\<lparr>go_show_help := True\<rparr>),
      (''-h'', \<lambda>g. g\<lparr>go_show_help := True\<rparr>),
      (''--verbose'', \<lambda>g. g\<lparr>go_verbose := min 3 (go_verbose g + 1)\<rparr>),
      (''-v'', \<lambda>g. g\<lparr>go_verbose := min 3 (go_verbose g + 1)\<rparr>)]"

text \<open>What one argument is.\<close>

datatype cli_arg = Arg_version | Arg_set "cli_opts \<Rightarrow> cli_opts" | Arg_value string "string \<Rightarrow> cli_opts \<Rightarrow> cli_opts"
  | Arg_verbose string | Arg_kept

definition cli_arg_of :: "string \<Rightarrow> cli_arg" where
  "cli_arg_of a =
     (if a = ''--version'' then Arg_version
      else case find (\<lambda>e. a = fst e) bool_flags of
        Some (_, f) \<Rightarrow> Arg_set f
      | None \<Rightarrow>
          (case find (\<lambda>e. cli_prefix_match a (fst e)) value_flags of
             Some (name, f) \<Rightarrow>
               (case cli_inline_value a name of Some v \<Rightarrow> Arg_set (f v) | None \<Rightarrow> Arg_value name f)
           | None \<Rightarrow>
               (if cli_prefix_match a ''verbose'' then Arg_verbose (drop 10 a) else Arg_kept)))"

text \<open>
  The loop: \<open>rest\<close> is the array of kept arguments. The result is the message of a usage error, or the
  options and what was kept; \<^verbatim>\<open>--version\<close> ends the pass at once.
\<close>

fun cli_globals_loop :: "string list \<Rightarrow> cli_opts \<Rightarrow> string list \<Rightarrow> string + (bool \<times> cli_opts \<times> string list)" where
  "cli_globals_loop [] g rest = Inr (False, g, rest)"
| "cli_globals_loop (a # args) g rest =
     (case cli_arg_of a of
        Arg_version \<Rightarrow> Inr (True, g\<lparr>go_show_version := True\<rparr>, rest)
      | Arg_set f \<Rightarrow> cli_globals_loop args (f g) rest
      | Arg_value name f \<Rightarrow>
          (case args of
             [] \<Rightarrow> Inl (''missing value for --'' @ name)
           | v # args1 \<Rightarrow> cli_globals_loop args1 (f v g) rest)
      | Arg_verbose v \<Rightarrow>
          (case (if v = [] then None else parse_nonneg_int v) of
             None \<Rightarrow> Inl (snprintf 128 (''invalid --verbose level: '' @ [CHR 0x27] @ v @ [CHR 0x27]
                       @ '' (expected an integer 0-3)''))
           | Some lvl \<Rightarrow> cli_globals_loop args (g\<lparr>go_verbose := min 3 lvl\<rparr>) rest)
      | Arg_kept \<Rightarrow> cli_globals_loop args g (rest @ [a]))"

definition cli_parse_globals :: "bool \<Rightarrow> string list \<Rightarrow> cli \<Rightarrow> (int \<times> cli_opts) \<times> cli" where
  "cli_parse_globals mem argv s =
     (if \<not> mem
      then (case cli_finish_db_error ACTA_DB_ERR_ALLOC ''out of memory while parsing arguments'' s of
              (code, s1) \<Rightarrow> ((code, zero_cli_opts), s1))
      else case cli_globals_loop argv zero_cli_opts [] of
        Inl msg \<Rightarrow> (case emit_cli_error msg s of (code, s1) \<Rightarrow> ((code, zero_cli_opts), s1))
      | Inr (version, g, rest) \<Rightarrow>
          (if version \<or> go_show_tools g then ((0, g\<lparr>go_argv := None\<rparr>), s)
           else if length rest < 2 \<and> \<not> go_show_help g
           then (case emit_cli_error ''missing entity and/or action. See --help.'' s of
                   (code, s1) \<Rightarrow> ((code, g\<lparr>go_argv := None\<rparr>), s1))
           else ((0, g\<lparr>go_argv := Some rest\<rparr>), s)))"

section \<open>Pass 2\<close>

definition entity_flag_specs :: "(string \<times> bool) list" where
  "entity_flag_specs =
     [(''all'', False), (''backend'', True), (''base_url'', True), (''configuration'', True), (''content'', True),
      (''content_file'', True), (''context_id'', True), (''count'', False), (''deleted'', False),
      (''description'', True), (''error'', True), (''event'', True), (''execution_id'', True), (''file'', True),
      (''full'', False), (''folder_id'', True), (''hash'', True), (''include_deleted'', False), (''level'', True),
      (''limit'', True), (''message'', True), (''metadata'', True), (''model_identifier'', True),
      (''model_revision_id'', True), (''name'', True), (''offset'', True), (''output_schema'', True),
      (''parent_execution_id'', True), (''parent_id'', True), (''prompt_template'', True), (''raw'', True),
      (''raw_file'', True), (''result'', True), (''result_file'', True), (''skill_revision_id'', True),
      (''sql'', True), (''sql_stdin'', False), (''status'', True), (''stream'', False), (''to'', True),
      (''type'', True)]"

definition cli_flag_has_value :: "string \<Rightarrow> bool" where
  "cli_flag_has_value name =
     (case find (\<lambda>e. fst e = name) entity_flag_specs of None \<Rightarrow> True | Some e \<Rightarrow> snd e)"

text \<open>
  The flag at the head of the remaining tokens, if it is one: is the token after it its value?
\<close>

definition takes_next :: "string \<Rightarrow> string list \<Rightarrow> bool" where
  "takes_next tok toks \<longleftrightarrow> CHR 0x3D \<notin> set (drop 2 tok) \<and> cli_flag_has_value (drop 2 tok)
     \<and> toks \<noteq> [] \<and> \<not> cli_is_flag (hd toks)"

text \<open>
  The three walkers, on the tokens from \<open>pos\<close> on. The first also gives the position after the
  positional it found.
\<close>

fun walk_next :: "string list \<Rightarrow> nat \<Rightarrow> string option \<times> nat" where
  "walk_next [] pos = (None, pos)"
| "walk_next [tok] pos = (if \<not> cli_is_flag tok then Some tok else None, pos + 1)"
| "walk_next (tok # tok2 # toks) pos =
     (if \<not> cli_is_flag tok then (Some tok, pos + 1)
      else if takes_next tok (tok2 # toks) then walk_next toks (pos + 2)
      else walk_next (tok2 # toks) (pos + 1))"

fun walk_count :: "string list \<Rightarrow> nat" where
  "walk_count [] = 0"
| "walk_count [tok] = (if \<not> cli_is_flag tok then 1 else 0)"
| "walk_count (tok # tok2 # toks) =
     (if \<not> cli_is_flag tok then 1 + walk_count (tok2 # toks)
      else if takes_next tok (tok2 # toks) then walk_count toks
      else walk_count (tok2 # toks))"

fun walk_kth :: "string list \<Rightarrow> nat \<Rightarrow> string option" where
  "walk_kth [] k = None"
| "walk_kth [tok] k = (if \<not> cli_is_flag tok \<and> k = 0 then Some tok else None)"
| "walk_kth (tok # tok2 # toks) k =
     (if \<not> cli_is_flag tok then (if k = 0 then Some tok else walk_kth (tok2 # toks) (k - 1))
      else if takes_next tok (tok2 # toks) then walk_kth toks k
      else walk_kth (tok2 # toks) k)"

definition cli_next_positional :: "cli_args_t \<Rightarrow> string option \<times> cli_args_t" where
  "cli_next_positional it =
     (case walk_next (drop (ga_pos it) (ga_argv it)) (ga_pos it) of (r, p) \<Rightarrow> (r, it\<lparr>ga_pos := p\<rparr>))"

definition cmd_args_count_positionals :: "cli_args_t \<Rightarrow> nat" where
  "cmd_args_count_positionals it = walk_count (drop (ga_pos it) (ga_argv it))"

definition cmd_args_kth_positional :: "cli_args_t \<Rightarrow> nat \<Rightarrow> string option" where
  "cmd_args_kth_positional it k = walk_kth (drop (ga_pos it) (ga_argv it)) k"

definition apply_flag_aliases :: "string list \<Rightarrow> string list" where
  "apply_flag_aliases argv = map (\<lambda>a. if cli_prefix_match a ''deleted'' then ''--include_deleted'' else a) argv"

definition cli_flag_known :: "string \<Rightarrow> bool" where
  "cli_flag_known tok \<longleftrightarrow> takeWhile (\<lambda>c. c \<noteq> CHR 0x3D) (drop 2 tok) \<in> fst ` set entity_flag_specs"

fun validate_tokens :: "string list \<Rightarrow> string option" where
  "validate_tokens [] = None"
| "validate_tokens (tok # toks) =
     (if \<not> cli_is_flag tok then validate_tokens toks
      else if \<not> cli_flag_known tok
      then Some (snprintf 128 (''unknown option '' @ [CHR 0x27] @ tok @ [CHR 0x27] @ '' (see --help)''))
      else if cli_flag_has_value (drop 2 tok) \<and> CHR 0x3D \<notin> set (drop 2 tok) \<and> (toks = [] \<or> cli_is_flag (hd toks))
      then Some (snprintf 128 (''missing value for '' @ tok))
      else validate_tokens toks)"

definition cli_args_validate :: "cli_args_t \<Rightarrow> cli \<Rightarrow> int \<times> cli" where
  "cli_args_validate it s =
     (case validate_tokens (ga_argv it) of None \<Rightarrow> (EXIT_OK, s) | Some msg \<Rightarrow> emit_cli_error msg s)"

fun cli_find_flag :: "string \<Rightarrow> bool \<Rightarrow> string list \<Rightarrow> string option" where
  "cli_find_flag name has_value [] = None"
| "cli_find_flag name has_value (tok # toks) =
     (if \<not> cli_prefix_match tok name then cli_find_flag name has_value toks
      else if take 1 (cli_flag_tail tok name) = ''='' then Some (tl (cli_flag_tail tok name))
      else if has_value \<and> toks \<noteq> [] \<and> \<not> cli_is_flag (hd toks) then Some (hd toks)
      else None)"

definition cli_flag :: "string \<Rightarrow> cli \<Rightarrow> string option" where
  "cli_flag name s = cli_find_flag name True (ga_argv (cl_args s))"

definition cli_has_flag :: "string \<Rightarrow> cli \<Rightarrow> bool" where
  "cli_has_flag name s = list_ex (\<lambda>tok. cli_prefix_match tok name) (ga_argv (cl_args s))"

section \<open>Input atoms\<close>

definition next_positional_arg :: "string option cmd" where
  "next_positional_arg s = (case cli_next_positional (cl_args s) of (r, it) \<Rightarrow> (Inr r, s\<lparr>cl_args := it\<rparr>))"

definition parse_id_positional :: "string \<Rightarrow> string \<Rightarrow> int cmd" where
  "parse_id_positional pos help = next_cmd next_positional_arg (\<lambda>arg.
     case arg of
       None \<Rightarrow> reject (snprintf 96 (''missing positional: <'' @ pos @ ''>'')) help
     | Some t \<Rightarrow>
         (case parse_positive_id t of
            None \<Rightarrow> reject (snprintf 96 (''invalid <'' @ pos @ ''>: must be a positive integer'')) help
          | Some i \<Rightarrow> yield i))"

text \<open>An optional or required integer flag; \<open>None\<close> is absence.\<close>

definition parse_nonneg_int_flag :: "string \<Rightarrow> bool \<Rightarrow> string \<Rightarrow> int option cmd" where
  "parse_nonneg_int_flag name required help s =
     (case cli_flag name s of
        None \<Rightarrow> if required then reject (snprintf 96 (''missing required flag: --'' @ name)) help s
                else (Inr None, s)
      | Some v \<Rightarrow>
          (case parse_nonneg_int v of
             None \<Rightarrow> reject (snprintf 96 (''--'' @ name @ '' must be a non-negative integer'')) help s
           | Some n \<Rightarrow> (Inr (Some n), s)))"

definition int_or :: "int \<Rightarrow> int option \<Rightarrow> int" where
  "int_or n x = (case x of None \<Rightarrow> n | Some m \<Rightarrow> m)"

definition parse_offset_limit :: "string \<Rightarrow> (int \<times> int) cmd" where
  "parse_offset_limit help =
     next_cmd (parse_nonneg_int_flag ''offset'' False help) (\<lambda>offset.
     next_cmd (parse_nonneg_int_flag ''limit'' False help) (\<lambda>limit.
     yield (int_or 0 offset, int_or 0 limit)))"

definition require_flag :: "string \<Rightarrow> string \<Rightarrow> string option cmd" where
  "require_flag name help s =
     (case cli_flag name s of
        None \<Rightarrow> (Inr None, s)
      | Some v \<Rightarrow>
          if v = [] then reject (snprintf 96 (''field '' @ [CHR 0x27] @ name @ [CHR 0x27] @ '' must not be empty'')) help s
          else (Inr (Some v), s))"

text \<open>The tail of a getter: the row, or the error line and the return.\<close>

definition load_row_or_notfound :: "cli_env \<Rightarrow> int option \<Rightarrow> 'r option \<Rightarrow> string \<Rightarrow> string \<Rightarrow> 'r cmd" where
  "load_row_or_notfound E err row op entity =
     (if int_or ACTA_DB_OK err \<noteq> ACTA_DB_OK then fail_with (cli_finish_op_error E (int_or ACTA_DB_OK err) op)
      else case row of None \<Rightarrow> fail_with (cli_emit_not_found entity) | Some r \<Rightarrow> yield r)"

end
