(* ===== verification/Cli_Json.thy ===== *)
theory Cli_Json
  imports Cli_Args Contexts Executions Execution_Logs Folders Skills Models
begin

text \<open>
  \<^verbatim>\<open>acta_cli/src/json.c\<close>: the parsers of JSON bodies. One generic walker reads a table of
  fields; a table row is a wire key, its kind, and where the value goes (the offset in the C struct is a
  record update here). A parser gives \<open>None\<close> on failure, where the struct is left zeroed. The tree
  comes from cJSON, \<^verbatim>\<open>cJSON_ParseWithOpts\<close> with \<^verbatim>\<open>require_null_terminated\<close>.
\<close>

datatype 's jfield = JF_STR string "string option \<Rightarrow> 's \<Rightarrow> 's" | JF_ID string "int \<Rightarrow> 's \<Rightarrow> 's"

fun jf_key :: "'s jfield \<Rightarrow> string" where
  "jf_key (JF_STR key f) = key"
| "jf_key (JF_ID key f) = key"

abbreviation (input) INT_MIN :: int where "INT_MIN \<equiv> - 2147483648"

text \<open>\<open>Inl ()\<close> is the status -1. The copy of a string needs its length and one byte.\<close>

definition jget_str :: "cli_env \<Rightarrow> (string \<times> cJSON) list \<Rightarrow> string \<Rightarrow> unit + string option" where
  "jget_str E obj key =
     (case cJSON_GetObjectItemCaseSensitive obj key of
        Some (JString v) \<Rightarrow> if ce_mem E key (length v + 1) then Inr (Some v) else Inl ()
      | _ \<Rightarrow> Inr None)"

text \<open>The value and the status: 0 found, 1 absent or not a number, -1 not an exact int.\<close>

definition jget_int :: "(string \<times> cJSON) list \<Rightarrow> string \<Rightarrow> int \<times> int" where
  "jget_int obj key =
     (case cJSON_GetObjectItemCaseSensitive obj key of
        Some (JNumber d) \<Rightarrow>
          if d < of_int INT_MIN \<or> d > of_int INT_MAX then (0, - 1)
          else if d \<noteq> of_int \<lfloor>d\<rfloor> then (0, - 1)
          else (\<lfloor>d\<rfloor>, 0)
      | _ \<Rightarrow> (0, 1))"

definition jget_id :: "(string \<times> cJSON) list \<Rightarrow> string \<Rightarrow> unit + int" where
  "jget_id obj key = (case jget_int obj key of (v, st) \<Rightarrow> if st < 0 \<or> v < 0 then Inl () else Inr v)"

definition cli_parse_root :: "cli_env \<Rightarrow> string \<Rightarrow> (string \<times> cJSON) list option" where
  "cli_parse_root E blob = (case ce_parse E blob of Some (JObject obj) \<Rightarrow> Some obj | _ \<Rightarrow> None)"

fun jget_fields :: "cli_env \<Rightarrow> (string \<times> cJSON) list \<Rightarrow> 's jfield list \<Rightarrow> 's \<Rightarrow> 's option" where
  "jget_fields E obj [] dst = Some dst"
| "jget_fields E obj (JF_STR key f # fs) dst =
     (case jget_str E obj key of Inl _ \<Rightarrow> None | Inr v \<Rightarrow> jget_fields E obj fs (f v dst))"
| "jget_fields E obj (JF_ID key f # fs) dst =
     (case jget_id obj key of Inl _ \<Rightarrow> None | Inr v \<Rightarrow> jget_fields E obj fs (f v dst))"

definition jwalk :: "cli_env \<Rightarrow> string \<Rightarrow> 's \<Rightarrow> 's jfield list \<Rightarrow> 's option" where
  "jwalk E blob zero fs =
     (case cli_parse_root E blob of
        None \<Rightarrow> None
      | Some obj \<Rightarrow>
          if list_all (\<lambda>kv. fst kv \<in> jf_key ` set fs) obj then jget_fields E obj fs zero else None)"

section \<open>The field tables\<close>

definition zero_model :: model_t where
  "zero_model = \<lparr>m_id = 0, m_folder_id = 0, m_name = None, m_description = None, m_backend = None, m_base_url = None,
     m_model_identifier = None, m_configuration = None, m_created_at = None, m_updated_at = None, m_deleted_at = None\<rparr>"

definition zero_context :: context_t where
  "zero_context = \<lparr>c_id = 0, c_type = None, c_content = None, c_content_hash = None, c_metadata = None,
     c_created_at = None, c_deleted_at = None\<rparr>"

definition zero_execution :: execution_t where
  "zero_execution = \<lparr>e_id = 0, e_context_id = 0, e_skill_revision_id = 0, e_model_revision_id = 0,
     e_raw_response = None, e_result = None, e_status = None, e_error = None, e_created_at = None,
     e_started_at = None, e_completed_at = None, e_parent_execution_id = 0, e_deleted_at = None\<rparr>"

definition zero_log :: execution_log_t where
  "zero_log = \<lparr>l_id = 0, l_execution_id = 0, l_level = None, l_event = None, l_message = None, l_metadata = None,
     l_created_at = None\<rparr>"

definition zero_folder :: folder_t where
  "zero_folder = \<lparr>f_id = 0, f_name = None, f_parent_id = 0, f_created_at = None, f_updated_at = None,
     f_deleted_at = None\<rparr>"

definition zero_skill :: skill_t where
  "zero_skill = \<lparr>s_id = 0, s_folder_id = 0, s_name = None, s_description = None, s_prompt_template = None,
     s_output_schema = None, s_created_at = None, s_updated_at = None, s_deleted_at = None\<rparr>"

definition model_fields :: "model_t jfield list" where
  "model_fields =
     [JF_ID ''folder_id'' (\<lambda>v s. s\<lparr>m_folder_id := v\<rparr>), JF_STR ''name'' (\<lambda>v s. s\<lparr>m_name := v\<rparr>),
      JF_STR ''description'' (\<lambda>v s. s\<lparr>m_description := v\<rparr>), JF_STR ''backend'' (\<lambda>v s. s\<lparr>m_backend := v\<rparr>),
      JF_STR ''base_url'' (\<lambda>v s. s\<lparr>m_base_url := v\<rparr>),
      JF_STR ''model_identifier'' (\<lambda>v s. s\<lparr>m_model_identifier := v\<rparr>),
      JF_STR ''configuration'' (\<lambda>v s. s\<lparr>m_configuration := v\<rparr>)]"

definition context_fields :: "context_t jfield list" where
  "context_fields =
     [JF_ID ''id'' (\<lambda>v s. s\<lparr>c_id := v\<rparr>), JF_STR ''type'' (\<lambda>v s. s\<lparr>c_type := v\<rparr>),
      JF_STR ''content'' (\<lambda>v s. s\<lparr>c_content := v\<rparr>), JF_STR ''hash'' (\<lambda>v s. s\<lparr>c_content_hash := v\<rparr>),
      JF_STR ''metadata'' (\<lambda>v s. s\<lparr>c_metadata := v\<rparr>), JF_STR ''created_at'' (\<lambda>v s. s\<lparr>c_created_at := v\<rparr>)]"

definition execution_fields :: "execution_t jfield list" where
  "execution_fields =
     [JF_ID ''id'' (\<lambda>v s. s\<lparr>e_id := v\<rparr>), JF_STR ''status'' (\<lambda>v s. s\<lparr>e_status := v\<rparr>),
      JF_ID ''context_id'' (\<lambda>v s. s\<lparr>e_context_id := v\<rparr>),
      JF_ID ''skill_revision_id'' (\<lambda>v s. s\<lparr>e_skill_revision_id := v\<rparr>),
      JF_ID ''model_revision_id'' (\<lambda>v s. s\<lparr>e_model_revision_id := v\<rparr>),
      JF_ID ''parent_execution_id'' (\<lambda>v s. s\<lparr>e_parent_execution_id := v\<rparr>),
      JF_STR ''created_at'' (\<lambda>v s. s\<lparr>e_created_at := v\<rparr>)]"

definition execution_log_fields :: "execution_log_t jfield list" where
  "execution_log_fields =
     [JF_ID ''id'' (\<lambda>v s. s\<lparr>l_id := v\<rparr>), JF_ID ''execution_id'' (\<lambda>v s. s\<lparr>l_execution_id := v\<rparr>),
      JF_STR ''level'' (\<lambda>v s. s\<lparr>l_level := v\<rparr>), JF_STR ''event'' (\<lambda>v s. s\<lparr>l_event := v\<rparr>),
      JF_STR ''message'' (\<lambda>v s. s\<lparr>l_message := v\<rparr>), JF_STR ''metadata'' (\<lambda>v s. s\<lparr>l_metadata := v\<rparr>),
      JF_STR ''created_at'' (\<lambda>v s. s\<lparr>l_created_at := v\<rparr>)]"

text \<open>The tables of the two folder entities have the same rows.\<close>

definition folder_fields :: "folder_t jfield list" where
  "folder_fields =
     [JF_ID ''id'' (\<lambda>v s. s\<lparr>f_id := v\<rparr>), JF_STR ''name'' (\<lambda>v s. s\<lparr>f_name := v\<rparr>),
      JF_ID ''parent_id'' (\<lambda>v s. s\<lparr>f_parent_id := v\<rparr>), JF_STR ''created_at'' (\<lambda>v s. s\<lparr>f_created_at := v\<rparr>),
      JF_STR ''updated_at'' (\<lambda>v s. s\<lparr>f_updated_at := v\<rparr>), JF_STR ''deleted_at'' (\<lambda>v s. s\<lparr>f_deleted_at := v\<rparr>)]"

definition skill_fields :: "skill_t jfield list" where
  "skill_fields =
     [JF_ID ''id'' (\<lambda>v s. s\<lparr>s_id := v\<rparr>), JF_ID ''folder_id'' (\<lambda>v s. s\<lparr>s_folder_id := v\<rparr>),
      JF_STR ''name'' (\<lambda>v s. s\<lparr>s_name := v\<rparr>), JF_STR ''description'' (\<lambda>v s. s\<lparr>s_description := v\<rparr>),
      JF_STR ''prompt_template'' (\<lambda>v s. s\<lparr>s_prompt_template := v\<rparr>),
      JF_STR ''output_schema'' (\<lambda>v s. s\<lparr>s_output_schema := v\<rparr>),
      JF_STR ''created_at'' (\<lambda>v s. s\<lparr>s_created_at := v\<rparr>), JF_STR ''updated_at'' (\<lambda>v s. s\<lparr>s_updated_at := v\<rparr>),
      JF_STR ''deleted_at'' (\<lambda>v s. s\<lparr>s_deleted_at := v\<rparr>)]"

section \<open>The parsers\<close>

definition json_parse_model :: "cli_env \<Rightarrow> string \<Rightarrow> model_t option" where
  "json_parse_model E blob = jwalk E blob zero_model model_fields"

definition json_parse_context :: "cli_env \<Rightarrow> string \<Rightarrow> context_t option" where
  "json_parse_context E blob = jwalk E blob zero_context context_fields"

definition json_parse_execution :: "cli_env \<Rightarrow> string \<Rightarrow> execution_t option" where
  "json_parse_execution E blob = jwalk E blob zero_execution execution_fields"

definition json_parse_execution_log :: "cli_env \<Rightarrow> string \<Rightarrow> execution_log_t option" where
  "json_parse_execution_log E blob = jwalk E blob zero_log execution_log_fields"

definition json_parse_folder :: "cli_env \<Rightarrow> string \<Rightarrow> folder_t option" where
  "json_parse_folder E blob = jwalk E blob zero_folder folder_fields"

definition json_parse_skill :: "cli_env \<Rightarrow> string \<Rightarrow> skill_t option" where
  "json_parse_skill E blob = jwalk E blob zero_skill skill_fields"

definition json_validate :: "cli_env \<Rightarrow> string \<Rightarrow> bool" where
  "json_validate E blob \<longleftrightarrow> ce_parse E blob \<noteq> None"

end
