(* ===== verification/Cli_Rows.thy ===== *)
theory Cli_Rows
  imports Cli_Json
begin

text \<open>
  What the command handlers of \<^verbatim>\<open>acta_cli/src/commands\<close> do with rows, the same block in every
  entity's file: one JSON object per row with the field filter, the table, the list output and its
  three forms (array, table, count), and the pager of \<^verbatim>\<open>--stream\<close>. The source lines the map gives
  are those of the first entity that has the block.
\<close>

section \<open>One row as JSON\<close>

text \<open>
  The kinds of fields: an integer, an integer that \<^verbatim>\<open>--no_nulls\<close> drops when it is 0, an
  integer whose 0 prints as null (with or without that drop), and a string.
\<close>

datatype field_value = Int_field int | Ref_field int | Root_field int | Parent_field int | Str_field "string option"

fun field_text :: "field_value \<Rightarrow> string" where
  "field_text (Int_field n) = show_int n"
| "field_text (Ref_field n) = show_int n"
| "field_text (Root_field n) = root_or_id n"
| "field_text (Parent_field n) = root_or_id n"
| "field_text (Str_field v) = (case v of None \<Rightarrow> ''null'' | Some t \<Rightarrow> json_str t)"

fun null_field :: "field_value \<Rightarrow> bool" where
  "null_field (Int_field n) = False"
| "null_field (Ref_field n) = (n = 0)"
| "null_field (Root_field n) = (n = 0)"
| "null_field (Parent_field n) = False"
| "null_field (Str_field v) = (v = None)"

definition field_shown :: "cli_opts \<Rightarrow> string \<times> field_value \<Rightarrow> bool" where
  "field_shown g f \<longleftrightarrow> shows_field g (fst f) \<and> \<not> (go_no_nulls g \<and> null_field (snd f))"

fun commas :: "string list \<Rightarrow> string" where
  "commas [] = []"
| "commas [x] = x"
| "commas (x # xs) = x @ '', '' @ commas xs"

definition json_object :: "cli_opts \<Rightarrow> (string \<times> field_value) list \<Rightarrow> string" where
  "json_object g fs =
     ''{'' @ commas (map (\<lambda>(k, v). json_pair k (field_text v)) (filter (field_shown g) fs)) @ ''}''"

section \<open>The table\<close>

definition int_col :: "nat \<Rightarrow> int \<Rightarrow> string" where
  "int_col w n = '' '' @ pad_left w (show_int n) @ ''  ''"

definition root_col :: "nat \<Rightarrow> int \<Rightarrow> string" where
  "root_col w n = '' '' @ pad_left w (if n = 0 then ''-'' else show_int n) @ ''  ''"

text \<open>A header: the names in their widths (right-aligned or not), two blanks apart.\<close>

fun header_cols :: "(bool \<times> nat \<times> string) list \<Rightarrow> string" where
  "header_cols [] = []"
| "header_cols [(right, w, t)] = (if right then pad_left w t else pad_right w t)"
| "header_cols ((right, w, t) # cols) = (if right then pad_left w t else pad_right w t) @ ''  '' @ header_cols cols"

definition header_line :: "(bool \<times> nat \<times> string) list \<Rightarrow> string" where
  "header_line cols = '' '' @ header_cols cols @ newline"

section \<open>Lists\<close>

type_synonym 'r lister = "int \<Rightarrow> int \<Rightarrow> db_t \<Rightarrow> 'r list \<times> int option \<times> int option \<times> db_t"

definition ask :: "(db_t \<Rightarrow> 'a \<times> int option \<times> db_t) \<Rightarrow> cli \<Rightarrow> 'a \<times> int \<times> cli" where
  "ask f s = (case f (cl_db s) of (x, err, d) \<Rightarrow> (x, int_or ACTA_DB_OK err, s\<lparr>cl_db := d\<rparr>))"

definition ask_rows :: "'r lister \<Rightarrow> int \<Rightarrow> int \<Rightarrow> cli \<Rightarrow> 'r list \<times> int \<times> cli" where
  "ask_rows lst offset limit s =
     (case lst offset limit (cl_db s) of (items, n, err, d) \<Rightarrow> (items, int_or ACTA_DB_OK err, s\<lparr>cl_db := d\<rparr>))"

definition count_out :: "cli_env \<Rightarrow> string \<Rightarrow> (db_t \<Rightarrow> int \<times> int option \<times> db_t) \<Rightarrow> cli \<Rightarrow> int \<times> cli" where
  "count_out E op counter s =
     (case ask counter s of (n, err, s1) \<Rightarrow>
        if err \<noteq> ACTA_DB_OK then cli_finish_op_error E err op s1 else (EXIT_OK, say (show_int n @ newline) s1))"

definition rows_text :: "cli_opts \<Rightarrow> string \<Rightarrow> ('r \<Rightarrow> string) \<Rightarrow> ('r \<Rightarrow> string) \<Rightarrow> 'r list \<Rightarrow> string" where
  "rows_text g header table_row to_json items =
     (if go_table g then header @ concat (map table_row items)
      else if items = [] then ''[]'' @ newline
      else ''['' @ commas (map to_json items) @ '']'' @ newline)"

definition list_out ::
  "cli_env \<Rightarrow> cli_opts \<Rightarrow> string \<Rightarrow> 'r lister \<Rightarrow> string \<Rightarrow> ('r \<Rightarrow> string) \<Rightarrow> ('r \<Rightarrow> string) \<Rightarrow> int \<Rightarrow> int \<Rightarrow> cli
     \<Rightarrow> int \<times> cli" where
  "list_out E g op lst header table_row to_json offset limit s =
     (case ask_rows lst offset limit s of (items, err, s1) \<Rightarrow>
        if err \<noteq> ACTA_DB_OK then cli_finish_op_error E err op s1
        else (EXIT_OK, say (rows_text g header table_row to_json items) s1))"

text \<open>One row of a getter: the id, the table, or the object.\<close>

definition row_out :: "cli_opts \<Rightarrow> int \<Rightarrow> string \<Rightarrow> string \<Rightarrow> string \<Rightarrow> cli \<Rightarrow> cli" where
  "row_out g i header table_row json =
     say (if go_id_only g then show_int i @ newline
          else if go_table g then header @ table_row else json @ newline)"

definition fetch_row ::
  "cli_env \<Rightarrow> (db_t \<Rightarrow> 'r option \<times> int option \<times> db_t) \<Rightarrow> string \<Rightarrow> string \<Rightarrow> 'r cmd" where
  "fetch_row E get op entity s =
     (case get (cl_db s) of (row, err, d) \<Rightarrow> load_row_or_notfound E err row op entity (s\<lparr>cl_db := d\<rparr>))"

section \<open>The pager\<close>

text \<open>
  The loop of \<^verbatim>\<open>--stream\<close>: pages until the limit is reached, a page is empty, or a page is
  shorter than what was asked for. Every page is printed as it comes. The value \<open>None\<close> is a loop that
  never ends.
\<close>

definition stream_want :: "int \<Rightarrow> int \<Rightarrow> int" where
  "stream_want limit emitted = (if limit > 0 then limit - emitted else 0)"

definition stream_done :: "int \<Rightarrow> int \<Rightarrow> int \<Rightarrow> int \<Rightarrow> bool" where
  "stream_done limit emitted n want \<longleftrightarrow> (limit > 0 \<and> emitted \<ge> limit) \<or> n = 0 \<or> n < want"

definition say_lines :: "('r \<Rightarrow> string) \<Rightarrow> 'r list \<Rightarrow> cli \<Rightarrow> cli" where
  "say_lines to_json items s = s\<lparr>cl_out := cl_out s @ map (\<lambda>r. Txt (to_json r @ newline)) items\<rparr>"

partial_function (option) stream_pages ::
  "cli_env \<Rightarrow> string \<Rightarrow> 'r lister \<Rightarrow> ('r \<Rightarrow> string) \<Rightarrow> int \<Rightarrow> int \<Rightarrow> int \<Rightarrow> cli \<Rightarrow> (int \<times> cli) option" where
  "stream_pages E op lst to_json offset limit emitted s =
     (let want = stream_want limit emitted in
      case ask_rows lst (offset + emitted) want s of (items, err, s1) \<Rightarrow>
        if err \<noteq> ACTA_DB_OK then Some (cli_finish_op_error E err op s1)
        else let n = int (length items); s2 = say_lines to_json items s1 in
          if stream_done limit (emitted + n) n want then Some (EXIT_OK, s2)
          else stream_pages E op lst to_json offset limit (emitted + n) s2)"

definition stream_out ::
  "cli_env \<Rightarrow> cli_opts \<Rightarrow> string \<Rightarrow> string \<Rightarrow> 'r lister \<Rightarrow> ('r \<Rightarrow> string) \<Rightarrow> int \<Rightarrow> int \<Rightarrow> cli \<Rightarrow> (int \<times> cli) option" where
  "stream_out E g help op lst to_json offset limit s =
     (if go_count g \<or> go_table g \<or> go_id_only g
      then Some (EXIT_INVALID, usage help (cli_emit_error
             ''conflicting output modes: --stream is incompatible with --count, --table and --id_only'' s))
      else stream_pages E op lst to_json offset limit 0 s)"

text \<open>The refusal that opens every list action.\<close>

definition list_no_id_only :: "cli_opts \<Rightarrow> string \<Rightarrow> string \<Rightarrow> unit cmd" where
  "list_no_id_only g what hint s =
     (if go_id_only g
      then (Inl EXIT_INVALID, cli_emit_error (what @ '': --id_only is not supported; remove the flag (use the JSON rows, ''
              @ hint @ '')'') s)
      else (Inr (), s))"

abbreviation (input) stream_hint :: string where "stream_hint \<equiv> ''--count, --table, or --stream''"

text \<open>\<^verbatim>\<open>--raw_out\<close>: one field as it is; a null prints nothing, an unknown name is an error.\<close>

definition raw_out :: "(string \<times> field_value) list \<Rightarrow> nat \<Rightarrow> string \<Rightarrow> string \<Rightarrow> cli \<Rightarrow> int \<times> cli" where
  "raw_out fs sz supported name s =
     (case map_of fs name of
        Some (Str_field None) \<Rightarrow> (EXIT_OK, s)
      | Some (Str_field (Some v)) \<Rightarrow> (EXIT_OK, say (v @ newline) s)
      | Some (Int_field n) \<Rightarrow> (EXIT_OK, say (show_int n @ newline) s)
      | Some (Ref_field n) \<Rightarrow> (EXIT_OK, say (show_int n @ newline) s)
      | Some (Root_field n) \<Rightarrow> (EXIT_OK, say (show_int n @ newline) s)
      | Some (Parent_field n) \<Rightarrow> (EXIT_OK, say (show_int n @ newline) s)
      | None \<Rightarrow> emit_cli_error (snprintf sz (''unknown --raw_out field: '' @ [CHR 0x27] @ name @ [CHR 0x27]
                  @ '' (supported: '' @ supported @ '')'')) s)"

text \<open>A list action: its arguments are read, then \<open>k\<close> prints.\<close>

definition then_list :: "'a cmd \<Rightarrow> ('a \<Rightarrow> cli \<Rightarrow> (int \<times> cli) option) \<Rightarrow> cli \<Rightarrow> (int \<times> cli) option" where
  "then_list m k s = (case m s of (Inl code, s1) \<Rightarrow> Some (code, s1) | (Inr x, s1) \<Rightarrow> k x s1)"

section \<open>Simple actions\<close>

text \<open>
  Read the id, call the library, report. \<open>report\<close> is the success line.
\<close>

definition act_on :: "cli_env \<Rightarrow> string \<Rightarrow> (db_t \<Rightarrow> int \<times> db_t) \<Rightarrow> (cli \<Rightarrow> cli) \<Rightarrow> int cmd" where
  "act_on E op f report s =
     (case f (cl_db s) of (rc, d) \<Rightarrow>
        let s1 = s\<lparr>cl_db := d\<rparr> in
        if rc \<noteq> ACTA_DB_OK then (case cli_finish_op_error E rc op s1 of (code, s2) \<Rightarrow> (Inr code, s2))
        else (Inr EXIT_OK, report s1))"

definition create_row :: "cli_env \<Rightarrow> cli_opts \<Rightarrow> string \<Rightarrow> (db_t \<Rightarrow> int \<times> int option \<times> db_t) \<Rightarrow> int cmd" where
  "create_row E g op f s =
     (case f (cl_db s) of (rc, out_id, d) \<Rightarrow>
        let s1 = s\<lparr>cl_db := d\<rparr> in
        if rc \<noteq> ACTA_DB_OK then (case cli_finish_op_error E rc op s1 of (code, s2) \<Rightarrow> (Inr code, s2))
        else (Inr EXIT_OK, emit_ok_id g (int_or 0 out_id) s1))"

text \<open>
  The input of a create action: the JSON body if there is a source, else \<open>flags\<close>.
\<close>

definition body_or_flags ::
  "cli_env \<Rightarrow> cli_opts \<Rightarrow> (string \<Rightarrow> 'a option) \<Rightarrow> string \<Rightarrow> 'a cmd \<Rightarrow> 'a cmd" where
  "body_or_flags E g parse help flags s =
     (case resolve_input_source E g s of
        (Inl _, s1) \<Rightarrow> (Inl EXIT_INVALID, usage help s1)
      | (Inr None, s1) \<Rightarrow> flags s1
      | (Inr (Some blob), s1) \<Rightarrow>
          (case parse blob of None \<Rightarrow> reject ''invalid JSON body'' help s1 | Some x \<Rightarrow> (Inr x, s1)))"

text \<open>A test on the input: if it fails, the error line and the help text.\<close>

definition demand :: "bool \<Rightarrow> string \<Rightarrow> string \<Rightarrow> unit cmd" where
  "demand ok msg help = (if ok then yield () else reject msg help)"

text \<open>A string is there and not empty.\<close>

definition named :: "string option \<Rightarrow> bool" where
  "named v \<longleftrightarrow> v \<noteq> None \<and> v \<noteq> Some []"

text \<open>The help action: the whole help, or one section.\<close>

definition help_action :: "string \<Rightarrow> string \<Rightarrow> (string \<times> string) list \<Rightarrow> string list \<Rightarrow> int cmd" where
  "help_action entity full sections actions =
     next_cmd next_positional_arg (\<lambda>sub. case sub of
        Some a \<Rightarrow>
          if a \<noteq> ''help'' then
            (case map_of sections a of
               Some section \<Rightarrow> (\<lambda>s. (Inr EXIT_OK, show_usage section s))
             | None \<Rightarrow> fail_with (unknown_action a (''acta_cli '' @ entity @ '' help'') actions))
          else (\<lambda>s. (Inr EXIT_OK, show_usage full s))
      | None \<Rightarrow> (\<lambda>s. (Inr EXIT_OK, show_usage full s)))"

end
