(* ===== verification/Cli_Frame.thy ===== *)
theory Cli_Frame
  imports Cli_Rows System "HOL-Library.Sublist"
begin

text \<open>
  What every action of the command line tool keeps. A step is \<open>fine\<close> for a relation \<open>R\<close> between the
  states before and after it if \<open>R\<close> holds, output is only added to, and a return out of the middle of the
  handler has one of the documented codes and, if it is not 0, something on the error stream. The rules
  are proved once in the locale \<open>frame\<close>, for any reflexive and transitive \<open>R\<close> that printing keeps; its
  two uses are \<open>untouched\<close> (the database is not touched) and \<open>follows\<close> (it changes by library steps only).
\<close>

section \<open>Outcomes\<close>

definition grows :: "cli \<Rightarrow> cli \<Rightarrow> bool" where
  "grows s s' \<longleftrightarrow> prefix (cl_out s) (cl_out s') \<and> prefix (cl_err s) (cl_err s')"

definition exit_codes :: "int set" where
  "exit_codes = {EXIT_OK, EXIT_NOT_FOUND, EXIT_SQL, EXIT_ALLOC, EXIT_INVALID, EXIT_CLI}"

definition reported :: "int \<Rightarrow> cli \<Rightarrow> bool" where
  "reported code s \<longleftrightarrow> code \<in> exit_codes \<and> (code \<noteq> EXIT_OK \<longrightarrow> cl_err s \<noteq> [])"

definition finished :: "(cli \<Rightarrow> cli \<Rightarrow> bool) \<Rightarrow> cli \<Rightarrow> int \<times> cli \<Rightarrow> bool" where
  "finished R s r \<longleftrightarrow> R s (snd r) \<and> grows s (snd r) \<and> reported (fst r) (snd r)"

definition fine :: "(cli \<Rightarrow> cli \<Rightarrow> bool) \<Rightarrow> cli \<Rightarrow> (int + 'a) \<times> cli \<Rightarrow> bool" where
  "fine R s r \<longleftrightarrow> R s (snd r) \<and> grows s (snd r) \<and> (\<forall>code. fst r = Inl code \<longrightarrow> reported code (snd r))"

definition ended :: "(cli \<Rightarrow> cli \<Rightarrow> bool) \<Rightarrow> cli \<Rightarrow> (int + int) \<times> cli \<Rightarrow> bool" where
  "ended R s r \<longleftrightarrow> fine R s r \<and> (\<forall>code. fst r = Inr code \<longrightarrow> reported code (snd r))"

definition if_ended :: "(cli \<Rightarrow> cli \<Rightarrow> bool) \<Rightarrow> cli \<Rightarrow> (int \<times> cli) option \<Rightarrow> bool" where
  "if_ended R s x \<longleftrightarrow> (\<forall>r. x = Some r \<longrightarrow> finished R s r)"

lemma grows_refl [simp]: "grows s s" by (simp add: grows_def)
lemma grows_trans: "grows s t \<Longrightarrow> grows t u \<Longrightarrow> grows s u" by (auto simp: grows_def intro: prefix_order.trans)

lemma run_cmd_finished: "ended R s (m s) \<Longrightarrow> finished R s (run_cmd m s)"
  by (auto simp: ended_def fine_def finished_def run_cmd_def split: prod.splits sum.splits)

lemma if_ended_Some [simp]: "if_ended R s (Some r) = finished R s r"
  and if_ended_None [simp]: "if_ended R s None"
  by (simp_all add: if_ended_def)

section \<open>Printing\<close>

definition prints :: "cli \<Rightarrow> cli \<Rightarrow> bool" where
  "prints s s' \<longleftrightarrow> store (cl_db s') = store (cl_db s) \<and> cl_files s' = cl_files s \<and> grows s s'"

named_theorems printing

lemma prints_refl [printing]: "prints s s" by (simp add: prints_def)

lemma prints_trans: "prints s t \<Longrightarrow> prints t u \<Longrightarrow> prints s u"
  by (auto simp: prints_def intro: grows_trans)

lemma prints_say [printing]: "prints s t \<Longrightarrow> prints s (say x t)"
  and prints_complain [printing]: "prints s t \<Longrightarrow> prints s (complain x t)"
  and prints_usage [printing]: "prints s t \<Longrightarrow> prints s (usage x t)"
  and prints_show_usage [printing]: "prints s t \<Longrightarrow> prints s (show_usage x t)"
  and prints_lines [printing]: "prints s t \<Longrightarrow> prints s (say_lines f rs t)"
  by (auto simp: prints_def grows_def say_def complain_def usage_def show_usage_def say_lines_def
      intro: prefix_prefix)

lemma prints_args [printing]: "prints s t \<Longrightarrow> prints s (t\<lparr>cl_args := a\<rparr>)"
  by (simp add: prints_def grows_def)

lemma prints_db [printing]: "prints s t \<Longrightarrow> store d = store (cl_db t) \<Longrightarrow> prints s (t\<lparr>cl_db := d\<rparr>)"
  by (simp add: prints_def grows_def)

lemmas emit_defs = emit_ok_id_def emit_ok_folder_def emit_ok_parent_def emit_ok_restored_def
  emit_ok_transition_def emit_id_and_def emit_deleted_def row_out_def cli_emit_error_def raw_line_def

lemma prints_emits [printing]:
  "prints s t \<Longrightarrow> prints s (emit_ok_id g i t)" "prints s t \<Longrightarrow> prints s (emit_ok_folder g i f t)"
  "prints s t \<Longrightarrow> prints s (emit_ok_parent g i p t)" "prints s t \<Longrightarrow> prints s (emit_ok_restored g i t)"
  "prints s t \<Longrightarrow> prints s (emit_ok_transition g i st t)" "prints s t \<Longrightarrow> prints s (emit_deleted t)"
  "prints s t \<Longrightarrow> prints s (row_out g i h r j t)" "prints s t \<Longrightarrow> prints s (cli_emit_error m t)"
  "prints s t \<Longrightarrow> prints s (raw_line m t)"
  by (simp_all add: emit_defs prints_say prints_complain)

lemma resolve_prints: "resolve_input_source E g s = (r, s1) \<Longrightarrow> prints s s1"
  by (auto simp: resolve_input_source_def Let_def split: if_splits option.splits intro!: printing)

lemma complained [simp]: "cl_err (complain x t) \<noteq> []"
  and usage_err [simp]: "cl_err (usage x t) \<noteq> []"
  by (simp_all add: complain_def usage_def)

lemma reported_ok [simp]: "reported 0 s"
  and reported_invalid [simp]: "reported 4 s = (cl_err s \<noteq> [])"
  and reported_cli [simp]: "reported 10 s = (cl_err s \<noteq> [])"
  and reported_alloc [simp]: "reported 3 s = (cl_err s \<noteq> [])"
  by (simp_all add: reported_def exit_codes_def)

lemma map_rc_codes: "map_rc_to_exit rc \<in> exit_codes"
  by (simp add: map_rc_to_exit_def exit_codes_def)

text \<open>The functions that write an error line and give the code.\<close>

definition errs :: "(cli \<Rightarrow> int \<times> cli) \<Rightarrow> bool" where
  "errs f \<longleftrightarrow> (\<forall>s. prints s (snd (f s)) \<and> reported (fst (f s)) (snd (f s)))"

named_theorems erring

lemma errs_db [erring]: "errs (cli_finish_db_error rc what)"
  by (auto simp: errs_def cli_finish_db_error_def Let_def reported_def map_rc_codes intro!: printing)

lemma errs_op [erring]: "errs (cli_finish_op_error E rc op)"
  using errs_db unfolding errs_def cli_finish_op_error_def by blast

lemma errs_cli [erring]: "errs (emit_cli_error msg)"
  by (auto simp: errs_def emit_cli_error_def intro!: printing)

lemma errs_not_found [erring]: "errs (cli_emit_not_found e)"
  using errs_db unfolding errs_def cli_emit_not_found_def by blast

lemma errs_unknown [erring]: "errs (unknown_action a t acts)"
  by (auto simp: errs_def unknown_action_def emit_cli_error_def Let_def intro!: printing split: option.splits)

lemma reject_eq: "reject msg help s = (Inl EXIT_INVALID, usage help (cli_emit_error msg s))"
  by (simp add: reject_def)

text \<open>Library calls that read.\<close>

definition reads2 :: "(db_t \<Rightarrow> 'a \<times> int option \<times> db_t) \<Rightarrow> bool" where
  "reads2 f \<longleftrightarrow> (\<forall>d x err d'. f d = (x, err, d') \<longrightarrow> store d' = store d)"

definition reads3 :: "'r lister \<Rightarrow> bool" where
  "reads3 lst \<longleftrightarrow> (\<forall>offset limit d items n err d'. lst offset limit d = (items, n, err, d') \<longrightarrow> store d' = store d)"

section \<open>The rules\<close>

named_theorems frame_rules

locale frame =
  fixes R :: "cli \<Rightarrow> cli \<Rightarrow> bool"
  assumes same: "store (cl_db s') = store (cl_db s) \<Longrightarrow> cl_files s' = cl_files s \<Longrightarrow> R s s'"
    and trans: "R s t \<Longrightarrow> R t u \<Longrightarrow> R s u"
begin

lemma printed: "prints s s' \<Longrightarrow> R s s' \<and> grows s s'"
  by (simp add: prints_def same)

lemma fine_value [frame_rules]: "prints s s' \<Longrightarrow> fine R s (Inr x, s')"
  using printed by (simp add: fine_def)

lemma fine_return [frame_rules]: "prints s s' \<Longrightarrow> reported code s' \<Longrightarrow> fine R s (Inl code, s')"
  using printed by (simp add: fine_def)

lemma ended_value [frame_rules]: "prints s s' \<Longrightarrow> reported code s' \<Longrightarrow> ended R s (Inr code, s')"
  using printed by (simp add: ended_def fine_def)

lemma ended_return [frame_rules]: "prints s s' \<Longrightarrow> reported code s' \<Longrightarrow> ended R s (Inl code, s')"
  using printed by (simp add: ended_def fine_def)

lemma finished_value [frame_rules]: "prints s s' \<Longrightarrow> reported code s' \<Longrightarrow> finished R s (code, s')"
  using printed by (simp add: finished_def)

lemma fine_yield [frame_rules]: "fine R s (yield x s)"
  unfolding yield_def by (intro frame_rules printing)

lemma fine_reject [frame_rules]: "fine R s (reject msg help s)"
  and ended_reject [frame_rules]: "ended R s (reject msg help s)"
  by (auto simp: reject_eq cli_emit_error_def intro!: frame_rules printing)

lemma fine_fail: "errs f \<Longrightarrow> fine R s (fail_with f s)"
  and ended_fail: "errs f \<Longrightarrow> ended R s (fail_with f s)"
  by (auto simp: errs_def fail_with_def split: prod.split intro!: frame_rules dest!: spec [of _ s])

lemmas fail_rules [frame_rules] =
  errs_db [THEN fine_fail] errs_op [THEN fine_fail] errs_cli [THEN fine_fail] errs_not_found [THEN fine_fail] errs_unknown [THEN fine_fail]
  errs_db [THEN ended_fail] errs_op [THEN ended_fail] errs_cli [THEN ended_fail] errs_not_found [THEN ended_fail] errs_unknown [THEN ended_fail]

lemma finished_errs: "errs f \<Longrightarrow> finished R s (f s)"
  unfolding errs_def using finished_value [of s "snd (f s)" "fst (f s)"] by simp

lemmas finished_err_lines [frame_rules] = errs_db [THEN finished_errs] errs_op [THEN finished_errs]
  errs_cli [THEN finished_errs] errs_not_found [THEN finished_errs] errs_unknown [THEN finished_errs]

lemma fine_next [frame_rules]:
  assumes "fine R s (m s)" "\<And>x s1. fine R s1 (k x s1)"
  shows "fine R s (next_cmd m k s)"
proof (cases "m s")
  case (Pair r s1)
  show ?thesis
  proof (cases r)
    case (Inl e)
    then show ?thesis using assms(1) Pair by (simp add: next_cmd_def fine_def)
  next
    case (Inr x)
    with assms(1) Pair have "R s s1" "grows s s1" by (simp_all add: fine_def)
    with assms(2) [of s1 x] show ?thesis using Pair Inr
      by (auto simp: next_cmd_def fine_def intro: trans grows_trans)
  qed
qed

lemma ended_next [frame_rules]:
  assumes "fine R s (m s)" "\<And>x s1. ended R s1 (k x s1)"
  shows "ended R s (next_cmd m k s)"
proof (cases "m s")
  case (Pair r s1)
  show ?thesis
  proof (cases r)
    case (Inl e)
    then show ?thesis using assms(1) Pair by (simp add: next_cmd_def fine_def ended_def)
  next
    case (Inr x)
    with assms(1) Pair have "R s s1" "grows s s1" by (simp_all add: fine_def)
    with assms(2) [of s1 x] show ?thesis using Pair Inr
      by (auto simp: next_cmd_def fine_def ended_def intro: trans grows_trans)
  qed
qed

lemma finished_after: "R s s1 \<Longrightarrow> grows s s1 \<Longrightarrow> finished R s1 r \<Longrightarrow> finished R s r"
  by (auto simp: finished_def intro: trans grows_trans)

lemma fine_after: "R s s1 \<Longrightarrow> grows s s1 \<Longrightarrow> fine R s1 r \<Longrightarrow> fine R s r"
  by (auto simp: fine_def intro: trans grows_trans)

lemma ended_after: "R s s1 \<Longrightarrow> grows s s1 \<Longrightarrow> ended R s1 r \<Longrightarrow> ended R s r"
  by (auto simp: ended_def fine_def intro: trans grows_trans)

lemma fine_from: "prints s s1 \<Longrightarrow> fine R s1 r \<Longrightarrow> fine R s r"
  using printed fine_after by blast

lemma ended_of_finished: "finished R s (f s) \<Longrightarrow> ended R s (fail_with f s)"
  by (auto simp: finished_def ended_def fine_def fail_with_def split: prod.splits)

lemma then_list_ended [frame_rules]:
  assumes "fine R s (m s)" "\<And>x s1. if_ended R s1 (k x s1)"
  shows "if_ended R s (then_list m k s)"
proof (cases "m s")
  case (Pair r s1)
  show ?thesis
  proof (cases r)
    case (Inl e)
    then show ?thesis using assms(1) Pair by (simp add: then_list_def fine_def finished_def)
  next
    case (Inr x)
    with assms(1) Pair have "R s s1" "grows s s1" by (simp_all add: fine_def)
    with assms(2) [of s1 x] show ?thesis using Pair Inr
      by (auto simp: then_list_def if_ended_def intro: finished_after)
  qed
qed

section \<open>Arguments\<close>

lemma fine_next_positional [frame_rules]: "fine R s (next_positional_arg s)"
  by (auto simp: next_positional_arg_def split: prod.split intro!: frame_rules printing)

lemma fine_id [frame_rules]: "fine R s (parse_id_positional pos help s)"
  unfolding parse_id_positional_def by (auto intro!: frame_rules split: option.split)

lemma fine_int_flag [frame_rules]: "fine R s (parse_nonneg_int_flag name req help s)"
  by (auto simp: parse_nonneg_int_flag_def intro!: frame_rules printing split: option.split)

lemma fine_offset_limit [frame_rules]: "fine R s (parse_offset_limit help s)"
  unfolding parse_offset_limit_def by (intro frame_rules)

lemma fine_require [frame_rules]: "fine R s (require_flag name help s)"
  by (auto simp: require_flag_def intro!: frame_rules printing split: option.split)

lemma fine_demand [frame_rules]: "fine R s (demand ok msg help s)"
  unfolding demand_def by (auto intro!: frame_rules)

lemma fine_no_id_only [frame_rules]: "fine R s (list_no_id_only g what hint s)"
  by (auto simp: list_no_id_only_def emit_defs intro!: frame_rules printing)

lemma fine_body [frame_rules]:
  "(\<And>s. fine R s (flags s)) \<Longrightarrow> fine R s (body_or_flags E g parse help flags s)"
  unfolding body_or_flags_def reject_eq
  by (auto intro!: frame_rules printing dest!: resolve_prints intro: fine_from split: prod.split sum.split option.split)

lemma ended_help [frame_rules]: "ended R s (help_action entity full sections acts s)"
  unfolding help_action_def
  by (auto intro!: frame_rules printing erring split: option.split)

section \<open>Rows\<close>

lemma fine_load [frame_rules]: "fine R s (load_row_or_notfound E err row op entity s)"
  unfolding load_row_or_notfound_def
  by (auto intro!: frame_rules erring split: option.split)

lemma fine_fetch [frame_rules]:
  assumes "reads2 get"
  shows "fine R s (fetch_row E get op entity s)"
proof (cases "get (cl_db s)")
  case (fields row err d)
  then have "prints s (s\<lparr>cl_db := d\<rparr>)" using assms by (auto simp: reads2_def intro!: printing)
  from printed [OF this] show ?thesis
    using fields by (auto simp: fetch_row_def intro: fine_after fine_load)
qed

lemma finished_count [frame_rules]:
  assumes "reads2 counter"
  shows "finished R s (count_out E op counter s)"
proof (cases "counter (cl_db s)")
  case (fields n err d)
  then have st: "store d = store (cl_db s)" using assms by (simp add: reads2_def)
  then have "prints s (s\<lparr>cl_db := d\<rparr>)" by (intro printing)
  note p = printed [OF this]
  show ?thesis
    using fields st p [THEN conjunct1] p [THEN conjunct2]
    by (auto simp: count_out_def ask_def intro!: frame_rules printing intro: finished_after [OF _ _ finished_err_lines(2)])
qed

lemma ended_count [frame_rules]: "reads2 counter \<Longrightarrow> ended R s (fail_with (count_out E op counter) s)"
  by (intro ended_of_finished finished_count)

lemma ask_rows_prints:
  "reads3 lst \<Longrightarrow> ask_rows lst offset limit s = (items, err, s1) \<Longrightarrow> prints s s1"
  by (auto simp: ask_rows_def reads3_def intro!: printing split: prod.splits)

lemma finished_list [frame_rules]:
  assumes "reads3 lst"
  shows "finished R s (list_out E g op lst header row json offset limit s)"
proof (cases "ask_rows lst offset limit s")
  case (fields items err s1)
  note p = ask_rows_prints [OF assms fields]
  show ?thesis
    using fields p printed [OF p]
    by (auto simp: list_out_def intro!: frame_rules printing intro: finished_after [OF _ _ finished_err_lines(2)])
qed

lemma ended_list [frame_rules]:
  "reads3 lst \<Longrightarrow> ended R s (fail_with (list_out E g op lst header row json offset limit) s)"
  by (intro ended_of_finished finished_list)

lemma stream_pages_finished:
  "stream_pages E op lst json offset limit emitted s = Some r \<Longrightarrow> reads3 lst \<Longrightarrow> finished R s r"
proof (induction rule: stream_pages.raw_induct [rotated 1, consumes 1, case_names page])
  case (page stream E op lst json offset limit emitted s r)
  let ?want = "stream_want limit emitted"
  obtain items err s1 where a: "ask_rows lst (offset + emitted) ?want s = (items, err, s1)"
    by (cases "ask_rows lst (offset + emitted) ?want s")
  let ?n = "int (length items)" and ?s2 = "say_lines json items s1"
  have p1: "prints s s1" using ask_rows_prints [OF \<open>reads3 lst\<close> a] .
  have p2: "prints s ?s2" by (intro printing p1)
  have eq: "(if err \<noteq> 0 then Some (cli_finish_op_error E err op s1)
      else if stream_done limit (emitted + ?n) ?n ?want then Some (0, ?s2)
      else stream E op lst json offset limit (emitted + ?n) ?s2) = Some r"
    using page(2) unfolding Let_def a by simp
  consider "err \<noteq> 0" "r = cli_finish_op_error E err op s1"
    | "err = 0" "r = (0, ?s2)"
    | "err = 0" "stream E op lst json offset limit (emitted + ?n) ?s2 = Some r"
    using eq by (cases "err = 0"; cases "stream_done limit (emitted + ?n) ?n ?want") simp_all
  then show ?case
  proof cases
    case 1
    show ?thesis unfolding 1 by (rule finished_after [OF _ _ finished_err_lines(2)]) (use printed [OF p1] in simp_all)
  next
    case 2
    show ?thesis unfolding 2 by (rule finished_value [OF p2]) simp
  next
    case 3
    show ?thesis
      by (rule finished_after [OF _ _ page(1) [OF 3(2) \<open>reads3 lst\<close>]]) (use printed [OF p2] in simp_all)
  qed
qed

lemma stream_ended [frame_rules]:
  "reads3 lst \<Longrightarrow> if_ended R s (stream_out E g help op lst json offset limit s)"
  unfolding stream_out_def
  by (auto simp: cli_emit_error_def intro!: frame_rules printing)
     (auto simp: if_ended_def dest: stream_pages_finished)

lemma if_ended_finished [frame_rules]: "finished R s r \<Longrightarrow> if_ended R s (Some r)"
  by simp

lemma finished_raw [frame_rules]: "prints s s1 \<Longrightarrow> finished R s (raw_out fs sz supported name s1)"
  unfolding raw_out_def
  by (auto intro!: frame_rules printing simp: emit_cli_error_def split: option.split field_value.split)

lemma ended_pair: "finished R s r \<Longrightarrow> ended R s (case r of (code, s2) \<Rightarrow> (Inr code, s2))"
  by (auto simp: finished_def ended_def fine_def split: prod.split)

section \<open>Library calls that write\<close>

lemma ended_act:
  assumes "\<And>rc d. f (cl_db s) = (rc, d) \<Longrightarrow> R s (s\<lparr>cl_db := d\<rparr>)" "\<And>s. prints s (report s)"
  shows "ended R s (act_on E op f report s)"
proof (cases "f (cl_db s)")
  case (Pair rc d)
  let ?s1 = "s\<lparr>cl_db := d\<rparr>"
  have "ended R ?s1 (act_on E op f report s)"
    using Pair assms(2) [of ?s1] by (auto simp: act_on_def Let_def intro!: ended_pair frame_rules)
  then show ?thesis
    by (rule ended_after [OF assms(1) [OF Pair], rotated]) (simp add: grows_def)
qed

lemma ended_create:
  assumes "\<And>rc out d. f (cl_db s) = (rc, out, d) \<Longrightarrow> R s (s\<lparr>cl_db := d\<rparr>)"
  shows "ended R s (create_row E g op f s)"
proof (cases "f (cl_db s)")
  case (fields rc out d)
  let ?s1 = "s\<lparr>cl_db := d\<rparr>"
  have "ended R ?s1 (create_row E g op f s)"
    using fields by (auto simp: create_row_def Let_def emit_defs intro!: ended_pair frame_rules printing)
  then show ?thesis
    by (rule ended_after [OF assms [OF fields], rotated]) (simp add: grows_def)
qed

end

section \<open>The two uses\<close>

definition untouched :: "cli \<Rightarrow> cli \<Rightarrow> bool" where
  "untouched s s' \<longleftrightarrow> store (cl_db s') = store (cl_db s) \<and> cl_files s' = cl_files s"

definition follows :: "cli \<Rightarrow> cli \<Rightarrow> bool" where
  "follows s s' \<longleftrightarrow> db_step\<^sup>*\<^sup>* (store (cl_db s)) (store (cl_db s')) \<and> cl_files s' = cl_files s"

interpretation keep: frame untouched
  by unfold_locales (auto simp: untouched_def)

interpretation follow: frame follows
  by unfold_locales (auto simp: follows_def intro: rtranclp_trans)

lemma untouched_follows: "untouched s s' \<Longrightarrow> follows s s'"
  by (simp add: untouched_def follows_def)

lemma ended_untouched_follows: "ended untouched s r \<Longrightarrow> ended follows s r"
  and if_ended_untouched_follows: "if_ended untouched s x \<Longrightarrow> if_ended follows s x"
  by (auto simp: ended_def fine_def if_ended_def finished_def untouched_follows)

lemma follow_act:
  "(\<And>d rc d'. f d = (rc, d') \<Longrightarrow> lib_call d rc d') \<Longrightarrow> (\<And>s. prints s (report s)) \<Longrightarrow>
     ended follows s (act_on E op f report s)"
  by (rule follow.ended_act) (auto simp: follows_def intro!: r_into_rtranclp lib_call_db_step)

lemma follow_create:
  "(\<And>d rc out d'. f d = (rc, out, d') \<Longrightarrow> lib_call d rc d') \<Longrightarrow> ended follows s (create_row E g op f s)"
  by (rule follow.ended_create) (auto simp: follows_def intro!: r_into_rtranclp lib_call_db_step)

end
