(* ===== verification/Cli_Folders.thy ===== *)
theory Cli_Folders
  imports Cli_Rows Skill_Folders Model_Folders
begin

text \<open>
  The folder commands, \<^verbatim>\<open>acta_cli/src/commands/model_folder.c\<close> and
  \<^verbatim>\<open>acta_cli/src/commands/skill_folder.c\<close>: one definition per action. The two files print
  a folder the same way and differ in how a parent is given and in what they ask for.
\<close>

section \<open>A folder on the output\<close>

definition folder_to_json :: "cli_opts \<Rightarrow> folder_t \<Rightarrow> string" where
  "folder_to_json g c = json_object g
     [(''id'', Int_field (f_id c)), (''name'', Str_field (f_name c)), (''parent_id'', Parent_field (f_parent_id c)),
      (''created_at'', Str_field (f_created_at c)), (''updated_at'', Str_field (f_updated_at c)),
      (''deleted_at'', Str_field (f_deleted_at c))]"

definition folder_header :: string where
  "folder_header = header_line
     [(True, 4, ''ID''), (False, 20, ''NAME''), (True, 10, ''PARENT_ID''), (False, 19, ''CREATED_AT''),
      (False, 19, ''UPDATED_AT''), (False, 19, ''DELETED_AT'')]"

definition folder_table :: "folder_t \<Rightarrow> string" where
  "folder_table c = int_col 4 (f_id c) @ tcol (f_name c) 20 @ root_col 10 (f_parent_id c)
     @ tcol (f_created_at c) 19 @ tcol (f_updated_at c) 19 @ tcol (f_deleted_at c) 19 @ newline"

text \<open>The input of a create action.\<close>

definition folder_input :: "cli_env \<Rightarrow> cli_opts \<Rightarrow> string \<Rightarrow> folder_t cmd" where
  "folder_input E g help = body_or_flags E g (json_parse_folder E) help
     (\<lambda>s. next_cmd (parse_nonneg_int_flag ''parent_id'' False help)
            (\<lambda>p. yield (zero_folder\<lparr>f_name := cli_flag ''name'' s, f_parent_id := int_or 0 p\<rparr>)) s)"

section \<open>model_folder\<close>

definition mf_create :: "cli_env \<Rightarrow> cli_opts \<Rightarrow> int cmd" where
  "mf_create E g =
     next_cmd (folder_input E g ''usage_mf_create'') (\<lambda>mf.
     next_cmd (demand (named (f_name mf)) ''missing required field: name'' ''usage_mf_create'') (\<lambda>_.
     create_row E g ''model_folder create'' (acta_db_model_folder_create (f_name mf) (f_parent_id mf))))"

definition mf_get :: "cli_env \<Rightarrow> cli_opts \<Rightarrow> int cmd" where
  "mf_get E g =
     next_cmd (parse_id_positional ''id'' ''usage_mf_get'') (\<lambda>i.
     next_cmd (fetch_row E (acta_db_model_folder_get i) ''model_folder get'' ''model_folder'') (\<lambda>c s.
     (Inr EXIT_OK, row_out g (f_id c) folder_header (folder_table c) (folder_to_json g c) s)))"

text \<open>The counter and the lister the handlers pick: the children of the parent, or all.\<close>

definition mf_counter :: "int option \<Rightarrow> db_t \<Rightarrow> int \<times> int option \<times> db_t" where
  "mf_counter parent = (case parent of Some p \<Rightarrow> acta_db_model_folder_count_children p
                                     | None \<Rightarrow> acta_db_model_folder_count_all)"

definition mf_lister :: "int option \<Rightarrow> folder_t lister" where
  "mf_lister parent = (case parent of Some p \<Rightarrow> acta_db_model_folder_list_children p
                                    | None \<Rightarrow> acta_db_model_folder_list_all)"

definition mf_list_args :: "cli_opts \<Rightarrow> (int option \<times> int \<times> int) cmd" where
  "mf_list_args g =
     next_cmd (list_no_id_only g ''model_folder list'' stream_hint) (\<lambda>_.
     next_cmd (parse_offset_limit ''usage_mf_list'') (\<lambda>(offset, limit).
     next_cmd (parse_nonneg_int_flag ''parent_id'' False ''usage_mf_list'') (\<lambda>parent.
     yield (parent, offset, limit))))"

definition mf_list :: "cli_env \<Rightarrow> cli_opts \<Rightarrow> cli \<Rightarrow> (int \<times> cli) option" where
  "mf_list E g = then_list (mf_list_args g) (\<lambda>(parent, offset, limit) s.
     if go_count g then Some (count_out E ''model_folder count'' (mf_counter parent) s)
     else if go_stream g
     then stream_out E g ''model_folder_usage'' ''model_folder list'' (mf_lister parent) (folder_to_json g) offset limit s
     else Some (list_out E g ''model_folder list'' (mf_lister parent) folder_header folder_table (folder_to_json g)
                  offset limit s))"

definition mf_count :: "cli_env \<Rightarrow> int cmd" where
  "mf_count E =
     next_cmd (parse_nonneg_int_flag ''parent_id'' False ''usage_mf_count'') (\<lambda>parent.
     fail_with (count_out E ''model_folder count'' (mf_counter parent)))"

definition mf_rename :: "cli_env \<Rightarrow> cli_opts \<Rightarrow> int cmd" where
  "mf_rename E g =
     next_cmd (parse_id_positional ''id'' ''usage_mf_rename'') (\<lambda>i.
     next_cmd (require_flag ''name'' ''usage_mf_rename'') (\<lambda>name.
     next_cmd (demand (name \<noteq> None) ''missing required field: name'' ''usage_mf_rename'') (\<lambda>_.
     act_on E ''model_folder rename'' (acta_db_model_folder_rename i name)
       (if go_id_only g then emit_ok_id g i
        else say (''{'' @ json_pair ''id'' (show_int i) @ '','' @ json_pair ''name'' (json_str (the name))
               @ ''}'' @ newline)))))"

definition mf_delete :: "cli_env \<Rightarrow> int cmd" where
  "mf_delete E =
     next_cmd (parse_id_positional ''id'' ''usage_mf_delete'') (\<lambda>i.
     act_on E ''model_folder delete'' (acta_db_model_folder_soft_delete i) emit_deleted)"

definition mf_restore :: "cli_env \<Rightarrow> cli_opts \<Rightarrow> int cmd" where
  "mf_restore E g =
     next_cmd (parse_id_positional ''id'' ''usage_mf_restore'') (\<lambda>i.
     act_on E ''model_folder restore'' (acta_db_model_folder_restore i) (emit_ok_restored g i))"

definition mf_move :: "cli_env \<Rightarrow> cli_opts \<Rightarrow> int cmd" where
  "mf_move E g =
     next_cmd (parse_id_positional ''id'' ''usage_mf_move'') (\<lambda>i.
     next_cmd (parse_nonneg_int_flag ''parent_id'' True ''usage_mf_move'') (\<lambda>p.
     act_on E ''model_folder move'' (acta_db_model_folder_move_to i (int_or 0 p)) (emit_ok_parent g i (int_or 0 p))))"

definition model_folder_actions :: "string list" where
  "model_folder_actions =
     [''create'', ''get'', ''list'', ''count'', ''rename'', ''delete'', ''restore'', ''move'', ''help'']"

definition model_folder_help :: "(string \<times> string) list" where
  "model_folder_help =
     [(''create'', ''usage_mf_create''), (''get'', ''usage_mf_get''), (''list'', ''usage_mf_list''),
      (''count'', ''usage_mf_count''), (''rename'', ''usage_mf_rename''), (''delete'', ''usage_mf_delete''),
      (''restore'', ''usage_mf_restore''), (''move'', ''usage_mf_move'')]"

definition cmd_model_folder :: "cli_env \<Rightarrow> cli_opts \<Rightarrow> string \<Rightarrow> cli \<Rightarrow> (int \<times> cli) option" where
  "cmd_model_folder E g action s =
     (if action = ''help''
      then Some (run_cmd (help_action ''model_folder'' ''model_folder_usage'' model_folder_help model_folder_actions) s)
      else if action = ''create'' then Some (run_cmd (mf_create E g) s)
      else if action = ''get'' then Some (run_cmd (mf_get E g) s)
      else if action = ''list'' then mf_list E g s
      else if action = ''count'' then Some (run_cmd (mf_count E) s)
      else if action = ''rename'' then Some (run_cmd (mf_rename E g) s)
      else if action = ''delete'' then Some (run_cmd (mf_delete E) s)
      else if action = ''restore'' then Some (run_cmd (mf_restore E g) s)
      else if action = ''move'' then Some (run_cmd (mf_move E g) s)
      else Some (unknown_action action ''acta_cli model_folder help'' model_folder_actions s))"

section \<open>skill_folder\<close>

definition sf_create :: "cli_env \<Rightarrow> cli_opts \<Rightarrow> int cmd" where
  "sf_create E g =
     next_cmd (folder_input E g ''usage_sf_create'') (\<lambda>sf.
     next_cmd (demand (named (f_name sf)) ''missing required field: name'' ''usage_sf_create'') (\<lambda>_.
     create_row E g ''skill_folder create''
       (acta_db_skill_folder_create (f_name sf) (if f_parent_id sf < 0 then 0 else f_parent_id sf))))"

definition sf_get :: "cli_env \<Rightarrow> cli_opts \<Rightarrow> int cmd" where
  "sf_get E g =
     next_cmd (parse_id_positional ''id'' ''usage_sf_get'') (\<lambda>i.
     next_cmd (fetch_row E (acta_db_skill_folder_get i) ''skill_folder get'' ''skill_folder'') (\<lambda>c s.
     (Inr EXIT_OK, row_out g (f_id c) folder_header (folder_table c) (folder_to_json g c) s)))"

text \<open>The parent is an optional positional: \<^verbatim>\<open>all\<close>, or an id with 0 for the root.\<close>

definition sf_parent :: "string \<Rightarrow> int option cmd" where
  "sf_parent help = next_cmd next_positional_arg (\<lambda>arg. case arg of
       None \<Rightarrow> yield None
     | Some t \<Rightarrow> if t = ''all'' then yield None
         else (case parse_nonneg_int t of
                 None \<Rightarrow> reject ''<parent_id> must be a non-negative integer'' help
               | Some p \<Rightarrow> yield (Some p)))"

definition sf_counter :: "int option \<Rightarrow> db_t \<Rightarrow> int \<times> int option \<times> db_t" where
  "sf_counter parent = (case parent of Some p \<Rightarrow> acta_db_skill_folder_count_children p
                                     | None \<Rightarrow> acta_db_skill_folder_count_all)"

definition sf_lister :: "int option \<Rightarrow> folder_t lister" where
  "sf_lister parent = (case parent of Some p \<Rightarrow> acta_db_skill_folder_list_children p
                                    | None \<Rightarrow> acta_db_skill_folder_list_all)"

definition sf_list_args :: "cli_opts \<Rightarrow> (int option \<times> int \<times> int) cmd" where
  "sf_list_args g =
     next_cmd (list_no_id_only g ''skill_folder list'' stream_hint) (\<lambda>_.
     next_cmd (sf_parent ''usage_sf_list'') (\<lambda>parent.
     next_cmd (parse_offset_limit ''usage_sf_list'') (\<lambda>(offset, limit).
     yield (parent, offset, limit))))"

definition sf_list :: "cli_env \<Rightarrow> cli_opts \<Rightarrow> cli \<Rightarrow> (int \<times> cli) option" where
  "sf_list E g = then_list (sf_list_args g) (\<lambda>(parent, offset, limit) s.
     if go_count g then Some (count_out E ''skill_folder count'' (sf_counter parent) s)
     else if go_stream g
     then stream_out E g ''skill_folder_usage'' ''skill_folder list'' (sf_lister parent) (folder_to_json g) offset limit s
     else Some (list_out E g ''skill_folder list'' (sf_lister parent) folder_header folder_table (folder_to_json g)
                  offset limit s))"

definition sf_count :: "cli_env \<Rightarrow> int cmd" where
  "sf_count E =
     next_cmd (sf_parent ''usage_sf_count'') (\<lambda>parent.
     fail_with (count_out E ''skill_folder count'' (sf_counter parent)))"

definition sf_rename :: "cli_env \<Rightarrow> cli_opts \<Rightarrow> int cmd" where
  "sf_rename E g =
     next_cmd (parse_id_positional ''id'' ''usage_sf_rename'') (\<lambda>i.
     next_cmd (require_flag ''name'' ''usage_sf_rename'') (\<lambda>name.
     next_cmd (demand (name \<noteq> None) ''missing required flag: --name'' ''usage_sf_rename'') (\<lambda>_.
     act_on E ''skill_folder rename'' (acta_db_skill_folder_rename i name) (emit_ok_id g i))))"

definition sf_move :: "cli_env \<Rightarrow> cli_opts \<Rightarrow> int cmd" where
  "sf_move E g =
     next_cmd (parse_id_positional ''id'' ''usage_sf_move'') (\<lambda>i.
     next_cmd (parse_nonneg_int_flag ''parent_id'' False ''usage_sf_move'') (\<lambda>p.
     act_on E ''skill_folder move'' (acta_db_skill_folder_move_to i (int_or 0 p)) (emit_ok_parent g i (int_or 0 p))))"

definition sf_delete :: "cli_env \<Rightarrow> int cmd" where
  "sf_delete E =
     next_cmd (parse_id_positional ''id'' ''usage_sf_delete'') (\<lambda>i.
     act_on E ''skill_folder delete'' (acta_db_skill_folder_soft_delete i) emit_deleted)"

definition sf_restore :: "cli_env \<Rightarrow> cli_opts \<Rightarrow> int cmd" where
  "sf_restore E g =
     next_cmd (parse_id_positional ''id'' ''usage_sf_restore'') (\<lambda>i.
     act_on E ''skill_folder restore'' (acta_db_skill_folder_restore i) (emit_ok_restored g i))"

definition skill_folder_actions :: "string list" where
  "skill_folder_actions =
     [''create'', ''get'', ''list'', ''count'', ''rename'', ''move'', ''delete'', ''restore'', ''help'']"

definition skill_folder_help :: "(string \<times> string) list" where
  "skill_folder_help =
     [(''create'', ''usage_sf_create''), (''get'', ''usage_sf_get''), (''list'', ''usage_sf_list''),
      (''count'', ''usage_sf_count''), (''rename'', ''usage_sf_rename''), (''move'', ''usage_sf_move''),
      (''delete'', ''usage_sf_delete''), (''restore'', ''usage_sf_restore'')]"

definition cmd_skill_folder :: "cli_env \<Rightarrow> cli_opts \<Rightarrow> string \<Rightarrow> cli \<Rightarrow> (int \<times> cli) option" where
  "cmd_skill_folder E g action s =
     (if action = ''help''
      then Some (run_cmd (help_action ''skill_folder'' ''skill_folder_usage'' skill_folder_help skill_folder_actions) s)
      else if action = ''create'' then Some (run_cmd (sf_create E g) s)
      else if action = ''get'' then Some (run_cmd (sf_get E g) s)
      else if action = ''list'' then sf_list E g s
      else if action = ''count'' then Some (run_cmd (sf_count E) s)
      else if action = ''rename'' then Some (run_cmd (sf_rename E g) s)
      else if action = ''move'' then Some (run_cmd (sf_move E g) s)
      else if action = ''delete'' then Some (run_cmd (sf_delete E) s)
      else if action = ''restore'' then Some (run_cmd (sf_restore E g) s)
      else Some (unknown_action action ''acta_cli skill_folder help'' skill_folder_actions s))"

end
