(* ===== verification/Cli_Contexts.thy ===== *)
theory Cli_Contexts
  imports Cli_Rows Sha256
begin

text \<open>
  The context commands, \<^verbatim>\<open>acta_cli/src/commands/context.c\<close>. A context created without
  a digest gets the SHA-256 of its content; computing it may not end, so \<open>ctx_create\<close> gives an option.
\<close>

definition ctx_values :: "context_t \<Rightarrow> (string \<times> field_value) list" where
  "ctx_values c =
     [(''id'', Int_field (c_id c)), (''type'', Str_field (c_type c)), (''content'', Str_field (c_content c)),
      (''content_hash'', Str_field (c_content_hash c)), (''metadata'', Str_field (c_metadata c)),
      (''created_at'', Str_field (c_created_at c)), (''deleted_at'', Str_field (c_deleted_at c))]"

definition ctx_to_json :: "cli_opts \<Rightarrow> context_t \<Rightarrow> string" where
  "ctx_to_json g c = json_object g (ctx_values c)"

definition ctx_header :: string where
  "ctx_header = header_line
     [(True, 4, ''ID''), (False, 10, ''TYPE''), (False, 38, ''CONTENT''), (False, 10, ''HASH''),
      (False, 38, ''METADATA''), (False, 19, ''CREATED_AT''), (False, 19, ''DELETED_AT'')]"

definition ctx_table :: "context_t \<Rightarrow> string" where
  "ctx_table c = int_col 4 (c_id c) @ tcol (c_type c) 10 @ tcol (c_content c) 38 @ tcol (c_content_hash c) 10
     @ tcol (c_metadata c) 38 @ tcol (c_created_at c) 19 @ tcol (c_deleted_at c) 19 @ newline"

definition ctx_list_pick :: "context_query_t \<Rightarrow> bool \<Rightarrow> bool \<Rightarrow> context_t lister" where
  "ctx_list_pick q include_deleted full =
     (if include_deleted
      then (if full then acta_db_context_query_with_deleted (Some q)
            else acta_db_context_query_with_deleted_light (Some q))
      else if full then acta_db_context_query (Some q) else acta_db_context_query_light (Some q))"

section \<open>create\<close>

definition ctx_misspelt :: string where
  "ctx_misspelt = ''Warning: no recognised flags for '' @ [CHR 0x27] @ ''create'' @ [CHR 0x27] @ ''.'' @ newline
     @ ''  Did you misspell a flag?  Expected:'' @ newline
     @ ''    --type  --content  --hash  --metadata'' @ newline
     @ ''  Or use --json <blob>, --stdin, or --from_file <path> for a JSON body.'' @ newline
     @ ''  Run '' @ [CHR 0x27] @ ''acta_cli context help'' @ [CHR 0x27] @ '' for full usage.'' @ newline"

text \<open>Flag mode: the four flags, and the content from a file.\<close>

definition ctx_flags :: "cli_env \<Rightarrow> string option \<Rightarrow> context_t cmd" where
  "ctx_flags E cf s =
     (let ctx = zero_context\<lparr>c_type := cli_flag ''type'' s, c_content := cli_flag ''content'' s,
                  c_content_hash := cli_flag ''hash'' s, c_metadata := cli_flag ''metadata'' s\<rparr>;
          warned = (\<lambda>c s. (Inr c, if c_type c = None \<and> c_content c = None \<and> c_content_hash c = None
                                   \<and> c_metadata c = None then complain ctx_misspelt s else s))
      in case cf of
           None \<Rightarrow> warned ctx s
         | Some p \<Rightarrow>
             if c_content ctx \<noteq> None
             then reject ''conflicting input sources: --content and --content_file are mutually exclusive'' ''ctx_usage'' s
             else (case read_file_all E p of
                     None \<Rightarrow> reject ''cannot read content file'' ''ctx_usage'' s
                   | Some buf \<Rightarrow> warned (ctx\<lparr>c_content := Some buf\<rparr>) s))"

definition ctx_input :: "cli_env \<Rightarrow> cli_opts \<Rightarrow> context_t cmd" where
  "ctx_input E g s =
     (case resolve_input_source E g s of
        (Inl _, s1) \<Rightarrow> (Inl EXIT_INVALID, usage ''ctx_usage'' s1)
      | (Inr src, s1) \<Rightarrow>
          let cf = cli_flag ''content_file'' s1 in
          (case src of
             None \<Rightarrow> ctx_flags E cf s1
           | Some blob \<Rightarrow>
               if cf \<noteq> None
               then reject (''conflicting input sources: --content_file and --json/--stdin/--from_file ''
                      @ ''are mutually exclusive'') ''ctx_usage'' s1
               else (case json_parse_context E blob of
                       None \<Rightarrow> reject ''invalid JSON body'' ''ctx_usage'' s1
                     | Some c \<Rightarrow> (Inr c, s1))))"

text \<open>The default digest: \<open>None\<close> if computing it does not end, \<open>Inl\<close> if the copy finds no memory.\<close>

definition ctx_default_hash :: "cli_env \<Rightarrow> context_t \<Rightarrow> (unit + context_t) option" where
  "ctx_default_hash E c =
     (case (c_content c, c_content_hash c) of
        (Some content, None) \<Rightarrow>
          (case sha256_hex (ce_stack E) (map of_char content) of
             None \<Rightarrow> None
           | Some hex \<Rightarrow> Some (if ce_mem E ''hash'' 65 then Inr (c\<lparr>c_content_hash := Some hex\<rparr>) else Inl ()))
      | _ \<Rightarrow> Some (Inr c))"

definition ctx_store :: "cli_env \<Rightarrow> cli_opts \<Rightarrow> context_t \<Rightarrow> int cmd" where
  "ctx_store E g c =
     next_cmd (demand (c_type c \<noteq> None) ''missing required field: type'' ''ctx_usage'') (\<lambda>_.
     next_cmd (demand (c_content c \<noteq> None) ''missing required field: content'' ''ctx_usage'') (\<lambda>_.
     create_row E g ''context create'' (acta_db_context_create c)))"

definition ctx_create :: "cli_env \<Rightarrow> cli_opts \<Rightarrow> cli \<Rightarrow> (int \<times> cli) option" where
  "ctx_create E g = then_list (ctx_input E g) (\<lambda>c s.
     case ctx_default_hash E c of
       None \<Rightarrow> None
     | Some (Inl _) \<Rightarrow> Some (EXIT_ALLOC, cli_emit_error ''out of memory'' s)
     | Some (Inr c1) \<Rightarrow> Some (run_cmd (ctx_store E g c1) s))"

section \<open>The other actions\<close>

definition ctx_get :: "cli_env \<Rightarrow> cli_opts \<Rightarrow> int cmd" where
  "ctx_get E g =
     next_cmd (parse_id_positional ''id'' ''ctx_usage'') (\<lambda>i s.
     next_cmd (fetch_row E (if cli_has_flag ''include_deleted'' s then acta_db_context_get i
                            else acta_db_context_get_live i) ''context get'' ''context'') (\<lambda>c s1.
     case go_raw_out g of
       Some name \<Rightarrow>
         (case raw_out (ctx_values c) 192 ''id, type, content, content_hash, metadata, created_at, deleted_at'' name s1 of
            (code, s2) \<Rightarrow> (Inr code, s2))
     | None \<Rightarrow> (Inr EXIT_OK, row_out g (c_id c) ctx_header (ctx_table c) (ctx_to_json g c) s1)) s)"

definition ctx_query :: "cli \<Rightarrow> context_query_t" where
  "ctx_query s = \<lparr>cq_type = cli_flag ''type'' s, cq_hash = cli_flag ''hash'' s\<rparr>"

definition ctx_counter :: "context_query_t \<Rightarrow> bool \<Rightarrow> db_t \<Rightarrow> int \<times> int option \<times> db_t" where
  "ctx_counter q include_deleted =
     (if include_deleted then acta_db_context_count_with_deleted (Some q) else acta_db_context_count (Some q))"

definition ctx_light_warning :: "cli_opts \<Rightarrow> bool \<Rightarrow> cli \<Rightarrow> cli" where
  "ctx_light_warning g full s =
     (if \<not> full \<and> (case go_fields g of None \<Rightarrow> False | Some fl \<Rightarrow> fields_has fl ''content'')
      then complain (''warning: --fields requests '' @ [CHR 0x27] @ ''content'' @ [CHR 0x27]
             @ '' but context list is light by default; add --full to fetch it'' @ newline) s
      else s)"

definition ctx_list :: "cli_env \<Rightarrow> cli_opts \<Rightarrow> cli \<Rightarrow> (int \<times> cli) option" where
  "ctx_list E g = then_list
     (next_cmd (list_no_id_only g ''context list'' stream_hint) (\<lambda>_. parse_offset_limit ''ctx_usage''))
     (\<lambda>(offset, limit) s0.
        let include_deleted = cli_has_flag ''include_deleted'' s0; full = cli_has_flag ''full'' s0;
            q = ctx_query s0; s = ctx_light_warning g full s0; lst = ctx_list_pick q include_deleted full
        in if go_stream g then stream_out E g ''ctx_usage'' ''context list'' lst (ctx_to_json g) offset limit s
           else if go_count g then Some (count_out E ''context count'' (ctx_counter q include_deleted) s)
           else Some (list_out E g ''context list'' lst ctx_header ctx_table (ctx_to_json g) offset limit s))"

definition ctx_count :: "cli_env \<Rightarrow> int cmd" where
  "ctx_count E s =
     fail_with (count_out E ''context count'' (ctx_counter (ctx_query s) (cli_has_flag ''include_deleted'' s))) s"

definition ctx_delete :: "cli_env \<Rightarrow> int cmd" where
  "ctx_delete E =
     next_cmd (parse_id_positional ''id'' ''ctx_usage'') (\<lambda>i.
     act_on E ''context delete'' (acta_db_context_delete i) emit_deleted)"

definition ctx_restore :: "cli_env \<Rightarrow> cli_opts \<Rightarrow> int cmd" where
  "ctx_restore E g =
     next_cmd (parse_id_positional ''id'' ''ctx_usage'') (\<lambda>i.
     act_on E ''context restore'' (acta_db_context_restore i) (emit_ok_restored g i))"

definition context_actions :: "string list" where
  "context_actions = [''create'', ''get'', ''delete'', ''restore'', ''list'', ''count'', ''help'']"

definition context_help :: "(string \<times> string) list" where
  "context_help =
     [(''create'', ''usage_ctx_create''), (''get'', ''usage_ctx_get''), (''list'', ''usage_ctx_list''),
      (''delete'', ''usage_ctx_delete''), (''restore'', ''usage_ctx_restore''), (''count'', ''usage_ctx_count'')]"

definition cmd_context :: "cli_env \<Rightarrow> cli_opts \<Rightarrow> string \<Rightarrow> cli \<Rightarrow> (int \<times> cli) option" where
  "cmd_context E g action s =
     (if action = ''help'' then Some (run_cmd (help_action ''context'' ''ctx_usage'' context_help context_actions) s)
      else if action = ''create'' then ctx_create E g s
      else if action = ''get'' then Some (run_cmd (ctx_get E g) s)
      else if action = ''list'' then ctx_list E g s
      else if action = ''count'' then Some (run_cmd (ctx_count E) s)
      else if action = ''delete'' then Some (run_cmd (ctx_delete E) s)
      else if action = ''restore'' then Some (run_cmd (ctx_restore E g) s)
      else Some (unknown_action action ''acta_cli context help'' context_actions s))"

end
