(* ===== verification/Cli_Executions.thy ===== *)
theory Cli_Executions
  imports Cli_Rows
begin

text \<open>
  The execution and log commands, \<^verbatim>\<open>acta_cli/src/commands/execution.c\<close> and
  \<^verbatim>\<open>acta_cli/src/commands/execution_log.c\<close>. Help texts carry the entity's name before the
  function's, which several files share.
\<close>

section \<open>An execution on the output\<close>

definition exec_values :: "execution_t \<Rightarrow> (string \<times> field_value) list" where
  "exec_values e =
     [(''id'', Int_field (e_id e)), (''context_id'', Ref_field (e_context_id e)),
      (''skill_revision_id'', Ref_field (e_skill_revision_id e)),
      (''model_revision_id'', Ref_field (e_model_revision_id e)),
      (''raw_response'', Str_field (e_raw_response e)), (''result'', Str_field (e_result e)),
      (''status'', Str_field (e_status e)), (''error'', Str_field (e_error e)),
      (''created_at'', Str_field (e_created_at e)), (''started_at'', Str_field (e_started_at e)),
      (''completed_at'', Str_field (e_completed_at e)),
      (''parent_execution_id'', Ref_field (e_parent_execution_id e)), (''deleted_at'', Str_field (e_deleted_at e))]"

definition exec_to_json :: "cli_opts \<Rightarrow> execution_t \<Rightarrow> string" where
  "exec_to_json g e = json_object g (exec_values e)"

definition exec_header :: string where
  "exec_header = header_line
     [(True, 4, ''ID''), (True, 4, ''CTX''), (False, 10, ''STATUS''), (False, 22, ''STARTED_AT''),
      (False, 22, ''COMPLETED_AT''), (False, 19, ''DELETED_AT'')]"

definition exec_table :: "execution_t \<Rightarrow> string" where
  "exec_table e = int_col 4 (e_id e) @ int_col 4 (e_context_id e) @ tcol (e_status e) 10 @ tcol (e_started_at e) 22
     @ tcol (e_completed_at e) 22 @ tcol (e_deleted_at e) 19 @ newline"

section \<open>create and get\<close>

text \<open>The four references, each an optional integer flag with 0 for absence.\<close>

definition exec_refs :: "string \<Rightarrow> (int \<times> int \<times> int \<times> int) cmd" where
  "exec_refs help =
     next_cmd (parse_nonneg_int_flag ''context_id'' False help) (\<lambda>c.
     next_cmd (parse_nonneg_int_flag ''skill_revision_id'' False help) (\<lambda>sr.
     next_cmd (parse_nonneg_int_flag ''model_revision_id'' False help) (\<lambda>mr.
     next_cmd (parse_nonneg_int_flag ''parent_execution_id'' False help) (\<lambda>p.
     yield (int_or 0 c, int_or 0 sr, int_or 0 mr, int_or 0 p)))))"

definition exec_input :: "cli_env \<Rightarrow> cli_opts \<Rightarrow> execution_t cmd" where
  "exec_input E g = body_or_flags E g (json_parse_execution E) ''exec usage_create''
     (\<lambda>s. next_cmd (exec_refs ''exec usage_create'') (\<lambda>(c, sr, mr, p).
        yield (zero_execution\<lparr>e_status := cli_flag ''status'' s, e_context_id := c, e_skill_revision_id := sr,
                 e_model_revision_id := mr, e_parent_execution_id := p\<rparr>)) s)"

definition exec_create :: "cli_env \<Rightarrow> cli_opts \<Rightarrow> int cmd" where
  "exec_create E g =
     next_cmd (exec_input E g) (\<lambda>e.
     next_cmd (demand (e_context_id e > 0) ''missing required field: context_id'' ''exec usage_create'') (\<lambda>_.
     next_cmd (demand (e_skill_revision_id e > 0) ''missing required field: skill_revision_id''
                 ''exec usage_create'') (\<lambda>_.
     next_cmd (demand (e_model_revision_id e > 0) ''missing required field: model_revision_id''
                 ''exec usage_create'') (\<lambda>_.
     next_cmd (demand (e_status e = None)
                 ([CHR 0x27] @ ''status'' @ [CHR 0x27] @ '' is not accepted by exec create: new executions are always ''
                  @ [CHR 0x27] @ ''pending'' @ [CHR 0x27]) ''exec usage_create'') (\<lambda>_.
     create_row E g ''execution create'' (acta_db_execution_create e))))))"

definition exec_raw_names :: string where
  "exec_raw_names = ''id, context_id, skill_revision_id, model_revision_id, parent_execution_id, raw_response, ''
     @ ''result, status, error, created_at, started_at, completed_at, deleted_at''"

definition exec_get :: "cli_env \<Rightarrow> cli_opts \<Rightarrow> int cmd" where
  "exec_get E g =
     next_cmd (parse_id_positional ''id'' ''exec usage_get'') (\<lambda>i s.
     (case acta_db_execution_get i (cl_db s) of (row, err, d) \<Rightarrow>
        let s1 = s\<lparr>cl_db := d\<rparr> in
        if \<not> cli_has_flag ''include_deleted'' s \<and> (case row of None \<Rightarrow> False | Some e \<Rightarrow> e_deleted_at e \<noteq> None)
        then fail_with (cli_emit_not_found ''execution'') s1
        else next_cmd (load_row_or_notfound E err row ''execution get'' ''execution'') (\<lambda>e s2.
          case go_raw_out g of
            Some name \<Rightarrow> (case raw_out (exec_values e) 256 exec_raw_names name s2 of (code, s3) \<Rightarrow> (Inr code, s3))
          | None \<Rightarrow> (Inr EXIT_OK, row_out g (e_id e) exec_header (exec_table e) (exec_to_json g e) s2)) s1))"

section \<open>Transitions\<close>

definition exec_delete :: "cli_env \<Rightarrow> int cmd" where
  "exec_delete E =
     next_cmd (parse_id_positional ''id'' ''exec usage_delete'') (\<lambda>i.
     act_on E ''execution delete'' (acta_db_execution_delete i) emit_deleted)"

definition exec_restore :: "cli_env \<Rightarrow> cli_opts \<Rightarrow> int cmd" where
  "exec_restore E g =
     next_cmd (parse_id_positional ''id'' ''exec usage_restore'') (\<lambda>i.
     act_on E ''execution restore'' (acta_db_execution_restore i) (emit_ok_restored g i))"

definition exec_start :: "cli_env \<Rightarrow> cli_opts \<Rightarrow> int cmd" where
  "exec_start E g =
     next_cmd (parse_id_positional ''id'' ''exec usage_start'') (\<lambda>i.
     act_on E ''execution start'' (acta_db_execution_start i) (emit_ok_transition g i ''running''))"

definition exec_cancel :: "cli_env \<Rightarrow> cli_opts \<Rightarrow> int cmd" where
  "exec_cancel E g =
     next_cmd (parse_id_positional ''id'' ''exec usage_cancel'') (\<lambda>i.
     act_on E ''execution cancel'' (acta_db_execution_cancel i) (emit_ok_transition g i ''cancelled''))"

text \<open>The result: the flag's value or the content of the file, not both.\<close>

definition exec_result :: "cli_env \<Rightarrow> string option cmd" where
  "exec_result E s =
     (case cli_flag ''result_file'' s of
        None \<Rightarrow> (Inr (cli_flag ''result'' s), s)
      | Some rf \<Rightarrow>
          if cli_flag ''result'' s \<noteq> None
          then reject ''conflicting input sources: --result and --result_file are mutually exclusive''
                 ''exec usage_complete'' s
          else (case read_file_all E rf of
                  None \<Rightarrow> reject ''cannot read result file'' ''exec usage_complete'' s
                | Some t \<Rightarrow> (Inr (Some t), s)))"

definition exec_complete :: "cli_env \<Rightarrow> cli_opts \<Rightarrow> int cmd" where
  "exec_complete E g =
     next_cmd (parse_id_positional ''id'' ''exec usage_complete'') (\<lambda>i.
     next_cmd (exec_result E) (\<lambda>r.
     act_on E ''execution complete'' (acta_db_execution_complete i r) (emit_ok_transition g i ''completed'')))"

definition exec_fail :: "cli_env \<Rightarrow> cli_opts \<Rightarrow> int cmd" where
  "exec_fail E g =
     next_cmd (parse_id_positional ''id'' ''exec usage_fail'') (\<lambda>i s.
     act_on E ''execution fail'' (acta_db_execution_fail i (cli_flag ''error'' s)) (emit_ok_transition g i ''failed'') s)"

definition exec_reset :: "cli_env \<Rightarrow> cli_opts \<Rightarrow> int cmd" where
  "exec_reset E g =
     next_cmd (parse_id_positional ''id'' ''exec usage_reset'') (\<lambda>i.
     act_on E ''execution reset'' (acta_db_execution_reset i) (emit_ok_transition g i ''pending''))"

definition exec_raw :: "cli_env \<Rightarrow> string cmd" where
  "exec_raw E s =
     (case cli_flag ''raw_file'' s of
        Some rf \<Rightarrow>
          if cli_has_flag ''raw'' s
          then reject ''conflicting input sources: --raw and --raw_file are mutually exclusive'' ''exec usage_set_raw'' s
          else (case read_file_all E rf of
                  None \<Rightarrow> reject ''cannot read raw file'' ''exec usage_set_raw'' s
                | Some t \<Rightarrow> (Inr t, s))
      | None \<Rightarrow>
          next_cmd (require_flag ''raw'' ''exec usage_set_raw'') (\<lambda>r.
            case r of None \<Rightarrow> reject ''missing required flag: --raw'' ''exec usage_set_raw'' | Some t \<Rightarrow> yield t) s)"

text \<open>The row is read back for its status; if that fails nothing is printed and the exit code is 0.\<close>

definition echo_status :: "cli_opts \<Rightarrow> int \<Rightarrow> cli \<Rightarrow> cli" where
  "echo_status g i s =
     (case acta_db_execution_get i (cl_db s) of (row, err, d) \<Rightarrow>
        let s1 = s\<lparr>cl_db := d\<rparr> in
        case row of None \<Rightarrow> s1
        | Some e \<Rightarrow> emit_ok_transition g i (case e_status e of None \<Rightarrow> [] | Some st \<Rightarrow> st) s1)"

definition exec_set_raw :: "cli_env \<Rightarrow> cli_opts \<Rightarrow> int cmd" where
  "exec_set_raw E g =
     next_cmd (parse_id_positional ''id'' ''exec usage_set_raw'') (\<lambda>i.
     next_cmd (exec_raw E) (\<lambda>t.
     act_on E ''execution set-raw'' (acta_db_execution_set_raw_response i (Some t)) (echo_status g i)))"

section \<open>list and count\<close>

definition exec_query :: "int \<times> int \<times> int \<times> int \<Rightarrow> cli \<Rightarrow> execution_query_t" where
  "exec_query refs s =
     (case refs of (c, sr, mr, p) \<Rightarrow>
        \<lparr>q_status = cli_flag ''status'' s, q_parent_execution_id = p, q_context_id = c, q_skill_revision_id = sr,
         q_model_revision_id = mr, q_include_deleted = cli_has_flag ''include_deleted'' s\<rparr>)"

definition exec_list_pick :: "execution_query_t \<Rightarrow> bool \<Rightarrow> execution_t lister" where
  "exec_list_pick q full = (if full then acta_db_execution_query (Some q) else acta_db_execution_query_light (Some q))"

definition exec_light_warning :: "cli_opts \<Rightarrow> bool \<Rightarrow> cli \<Rightarrow> cli" where
  "exec_light_warning g full s =
     (if \<not> full \<and> (case go_fields g of None \<Rightarrow> False
                     | Some fl \<Rightarrow> fields_has fl ''raw_response'' \<or> fields_has fl ''result'' \<or> fields_has fl ''error'')
      then complain (''warning: --fields requests raw_response/result/error but exec list is light by default; ''
             @ ''add --full to fetch them'' @ newline) s
      else s)"

definition exec_list :: "cli_env \<Rightarrow> cli_opts \<Rightarrow> cli \<Rightarrow> (int \<times> cli) option" where
  "exec_list E g = then_list
     (next_cmd (list_no_id_only g ''exec list'' stream_hint) (\<lambda>_.
      next_cmd (parse_offset_limit ''exec usage_list'') (\<lambda>ol.
      next_cmd (exec_refs ''exec usage_list'') (\<lambda>refs. yield (ol, refs)))))
     (\<lambda>((offset, limit), refs) s0.
        let full = cli_has_flag ''full'' s0; q = exec_query refs s0; s = exec_light_warning g full s0;
            lst = exec_list_pick q full
        in if go_count g then Some (count_out E ''execution count'' (acta_db_execution_count (Some q)) s)
           else if go_stream g then stream_out E g ''exec_usage'' ''execution list'' lst (exec_to_json g) offset limit s
           else Some (list_out E g ''execution list'' lst exec_header exec_table (exec_to_json g) offset limit s))"

definition exec_count :: "cli_env \<Rightarrow> int cmd" where
  "exec_count E =
     next_cmd (exec_refs ''exec usage_count'') (\<lambda>refs s.
     fail_with (count_out E ''execution count'' (acta_db_execution_count (Some (exec_query refs s)))) s)"

definition exec_actions :: "string list" where
  "exec_actions =
     [''create'', ''get'', ''delete'', ''restore'', ''start'', ''cancel'', ''complete'', ''fail'', ''reset'',
      ''set-raw'', ''list'', ''count'', ''help'']"

definition exec_help :: "(string \<times> string) list" where
  "exec_help =
     [(''create'', ''exec usage_create''), (''get'', ''exec usage_get''), (''delete'', ''exec usage_delete''),
      (''restore'', ''exec usage_restore''), (''start'', ''exec usage_start''), (''cancel'', ''exec usage_cancel''),
      (''complete'', ''exec usage_complete''), (''fail'', ''exec usage_fail''), (''reset'', ''exec usage_reset''),
      (''set-raw'', ''exec usage_set_raw''), (''list'', ''exec usage_list''), (''count'', ''exec usage_count'')]"

definition cmd_exec :: "cli_env \<Rightarrow> cli_opts \<Rightarrow> string \<Rightarrow> cli \<Rightarrow> (int \<times> cli) option" where
  "cmd_exec E g action s =
     (if action = ''help'' then Some (run_cmd (help_action ''exec'' ''exec_usage'' exec_help exec_actions) s)
      else if action = ''create'' then Some (run_cmd (exec_create E g) s)
      else if action = ''get'' then Some (run_cmd (exec_get E g) s)
      else if action = ''delete'' then Some (run_cmd (exec_delete E) s)
      else if action = ''restore'' then Some (run_cmd (exec_restore E g) s)
      else if action = ''start'' then Some (run_cmd (exec_start E g) s)
      else if action = ''cancel'' then Some (run_cmd (exec_cancel E g) s)
      else if action = ''complete'' then Some (run_cmd (exec_complete E g) s)
      else if action = ''fail'' then Some (run_cmd (exec_fail E g) s)
      else if action = ''reset'' then Some (run_cmd (exec_reset E g) s)
      else if action = ''set-raw'' then Some (run_cmd (exec_set_raw E g) s)
      else if action = ''list'' then exec_list E g s
      else if action = ''count'' then Some (run_cmd (exec_count E) s)
      else Some (unknown_action action ''acta_cli exec help'' exec_actions s))"

section \<open>Logs\<close>

definition el_to_json :: "cli_opts \<Rightarrow> execution_log_t \<Rightarrow> string" where
  "el_to_json g c = json_object g
     [(''id'', Int_field (l_id c)), (''execution_id'', Ref_field (l_execution_id c)),
      (''level'', Str_field (l_level c)), (''event'', Str_field (l_event c)), (''message'', Str_field (l_message c)),
      (''metadata'', Str_field (l_metadata c)), (''created_at'', Str_field (l_created_at c))]"

definition el_header :: string where
  "el_header = header_line
     [(True, 4, ''ID''), (True, 10, ''EXEC_ID''), (False, 8, ''LEVEL''), (False, 20, ''EVENT''),
      (False, 38, ''MESSAGE''), (False, 20, ''METADATA''), (False, 19, ''CREATED_AT'')]"

definition el_table :: "execution_log_t \<Rightarrow> string" where
  "el_table c = int_col 4 (l_id c) @ int_col 10 (l_execution_id c) @ tcol (l_level c) 8 @ tcol (l_event c) 20
     @ tcol (l_message c) 38 @ tcol (l_metadata c) 20 @ tcol (l_created_at c) 19 @ newline"

definition valid_level :: "string option \<Rightarrow> bool" where
  "valid_level lvl \<longleftrightarrow> lvl = Some ''debug'' \<or> lvl = Some ''info'' \<or> lvl = Some ''warn'' \<or> lvl = Some ''error''"

definition el_input :: "cli_env \<Rightarrow> cli_opts \<Rightarrow> execution_log_t cmd" where
  "el_input E g = body_or_flags E g (json_parse_execution_log E) ''log usage_create''
     (\<lambda>s. next_cmd (parse_nonneg_int_flag ''execution_id'' True ''log usage_create'') (\<lambda>i.
        yield (zero_log\<lparr>l_execution_id := int_or 0 i, l_level := cli_flag ''level'' s, l_event := cli_flag ''event'' s,
                 l_message := cli_flag ''message'' s, l_metadata := cli_flag ''metadata'' s\<rparr>)) s)"

definition el_create :: "cli_env \<Rightarrow> cli_opts \<Rightarrow> int cmd" where
  "el_create E g =
     next_cmd (el_input E g) (\<lambda>el.
     next_cmd (demand (l_level el \<noteq> None) ''missing required field: level'' ''log usage_create'') (\<lambda>_.
     next_cmd (demand (l_event el \<noteq> None) ''missing required field: event'' ''log usage_create'') (\<lambda>_.
     next_cmd (demand (valid_level (l_level el)) ''level must be one of: debug, info, warn, error''
                 ''log usage_create'') (\<lambda>_.
     next_cmd (demand (l_execution_id el > 0) ''missing required field: execution_id'' ''log usage_create'') (\<lambda>_.
     create_row E g ''execution_log create'' (acta_db_execution_log_create el))))))"

definition el_get :: "cli_env \<Rightarrow> cli_opts \<Rightarrow> int cmd" where
  "el_get E g =
     next_cmd (parse_id_positional ''id'' ''log usage_get'') (\<lambda>i.
     next_cmd (fetch_row E (acta_db_execution_log_get i) ''execution_log get'' ''execution_log'') (\<lambda>c s.
     (Inr EXIT_OK, row_out g (l_id c) el_header (el_table c) (el_to_json g c) s)))"

definition el_list :: "cli_env \<Rightarrow> cli_opts \<Rightarrow> cli \<Rightarrow> (int \<times> cli) option" where
  "el_list E g = then_list
     (next_cmd (list_no_id_only g ''log list'' stream_hint) (\<lambda>_.
      next_cmd (parse_id_positional ''execution_id'' ''log usage_list'') (\<lambda>xid.
      next_cmd (parse_offset_limit ''log usage_list'') (\<lambda>ol. yield (xid, ol)))))
     (\<lambda>(xid, offset, limit) s.
        let level = cli_flag ''level'' s; lst = acta_db_execution_log_list_by_execution xid level
        in if go_count g then Some (count_out E ''execution_log count'' (acta_db_execution_log_count xid level) s)
           else if go_stream g
           then stream_out E g ''execution_log_usage'' ''execution_log list'' lst (el_to_json g) offset limit s
           else Some (list_out E g ''execution_log list'' lst el_header el_table (el_to_json g) offset limit s))"

definition el_count :: "cli_env \<Rightarrow> int cmd" where
  "el_count E =
     next_cmd (parse_id_positional ''execution_id'' ''log usage_count'') (\<lambda>xid s.
     fail_with (count_out E ''execution_log count'' (acta_db_execution_log_count xid (cli_flag ''level'' s))) s)"

definition execution_log_actions :: "string list" where
  "execution_log_actions = [''create'', ''get'', ''list'', ''count'', ''help'']"

definition log_help :: "(string \<times> string) list" where
  "log_help =
     [(''create'', ''log usage_create''), (''get'', ''log usage_get''), (''list'', ''log usage_list''),
      (''count'', ''log usage_count'')]"

definition cmd_execution_log :: "cli_env \<Rightarrow> cli_opts \<Rightarrow> string \<Rightarrow> cli \<Rightarrow> (int \<times> cli) option" where
  "cmd_execution_log E g action s =
     (if action = ''help'' then Some (run_cmd (help_action ''log'' ''execution_log_usage'' log_help execution_log_actions) s)
      else if action = ''create'' then Some (run_cmd (el_create E g) s)
      else if action = ''get'' then Some (run_cmd (el_get E g) s)
      else if action = ''list'' then el_list E g s
      else if action = ''count'' then Some (run_cmd (el_count E) s)
      else Some (unknown_action action ''acta_cli execution_log help'' execution_log_actions s))"

end
