(* ===== verification/Cli_Models.thy ===== *)
theory Cli_Models
  imports Cli_Rows Dialect Model_Revisions Skill_Revisions
begin

text \<open>
  The model and skill commands with their revisions: \<^verbatim>\<open>model.c\<close>,
  \<^verbatim>\<open>model_revision.c\<close>, \<^verbatim>\<open>skill.c\<close> and
  \<^verbatim>\<open>skill_revision.c\<close> of \<^verbatim>\<open>acta_cli/src/commands\<close>. An update is a merge
  of the live row with the fields that were given.
\<close>

section \<open>model\<close>

definition model_to_json :: "cli_opts \<Rightarrow> model_t \<Rightarrow> string" where
  "model_to_json g m = json_object g
     [(''id'', Int_field (m_id m)), (''folder_id'', Root_field (m_folder_id m)), (''name'', Str_field (m_name m)),
      (''description'', Str_field (m_description m)), (''backend'', Str_field (m_backend m)),
      (''base_url'', Str_field (m_base_url m)), (''model_identifier'', Str_field (m_model_identifier m)),
      (''configuration'', Str_field (m_configuration m)), (''created_at'', Str_field (m_created_at m)),
      (''updated_at'', Str_field (m_updated_at m)), (''deleted_at'', Str_field (m_deleted_at m))]"

definition model_header :: string where
  "model_header = header_line
     [(True, 4, ''ID''), (True, 8, ''FOLDER''), (False, 20, ''NAME''), (False, 20, ''DESCRIPTION''),
      (False, 10, ''BACKEND''), (False, 20, ''BASE_URL''), (False, 30, ''MODEL_IDENTIFIER''),
      (False, 19, ''CREATED_AT''), (False, 19, ''DELETED_AT'')]"

definition model_table :: "model_t \<Rightarrow> string" where
  "model_table m = int_col 4 (m_id m) @ int_col 8 (m_folder_id m) @ tcol (m_name m) 20 @ tcol (m_description m) 20
     @ tcol (m_backend m) 10 @ tcol (m_base_url m) 20 @ tcol (m_model_identifier m) 30 @ tcol (m_created_at m) 19
     @ tcol (m_deleted_at m) 19 @ newline"

text \<open>The message if the backend is not one the program knows.\<close>

definition backend_rejected :: "string option \<Rightarrow> string option" where
  "backend_rejected backend =
     (if backend \<noteq> None \<and> dialect_from_string backend \<noteq> DIALECT_UNKNOWN then None
      else Some (snprintf 256 (''invalid backend '' @ [CHR 0x27] @ (case backend of None \<Rightarrow> [] | Some b \<Rightarrow> b)
                  @ [CHR 0x27] @ '' (expected '' @ dialect_expected_names @ '')'')))"

definition demand_backend :: "string option \<Rightarrow> string \<Rightarrow> unit cmd" where
  "demand_backend backend help = (case backend_rejected backend of None \<Rightarrow> yield () | Some msg \<Rightarrow> reject msg help)"

definition model_input :: "cli_env \<Rightarrow> cli_opts \<Rightarrow> model_t cmd" where
  "model_input E g = body_or_flags E g (json_parse_model E) ''model usage_create''
     (\<lambda>s. next_cmd (parse_nonneg_int_flag ''folder_id'' False ''model usage_create'') (\<lambda>f.
        yield (zero_model\<lparr>m_name := cli_flag ''name'' s, m_description := cli_flag ''description'' s,
                 m_backend := cli_flag ''backend'' s, m_base_url := cli_flag ''base_url'' s,
                 m_model_identifier := cli_flag ''model_identifier'' s,
                 m_configuration := cli_flag ''configuration'' s, m_folder_id := int_or 0 f\<rparr>)) s)"

definition mo_create :: "cli_env \<Rightarrow> cli_opts \<Rightarrow> int cmd" where
  "mo_create E g =
     next_cmd (model_input E g) (\<lambda>m.
     next_cmd (demand (m_name m \<noteq> None) ''missing required field: name'' ''model usage_create'') (\<lambda>_.
     next_cmd (demand (m_name m \<noteq> Some [])
                 (''field '' @ [CHR 0x27] @ ''name'' @ [CHR 0x27] @ '' must not be empty'') ''model usage_create'') (\<lambda>_.
     next_cmd (demand (m_backend m \<noteq> None) ''missing required field: backend'' ''model usage_create'') (\<lambda>_.
     next_cmd (demand_backend (m_backend m) ''model usage_create'') (\<lambda>_.
     next_cmd (demand (m_model_identifier m \<noteq> None) ''missing required field: model_identifier''
                 ''model usage_create'') (\<lambda>_.
     create_row E g ''model create'' (acta_db_model_create m)))))))"

definition mo_get :: "cli_env \<Rightarrow> cli_opts \<Rightarrow> int cmd" where
  "mo_get E g =
     next_cmd (parse_id_positional ''id'' ''model usage_get'') (\<lambda>i s.
     next_cmd (fetch_row E (if cli_has_flag ''include_deleted'' s then acta_db_model_get i else acta_db_model_get_live i)
                 ''model get'' ''model'') (\<lambda>m s1.
     (Inr EXIT_OK, row_out g (m_id m) model_header (model_table m) (model_to_json g m) s1)) s)"

text \<open>What update was given, and the merge.\<close>

record model_patch =
  mp_name :: "string option"
  mp_folder_id :: "int option"
  mp_description :: "string option"
  mp_backend :: "string option"
  mp_base_url :: "string option"
  mp_model_identifier :: "string option"
  mp_configuration :: "string option"

definition given :: "'a option \<Rightarrow> 'a option \<Rightarrow> 'a option" where
  "given new old = (case new of None \<Rightarrow> old | Some v \<Rightarrow> Some v)"

definition model_merge :: "model_t \<Rightarrow> model_patch \<Rightarrow> model_t" where
  "model_merge cur p =
     cur\<lparr>m_name := given (mp_name p) (m_name cur), m_folder_id := int_or (m_folder_id cur) (mp_folder_id p),
         m_description := given (mp_description p) (m_description cur),
         m_backend := given (mp_backend p) (m_backend cur), m_base_url := given (mp_base_url p) (m_base_url cur),
         m_model_identifier := given (mp_model_identifier p) (m_model_identifier cur),
         m_configuration := given (mp_configuration p) (m_configuration cur)\<rparr>"

definition model_patch_given :: "model_patch \<Rightarrow> bool" where
  "model_patch_given p \<longleftrightarrow> mp_name p \<noteq> None \<or> mp_description p \<noteq> None \<or> mp_backend p \<noteq> None \<or> mp_base_url p \<noteq> None
     \<or> mp_model_identifier p \<noteq> None \<or> mp_configuration p \<noteq> None \<or> mp_folder_id p \<noteq> None"

definition model_patch_flags :: "model_patch cmd" where
  "model_patch_flags =
     next_cmd (require_flag ''name'' ''model usage_update'') (\<lambda>name.
     next_cmd (parse_nonneg_int_flag ''folder_id'' False ''model usage_update'') (\<lambda>folder s.
     (Inr \<lparr>mp_name = name, mp_folder_id = folder, mp_description = cli_flag ''description'' s,
           mp_backend = cli_flag ''backend'' s, mp_base_url = cli_flag ''base_url'' s,
           mp_model_identifier = cli_flag ''model_identifier'' s,
           mp_configuration = cli_flag ''configuration'' s\<rparr>, s)))"

definition mo_update :: "cli_env \<Rightarrow> cli_opts \<Rightarrow> int cmd" where
  "mo_update E g =
     next_cmd (parse_id_positional ''id'' ''model usage_update'') (\<lambda>i.
     next_cmd model_patch_flags (\<lambda>p.
     next_cmd (demand (model_patch_given p) ''at least one field required for update'' ''model usage_update'') (\<lambda>_.
     next_cmd (if mp_backend p \<noteq> None then demand_backend (mp_backend p) ''model usage_update'' else yield ()) (\<lambda>_.
     next_cmd (fetch_row E (acta_db_model_get_live i) ''model update'' ''model'') (\<lambda>cur.
     act_on E ''model update'' (acta_db_model_update (model_merge cur p)) (emit_ok_id g i))))))"

definition mo_delete :: "cli_env \<Rightarrow> int cmd" where
  "mo_delete E =
     next_cmd (parse_id_positional ''id'' ''model usage_delete'') (\<lambda>i.
     act_on E ''model delete'' (acta_db_model_soft_delete i) emit_deleted)"

definition mo_restore :: "cli_env \<Rightarrow> cli_opts \<Rightarrow> int cmd" where
  "mo_restore E g =
     next_cmd (parse_id_positional ''id'' ''model usage_restore'') (\<lambda>i.
     act_on E ''model restore'' (acta_db_model_restore i) (emit_ok_restored g i))"

definition mo_move :: "cli_env \<Rightarrow> cli_opts \<Rightarrow> int cmd" where
  "mo_move E g =
     next_cmd (parse_id_positional ''id'' ''model usage_move'') (\<lambda>i.
     next_cmd (parse_nonneg_int_flag ''folder_id'' True ''model usage_move'') (\<lambda>f.
     act_on E ''model move'' (acta_db_model_move_to_folder i (int_or 0 f)) (emit_ok_folder g i (int_or 0 f))))"

text \<open>The lister and the counter by folder and \<^verbatim>\<open>--include_deleted\<close>.\<close>

definition mo_lister :: "int option \<Rightarrow> bool \<Rightarrow> model_t lister" where
  "mo_lister folder include_deleted =
     (case folder of
        Some f \<Rightarrow> if include_deleted then acta_db_model_list_in_folder_with_deleted f else acta_db_model_list_in_folder f
      | None \<Rightarrow> if include_deleted then acta_db_model_list_all_with_deleted else acta_db_model_list_all)"

definition mo_counter :: "int option \<Rightarrow> bool \<Rightarrow> db_t \<Rightarrow> int \<times> int option \<times> db_t" where
  "mo_counter folder include_deleted =
     (case folder of
        Some f \<Rightarrow> if include_deleted then acta_db_model_count_in_folder_with_deleted f
                  else acta_db_model_count_in_folder f
      | None \<Rightarrow> if include_deleted then acta_db_model_count_all_with_deleted else acta_db_model_count_all)"

definition mo_list :: "cli_env \<Rightarrow> cli_opts \<Rightarrow> cli \<Rightarrow> (int \<times> cli) option" where
  "mo_list E g = then_list
     (next_cmd (list_no_id_only g ''model list'' stream_hint) (\<lambda>_.
      next_cmd (parse_nonneg_int_flag ''folder_id'' False ''model usage_list'') (\<lambda>folder.
      next_cmd (parse_offset_limit ''model usage_list'') (\<lambda>ol. yield (folder, ol)))))
     (\<lambda>(folder, offset, limit) s.
        let include_deleted = cli_has_flag ''include_deleted'' s; lst = mo_lister folder include_deleted
        in if go_count g then Some (count_out E ''model count'' (mo_counter folder include_deleted) s)
           else if go_stream g then stream_out E g ''model_usage'' ''model list'' lst (model_to_json g) offset limit s
           else Some (list_out E g ''model list'' lst model_header model_table (model_to_json g) offset limit s))"

definition mo_count :: "cli_env \<Rightarrow> int cmd" where
  "mo_count E =
     next_cmd (parse_nonneg_int_flag ''folder_id'' False ''model usage_count'') (\<lambda>folder s.
     fail_with (count_out E ''model count'' (mo_counter folder (cli_has_flag ''include_deleted'' s))) s)"

definition model_actions :: "string list" where
  "model_actions =
     [''create'', ''get'', ''update'', ''delete'', ''restore'', ''move'', ''list'', ''count'', ''help'']"

definition model_help :: "(string \<times> string) list" where
  "model_help =
     [(''create'', ''model usage_create''), (''get'', ''model usage_get''), (''update'', ''model usage_update''),
      (''delete'', ''model usage_delete''), (''restore'', ''model usage_restore''), (''move'', ''model usage_move''),
      (''list'', ''model usage_list''), (''count'', ''model usage_count'')]"

definition cmd_model :: "cli_env \<Rightarrow> cli_opts \<Rightarrow> string \<Rightarrow> cli \<Rightarrow> (int \<times> cli) option" where
  "cmd_model E g action s =
     (if action = ''help'' then Some (run_cmd (help_action ''model'' ''model_usage'' model_help model_actions) s)
      else if action = ''create'' then Some (run_cmd (mo_create E g) s)
      else if action = ''get'' then Some (run_cmd (mo_get E g) s)
      else if action = ''update'' then Some (run_cmd (mo_update E g) s)
      else if action = ''delete'' then Some (run_cmd (mo_delete E) s)
      else if action = ''restore'' then Some (run_cmd (mo_restore E g) s)
      else if action = ''move'' then Some (run_cmd (mo_move E g) s)
      else if action = ''list'' then mo_list E g s
      else if action = ''count'' then Some (run_cmd (mo_count E) s)
      else Some (unknown_action action ''acta_cli model help'' model_actions s))"

section \<open>model_revision\<close>

definition rev_to_json :: "cli_opts \<Rightarrow> model_revision_t \<Rightarrow> string" where
  "rev_to_json g r = json_object g
     [(''id'', Int_field (mvr_id r)), (''model_id'', Ref_field (mvr_model_id r)),
      (''revision'', Ref_field (mvr_revision r)), (''folder_id'', Ref_field (mvr_folder_id r)),
      (''name'', Str_field (mvr_name r)), (''description'', Str_field (mvr_description r)),
      (''backend'', Str_field (mvr_backend r)), (''base_url'', Str_field (mvr_base_url r)),
      (''model_identifier'', Str_field (mvr_model_identifier r)),
      (''configuration'', Str_field (mvr_configuration r)), (''created_at'', Str_field (mvr_created_at r)),
      (''updated_at'', Str_field (mvr_updated_at r)), (''deleted_at'', Str_field (mvr_deleted_at r))]"

definition rev_header :: string where
  "rev_header = header_line
     [(True, 4, ''ID''), (True, 8, ''MODEL''), (True, 8, ''REV''), (True, 7, ''FOLDER''), (False, 20, ''NAME''),
      (False, 10, ''BACKEND''), (False, 30, ''MODEL_IDENTIFIER''), (False, 19, ''CREATED_AT'')]"

definition rev_table :: "model_revision_t \<Rightarrow> string" where
  "rev_table r = int_col 4 (mvr_id r) @ int_col 8 (mvr_model_id r) @ int_col 8 (mvr_revision r)
     @ int_col 7 (mvr_folder_id r) @ tcol (mvr_name r) 20 @ tcol (mvr_backend r) 10
     @ tcol (mvr_model_identifier r) 30 @ tcol (mvr_created_at r) 19 @ newline"

definition rev_list_pick :: "int \<Rightarrow> bool \<Rightarrow> model_revision_t lister" where
  "rev_list_pick model_id include_deleted =
     (if include_deleted then acta_db_model_revision_list_by_model_with_deleted model_id
      else acta_db_model_revision_list_by_model model_id)"

definition rev_count_pick :: "int \<Rightarrow> bool \<Rightarrow> db_t \<Rightarrow> int \<times> int option \<times> db_t" where
  "rev_count_pick model_id include_deleted =
     (if include_deleted then acta_db_model_revision_count_with_deleted model_id
      else acta_db_model_revision_count model_id)"

definition rev_get :: "cli_env \<Rightarrow> cli_opts \<Rightarrow> int cmd" where
  "rev_get E g =
     next_cmd (parse_id_positional ''id'' ''model_revision usage_get'') (\<lambda>i.
     next_cmd (fetch_row E (acta_db_model_revision_get i) ''model_revision get'' ''model_revision'') (\<lambda>r s.
     (Inr EXIT_OK, row_out g (mvr_id r) rev_header (rev_table r) (rev_to_json g r) s)))"

definition rev_get_latest :: "cli_env \<Rightarrow> cli_opts \<Rightarrow> int cmd" where
  "rev_get_latest E g =
     next_cmd (parse_id_positional ''model_id'' ''model_revision usage_get_latest'') (\<lambda>i.
     next_cmd (fetch_row E (acta_db_model_revision_get_latest i) ''model_revision latest'' ''model_revision'') (\<lambda>r s.
     (Inr EXIT_OK, row_out g (mvr_id r) rev_header (rev_table r) (rev_to_json g r) s)))"

definition rev_list :: "cli_env \<Rightarrow> cli_opts \<Rightarrow> cli \<Rightarrow> (int \<times> cli) option" where
  "rev_list E g = then_list
     (next_cmd (list_no_id_only g ''model_revision list'' stream_hint) (\<lambda>_.
      next_cmd (parse_id_positional ''model_id'' ''model_revision usage_list'') (\<lambda>i.
      next_cmd (parse_offset_limit ''model_revision usage_list'') (\<lambda>ol. yield (i, ol)))))
     (\<lambda>(i, offset, limit) s.
        let include_deleted = cli_has_flag ''include_deleted'' s; lst = rev_list_pick i include_deleted
        in if go_count g then Some (count_out E ''model_revision count'' (rev_count_pick i include_deleted) s)
           else if go_stream g
           then stream_out E g ''model_revision_usage'' ''model_revision list'' lst (rev_to_json g) offset limit s
           else Some (list_out E g ''model_revision list'' lst rev_header rev_table (rev_to_json g) offset limit s))"

definition rev_count :: "cli_env \<Rightarrow> int cmd" where
  "rev_count E =
     next_cmd (parse_id_positional ''model_id'' ''model_revision usage_count'') (\<lambda>i s.
     fail_with (count_out E ''model_revision count'' (rev_count_pick i (cli_has_flag ''include_deleted'' s))) s)"

definition model_revision_actions :: "string list" where
  "model_revision_actions = [''get'', ''get-latest'', ''list'', ''count'', ''help'']"

definition model_revision_help :: "(string \<times> string) list" where
  "model_revision_help =
     [(''get'', ''model_revision usage_get''), (''get-latest'', ''model_revision usage_get_latest''),
      (''list'', ''model_revision usage_list''), (''count'', ''model_revision usage_count'')]"

definition cmd_model_revision :: "cli_env \<Rightarrow> cli_opts \<Rightarrow> string \<Rightarrow> cli \<Rightarrow> (int \<times> cli) option" where
  "cmd_model_revision E g action s =
     (if action = ''help''
      then Some (run_cmd (help_action ''model_revision'' ''model_revision_usage'' model_revision_help
                  model_revision_actions) s)
      else if action = ''get'' then Some (run_cmd (rev_get E g) s)
      else if action = ''get-latest'' then Some (run_cmd (rev_get_latest E g) s)
      else if action = ''list'' then rev_list E g s
      else if action = ''count'' then Some (run_cmd (rev_count E) s)
      else Some (unknown_action action ''acta_cli model_revision help'' model_revision_actions s))"

end
