(* ===== verification/Cli_Skills.thy ===== *)
theory Cli_Skills
  imports Cli_Models
begin

text \<open>
  The skill commands, \<^verbatim>\<open>acta_cli/src/commands/skill.c\<close> and
  \<^verbatim>\<open>acta_cli/src/commands/skill_revision.c\<close>. Unlike a model, a skill can be updated
  from a JSON body, and its list has a switch \<^verbatim>\<open>--all\<close>.
\<close>

section \<open>skill\<close>

definition skill_to_json :: "cli_opts \<Rightarrow> skill_t \<Rightarrow> string" where
  "skill_to_json g s = json_object g
     [(''id'', Int_field (s_id s)), (''folder_id'', Root_field (s_folder_id s)), (''name'', Str_field (s_name s)),
      (''description'', Str_field (s_description s)), (''prompt_template'', Str_field (s_prompt_template s)),
      (''output_schema'', Str_field (s_output_schema s)), (''created_at'', Str_field (s_created_at s)),
      (''updated_at'', Str_field (s_updated_at s)), (''deleted_at'', Str_field (s_deleted_at s))]"

definition skill_header :: string where
  "skill_header = header_line
     [(True, 4, ''ID''), (True, 10, ''FOLDER_ID''), (False, 20, ''NAME''), (False, 38, ''DESCRIPTION''),
      (False, 20, ''PROMPT_TEMPLATE''), (False, 19, ''CREATED_AT''), (False, 19, ''UPDATED_AT'')]"

definition skill_table :: "skill_t \<Rightarrow> string" where
  "skill_table s = int_col 4 (s_id s) @ root_col 10 (s_folder_id s) @ tcol (s_name s) 20 @ tcol (s_description s) 38
     @ tcol (s_prompt_template s) 20 @ tcol (s_created_at s) 19 @ tcol (s_updated_at s) 19 @ newline"

definition skill_input :: "cli_env \<Rightarrow> cli_opts \<Rightarrow> skill_t cmd" where
  "skill_input E g = body_or_flags E g (json_parse_skill E) ''skill usage_create''
     (\<lambda>s. next_cmd (parse_nonneg_int_flag ''folder_id'' False ''skill usage_create'') (\<lambda>f.
        yield (zero_skill\<lparr>s_name := cli_flag ''name'' s, s_prompt_template := cli_flag ''prompt_template'' s,
                 s_description := cli_flag ''description'' s, s_output_schema := cli_flag ''output_schema'' s,
                 s_folder_id := int_or 0 f\<rparr>)) s)"

definition sk_create :: "cli_env \<Rightarrow> cli_opts \<Rightarrow> int cmd" where
  "sk_create E g =
     next_cmd (skill_input E g) (\<lambda>k.
     next_cmd (demand (named (s_name k)) ''missing required field: name'' ''skill usage_create'') (\<lambda>_.
     next_cmd (demand (named (s_prompt_template k)) ''missing required field: prompt_template''
                 ''skill usage_create'') (\<lambda>_.
     create_row E g ''skill create''
       (acta_db_skill_create (if s_folder_id k < 0 then k\<lparr>s_folder_id := 0\<rparr> else k)))))"

definition sk_get :: "cli_env \<Rightarrow> cli_opts \<Rightarrow> int cmd" where
  "sk_get E g =
     next_cmd (parse_id_positional ''id'' ''skill usage_get'') (\<lambda>i s.
     next_cmd (fetch_row E (if cli_has_flag ''include_deleted'' s then acta_db_skill_get i else acta_db_skill_get_live i)
                 ''skill get'' ''skill'') (\<lambda>k s1.
     (Inr EXIT_OK, row_out g (s_id k) skill_header (skill_table k) (skill_to_json g k) s1)) s)"

text \<open>
  update: in flag mode the tests on the flags come before the row is read, in JSON mode the body is read
  after it. A patch gives the new values; a folder 0 in a body means no folder was given.
\<close>

record skill_patch =
  sp_name :: "string option"
  sp_prompt_template :: "string option"
  sp_description :: "string option"
  sp_output_schema :: "string option"
  sp_folder_id :: "int option"

definition skill_merge :: "skill_t \<Rightarrow> skill_patch \<Rightarrow> skill_t" where
  "skill_merge cur p =
     cur\<lparr>s_name := given (sp_name p) (s_name cur), s_prompt_template := given (sp_prompt_template p) (s_prompt_template cur),
         s_description := given (sp_description p) (s_description cur),
         s_output_schema := given (sp_output_schema p) (s_output_schema cur),
         s_folder_id := int_or (s_folder_id cur) (sp_folder_id p)\<rparr>"

definition json_mode :: "cli_opts \<Rightarrow> bool" where
  "json_mode g \<longleftrightarrow> go_json_input g \<noteq> None \<or> go_from_stdin g \<or> go_from_file g \<noteq> None"

definition skill_patch_flags :: "cli_opts \<Rightarrow> skill_patch cmd" where
  "skill_patch_flags g s =
     (let p = \<lparr>sp_name = cli_flag ''name'' s, sp_prompt_template = cli_flag ''prompt_template'' s,
               sp_description = cli_flag ''description'' s, sp_output_schema = cli_flag ''output_schema'' s,
               sp_folder_id = None\<rparr>
      in if json_mode g then (Inr p, s)
         else if sp_name p = None \<and> sp_prompt_template p = None \<and> sp_description p = None \<and> sp_output_schema p = None
                 \<and> cli_flag ''folder_id'' s = None
         then reject ''at least one field required for update'' ''skill usage_update'' s
         else if sp_name p = Some [] then reject ''--name must not be empty'' ''skill usage_update'' s
         else next_cmd (parse_nonneg_int_flag ''folder_id'' False ''skill usage_update'')
                (\<lambda>f. yield (p\<lparr>sp_folder_id := f\<rparr>)) s)"

definition skill_patch_body :: "cli_env \<Rightarrow> cli_opts \<Rightarrow> skill_patch \<Rightarrow> skill_patch cmd" where
  "skill_patch_body E g flags s =
     (case resolve_input_source E g s of
        (Inl _, s1) \<Rightarrow> (Inl EXIT_INVALID, usage ''skill usage_update'' s1)
      | (Inr None, s1) \<Rightarrow> (Inr flags, s1)
      | (Inr (Some blob), s1) \<Rightarrow>
          (case json_parse_skill E blob of
             None \<Rightarrow> reject ''invalid JSON body'' ''skill usage_update'' s1
           | Some k \<Rightarrow>
               if s_name k = None \<and> s_prompt_template k = None \<and> s_description k = None \<and> s_output_schema k = None
                  \<and> s_folder_id k \<le> 0
               then reject ''at least one field required in JSON body'' ''skill usage_update'' s1
               else (Inr \<lparr>sp_name = s_name k, sp_prompt_template = s_prompt_template k,
                          sp_description = s_description k, sp_output_schema = s_output_schema k,
                          sp_folder_id = (if s_folder_id k > 0 then Some (s_folder_id k) else None)\<rparr>, s1)))"

definition sk_update :: "cli_env \<Rightarrow> cli_opts \<Rightarrow> int cmd" where
  "sk_update E g =
     next_cmd (parse_id_positional ''id'' ''skill usage_update'') (\<lambda>i.
     next_cmd (skill_patch_flags g) (\<lambda>flags.
     next_cmd (fetch_row E (acta_db_skill_get_live i) ''skill update'' ''skill'') (\<lambda>cur.
     next_cmd (skill_patch_body E g flags) (\<lambda>p.
     next_cmd (demand (named (s_name (skill_merge cur p))) ''name must not be empty'' ''skill usage_update'') (\<lambda>_.
     next_cmd (demand (named (s_prompt_template (skill_merge cur p))) ''prompt_template must not be empty''
                 ''skill usage_update'') (\<lambda>_.
     act_on E ''skill update'' (acta_db_skill_update (skill_merge cur p)) (emit_ok_id g i)))))))"

definition sk_delete :: "cli_env \<Rightarrow> int cmd" where
  "sk_delete E =
     next_cmd (parse_id_positional ''id'' ''skill usage_delete'') (\<lambda>i.
     act_on E ''skill delete'' (acta_db_skill_soft_delete i) emit_deleted)"

definition sk_restore :: "cli_env \<Rightarrow> cli_opts \<Rightarrow> int cmd" where
  "sk_restore E g =
     next_cmd (parse_id_positional ''id'' ''skill usage_restore'') (\<lambda>i.
     act_on E ''skill restore'' (acta_db_skill_restore i) (emit_ok_restored g i))"

definition sk_move :: "cli_env \<Rightarrow> cli_opts \<Rightarrow> int cmd" where
  "sk_move E g =
     next_cmd (parse_id_positional ''skill_id'' ''skill usage_move'') (\<lambda>i.
     next_cmd (parse_nonneg_int_flag ''folder_id'' True ''skill usage_move'') (\<lambda>f.
     act_on E ''skill move'' (acta_db_skill_move_to_folder i (int_or 0 f)) (emit_ok_folder g i (int_or 0 f))))"

text \<open>The folder filter: \<^verbatim>\<open>--all\<close> overrides \<^verbatim>\<open>--folder_id\<close>.\<close>

definition sk_scope :: "int option \<Rightarrow> cli \<Rightarrow> int option" where
  "sk_scope folder s = (if cli_has_flag ''all'' s then None else folder)"

definition sk_lister :: "int option \<Rightarrow> bool \<Rightarrow> skill_t lister" where
  "sk_lister folder include_deleted =
     (case folder of
        Some f \<Rightarrow> if include_deleted then acta_db_skill_list_in_folder_with_deleted f else acta_db_skill_list_in_folder f
      | None \<Rightarrow> if include_deleted then acta_db_skill_list_all_with_deleted else acta_db_skill_list_all)"

definition sk_counter :: "int option \<Rightarrow> bool \<Rightarrow> db_t \<Rightarrow> int \<times> int option \<times> db_t" where
  "sk_counter folder include_deleted =
     (case folder of
        Some f \<Rightarrow> if include_deleted then acta_db_skill_count_in_folder_with_deleted f
                  else acta_db_skill_count_in_folder f
      | None \<Rightarrow> if include_deleted then acta_db_skill_count_all_with_deleted else acta_db_skill_count_all)"

definition sk_list :: "cli_env \<Rightarrow> cli_opts \<Rightarrow> cli \<Rightarrow> (int \<times> cli) option" where
  "sk_list E g = then_list
     (next_cmd (list_no_id_only g ''skill list'' stream_hint) (\<lambda>_.
      next_cmd (parse_nonneg_int_flag ''folder_id'' False ''skill usage_list'') (\<lambda>folder.
      next_cmd (parse_offset_limit ''skill usage_list'') (\<lambda>ol. yield (folder, ol)))))
     (\<lambda>(folder, offset, limit) s.
        let include_deleted = cli_has_flag ''include_deleted'' s; scope = sk_scope folder s;
            lst = sk_lister scope include_deleted
        in if go_count g then Some (count_out E ''skill count'' (sk_counter scope include_deleted) s)
           else if go_stream g then stream_out E g ''skill_usage'' ''skill list'' lst (skill_to_json g) offset limit s
           else Some (list_out E g ''skill list'' lst skill_header skill_table (skill_to_json g) offset limit s))"

definition sk_count :: "cli_env \<Rightarrow> int cmd" where
  "sk_count E =
     next_cmd (parse_nonneg_int_flag ''folder_id'' False ''skill usage_count'') (\<lambda>folder s.
     fail_with (count_out E ''skill count'' (sk_counter (sk_scope folder s) (cli_has_flag ''include_deleted'' s))) s)"

definition skill_actions :: "string list" where
  "skill_actions =
     [''create'', ''get'', ''update'', ''delete'', ''restore'', ''move'', ''list'', ''count'', ''help'']"

definition skill_help :: "(string \<times> string) list" where
  "skill_help =
     [(''create'', ''skill usage_create''), (''get'', ''skill usage_get''), (''update'', ''skill usage_update''),
      (''delete'', ''skill usage_delete''), (''restore'', ''skill usage_restore''), (''move'', ''skill usage_move''),
      (''list'', ''skill usage_list''), (''count'', ''skill usage_count'')]"

definition cmd_skill :: "cli_env \<Rightarrow> cli_opts \<Rightarrow> string \<Rightarrow> cli \<Rightarrow> (int \<times> cli) option" where
  "cmd_skill E g action s =
     (if action = ''help'' then Some (run_cmd (help_action ''skill'' ''skill_usage'' skill_help skill_actions) s)
      else if action = ''create'' then Some (run_cmd (sk_create E g) s)
      else if action = ''get'' then Some (run_cmd (sk_get E g) s)
      else if action = ''update'' then Some (run_cmd (sk_update E g) s)
      else if action = ''delete'' then Some (run_cmd (sk_delete E) s)
      else if action = ''restore'' then Some (run_cmd (sk_restore E g) s)
      else if action = ''move'' then Some (run_cmd (sk_move E g) s)
      else if action = ''list'' then sk_list E g s
      else if action = ''count'' then Some (run_cmd (sk_count E) s)
      else Some (unknown_action action ''acta_cli skill help'' skill_actions s))"

section \<open>skill_revision\<close>

definition sr_to_json :: "cli_opts \<Rightarrow> skill_revision_t \<Rightarrow> string" where
  "sr_to_json g r = json_object g
     [(''id'', Int_field (svr_id r)), (''skill_id'', Ref_field (svr_skill_id r)),
      (''revision'', Ref_field (svr_revision r)), (''folder_id'', Ref_field (svr_folder_id r)),
      (''name'', Str_field (svr_name r)), (''description'', Str_field (svr_description r)),
      (''prompt_template'', Str_field (svr_prompt_template r)), (''output_schema'', Str_field (svr_output_schema r)),
      (''created_at'', Str_field (svr_created_at r)), (''updated_at'', Str_field (svr_updated_at r)),
      (''deleted_at'', Str_field (svr_deleted_at r))]"

definition sr_header :: string where
  "sr_header = header_line
     [(True, 4, ''ID''), (True, 8, ''SKILL''), (True, 8, ''REV''), (True, 8, ''FOLDER''), (False, 20, ''NAME''),
      (False, 30, ''DESCRIPTION''), (False, 19, ''CREATED_AT''), (False, 19, ''UPDATED_AT''), (False, 19, ''DELETED_AT'')]"

definition sr_table :: "skill_revision_t \<Rightarrow> string" where
  "sr_table r = int_col 4 (svr_id r) @ int_col 8 (svr_skill_id r) @ int_col 8 (svr_revision r)
     @ int_col 8 (svr_folder_id r) @ tcol (svr_name r) 20 @ tcol (svr_description r) 30
     @ tcol (svr_created_at r) 19 @ tcol (svr_updated_at r) 19 @ tcol (svr_deleted_at r) 19 @ newline"

definition sr_get :: "cli_env \<Rightarrow> cli_opts \<Rightarrow> int cmd" where
  "sr_get E g =
     next_cmd (parse_id_positional ''id'' ''usage_sr_get'') (\<lambda>i.
     next_cmd (fetch_row E (acta_db_skill_revision_get i) ''skill_revision get'' ''skill_revision'') (\<lambda>r s.
     (Inr EXIT_OK, row_out g (svr_id r) sr_header (sr_table r) (sr_to_json g r) s)))"

definition sr_get_latest :: "cli_env \<Rightarrow> cli_opts \<Rightarrow> int cmd" where
  "sr_get_latest E g =
     next_cmd (parse_id_positional ''skill_id'' ''usage_sr_latest'') (\<lambda>i.
     next_cmd (fetch_row E (acta_db_skill_revision_get_latest i) ''skill_revision latest'' ''skill_revision'') (\<lambda>r s.
     (Inr EXIT_OK, row_out g (svr_id r) sr_header (sr_table r) (sr_to_json g r) s)))"

text \<open>The list has no pager: \<^verbatim>\<open>--stream\<close> is not looked at.\<close>

definition sr_list :: "cli_env \<Rightarrow> cli_opts \<Rightarrow> int cmd" where
  "sr_list E g =
     next_cmd (list_no_id_only g ''skill_revision list'' ''--count, or --table'') (\<lambda>_.
     next_cmd (parse_id_positional ''skill_id'' ''usage_sr_list'') (\<lambda>i.
     next_cmd (parse_offset_limit ''usage_sr_list'') (\<lambda>(offset, limit).
     if go_count g then fail_with (count_out E ''skill_revision count'' (acta_db_skill_revision_count i))
     else fail_with (list_out E g ''skill_revision list'' (acta_db_skill_revision_list_by_skill i) sr_header sr_table
                       (sr_to_json g) offset limit))))"

definition sr_count :: "cli_env \<Rightarrow> int cmd" where
  "sr_count E =
     next_cmd (parse_id_positional ''skill_id'' ''usage_sr_count'') (\<lambda>i.
     fail_with (count_out E ''skill_revision count'' (acta_db_skill_revision_count i)))"

definition skill_rev_actions :: "string list" where
  "skill_rev_actions = [''get'', ''get-latest'', ''list'', ''count'', ''help'']"

definition skill_revision_help :: "(string \<times> string) list" where
  "skill_revision_help =
     [(''get'', ''usage_sr_get''), (''get-latest'', ''usage_sr_latest''), (''list'', ''usage_sr_list''),
      (''count'', ''usage_sr_count'')]"

definition cmd_skill_rev :: "cli_env \<Rightarrow> cli_opts \<Rightarrow> string \<Rightarrow> cli \<Rightarrow> (int \<times> cli) option" where
  "cmd_skill_rev E g action s =
     (if action = ''help''
      then Some (run_cmd (help_action ''skill_revision'' ''skill_rev_usage'' skill_revision_help skill_rev_actions) s)
      else if action = ''get'' then Some (run_cmd (sr_get E g) s)
      else if action = ''get-latest'' then Some (run_cmd (sr_get_latest E g) s)
      else if action = ''list'' then Some (run_cmd (sr_list E g) s)
      else if action = ''count'' then Some (run_cmd (sr_count E) s)
      else Some (unknown_action action ''acta_cli skill_revision help'' skill_rev_actions s))"

end
