(* ===== verification/Cli_Streams.thy ===== *)
theory Cli_Streams
  imports Cli_Frame Cli_Folders Cli_Contexts Cli_Executions Cli_Models Cli_Skills
begin

text \<open>
  The pager of \<^verbatim>\<open>--stream\<close> over any lister. What it relies on is the locale \<open>lister\<close>: a
  page leaves the tables alone and is a stretch of the rows from the offset on, and without engine faults
  it is the whole page. Inside, the pager is shown to end and to print what was asked for; the listers of
  the library are shown to be instances.
\<close>

lemma shorter_rest:
  assumes "items = take k (drop a xs)" "items \<noteq> []"
  shows "length (drop (a + length items) xs) < length (drop a xs)"
proof -
  have "0 < length items" "length items \<le> length (drop a xs)" using assms by auto
  then show ?thesis unfolding length_drop by linarith
qed

lemma nat_further: "0 \<le> a \<Longrightarrow> 0 \<le> b \<Longrightarrow> nat (a + (b + int n)) = nat (a + b) + n"
  by simp

text \<open>The rows as lines of output.\<close>

definition lines_of :: "('r \<Rightarrow> string) \<Rightarrow> 'r list \<Rightarrow> chunk list" where
  "lines_of json rs = map (\<lambda>r. Txt (json r @ newline)) rs"

locale lister =
  fixes lst :: "'r lister" and all_rows :: "store \<Rightarrow> 'r list" and page_size :: "int \<Rightarrow> int"
  assumes reads: "lst offset limit d = (items, n, err, d') \<Longrightarrow> store d' = store d"
    and part: "lst offset limit d = (items, n, err, d') \<Longrightarrow> \<exists>k. items = take k (drop (nat offset) (all_rows (store d)))"
    and full: "lst offset limit d = (items, n, err, d') \<Longrightarrow> healthy d \<Longrightarrow> 0 \<le> offset \<Longrightarrow> int_or ACTA_DB_OK err = ACTA_DB_OK
      \<Longrightarrow> items = sql_page (page_size limit) offset (all_rows (store d)) \<and> healthy d'"
    and size_not_0: "page_size limit \<noteq> 0"
    and size_limit: "0 < limit \<Longrightarrow> 0 < page_size limit \<and> page_size limit \<le> limit"
begin

lemma lister_reads: "reads3 lst"
  unfolding reads3_def using reads by blast

lemma ask_part:
  assumes "ask_rows lst offset limit s = (items, err, s1)"
  shows "\<exists>k. items = take k (drop (nat offset) (all_rows (store (cl_db s))))" "store (cl_db s1) = store (cl_db s)"
    and "cl_out s1 = cl_out s"
  using assms part reads by (auto simp: ask_rows_def split: prod.splits)

lemma ask_full:
  assumes "ask_rows lst offset limit s = (items, 0, s1)" "healthy (cl_db s)" "0 \<le> offset"
  shows "items = sql_page (page_size limit) offset (all_rows (store (cl_db s)))" "healthy (cl_db s1)"
  using assms full by (auto simp: ask_rows_def split: prod.splits)

lemma stream_step:
  assumes "ask_rows lst (offset + emitted) (stream_want limit emitted) s = (items, err, s1)"
  shows "stream_pages E op lst json offset limit emitted s
    = (if err \<noteq> 0 then Some (cli_finish_op_error E err op s1)
       else if stream_done limit (emitted + int (length items)) (int (length items)) (stream_want limit emitted)
       then Some (0, say_lines json items s1)
       else stream_pages E op lst json offset limit (emitted + int (length items)) (say_lines json items s1))"
  by (subst stream_pages.simps) (simp add: assms Let_def)

lemma op_error_code: "(0, s') = cli_finish_op_error E err op s1 \<Longrightarrow> err = 0"
  by (auto simp: cli_finish_op_error_def cli_finish_db_error_def map_rc_to_exit_def Let_def split: if_splits)

section \<open>Termination\<close>

theorem stream_ends:
  "0 \<le> offset \<Longrightarrow> 0 \<le> emitted \<Longrightarrow> \<exists>r. stream_pages E op lst json offset limit emitted s = Some r"
proof (induction "length (drop (nat (offset + emitted)) (all_rows (store (cl_db s))))" arbitrary: emitted s
    rule: less_induct)
  case less
  obtain items err s1 where a: "ask_rows lst (offset + emitted) (stream_want limit emitted) s = (items, err, s1)"
    by (cases "ask_rows lst (offset + emitted) (stream_want limit emitted) s")
  let ?n = "int (length items)" and ?s2 = "say_lines json items s1"
  show ?case
  proof (cases "err \<noteq> 0 \<or> stream_done limit (emitted + ?n) ?n (stream_want limit emitted)")
    case True
    then show ?thesis unfolding stream_step [OF a] by auto
  next
    case False
    obtain k where k: "items = take k (drop (nat (offset + emitted)) (all_rows (store (cl_db s))))"
      using ask_part(1) [OF a] by blast
    have st: "store (cl_db ?s2) = store (cl_db s)" using ask_part(2) [OF a] by (simp add: say_lines_def)
    have "items \<noteq> []" using False by (auto simp: stream_done_def)
    then have "length (drop (nat (offset + (emitted + ?n))) (all_rows (store (cl_db ?s2))))
        < length (drop (nat (offset + emitted)) (all_rows (store (cl_db s))))"
      unfolding st nat_further [OF less.prems] using k by (intro shorter_rest)
    from less.hyps [OF this] less.prems
    obtain r where "stream_pages E op lst json offset limit (emitted + ?n) ?s2 = Some r" by auto
    then show ?thesis using False unfolding stream_step [OF a] by auto
  qed
qed

section \<open>What is printed\<close>

theorem stream_stretch:
  "0 \<le> offset \<Longrightarrow> 0 \<le> emitted \<Longrightarrow> stream_pages E op lst json offset limit emitted s = Some (code, s') \<Longrightarrow>
     \<exists>k. cl_out s' = cl_out s @ lines_of json (take k (drop (nat (offset + emitted)) (all_rows (store (cl_db s)))))"
proof (induction "length (drop (nat (offset + emitted)) (all_rows (store (cl_db s))))" arbitrary: emitted s
    rule: less_induct)
  case less
  obtain items err s1 where a: "ask_rows lst (offset + emitted) (stream_want limit emitted) s = (items, err, s1)"
    by (cases "ask_rows lst (offset + emitted) (stream_want limit emitted) s")
  let ?n = "int (length items)" and ?s2 = "say_lines json items s1"
  let ?rest = "drop (nat (offset + emitted)) (all_rows (store (cl_db s)))"
  obtain k where k: "items = take k ?rest" using ask_part(1) [OF a] by blast
  have o2: "cl_out ?s2 = cl_out s @ lines_of json items"
    using ask_part(3) [OF a] by (simp add: say_lines_def lines_of_def)
  consider "err \<noteq> 0" | "err = 0" "stream_done limit (emitted + ?n) ?n (stream_want limit emitted)"
    | "err = 0" "\<not> stream_done limit (emitted + ?n) ?n (stream_want limit emitted)" by blast
  then show ?case
  proof cases
    case 1
    then have "(code, s') = cli_finish_op_error E err op s1"
      using less.prems(3) unfolding stream_step [OF a] by simp
    then have "cl_out s' = cl_out s1"
      by (auto simp: cli_finish_op_error_def cli_finish_db_error_def complain_def Let_def)
    then show ?thesis using ask_part(3) [OF a] by (auto simp: lines_of_def intro: exI [of _ 0])
  next
    case 2
    then have "s' = ?s2" using less.prems(3) unfolding stream_step [OF a] by simp
    then show ?thesis using o2 k by auto
  next
    case 3
    then have r: "stream_pages E op lst json offset limit (emitted + ?n) ?s2 = Some (code, s')"
      using less.prems(3) unfolding stream_step [OF a] by simp
    have st: "store (cl_db ?s2) = store (cl_db s)" using ask_part(2) [OF a] by (simp add: say_lines_def)
    have "items \<noteq> []" using 3 by (auto simp: stream_done_def)
    then have sm: "length (drop (nat (offset + (emitted + ?n))) (all_rows (store (cl_db ?s2)))) < length ?rest"
      unfolding st nat_further [OF less.prems(1,2)] using k by (intro shorter_rest)
    obtain j where j: "cl_out s' = cl_out ?s2
        @ lines_of json (take j (drop (nat (offset + (emitted + ?n))) (all_rows (store (cl_db s)))))"
      using less.hyps [OF sm _ _ r] less.prems st by auto
    have d: "drop (nat (offset + (emitted + ?n))) (all_rows (store (cl_db s))) = drop (length items) ?rest"
      unfolding nat_further [OF less.prems(1,2)] by (simp add: add.commute)
    have t: "items = take (length items) ?rest" using k by (metis append_eq_conv_conj append_take_drop_id)
    have "items @ take j (drop (length items) ?rest) = take (length items + j) ?rest"
      using t by (metis take_add)
    then show ?thesis using j o2 d by (metis append.assoc lines_of_def map_append)
  qed
qed

text \<open>
  Without faults a limit is served by one page, and no limit by pages until an empty one.
\<close>

lemma stream_limited:
  assumes "healthy (cl_db s)" "0 \<le> offset" "0 < limit"
    and "stream_pages E op lst json offset limit 0 s = Some (0, s')"
  shows "cl_out s' = cl_out s @ lines_of json (sql_page (page_size limit) offset (all_rows (store (cl_db s))))"
proof -
  obtain items err s1 where a: "ask_rows lst offset limit s = (items, err, s1)"
    by (cases "ask_rows lst offset limit s")
  have a0: "ask_rows lst (offset + 0) (stream_want limit 0) s = (items, err, s1)"
    using a assms(3) by (simp add: stream_want_def)
  have err: "err = 0"
    using assms(4) unfolding stream_step [OF a0] by (auto split: if_splits dest: op_error_code [OF sym])
  note items = ask_full [OF a [unfolded err] assms(1,2)]
  have "length items \<le> nat limit"
    using size_limit [OF assms(3)] unfolding items(1) by (auto simp: sql_page_def Let_def)
  then have fin: "stream_done limit (0 + int (length items)) (int (length items)) (stream_want limit 0)"
    using assms(3) by (auto simp: stream_done_def stream_want_def)
  have "s' = say_lines json items s1"
    using assms(4) fin unfolding stream_step [OF a0] by (simp add: err)
  then show ?thesis using ask_part(3) [OF a] items(1) by (simp add: say_lines_def lines_of_def)
qed

lemma stream_unlimited:
  "healthy (cl_db s) \<Longrightarrow> 0 \<le> offset \<Longrightarrow> 0 \<le> emitted \<Longrightarrow>
     stream_pages E op lst json offset 0 emitted s = Some (0, s') \<Longrightarrow>
     cl_out s' = cl_out s @ lines_of json (drop (nat (offset + emitted)) (all_rows (store (cl_db s))))"
proof (induction "length (drop (nat (offset + emitted)) (all_rows (store (cl_db s))))" arbitrary: emitted s
    rule: less_induct)
  case less
  let ?rest = "drop (nat (offset + emitted)) (all_rows (store (cl_db s)))"
  obtain items err s1 where a: "ask_rows lst (offset + emitted) (stream_want 0 emitted) s = (items, err, s1)"
    by (cases "ask_rows lst (offset + emitted) (stream_want 0 emitted) s")
  let ?n = "int (length items)" and ?s2 = "say_lines json items s1"
  have err: "err = 0"
    using less.prems(4) unfolding stream_step [OF a] by (auto split: if_splits dest: op_error_code [OF sym])
  have "0 \<le> offset + emitted" using less.prems by simp
  note items = ask_full [OF a [unfolded err] less.prems(1) this]
  have pg: "items = sql_page (page_size 0) (offset + emitted) (all_rows (store (cl_db s)))"
    using items(1) by (simp add: stream_want_def)
  have o2: "cl_out ?s2 = cl_out s @ lines_of json items"
    using ask_part(3) [OF a] by (simp add: say_lines_def lines_of_def)
  show ?case
  proof (cases "items = []")
    case True
    then have "s' = ?s2"
      using less.prems(4) unfolding stream_step [OF a] by (simp add: err stream_done_def)
    moreover have "?rest = []"
      using pg True size_not_0 [of 0] by (auto simp: sql_page_def Let_def split: if_splits)
    ultimately show ?thesis using o2 True by (simp add: lines_of_def)
  next
    case False
    then have r: "stream_pages E op lst json offset 0 (emitted + ?n) ?s2 = Some (0, s')"
      using less.prems(4) unfolding stream_step [OF a] by (simp add: err stream_done_def stream_want_def)
    have st: "store (cl_db ?s2) = store (cl_db s)" using ask_part(2) [OF a] by (simp add: say_lines_def)
    have h: "healthy (cl_db ?s2)" using items(2) by (simp add: say_lines_def)
    obtain k where k: "items = take k ?rest" using ask_part(1) [OF a] by blast
    have sm: "length (drop (nat (offset + (emitted + ?n))) (all_rows (store (cl_db ?s2)))) < length ?rest"
      unfolding st nat_further [OF less.prems(2,3)] using k False by (intro shorter_rest)
    have "cl_out s' = cl_out ?s2 @ lines_of json (drop (nat (offset + (emitted + ?n))) (all_rows (store (cl_db s))))"
      using less.hyps [OF sm h less.prems(2) _ r] less.prems(3) st by auto
    moreover have "drop (nat (offset + (emitted + ?n))) (all_rows (store (cl_db s))) = drop (length items) ?rest"
      unfolding nat_further [OF less.prems(2,3)] by (simp add: add.commute)
    moreover have "items = take (length items) ?rest" using k by (metis append_eq_conv_conj append_take_drop_id)
    ultimately show ?thesis using o2 by (metis append.assoc append_take_drop_id lines_of_def map_append)
  qed
qed

end

section \<open>The listers of the library\<close>

definition page_of ::
  "'r list \<times> int option \<times> int option \<times> db_t \<Rightarrow> db_t \<Rightarrow> 'r list \<Rightarrow> int \<Rightarrow> int \<Rightarrow> bool" where
  "page_of res d whole sz offset \<longleftrightarrow>
     (case res of (items, n, err, d') \<Rightarrow>
        store d' = store d \<and> (\<exists>k. items = take k (drop (nat offset) whole))
        \<and> (healthy d \<longrightarrow> int_or 0 err = 0 \<longrightarrow> items = sql_page sz offset whole \<and> healthy d'))"

lemma lister_of_pages:
  assumes "\<And>offset limit d. page_of (lst offset limit d) d (f (store d)) (sz limit) offset"
    and "\<And>limit. sz limit \<noteq> 0" "\<And>limit. 0 < limit \<Longrightarrow> 0 < sz limit \<and> sz limit \<le> limit"
  shows "lister lst f sz"
proof
  fix offset limit d items n err d'
  assume *: "lst offset limit d = (items, n, err, d')"
  note p = assms(1) [of offset limit d, unfolded page_of_def *, simplified]
  show "store d' = store d" "\<exists>k. items = take k (drop (nat offset) (f (store d)))" using p by auto
  show "items = sql_page (sz limit) offset (f (store d)) \<and> healthy d'"
    if "healthy d" "int_or 0 err = 0" using p that by auto
qed (use assms in auto)

lemma page_refused: "err \<noteq> 0 \<Longrightarrow> page_of ([], n, Some err, d) d whole sz offset"
  by (auto simp: page_of_def int_or_def intro: exI [of _ 0])

text \<open>The read every lister makes, and its decoding; \<open>strict\<close> tells if the last code of the scan is tested.\<close>

lemma page_read:
  assumes q: "q = (\<lambda>st. sql_page sz offset (f st))" and w: "whole = map dec (f (store d))" and n: "n1 \<noteq> 0" "n2 \<noteq> 0" "n3 \<noteq> 0"
  shows "page_of (case sql_read q d of
           (Unreadable, d1) \<Rightarrow> ([], c1, Some n1, d1)
         | (Fetched rs rc oom, d1) \<Rightarrow>
             (case collect_loop dec oom rs [] of
                None \<Rightarrow> ([], c2, Some n2, d1)
              | Some items \<Rightarrow> if strict \<and> rc \<noteq> SQLITE_DONE then ([], c3, Some n3, d1)
                              else (items, Some (int (length items)), Some 0, d1)))
         d whole sz offset"
proof (cases "sql_read q d")
  case (Pair res d1)
  note st = sql_read_store [OF Pair]
  show ?thesis
  proof (cases res)
    case Unreadable
    then show ?thesis using Pair st n by (auto simp: page_of_def int_or_def intro: exI [of _ 0])
  next
    case (Fetched rs rc oom)
    obtain k where k: "rs = take k (sql_page sz offset (f (store d)))"
      using sql_read_rows [OF Pair [unfolded Fetched]] unfolding q by blast
    have m: "map dec (sql_page sz offset xs) = sql_page sz offset (map dec xs)" for xs
      by (simp add: sql_page_def Let_def take_map drop_map)
    have e: "\<exists>j. map dec rs = take j (drop (nat offset) (map dec (f (store d))))"
      using k by (cases "sz < 0") (auto simp: sql_page_def Let_def take_map drop_map take_take)
    have h: "rs = sql_page sz offset (f (store d)) \<and> healthy d1" if "healthy d"
      using Pair Fetched that by (auto simp: sql_read_healthy q)
    show ?thesis
      using Pair Fetched st n e h m collect_loop_result [of dec oom rs]
      by (auto simp: page_of_def int_or_def w split: option.split intro: exI [of _ 0])
  qed
qed

lemma scan_tests: "(True \<and> b) = b" "(if False \<and> b then x else y) = y"
  by simp_all

lemma page_read_strict:
  assumes "q = (\<lambda>st. sql_page sz offset (f st))" "whole = map dec (f (store d))" "n1 \<noteq> 0" "n2 \<noteq> 0" "n3 \<noteq> 0"
  shows "page_of (case sql_read q d of
           (Unreadable, d1) \<Rightarrow> ([], c1, Some n1, d1)
         | (Fetched rs rc oom, d1) \<Rightarrow>
             (case collect_loop dec oom rs [] of
                None \<Rightarrow> ([], c2, Some n2, d1)
              | Some items \<Rightarrow> if rc \<noteq> SQLITE_DONE then ([], c3, Some n3, d1)
                              else (items, Some (int (length items)), Some 0, d1)))
         d whole sz offset"
  using page_read [OF assms, where strict = True and ?c1.0 = c1 and ?c2.0 = c2 and ?c3.0 = c3] unfolding scan_tests .

lemma page_read_loose:
  assumes "q = (\<lambda>st. sql_page sz offset (f st))" "whole = map dec (f (store d))" "n1 \<noteq> 0" "n2 \<noteq> 0"
  shows "page_of (case sql_read q d of
           (Unreadable, d1) \<Rightarrow> ([], c1, Some n1, d1)
         | (Fetched rs rc oom, d1) \<Rightarrow>
             (case collect_loop dec oom rs [] of
                None \<Rightarrow> ([], c2, Some n2, d1)
              | Some items \<Rightarrow> (items, Some (int (length items)), Some 0, d1)))
         d whole sz offset"
  using page_read [OF assms, where strict = False and ?c1.0 = c1 and ?c2.0 = c2 and ?c3.0 = None and ?n3.0 = 1] unfolding scan_tests by simp

text \<open>The rows behind each lister.\<close>

definition sf_rows :: "int option \<Rightarrow> store \<Rightarrow> folder_t list" where
  "sf_rows parent st = map row_to_folder (sort_key fo_id
     (filter (case parent of Some p \<Rightarrow> folder_selected p True False | None \<Rightarrow> folder_selected 0 False False)
        (rows (skill_folders st))))"

definition mf_rows :: "int option \<Rightarrow> store \<Rightarrow> folder_t list" where
  "mf_rows parent st = map row_to_folder (sort_key fo_id
     (filter (case parent of Some p \<Rightarrow> folder_selected p True False | None \<Rightarrow> (\<lambda>r. fo_deleted_at r = None))
        (rows (model_folders st))))"

definition unclamped :: "int \<Rightarrow> int" where
  "unclamped limit = (if limit > 0 then limit else - 1)"

lemma unclamped_sizes: "unclamped limit \<noteq> 0" "0 < limit \<Longrightarrow> 0 < unclamped limit \<and> unclamped limit \<le> limit"
  by (auto simp: unclamped_def)

lemma clamp_sizes: "db_clamp_limit limit \<noteq> 0" "0 < limit \<Longrightarrow> 0 < db_clamp_limit limit \<and> db_clamp_limit limit \<le> limit"
  by (auto simp: db_clamp_limit_def)

lemma folder_page:
  "0 \<le> offset \<Longrightarrow> (\<lambda>st. let rs = f st in if limit > 0 \<or> offset > 0
            then sql_page (if limit > 0 then limit else - 1) offset rs else rs)
       = (\<lambda>st. sql_page (unclamped limit) offset (f st))"
  by (auto simp: Let_def sql_page_def unclamped_def fun_eq_iff)

lemma skill_folder_list_page:
  assumes "0 \<le> offset"
  shows "page_of (skill_folder_list p hp inc offset limit d) d
    (map row_to_folder (sort_key fo_id (filter (folder_selected p hp inc) (rows (skill_folders (store d))))))
    (unclamped limit) offset"
proof (cases "folder_query_sql p hp inc offset limit = None")
  case True
  then show ?thesis by (simp add: skill_folder_list_def page_refused)
next
  case False
  show ?thesis
    unfolding skill_folder_list_def if_not_P [OF False] by (rule page_read_strict [OF folder_page [OF assms] refl]) simp_all
qed

lemma sf_page: "page_of (sf_lister parent offset limit d) d (sf_rows parent (store d)) (unclamped limit) offset"
  unfolding sf_lister_def sf_rows_def acta_db_skill_folder_list_children_def acta_db_skill_folder_list_all_def
  by (auto intro!: page_refused skill_folder_list_page split: option.split)

lemma mf_page: "page_of (mf_lister parent offset limit d) d (mf_rows parent (store d)) (db_clamp_limit limit) offset"
  unfolding mf_lister_def mf_rows_def acta_db_model_folder_list_children_def acta_db_model_folder_list_all_def
    model_folder_list_def
  by (auto intro!: page_refused page_read_loose [OF refl refl] split: option.split)

interpretation sf: lister "sf_lister parent" "sf_rows parent" unclamped
  by (rule lister_of_pages [OF sf_page unclamped_sizes])

interpretation mf: lister "mf_lister parent" "mf_rows parent" db_clamp_limit
  by (rule lister_of_pages [OF mf_page clamp_sizes])

definition ctx_rows :: "context_query_t \<Rightarrow> bool \<Rightarrow> bool \<Rightarrow> store \<Rightarrow> context_t list" where
  "ctx_rows q include_deleted full st = map (row_to_context (\<not> full)) (sort_key cx_id
     (filter (context_matches (Some q) (\<not> include_deleted)) (rows (contexts st))))"

definition exec_rows :: "execution_query_t \<Rightarrow> bool \<Rightarrow> store \<Rightarrow> execution_t list" where
  "exec_rows q full st = map (if full then row_to_execution else row_to_execution_light) (sort_key ex_id
     (filter (exec_matches q) (rows (executions st))))"

definition el_rows :: "int \<Rightarrow> string option \<Rightarrow> store \<Rightarrow> execution_log_t list" where
  "el_rows xid level st = map row_to_execution_log (sort_key log_order
     (filter (log_selected xid level) (rows (execution_logs st))))"

definition in_scope :: "('r \<Rightarrow> int option) \<Rightarrow> ('r \<Rightarrow> string option) \<Rightarrow> int option \<Rightarrow> bool \<Rightarrow> 'r \<Rightarrow> bool" where
  "in_scope folder_of deleted_of folder include_deleted r \<longleftrightarrow>
     (case folder of None \<Rightarrow> True | Some f \<Rightarrow> folder_of r = bind_parent f) \<and> (include_deleted \<or> deleted_of r = None)"

definition mo_rows :: "int option \<Rightarrow> bool \<Rightarrow> store \<Rightarrow> model_t list" where
  "mo_rows folder include_deleted st = map row_to_model (sort_key mo_id
     (filter (in_scope mo_folder_id mo_deleted_at folder include_deleted) (rows (models st))))"

definition sk_rows :: "int option \<Rightarrow> bool \<Rightarrow> store \<Rightarrow> skill_t list" where
  "sk_rows folder include_deleted st = map row_to_skill (sort_key sk_id
     (filter (in_scope sk_folder_id sk_deleted_at folder include_deleted) (rows (skills st))))"

definition rev_rows :: "int \<Rightarrow> bool \<Rightarrow> store \<Rightarrow> model_revision_t list" where
  "rev_rows model_id include_deleted st = map row_to_model_revision (sort_key mr_revision
     (filter (\<lambda>r. mr_model_id r = model_id \<and> (include_deleted \<or> mr_deleted_at r = None)) (rows (model_revisions st))))"

lemma ctx_page:
  "page_of (ctx_list_pick q inc full offset limit d) d (ctx_rows q inc full (store d)) (db_clamp_limit limit) offset"
  by (cases inc; cases full)
    (auto simp: ctx_list_pick_def ctx_rows_def acta_db_context_query_def acta_db_context_query_light_def
      acta_db_context_query_with_deleted_def acta_db_context_query_with_deleted_light_def context_query_impl_def Let_def
      intro!: page_refused page_read_loose [OF refl refl])

lemma exec_page:
  "page_of (exec_list_pick q full offset limit d) d (exec_rows q full (store d)) (db_clamp_limit limit) offset"
  by (cases full)
    (auto simp: exec_list_pick_def exec_rows_def acta_db_execution_query_def acta_db_execution_query_light_def
      execution_query_impl_def Let_def intro!: page_refused page_read_loose [OF refl refl] split: option.split)

lemma el_page:
  "page_of (acta_db_execution_log_list_by_execution xid level offset limit d) d (el_rows xid level (store d))
     (db_clamp_limit limit) offset"
  by (auto simp: acta_db_execution_log_list_by_execution_def el_rows_def Let_def
      intro!: page_refused page_read_loose [OF refl refl])

lemma model_list_page:
  "page_of (model_list sel offset limit d) d (map row_to_model (sort_key mo_id (filter sel (rows (models (store d))))))
     (db_clamp_limit limit) offset"
  by (auto simp: model_list_def intro!: page_refused page_read_loose [OF refl refl])

lemma skill_list_page:
  "page_of (skill_list sel offset limit d) d (map row_to_skill (sort_key sk_id (filter sel (rows (skills (store d))))))
     (db_clamp_limit limit) offset"
  by (auto simp: skill_list_def intro!: page_refused page_read_loose [OF refl refl])

lemma mo_lister_eq: "mo_lister folder inc = model_list (in_scope mo_folder_id mo_deleted_at folder inc)"
proof -
  have sc: "in_scope mo_folder_id mo_deleted_at folder inc
    = (\<lambda>r. (case folder of None \<Rightarrow> True | Some f \<Rightarrow> mo_folder_id r = bind_parent f) \<and> (inc \<or> mo_deleted_at r = None))"
    by (simp add: in_scope_def fun_eq_iff)
  show ?thesis
    unfolding sc by (cases folder; cases inc)
      (simp_all add: mo_lister_def fun_eq_iff acta_db_model_list_in_folder_with_deleted_def
        acta_db_model_list_in_folder_def acta_db_model_list_all_with_deleted_def acta_db_model_list_all_def)
qed

lemma mo_page:
  "page_of (mo_lister folder inc offset limit d) d (mo_rows folder inc (store d)) (db_clamp_limit limit) offset"
  unfolding mo_lister_eq mo_rows_def by (rule model_list_page)

lemma sk_lister_eq: "sk_lister folder inc = skill_list (in_scope sk_folder_id sk_deleted_at folder inc)"
proof -
  have sc: "in_scope sk_folder_id sk_deleted_at folder inc
    = (\<lambda>r. (case folder of None \<Rightarrow> True | Some f \<Rightarrow> sk_folder_id r = bind_parent f) \<and> (inc \<or> sk_deleted_at r = None))"
    by (simp add: in_scope_def fun_eq_iff)
  show ?thesis
    unfolding sc by (cases folder; cases inc)
      (simp_all add: sk_lister_def fun_eq_iff acta_db_skill_list_in_folder_with_deleted_def
        acta_db_skill_list_in_folder_def acta_db_skill_list_all_with_deleted_def acta_db_skill_list_all_def)
qed

lemma sk_page:
  "page_of (sk_lister folder inc offset limit d) d (sk_rows folder inc (store d)) (db_clamp_limit limit) offset"
  unfolding sk_lister_eq sk_rows_def by (rule skill_list_page)

lemma rev_page:
  "page_of (rev_list_pick model_id inc offset limit d) d (rev_rows model_id inc (store d)) (db_clamp_limit limit) offset"
  by (cases inc)
    (auto simp: rev_list_pick_def rev_rows_def acta_db_model_revision_list_by_model_def
      acta_db_model_revision_list_by_model_with_deleted_def rev_list_run_def
      intro!: page_refused page_read_strict [OF refl refl])

interpretation ctx: lister "ctx_list_pick q inc full" "ctx_rows q inc full" db_clamp_limit
  by (rule lister_of_pages [OF ctx_page clamp_sizes])

interpretation exec: lister "exec_list_pick eq full" "exec_rows eq full" db_clamp_limit
  by (rule lister_of_pages [OF exec_page clamp_sizes])

interpretation el: lister "acta_db_execution_log_list_by_execution xid level" "el_rows xid level" db_clamp_limit
  by (rule lister_of_pages [OF el_page clamp_sizes])

interpretation mo: lister "mo_lister folder inc" "mo_rows folder inc" db_clamp_limit
  by (rule lister_of_pages [OF mo_page clamp_sizes])

interpretation sk: lister "sk_lister folder inc" "sk_rows folder inc" db_clamp_limit
  by (rule lister_of_pages [OF sk_page clamp_sizes])

interpretation rev: lister "rev_list_pick model_id inc" "rev_rows model_id inc" db_clamp_limit
  by (rule lister_of_pages [OF rev_page clamp_sizes])

end
