(* ===== verification/Cli_Readers.thy ===== *)
theory Cli_Readers
  imports Cli_Streams
begin

text \<open>
  The library calls behind get, list and count leave the database as it is.
\<close>

named_theorems readers

lemmas read_splits = if_splits prod.splits read_result.splits list.splits option.splits

lemma reads_get [readers]:
  "reads2 (acta_db_context_get i)" "reads2 (acta_db_context_get_live i)"
  "reads2 (acta_db_execution_log_get i)" "reads2 (acta_db_execution_get i)"
  "reads2 (acta_db_model_folder_get i)" "reads2 (acta_db_skill_folder_get i)"
  by (auto simp: reads2_def acta_db_context_get_def acta_db_context_get_live_def acta_db_execution_log_get_def
      acta_db_execution_get_def acta_db_model_folder_get_def acta_db_skill_folder_get_def
      split: read_splits dest!: sql_read_store)

lemma reads_get_skills [readers]:
  "reads2 (acta_db_skill_get i)" "reads2 (acta_db_skill_get_live i)"
  "reads2 (acta_db_skill_revision_get i)" "reads2 (acta_db_skill_revision_get_latest i)"
  by (auto simp: reads2_def acta_db_skill_get_def acta_db_skill_get_live_def acta_db_skill_revision_get_def
      acta_db_skill_revision_get_latest_def skill_revision_fetch_def skill_fetch_def
      split: read_splits dest!: sql_read_store)

lemma reads_get_models [readers]:
  "reads2 (acta_db_model_get i)" "reads2 (acta_db_model_get_live i)"
  "reads2 (acta_db_model_revision_get i)" "reads2 (acta_db_model_revision_get_latest i)"
  by (auto simp: reads2_def acta_db_model_get_def acta_db_model_get_live_def acta_db_model_revision_get_def
      acta_db_model_revision_get_latest_def model_revision_fetch_def model_fetch_def
      split: read_splits dest!: sql_read_store)

lemma sql_count_reads: "sql_count q d = (n, err, d') \<Longrightarrow> store d' = store d"
  by (auto simp: sql_count_def split: read_splits dest!: sql_read_store)

lemma reads_count [readers]:
  "reads2 (mf_counter parent)" "reads2 (sf_counter parent)" "reads2 (mo_counter folder inc)" "reads2 (sk_counter folder inc)"
  by (auto simp: reads2_def mf_counter_def sf_counter_def mo_counter_def sk_counter_def
      acta_db_model_folder_count_children_def acta_db_model_folder_count_all_def model_folder_count_def
      acta_db_skill_folder_count_children_def acta_db_skill_folder_count_all_def
      acta_db_model_count_in_folder_with_deleted_def acta_db_model_count_in_folder_def
      acta_db_model_count_all_with_deleted_def acta_db_model_count_all_def
      acta_db_skill_count_in_folder_with_deleted_def acta_db_skill_count_in_folder_def
      acta_db_skill_count_all_with_deleted_def acta_db_skill_count_all_def
      split: read_splits dest!: sql_count_reads sql_read_store)

lemma reads_count_rows [readers]:
  "reads2 (ctx_counter q inc)" "reads2 (acta_db_execution_count eq)" "reads2 (acta_db_execution_log_count xid level)"
  "reads2 (rev_count_pick i inc)" "reads2 (acta_db_skill_revision_count i)"
  by (auto simp: reads2_def ctx_counter_def acta_db_context_count_def acta_db_context_count_with_deleted_def
      acta_db_execution_count_def acta_db_execution_log_count_def rev_count_pick_def acta_db_model_revision_count_def
      acta_db_model_revision_count_with_deleted_def rev_count_run_def acta_db_skill_revision_count_def Let_def
      split: read_splits dest!: sql_read_store)

lemma reads_skill_revisions: "reads3 (acta_db_skill_revision_list_by_skill i)"
  by (auto simp: reads3_def acta_db_skill_revision_list_by_skill_def split: read_splits dest!: sql_read_store)

lemmas reads_lists [readers] = sf.lister_reads mf.lister_reads ctx.lister_reads exec.lister_reads el.lister_reads mo.lister_reads sk.lister_reads rev.lister_reads
  reads_skill_revisions

end
