(* ===== verification/Cli_Handlers.thy ===== *)
theory Cli_Handlers
  imports Cli_Readers
begin

text \<open>
  Every action of every entity, under the rules of \<open>Cli_Frame\<close>: get, list, count and help leave the
  database untouched, the others change it by library steps only.
\<close>

lemma frame_if: "(b \<Longrightarrow> P x) \<Longrightarrow> (\<not> b \<Longrightarrow> P y) \<Longrightarrow> P (if b then x else y)"
  by simp

section \<open>Actions that read\<close>

lemma untouched_mf [frame_rules]:
  "ended untouched s (mf_get E g s)" "if_ended untouched s (mf_list E g s)" "ended untouched s (mf_count E s)"
  unfolding mf_get_def mf_list_def mf_list_args_def mf_count_def
  by (auto intro!: frame_rules readers printing simp: Let_def)

lemma fine_sf_parent [frame_rules]: "fine untouched s (sf_parent help s)"
  unfolding sf_parent_def by (auto intro!: frame_rules split: option.split)

lemma untouched_sf [frame_rules]:
  "ended untouched s (sf_get E g s)" "if_ended untouched s (sf_list E g s)" "ended untouched s (sf_count E s)"
  unfolding sf_get_def sf_list_def sf_list_args_def sf_count_def
  by (auto intro!: frame_rules readers printing simp: Let_def)

lemma prints_ctx_warning [printing]: "prints s t \<Longrightarrow> prints s (ctx_light_warning g full t)"
  and prints_exec_warning [printing]: "prints s t \<Longrightarrow> prints s (exec_light_warning g full t)"
  by (auto simp: ctx_light_warning_def exec_light_warning_def intro!: printing)

lemma if_ended_after: "prints s t \<Longrightarrow> if_ended untouched t x \<Longrightarrow> if_ended untouched s x"
  by (auto simp: if_ended_def dest!: keep.printed intro: keep.finished_after)

lemma ended_raw: "prints s t \<Longrightarrow>
    ended untouched s (case raw_out fs sz supported name t of (code, u) \<Rightarrow> (Inr code, u))"
  by (intro keep.ended_pair keep.finished_raw)

lemma untouched_ctx_get [frame_rules]: "ended untouched s (ctx_get E g s)"
  unfolding ctx_get_def
  by (auto intro!: frame_rules ended_raw readers printing simp: Let_def split: option.split)

lemma untouched_ctx_count [frame_rules]: "ended untouched s (ctx_count E s)"
  unfolding ctx_count_def by (auto intro!: frame_rules readers)

lemma untouched_ctx_list [frame_rules]: "if_ended untouched s (ctx_list E g s)"
  unfolding ctx_list_def Let_def
  by (intro frame_rules, simp only: split_paired_all prod.case,
      rule if_ended_after [OF prints_ctx_warning [OF prints_refl]], auto intro!: frame_rules readers)

lemma fine_exec_refs [frame_rules]: "fine untouched s (exec_refs help s)"
  unfolding exec_refs_def by (intro frame_rules)

lemma untouched_exec_get [frame_rules]: "ended untouched s (exec_get E g s)"
proof -
  have "ended untouched s (case acta_db_execution_get i (cl_db s) of (row, err, d) \<Rightarrow>
        let s1 = s\<lparr>cl_db := d\<rparr> in
        if \<not> cli_has_flag ''include_deleted'' s \<and> (case row of None \<Rightarrow> False | Some e \<Rightarrow> e_deleted_at e \<noteq> None)
        then fail_with (cli_emit_not_found ''execution'') s1
        else next_cmd (load_row_or_notfound E err row ''execution get'' ''execution'') (\<lambda>e s2.
          case go_raw_out g of
            Some name \<Rightarrow> (case raw_out (exec_values e) 256 exec_raw_names name s2 of (code, s3) \<Rightarrow> (Inr code, s3))
          | None \<Rightarrow> (Inr EXIT_OK, row_out g (e_id e) exec_header (exec_table e) (exec_to_json g e) s2)) s1)" for i s
  proof (cases "acta_db_execution_get i (cl_db s)")
    case (fields row err d)
    then have "prints s (s\<lparr>cl_db := d\<rparr>)" using reads_get(4) by (auto simp: reads2_def intro!: printing)
    note p = keep.printed [OF this]
    show ?thesis unfolding fields prod.case Let_def
      by (rule keep.ended_after [OF p [THEN conjunct1] p [THEN conjunct2]])
        (auto intro!: frame_rules ended_raw printing simp: Let_def split: option.split)
  qed
  then show ?thesis unfolding exec_get_def by (intro frame_rules)
qed

lemma untouched_exec_count [frame_rules]: "ended untouched s (exec_count E s)"
  unfolding exec_count_def by (auto intro!: frame_rules readers)

lemma untouched_exec_list [frame_rules]: "if_ended untouched s (exec_list E g s)"
  unfolding exec_list_def Let_def
  by (intro frame_rules, simp only: split_paired_all prod.case,
      rule if_ended_after [OF prints_exec_warning [OF prints_refl]], auto intro!: frame_rules readers)

lemma untouched_el [frame_rules]:
  "ended untouched s (el_get E g s)" "if_ended untouched s (el_list E g s)" "ended untouched s (el_count E s)"
  unfolding el_get_def el_list_def el_count_def
  by (auto intro!: frame_rules readers printing simp: Let_def)

lemma untouched_mo [frame_rules]:
  "ended untouched s (mo_get E g s)" "if_ended untouched s (mo_list E g s)" "ended untouched s (mo_count E s)"
  unfolding mo_get_def mo_list_def mo_count_def
  by (auto intro!: frame_rules readers printing simp: Let_def)

lemma untouched_rev [frame_rules]:
  "ended untouched s (rev_get E g s)" "ended untouched s (rev_get_latest E g s)"
  "if_ended untouched s (rev_list E g s)" "ended untouched s (rev_count E s)"
  unfolding rev_get_def rev_get_latest_def rev_list_def rev_count_def
  by (auto intro!: frame_rules readers printing simp: Let_def)

lemma untouched_sk [frame_rules]:
  "ended untouched s (sk_get E g s)" "if_ended untouched s (sk_list E g s)" "ended untouched s (sk_count E s)"
  unfolding sk_get_def sk_list_def sk_count_def
  by (auto intro!: frame_rules readers printing simp: Let_def)

lemma untouched_sr [frame_rules]:
  "ended untouched s (sr_get E g s)" "ended untouched s (sr_get_latest E g s)"
  "ended untouched s (sr_list E g s)" "ended untouched s (sr_count E s)"
  unfolding sr_get_def sr_get_latest_def sr_list_def sr_count_def
  by (auto intro!: frame_rules readers printing simp: Let_def)

section \<open>Actions that write\<close>

lemma prints_echo [printing]: "prints s (echo_status g i s)"
  using reads_get(4) [of i]
  by (auto simp: echo_status_def Let_def reads2_def intro!: printing split: prod.split option.split)

lemma fine_folder_input [frame_rules]: "fine follows s (folder_input E g help s)"
  unfolding folder_input_def by (auto intro!: frame_rules)

lemma follows_mf [frame_rules]:
  "ended follows s (mf_create E g s)" "ended follows s (mf_rename E g s)" "ended follows s (mf_delete E s)"
  "ended follows s (mf_restore E g s)" "ended follows s (mf_move E g s)"
  unfolding mf_create_def mf_rename_def mf_delete_def mf_restore_def mf_move_def
  by (auto intro!: frame_rules follow_act follow_create printing intro: lib_call.intros)

lemma follows_sf [frame_rules]:
  "ended follows s (sf_create E g s)" "ended follows s (sf_rename E g s)" "ended follows s (sf_delete E s)"
  "ended follows s (sf_restore E g s)" "ended follows s (sf_move E g s)"
  unfolding sf_create_def sf_rename_def sf_delete_def sf_restore_def sf_move_def
  by (auto intro!: frame_rules follow_act follow_create printing intro: lib_call.intros)

lemma follows_ctx [frame_rules]: "ended follows s (ctx_delete E s)" "ended follows s (ctx_restore E g s)"
  unfolding ctx_delete_def ctx_restore_def
  by (auto intro!: frame_rules follow_act printing intro: lib_call.intros)

lemma fine_ctx_flags [frame_rules]: "fine follows s (ctx_flags E cf s)"
  by (auto simp: ctx_flags_def Let_def intro!: frame_rules printing split: option.split)

lemma fine_ctx_input [frame_rules]: "fine follows s (ctx_input E g s)"
  unfolding ctx_input_def Let_def reject_eq
  by (auto intro!: frame_rules printing dest!: resolve_prints intro: follow.fine_from split: prod.split sum.split option.split)

lemma follows_ctx_create [frame_rules]: "if_ended follows s (ctx_create E g s)"
proof -
  have st: "ended follows s1 (ctx_store E g c s1)" for c s1
    unfolding ctx_store_def by (auto intro!: frame_rules follow_create intro: lib_call.intros)
  have k: "if_ended follows s1 (case ctx_default_hash E c of None \<Rightarrow> None
     | Some (Inl _) \<Rightarrow> Some (EXIT_ALLOC, cli_emit_error ''out of memory'' s1)
     | Some (Inr c1) \<Rightarrow> Some (run_cmd (ctx_store E g c1) s1))" for c s1
    by (auto split: option.split sum.split simp: cli_emit_error_def
        intro!: follow.finished_value printing run_cmd_finished st)
  show ?thesis unfolding ctx_create_def by (intro frame_rules k)
qed

lemma fine_exec_input [frame_rules]: "fine follows s (exec_input E g s)"
  unfolding exec_input_def exec_refs_def by (auto intro!: frame_rules)

lemma fine_exec_result [frame_rules]: "fine follows s (exec_result E s)"
  by (auto simp: exec_result_def intro!: frame_rules printing split: option.split)

lemma fine_exec_raw [frame_rules]: "fine follows s (exec_raw E s)"
  by (auto simp: exec_raw_def intro!: frame_rules printing split: option.split)

lemma follows_exec [frame_rules]:
  "ended follows s (exec_create E g s)" "ended follows s (exec_delete E s)" "ended follows s (exec_restore E g s)"
  "ended follows s (exec_start E g s)" "ended follows s (exec_cancel E g s)" "ended follows s (exec_complete E g s)"
  "ended follows s (exec_fail E g s)" "ended follows s (exec_reset E g s)" "ended follows s (exec_set_raw E g s)"
  unfolding exec_create_def exec_delete_def exec_restore_def exec_start_def exec_cancel_def exec_complete_def
    exec_fail_def exec_reset_def exec_set_raw_def
  by (auto intro!: frame_rules follow_act follow_create printing lib_call.ex_mutate intro: exec_call.intros)

lemma follows_el [frame_rules]: "ended follows s (el_create E g s)"
  unfolding el_create_def el_input_def
  by (auto intro!: frame_rules follow_create intro: lib_call.intros)

lemma fine_demand_backend [frame_rules]: "fine follows s (demand_backend b help s)"
  unfolding demand_backend_def by (auto intro!: frame_rules split: option.split)

lemma fine_model_input [frame_rules]: "fine follows s (model_input E g s)"
  unfolding model_input_def by (auto intro!: frame_rules)

lemma fine_model_patch [frame_rules]: "fine follows s (model_patch_flags s)"
  unfolding model_patch_flags_def by (auto intro!: frame_rules printing)

lemma follows_mo_create [frame_rules]: "ended follows s (mo_create E g s)"
  unfolding mo_create_def
  by (auto intro!: frame_rules follow_act follow_create printing readers intro: lib_call.intros)

lemma follows_mo_update [frame_rules]: "ended follows s (mo_update E g s)"
  unfolding mo_update_def
  by (auto intro!: frame_rules follow_act follow_create printing readers intro: lib_call.intros)

lemma follows_mo_delete [frame_rules]: "ended follows s (mo_delete E s)"
  unfolding mo_delete_def
  by (auto intro!: frame_rules follow_act follow_create printing readers intro: lib_call.intros)

lemma follows_mo_restore [frame_rules]: "ended follows s (mo_restore E g s)"
  unfolding mo_restore_def
  by (auto intro!: frame_rules follow_act follow_create printing readers intro: lib_call.intros)

lemma follows_mo_move [frame_rules]: "ended follows s (mo_move E g s)"
  unfolding mo_move_def
  by (auto intro!: frame_rules follow_act follow_create printing readers intro: lib_call.intros)

lemma fine_skill_input [frame_rules]: "fine follows s (skill_input E g s)"
  unfolding skill_input_def by (auto intro!: frame_rules)

lemma fine_skill_patch_flags [frame_rules]: "fine follows s (skill_patch_flags g s)"
  unfolding skill_patch_flags_def Let_def by (auto intro!: frame_rules printing)

lemma fine_skill_patch_body [frame_rules]: "fine follows s (skill_patch_body E g p s)"
  unfolding skill_patch_body_def Let_def reject_eq
  by (auto intro!: frame_rules printing dest!: resolve_prints split: prod.split sum.split option.split)

lemma follows_sk [frame_rules]:
  "ended follows s (sk_create E g s)" "ended follows s (sk_update E g s)" "ended follows s (sk_delete E s)"
  "ended follows s (sk_restore E g s)" "ended follows s (sk_move E g s)"
  unfolding sk_create_def sk_update_def sk_delete_def sk_restore_def sk_move_def
  by (auto intro!: frame_rules follow_act follow_create printing readers intro: lib_call.intros)

section \<open>The entities\<close>

lemmas entity_defs = cmd_context_def cmd_model_def cmd_model_folder_def cmd_model_revision_def cmd_skill_def
  cmd_skill_folder_def cmd_skill_rev_def cmd_exec_def cmd_execution_log_def

lemma untouched_lift: "ended untouched s (m s) \<Longrightarrow> finished follows s (run_cmd m s)"
  by (intro run_cmd_finished ended_untouched_follows)

lemmas entity_rules = frame_rules frame_if [where P = "if_ended R s" for R s] run_cmd_finished if_ended_untouched_follows

lemma follows_entities:
  "if_ended follows s (cmd_context E g action s)" "if_ended follows s (cmd_model E g action s)"
  "if_ended follows s (cmd_model_folder E g action s)" "if_ended follows s (cmd_model_revision E g action s)"
  "if_ended follows s (cmd_skill E g action s)" "if_ended follows s (cmd_skill_folder E g action s)"
  "if_ended follows s (cmd_skill_rev E g action s)" "if_ended follows s (cmd_exec E g action s)"
  "if_ended follows s (cmd_execution_log E g action s)"
  unfolding entity_defs
  by (intro entity_rules | intro ended_untouched_follows if_ended_untouched_follows entity_rules)+

text \<open>The actions that only read.\<close>

definition reading :: "string \<Rightarrow> bool" where
  "reading action \<longleftrightarrow> action \<in> {''help'', ''get'', ''get-latest'', ''list'', ''count''}"

lemma not_reading [simp]:
  "\<not> reading ''create''" "\<not> reading ''update''" "\<not> reading ''delete''" "\<not> reading ''restore''" "\<not> reading ''move''"
  "\<not> reading ''rename''" "\<not> reading ''start''" "\<not> reading ''cancel''" "\<not> reading ''complete''" "\<not> reading ''fail''"
  "\<not> reading ''reset''" "\<not> reading ''set-raw''"
  by (simp_all add: reading_def)

lemma untouched_entities:
  assumes "reading action"
  shows "if_ended untouched s (cmd_context E g action s)" "if_ended untouched s (cmd_model E g action s)"
  "if_ended untouched s (cmd_model_folder E g action s)" "if_ended untouched s (cmd_model_revision E g action s)"
  "if_ended untouched s (cmd_skill E g action s)" "if_ended untouched s (cmd_skill_folder E g action s)"
  "if_ended untouched s (cmd_skill_rev E g action s)" "if_ended untouched s (cmd_exec E g action s)"
  "if_ended untouched s (cmd_execution_log E g action s)"
proof -
  have no: "if_ended untouched s x" if "action = a" "\<not> reading a" for a x using assms that by simp
  show "if_ended untouched s (cmd_context E g action s)" "if_ended untouched s (cmd_model E g action s)"
  "if_ended untouched s (cmd_model_folder E g action s)" "if_ended untouched s (cmd_model_revision E g action s)"
  "if_ended untouched s (cmd_skill E g action s)" "if_ended untouched s (cmd_skill_folder E g action s)"
  "if_ended untouched s (cmd_skill_rev E g action s)" "if_ended untouched s (cmd_exec E g action s)"
  "if_ended untouched s (cmd_execution_log E g action s)"
    unfolding entity_defs
    by (rule frame_if [where P = "if_ended untouched s"]
        | (erule no, rule not_reading) | (intro entity_rules; fail) | intro entity_rules)+
qed

end
