(* ===== verification/Cli_Db.thy ===== *)
theory Cli_Db
  imports Cli_Rows Connections
begin

text \<open>
  The database commands, \<^verbatim>\<open>acta_cli/src/commands/db.c\<close>: init, migrate, version, backup.
  What the embedded SQL texts do to a database, which tables a file has, and what the operating system
  answers are in \<open>db_host\<close>; the text of \<open>dh_fail\<close> is what the message buffer of
  \<^verbatim>\<open>migrate\<close> holds before anything is written to it.
\<close>

datatype stat_answer = Stat_ok | Stat_enoent | Stat_error

type_synonym sql_text = "db_t \<Rightarrow> db_t option"

record db_host =
  dh_tables :: "store \<Rightarrow> string list"
  dh_schema :: sql_text
  dh_migration :: sql_text
  dh_libversion :: string
  dh_cwd :: "string option"
  dh_stat :: "string \<Rightarrow> stat_answer"
  dh_backup :: "string \<Rightarrow> backup_env"
  dh_fail :: string

section \<open>Path identity\<close>

definition c_isalpha :: "char \<Rightarrow> bool" where
  "c_isalpha c \<longleftrightarrow> (let n = (of_char c :: nat) in (65 \<le> n \<and> n \<le> 90) \<or> (97 \<le> n \<and> n \<le> 122))"

definition drop_slashes :: "string \<Rightarrow> string" where
  "drop_slashes t = (let r = rev (dropWhile (\<lambda>c. c = CHR 0x2F) (rev t)) in if r = [] then take 1 t else r)"

text \<open>\<^verbatim>\<open>getcwd\<close> has a buffer of 256 bytes, the result one of 512.\<close>

definition canon_path :: "string option \<Rightarrow> string \<Rightarrow> string" where
  "canon_path cwd p =
     (let is_abs = take 1 p = ''/'' \<or> (length p \<ge> 3 \<and> c_isalpha (p ! 0) \<and> p ! 1 = CHR 0x3A)
      in if is_abs then drop_slashes (snprintf 512 p)
         else case cwd of
           None \<Rightarrow> []
         | Some dir \<Rightarrow> if length dir + 1 > 256 then [] else drop_slashes (snprintf 512 (dir @ ''/'' @ p)))"

definition same_file_path :: "string option \<Rightarrow> string \<Rightarrow> string \<Rightarrow> bool" where
  "same_file_path cwd a b =
     (let ca = canon_path cwd a; cb = canon_path cwd b in if ca = [] \<or> cb = [] then False else ca = cb)"

section \<open>Migrations\<close>

text \<open>The table \<^verbatim>\<open>ACTA_MIGRATIONS\<close> without its terminating row.\<close>

definition ACTA_MIGRATIONS :: "sql_text \<Rightarrow> (int \<times> sql_text option) list" where
  "ACTA_MIGRATIONS migration = [(1, Some migration)]"

definition migrate_one :: "int \<Rightarrow> sql_text \<Rightarrow> db_t \<Rightarrow> int \<times> db_t" where
  "migrate_one version sql d =
     (case acta_db_begin d of (rc1, d1) \<Rightarrow>
      case (if rc1 = ACTA_DB_OK then acta_db_exec sql d1 else (rc1, d1)) of (rc2, d2) \<Rightarrow>
      case (if rc2 = ACTA_DB_OK then acta_db_commit d2 else (rc2, d2)) of (rc3, d3) \<Rightarrow>
      if rc3 = ACTA_DB_OK then acta_db_set_schema_version version d3 else (rc3, d3))"

text \<open>
  The loop from version \<open>uv\<close> on: the code, the version reached, and the failure text if one was
  written.
\<close>

fun migrate_loop :: "(int \<times> sql_text option) list \<Rightarrow> int \<Rightarrow> db_t \<Rightarrow> int \<times> int \<times> string option \<times> db_t" where
  "migrate_loop [] uv d = (ACTA_DB_OK, uv, None, d)"
| "migrate_loop ((version, sql) # migs) uv d =
     (case sql of
        None \<Rightarrow> migrate_loop migs uv d
      | Some text \<Rightarrow>
          if version \<le> uv then migrate_loop migs uv d
          else (case migrate_one version text d of (rc, d1) \<Rightarrow>
            if rc \<noteq> ACTA_DB_OK
            then (case acta_db_rollback d1 of (_, d2) \<Rightarrow>
                    (ACTA_DB_ERR_INVALID, uv,
                     Some (snprintf 256 (''migration '' @ snprintf 8 (''0.'' @ show_int version) @ '' failed: ''
                       @ (case acta_db_last_error d2 of None \<Rightarrow> ''(no detail)'' | Some m \<Rightarrow> m))), d2))
            else migrate_loop migs version d1))"

text \<open>The second component is \<^verbatim>\<open>*out_version\<close>, if it was set.\<close>

definition db_migrate_apply ::
  "(int \<times> sql_text option) list \<Rightarrow> db_t \<Rightarrow> int \<times> int option \<times> string option \<times> db_t" where
  "db_migrate_apply migs d =
     (case acta_db_schema_version d of (rc, uv, d1) \<Rightarrow>
        if rc \<noteq> ACTA_DB_OK then (ACTA_DB_ERR_SQL, None, None, d1)
        else (case migrate_loop migs (int_or 0 uv) d1 of (rc2, v, msg, d2) \<Rightarrow> (rc2, Some v, msg, d2)))"

section \<open>The actions\<close>

definition canonical_tables :: "string list" where
  "canonical_tables = [''model_folders'', ''models'', ''model_revisions'', ''skill_folders'', ''skills'',
     ''skill_revisions'', ''contexts'', ''executions'', ''execution_logs'']"

definition status_ok :: "cli_opts \<Rightarrow> cli \<Rightarrow> cli" where
  "status_ok g = say (if go_table g then ''ok'' @ newline else ''{'' @ json_pair ''status'' (dquoted ''ok'') @ ''}'' @ newline)"

text \<open>Is an SQL source given: a positional, \<^verbatim>\<open>--sql\<close>, \<^verbatim>\<open>--file\<close>, \<^verbatim>\<open>--sql_stdin\<close>?\<close>

definition sql_given :: "bool cmd" where
  "sql_given = next_cmd next_positional_arg (\<lambda>pos_sql s.
     (Inr (pos_sql \<noteq> None \<or> cli_flag ''sql'' s \<noteq> None \<or> cli_flag ''file'' s \<noteq> None \<or> cli_has_flag ''sql_stdin'' s), s))"

definition detail_of :: "db_t \<Rightarrow> string \<Rightarrow> string" where
  "detail_of d what = (case acta_db_last_error d of None \<Rightarrow> what | Some m \<Rightarrow> m)"

definition init_apply :: "db_host \<Rightarrow> cli_opts \<Rightarrow> string list \<Rightarrow> cli \<Rightarrow> int \<times> cli" where
  "init_apply H g tables s =
     (let have_canon = length (filter (\<lambda>t. t \<in> set canonical_tables) tables);
          n_canon = length canonical_tables;
          done = (\<lambda>(rc, d). let s1 = s\<lparr>cl_db := d\<rparr> in
             if rc \<noteq> ACTA_DB_OK then cli_finish_db_error rc (detail_of d ''schema application failed'') s1
             else (EXIT_OK, status_ok g s1))
      in case acta_db_schema_version (cl_db s) of (_, uv, d) \<Rightarrow>
         if tables = []
         then done (case acta_db_exec (dh_schema H) d of (rc, d1) \<Rightarrow>
                if rc = ACTA_DB_OK then acta_db_set_schema_version 1 d1 else (rc, d1))
         else if have_canon = n_canon
         then done (if int_or 0 uv = 0 then acta_db_set_schema_version 1 d else (ACTA_DB_OK, d))
         else cli_finish_db_error ACTA_DB_ERR_INVALID
                (snprintf 256 (''database is not fresh and not fully schema'' @ [CHR 0x27] @ ''d ('' @ show_nat have_canon @ '' of ''
                   @ show_nat n_canon @ '' canonical tables present): fail closed, no schema applied''))
                (s\<lparr>cl_db := d\<rparr>))"

definition em_dash :: string where
  "em_dash = [CHR 0xE2, CHR 0x80, CHR 0x94]"

definition db_init :: "db_host \<Rightarrow> cli_opts \<Rightarrow> int cmd" where
  "db_init H g = next_cmd sql_given (\<lambda>given s.
     if go_from_stdin g
     then fail_with (cli_finish_db_error ACTA_DB_ERR_INVALID (''global --stdin is a JSON-input flag; db init takes no ''
            @ ''input (it applies the canonical embedded schema)'')) s
     else if given
     then fail_with (cli_finish_db_error ACTA_DB_ERR_INVALID (''db init takes no arguments: it applies the canonical ''
            @ ''embedded schema '' @ em_dash @ '' there is no SQL to supply'')) s
     else (case acta_db_user_tables (dh_tables H) (cl_db s) of (tables, n, err, d) \<Rightarrow>
       let s1 = s\<lparr>cl_db := d\<rparr> in
       case tables of
         None \<Rightarrow> fail_with (cli_finish_db_error (int_or 0 err)
                   (snprintf 256 (''cannot list user tables: '' @ detail_of d ''(no detail)''))) s1
       | Some names \<Rightarrow> fail_with (init_apply H g names) s1))"

definition migrate_apply :: "db_host \<Rightarrow> cli_opts \<Rightarrow> cli \<Rightarrow> int \<times> cli" where
  "migrate_apply H g s =
     (case db_migrate_apply (ACTA_MIGRATIONS (dh_migration H)) (cl_db s) of (rc, v, msg, d) \<Rightarrow>
        let s1 = s\<lparr>cl_db := d\<rparr>; fail = (case msg of None \<Rightarrow> dh_fail H | Some m \<Rightarrow> m) in
        if rc \<noteq> ACTA_DB_OK then cli_finish_db_error rc (if fail \<noteq> [] then fail else ''migration failed'') s1
        else (EXIT_OK, say (if go_table g then ''ok'' @ newline
                else ''{'' @ json_pair ''status'' (dquoted ''ok'') @ '','' @ json_pair ''schema_version''
                       (dquoted (''0.'' @ show_int (int_or 0 v))) @ ''}'' @ newline) s1))"

definition migrate_unrecorded :: "db_host \<Rightarrow> cli_opts \<Rightarrow> cli \<Rightarrow> int \<times> cli" where
  "migrate_unrecorded H g s =
     (case acta_db_user_tables (dh_tables H) (cl_db s) of (tables, n, err, d) \<Rightarrow>
        let s1 = s\<lparr>cl_db := d\<rparr> in
        case tables of
          None \<Rightarrow> cli_finish_db_error (if int_or 0 err \<noteq> ACTA_DB_OK then int_or 0 err else ACTA_DB_ERR_SQL)
                    ''cannot list user tables'' s1
        | Some names \<Rightarrow>
            if names \<noteq> []
            then cli_finish_db_error ACTA_DB_ERR_INVALID (''file has user tables but no recorded schema version ''
                   @ ''(PRAGMA user_version = 0): not an ACTA Gamma database (or a pre-migration file) '' @ em_dash
                   @ '' fail closed, no migration applied'') s1
            else migrate_apply H g s1)"

definition db_migrate :: "cli_env \<Rightarrow> db_host \<Rightarrow> cli_opts \<Rightarrow> int cmd" where
  "db_migrate E H g = next_cmd sql_given (\<lambda>given s.
     if go_from_stdin g \<or> given
     then fail_with (cli_finish_db_error ACTA_DB_ERR_INVALID (''db migrate takes no arguments: it applies the ''
            @ ''repo-static schema migrations '' @ em_dash @ '' there is no SQL to supply'')) s
     else (case acta_db_schema_version (cl_db s) of (rc, uv, d) \<Rightarrow>
       let s1 = s\<lparr>cl_db := d\<rparr> in
       if rc \<noteq> ACTA_DB_OK then fail_with (cli_finish_op_error E ACTA_DB_ERR_SQL ''schema_version read'') s1
       else if int_or 0 uv = 0 then fail_with (migrate_unrecorded H g) s1
       else fail_with (migrate_apply H g) s1))"

definition db_version :: "db_host \<Rightarrow> cli_opts \<Rightarrow> int cmd" where
  "db_version H g s =
     (Inr EXIT_OK, say (if go_table g then ''SQLite '' @ dh_libversion H @ newline
        else ''{'' @ json_pair ''version'' (dquoted (dh_libversion H)) @ ''}'' @ newline) s)"

text \<open>The POSIX set of rejected characters: quotes, semicolon, backslash.\<close>

definition bad_target_char :: "char \<Rightarrow> bool" where
  "bad_target_char c \<longleftrightarrow> c = CHR 0x27 \<or> c = CHR 0x22 \<or> c = CHR 0x3B \<or> c = CHR 0x5C"

definition backup_to :: "db_host \<Rightarrow> cli_opts \<Rightarrow> string \<Rightarrow> cli \<Rightarrow> int \<times> cli" where
  "backup_to H g target s =
     (case acta_db_backup (Some target) (dh_backup H target) (cl_files s target) (cl_db s) of (rc, bytes, err, file, d) \<Rightarrow>
        let s1 = s\<lparr>cl_db := d, cl_files := (cl_files s)(target := file)\<rparr> in
        if rc \<noteq> ACTA_DB_OK then cli_finish_db_error rc (detail_of d ''backup failed'') s1
        else (EXIT_OK, say (if go_table g then target @ '' '' @ show_int (int_or 0 bytes) @ '' bytes'' @ newline
                else ''{'' @ json_pair ''target'' (json_str target) @ '','' @ json_pair ''bytes'' (show_int (int_or 0 bytes))
                       @ '','' @ json_pair ''quick_check'' (dquoted ''ok'') @ ''}'' @ newline) s1))"

definition db_backup :: "db_host \<Rightarrow> cli_opts \<Rightarrow> int cmd" where
  "db_backup H g s =
     (let target = cli_flag ''to'' s in
      if go_from_stdin g
      then fail_with (cli_finish_db_error ACTA_DB_ERR_INVALID
             ''global --stdin is a JSON-input flag; db backup takes no input'') s
      else case target of
        None \<Rightarrow> fail_with (emit_cli_error ''db backup requires --to <target>'') s
      | Some t \<Rightarrow>
          if t = [] then fail_with (emit_cli_error ''db backup requires --to <target>'') s
          else if list_ex bad_target_char t
          then fail_with (emit_cli_error (''db backup target is invalid: quote, semicolon or ''
                 @ ''backslash characters are not allowed'')) s
          else if same_file_path (dh_cwd H) t (acta_db_main_path (cl_db s))
          then fail_with (emit_cli_error ''db backup target must not be the database path itself'') s
          else (case dh_stat H t of
             Stat_ok \<Rightarrow> fail_with (emit_cli_error (''db backup target already exists: no silent overwrite ''
                 @ ''(choose a new name, e.g. acta_backup_YYYYMMDD.db)'')) s
           | Stat_error \<Rightarrow> fail_with (emit_cli_error (''cannot access db backup target (check the path and ''
                 @ ''permissions)'')) s
           | Stat_enoent \<Rightarrow> fail_with (backup_to H g t) s))"

definition db_actions :: "string list" where
  "db_actions = [''init'', ''migrate'', ''version'', ''backup'', ''help'']"

definition db_help :: "(string \<times> string) list" where
  "db_help = [(''init'', ''usage_init''), (''migrate'', ''usage_migrate''), (''version'', ''usage_version''),
     (''backup'', ''usage_backup'')]"

definition cmd_db :: "cli_env \<Rightarrow> db_host \<Rightarrow> cli_opts \<Rightarrow> string \<Rightarrow> cli \<Rightarrow> (int \<times> cli) option" where
  "cmd_db E H g action s =
     (if action = ''help'' then Some (run_cmd (help_action ''db'' ''db_usage'' db_help db_actions) s)
      else if action = ''init'' then Some (run_cmd (db_init H g) s)
      else if action = ''migrate'' then Some (run_cmd (db_migrate E H g) s)
      else if action = ''version'' then Some (run_cmd (db_version H g) s)
      else if action = ''backup'' then Some (run_cmd (db_backup H g) s)
      else (case cli_finish_db_error ACTA_DB_ERR_INVALID
                   (snprintf 80 (''unknown action '' @ [CHR 0x27] @ action @ [CHR 0x27])) s of (_, s1) \<Rightarrow>
              Some (unknown_action action ''acta_cli db help'' db_actions s1)))"

end
