(* ===== verification/Cli_Tools.thy ===== *)
theory Cli_Tools
  imports Cli_Util
begin

text \<open>
  \<^verbatim>\<open>acta_cli/src/tools.c\<close>: the table of commands that \<^verbatim>\<open>--tools\<close> prints, entry by
  entry as the source has it (its arrays \<^verbatim>\<open>f_...\<close> and \<^verbatim>\<open>p_...\<close> are named
  \<^verbatim>\<open>tf_...\<close> and \<^verbatim>\<open>tp_...\<close> here), the number of positionals the dispatcher reads from it,
  and the two renderings, JSON (on one line or indented) and the compact text.
\<close>

datatype tool_success_t = Success (su_kind: string) (su_keys: "string list") (su_note: "string option")

datatype tool_pos_t = Pos (tp_name: string) (tp_required: bool) (tp_type: string)

datatype tool_flag_t = Flag (tfl_name: string) (tfl_has_value: bool) (tfl_required: bool)

record tool_entry_t =
  te_command :: string
  te_entity :: string
  te_action :: string
  te_aliases :: "string list"
  te_description :: string
  te_positionals :: "tool_pos_t list"
  te_flags :: "tool_flag_t list"
  te_input :: string
  te_json_req :: "string list"
  te_json_opt :: "string list"
  te_success :: tool_success_t

section \<open>The arrays\<close>

definition tp_id :: "tool_pos_t list" where
  "tp_id =
     [Pos ''id'' True ''positive-int'']"

definition tp_model_id :: "tool_pos_t list" where
  "tp_model_id =
     [Pos ''model_id'' True ''positive-int'']"

definition tp_skill_id :: "tool_pos_t list" where
  "tp_skill_id =
     [Pos ''skill_id'' True ''positive-int'']"

definition tp_exec_id :: "tool_pos_t list" where
  "tp_exec_id =
     [Pos ''execution_id'' True ''positive-int'']"

definition tp_sf_parent :: "tool_pos_t list" where
  "tp_sf_parent =
     [Pos ''parent_id'' False (''non-negative-int, or the sentinel '' @ [CHR 0x27] @ ''all'' @ [CHR 0x27])]"

definition tf_db_backup :: "tool_flag_t list" where
  "tf_db_backup =
     [Flag ''to'' True True, Flag ''table'' False False]"

definition tf_table :: "tool_flag_t list" where
  "tf_table =
     [Flag ''table'' False False]"

definition tf_ctx_create :: "tool_flag_t list" where
  "tf_ctx_create =
     [Flag ''type'' True True, Flag ''content'' True True, Flag ''content_file'' True False,
     Flag ''hash'' True False, Flag ''metadata'' True False]"

definition tf_ctx_list :: "tool_flag_t list" where
  "tf_ctx_list =
     [Flag ''type'' True False, Flag ''hash'' True False, Flag ''offset'' True False,
     Flag ''limit'' True False, Flag ''include_deleted'' False False, Flag ''full'' False False,
     Flag ''count'' False False, Flag ''table'' False False, Flag ''stream'' False False,
     Flag ''fields'' True False, Flag ''no_nulls'' False False]"

definition tf_ctx_count :: "tool_flag_t list" where
  "tf_ctx_count =
     [Flag ''type'' True False, Flag ''hash'' True False, Flag ''include_deleted'' False False]"

definition tf_model_create :: "tool_flag_t list" where
  "tf_model_create =
     [Flag ''name'' True True, Flag ''backend'' True True, Flag ''model_identifier'' True True,
     Flag ''folder_id'' True False, Flag ''description'' True False, Flag ''base_url'' True False,
     Flag ''configuration'' True False]"

definition tf_inc_del :: "tool_flag_t list" where
  "tf_inc_del =
     [Flag ''include_deleted'' False False]"

definition tf_model_update :: "tool_flag_t list" where
  "tf_model_update =
     [Flag ''name'' True False, Flag ''folder_id'' True False, Flag ''description'' True False,
     Flag ''backend'' True False, Flag ''base_url'' True False, Flag ''model_identifier'' True False,
     Flag ''configuration'' True False]"

definition tf_folder_id :: "tool_flag_t list" where
  "tf_folder_id =
     [Flag ''folder_id'' True True]"

definition tf_model_list :: "tool_flag_t list" where
  "tf_model_list =
     [Flag ''folder_id'' True False, Flag ''offset'' True False, Flag ''limit'' True False,
     Flag ''include_deleted'' False False, Flag ''count'' False False, Flag ''table'' False False,
     Flag ''stream'' False False, Flag ''fields'' True False, Flag ''no_nulls'' False False]"

definition tf_model_count :: "tool_flag_t list" where
  "tf_model_count =
     [Flag ''folder_id'' True False, Flag ''include_deleted'' False False]"

definition tf_folder_create :: "tool_flag_t list" where
  "tf_folder_create =
     [Flag ''name'' True True, Flag ''parent_id'' True False]"

definition tf_mf_list :: "tool_flag_t list" where
  "tf_mf_list =
     [Flag ''parent_id'' True False, Flag ''offset'' True False, Flag ''limit'' True False,
     Flag ''count'' False False, Flag ''table'' False False, Flag ''stream'' False False,
     Flag ''fields'' True False, Flag ''no_nulls'' False False]"

definition tf_parent_id :: "tool_flag_t list" where
  "tf_parent_id =
     [Flag ''parent_id'' True False]"

definition tf_name :: "tool_flag_t list" where
  "tf_name =
     [Flag ''name'' True True]"

definition tf_parent_id_req :: "tool_flag_t list" where
  "tf_parent_id_req =
     [Flag ''parent_id'' True True]"

definition alias_execution :: "string list" where
  "alias_execution =
     [''execution'']"

definition alias_execution_log :: "string list" where
  "alias_execution_log =
     [''execution_log'']"

definition tf_rev_list :: "tool_flag_t list" where
  "tf_rev_list =
     [Flag ''offset'' True False, Flag ''limit'' True False, Flag ''count'' False False,
     Flag ''table'' False False, Flag ''stream'' False False, Flag ''fields'' True False,
     Flag ''no_nulls'' False False]"

definition tf_rev_list_inc :: "tool_flag_t list" where
  "tf_rev_list_inc =
     [Flag ''offset'' True False, Flag ''limit'' True False, Flag ''include_deleted'' False False,
     Flag ''count'' False False, Flag ''table'' False False, Flag ''stream'' False False,
     Flag ''fields'' True False, Flag ''no_nulls'' False False]"

definition tf_rev_count_inc :: "tool_flag_t list" where
  "tf_rev_count_inc =
     [Flag ''include_deleted'' False False]"

definition tf_skill_create :: "tool_flag_t list" where
  "tf_skill_create =
     [Flag ''name'' True True, Flag ''prompt_template'' True True, Flag ''folder_id'' True False,
     Flag ''description'' True False, Flag ''output_schema'' True False]"

definition tf_skill_update :: "tool_flag_t list" where
  "tf_skill_update =
     [Flag ''name'' True False, Flag ''folder_id'' True False, Flag ''description'' True False,
     Flag ''prompt_template'' True False, Flag ''output_schema'' True False]"

definition tf_skill_list :: "tool_flag_t list" where
  "tf_skill_list =
     [Flag ''all'' False False, Flag ''folder_id'' True False, Flag ''offset'' True False,
     Flag ''limit'' True False, Flag ''include_deleted'' False False, Flag ''count'' False False,
     Flag ''table'' False False, Flag ''stream'' False False, Flag ''fields'' True False,
     Flag ''no_nulls'' False False]"

definition tf_skill_count :: "tool_flag_t list" where
  "tf_skill_count =
     [Flag ''all'' False False, Flag ''folder_id'' True False, Flag ''include_deleted'' False False]"

definition tf_sf_list :: "tool_flag_t list" where
  "tf_sf_list =
     [Flag ''offset'' True False, Flag ''limit'' True False, Flag ''count'' False False,
     Flag ''table'' False False, Flag ''stream'' False False, Flag ''fields'' True False,
     Flag ''no_nulls'' False False]"

definition tf_exec_create :: "tool_flag_t list" where
  "tf_exec_create =
     [Flag ''context_id'' True True, Flag ''skill_revision_id'' True True,
     Flag ''model_revision_id'' True True, Flag ''parent_execution_id'' True False]"

definition tf_exec_complete :: "tool_flag_t list" where
  "tf_exec_complete =
     [Flag ''result'' True False, Flag ''result_file'' True False]"

definition tf_exec_fail :: "tool_flag_t list" where
  "tf_exec_fail =
     [Flag ''error'' True False]"

definition tf_raw :: "tool_flag_t list" where
  "tf_raw =
     [Flag ''raw'' True True, Flag ''raw_file'' True False]"

definition tf_exec_list :: "tool_flag_t list" where
  "tf_exec_list =
     [Flag ''status'' True False, Flag ''context_id'' True False, Flag ''skill_revision_id'' True False,
     Flag ''model_revision_id'' True False, Flag ''include_deleted'' False False, Flag ''full'' False False,
     Flag ''parent_execution_id'' True False, Flag ''offset'' True False, Flag ''limit'' True False,
     Flag ''count'' False False, Flag ''table'' False False, Flag ''stream'' False False,
     Flag ''fields'' True False, Flag ''no_nulls'' False False]"

definition tf_exec_count :: "tool_flag_t list" where
  "tf_exec_count =
     [Flag ''status'' True False, Flag ''context_id'' True False, Flag ''skill_revision_id'' True False,
     Flag ''model_revision_id'' True False, Flag ''parent_execution_id'' True False,
     Flag ''include_deleted'' False False]"

definition tf_log_create :: "tool_flag_t list" where
  "tf_log_create =
     [Flag ''execution_id'' True True, Flag ''level'' True True, Flag ''event'' True True,
     Flag ''message'' True False, Flag ''metadata'' True False]"

definition tf_level :: "tool_flag_t list" where
  "tf_level =
     [Flag ''level'' True False]"

definition tf_log_list :: "tool_flag_t list" where
  "tf_log_list =
     [Flag ''level'' True False, Flag ''offset'' True False, Flag ''limit'' True False,
     Flag ''count'' False False, Flag ''table'' False False, Flag ''stream'' False False,
     Flag ''fields'' True False, Flag ''no_nulls'' False False]"

definition jk_ctx_req :: "string list" where
  "jk_ctx_req =
     [''type'', ''content'']"

definition jk_ctx_opt :: "string list" where
  "jk_ctx_opt =
     [''metadata'', ''hash'']"

definition jk_model_req :: "string list" where
  "jk_model_req =
     [''name'', ''backend'', ''model_identifier'']"

definition jk_model_opt :: "string list" where
  "jk_model_opt =
     [''folder_id'', ''description'', ''base_url'', ''configuration'']"

definition jk_folder_req :: "string list" where
  "jk_folder_req =
     [''name'']"

definition jk_folder_opt :: "string list" where
  "jk_folder_opt =
     [''parent_id'']"

definition jk_skill_req :: "string list" where
  "jk_skill_req =
     [''name'', ''prompt_template'']"

definition jk_skill_opt :: "string list" where
  "jk_skill_opt =
     [''folder_id'', ''description'', ''output_schema'']"

definition jk_skill_upd :: "string list" where
  "jk_skill_upd =
     [''name'', ''prompt_template'', ''folder_id'', ''description'', ''output_schema'']"

definition jk_exec_req :: "string list" where
  "jk_exec_req =
     [''context_id'', ''skill_revision_id'', ''model_revision_id'']"

definition jk_exec_opt :: "string list" where
  "jk_exec_opt =
     [''parent_execution_id'']"

definition jk_log_req :: "string list" where
  "jk_log_req =
     [''execution_id'', ''level'', ''event'']"

definition jk_log_opt :: "string list" where
  "jk_log_opt =
     [''message'', ''metadata'']"

definition ks_id :: "string list" where
  "ks_id =
     [''id'']"

definition ks_id_folder :: "string list" where
  "ks_id_folder =
     [''id'', ''folder_id'']"

definition ks_id_parent :: "string list" where
  "ks_id_parent =
     [''id'', ''parent_id'']"

definition ks_id_restored :: "string list" where
  "ks_id_restored =
     [''id'', ''restored'']"

definition ks_id_status :: "string list" where
  "ks_id_status =
     [''id'', ''status'']"

definition ks_deleted :: "string list" where
  "ks_deleted =
     [''deleted'']"

definition ks_status :: "string list" where
  "ks_status =
     [''status'']"

definition ks_version :: "string list" where
  "ks_version =
     [''version'']"

definition suc_id :: "tool_success_t" where
  "suc_id =
     Success ''json'' ks_id None"

definition suc_id_folder :: "tool_success_t" where
  "suc_id_folder =
     Success ''json'' ks_id_folder None"

definition suc_id_parent :: "tool_success_t" where
  "suc_id_parent =
     Success ''json'' ks_id_parent None"

definition suc_id_restored :: "tool_success_t" where
  "suc_id_restored =
     Success ''json'' ks_id_restored None"

definition suc_deleted :: "tool_success_t" where
  "suc_deleted =
     Success ''json'' ks_deleted None"

definition suc_obj :: "tool_success_t" where
  "suc_obj =
     Success ''json_object'' [] None"

definition suc_arr :: "tool_success_t" where
  "suc_arr =
     Success ''json_array'' [] (Some ''--count -> bare int'')"

definition suc_ctx_list :: "tool_success_t" where
  "suc_ctx_list =
     Success ''json_array'' [] (Some (''light projection by default: '' @ [CHR 0x27] @ ''content'' @
     [CHR 0x27] @ '' is null in every row; --full fetches the content blob; --count -> bare int''))"

definition suc_exec_list :: "tool_success_t" where
  "suc_exec_list =
     Success ''json_array'' [] (Some (''light projection by default: '' @ [CHR 0x27] @ ''raw_response'' @
     [CHR 0x27] @ '','' @ [CHR 0x27] @ ''result'' @ [CHR 0x27] @ '', '' @ [CHR 0x27] @ ''error'' @
     [CHR 0x27] @ '' are null in every row; --full fetches them; --count -> bare int''))"

definition suc_int :: "tool_success_t" where
  "suc_int =
     Success ''bare_int'' [] None"

definition suc_plain :: "tool_success_t" where
  "suc_plain =
     Success ''plain_text'' [] None"

definition suc_db_init :: "tool_success_t" where
  "suc_db_init =
     Success ''json'' ks_status (Some ''--table -> ok'')"

definition ks_db_migrate :: "string list" where
  "ks_db_migrate =
     [''status'', ''schema_version'']"

definition suc_db_migrate :: "tool_success_t" where
  "suc_db_migrate =
     Success ''json'' ks_db_migrate (Some ''--table -> ok'')"

definition suc_db_version :: "tool_success_t" where
  "suc_db_version =
     Success ''json'' ks_version (Some ''--table -> SQLite <ver>'')"

definition ks_db_backup :: "string list" where
  "ks_db_backup =
     [''target'', ''bytes'', ''quick_check'']"

definition suc_db_backup :: "tool_success_t" where
  "suc_db_backup =
     Success ''json'' ks_db_backup (Some ''--table -> <target> <N> bytes'')"

definition suc_exec_create :: "tool_success_t" where
  "suc_exec_create =
     Success ''json'' ks_id (Some (''row always created '' @ [CHR 0x27] @ ''pending'' @ [CHR 0x27]))"

definition suc_status_running :: "tool_success_t" where
  "suc_status_running =
     Success ''json'' ks_id_status (Some (''status is always '' @ [CHR 0x27] @ ''running'' @ [CHR 0x27]))"

definition suc_status_cancelled :: "tool_success_t" where
  "suc_status_cancelled =
     Success ''json'' ks_id_status (Some (''status is always '' @ [CHR 0x27] @ ''cancelled'' @ [CHR 0x27]))"

definition suc_status_completed :: "tool_success_t" where
  "suc_status_completed =
     Success ''json'' ks_id_status (Some (''status is always '' @ [CHR 0x27] @ ''completed'' @ [CHR 0x27]))"

definition suc_status_failed :: "tool_success_t" where
  "suc_status_failed =
     Success ''json'' ks_id_status (Some (''status is always '' @ [CHR 0x27] @ ''failed'' @ [CHR 0x27]))"

definition suc_status_pending :: "tool_success_t" where
  "suc_status_pending =
     Success ''json'' ks_id_status (Some (''status is always '' @ [CHR 0x27] @ ''pending'' @ [CHR 0x27]))"

definition suc_set_raw :: "tool_success_t" where
  "suc_set_raw =
     Success ''json'' ks_id_status (Some ''status echoes the unchanged current status'')"

definition global_flags :: "tool_flag_t list" where
  "global_flags =
     [Flag ''db'' True False, Flag ''fields'' True False, Flag ''no_nulls'' False False,
     Flag ''id_only'' False False, Flag ''count'' False False, Flag ''table'' False False,
     Flag ''stream'' False False, Flag ''pretty'' False False, Flag ''json'' True False,
     Flag ''stdin'' False False, Flag ''from_file'' True False, Flag ''out'' True False,
     Flag ''raw_out'' True False, Flag ''version'' False False, Flag ''help'' False False,
     Flag ''tools'' False False, Flag ''compact'' False False, Flag ''verbose'' False False]"

definition input_sources :: "string list" where
  "input_sources =
     [''json'', ''stdin'', ''from_file'']"

definition tool_exit_codes :: "(string \<times> string) list" where
  "tool_exit_codes =
     [(''0'', ''ok''), (''1'', ''not found''), (''2'', ''SQL error''), (''3'', ''OOM''),
     (''4'', (''invalid argument / missing flag / missing required field / duplicate / FK violation '' @
     ''/ invalid DB file'')),
     (''10'', (''CLI usage error (unknown entity, unknown action, unknown option, bad --verbose, too '' @
     ''few positionals, missing flag value)'')), (''11'', ''DB open failed'')]"

section \<open>The table\<close>

definition db_tools :: "tool_entry_t list" where
  "db_tools =
    [\<lparr>te_command = ''db.init'', te_entity = ''db'', te_action = ''init'', te_aliases = [],
      te_description = (''Apply the canonical schema (the static, embedded copy of acta_db/schema.sql) to a '' @
      ''fresh database file. Takes no SQL input of any kind: positional, --sql, --file, '' @
      ''--sql_stdin, and the global --stdin are all rejected. Fresh file '' @
      [CHR 0xE2, CHR 0x86, CHR 0x92] @ '' schema applied; already schema'' @ [CHR 0x27] @ ''d file '' @
      [CHR 0xE2, CHR 0x86, CHR 0x92] @ '' idempotent no-op; partially applied or foreign file '' @
      [CHR 0xE2, CHR 0x86, CHR 0x92] @ '' fail closed (exit 4).''), te_positionals = [], te_flags = tf_table,
      te_input = ''none'', te_json_req = [], te_json_opt = [], te_success = suc_db_init\<rparr>,
     \<lparr>te_command = ''db.migrate'', te_entity = ''db'', te_action = ''migrate'', te_aliases = [],
      te_description = (''Apply the pending repo-static schema migrations (acta_db/migrations/<version>.sql, '' @
      ''one static DDL file per version, embedded) to an existing database: PRAGMA '' @
      ''user_version is the recorded schema version (0.1 -> 1); each migration newer than '' @ ''the file'' @
      [CHR 0x27] @ ''s version is applied in ascending order, in its own BEGIN..COMMIT transaction, and '' @
      ''sets user_version on success - a failing migration rolls back and the file keeps its '' @
      ''prior version. Takes no SQL input of any kind: positional, --sql, --file, '' @
      ''--sql_stdin, and the global --stdin are all rejected. Fresh file (no user tables) -> '' @
      ''migrations apply from 0.1; already up to date -> idempotent no-op; user tables '' @
      ''without a recorded version (foreign or pre-migration file) -> fail closed (exit 4).''),
      te_positionals = [], te_flags = tf_table, te_input = ''none'', te_json_req = [], te_json_opt = [],
      te_success = suc_db_migrate\<rparr>,
     \<lparr>te_command = ''db.version'', te_entity = ''db'', te_action = ''version'', te_aliases = [],
      te_description = ''Print the SQLite library version.'', te_positionals = [], te_flags = tf_table,
      te_input = ''none'', te_json_req = [], te_json_opt = [], te_success = suc_db_version\<rparr>,
     \<lparr>te_command = ''db.backup'', te_entity = ''db'', te_action = ''backup'', te_aliases = [],
      te_description = (''Atomic, consistent snapshot of the open database into --to <target> (SQLite backup C '' @
      ''API; WAL state folded in, no need to close consumers first). The target must not '' @
      ''exist (no silent overwrite); the target is validated strictly (non-empty, no '' @
      ''quote/semicolon/backslash, not the DB path itself, creatable by the process). After '' @
      ''the copy, PRAGMA quick_check is run on the backup; a failed check is reported as '' @
      ''failure and the backup is not kept.''), te_positionals = [], te_flags = tf_db_backup,
      te_input = ''flags'', te_json_req = [], te_json_opt = [], te_success = suc_db_backup\<rparr>,
     \<lparr>te_command = ''db.help'', te_entity = ''db'', te_action = ''help'', te_aliases = [],
      te_description = ''Show the db usage text.'', te_positionals = [], te_flags = [], te_input = ''none'',
      te_json_req = [], te_json_opt = [], te_success = suc_plain\<rparr>]"

definition context_tools :: "tool_entry_t list" where
  "context_tools =
    [\<lparr>te_command = ''context.create'', te_entity = ''context'', te_action = ''create'',
      te_aliases = [],
      te_description = (''Create a context from flags or a JSON body. When hash is omitted it defaults to the '' @
      ''SHA-256 of content (lowercase hex), the same rule as the GUI.''), te_positionals = [],
      te_flags = tf_ctx_create, te_input = ''flags|json'', te_json_req = jk_ctx_req,
      te_json_opt = jk_ctx_opt, te_success = suc_id\<rparr>,
     \<lparr>te_command = ''context.get'', te_entity = ''context'', te_action = ''get'', te_aliases = [],
      te_description = ''Fetch a context by id (--include_deleted, alias --deleted, returns soft-deleted rows).'',
      te_positionals = tp_id, te_flags = tf_inc_del, te_input = ''positional'', te_json_req = [],
      te_json_opt = [], te_success = suc_obj\<rparr>,
     \<lparr>te_command = ''context.delete'', te_entity = ''context'', te_action = ''delete'',
      te_aliases = [], te_description = ''Soft-delete a context.'', te_positionals = tp_id, te_flags = [],
      te_input = ''positional'', te_json_req = [], te_json_opt = [], te_success = suc_deleted\<rparr>,
     \<lparr>te_command = ''context.restore'', te_entity = ''context'', te_action = ''restore'',
      te_aliases = [], te_description = ''Restore a soft-deleted context.'', te_positionals = tp_id,
      te_flags = [], te_input = ''positional'', te_json_req = [], te_json_opt = [],
      te_success = suc_id_restored\<rparr>,
     \<lparr>te_command = ''context.list'', te_entity = ''context'', te_action = ''list'', te_aliases = [],
      te_description = ''List contexts, optionally filtered by type and hash.'', te_positionals = [],
      te_flags = tf_ctx_list, te_input = ''flags'', te_json_req = [], te_json_opt = [],
      te_success = suc_ctx_list\<rparr>,
     \<lparr>te_command = ''context.count'', te_entity = ''context'', te_action = ''count'',
      te_aliases = [], te_description = ''Count contexts, optionally filtered by type and hash.'',
      te_positionals = [], te_flags = tf_ctx_count, te_input = ''flags'', te_json_req = [], te_json_opt = [],
      te_success = suc_int\<rparr>,
     \<lparr>te_command = ''context.help'', te_entity = ''context'', te_action = ''help'', te_aliases = [],
      te_description = ''Show the context usage text.'', te_positionals = [], te_flags = [],
      te_input = ''none'', te_json_req = [], te_json_opt = [], te_success = suc_plain\<rparr>]"

definition model_tools :: "tool_entry_t list" where
  "model_tools =
    [\<lparr>te_command = ''model.create'', te_entity = ''model'', te_action = ''create'', te_aliases = [],
      te_description = (''Create a model from flags or a JSON body. `backend` is a closed vocabulary (llamacpp '' @
      ''| openai): it selects the HTTP dialect acta_runner speaks with the server, any other '' @
      ''value is rejected with exit 4.''), te_positionals = [], te_flags = tf_model_create,
      te_input = ''flags|json'', te_json_req = jk_model_req, te_json_opt = jk_model_opt,
      te_success = suc_id\<rparr>,
     \<lparr>te_command = ''model.get'', te_entity = ''model'', te_action = ''get'', te_aliases = [],
      te_description = ''Fetch a model by id (--include_deleted, alias --deleted, returns soft-deleted rows).'',
      te_positionals = tp_id, te_flags = tf_inc_del, te_input = ''positional'', te_json_req = [],
      te_json_opt = [], te_success = suc_obj\<rparr>,
     \<lparr>te_command = ''model.update'', te_entity = ''model'', te_action = ''update'', te_aliases = [],
      te_description = (''Update one or more model fields; at least one of the listed flags is required. Flags '' @
      ''only (no JSON input). `backend`, when given, must be llamacpp or openai (exit 4 '' @
      ''otherwise).''), te_positionals = tp_id, te_flags = tf_model_update, te_input = ''flags'',
      te_json_req = [], te_json_opt = [], te_success = suc_id\<rparr>,
     \<lparr>te_command = ''model.delete'', te_entity = ''model'', te_action = ''delete'', te_aliases = [],
      te_description = ''Soft-delete a model.'', te_positionals = tp_id, te_flags = [],
      te_input = ''positional'', te_json_req = [], te_json_opt = [], te_success = suc_deleted\<rparr>,
     \<lparr>te_command = ''model.restore'', te_entity = ''model'', te_action = ''restore'',
      te_aliases = [], te_description = ''Restore a soft-deleted model.'', te_positionals = tp_id,
      te_flags = [], te_input = ''positional'', te_json_req = [], te_json_opt = [],
      te_success = suc_id_restored\<rparr>,
     \<lparr>te_command = ''model.move'', te_entity = ''model'', te_action = ''move'', te_aliases = [],
      te_description = ''Move a model to a folder (0 = root).'', te_positionals = tp_id,
      te_flags = tf_folder_id, te_input = ''flags'', te_json_req = [], te_json_opt = [],
      te_success = suc_id_folder\<rparr>,
     \<lparr>te_command = ''model.list'', te_entity = ''model'', te_action = ''list'', te_aliases = [],
      te_description = ''List models, optionally filtered by folder.'', te_positionals = [],
      te_flags = tf_model_list, te_input = ''flags'', te_json_req = [], te_json_opt = [],
      te_success = suc_arr\<rparr>,
     \<lparr>te_command = ''model.count'', te_entity = ''model'', te_action = ''count'', te_aliases = [],
      te_description = ''Count models, optionally filtered by folder.'', te_positionals = [],
      te_flags = tf_model_count, te_input = ''flags'', te_json_req = [], te_json_opt = [],
      te_success = suc_int\<rparr>,
     \<lparr>te_command = ''model.help'', te_entity = ''model'', te_action = ''help'', te_aliases = [],
      te_description = ''Show the model usage text.'', te_positionals = [], te_flags = [],
      te_input = ''none'', te_json_req = [], te_json_opt = [], te_success = suc_plain\<rparr>]"

definition model_folder_tools :: "tool_entry_t list" where
  "model_folder_tools =
    [\<lparr>te_command = ''model_folder.create'', te_entity = ''model_folder'', te_action = ''create'',
      te_aliases = [],
      te_description = ''Create a model folder from flags or a JSON body (parent_id 0 or omitted = root).'',
      te_positionals = [], te_flags = tf_folder_create, te_input = ''flags|json'',
      te_json_req = jk_folder_req, te_json_opt = jk_folder_opt, te_success = suc_id\<rparr>,
     \<lparr>te_command = ''model_folder.get'', te_entity = ''model_folder'', te_action = ''get'',
      te_aliases = [], te_description = ''Fetch a model folder by id.'', te_positionals = tp_id,
      te_flags = [], te_input = ''positional'', te_json_req = [], te_json_opt = [],
      te_success = suc_obj\<rparr>,
     \<lparr>te_command = ''model_folder.list'', te_entity = ''model_folder'', te_action = ''list'',
      te_aliases = [], te_description = ''List model folders, optionally filtered by --parent_id.'',
      te_positionals = [], te_flags = tf_mf_list, te_input = ''flags'', te_json_req = [], te_json_opt = [],
      te_success = suc_arr\<rparr>,
     \<lparr>te_command = ''model_folder.count'', te_entity = ''model_folder'', te_action = ''count'',
      te_aliases = [], te_description = ''Count model folders, optionally filtered by --parent_id.'',
      te_positionals = [], te_flags = tf_parent_id, te_input = ''flags'', te_json_req = [], te_json_opt = [],
      te_success = suc_int\<rparr>,
     \<lparr>te_command = ''model_folder.rename'', te_entity = ''model_folder'', te_action = ''rename'',
      te_aliases = [], te_description = ''Rename a model folder.'', te_positionals = tp_id,
      te_flags = tf_name, te_input = ''flags'', te_json_req = [], te_json_opt = [],
      te_success = suc_id\<rparr>,
     \<lparr>te_command = ''model_folder.delete'', te_entity = ''model_folder'', te_action = ''delete'',
      te_aliases = [], te_description = ''Soft-delete a model folder.'', te_positionals = tp_id,
      te_flags = [], te_input = ''positional'', te_json_req = [], te_json_opt = [],
      te_success = suc_deleted\<rparr>,
     \<lparr>te_command = ''model_folder.restore'', te_entity = ''model_folder'', te_action = ''restore'',
      te_aliases = [], te_description = ''Restore a soft-deleted model folder.'', te_positionals = tp_id,
      te_flags = [], te_input = ''positional'', te_json_req = [], te_json_opt = [],
      te_success = suc_id_restored\<rparr>,
     \<lparr>te_command = ''model_folder.move'', te_entity = ''model_folder'', te_action = ''move'',
      te_aliases = [], te_description = ''Move a model folder to a parent (0 = root).'',
      te_positionals = tp_id, te_flags = tf_parent_id_req, te_input = ''flags'', te_json_req = [],
      te_json_opt = [], te_success = suc_id_parent\<rparr>,
     \<lparr>te_command = ''model_folder.help'', te_entity = ''model_folder'', te_action = ''help'',
      te_aliases = [], te_description = ''Show the model_folder usage text.'', te_positionals = [],
      te_flags = [], te_input = ''none'', te_json_req = [], te_json_opt = [], te_success = suc_plain\<rparr>]"

definition model_revision_tools :: "tool_entry_t list" where
  "model_revision_tools =
    [\<lparr>te_command = ''model_revision.get'', te_entity = ''model_revision'', te_action = ''get'',
      te_aliases = [], te_description = ''Fetch a model revision by id.'', te_positionals = tp_id,
      te_flags = [], te_input = ''positional'', te_json_req = [], te_json_opt = [],
      te_success = suc_obj\<rparr>,
     \<lparr>te_command = ''model_revision.get-latest'', te_entity = ''model_revision'',
      te_action = ''get-latest'', te_aliases = [],
      te_description = ''Fetch the latest revision of a model.'', te_positionals = tp_model_id,
      te_flags = [], te_input = ''positional'', te_json_req = [], te_json_opt = [],
      te_success = suc_obj\<rparr>,
     \<lparr>te_command = ''model_revision.list'', te_entity = ''model_revision'', te_action = ''list'',
      te_aliases = [], te_description = ''List revisions of a model.'', te_positionals = tp_model_id,
      te_flags = tf_rev_list_inc, te_input = ''positional|flags'', te_json_req = [], te_json_opt = [],
      te_success = suc_arr\<rparr>,
     \<lparr>te_command = ''model_revision.count'', te_entity = ''model_revision'', te_action = ''count'',
      te_aliases = [], te_description = ''Count revisions of a model.'', te_positionals = tp_model_id,
      te_flags = tf_rev_count_inc, te_input = ''positional|flags'', te_json_req = [], te_json_opt = [],
      te_success = suc_int\<rparr>,
     \<lparr>te_command = ''model_revision.help'', te_entity = ''model_revision'', te_action = ''help'',
      te_aliases = [], te_description = ''Show the model_revision usage text.'', te_positionals = [],
      te_flags = [], te_input = ''none'', te_json_req = [], te_json_opt = [], te_success = suc_plain\<rparr>]"

definition skill_tools :: "tool_entry_t list" where
  "skill_tools =
    [\<lparr>te_command = ''skill.create'', te_entity = ''skill'', te_action = ''create'', te_aliases = [],
      te_description = ''Create a skill from flags or a JSON body.'', te_positionals = [],
      te_flags = tf_skill_create, te_input = ''flags|json'', te_json_req = jk_skill_req,
      te_json_opt = jk_skill_opt, te_success = suc_id\<rparr>,
     \<lparr>te_command = ''skill.get'', te_entity = ''skill'', te_action = ''get'', te_aliases = [],
      te_description = ''Fetch a skill by id (--include_deleted, alias --deleted, returns soft-deleted rows).'',
      te_positionals = tp_id, te_flags = tf_inc_del, te_input = ''positional'', te_json_req = [],
      te_json_opt = [], te_success = suc_obj\<rparr>,
     \<lparr>te_command = ''skill.update'', te_entity = ''skill'', te_action = ''update'', te_aliases = [],
      te_description = (''Update one or more skill fields; at least one field is required (flags or JSON). '' @
      ''JSON cannot move a skill back to the root folder (use '' @ [CHR 0x27] @
      ''skill move <id> --folder_id 0'' @ [CHR 0x27] @ '').''), te_positionals = tp_id,
      te_flags = tf_skill_update, te_input = ''flags|json'', te_json_req = [], te_json_opt = jk_skill_upd,
      te_success = suc_id\<rparr>,
     \<lparr>te_command = ''skill.delete'', te_entity = ''skill'', te_action = ''delete'', te_aliases = [],
      te_description = ''Soft-delete a skill.'', te_positionals = tp_id, te_flags = [],
      te_input = ''positional'', te_json_req = [], te_json_opt = [], te_success = suc_deleted\<rparr>,
     \<lparr>te_command = ''skill.restore'', te_entity = ''skill'', te_action = ''restore'',
      te_aliases = [], te_description = ''Restore a soft-deleted skill.'', te_positionals = tp_id,
      te_flags = [], te_input = ''positional'', te_json_req = [], te_json_opt = [],
      te_success = suc_id_restored\<rparr>,
     \<lparr>te_command = ''skill.move'', te_entity = ''skill'', te_action = ''move'', te_aliases = [],
      te_description = ''Move a skill to a folder (0 = root).'', te_positionals = tp_id,
      te_flags = tf_folder_id, te_input = ''flags'', te_json_req = [], te_json_opt = [],
      te_success = suc_id_folder\<rparr>,
     \<lparr>te_command = ''skill.list'', te_entity = ''skill'', te_action = ''list'', te_aliases = [],
      te_description = (''List skills, optionally filtered by folder (--all is the default scope: no-op alone, '' @
      ''wins over --folder_id when combined).''), te_positionals = [], te_flags = tf_skill_list,
      te_input = ''flags'', te_json_req = [], te_json_opt = [], te_success = suc_arr\<rparr>,
     \<lparr>te_command = ''skill.count'', te_entity = ''skill'', te_action = ''count'', te_aliases = [],
      te_description = (''Count skills, optionally filtered by folder (--all is the default scope: no-op '' @
      ''alone, wins over --folder_id when combined).''), te_positionals = [], te_flags = tf_skill_count,
      te_input = ''flags'', te_json_req = [], te_json_opt = [], te_success = suc_int\<rparr>,
     \<lparr>te_command = ''skill.help'', te_entity = ''skill'', te_action = ''help'', te_aliases = [],
      te_description = ''Show the skill usage text.'', te_positionals = [], te_flags = [],
      te_input = ''none'', te_json_req = [], te_json_opt = [], te_success = suc_plain\<rparr>]"

definition skill_folder_tools :: "tool_entry_t list" where
  "skill_folder_tools =
    [\<lparr>te_command = ''skill_folder.create'', te_entity = ''skill_folder'', te_action = ''create'',
      te_aliases = [],
      te_description = ''Create a skill folder from flags or a JSON body (parent_id 0 or omitted = root).'',
      te_positionals = [], te_flags = tf_folder_create, te_input = ''flags|json'',
      te_json_req = jk_folder_req, te_json_opt = jk_folder_opt, te_success = suc_id\<rparr>,
     \<lparr>te_command = ''skill_folder.get'', te_entity = ''skill_folder'', te_action = ''get'',
      te_aliases = [], te_description = ''Fetch a skill folder by id.'', te_positionals = tp_id,
      te_flags = [], te_input = ''positional'', te_json_req = [], te_json_opt = [],
      te_success = suc_obj\<rparr>,
     \<lparr>te_command = ''skill_folder.list'', te_entity = ''skill_folder'', te_action = ''list'',
      te_aliases = [],
      te_description = (''List skill folders; the parent filter is the optional positional <parent_id> ('' @
      [CHR 0x27] @ ''all'' @ [CHR 0x27] @ '' = all folders), not a --parent_id flag.''),
      te_positionals = tp_sf_parent, te_flags = tf_sf_list, te_input = ''positional|flags'',
      te_json_req = [], te_json_opt = [], te_success = suc_arr\<rparr>,
     \<lparr>te_command = ''skill_folder.count'', te_entity = ''skill_folder'', te_action = ''count'',
      te_aliases = [],
      te_description = (''Count skill folders; the parent filter is the optional positional <parent_id> ('' @
      [CHR 0x27] @ ''all'' @ [CHR 0x27] @ '' = all folders), not a --parent_id flag.''),
      te_positionals = tp_sf_parent, te_flags = [], te_input = ''positional'', te_json_req = [],
      te_json_opt = [], te_success = suc_int\<rparr>,
     \<lparr>te_command = ''skill_folder.rename'', te_entity = ''skill_folder'', te_action = ''rename'',
      te_aliases = [], te_description = ''Rename a skill folder.'', te_positionals = tp_id,
      te_flags = tf_name, te_input = ''flags'', te_json_req = [], te_json_opt = [],
      te_success = suc_id\<rparr>,
     \<lparr>te_command = ''skill_folder.delete'', te_entity = ''skill_folder'', te_action = ''delete'',
      te_aliases = [], te_description = ''Soft-delete a skill folder.'', te_positionals = tp_id,
      te_flags = [], te_input = ''positional'', te_json_req = [], te_json_opt = [],
      te_success = suc_deleted\<rparr>,
     \<lparr>te_command = ''skill_folder.restore'', te_entity = ''skill_folder'', te_action = ''restore'',
      te_aliases = [], te_description = ''Restore a soft-deleted skill folder.'', te_positionals = tp_id,
      te_flags = [], te_input = ''positional'', te_json_req = [], te_json_opt = [],
      te_success = suc_id_restored\<rparr>,
     \<lparr>te_command = ''skill_folder.move'', te_entity = ''skill_folder'', te_action = ''move'',
      te_aliases = [], te_description = ''Move a skill folder to a parent (0 = root).'',
      te_positionals = tp_id, te_flags = tf_parent_id, te_input = ''flags'', te_json_req = [],
      te_json_opt = [], te_success = suc_id_parent\<rparr>,
     \<lparr>te_command = ''skill_folder.help'', te_entity = ''skill_folder'', te_action = ''help'',
      te_aliases = [], te_description = ''Show the skill_folder usage text.'', te_positionals = [],
      te_flags = [], te_input = ''none'', te_json_req = [], te_json_opt = [], te_success = suc_plain\<rparr>]"

definition skill_revision_tools :: "tool_entry_t list" where
  "skill_revision_tools =
    [\<lparr>te_command = ''skill_revision.get'', te_entity = ''skill_revision'', te_action = ''get'',
      te_aliases = [], te_description = ''Fetch a skill revision by id.'', te_positionals = tp_id,
      te_flags = [], te_input = ''positional'', te_json_req = [], te_json_opt = [],
      te_success = suc_obj\<rparr>,
     \<lparr>te_command = ''skill_revision.get-latest'', te_entity = ''skill_revision'',
      te_action = ''get-latest'', te_aliases = [],
      te_description = ''Fetch the latest revision of a skill.'', te_positionals = tp_skill_id,
      te_flags = [], te_input = ''positional'', te_json_req = [], te_json_opt = [],
      te_success = suc_obj\<rparr>,
     \<lparr>te_command = ''skill_revision.list'', te_entity = ''skill_revision'', te_action = ''list'',
      te_aliases = [], te_description = ''List revisions of a skill.'', te_positionals = tp_skill_id,
      te_flags = tf_rev_list, te_input = ''positional|flags'', te_json_req = [], te_json_opt = [],
      te_success = suc_arr\<rparr>,
     \<lparr>te_command = ''skill_revision.count'', te_entity = ''skill_revision'', te_action = ''count'',
      te_aliases = [], te_description = ''Count revisions of a skill.'', te_positionals = tp_skill_id,
      te_flags = [], te_input = ''positional'', te_json_req = [], te_json_opt = [],
      te_success = suc_int\<rparr>,
     \<lparr>te_command = ''skill_revision.help'', te_entity = ''skill_revision'', te_action = ''help'',
      te_aliases = [], te_description = ''Show the skill_revision usage text.'', te_positionals = [],
      te_flags = [], te_input = ''none'', te_json_req = [], te_json_opt = [], te_success = suc_plain\<rparr>]"

definition exec_tools :: "tool_entry_t list" where
  "exec_tools =
    [\<lparr>te_command = ''exec.create'', te_entity = ''exec'', te_action = ''create'',
      te_aliases = alias_execution,
      te_description = (''Create an execution from flags or a JSON body. The row is always created '' @
      [CHR 0x27] @ ''pending'' @ [CHR 0x27] @ ''; --status (flag or JSON key) is rejected '' @
      [CHR 0xE2, CHR 0x80, CHR 0x94] @
      '' later states are reached via start/complete/fail/cancel. No prompt input: the '' @
      ''--prompt flag and '' @ [CHR 0x27] @ ''prompt'' @ [CHR 0x27] @
      '' JSON key are rejected (the prompt comes from the skill revision'' @ [CHR 0x27] @
      ''s prompt_template, the user message from the context'' @ [CHR 0x27] @
      ''s content). The canonical entity name is '' @ [CHR 0x27] @ ''exec'' @ [CHR 0x27] @
      '' (dispatch rejects the alias '' @ [CHR 0x27] @ ''execution'' @ [CHR 0x27] @ '').''),
      te_positionals = [], te_flags = tf_exec_create, te_input = ''flags|json'', te_json_req = jk_exec_req,
      te_json_opt = jk_exec_opt, te_success = suc_exec_create\<rparr>,
     \<lparr>te_command = ''exec.get'', te_entity = ''exec'', te_action = ''get'',
      te_aliases = alias_execution,
      te_description = (''Fetch an execution by id (--include_deleted, alias --deleted, returns soft-deleted '' @
      ''rows). (Canonical entity name is '' @ [CHR 0x27] @ ''exec'' @ [CHR 0x27] @
      ''; dispatch rejects the alias '' @ [CHR 0x27] @ ''execution'' @ [CHR 0x27] @ ''.)''),
      te_positionals = tp_id, te_flags = tf_inc_del, te_input = ''positional'', te_json_req = [],
      te_json_opt = [], te_success = suc_obj\<rparr>,
     \<lparr>te_command = ''exec.delete'', te_entity = ''exec'', te_action = ''delete'',
      te_aliases = alias_execution, te_description = (''Soft-delete an execution. Refused from the '' @
      [CHR 0x27] @ ''running'' @ [CHR 0x27] @
      '' state (exit 4) and on already-deleted rows (exit 1). (Canonical entity name is '' @ [CHR 0x27] @
      ''exec'' @ [CHR 0x27] @ ''; dispatch rejects the alias '' @ [CHR 0x27] @ ''execution'' @ [CHR 0x27] @
      '').''), te_positionals = tp_id, te_flags = [], te_input = ''positional'', te_json_req = [],
      te_json_opt = [], te_success = suc_deleted\<rparr>,
     \<lparr>te_command = ''exec.restore'', te_entity = ''exec'', te_action = ''restore'',
      te_aliases = alias_execution,
      te_description = (''Restore a soft-deleted execution (the status is untouched). (Canonical entity name is '' @
      [CHR 0x27] @ ''exec'' @ [CHR 0x27] @ ''; dispatch rejects the alias '' @ [CHR 0x27] @ ''execution'' @
      [CHR 0x27] @ '').''), te_positionals = tp_id, te_flags = [], te_input = ''positional'',
      te_json_req = [], te_json_opt = [], te_success = suc_id_restored\<rparr>,
     \<lparr>te_command = ''exec.start'', te_entity = ''exec'', te_action = ''start'',
      te_aliases = alias_execution,
      te_description = (''Start an execution (pending -> running). (Canonical entity name is '' @
      [CHR 0x27] @ ''exec'' @ [CHR 0x27] @ ''; dispatch rejects the alias '' @ [CHR 0x27] @ ''execution'' @
      [CHR 0x27] @ ''.)''), te_positionals = tp_id, te_flags = [], te_input = ''positional'',
      te_json_req = [], te_json_opt = [], te_success = suc_status_running\<rparr>,
     \<lparr>te_command = ''exec.cancel'', te_entity = ''exec'', te_action = ''cancel'',
      te_aliases = alias_execution, te_description = (''Cancel an execution. (Canonical entity name is '' @
      [CHR 0x27] @ ''exec'' @ [CHR 0x27] @ ''; dispatch rejects the alias '' @ [CHR 0x27] @ ''execution'' @
      [CHR 0x27] @ ''.)''), te_positionals = tp_id, te_flags = [], te_input = ''positional'',
      te_json_req = [], te_json_opt = [], te_success = suc_status_cancelled\<rparr>,
     \<lparr>te_command = ''exec.complete'', te_entity = ''exec'', te_action = ''complete'',
      te_aliases = alias_execution, te_description = (''Complete an execution. (Canonical entity name is '' @
      [CHR 0x27] @ ''exec'' @ [CHR 0x27] @ ''; dispatch rejects the alias '' @ [CHR 0x27] @ ''execution'' @
      [CHR 0x27] @ ''.)''), te_positionals = tp_id, te_flags = tf_exec_complete, te_input = ''flags'',
      te_json_req = [], te_json_opt = [], te_success = suc_status_completed\<rparr>,
     \<lparr>te_command = ''exec.fail'', te_entity = ''exec'', te_action = ''fail'',
      te_aliases = alias_execution, te_description = (''Fail an execution. (Canonical entity name is '' @
      [CHR 0x27] @ ''exec'' @ [CHR 0x27] @ ''; dispatch rejects the alias '' @ [CHR 0x27] @ ''execution'' @
      [CHR 0x27] @ ''.)''), te_positionals = tp_id, te_flags = tf_exec_fail, te_input = ''flags'',
      te_json_req = [], te_json_opt = [], te_success = suc_status_failed\<rparr>,
     \<lparr>te_command = ''exec.reset'', te_entity = ''exec'', te_action = ''reset'',
      te_aliases = alias_execution,
      te_description = (''Reset a failed execution to pending (retry); clears error, raw response and timing, '' @
      ''keeps the execution_log audit trail. (Canonical entity name is '' @ [CHR 0x27] @ ''exec'' @
      [CHR 0x27] @ ''; dispatch rejects the alias '' @ [CHR 0x27] @ ''execution'' @ [CHR 0x27] @ '').''),
      te_positionals = tp_id, te_flags = [], te_input = ''positional'', te_json_req = [], te_json_opt = [],
      te_success = suc_status_pending\<rparr>,
     \<lparr>te_command = ''exec.set-raw'', te_entity = ''exec'', te_action = ''set-raw'',
      te_aliases = alias_execution,
      te_description = (''Set the raw model response on an execution. Status is unchanged; the success line '' @
      ''echoes the current status. (Canonical entity name is '' @ [CHR 0x27] @ ''exec'' @ [CHR 0x27] @
      ''; dispatch rejects the alias '' @ [CHR 0x27] @ ''execution'' @ [CHR 0x27] @ ''.)''),
      te_positionals = tp_id, te_flags = tf_raw, te_input = ''flags'', te_json_req = [], te_json_opt = [],
      te_success = suc_set_raw\<rparr>,
     \<lparr>te_command = ''exec.list'', te_entity = ''exec'', te_action = ''list'',
      te_aliases = alias_execution,
      te_description = (''List executions, optionally filtered by status and refs. (Canonical entity name is '' @
      [CHR 0x27] @ ''exec'' @ [CHR 0x27] @ ''; dispatch rejects the alias '' @ [CHR 0x27] @ ''execution'' @
      [CHR 0x27] @ ''.)''), te_positionals = [], te_flags = tf_exec_list, te_input = ''flags'',
      te_json_req = [], te_json_opt = [], te_success = suc_exec_list\<rparr>,
     \<lparr>te_command = ''exec.count'', te_entity = ''exec'', te_action = ''count'',
      te_aliases = alias_execution,
      te_description = (''Count executions, optionally filtered by status and refs. (Canonical entity name is '' @
      [CHR 0x27] @ ''exec'' @ [CHR 0x27] @ ''; dispatch rejects the alias '' @ [CHR 0x27] @ ''execution'' @
      [CHR 0x27] @ ''.)''), te_positionals = [], te_flags = tf_exec_count, te_input = ''flags'',
      te_json_req = [], te_json_opt = [], te_success = suc_int\<rparr>,
     \<lparr>te_command = ''exec.help'', te_entity = ''exec'', te_action = ''help'',
      te_aliases = alias_execution,
      te_description = (''Show the exec usage text. (Canonical entity name is '' @ [CHR 0x27] @ ''exec'' @
      [CHR 0x27] @ ''; dispatch rejects the alias '' @ [CHR 0x27] @ ''execution'' @ [CHR 0x27] @ ''.)''),
      te_positionals = [], te_flags = [], te_input = ''none'', te_json_req = [], te_json_opt = [],
      te_success = suc_plain\<rparr>]"

definition log_tools :: "tool_entry_t list" where
  "log_tools =
    [\<lparr>te_command = ''log.create'', te_entity = ''log'', te_action = ''create'',
      te_aliases = alias_execution_log,
      te_description = (''Create an execution log entry from flags or a JSON body. level must be one of: '' @
      ''debug, info, warn, error. The canonical entity name is '' @ [CHR 0x27] @ ''log'' @ [CHR 0x27] @
      '' (dispatch rejects the alias '' @ [CHR 0x27] @ ''execution_log'' @ [CHR 0x27] @ '').''),
      te_positionals = [], te_flags = tf_log_create, te_input = ''flags|json'', te_json_req = jk_log_req,
      te_json_opt = jk_log_opt, te_success = suc_id\<rparr>,
     \<lparr>te_command = ''log.get'', te_entity = ''log'', te_action = ''get'',
      te_aliases = alias_execution_log,
      te_description = (''Fetch a log entry by id. (Canonical entity name is '' @ [CHR 0x27] @ ''log'' @
      [CHR 0x27] @ ''; dispatch rejects the alias '' @ [CHR 0x27] @ ''execution_log'' @ [CHR 0x27] @ ''.)''),
      te_positionals = tp_id, te_flags = [], te_input = ''positional'', te_json_req = [], te_json_opt = [],
      te_success = suc_obj\<rparr>,
     \<lparr>te_command = ''log.list'', te_entity = ''log'', te_action = ''list'',
      te_aliases = alias_execution_log,
      te_description = (''List log entries of an execution, optionally filtered by level. (Canonical entity '' @
      ''name is '' @ [CHR 0x27] @ ''log'' @ [CHR 0x27] @ ''; dispatch rejects the alias '' @ [CHR 0x27] @
      ''execution_log'' @ [CHR 0x27] @ ''.)''), te_positionals = tp_exec_id, te_flags = tf_log_list,
      te_input = ''positional|flags'', te_json_req = [], te_json_opt = [], te_success = suc_arr\<rparr>,
     \<lparr>te_command = ''log.count'', te_entity = ''log'', te_action = ''count'',
      te_aliases = alias_execution_log,
      te_description = (''Count log entries of an execution, optionally filtered by level. (Canonical entity '' @
      ''name is '' @ [CHR 0x27] @ ''log'' @ [CHR 0x27] @ ''; dispatch rejects the alias '' @ [CHR 0x27] @
      ''execution_log'' @ [CHR 0x27] @ ''.)''), te_positionals = tp_exec_id, te_flags = tf_level,
      te_input = ''positional|flags'', te_json_req = [], te_json_opt = [], te_success = suc_int\<rparr>,
     \<lparr>te_command = ''log.help'', te_entity = ''log'', te_action = ''help'',
      te_aliases = alias_execution_log,
      te_description = (''Show the log usage text. (Canonical entity name is '' @ [CHR 0x27] @ ''log'' @
      [CHR 0x27] @ ''; dispatch rejects the alias '' @ [CHR 0x27] @ ''execution_log'' @ [CHR 0x27] @ ''.)''),
      te_positionals = [], te_flags = [], te_input = ''none'', te_json_req = [], te_json_opt = [],
      te_success = suc_plain\<rparr>]"

definition tool_table :: "tool_entry_t list" where
  "tool_table = db_tools @ context_tools @ model_tools @ model_folder_tools @ model_revision_tools @ skill_tools
     @ skill_folder_tools @ skill_revision_tools @ exec_tools @ log_tools"

text \<open>The number of positionals, \<open>None\<close> for \<^verbatim>\<open>-1\<close>.\<close>

definition tool_entry_positionals :: "string \<Rightarrow> string \<Rightarrow> nat option" where
  "tool_entry_positionals entity action =
     map_option (\<lambda>e. length (te_positionals e))
       (find (\<lambda>e. te_entity e = entity \<and> te_action e = action) tool_table)"

section \<open>Rendering\<close>

definition indent_line :: "nat \<Rightarrow> string" where
  "indent_line levels = concat (replicate levels ''  '')"

definition jsep :: "bool \<Rightarrow> nat \<Rightarrow> nat \<Rightarrow> string" where
  "jsep pretty level i =
     (if \<not> pretty then (if i > 0 then '', '' else [])
      else (if i > 0 then newline else []) @ indent_line level @ (if i > 0 then '','' else []))"

text \<open>
  The printers of a field of an object take the mode, the level, and the number of fields printed
  before it (the counter \<^verbatim>\<open>*i\<close>).
\<close>

type_synonym field_printer = "bool \<Rightarrow> nat \<Rightarrow> nat \<Rightarrow> string"

definition field_seq :: "bool \<Rightarrow> nat \<Rightarrow> field_printer list \<Rightarrow> string" where
  "field_seq pretty level fs = concat (map (\<lambda>(i, f). f pretty level i) (enumerate 0 fs))"

fun joined :: "string \<Rightarrow> string list \<Rightarrow> string" where
  "joined sep [] = []"
| "joined sep [x] = x"
| "joined sep (x # xs) = x @ sep @ joined sep xs"

text \<open>An array: its elements as printed on one line, and as printed with indentation.\<close>

definition jarr :: "bool \<Rightarrow> nat \<Rightarrow> ('a \<Rightarrow> string) \<Rightarrow> ('a \<Rightarrow> string) \<Rightarrow> 'a list \<Rightarrow> string" where
  "jarr pretty level flat indented a =
     (if a = [] then ''[]''
      else if \<not> pretty then ''['' @ joined '','' (map flat a) @ '']''
      else ''['' @ newline @ joined ('','' @ newline) (map indented a) @ newline @ indent_line (level - 1) @ '']'')"

definition jstrarr :: "bool \<Rightarrow> nat \<Rightarrow> string list \<Rightarrow> string" where
  "jstrarr pretty level = jarr pretty level json_str (\<lambda>v. indent_line level @ json_str v)"

definition bool_text :: "bool \<Rightarrow> string" where
  "bool_text b = (if b then ''true'' else ''false'')"

definition indented_object :: "nat \<Rightarrow> string list \<Rightarrow> string" where
  "indented_object level members =
     ''{'' @ newline @ joined ('','' @ newline) (map (\<lambda>m. indent_line (level + 1) @ m) members) @ newline
       @ indent_line level @ ''}''"

definition jflagarr :: "bool \<Rightarrow> nat \<Rightarrow> tool_flag_t list \<Rightarrow> string" where
  "jflagarr pretty level = jarr pretty level
     (\<lambda>f. ''{'' @ json_pair ''name'' (json_str (tfl_name f)) @ '','' @ json_pair ''has_value'' (bool_text (tfl_has_value f))
        @ '','' @ json_pair ''required'' (bool_text (tfl_required f)) @ ''}'')
     (\<lambda>f. indent_line level @ indented_object level
        [json_pair ''name'' (json_str (tfl_name f)), json_pair ''has_value'' (bool_text (tfl_has_value f)),
         json_pair ''required'' (bool_text (tfl_required f))])"

definition jposarr :: "bool \<Rightarrow> nat \<Rightarrow> tool_pos_t list \<Rightarrow> string" where
  "jposarr pretty level = jarr pretty level
     (\<lambda>p. ''{'' @ json_pair ''name'' (json_str (tp_name p)) @ '','' @ json_pair ''required'' (bool_text (tp_required p))
        @ '','' @ json_pair ''type'' (json_str (tp_type p)) @ ''}'')
     (\<lambda>p. indent_line level @ indented_object level
        [json_pair ''name'' (json_str (tp_name p)), json_pair ''required'' (bool_text (tp_required p)),
         json_pair ''type'' (json_str (tp_type p))])"

definition jf_str :: "string \<Rightarrow> string \<Rightarrow> field_printer" where
  "jf_str k v pretty level i = jsep pretty level i @ json_pair k (json_str v)"

definition jf_num :: "string \<Rightarrow> int \<Rightarrow> field_printer" where
  "jf_num k v pretty level i = jsep pretty level i @ json_pair k (show_int v)"

definition jf_strarr :: "string \<Rightarrow> string list \<Rightarrow> field_printer" where
  "jf_strarr k a pretty level i = jsep pretty level i @ json_pair k (jstrarr pretty (level + 1) a)"

definition jf_flagarr :: "string \<Rightarrow> tool_flag_t list \<Rightarrow> field_printer" where
  "jf_flagarr k fl pretty level i = jsep pretty level i @ json_pair k (jflagarr pretty (level + 1) fl)"

definition jf_posarr :: "string \<Rightarrow> tool_pos_t list \<Rightarrow> field_printer" where
  "jf_posarr k p pretty level i = jsep pretty level i @ json_pair k (jposarr pretty (level + 1) p)"

text \<open>An object whose members are printed the same in both modes, but for the layout.\<close>

definition jobject :: "bool \<Rightarrow> nat \<Rightarrow> string list \<Rightarrow> string" where
  "jobject pretty level members =
     (if \<not> pretty then ''{'' @ joined '','' members @ ''}'' else indented_object level members)"

definition jf_success :: "tool_success_t \<Rightarrow> field_printer" where
  "jf_success su pretty level i = jsep pretty level i @ json_pair ''success'' (jobject pretty level
     ([json_pair ''kind'' (json_str (su_kind su))]
      @ (if su_keys su = [] then [] else [json_pair ''keys'' (jstrarr pretty (level + 2) (su_keys su))])
      @ (case su_note su of None \<Rightarrow> [] | Some n \<Rightarrow> [json_pair ''note'' (json_str n)])))"

definition jf_jsonkeys :: "tool_entry_t \<Rightarrow> field_printer" where
  "jf_jsonkeys e pretty level i = jsep pretty level i @ json_pair ''json_keys'' (jobject pretty level
     [json_pair ''required'' (jstrarr pretty (level + 2) (te_json_req e)),
      json_pair ''optional'' (jstrarr pretty (level + 2) (te_json_opt e))])"

definition jf_entity_aliases :: field_printer where
  "jf_entity_aliases pretty level i = jsep pretty level i @ json_pair ''entity_aliases'' (jobject pretty level
     [json_pair ''exec'' (jstrarr pretty (level + 2) [''execution'']),
      json_pair ''log'' (jstrarr pretty (level + 2) [''execution_log''])])"

definition jf_exit_codes :: field_printer where
  "jf_exit_codes pretty level i = jsep pretty level i @ json_pair ''exit_codes'' (jobject pretty level
     (map (\<lambda>(code, meaning). json_pair code (json_str meaning)) tool_exit_codes))"

definition error_sample :: string where
  "error_sample = ''{'' @ dquoted ''error'' @ '':'' @ dquoted ''ACTA_DB_ERR_*'' @ ''|'' @ dquoted ''ACTA_CLI_ERR'' @ '',''
     @ dquoted ''code'' @ '':-<exit>,'' @ dquoted ''message'' @ '':'' @ dquoted ''...'' @ ''}''"

definition jf_error :: field_printer where
  "jf_error pretty level i = jsep pretty level i @ json_pair ''error'' (jobject pretty level
     [json_pair ''stream'' (json_str ''stderr''), json_pair ''line1'' (json_str error_sample),
      json_pair ''invariant'' (json_str ''code == -exit'')])"

definition entry_fields :: "tool_entry_t \<Rightarrow> field_printer list" where
  "entry_fields e =
     [jf_str ''command'' (te_command e), jf_str ''entity'' (te_entity e), jf_str ''action'' (te_action e),
      jf_strarr ''aliases'' (te_aliases e), jf_str ''description'' (te_description e),
      jf_posarr ''positionals'' (te_positionals e), jf_flagarr ''flags'' (te_flags e), jf_str ''input'' (te_input e)]
     @ (if te_json_req e \<noteq> [] \<or> te_json_opt e \<noteq> [] then [jf_jsonkeys e] else [])
     @ [jf_success (te_success e)]"

text \<open>\<open>t\<close> is the place of the entry, \<open>n\<close> the number of entries.\<close>

definition emit_entry :: "bool \<Rightarrow> nat \<Rightarrow> nat \<Rightarrow> tool_entry_t \<Rightarrow> string" where
  "emit_entry pretty t n e =
     (if \<not> pretty then (if t > 0 then '','' else []) @ ''{'' else ''    {'' @ newline)
     @ field_seq pretty 3 (entry_fields e)
     @ (if \<not> pretty then ''}'' else indent_line 2 @ (if t + 1 < n then ''},'' else ''}'') @ newline)"

definition top_fields :: "field_printer list" where
  "top_fields =
     [jf_str ''name'' ''acta_cli'', jf_num ''version'' 6,
      jf_str ''usage'' ''acta_cli [global flags] <entity> <action> [args]'', jf_flagarr ''global_flags'' global_flags,
      jf_entity_aliases, jf_strarr ''input_sources'' input_sources, jf_exit_codes, jf_error]"

definition tools_print :: "bool \<Rightarrow> string" where
  "tools_print pretty =
     (let entries = concat (map (\<lambda>(t, e). emit_entry pretty t (length tool_table) e) (enumerate 0 tool_table))
      in (if pretty then ''{'' @ newline else ''{'')
         @ field_seq pretty 1 top_fields @ jsep pretty 1 (length top_fields) @ dquoted ''tools'' @ '':''
         @ (if \<not> pretty then ''['' @ entries @ '']'' else ''['' @ newline @ entries @ ''  ]'')
         @ (if pretty then newline @ ''}'' @ newline else ''}'' @ newline))"

section \<open>The compact text\<close>

definition compact_flags :: "tool_flag_t list \<Rightarrow> string" where
  "compact_flags fl = joined '','' (map (\<lambda>f. tfl_name f @ (if tfl_required f then ''*'' else [])) fl)"

definition compact_pos :: "tool_pos_t list \<Rightarrow> string" where
  "compact_pos ps = joined '','' (map (\<lambda>p. tp_name p @ (if tp_type p \<noteq> [] then ''('' @ tp_type p @ '')'' else [])
     @ (if tp_required p then ''*'' else [])) ps)"

definition compact_line :: "tool_entry_t \<Rightarrow> string" where
  "compact_line e =
     te_command e @ ''  pos:'' @ (if te_positionals e \<noteq> [] then compact_pos (te_positionals e) else ''-'')
     @ ''  flags:'' @ (if te_flags e \<noteq> [] then compact_flags (te_flags e) else ''-'')
     @ (if te_json_req e \<noteq> [] \<or> te_json_opt e \<noteq> []
        then ''  json:'' @ joined '','' (map (\<lambda>k. k @ ''*'') (te_json_req e))
             @ (if te_json_opt e \<noteq> []
                then (if te_json_req e \<noteq> [] then '' / '' else []) @ joined '','' (te_json_opt e) else [])
        else [])
     @ ''  input:'' @ te_input e
     @ (if te_aliases e \<noteq> [] then ''  aliases:'' @ joined '','' (te_aliases e) else []) @ newline"

definition tools_print_compact :: string where
  "tools_print_compact =
     ''# acta_cli tools v5 (compact); full JSON: --tools'' @ newline
     @ ''usage: acta_cli [global flags] <entity> <action> [args]'' @ newline
     @ ''globals: --db --fields --no_nulls --id_only --count --table --pretty --json --stdin --from_file --out --raw_out ''
     @ ''--version --help --tools --compact --verbose'' @ newline
     @ ''input_sources: json,stdin,from_file (mutually exclusive)'' @ newline
     @ ''error: stderr '' @ error_sample @ '' (code == -exit)'' @ newline
     @ ''exits: 0 ok | 1 not found | 2 SQL error | 3 OOM | 4 invalid arg / missing flag / missing required field / ''
     @ ''duplicate / FK violation / invalid DB file | 10 CLI usage error | 11 DB open failed'' @ newline
     @ ''# command  pos  flags  json  input  aliases   (* = required)'' @ newline
     @ concat (map compact_line tool_table)"

end
