(* ===== verification/Cli_Main.thy ===== *)
theory Cli_Main
  imports Cli_Args Cli_Db Cli_Tools Cli_Folders Cli_Contexts Cli_Executions Cli_Models Cli_Skills Dbpath
begin

text \<open>
  \<^verbatim>\<open>acta_cli/src/commands.c\<close> and \<^verbatim>\<open>acta_cli/src/cli_main.c\<close>: the table of
  entities, the dispatcher with its two checks for arguments nobody reads, and the whole run of a
  command line. \<open>main_host\<close> is what the process meets before and after the handler: the host of
  \<open>Dbpath\<close>, the file of \<^verbatim>\<open>--out\<close>, opening and closing the database, memory for the arguments.
\<close>

section \<open>The entities\<close>

type_synonym handler = "cli_env \<Rightarrow> db_host \<Rightarrow> cli_opts \<Rightarrow> string \<Rightarrow> cli \<Rightarrow> (int \<times> cli) option"

definition entity_table :: "(string \<times> handler) list" where
  "entity_table =
     [(''db'', cmd_db),
      (''context'', \<lambda>E H. cmd_context E),
      (''model'', \<lambda>E H. cmd_model E),
      (''model_folder'', \<lambda>E H. cmd_model_folder E),
      (''model_revision'', \<lambda>E H. cmd_model_revision E),
      (''skill'', \<lambda>E H. cmd_skill E),
      (''skill_folder'', \<lambda>E H. cmd_skill_folder E),
      (''skill_revision'', \<lambda>E H. cmd_skill_rev E),
      (''exec'', \<lambda>E H. cmd_exec E),
      (''log'', \<lambda>E H. cmd_execution_log E)]"

text \<open>The other two columns: the whole help, and the help of an action.\<close>

definition entity_texts :: "(string \<times> string \<times> (string \<times> string) list) list" where
  "entity_texts =
     [(''db'', ''db_usage'', db_help),
      (''context'', ''ctx_usage'', context_help),
      (''model'', ''model_usage'', model_help),
      (''model_folder'', ''model_folder_usage'', model_folder_help),
      (''model_revision'', ''model_revision_usage'', model_revision_help),
      (''skill'', ''skill_usage'', skill_help),
      (''skill_folder'', ''skill_folder_usage'', skill_folder_help),
      (''skill_revision'', ''skill_rev_usage'', skill_revision_help),
      (''exec'', ''exec_usage'', exec_help),
      (''log'', ''execution_log_usage'', log_help)]"

definition lookup_entity :: "string \<Rightarrow> handler option" where
  "lookup_entity entity = map_of entity_table entity"

definition cli_quotes :: "string \<Rightarrow> string" where
  "cli_quotes t = [CHR 0x27] @ t @ [CHR 0x27]"

definition entity_not_found :: "string \<Rightarrow> cli \<Rightarrow> int \<times> cli" where
  "entity_not_found entity s =
     (case emit_cli_error (snprintf 128 (''unknown entity: '' @ entity)) s of (rc, s1) \<Rightarrow>
        (rc, case closest_name entity (map fst entity_table) of
               None \<Rightarrow> s1
             | Some guess \<Rightarrow> complain (''  Did you mean '' @ cli_quotes guess @ ''?'' @ newline) s1))"

definition entity_help :: "string \<Rightarrow> string option \<Rightarrow> cli \<Rightarrow> int \<times> cli" where
  "entity_help entity action s =
     (case map_of entity_texts entity of
        None \<Rightarrow> entity_not_found entity s
      | Some (full, sections) \<Rightarrow>
          (case action of
             None \<Rightarrow> (EXIT_OK, show_usage full s)
           | Some a \<Rightarrow>
               if a = ''help'' then (EXIT_OK, show_usage full s)
               else (case map_of sections a of
                  Some section \<Rightarrow> (EXIT_OK, show_usage section s)
                | None \<Rightarrow>
                    (case emit_cli_error (snprintf 128 (''unknown action: '' @ a)) s of (rc, s1) \<Rightarrow>
                       (rc, complain (''Unknown action '' @ cli_quotes a @ ''.'' @ newline
                              @ ''  Run '' @ cli_quotes (''acta_cli '' @ entity @ '' help'') @ '' for full usage.'' @ newline) s1)))))"

section \<open>Dispatch\<close>

definition unexpected_argument :: "string \<Rightarrow> string \<Rightarrow> cli \<Rightarrow> int \<times> cli" where
  "unexpected_argument entity extra s =
     (case emit_cli_error (snprintf 256 (''unexpected argument: '' @ cli_quotes extra)) s of (_, s1) \<Rightarrow>
        (EXIT_CLI, complain (''  Run '' @ cli_quotes (''acta_cli '' @ entity @ '' help'') @ '' for usage.'' @ newline) s1))"

text \<open>The number of positionals an action takes; the help action takes one more than the table says.\<close>

definition expected_positionals :: "string \<Rightarrow> string \<Rightarrow> nat option" where
  "expected_positionals entity action =
     map_option (\<lambda>n. if action = ''help'' then 1 else n) (tool_entry_positionals entity action)"

text \<open>The argument rejected before the handler runs.\<close>

definition surplus_positional :: "string \<Rightarrow> string \<Rightarrow> cli_args_t \<Rightarrow> string option" where
  "surplus_positional entity action ga =
     (case expected_positionals entity action of
        None \<Rightarrow> None
      | Some n \<Rightarrow> if cmd_args_count_positionals ga > n then cmd_args_kth_positional ga n else None)"

definition leftover_check :: "string \<Rightarrow> int \<times> cli \<Rightarrow> int \<times> cli" where
  "leftover_check entity r =
     (case r of (rc, s) \<Rightarrow>
        if rc = EXIT_OK
        then (case cli_next_positional (cl_args s) of
                (None, it) \<Rightarrow> (rc, s\<lparr>cl_args := it\<rparr>)
              | (Some extra, it) \<Rightarrow> unexpected_argument entity extra (s\<lparr>cl_args := it\<rparr>))
        else (rc, s))"

definition cli_dispatch ::
  "cli_env \<Rightarrow> db_host \<Rightarrow> cli_opts \<Rightarrow> string \<Rightarrow> string \<Rightarrow> cli \<Rightarrow> (int \<times> cli) option" where
  "cli_dispatch E H g entity action s =
     (case lookup_entity entity of
        None \<Rightarrow> Some (entity_not_found entity s)
      | Some fn \<Rightarrow>
          (case surplus_positional entity action (cl_args s) of
             Some extra \<Rightarrow> Some (unexpected_argument entity extra s)
           | None \<Rightarrow> map_option (leftover_check entity) (fn E H g action s)))"

section \<open>A run\<close>

datatype out_answer = Out_ok | Out_unopened | Out_unredirected

record main_host =
  mh_host :: host
  mh_args_mem :: bool
  mh_out :: "string \<Rightarrow> out_answer"
  mh_open :: "string \<Rightarrow> int \<Rightarrow> open_env"
  mh_close :: "db_t \<Rightarrow> sql_rc"
  mh_git_hash :: string

text \<open>
  What a run leaves: the exit code, the two streams, the file of \<^verbatim>\<open>--out\<close>, and the database
  as the handler left it. \<open>cl_db\<close> has no meaning before the open; \<open>no_db\<close> stands there.
\<close>

record cli_result =
  cr_code :: int
  cr_out :: "chunk list"
  cr_err :: "chunk list"
  cr_payload :: "(string \<times> chunk list) option"
  cr_db :: "db_t option"
  cr_files :: "string \<Rightarrow> store option"

definition no_db :: db_t where
  "no_db = \<lparr>store = empty_store, saved = None, engine = [], clock = [], engine_msg = [], last_error = None,
     in_transaction = False, path = []\<rparr>"

definition cli_start :: "(string \<Rightarrow> store option) \<Rightarrow> cli" where
  "cli_start files = \<lparr>cl_db = no_db, cl_args = \<lparr>ga_argv = [], ga_pos = 0\<rparr>, cl_out = [], cl_err = [], cl_files = files\<rparr>"

text \<open>The end without a database, and with one; \<open>out_path\<close> is the file stdout goes to.\<close>

definition cli_ends :: "string option \<Rightarrow> int \<times> cli \<Rightarrow> cli_result" where
  "cli_ends out_path r =
     (case r of (code, s) \<Rightarrow>
        \<lparr>cr_code = code, cr_out = (if out_path = None then cl_out s else []), cr_err = cl_err s,
         cr_payload = map_option (\<lambda>p. (p, cl_out s)) out_path, cr_db = None, cr_files = cl_files s\<rparr>)"

definition close_db :: "main_host \<Rightarrow> cli \<Rightarrow> cli" where
  "close_db M s =
     (case acta_db_close (mh_close M (cl_db s)) (cl_db s) of (close_rc, _) \<Rightarrow>
        if close_rc \<noteq> ACTA_DB_OK
        then complain (''[warn] db close returned '' @ acta_db_strerror close_rc @ newline) s else s)"

definition version_print :: "db_host \<Rightarrow> string \<Rightarrow> string" where
  "version_print H hash =
     ''acta_cli 0.1.0 ('' @ hash @ '' | libacta_db, sqlite '' @ dh_libversion H @ '')'' @ newline"

text \<open>
  The message for a database that cannot be opened. The hint is written behind the first part; if that
  part did not fit its 2048 bytes, the C call writes out of the buffer, and there is no message.
\<close>

definition cli_open_message :: "host \<Rightarrow> string \<Rightarrow> int \<Rightarrow> string option" where
  "cli_open_message N db_path db_err =
     (let msg = ''cannot open database '' @ cli_quotes db_path @ '' ('' @ acta_db_strerror db_err
            @ ''): check the path and that it is a valid SQLite database'';
          hint = (if db_err = ACTA_DB_ERR_INVALID_DB \<and> db_path = acta_db_default_db_path N
                  then acta_db_legacy_db_hint N 256 else None)
      in case hint of
           None \<Rightarrow> Some (snprintf 2048 msg)
         | Some h \<Rightarrow> if length msg < 2048 then Some (snprintf 2048 (msg @ '' '' @ h)) else None)"

text \<open>From the open on: \<open>None\<close> is a run that does not come to a defined end.\<close>

definition run_with_db ::
  "cli_env \<Rightarrow> db_host \<Rightarrow> main_host \<Rightarrow> cli_opts \<Rightarrow> string \<Rightarrow> string \<Rightarrow> string \<Rightarrow> cli \<Rightarrow> cli_result option" where
  "run_with_db E H M g entity action db_path s =
     (let open_mode = (if entity = ''db'' \<and> action = ''init'' then 1 else 0) in
      case acta_db_open (Some db_path) open_mode (mh_open M db_path open_mode) of
        (None, db_err, _) \<Rightarrow>
          map_option (\<lambda>msg. cli_ends (go_out_path g) (emit_db_open_error db_err msg s))
            (cli_open_message (mh_host M) db_path db_err)
      | (Some d, _, _) \<Rightarrow>
          let s1 = (case acta_db_last_error d of
                      None \<Rightarrow> s
                    | Some n \<Rightarrow> complain (''[warn] db opened with degraded pragma state: '' @ n @ newline) s)
          in map_option (\<lambda>(rc, s2). (cli_ends (go_out_path g) (rc, close_db M s2))\<lparr>cr_db := Some (cl_db s2)\<rparr>)
               (cli_dispatch E H g entity action (s1\<lparr>cl_db := d\<rparr>)))"

definition run_action ::
  "cli_env \<Rightarrow> db_host \<Rightarrow> main_host \<Rightarrow> cli_opts \<Rightarrow> string list \<Rightarrow> cli \<Rightarrow> cli_result option" where
  "run_action E H M g argv s0 =
     (let entity = argv ! 0; action = argv ! 1;
          s = s0\<lparr>cl_args := \<lparr>ga_argv = drop 2 (apply_flag_aliases argv), ga_pos = 0\<rparr>\<rparr>
      in case cli_args_validate (cl_args s) s of (vrc, s1) \<Rightarrow>
         if vrc \<noteq> EXIT_OK then Some (cli_ends None (vrc, s1))
         else if go_raw_out g \<noteq> None \<and> \<not> ((entity = ''context'' \<or> entity = ''exec'') \<and> action = ''get'')
         then Some (cli_ends None (emit_cli_error (''--raw_out only supported by '' @ cli_quotes ''context get'' @ '' and ''
                @ cli_quotes ''exec get'') s1))
         else (case map_option (\<lambda>p. (p, mh_out M p)) (go_out_path g) of
           Some (p, Out_unopened) \<Rightarrow>
             Some (cli_ends None (emit_cli_error (snprintf 256 (''cannot open output file '' @ cli_quotes p)) s1))
         | Some (p, Out_unredirected) \<Rightarrow>
             Some ((cli_ends None (emit_cli_error (snprintf 256 (''cannot redirect stdout to '' @ cli_quotes p)) s1))
                     \<lparr>cr_payload := Some (p, [])\<rparr>)
         | _ \<Rightarrow>
             (case acta_db_resolve_db_path (mh_host M) (go_db g) of
                Inl conf_err \<Rightarrow>
                  Some (cli_ends (go_out_path g)
                    (emit_cli_error (case conf_err of None \<Rightarrow> ''config file is invalid'' | Some m \<Rightarrow> m) s1))
              | Inr db_path \<Rightarrow> run_with_db E H M g entity action db_path s1)))"

definition cli_main ::
  "cli_env \<Rightarrow> db_host \<Rightarrow> main_host \<Rightarrow> string list \<Rightarrow> (string \<Rightarrow> store option) \<Rightarrow> cli_result option" where
  "cli_main E H M argv files =
     (case cli_parse_globals (mh_args_mem M) argv (cli_start files) of ((rc, g), s) \<Rightarrow>
        if rc \<noteq> EXIT_OK then Some (cli_ends None (rc, s))
        else if go_show_version g then Some (cli_ends None (EXIT_OK, say (version_print H (mh_git_hash M)) s))
        else if go_show_help g
        then (case go_argv g of
            Some (entity # rest) \<Rightarrow>
              Some (cli_ends None (entity_help entity (case rest of [] \<Rightarrow> None | a # _ \<Rightarrow> Some a) s))
          | _ \<Rightarrow> Some (cli_ends None (EXIT_OK, show_usage ''help_print'' s)))
        else if go_show_tools g
        then Some (cli_ends None (EXIT_OK, say (if go_compact g then tools_print_compact else tools_print (go_pretty g)) s))
        else (case go_argv g of
            Some argv1 \<Rightarrow>
              if length argv1 < 2
              then Some (cli_ends None (cli_finish_db_error ACTA_DB_ERR_INVALID
                     ''usage: acta_cli <entity> <action> [args]. See --help.'' s))
              else run_action E H M g argv1 s
          | None \<Rightarrow> Some (cli_ends None (cli_finish_db_error ACTA_DB_ERR_INVALID
                     ''usage: acta_cli <entity> <action> [args]. See --help.'' s))))"

end
