(* ===== verification/Cli_Dispatch.thy ===== *)
theory Cli_Dispatch
  imports Cli_Handlers Cli_Main
begin

text \<open>
  The dispatcher and a whole run, on top of the handlers: what they keep, and that they end.
\<close>

section \<open>The database commands\<close>

interpretation any: frame "\<lambda>s s'. True"
  by unfold_locales simp_all

lemma any_finished: "finished R s r \<Longrightarrow> finished (\<lambda>s s'. True) s r"
  by (simp add: finished_def)

lemma any_fine_given [frame_rules]: "fine (\<lambda>s s'. True) s (sql_given s)"
  unfolding sql_given_def by (auto intro!: frame_rules printing)

lemma grows_upd [simp]: "grows s (s\<lparr>cl_db := d\<rparr>)" "grows s (s\<lparr>cl_db := d, cl_files := f\<rparr>)"
  by (simp_all add: grows_def)

lemma finished_error_line: "grows s t \<Longrightarrow> finished (\<lambda>s s'. True) s (cli_finish_db_error rc what t)"
  by (rule any.finished_after [OF TrueI _ any.finished_err_lines(1)])

lemma finished_op_line: "grows s t \<Longrightarrow> finished (\<lambda>s s'. True) s (cli_finish_op_error E rc op t)"
  by (rule any.finished_after [OF TrueI _ any.finished_err_lines(2)])

lemma finished_say: "grows s t \<Longrightarrow> finished (\<lambda>s s'. True) s (0, say x t)"
  by (rule any.finished_after [OF TrueI]) (auto intro!: frame_rules printing)

lemma any_migrate: "grows s t \<Longrightarrow> finished (\<lambda>s s'. True) s (migrate_apply H g t)"
  by (rule any.finished_after [OF TrueI])
    (auto simp: migrate_apply_def Let_def intro!: finished_error_line finished_say split: prod.split)

lemma any_unrecorded: "grows s t \<Longrightarrow> finished (\<lambda>s s'. True) s (migrate_unrecorded H g t)"
  by (rule any.finished_after [OF TrueI])
    (auto simp: migrate_unrecorded_def Let_def intro!: finished_error_line any_migrate split: prod.split option.split)

lemma any_init_apply: "grows s t \<Longrightarrow> finished (\<lambda>s s'. True) s (init_apply H g names t)"
  by (rule any.finished_after [OF TrueI])
    (auto simp: init_apply_def Let_def status_ok_def intro!: finished_error_line finished_say split: prod.split)

lemma any_backup: "finished (\<lambda>s s'. True) s (backup_to H g target s)"
  by (auto simp: backup_to_def Let_def intro!: finished_error_line finished_say split: prod.split)

lemma ended_fail_with: "finished (\<lambda>s s'. True) s (f t) \<Longrightarrow> ended (\<lambda>s s'. True) s (fail_with f t)"
  by (auto simp: finished_def ended_def fine_def fail_with_def split: prod.splits)

lemma any_db [frame_rules]:
  "ended (\<lambda>s s'. True) s (db_init H g s)" "ended (\<lambda>s s'. True) s (db_migrate E H g s)"
  "ended (\<lambda>s s'. True) s (db_version H g s)" "ended (\<lambda>s s'. True) s (db_backup H g s)"
  unfolding db_init_def db_migrate_def db_version_def db_backup_def Let_def
  by (auto intro!: frame_rules ended_fail_with printing finished_error_line finished_op_line any_unrecorded any_migrate
      any_init_apply any_backup split: prod.split option.split stat_answer.split)

lemma any_cmd_db: "if_ended (\<lambda>s s'. True) s (cmd_db E H g action s)"
proof -
  have u: "finished (\<lambda>s s'. True) s
      (case cli_finish_db_error ACTA_DB_ERR_INVALID w s of (_, s1) \<Rightarrow> unknown_action a t acts s1)" for w a t acts
  proof -
    have "grows s (snd (cli_finish_db_error ACTA_DB_ERR_INVALID w s))"
      using errs_db by (auto simp: errs_def prints_def)
    then show ?thesis
      by (auto simp: split_beta intro!: any.finished_after [OF TrueI _ any.finished_err_lines(5)] any.finished_err_lines)
  qed
  show ?thesis
    unfolding cmd_db_def
    by (auto intro!: frame_rules run_cmd_finished simp: split_beta) (use u in \<open>simp add: split_beta\<close>)
qed

section \<open>The dispatcher\<close>

lemma finished_unexpected: "frame R \<Longrightarrow> prints s t \<Longrightarrow> finished R s (unexpected_argument entity extra t)"
  by (rule frame.finished_after [where ?s1.0 = t])
    (auto simp: unexpected_argument_def emit_cli_error_def frame.printed intro!: frame.finished_value printing)

lemma finished_leftover: "frame R \<Longrightarrow> finished R s r \<Longrightarrow> finished R s (leftover_check entity r)"
proof -
  assume f: "frame R" and r: "finished R s r"
  obtain rc t where rt: "r = (rc, t)" by (cases r)
  from r rt have "R s t" "grows s t" by (simp_all add: finished_def)
  moreover have "finished R t (leftover_check entity r)"
    using r rt
    by (auto simp: leftover_check_def finished_def [of R s] intro!: finished_unexpected [OF f] frame.finished_value [OF f] printing
        split: prod.split option.split)
  ultimately show ?thesis by (rule frame.finished_after [OF f])
qed

lemma finished_not_found: "frame R \<Longrightarrow> finished R s (entity_not_found entity s)"
  by (auto simp: entity_not_found_def emit_cli_error_def split: option.split
      intro!: frame.finished_value printing)

lemma dispatch_finished:
  assumes f: "frame R" and h: "\<And>fn. lookup_entity entity = Some fn \<Longrightarrow> if_ended R s (fn E H g action s)"
  shows "if_ended R s (cli_dispatch E H g entity action s)"
proof (cases "lookup_entity entity")
  case None
  then show ?thesis by (simp add: cli_dispatch_def finished_not_found [OF f])
next
  case (Some fn)
  show ?thesis
    using h [OF Some] finished_leftover [OF f, where s = s and entity = entity] finished_unexpected [OF f prints_refl, where entity = entity]
    by (cases "surplus_positional entity action (cl_args s)"; cases "fn E H g action s")
      (simp_all add: cli_dispatch_def Some)
qed

lemma lookup_cases:
  assumes "lookup_entity entity = Some fn"
  obtains "entity = ''db''" "fn = cmd_db" | "entity \<noteq> ''db''" "\<And>E H g action s. if_ended follows s (fn E H g action s)"
    "\<And>E H g action s. reading action \<Longrightarrow> if_ended untouched s (fn E H g action s)"
  using assms unfolding lookup_entity_def entity_table_def
  by (auto simp: follows_entities untouched_entities split: if_splits)

section \<open>Handlers end\<close>

definition returns :: "'a option \<Rightarrow> bool" where
  "returns x \<longleftrightarrow> x \<noteq> None"

lemma returns_Some [simp]: "returns (Some x)"
  by (simp add: returns_def)

lemma then_list_returns:
  "(\<And>x s1. m s = (Inr x, s1) \<Longrightarrow> returns (k x s1)) \<Longrightarrow> returns (then_list m k s)"
  by (auto simp: then_list_def split: prod.split sum.split)

lemma nonneg_int: "parse_nonneg_int t = Some n \<Longrightarrow> 0 \<le> n"
  by (auto simp: parse_nonneg_int_def split: if_splits option.splits prod.splits)

lemma int_flag_nonneg: "parse_nonneg_int_flag name req help s = (Inr x, s1) \<Longrightarrow> 0 \<le> int_or 0 x"
  by (auto simp: parse_nonneg_int_flag_def int_or_def reject_def dest: nonneg_int split: option.splits if_splits)

lemma next_cmd_Inr: "next_cmd m k s = (Inr y, s2) \<longleftrightarrow> (\<exists>x s1. m s = (Inr x, s1) \<and> k x s1 = (Inr y, s2))"
  by (auto simp: next_cmd_def split: prod.splits sum.splits)

lemma offset_nonneg: "parse_offset_limit help s = (Inr (offset, limit), s1) \<Longrightarrow> 0 \<le> offset \<and> 0 \<le> limit"
  by (auto simp: parse_offset_limit_def next_cmd_Inr yield_def dest: int_flag_nonneg)

lemma stream_returns:
  "(\<And>offset emitted s. 0 \<le> offset \<Longrightarrow> 0 \<le> emitted \<Longrightarrow> \<exists>r. stream_pages E op lst json offset limit emitted s = Some r) \<Longrightarrow>
     0 \<le> offset \<Longrightarrow> returns (stream_out E g help op lst json offset limit s)"
  by (auto simp: stream_out_def returns_def)

lemma lists_return:
  "returns (mf_list E g s)" "returns (sf_list E g s)" "returns (ctx_list E g s)" "returns (exec_list E g s)"
  "returns (el_list E g s)" "returns (mo_list E g s)" "returns (sk_list E g s)" "returns (rev_list E g s)"
  unfolding mf_list_def sf_list_def ctx_list_def exec_list_def el_list_def mo_list_def sk_list_def rev_list_def
    mf_list_args_def sf_list_args_def Let_def
  by (rule then_list_returns,
      auto simp: next_cmd_Inr yield_def dest!: offset_nonneg
        intro!: stream_returns mf.stream_ends sf.stream_ends ctx.stream_ends exec.stream_ends el.stream_ends
          mo.stream_ends sk.stream_ends rev.stream_ends)+

end
