(* ===== verification/Cli_Table.thy ===== *)
theory Cli_Table
  imports Cli_Main
begin

text \<open>
  The columns of the table of commands that its readers use, taken out entry by entry, so that looking an
  entry up does not evaluate the descriptions.
\<close>

type_synonym columns = "string \<times> string \<times> string \<times> tool_pos_t list \<times> tool_flag_t list"

definition entry_columns :: "tool_entry_t \<Rightarrow> columns" where
  "entry_columns e = (te_command e, te_entity e, te_action e, te_positionals e, te_flags e)"

lemmas column = list.map entry_columns_def tool_entry_t.select_convs

definition db_columns :: "columns list" where
  "db_columns =
     [(''db.init'', ''db'', ''init'', [], tf_table),
      (''db.migrate'', ''db'', ''migrate'', [], tf_table),
      (''db.version'', ''db'', ''version'', [], tf_table),
      (''db.backup'', ''db'', ''backup'', [], tf_db_backup),
      (''db.help'', ''db'', ''help'', [], [])]"

lemma db_columns_of: "map entry_columns db_tools = db_columns"
  unfolding db_tools_def db_columns_def column ..

definition context_columns :: "columns list" where
  "context_columns =
     [(''context.create'', ''context'', ''create'', [], tf_ctx_create),
      (''context.get'', ''context'', ''get'', tp_id, tf_inc_del),
      (''context.delete'', ''context'', ''delete'', tp_id, []),
      (''context.restore'', ''context'', ''restore'', tp_id, []),
      (''context.list'', ''context'', ''list'', [], tf_ctx_list),
      (''context.count'', ''context'', ''count'', [], tf_ctx_count),
      (''context.help'', ''context'', ''help'', [], [])]"

lemma context_columns_of: "map entry_columns context_tools = context_columns"
  unfolding context_tools_def context_columns_def column ..

definition model_columns :: "columns list" where
  "model_columns =
     [(''model.create'', ''model'', ''create'', [], tf_model_create),
      (''model.get'', ''model'', ''get'', tp_id, tf_inc_del),
      (''model.update'', ''model'', ''update'', tp_id, tf_model_update),
      (''model.delete'', ''model'', ''delete'', tp_id, []),
      (''model.restore'', ''model'', ''restore'', tp_id, []),
      (''model.move'', ''model'', ''move'', tp_id, tf_folder_id),
      (''model.list'', ''model'', ''list'', [], tf_model_list),
      (''model.count'', ''model'', ''count'', [], tf_model_count),
      (''model.help'', ''model'', ''help'', [], [])]"

lemma model_columns_of: "map entry_columns model_tools = model_columns"
  unfolding model_tools_def model_columns_def column ..

definition model_folder_columns :: "columns list" where
  "model_folder_columns =
     [(''model_folder.create'', ''model_folder'', ''create'', [], tf_folder_create),
      (''model_folder.get'', ''model_folder'', ''get'', tp_id, []),
      (''model_folder.list'', ''model_folder'', ''list'', [], tf_mf_list),
      (''model_folder.count'', ''model_folder'', ''count'', [], tf_parent_id),
      (''model_folder.rename'', ''model_folder'', ''rename'', tp_id, tf_name),
      (''model_folder.delete'', ''model_folder'', ''delete'', tp_id, []),
      (''model_folder.restore'', ''model_folder'', ''restore'', tp_id, []),
      (''model_folder.move'', ''model_folder'', ''move'', tp_id, tf_parent_id_req),
      (''model_folder.help'', ''model_folder'', ''help'', [], [])]"

lemma model_folder_columns_of: "map entry_columns model_folder_tools = model_folder_columns"
  unfolding model_folder_tools_def model_folder_columns_def column ..

definition model_revision_columns :: "columns list" where
  "model_revision_columns =
     [(''model_revision.get'', ''model_revision'', ''get'', tp_id, []),
      (''model_revision.get-latest'', ''model_revision'', ''get-latest'', tp_model_id, []),
      (''model_revision.list'', ''model_revision'', ''list'', tp_model_id, tf_rev_list_inc),
      (''model_revision.count'', ''model_revision'', ''count'', tp_model_id, tf_rev_count_inc),
      (''model_revision.help'', ''model_revision'', ''help'', [], [])]"

lemma model_revision_columns_of: "map entry_columns model_revision_tools = model_revision_columns"
  unfolding model_revision_tools_def model_revision_columns_def column ..

definition skill_columns :: "columns list" where
  "skill_columns =
     [(''skill.create'', ''skill'', ''create'', [], tf_skill_create),
      (''skill.get'', ''skill'', ''get'', tp_id, tf_inc_del),
      (''skill.update'', ''skill'', ''update'', tp_id, tf_skill_update),
      (''skill.delete'', ''skill'', ''delete'', tp_id, []),
      (''skill.restore'', ''skill'', ''restore'', tp_id, []),
      (''skill.move'', ''skill'', ''move'', tp_id, tf_folder_id),
      (''skill.list'', ''skill'', ''list'', [], tf_skill_list),
      (''skill.count'', ''skill'', ''count'', [], tf_skill_count),
      (''skill.help'', ''skill'', ''help'', [], [])]"

lemma skill_columns_of: "map entry_columns skill_tools = skill_columns"
  unfolding skill_tools_def skill_columns_def column ..

definition skill_folder_columns :: "columns list" where
  "skill_folder_columns =
     [(''skill_folder.create'', ''skill_folder'', ''create'', [], tf_folder_create),
      (''skill_folder.get'', ''skill_folder'', ''get'', tp_id, []),
      (''skill_folder.list'', ''skill_folder'', ''list'', tp_sf_parent, tf_sf_list),
      (''skill_folder.count'', ''skill_folder'', ''count'', tp_sf_parent, []),
      (''skill_folder.rename'', ''skill_folder'', ''rename'', tp_id, tf_name),
      (''skill_folder.delete'', ''skill_folder'', ''delete'', tp_id, []),
      (''skill_folder.restore'', ''skill_folder'', ''restore'', tp_id, []),
      (''skill_folder.move'', ''skill_folder'', ''move'', tp_id, tf_parent_id),
      (''skill_folder.help'', ''skill_folder'', ''help'', [], [])]"

lemma skill_folder_columns_of: "map entry_columns skill_folder_tools = skill_folder_columns"
  unfolding skill_folder_tools_def skill_folder_columns_def column ..

definition skill_revision_columns :: "columns list" where
  "skill_revision_columns =
     [(''skill_revision.get'', ''skill_revision'', ''get'', tp_id, []),
      (''skill_revision.get-latest'', ''skill_revision'', ''get-latest'', tp_skill_id, []),
      (''skill_revision.list'', ''skill_revision'', ''list'', tp_skill_id, tf_rev_list),
      (''skill_revision.count'', ''skill_revision'', ''count'', tp_skill_id, []),
      (''skill_revision.help'', ''skill_revision'', ''help'', [], [])]"

lemma skill_revision_columns_of: "map entry_columns skill_revision_tools = skill_revision_columns"
  unfolding skill_revision_tools_def skill_revision_columns_def column ..

definition exec_columns :: "columns list" where
  "exec_columns =
     [(''exec.create'', ''exec'', ''create'', [], tf_exec_create),
      (''exec.get'', ''exec'', ''get'', tp_id, tf_inc_del),
      (''exec.delete'', ''exec'', ''delete'', tp_id, []),
      (''exec.restore'', ''exec'', ''restore'', tp_id, []),
      (''exec.start'', ''exec'', ''start'', tp_id, []),
      (''exec.cancel'', ''exec'', ''cancel'', tp_id, []),
      (''exec.complete'', ''exec'', ''complete'', tp_id, tf_exec_complete),
      (''exec.fail'', ''exec'', ''fail'', tp_id, tf_exec_fail),
      (''exec.reset'', ''exec'', ''reset'', tp_id, []),
      (''exec.set-raw'', ''exec'', ''set-raw'', tp_id, tf_raw),
      (''exec.list'', ''exec'', ''list'', [], tf_exec_list),
      (''exec.count'', ''exec'', ''count'', [], tf_exec_count),
      (''exec.help'', ''exec'', ''help'', [], [])]"

lemma exec_columns_of: "map entry_columns exec_tools = exec_columns"
  unfolding exec_tools_def exec_columns_def column ..

definition log_columns :: "columns list" where
  "log_columns =
     [(''log.create'', ''log'', ''create'', [], tf_log_create),
      (''log.get'', ''log'', ''get'', tp_id, []),
      (''log.list'', ''log'', ''list'', tp_exec_id, tf_log_list),
      (''log.count'', ''log'', ''count'', tp_exec_id, tf_level),
      (''log.help'', ''log'', ''help'', [], [])]"

lemma log_columns_of: "map entry_columns log_tools = log_columns"
  unfolding log_tools_def log_columns_def column ..

definition tool_columns :: "columns list" where
  "tool_columns = db_columns @ context_columns @ model_columns @ model_folder_columns @ model_revision_columns @ skill_columns @ skill_folder_columns @ skill_revision_columns @ exec_columns @ log_columns"

lemma tool_columns_of: "map entry_columns tool_table = tool_columns"
  unfolding tool_table_def tool_columns_def map_append
  by (simp only: db_columns_of context_columns_of model_columns_of model_folder_columns_of model_revision_columns_of skill_columns_of skill_folder_columns_of skill_revision_columns_of exec_columns_of log_columns_of)

text \<open>The lookup of the dispatcher, on the columns.\<close>

lemma find_columns: "find P (map f xs) = map_option f (find (P \<circ> f) xs)"
  by (induction xs) auto

lemma tool_entry_positionals_columns [code]:
  "tool_entry_positionals entity action = map_option (\<lambda>(_, _, _, ps, _). length ps)
     (find (\<lambda>(_, e, a, _, _). e = entity \<and> a = action) tool_columns)"
  unfolding tool_columns_of [symmetric] find_columns tool_entry_positionals_def option.map_comp
  by (simp add: comp_def entry_columns_def)

end
