(* ===== verification/Cli_Samples.thy ===== *)
theory Cli_Samples
  imports Cli_Dispatch Cli_Table Samples
begin

text \<open>
  A process environment for the concrete instances of the theorems on the command line tool: enough
  memory, no files, an input that is never parsed, a database file that opens with the tables of
  \<open>Samples\<close>.
\<close>

definition sample_cli_env :: cli_env where
  "sample_cli_env = \<lparr>ce_mem = (\<lambda>_ _. True), ce_parse = (\<lambda>_. None), ce_file = (\<lambda>_. None), ce_stdin = [],
     ce_errmsg = (\<lambda>_. None), ce_stack = (\<lambda>_. 0)\<rparr>"

definition sample_db_host :: db_host where
  "sample_db_host = \<lparr>dh_tables = (\<lambda>_. canonical_tables), dh_schema = Some, dh_migration = Some, dh_libversion = ''3.45.0'',
     dh_cwd = Some ''/home/u'', dh_stat = (\<lambda>_. Stat_enoent),
     dh_backup = (\<lambda>_. \<lparr>be_open = True, be_init = True, be_step = SQLITE_DONE, be_stat = Some 7, be_reopen = True,
        be_check = SQLITE_OK, be_report = [''ok'']\<rparr>), dh_fail = []\<rparr>"

definition sample_os :: host where
  "sample_os = \<lparr>getenv = (\<lambda>_. None), conf_parse = (\<lambda>_. None), conf_error_ptr = (\<lambda>_. None), conf_long_of = (\<lambda>_. 0),
     conf_mem = (\<lambda>_. True), conf_stat = (\<lambda>_. None), conf_slurp = (\<lambda>_. None), conf_vararg = [], legacy_db = False,
     time_now = 0\<rparr>"

definition sample_opened :: "store \<Rightarrow> open_env" where
  "sample_opened st = \<lparr>oe_open = True, oe_handle = True, oe_fk = 1, oe_mode = Some ''wal'', oe_tables = Some 9,
     oe_malloc = True, oe_strdup = True, oe_version = Some 1, oe_store = st,
     oe_clock = ''2024-01-01 00:00:00'', oe_engine = [], oe_engine_msg = []\<rparr>"

definition sample_main_host :: "store \<Rightarrow> main_host" where
  "sample_main_host st = \<lparr>mh_host = sample_os, mh_args_mem = True, mh_out = (\<lambda>_. Out_ok),
     mh_open = (\<lambda>_ _. sample_opened st), mh_close = (\<lambda>_. SQLITE_OK), mh_git_hash = ''0''\<rparr>"

definition sample_args :: "string list \<Rightarrow> db_t \<Rightarrow> cli" where
  "sample_args toks d = \<lparr>cl_db = d, cl_args = \<lparr>ga_argv = toks, ga_pos = 0\<rparr>, cl_out = [], cl_err = [],
     cl_files = (\<lambda>_. None)\<rparr>"

end
