(* ===== verification/Cli_Properties.thy ===== *)
theory Cli_Properties
  imports Cli_Samples Sha256_Properties
begin

text \<open>
  Whole runs of the command line tool: what a command can do to the database, the exit codes, when a
  command ends, what \<^verbatim>\<open>context create\<close> stores.
\<close>

section \<open>Runs\<close>

text \<open>The three ways \<open>cli_main\<close> ends: before the database is opened, at the open, after the handler.\<close>

lemma run_with_db_cases:
  assumes "run_with_db E H M g entity action p s = Some r"
  obtains (no_db) "cr_db r = None" "cr_files r = cl_files s" "cr_code r = EXIT_DB_OPEN" "cr_err r \<noteq> []"
  | (ran) d s1 code t where "acta_db_open (Some p) (if entity = ''db'' \<and> action = ''init'' then 1 else 0)
        (mh_open M p (if entity = ''db'' \<and> action = ''init'' then 1 else 0)) = (Some d, 0, False)"
      "cli_dispatch E H g entity action (s1\<lparr>cl_db := d\<rparr>) = Some (code, t)" "cl_files s1 = cl_files s"
      "cl_args s1 = cl_args s" "cr_code r = code" "cr_db r = Some (cl_db t)" "cr_files r = cl_files t"
      "prefix (cl_err t) (cr_err r)"
proof -
  let ?m = "if entity = ''db'' \<and> action = ''init'' then 1 else 0 :: int"
  obtain od rc leak where o: "acta_db_open (Some p) ?m (mh_open M p ?m) = (od, rc, leak)"
    by (cases "acta_db_open (Some p) ?m (mh_open M p ?m)")
  show thesis
  proof (cases od)
    case None
    then obtain msg where "r = cli_ends (go_out_path g) (emit_db_open_error rc msg s)"
      using assms o unfolding run_with_db_def Let_def by auto
    then show thesis
      by (intro no_db) (simp_all add: emit_db_open_error_def cli_ends_def complain_def Let_def)
  next
    case (Some d)
    have k: "rc = 0" "leak = False"
      using o Some unfolding acta_db_open_def by (auto split: if_splits)
    let ?s1 = "case acta_db_last_error d of None \<Rightarrow> s
      | Some n \<Rightarrow> complain (''[warn] db opened with degraded pragma state: '' @ n @ newline) s"
    have same: "cl_files ?s1 = cl_files s" "cl_args ?s1 = cl_args s"
      by (auto simp: complain_def split: option.split)
    obtain code t where c: "cli_dispatch E H g entity action (?s1\<lparr>cl_db := d\<rparr>) = Some (code, t)"
      and r: "r = (cli_ends (go_out_path g) (code, close_db M t))\<lparr>cr_db := Some (cl_db t)\<rparr>"
      using assms o Some unfolding run_with_db_def Let_def by auto
    have "cl_files (close_db M t) = cl_files t" "prefix (cl_err t) (cl_err (close_db M t))"
      by (auto simp: close_db_def complain_def split: prod.split)
    then show thesis
      by (intro ran [OF _ c same]) (use o Some k r in \<open>auto simp: cli_ends_def\<close>)
  qed
qed

lemma early_end:
  "finished untouched s (code, t) \<Longrightarrow> cr_files (cli_ends out (code, t)) = cl_files s
     \<and> cr_db (cli_ends out (code, t)) = None \<and> cr_code (cli_ends out (code, t)) = code
     \<and> cr_err (cli_ends out (code, t)) = cl_err t \<and> reported code t"
  by (auto simp: finished_def cli_ends_def untouched_def)

definition ends_early :: "(string \<Rightarrow> store option) \<Rightarrow> cli_result \<Rightarrow> bool" where
  "ends_early files r \<longleftrightarrow> cr_files r = files \<and> cr_db r = None \<and> cr_code r \<in> exit_codes
     \<and> (cr_code r \<noteq> EXIT_OK \<longrightarrow> cr_err r \<noteq> [])"

lemma ends_early_finished: "finished untouched s r \<Longrightarrow> ends_early (cl_files s) (cli_ends out r)"
  using early_end [of s "fst r" "snd r" out] by (simp add: ends_early_def reported_def)

lemma ends_early_payload: "ends_early files r \<Longrightarrow> ends_early files (r\<lparr>cr_payload := p\<rparr>)"
  by (simp add: ends_early_def)

lemma run_action_cases:
  assumes "run_action E H M g argv s0 = Some r"
  obtains (early) "ends_early (cl_files s0) r"
  | (db) p s where "run_with_db E H M g (argv ! 0) (argv ! 1) p s = Some r" "cl_files s = cl_files s0"
      "cl_args s = \<lparr>ga_argv = drop 2 (apply_flag_aliases argv), ga_pos = 0\<rparr>"
proof -
  let ?s = "s0\<lparr>cl_args := \<lparr>ga_argv = drop 2 (apply_flag_aliases argv), ga_pos = 0\<rparr>\<rparr>"
  have fin: "finished untouched ?s (emit_cli_error msg ?s)" for msg
    by (rule keep.finished_errs [OF errs_cli])
  have e: "ends_early (cl_files s0) (cli_ends out (emit_cli_error msg ?s))" for out msg
    using ends_early_finished [OF fin] by simp
  note d = assms [unfolded run_action_def Let_def]
  show thesis
  proof (cases "validate_tokens (ga_argv (cl_args ?s))")
    case (Some msg)
    then have "r = cli_ends None (emit_cli_error msg ?s)"
      using d by (simp add: cli_args_validate_def emit_cli_error_def)
    then show thesis using e early by simp
  next
    case None
    then have v: "cli_args_validate (cl_args ?s) ?s = (0, ?s)" by (simp add: cli_args_validate_def)
    note d1 = d [unfolded v prod.case]
    show thesis
    proof (cases "ends_early (cl_files s0) r")
      case False
      have "\<exists>p. run_with_db E H M g (argv ! 0) (argv ! 1) p ?s = Some r"
        using d1 False e ends_early_payload [OF e]
        by (auto split: if_splits option.splits out_answer.splits sum.splits)
      then show thesis using db [of _ ?s] by auto
    qed (rule early)
  qed
qed

lemma main_cases:
  assumes "cli_main E H M argv files = Some r"
  obtains (early) "ends_early files r"
  | (db) g argv1 t s p where "cli_parse_globals (mh_args_mem M) argv (cli_start files) = ((0, g), t)"
      "go_argv g = Some argv1" "2 \<le> length argv1"
      "run_with_db E H M g (argv1 ! 0) (argv1 ! 1) p s = Some r" "cl_files s = files"
      "cl_args s = \<lparr>ga_argv = drop 2 (apply_flag_aliases argv1), ga_pos = 0\<rparr>"
proof -
  obtain rc g t where pg: "cli_parse_globals (mh_args_mem M) argv (cli_start files) = ((rc, g), t)"
    by (metis prod.collapse)
  have st: "cl_files t = files"
    and ended: "rc = 0 \<or> finished untouched (cli_start files) (rc, t)"
    using pg keep.finished_errs [OF errs_cli, of "cli_start files"] keep.finished_errs [OF errs_db, of "cli_start files"]
    by (auto simp: cli_parse_globals_def cli_start_def cli_finish_db_error_def emit_cli_error_def complain_def Let_def
        split: if_splits sum.splits prod.splits)
  have say_end: "finished untouched t (EXIT_OK, say x t)" and usage_end: "finished untouched t (EXIT_OK, show_usage x t)" for x
    by (auto intro!: frame_rules printing)
  have eh: "finished untouched t (entity_help entity action t)" for entity action
    unfolding entity_help_def
    by (auto simp: emit_cli_error_def split: option.split
        intro!: frame_rules printing finished_not_found keep.frame_axioms)
  have db_err: "finished untouched t (cli_finish_db_error c w t)" for c w
    by (rule keep.finished_errs [OF errs_db])
  note ee = ends_early_finished [OF say_end] ends_early_finished [OF usage_end] ends_early_finished [OF eh]
    ends_early_finished [OF db_err]
  show thesis
  proof (cases "ends_early files r")
    case False
    have rc0: "rc = 0"
      using assms pg ended False ends_early_finished [of "cli_start files" "(rc, t)"]
      by (auto simp: cli_main_def cli_start_def split: if_splits)
    then obtain argv1 where a: "go_argv g = Some argv1" "2 \<le> length argv1" "run_action E H M g argv1 t = Some r"
      using assms pg False ee st
      by (auto simp: cli_main_def split: if_splits option.splits list.splits)
    show thesis
      using a(3)
    proof (cases rule: run_action_cases)
      case early
      then show thesis using False st by simp
    next
      case (db p s)
      then show thesis using that(2) [OF pg [unfolded rc0] a(1,2)] st by simp
    qed
  qed (rule early)
qed

section \<open>What a command does to the database\<close>

lemma opened_store:
  "acta_db_open (Some p) m (mh_open M p m) = (Some d, 0, False) \<Longrightarrow> store d = oe_store (mh_open M p m)"
  unfolding acta_db_open_def by (auto split: if_splits)

lemma dispatch_follows:
  assumes "cli_dispatch E H g entity action s = Some (code, s')" "entity \<noteq> ''db''"
  shows "follows s s'" and "reading action \<Longrightarrow> untouched s s'"
proof -
  have "if_ended follows s (cli_dispatch E H g entity action s)"
    by (rule dispatch_finished [OF follow.frame_axioms]) (use assms(2) in \<open>auto elim: lookup_cases\<close>)
  then show "follows s s'" using assms(1) by (simp add: finished_def)
  assume "reading action"
  then have "if_ended untouched s (cli_dispatch E H g entity action s)"
    by (intro dispatch_finished [OF keep.frame_axioms]) (use assms(2) in \<open>auto elim: lookup_cases\<close>)
  then show "untouched s s'" using assms(1) by (simp add: finished_def)
qed


definition sample_line :: "string list" where
  "sample_line = [''--db'', ''a.db'', ''skill_folder'', ''create'', ''--name'', ''x'']"

lemma sample_line_globals:
  "cli_parse_globals True sample_line (cli_start files)
     = ((0, zero_cli_opts\<lparr>go_db := Some ''a.db'', go_argv := Some [''skill_folder'', ''create'', ''--name'', ''x'']\<rparr>),
        cli_start files)"
  by (simp add: sample_line_def cli_parse_globals_def cli_arg_of_def bool_flags_def value_flags_def cli_prefix_match_def
      cli_flag_tail_def cli_inline_value_def zero_cli_opts_def numeral_2_eq_2)

lemma sample_line_runs:
  "\<exists>r d. cli_main sample_cli_env sample_db_host (sample_main_host empty_store) sample_line (\<lambda>_. None) = Some r \<and> cr_db r = Some d
     \<and> cr_code r = EXIT_OK \<and> map fo_name (rows (skill_folders (store d))) = [''x'']"
proof -
  let ?x = "cli_main sample_cli_env sample_db_host (sample_main_host empty_store) sample_line (\<lambda>_. None)"
  have "case ?x of None \<Rightarrow> False | Some r \<Rightarrow> (case cr_db r of None \<Rightarrow> False
      | Some d \<Rightarrow> cr_code r = EXIT_OK \<and> map fo_name (rows (skill_folders (store d))) = [''x''])"
    by code_simp
  then show ?thesis by (auto split: option.splits)
qed


section \<open>Exit codes\<close>

lemma dispatch_reported:
  assumes "cli_dispatch E H g entity action s = Some (code, s')"
  shows "code \<in> exit_codes" "code \<noteq> EXIT_OK \<Longrightarrow> cl_err s' \<noteq> []"
proof -
  have "if_ended (\<lambda>s s'. True) s (cli_dispatch E H g entity action s)"
  proof (rule dispatch_finished [OF any.frame_axioms])
    fix fn assume "lookup_entity entity = Some fn"
    then show "if_ended (\<lambda>s s'. True) s (fn E H g action s)"
    proof (cases rule: lookup_cases)
      case 1
      then show ?thesis using any_cmd_db by simp
    next
      case 2
      then show ?thesis unfolding if_ended_def by (blast intro: any_finished)
    qed
  qed
  then show "code \<in> exit_codes" "code \<noteq> EXIT_OK \<Longrightarrow> cl_err s' \<noteq> []"
    using assms by (simp_all add: finished_def reported_def)
qed

lemma code_texts: "map show_int [EXIT_OK, EXIT_NOT_FOUND, EXIT_SQL, EXIT_ALLOC, EXIT_INVALID, EXIT_CLI, EXIT_DB_OPEN]
    = map fst tool_exit_codes"
  by code_simp

lemma listed_codes: "code \<in> exit_codes \<or> code = EXIT_DB_OPEN \<Longrightarrow> show_int code \<in> fst ` set tool_exit_codes"
  unfolding set_map [symmetric] code_texts [symmetric] by (auto simp: exit_codes_def)

text \<open>Claim C22: Every run ends with one of the exit codes the tool documents in its own self-description
  (the table printed by --tools), and a run that does not exit with 0 has written something to the error
  stream, whatever the arguments, the input, the engine and the operating system do.\<close>

theorem cli_exit_codes:
  assumes "cli_main E H M argv files = Some r"
  shows "show_int (cr_code r) \<in> fst ` set tool_exit_codes \<and> (cr_code r \<noteq> EXIT_OK \<longrightarrow> cr_err r \<noteq> [])"
  using assms
proof (cases rule: main_cases)
  case early
  then show ?thesis by (auto simp: ends_early_def intro: listed_codes)
next
  case (db g argv1 t s p)
  show ?thesis
    using db(4)
  proof (cases rule: run_with_db_cases)
    case no_db
    then show ?thesis by (auto intro: listed_codes)
  next
    case (ran d s1 code t2)
    note c = dispatch_reported [OF ran(2)]
    show ?thesis using c ran(5,8) by (auto intro: listed_codes)
  qed
qed

lemma cli_exit_codes_witness:
  "\<exists>r. cli_main sample_cli_env sample_db_host (sample_main_host empty_store) [''db''] (\<lambda>_. None) = Some r
     \<and> cr_code r = EXIT_CLI \<and> cr_err r \<noteq> []"
proof -
  let ?x = "cli_main sample_cli_env sample_db_host (sample_main_host empty_store) [''db''] (\<lambda>_. None)"
  have "case ?x of None \<Rightarrow> False | Some r \<Rightarrow> cr_code r = EXIT_CLI" by code_simp
  then obtain r where "?x = Some r" "cr_code r = EXIT_CLI" by (auto split: option.splits)
  then show ?thesis using cli_exit_codes [of _ _ _ _ _ r] by auto
qed

section \<open>When a command ends\<close>

lemma list_None:
  "(mf_list E g s = None) = False"
  "(sf_list E g s = None) = False"
  "(ctx_list E g s = None) = False"
  "(exec_list E g s = None) = False"
  "(el_list E g s = None) = False"
  "(mo_list E g s = None) = False"
  "(sk_list E g s = None) = False"
  "(rev_list E g s = None) = False"
  using lists_return [of E g s] by (metis returns_def)+

lemma sha_ends: "sha256_hex junk msg = None \<longleftrightarrow> 2 ^ 32 \<le> length msg"
  by (simp add: sha256_hex_def sha256_update_eq not_less)

lemma ctx_create_None:
  "ctx_create E g s = None \<longleftrightarrow> (\<exists>c s1 content. ctx_input E g s = (Inr c, s1) \<and> c_content c = Some content
     \<and> c_content_hash c = None \<and> 2 ^ 32 \<le> length content)"
  using sha_ends [of "ce_stack E" "map of_char content" for content]
  by (force simp: ctx_create_def then_list_def ctx_default_hash_def split: prod.split sum.split option.split)

lemma handler_None:
  assumes "lookup_entity entity = Some fn" "fn E H g action s = None"
  shows "entity = ''context'' \<and> action = ''create'' \<and> ctx_create E g s = None"
  using assms unfolding lookup_entity_def entity_table_def
  by (auto simp: list_None cmd_db_def entity_defs split_beta split: if_splits)

text \<open>Claim C23: A command ends. The dispatcher returns a result for every entity, action, arguments and
  engine behaviour, the paging loop of --stream included; the only exception is context create without a
  digest for a content of 2 to the 32 bytes or more, where the digest loop never ends.\<close>

theorem dispatch_ends:
  "cli_dispatch E H g entity action s = None \<longleftrightarrow>
     entity = ''context'' \<and> action = ''create'' \<and> surplus_positional entity action (cl_args s) = None
     \<and> (\<exists>c s1 content. ctx_input E g s = (Inr c, s1) \<and> c_content c = Some content \<and> c_content_hash c = None
          \<and> 2 ^ 32 \<le> length content)"
proof
  assume n: "cli_dispatch E H g entity action s = None"
  then obtain fn where "lookup_entity entity = Some fn" "surplus_positional entity action (cl_args s) = None"
      "fn E H g action s = None"
    by (auto simp: cli_dispatch_def split: option.splits)
  then show "entity = ''context'' \<and> action = ''create'' \<and> surplus_positional entity action (cl_args s) = None
     \<and> (\<exists>c s1 content. ctx_input E g s = (Inr c, s1) \<and> c_content c = Some content \<and> c_content_hash c = None
          \<and> 2 ^ 32 \<le> length content)"
    using handler_None ctx_create_None by blast
next
  assume *: "entity = ''context'' \<and> action = ''create'' \<and> surplus_positional entity action (cl_args s) = None
     \<and> (\<exists>c s1 content. ctx_input E g s = (Inr c, s1) \<and> c_content c = Some content \<and> c_content_hash c = None
          \<and> 2 ^ 32 \<le> length content)"
  then have "ctx_create E g s = None" using ctx_create_None by blast
  moreover have "lookup_entity ''context'' = Some (\<lambda>E H. cmd_context E)"
    by (simp add: lookup_entity_def entity_table_def)
  moreover have "entity = ''context''" "action = ''create''" "surplus_positional ''context'' ''create'' (cl_args s) = None"
    using * by auto
  ultimately show "cli_dispatch E H g entity action s = None"
    by (simp add: cli_dispatch_def cmd_context_def)
qed

section \<open>Storing a context\<close>

definition digest_of :: "string \<Rightarrow> string" where
  "digest_of content = concat (map hex_byte (fips_sha256 (map of_char content)))"

lemma ctx_default_hash_Inr:
  "ctx_default_hash E c = Some (Inr c1) \<Longrightarrow> c_type c1 = c_type c \<and> c_content c1 = c_content c \<and> c_metadata c1 = c_metadata c
     \<and> (\<forall>content. c_content c = Some content \<longrightarrow>
          c_content_hash c1 = Some (case c_content_hash c of Some h \<Rightarrow> h | None \<Rightarrow> digest_of content))"
  by (auto simp: ctx_default_hash_def sha256_hex_def sha256_update_eq digest_exact digest_of_def
      split: option.splits if_splits)

lemma ctx_store_ok:
  assumes "run_cmd (ctx_store E g c) s = (0, s')"
  shows "\<exists>out. acta_db_context_create c (cl_db s) = (0, out, cl_db s')
    \<and> cl_out s' = cl_out s @ [Txt (if go_id_only g then show_int (int_or 0 out) @ newline
        else ''{'' @ json_pair ''id'' (show_int (int_or 0 out)) @ ''}'' @ newline)]"
  using assms
  by (auto simp: run_cmd_def ctx_store_def next_cmd_def demand_def yield_def reject_eq create_row_def Let_def
      emit_ok_id_def emit_id_and_def say_def cli_finish_op_error_def cli_finish_db_error_def map_rc_to_exit_def
      split: if_splits prod.splits)

lemma leftover_ok:
  "leftover_check entity r = (0, s') \<Longrightarrow>
     \<exists>s. r = (0, s) \<and> cl_db s' = cl_db s \<and> cl_out s' = cl_out s"
  by (cases r) (auto simp: leftover_check_def unexpected_argument_def emit_cli_error_def split: if_splits prod.splits option.splits)

lemma prints_input: "ctx_input E g s = (r, s1) \<Longrightarrow> prints s s1"
  by (auto simp: ctx_input_def ctx_flags_def Let_def reject_eq cli_emit_error_def dest!: resolve_prints
      split: prod.splits sum.splits option.splits if_splits intro!: printing)

text \<open>Claim C15: What context create stores. When it exits with 0, it has added one row, under the next
  id and live, holding the type, the content and the metadata of the input, and as digest the one given
  or, by default, the lowercase SHA-256 of the content as FIPS 180-4 defines it; the id is what it
  printed, and every earlier context is as it was.\<close>

theorem context_create_stores:
  assumes "cli_dispatch E H g ''context'' ''create'' s = Some (0, s')"
  shows "\<exists>c s1 kind content. ctx_input E g s = (Inr c, s1) \<and> c_type c = Some kind \<and> c_content c = Some content
    \<and> (let i = seq (contexts (store (cl_db s))) + 1 in
        rows (contexts (store (cl_db s'))) = rows (contexts (store (cl_db s))) @
          [\<lparr>cx_id = i, cx_type = kind, cx_content = content,
            cx_content_hash = (case c_content_hash c of Some h \<Rightarrow> h | None \<Rightarrow> digest_of content),
            cx_metadata = c_metadata c, cx_created_at = clock (cl_db s1), cx_deleted_at = None\<rparr>]
        \<and> cl_out s' = cl_out s1 @ [Txt (if go_id_only g then show_int (c_int i) @ newline
            else ''{'' @ json_pair ''id'' (show_int (c_int i)) @ ''}'' @ newline)])"
proof -
  have l: "lookup_entity ''context'' = Some (\<lambda>E H. cmd_context E)"
    by (simp add: lookup_entity_def entity_table_def)
  obtain t where t: "ctx_create E g s = Some (0, t)" "cl_db s' = cl_db t" "cl_out s' = cl_out t"
    using assms by (auto simp: cli_dispatch_def l cmd_context_def unexpected_argument_def emit_cli_error_def
        split: option.splits dest!: leftover_ok)
  obtain c s1 c1 where c: "ctx_input E g s = (Inr c, s1)" "ctx_default_hash E c = Some (Inr c1)"
      "run_cmd (ctx_store E g c1) s1 = (0, t)"
    using t(1) by (auto simp: ctx_create_def then_list_def ctx_input_def ctx_flags_def reject_eq Let_def
        split: prod.splits sum.splits option.splits if_splits)
  obtain out where o: "acta_db_context_create c1 (cl_db s1) = (0, out, cl_db t)"
    "cl_out t = cl_out s1 @ [Txt (if go_id_only g then show_int (int_or 0 out) @ newline
        else ''{'' @ json_pair ''id'' (show_int (int_or 0 out)) @ ''}'' @ newline)]"
    using ctx_store_ok [OF c(3)] by blast
  have st: "store (cl_db s1) = store (cl_db s)" using prints_input [OF c(1)] by (simp add: prints_def)
  note eff = context_create_effect [OF o(1)]
  note h = ctx_default_hash_Inr [OF c(2)]
  show ?thesis
    using eff h c(1) o(2) t(2,3) st by (auto simp: tbl_ins_def int_or_def Let_def)
qed

definition sample_context_args :: cli where
  "sample_context_args = sample_args [''--type'', ''text'', ''--content'', ''abc''] sample_empty"

lemma sample_context_input:
  "ctx_input sample_cli_env zero_cli_opts sample_context_args
     = (Inr (zero_context\<lparr>c_type := Some ''text'', c_content := Some ''abc''\<rparr>), sample_context_args)"
  by (simp add: ctx_input_def resolve_input_source_def zero_cli_opts_def ctx_flags_def sample_context_args_def
      sample_args_def cli_flag_def cli_prefix_match_def cli_flag_tail_def cli_is_flag_def zero_context_def)

lemma sample_context_stored:
  "\<exists>s'. cli_dispatch sample_cli_env sample_db_host zero_cli_opts ''context'' ''create'' sample_context_args = Some (0, s')"
proof -
  let ?c = "zero_context\<lparr>c_type := Some ''text'', c_content := Some ''abc'', c_content_hash := Some (digest_of ''abc'')\<rparr>"
  have "sha256_hex junk (map of_char ''abc'') = Some (digest_of ''abc'')" for junk
    unfolding sha256_hex_def sha256_update_eq digest_of_def by (simp add: digest_exact del: list.map fold.simps)
  then have h: "ctx_default_hash sample_cli_env (zero_context\<lparr>c_type := Some ''text'', c_content := Some ''abc''\<rparr>) = Some (Inr ?c)"
    by (simp add: ctx_default_hash_def zero_context_def sample_cli_env_def)
  have "acta_db_context_create ?c (cl_db sample_context_args) = (0, Some 1, snd (snd (acta_db_context_create ?c sample_empty)))"
    by (simp add: acta_db_context_create_def zero_context_def sample_context_args_def sample_args_def sample_empty_def
        sql_write_def next_event_def insert_contexts_def empty_store_def empty_table_def c_int_id Let_def)
  then have "\<exists>s'. run_cmd (ctx_store sample_cli_env zero_cli_opts ?c) sample_context_args = (0, s') \<and> cl_args s' = cl_args sample_context_args"
    by (simp add: run_cmd_def ctx_store_def next_cmd_def demand_def yield_def create_row_def zero_context_def
        emit_ok_id_def emit_id_and_def say_def)
  then obtain s' where c: "ctx_create sample_cli_env zero_cli_opts sample_context_args = Some (0, s')"
      "cl_args s' = cl_args sample_context_args"
    by (auto simp: ctx_create_def then_list_def sample_context_input h)
  have "surplus_positional ''context'' ''create'' (cl_args sample_context_args) = None"
    "fst (cli_next_positional (cl_args sample_context_args)) = None"
    by code_simp+
  with c show ?thesis
    by (cases "cli_next_positional (cl_args sample_context_args)")
      (simp add: cli_dispatch_def lookup_entity_def entity_table_def cmd_context_def leftover_check_def)
qed

lemma context_create_stores_witness:
  "\<exists>s'. cli_dispatch sample_cli_env sample_db_host zero_cli_opts ''context'' ''create'' sample_context_args = Some (0, s')
     \<and> map (\<lambda>r. (cx_id r, cx_content r, cx_content_hash r)) (rows (contexts (store (cl_db s'))))
       = [(1, ''abc'', digest_of ''abc'')]"
proof -
  obtain s' where s': "cli_dispatch sample_cli_env sample_db_host zero_cli_opts ''context'' ''create'' sample_context_args
      = Some (0, s')"
    using sample_context_stored by blast
  have "rows (contexts (store (cl_db sample_context_args))) = []" "seq (contexts (store (cl_db sample_context_args))) = 0"
    by (simp_all add: sample_context_args_def sample_args_def sample_empty_def empty_store_def empty_table_def)
  with context_create_stores [OF s'] s' show ?thesis
    by (auto simp: sample_context_input zero_context_def Let_def)
qed

end
