(* ===== verification/Cli_Arg_Properties.thy ===== *)
theory Cli_Arg_Properties
  imports Cli_Samples
begin

text \<open>
  The arguments of a command: the three walkers over the tokens against one definition of what the
  positionals are, no positional ignored, the name suggestions against the edit distance, the input
  readers.
\<close>

section \<open>Positionals\<close>

text \<open>What the positionals of a token list are: all tokens but the flags and their values.\<close>

function positionals :: "string list \<Rightarrow> string list" where
  "positionals [] = []"
| "positionals (tok # toks) =
     (if \<not> cli_is_flag tok then tok # positionals toks
      else if takes_next tok toks then positionals (tl toks) else positionals toks)"
  by pat_completeness auto
termination by (relation "measure length") auto

lemma takes_next_Nil [simp]: "\<not> takes_next tok []"
  by (simp add: takes_next_def)

lemma walk_count_positionals: "walk_count toks = length (positionals toks)"
  by (induction toks rule: walk_count.induct) simp_all

lemma walk_kth_positionals:
  "walk_kth toks k = (if k < length (positionals toks) then Some (positionals toks ! k) else None)"
  by (induction toks k rule: walk_kth.induct) (auto simp: nth_Cons' split: if_splits)

lemma shift:
  fixes n p :: nat
  shows "n + 1 \<le> p \<Longrightarrow> \<exists>k. p - (n + 1) = k \<and> p - n = Suc k \<and> n \<le> p"
    and "n + 2 \<le> p \<Longrightarrow> \<exists>k. p - (n + 2) = k \<and> p - n = Suc (Suc k) \<and> n \<le> p"
  by auto

lemma walk_next_positionals:
  "walk_next toks n = (r, p) \<Longrightarrow>
     n \<le> p \<and> positionals toks = (case r of None \<Rightarrow> [] | Some x \<Rightarrow> x # positionals (drop (p - n) toks))
     \<and> (r = None \<longrightarrow> drop (p - n) toks = [])"
proof (induction toks n rule: walk_next.induct)
  case step: (3 tok tok2 toks n)
  consider "\<not> cli_is_flag tok" | "cli_is_flag tok" "takes_next tok (tok2 # toks)"
    | "cli_is_flag tok" "\<not> takes_next tok (tok2 # toks)" by blast
  then show ?case
  proof cases
    case 2
    then have w: "walk_next toks (n + 2) = (r, p)" using step(3) by simp
    from 2 have "\<not> \<not> cli_is_flag tok" by simp
    note ih = step(1) [OF this 2(2) w]
    then have "n + 2 \<le> p" by (rule conjunct1)
    with shift(2) obtain k where "p - (n + 2) = k" "p - n = Suc (Suc k)" "n \<le> p" by blast
    then show ?thesis using 2 ih by (cases r; simp)
  next
    case 3
    then have w: "walk_next (tok2 # toks) (n + 1) = (r, p)" using step(3) by simp
    from 3 have "\<not> \<not> cli_is_flag tok" by simp
    note ih = step(2) [OF this 3(2) w]
    then have "n + 1 \<le> p" by (rule conjunct1)
    with shift(1) obtain k where "p - (n + 1) = k" "p - n = Suc k" "n \<le> p" by blast
    then show ?thesis using 3 ih by (cases r; simp)
  qed (use step(3) in auto)
qed (auto split: if_splits)

text \<open>The positionals a handler has not read yet.\<close>

definition unread :: "cli_args_t \<Rightarrow> string list" where
  "unread it = positionals (drop (ga_pos it) (ga_argv it))"

lemma next_positional_unread:
  "cli_next_positional it = (r, it') \<Longrightarrow> unread it = (case r of None \<Rightarrow> [] | Some x \<Rightarrow> x # unread it')
     \<and> (r = None \<longrightarrow> unread it' = [])"
  using walk_next_positionals [of "drop (ga_pos it) (ga_argv it)" "ga_pos it"]
  by (force simp: cli_next_positional_def unread_def split: prod.splits option.splits)

text \<open>The three walkers agree. Counting, indexing and reading one by one all see the same
  positionals: the tokens that are neither a flag nor the value of one. The count is their number, the
  k-th is the one at that index or nothing, and reading gives the first one and leaves the rest.\<close>

theorem positional_walkers:
  "cmd_args_count_positionals it = length (unread it)
   \<and> cmd_args_kth_positional it k = (if k < length (unread it) then Some (unread it ! k) else None)
   \<and> (case cli_next_positional it of
        (None, it') \<Rightarrow> unread it = [] \<and> unread it' = []
      | (Some x, it') \<Rightarrow> unread it = x # unread it')"
  using next_positional_unread [of it]
  unfolding cmd_args_count_positionals_def cmd_args_kth_positional_def walk_count_positionals walk_kth_positionals
    unread_def [symmetric]
  by (auto split: prod.split option.split)

section \<open>No argument is ignored\<close>

lemma unexpected_effect:
  "unexpected_argument entity extra s = (code, s') \<Longrightarrow> code = EXIT_CLI \<and> cl_db s' = cl_db s \<and> cl_files s' = cl_files s
     \<and> cl_out s' = cl_out s \<and> length (cl_err s') = length (cl_err s) + 2"
  by (auto simp: unexpected_argument_def emit_cli_error_def complain_def)

text \<open>Claim C26: No positional is silently ignored. If there are more than the table says the action
  takes, the command is refused with exit 10 before anything is read, written or printed to the output;
  and a command that exits with 0 has read every positional it was given.\<close>

theorem no_argument_ignored:
  assumes "cli_dispatch E H g entity action s = Some (code, s')"
  shows "(lookup_entity entity \<noteq> None \<and> (\<exists>n. expected_positionals entity action = Some n \<and> n < length (unread (cl_args s)))
      \<longrightarrow> code = EXIT_CLI \<and> cl_db s' = cl_db s \<and> cl_files s' = cl_files s \<and> cl_out s' = cl_out s)
    \<and> (code = EXIT_OK \<longrightarrow> unread (cl_args s') = [])"
proof (cases "lookup_entity entity")
  case None
  then show ?thesis using assms
    by (auto simp: cli_dispatch_def entity_not_found_def emit_cli_error_def split: option.splits)
next
  case (Some fn)
  have sp: "surplus_positional entity action (cl_args s) = (case expected_positionals entity action of None \<Rightarrow> None
      | Some n \<Rightarrow> if n < length (unread (cl_args s)) then Some (unread (cl_args s) ! n) else None)"
    by (auto simp: surplus_positional_def cmd_args_count_positionals_def cmd_args_kth_positional_def
        walk_count_positionals walk_kth_positionals unread_def split: option.split)
  show ?thesis
  proof (cases "surplus_positional entity action (cl_args s)")
    case (Some extra)
    then have "unexpected_argument entity extra s = (code, s')"
      using assms \<open>lookup_entity entity = Some fn\<close> by (simp add: cli_dispatch_def)
    then show ?thesis using unexpected_effect by fastforce
  next
    case None
    then obtain r where r: "fn E H g action s = Some r" "leftover_check entity r = (code, s')"
      using assms \<open>lookup_entity entity = Some fn\<close> by (auto simp: cli_dispatch_def)
    have "code = EXIT_OK \<Longrightarrow> unread (cl_args s') = []"
      using r(2) next_positional_unread unexpected_effect
      by (cases r) (auto simp: leftover_check_def dest: unexpected_effect dest!: next_positional_unread split: if_splits prod.splits option.splits)
    then show ?thesis using None sp by (auto split: option.splits if_splits)
  qed
qed

lemma no_argument_ignored_witness:
  "\<exists>s'. cli_dispatch sample_cli_env sample_db_host zero_cli_opts ''skill'' ''count'' (sample_args [''1''] sample_empty)
     = Some (EXIT_CLI, s') \<and> cl_out s' = []"
proof -
  let ?s = "sample_args [''1''] sample_empty"
  let ?x = "cli_dispatch sample_cli_env sample_db_host zero_cli_opts ''skill'' ''count'' ?s"
  have k: "lookup_entity ''skill'' \<noteq> None"
    by (simp add: lookup_entity_def entity_table_def)
  have e: "expected_positionals ''skill'' ''count'' = Some 0" "unread (cl_args ?s) = [''1'']"
    by (code_simp, simp add: unread_def sample_args_def cli_is_flag_def)
  have "case ?x of None \<Rightarrow> False | Some _ \<Rightarrow> True" by code_simp
  then obtain code s' where x: "?x = Some (code, s')" by (auto split: option.splits)
  from no_argument_ignored [OF x] k e have "code = EXIT_CLI" "cl_out s' = cl_out ?s" by auto
  then show ?thesis using x by (intro exI [of _ s']) (simp add: sample_args_def)
qed

section \<open>Suggestions\<close>

text \<open>
  \<open>edits a b n\<close>: \<open>a\<close> becomes \<open>b\<close> by \<open>n\<close> changes, insertions and deletions of single characters.
\<close>

inductive edits :: "string \<Rightarrow> string \<Rightarrow> nat \<Rightarrow> bool" where
  ed_end: "edits [] [] 0"
| ed_keep: "edits a b n \<Longrightarrow> edits (c # a) (c # b) n"
| ed_change: "edits a b n \<Longrightarrow> edits (c # a) (d # b) (Suc n)"
| ed_insert: "edits a b n \<Longrightarrow> edits a (d # b) (Suc n)"
| ed_delete: "edits a b n \<Longrightarrow> edits (c # a) b (Suc n)"

lemma edits_append: "edits a b n \<Longrightarrow> edits a' b' m \<Longrightarrow> edits (a @ a') (b @ b') (n + m)"
  by (induction rule: edits.induct) (auto intro: edits.intros)

lemma edits_rev: "edits a b n \<Longrightarrow> edits (rev a) (rev b) n"
proof (induction rule: edits.induct)
  case (ed_keep a b n c)
  then show ?case using edits_append [OF _ edits.ed_keep [OF edits.ed_end, of c]] by fastforce
next
  case (ed_change a b n c d)
  then show ?case using edits_append [OF _ edits.ed_change [OF edits.ed_end, of c d]] by fastforce
next
  case (ed_insert a b n d)
  then show ?case using edits_append [OF _ edits.ed_insert [OF edits.ed_end, of d]] by fastforce
next
  case (ed_delete a b n c)
  then show ?case using edits_append [OF _ edits.ed_delete [OF edits.ed_end, of c]] by fastforce
qed (simp add: edits.ed_end)

text \<open>The recursion for the least number.\<close>

fun lev :: "string \<Rightarrow> string \<Rightarrow> nat" where
  "lev [] b = length b"
| "lev (c # a) [] = Suc (length a)"
| "lev (c # a) (d # b) =
     min (min (Suc (lev a (d # b))) (Suc (lev (c # a) b))) (lev a b + (if c = d then 0 else 1))"

lemma lev_Nil2 [simp]: "lev a [] = length a"
  by (cases a) simp_all

lemma edits_insert_all: "edits [] b (length b)"
  by (induction b) (auto intro: edits.intros)

lemma edits_delete_all: "edits a [] (length a)"
  by (induction a) (auto intro: edits.intros)

lemma lev_edits: "edits a b (lev a b)"
proof (induction a b rule: lev.induct)
  case (2 c a)
  then show ?case using edits_delete_all [of "c # a"] by simp
next
  case (3 c a d b)
  then show ?case by (auto simp: min_def intro: edits.intros)
qed (simp add: edits_insert_all)

lemma lev_steps: "lev (c # a) b \<le> Suc (lev a b)" "lev a (d # b) \<le> Suc (lev a b)"
  "lev (c # a) (d # b) \<le> lev a b + (if c = d then 0 else 1)"
  by (cases b; simp) (cases a; simp)+

lemma lev_least: "edits a b n \<Longrightarrow> lev a b \<le> n"
proof (induction rule: edits.induct)
  case (ed_change a b n c d)
  then show ?case using lev_steps(3) [of c a d b] by (auto simp del: lev.simps split: if_splits)
next
  case (ed_insert a b n d)
  then show ?case using lev_steps(2) [of a d b] by simp
next
  case (ed_delete a b n c)
  then show ?case using lev_steps(1) [of c a b] by simp
qed simp_all

text \<open>One row of the table: the distances of \<open>A\<close> from the prefixes of the other word, read backwards.\<close>

fun lev_row :: "string \<Rightarrow> string \<Rightarrow> string \<Rightarrow> nat list" where
  "lev_row A P [] = [lev A P]"
| "lev_row A P (d # bs) = lev A P # lev_row A (d # P) bs"

lemma lev_row_step: "lev A P # tl (lev_row A P bs) = lev_row A P bs"
  by (cases bs) simp_all

lemma dp_cells_row: "dp_cells c bs (lev_row A P bs) (lev (c # A) P) = tl (lev_row (c # A) P bs)"
proof (induction bs arbitrary: P)
  case (Cons d bs)
  obtain up prev where r: "lev_row A (d # P) bs = up # prev" "up = lev A (d # P)"
    using lev_row_step [of A "d # P" bs] by metis
  let ?v = "if lev A P + (if c = d then 0 else 1) < (if Suc (lev (c # A) P) < Suc up then Suc (lev (c # A) P) else Suc up)
      then lev A P + (if c = d then 0 else 1) else (if Suc (lev (c # A) P) < Suc up then Suc (lev (c # A) P) else Suc up)"
  have v: "?v = lev (c # A) (d # P)" by (auto simp: r(2) min_def)
  have "dp_cells c (d # bs) (lev_row A P (d # bs)) (lev (c # A) P) = ?v # dp_cells c bs (up # prev) ?v"
    by (simp add: r(1) Let_def)
  also have "\<dots> = lev (c # A) (d # P) # tl (lev_row (c # A) (d # P) bs)"
    unfolding v r(1) [symmetric] Cons.IH ..
  finally show ?case by (simp add: lev_row_step del: dp_cells.simps lev.simps)
qed simp

lemma dp_rows_row: "dp_rows a b (Suc (length A)) (lev_row A [] b) = lev_row (rev a @ A) [] b"
proof (induction a arbitrary: A)
  case (Cons c a)
  have "Suc (length A) # dp_cells c b (lev_row A [] b) (Suc (length A)) = lev_row (c # A) [] b"
    using dp_cells_row [of c b A "[]"] lev_row_step [of "c # A" "[]" b] by simp
  then show ?case using Cons.IH [of "c # A"] by simp
qed simp

lemma first_row: "lev_row [] P bs = [length P..<length P + length bs + 1]"
  by (induction bs arbitrary: P) (simp_all add: upt_rec)

lemma last_of_row: "lev_row A P bs ! length bs = lev A (rev bs @ P)"
  by (induction bs arbitrary: P) simp_all

lemma edit_distance_lev:
  assumes "length a \<le> 60" "length b \<le> 60"
  shows "edit_distance a b = lev (rev a) (rev b)"
  using assms dp_rows_row [of a b "[]"] first_row [of "[]" b] last_of_row [of "rev a" "[]" b]
  by (simp add: edit_distance_def)

lemma edit_distance_least:
  assumes "length a \<le> 60" "length b \<le> 60"
  shows "edits a b (edit_distance a b)" "edits a b m \<Longrightarrow> edit_distance a b \<le> m"
proof -
  show "edits a b (edit_distance a b)"
    using edits_rev [OF lev_edits, of "rev a" "rev b"] by (simp add: edit_distance_lev [OF assms])
  assume "edits a b m"
  from lev_least [OF edits_rev [OF this]] show "edit_distance a b \<le> m"
    by (simp add: edit_distance_lev [OF assms])
qed

definition near :: "string \<Rightarrow> string \<Rightarrow> bool" where
  "near input name \<longleftrightarrow> 0 < edit_distance input name \<and> edit_distance input name \<le> (if length name \<le> 3 then 1 else 2)"

lemma best_of_names:
  "case foldl (better_name input) best names of
     None \<Rightarrow> best = None \<and> (\<forall>w\<in>set names. \<not> near input w)
   | Some (d, w) \<Rightarrow> (best = Some (d, w) \<or> w \<in> set names \<and> near input w \<and> d = edit_distance input w)
       \<and> (\<forall>v\<in>set names. near input v \<longrightarrow> d \<le> edit_distance input v)
       \<and> (\<forall>bd bw. best = Some (bd, bw) \<longrightarrow> d \<le> bd)"
proof (induction names arbitrary: best)
  case (Cons n names)
  have step: "better_name input best n = (if near input n \<and> (case best of None \<Rightarrow> True | Some (bd, _) \<Rightarrow> edit_distance input n < bd)
      then Some (edit_distance input n, n) else best)"
    by (auto simp: better_name_def near_def Let_def)
  show ?case
    using Cons.IH [of "better_name input best n"] unfolding foldl.simps step
    by (auto split: option.splits if_splits prod.splits)
qed (auto split: option.split)

text \<open>The suggestion after a misspelt name. The distance the table of the C function computes
  is the least number of single-character changes, insertions and deletions; the name suggested is a
  listed one within two of them (one for names of at most three letters), none listed is nearer, and
  there is no suggestion exactly when no listed name is that near.\<close>

theorem suggestion_exact:
  assumes "length input \<le> 60" and "\<forall>w\<in>set names. length w \<le> 60" and "input \<noteq> []"
  shows "(\<forall>w\<in>set names. edits input w (edit_distance input w)
      \<and> (\<forall>m. edits input w m \<longrightarrow> edit_distance input w \<le> m))
    \<and> (case closest_name input names of
         None \<Rightarrow> \<forall>w\<in>set names. \<not> near input w
       | Some w \<Rightarrow> w \<in> set names \<and> near input w
           \<and> (\<forall>v\<in>set names. near input v \<longrightarrow> edit_distance input w \<le> edit_distance input v))"
  using edit_distance_least [OF assms(1)] assms(2,3) best_of_names [where input = input and best = None and names = names]
  by (auto simp: closest_name_def split: option.splits prod.splits)

lemma suggestion_exact_witness:
  "closest_name ''skil'' [''db'', ''skill'', ''exec''] = Some ''skill'' \<and> edits ''skil'' ''skill'' (edit_distance ''skil'' ''skill'')"
proof -
  have "closest_name ''skil'' [''db'', ''skill'', ''exec''] = Some ''skill''" by code_simp
  then show ?thesis using suggestion_exact [of "''skil''" "[''db'', ''skill'', ''exec'']"] by simp
qed

section \<open>Reading input\<close>

lemma slurp_file:
  "\<forall>n. mem n \<Longrightarrow> length buf < cap \<Longrightarrow> slurp (\<lambda>len cap. len + 1 < cap) mem cap buf rest
     = Some (takeWhile (\<lambda>c. c \<noteq> CHR 0x00) (buf @ rest))"
proof (induction "length rest" arbitrary: cap buf rest rule: less_induct)
  case less
  define cap1 where "cap1 = (if length buf + 1 < cap then cap else 2 * cap)"
  have c1: "length buf + 1 < cap1" using less.prems(2) by (auto simp: cap1_def)
  let ?r = "take (cap1 - length buf - 1) rest"
  have step: "slurp (\<lambda>len cap. len + 1 < cap) mem cap buf rest
      = (if ?r = [] then Some (takeWhile (\<lambda>c. c \<noteq> CHR 0x00) buf)
         else slurp (\<lambda>len cap. len + 1 < cap) mem cap1 (buf @ ?r) (drop (length ?r) rest))"
    using less.prems(1) by (subst slurp.simps) (simp add: cap1_def Let_def)
  show ?case
  proof (cases "rest = []")
    case True
    then show ?thesis unfolding step by simp
  next
    case False
    then have r: "?r \<noteq> []" using c1 by simp
    then have "length (drop (length ?r) rest) < length rest" by (cases rest) auto
    moreover have "length (buf @ ?r) < cap1" using c1 by simp
    ultimately have "slurp (\<lambda>len cap. len + 1 < cap) mem cap1 (buf @ ?r) (drop (length ?r) rest)
        = Some (takeWhile (\<lambda>c. c \<noteq> CHR 0x00) ((buf @ ?r) @ drop (length ?r) rest))"
      using less.hyps less.prems(1) by blast
    moreover have "(buf @ ?r) @ drop (length ?r) rest = buf @ rest"
      unfolding append_assoc using append_take_drop_id [of "length ?r" rest] by (simp add: min_def split: if_splits)
    ultimately show ?thesis unfolding step using r by simp
  qed
qed

lemma slurp_stdin:
  assumes "length buf < cap"
  shows "slurp (\<lambda>len cap. len < cap) mem cap buf rest
     = Some (takeWhile (\<lambda>c. c \<noteq> CHR 0x00) (buf @ take (cap - length buf - 1) rest))"
proof -
  let ?r = "take (cap - length buf - 1) rest"
  have one: "slurp (\<lambda>len cap. len < cap) mem cap b q = (if take (cap - length b - 1) q = [] then Some (takeWhile (\<lambda>c. c \<noteq> CHR 0x00) b)
      else slurp (\<lambda>len cap. len < cap) mem cap (b @ take (cap - length b - 1) q) (drop (length (take (cap - length b - 1) q)) q))"
    if "length b < cap" for b q
    using that by (subst slurp.simps) (simp add: Let_def)
  have "take (cap - length (buf @ ?r) - 1) (drop (length ?r) rest) = []"
    by (cases "length rest \<le> cap - length buf - 1") auto
  then show ?thesis using one [OF assms, of rest] one [of "buf @ ?r" "drop (length ?r) rest"] assms by auto
qed

text \<open>Claim C35: What the input readers deliver. Given memory, a file is read completely, up to its first
  NUL byte; the standard input is cut off after 8191 bytes, since its buffer never grows: the free space
  is gone one byte before the test for growing would hold.\<close>

theorem input_readers:
  assumes "\<forall>n. ce_mem E ''file'' n" and "ce_mem E ''stdin'' 8192"
  shows "read_file_all E p = map_option (takeWhile (\<lambda>c. c \<noteq> CHR 0x00)) (ce_file E p)
    \<and> read_stdin_all E = Some (takeWhile (\<lambda>c. c \<noteq> CHR 0x00) (take 8191 (ce_stdin E)))"
  using assms slurp_file [of "ce_mem E ''file''" "[]" 8192] slurp_stdin [of "[]" 8192 "ce_mem E ''stdin''" "ce_stdin E"]
  by (auto simp: read_file_all_def read_stdin_all_def split: option.split)

lemma input_readers_witness:
  "map_option length (read_file_all (sample_cli_env\<lparr>ce_file := \<lambda>_. Some (replicate 9000 CHR ''x'')\<rparr>) ''f'') = Some 9000
   \<and> map_option length (read_stdin_all (sample_cli_env\<lparr>ce_stdin := replicate 9000 CHR ''x''\<rparr>)) = Some 8191"
proof -
  have w: "takeWhile (\<lambda>c. c \<noteq> CHR 0x00) (replicate n (CHR ''x'')) = replicate n (CHR ''x'')" for n
    by (induction n) simp_all
  show ?thesis
    using input_readers [of "sample_cli_env\<lparr>ce_file := \<lambda>_. Some (replicate 9000 CHR ''x'')\<rparr>" "''f''"]
      input_readers [of "sample_cli_env\<lparr>ce_stdin := replicate 9000 CHR ''x''\<rparr>" "''f''"] w
    by (simp add: sample_cli_env_def)
qed

end
