(* ===== verification/Cli_List_Properties.thy ===== *)
theory Cli_List_Properties
  imports Cli_Samples
begin

text \<open>
  What the list commands print with \<^verbatim>\<open>--stream\<close>, for all eight listers, and what the
  database commands do to files.
\<close>

section \<open>Streams\<close>

text \<open>
  The pager on a lister: it ends; whatever the engine does, what it printed is a gapless stretch of the
  rows from the offset on, in order; without faults an exit code of 0 means exactly the rows asked for.
\<close>

definition streams_rows :: "'r lister \<Rightarrow> (store \<Rightarrow> 'r list) \<Rightarrow> (int \<Rightarrow> int) \<Rightarrow> bool" where
  "streams_rows lst rows_of page_size \<longleftrightarrow>
     (\<forall>E g help op json offset limit s. 0 \<le> offset \<longrightarrow> 0 \<le> limit \<longrightarrow> \<not> (go_count g \<or> go_table g \<or> go_id_only g) \<longrightarrow>
       (\<exists>code s'. stream_out E g help op lst json offset limit s = Some (code, s')
          \<and> (\<exists>k. cl_out s' = cl_out s @ lines_of json (take k (drop (nat offset) (rows_of (store (cl_db s))))))
          \<and> (healthy (cl_db s) \<and> code = EXIT_OK \<longrightarrow>
               cl_out s' = cl_out s @ lines_of json
                 (if limit = 0 then drop (nat offset) (rows_of (store (cl_db s)))
                  else sql_page (page_size limit) offset (rows_of (store (cl_db s)))))))"

text \<open>The same with the exit code 0 guaranteed.\<close>

definition streams_surely :: "'r lister \<Rightarrow> bool" where
  "streams_surely lst \<longleftrightarrow>
     (\<forall>E g help op json offset limit s. 0 \<le> offset \<longrightarrow> 0 \<le> limit \<longrightarrow> \<not> (go_count g \<or> go_table g \<or> go_id_only g) \<longrightarrow>
       healthy (cl_db s) \<longrightarrow> (\<exists>s'. stream_out E g help op lst json offset limit s = Some (EXIT_OK, s')))"

context lister
begin

lemma streams: "streams_rows lst all_rows page_size"
  unfolding streams_rows_def
proof (intro allI impI)
  fix E :: cli_env and g :: cli_opts and hp oper json and offset limit :: int and s :: cli
  assume o: "0 \<le> offset" and l: "0 \<le> limit" and m: "\<not> (go_count g \<or> go_table g \<or> go_id_only g)"
  obtain code s' where r: "stream_pages E oper lst json offset limit 0 s = Some (code, s')"
    using stream_ends [OF o order_refl] by fastforce
  have k: "\<exists>k. cl_out s' = cl_out s @ lines_of json (take k (drop (nat offset) (all_rows (store (cl_db s)))))"
    using stream_stretch [OF o order_refl r] by simp
  have h: "cl_out s' = cl_out s @ lines_of json
      (if limit = 0 then drop (nat offset) (all_rows (store (cl_db s)))
       else sql_page (page_size limit) offset (all_rows (store (cl_db s))))"
    if "healthy (cl_db s)" "code = EXIT_OK"
    using stream_limited [OF that(1) o] stream_unlimited [OF that(1) o order_refl] r l that(2) by auto
  show "\<exists>code s'. stream_out E g hp oper lst json offset limit s = Some (code, s')
          \<and> (\<exists>k. cl_out s' = cl_out s @ lines_of json (take k (drop (nat offset) (all_rows (store (cl_db s))))))
          \<and> (healthy (cl_db s) \<and> code = EXIT_OK \<longrightarrow>
               cl_out s' = cl_out s @ lines_of json
                 (if limit = 0 then drop (nat offset) (all_rows (store (cl_db s)))
                  else sql_page (page_size limit) offset (all_rows (store (cl_db s)))))"
    using r m k h by (auto simp: stream_out_def)
qed

end

text \<open>A lister that never refuses: without faults every page is delivered.\<close>

locale steady_lister = lister +
  assumes steady: "healthy d \<Longrightarrow> 0 \<le> offset \<Longrightarrow> lst offset limit d = (items, n, err, d') \<Longrightarrow> int_or ACTA_DB_OK err = ACTA_DB_OK"
begin

lemma steady_pages:
  "healthy (cl_db s) \<Longrightarrow> 0 \<le> offset \<Longrightarrow> 0 \<le> emitted \<Longrightarrow>
     stream_pages E op lst json offset limit emitted s = Some (code, s') \<Longrightarrow> code = EXIT_OK"
proof (induction "length (drop (nat (offset + emitted)) (all_rows (store (cl_db s))))" arbitrary: emitted s
    rule: less_induct)
  case less
  obtain items err s1 where a: "ask_rows lst (offset + emitted) (stream_want limit emitted) s = (items, err, s1)"
    by (cases "ask_rows lst (offset + emitted) (stream_want limit emitted) s")
  let ?n = "int (length items)" and ?s2 = "say_lines json items s1"
  have "0 \<le> offset + emitted" using less.prems by simp
  then have err: "err = 0"
    using a steady less.prems(1) by (fastforce simp: ask_rows_def split: prod.splits)
  have "0 \<le> offset + emitted" using less.prems by simp
  note items = ask_full [OF a [unfolded err] less.prems(1) this]
  show ?case
  proof (cases "stream_done limit (emitted + ?n) ?n (stream_want limit emitted)")
    case True
    then show ?thesis using less.prems(4) unfolding stream_step [OF a] by (simp add: err)
  next
    case False
    then have r: "stream_pages E op lst json offset limit (emitted + ?n) ?s2 = Some (code, s')"
      using less.prems(4) unfolding stream_step [OF a] by (simp add: err)
    have st: "store (cl_db ?s2) = store (cl_db s)" using ask_part(2) [OF a] by (simp add: say_lines_def)
    have h: "healthy (cl_db ?s2)" using items(2) by (simp add: say_lines_def)
    obtain k where k: "items = take k (drop (nat (offset + emitted)) (all_rows (store (cl_db s))))"
      using ask_part(1) [OF a] by blast
    have "items \<noteq> []" using False by (auto simp: stream_done_def)
    then have "length (drop (nat (offset + (emitted + ?n))) (all_rows (store (cl_db ?s2))))
        < length (drop (nat (offset + emitted)) (all_rows (store (cl_db s))))"
      unfolding st nat_further [OF less.prems(2,3)] using k by (intro shorter_rest)
    from less.hyps [OF this h less.prems(2) _ r] less.prems(3) show ?thesis by simp
  qed
qed

lemma surely: "streams_surely lst"
  unfolding streams_surely_def stream_out_def
  using steady_pages stream_ends by (metis order_refl prod.collapse)

end

lemma healthy_list:
  assumes "healthy d" "0 \<le> offset"
  shows "model_list sel offset limit d = (items, n, err, d') \<Longrightarrow> int_or ACTA_DB_OK err = ACTA_DB_OK"
    and "skill_list sel2 offset limit d = (items2, n, err, d') \<Longrightarrow> int_or ACTA_DB_OK err = ACTA_DB_OK"
  using assms by (auto simp: model_list_def skill_list_def sql_read_healthy collect_loop_result int_or_def
      collect_loop_None split: option.splits if_splits)

interpretation steady_mo: steady_lister "mo_lister folder inc" "mo_rows folder inc" db_clamp_limit
  by unfold_locales (use healthy_list(1) in \<open>simp add: mo_lister_eq\<close>)

interpretation steady_sk: steady_lister "sk_lister folder inc" "sk_rows folder inc" db_clamp_limit
  by unfold_locales (use healthy_list(2) in \<open>simp add: sk_lister_eq\<close>)


section \<open>Backups\<close>

lemma backup_to_effect:
  "backup_to H g t s = (code, s') \<Longrightarrow> store (cl_db s') = store (cl_db s)
     \<and> (\<forall>f. f \<noteq> t \<longrightarrow> cl_files s' f = cl_files s f) \<and> cl_args s' = cl_args s
     \<and> (code = EXIT_OK \<longrightarrow> cl_files s' t = Some (store (cl_db s)))"
  by (auto simp: backup_to_def acta_db_backup_def Let_def cli_finish_db_error_def complain_def say_def map_rc_to_exit_def
      db_set_error_def split: if_splits option.splits prod.splits)

lemma db_backup_effect:
  assumes "run_cmd (db_backup H g) s = (code, s')"
  shows "(store (cl_db s') = store (cl_db s) \<and> cl_args s' = cl_args s)
    \<and> ((code \<noteq> EXIT_OK \<and> cl_files s' = cl_files s)
      \<or> (\<exists>t. cli_flag ''to'' s = Some t \<and> t \<noteq> [] \<and> \<not> list_ex bad_target_char t
           \<and> \<not> same_file_path (dh_cwd H) t (acta_db_main_path (cl_db s)) \<and> dh_stat H t = Stat_enoent
           \<and> (\<forall>f. f \<noteq> t \<longrightarrow> cl_files s' f = cl_files s f)
           \<and> (code = EXIT_OK \<longrightarrow> cl_files s' t = Some (store (cl_db s)))))"
  using assms
  by (auto simp: run_cmd_def db_backup_def fail_with_def Let_def emit_cli_error_def cli_finish_db_error_def complain_def
      map_rc_to_exit_def dest: backup_to_effect split: if_splits option.splits prod.splits stat_answer.splits)

text \<open>Claim C24: What db backup writes. It never changes the data; it touches at most the one file named
  by --to, and only if that name is not empty, holds no quote, semicolon or backslash, is not the
  database's own path as the path comparison sees it, and names no existing file; and if it exits with
  0, that file holds exactly the tables of the open database.\<close>

theorem backup_writes_new_file:
  assumes "cli_dispatch E H g ''db'' ''backup'' s = Some (code, s')"
  shows "store (cl_db s') = store (cl_db s)
    \<and> (\<forall>f. cl_files s' f \<noteq> cl_files s f \<longrightarrow> cli_flag ''to'' s = Some f \<and> f \<noteq> [] \<and> \<not> list_ex bad_target_char f
         \<and> \<not> same_file_path (dh_cwd H) f (acta_db_main_path (cl_db s)) \<and> dh_stat H f = Stat_enoent)
    \<and> (code = EXIT_OK \<longrightarrow> (\<exists>t. cli_flag ''to'' s = Some t \<and> cl_files s' t = Some (store (cl_db s))))"
proof (cases "surplus_positional ''db'' ''backup'' (cl_args s)")
  case (Some extra)
  then show ?thesis using assms
    by (auto simp: cli_dispatch_def lookup_entity_def entity_table_def unexpected_argument_def emit_cli_error_def complain_def)
next
  case None
  obtain c t where b: "run_cmd (db_backup H g) s = (c, t)" by fastforce
  then have l: "leftover_check ''db'' (c, t) = (code, s')"
    using assms None by (simp add: cli_dispatch_def lookup_entity_def entity_table_def cmd_db_def)
  have "cl_db s' = cl_db t" "cl_files s' = cl_files t" "code = EXIT_OK \<Longrightarrow> c = EXIT_OK"
    using l by (auto simp: leftover_check_def unexpected_argument_def emit_cli_error_def complain_def
        split: if_splits prod.splits option.splits)
  note same = this and e = db_backup_effect [OF b]
  show ?thesis
  proof (cases "c \<noteq> EXIT_OK \<and> cl_files t = cl_files s")
    case True
    then show ?thesis using same e by auto
  next
    case False
    with e obtain ta where ta: "cli_flag ''to'' s = Some ta" "ta \<noteq> []" "\<not> list_ex bad_target_char ta"
        "\<not> same_file_path (dh_cwd H) ta (acta_db_main_path (cl_db s))" "dh_stat H ta = Stat_enoent"
      and rest: "\<forall>f. f \<noteq> ta \<longrightarrow> cl_files t f = cl_files s f" "c = EXIT_OK \<longrightarrow> cl_files t ta = Some (store (cl_db s))"
      by blast
    have "f = ta" if "cl_files s' f \<noteq> cl_files s f" for f using that rest(1) same(2) by metis
    then show ?thesis using same e ta rest(2) by auto
  qed
qed

lemma backup_writes_new_file_witness:
  "\<exists>s'. cli_dispatch sample_cli_env sample_db_host zero_cli_opts ''db'' ''backup'' (sample_args [''--to'', ''b.db''] sample_inputs)
     = Some (EXIT_OK, s') \<and> cl_files s' ''b.db'' = Some (store sample_inputs)"
proof -
  let ?s = "sample_args [''--to'', ''b.db''] sample_inputs"
  let ?x = "cli_dispatch sample_cli_env sample_db_host zero_cli_opts ''db'' ''backup'' ?s"
  have "case ?x of None \<Rightarrow> False | Some (code, _) \<Rightarrow> code = EXIT_OK" by code_simp
  then obtain s' where x: "?x = Some (EXIT_OK, s')" by (auto split: option.splits)
  have "cli_flag ''to'' ?s = Some ''b.db''" by code_simp
  with backup_writes_new_file [OF x] have "cl_files s' ''b.db'' = Some (store (cl_db ?s))" by auto
  then show ?thesis using x by (intro exI [of _ s']) (simp add: sample_args_def)
qed

end
