(* ===== verification/Cli_Table_Properties.thy ===== *)
theory Cli_Table_Properties
  imports Cli_Samples
begin

text \<open>
  The self-description that \<^verbatim>\<open>--tools\<close> prints, against the program: entities, actions,
  flags, global options, JSON fields.
\<close>

definition listed_actions :: "string \<Rightarrow> string list" where
  "listed_actions entity = map (\<lambda>(_, _, a, _, _). a) (filter (\<lambda>(_, e, _, _, _). e = entity) tool_columns)"

text \<open>The actions each handler has a branch for, in the order of its own list.\<close>

definition handled_actions :: "(string \<times> string list) list" where
  "handled_actions =
     [(''db'', db_actions), (''context'', context_actions), (''model'', model_actions),
      (''model_folder'', model_folder_actions), (''model_revision'', model_revision_actions), (''skill'', skill_actions),
      (''skill_folder'', skill_folder_actions), (''skill_revision'', skill_rev_actions), (''exec'', exec_actions),
      (''log'', execution_log_actions)]"

text \<open>Where a flag of an action is read: by the action itself, or as a global option.\<close>

definition flag_read :: "tool_flag_t \<Rightarrow> bool" where
  "flag_read f \<longleftrightarrow> (tfl_name f, tfl_has_value f) \<in> set entity_flag_specs
     \<or> (tfl_name f, tfl_has_value f) \<in> set (map (\<lambda>f. (tfl_name f, tfl_has_value f)) global_flags)"

definition option_kind :: "cli_arg \<Rightarrow> bool option" where
  "option_kind a = (case a of Arg_kept \<Rightarrow> None | Arg_value _ _ \<Rightarrow> Some True | _ \<Rightarrow> Some False)"

lemma actions_agree: "list_all (\<lambda>(entity, acts). set (listed_actions entity) = set acts) handled_actions"
  by code_simp

lemma commands_agree: "list_all (\<lambda>(c, e, a, _, _). c = e @ ''.'' @ a) tool_columns"
  by code_simp

lemma flags_agree: "list_all (\<lambda>(_, _, _, _, fs). list_all flag_read fs) tool_columns"
  by code_simp

lemma entities_agree: "remdups (map (\<lambda>(_, e, _). e) tool_columns) = map fst handled_actions"
  by code_simp

lemma options_agree:
  "list_all (\<lambda>f. option_kind (cli_arg_of (''--'' @ tfl_name f)) = Some (tfl_has_value f)) global_flags"
  by code_simp

lemma unknown_refused:
  "unknown_action a t acts s = (code, s') \<Longrightarrow>
     code = EXIT_CLI \<and> cl_db s' = cl_db s \<and> cl_files s' = cl_files s \<and> cl_out s' = cl_out s"
  by (auto simp: unknown_action_def emit_cli_error_def complain_def Let_def split: option.splits)

lemma not_found_refused:
  "entity_not_found entity s = (code, s') \<Longrightarrow>
     code = EXIT_CLI \<and> cl_db s' = cl_db s \<and> cl_files s' = cl_files s \<and> cl_out s' = cl_out s"
  by (auto simp: entity_not_found_def emit_cli_error_def complain_def split: option.splits)

lemma unexpected_refused:
  "unexpected_argument entity extra s = (code, s') \<Longrightarrow>
     code = EXIT_CLI \<and> cl_db s' = cl_db s \<and> cl_files s' = cl_files s \<and> cl_out s' = cl_out s"
  by (auto simp: unexpected_argument_def emit_cli_error_def complain_def)

text \<open>A handler refuses what its list does not name.\<close>

lemma handler_refuses:
  assumes "lookup_entity entity = Some fn" "(entity, acts) \<in> set handled_actions" "action \<notin> set acts"
    and "fn E H g action s = Some (code, s')"
  shows "code = EXIT_CLI \<and> cl_db s' = cl_db s \<and> cl_files s' = cl_files s \<and> cl_out s' = cl_out s"
  using assms unfolding lookup_entity_def entity_table_def handled_actions_def
  by (auto simp: cmd_db_def entity_defs db_actions_def context_actions_def model_actions_def model_folder_actions_def
      model_revision_actions_def skill_actions_def skill_folder_actions_def skill_rev_actions_def exec_actions_def
      execution_log_actions_def cli_finish_db_error_def complain_def Let_def
      dest!: unknown_refused split: if_splits)

lemma listed_entry: "action \<in> set (listed_actions entity) \<Longrightarrow> \<exists>e\<in>set tool_table. te_entity e = entity \<and> te_action e = action"
  unfolding listed_actions_def tool_columns_of [symmetric] by (auto simp: entry_columns_def)



end
