(* ===== verification/Gui_Util.thy ===== *)
theory Gui_Util
  imports Runner_Util System
begin

text \<open>
  What the widgets of \<^verbatim>\<open>acta_gui\<close> share (\<^verbatim>\<open>widgets/util.h\<close>): the message for a library
  error, the words and colours of a status, and the filter over a tree. The texts of Qt strings are
  their UTF-8 bytes, as everywhere else. Qt itself is outside the repository: \<open>qt_lib\<close>
  holds \<^verbatim>\<open>QString::contains\<close> without regard to case, the JSON parser (an error text with its
  byte offset, or a document), the SHA-256 in hexadecimal, and a time stamp as it is displayed. A tree
  widget is the list of its top-level items; an item is what the panels store in it and its children.
\<close>

record qt_lib =
  qt_contains :: "string \<Rightarrow> string \<Rightarrow> bool"
  qt_fromJson :: "string \<Rightarrow> (string \<times> nat) + cJSON"
  qt_sha256 :: "string \<Rightarrow> string"
  qt_date :: "string option \<Rightarrow> string"

section \<open>What a handler works on\<close>

text \<open>
  The open connection and the boxes shown so far, as their titles and texts. What the user answers is
  an argument of each handler.
\<close>

record ui =
  ui_db :: db_t
  ui_boxes :: "(string \<times> string) list"

definition on_db :: "(db_t \<Rightarrow> 'a \<times> db_t) \<Rightarrow> ui \<Rightarrow> 'a \<times> ui" where
  "on_db f u = (case f (ui_db u) of (x, d) \<Rightarrow> (x, u\<lparr>ui_db := d\<rparr>))"

definition message_box :: "string \<Rightarrow> string \<Rightarrow> ui \<Rightarrow> ui" where
  "message_box caption text u = u\<lparr>ui_boxes := ui_boxes u @ [(caption, text)]\<rparr>"

text \<open>A library call with an out argument, read as one result.\<close>

definition made :: "(db_t \<Rightarrow> int \<times> int option \<times> db_t) \<Rightarrow> db_t \<Rightarrow> (int \<times> int option) \<times> db_t" where
  "made f d = (case f d of (rc, out, d1) \<Rightarrow> ((rc, out), d1))"

text \<open>A getter or lister: what it returns, its error code left out.\<close>

definition got :: "(db_t \<Rightarrow> 'a option \<times> int option \<times> db_t) \<Rightarrow> db_t \<Rightarrow> 'a option \<times> db_t" where
  "got f d = (case f d of (item, err, d1) \<Rightarrow> (item, d1))"

definition listed ::
  "(db_t \<Rightarrow> 'a list \<times> int option \<times> int option \<times> db_t) \<Rightarrow> db_t \<Rightarrow> 'a list \<times> db_t" where
  "listed f d = (case f d of (items, n, err, d1) \<Rightarrow> (items, d1))"

section \<open>Text\<close>

text \<open>A text widget shows NULL as the empty text: \<^verbatim>\<open>utf8\<close>.\<close>

definition shown_text :: "string option \<Rightarrow> string" where
  "shown_text s = (case s of None \<Rightarrow> [] | Some t \<Rightarrow> t)"

text \<open>\<^verbatim>\<open>QString::trimmed\<close>.\<close>

definition trimmed :: "string \<Rightarrow> string" where
  "trimmed s = rev (dropWhile is_space (rev (dropWhile is_space s)))"

text \<open>
  \<open>fallback\<close> is the message template with its two places, \<open>detail\<close> the optional extra text of an SQL
  error.
\<close>

definition friendlyDbError ::
  "int \<Rightarrow> string \<Rightarrow> string \<Rightarrow> (string \<Rightarrow> string \<Rightarrow> string) \<Rightarrow> string option \<Rightarrow> string" where
  "friendlyDbError rc noun name fallback detail =
     (if rc = ACTA_DB_ERR_DUPLICATE
      then ''A '' @ noun @ '' named '' @ dquoted name @ '' already exists in this folder''
      else if rc = ACTA_DB_ERR_FK then ''The target folder no longer exists''
      else if rc = ACTA_DB_ERR_NOT_FOUND
      then dquoted name @ '' could not be found (it may have been deleted)''
      else
        let err = acta_db_strerror rc in
        fallback noun
          (if rc = ACTA_DB_ERR_SQL
           then (case detail of None \<Rightarrow> err | Some m \<Rightarrow> if m = [] then err else err @ '': '' @ m)
           else err))"

section \<open>Status and log level\<close>

datatype color = Green | Orange | Red | Gray | DefaultColor

definition statusColor :: "string \<Rightarrow> color" where
  "statusColor status =
     (let s = map to_lower status in
      if s = ''completed'' then Green
      else if s = ''running'' then Orange
      else if s = ''failed'' then Red
      else Gray)"

definition statusMeaning :: "string \<Rightarrow> string" where
  "statusMeaning status =
     (let s = map to_lower status in
      if s = ''pending'' then ''Pending: created, but not started yet.''
      else if s = ''running'' then ''Running: the execution is currently in progress.''
      else if s = ''completed'' then ''Completed: the execution finished successfully.''
      else if s = ''failed'' then ''Failed: the execution ended with an error.''
      else if s = ''cancelled'' then ''Cancelled: the execution was stopped before completion.''
      else ''Unknown status: '' @ status)"

definition logLevelColor :: "string \<Rightarrow> color" where
  "logLevelColor level =
     (let l = map to_lower level in
      if l = ''error'' then Red
      else if l = ''warn'' \<or> l = ''warning'' then Orange
      else if l = ''debug'' then Gray
      else DefaultColor)"

section \<open>Trees\<close>

text \<open>
  The data of an item: its column texts, the values under the roles the panels define (0 and False
  where nothing was stored) and whether it is hidden.
\<close>

record row_data =
  it_text :: "string list"
  it_folder :: int
  it_entity :: int
  it_deleted :: bool
  it_folder_deleted :: bool
  it_entity_folder :: int
  it_revision :: int
  it_hidden :: bool

definition blank_item :: row_data where
  "blank_item = \<lparr>it_text = [], it_folder = 0, it_entity = 0, it_deleted = False,
     it_folder_deleted = False, it_entity_folder = 0, it_revision = 0, it_hidden = False\<rparr>"

datatype item = Item (item_data: row_data) (item_kids: "item list")

text \<open>The items in the order a depth-first search visits them.\<close>

fun preorder :: "item \<Rightarrow> row_data list" where
  "preorder (Item r kids) = r # concat (map preorder kids)"

definition tree_rows :: "item list \<Rightarrow> row_data list" where
  "tree_rows tree = concat (map preorder tree)"

text \<open>The closure \<^verbatim>\<open>visit\<close>: whether the item is shown, and the item with its mark.\<close>

fun visit :: "(row_data \<Rightarrow> bool) \<Rightarrow> item \<Rightarrow> bool \<times> item" where
  "visit match (Item r kids) =
     (let ks = map (visit match) kids; shown = (match r \<or> (\<exists>k\<in>set ks. fst k))
      in (shown, Item (r\<lparr>it_hidden := \<not> shown\<rparr>) (map snd ks)))"

definition filter_match :: "(string \<Rightarrow> string \<Rightarrow> bool) \<Rightarrow> string \<Rightarrow> row_data \<Rightarrow> bool" where
  "filter_match contains needle r =
     (let hay = trimmed needle in hay = [] \<or> (\<exists>t\<in>set (it_text r). contains t hay))"

definition applyTreeFilter :: "(string \<Rightarrow> string \<Rightarrow> bool) \<Rightarrow> string \<Rightarrow> item list \<Rightarrow> item list" where
  "applyTreeFilter contains needle tree = map (snd \<circ> visit (filter_match contains needle)) tree"

section \<open>What the filter does\<close>

definition unmarked :: "row_data \<Rightarrow> row_data" where
  "unmarked r = r\<lparr>it_hidden := False\<rparr>"

text \<open>An item is shown when it or something below it matches; nothing else changes.\<close>

lemma visit_shown: "fst (visit match t) = (\<exists>r\<in>set (preorder t). match r)"
  by (induction t) (auto simp: Let_def)

lemma visit_rows: "map unmarked (preorder (snd (visit match t))) = map unmarked (preorder t)"
  by (induction t) (auto simp: Let_def unmarked_def map_concat o_def intro!: arg_cong [of _ _ concat])

lemma visit_mark: "it_hidden (item_data (snd (visit match t))) = (\<not> fst (visit match t))"
  by (cases t) (simp add: Let_def)

lemma filter_rows:
  "map unmarked (tree_rows (applyTreeFilter contains needle tree)) = map unmarked (tree_rows tree)"
  by (induction tree) (simp_all add: tree_rows_def applyTreeFilter_def visit_rows)

end
