(* ===== verification/Gui_Tree.thy ===== *)
theory Gui_Tree
  imports Gui_Util
begin

text \<open>
  \<^verbatim>\<open>acta_gui/src/widgets/folderTreePanel.cpp\<close>: the browser of folders and their entities that
  the skill panel and the model panel share. The tree is built from two listings: the folders, nested
  by their parent links from the ones that have no listed parent, and the entities, appended to
  their folder. \<open>folder_dao\<close> is the adapter through which the panel reaches the library;
  \<open>contains\<close> is \<^verbatim>\<open>QString::contains\<close>. Icons, colours, tool tips, scrolling and the
  expansion of rows are left out.
\<close>

record FolderRow =
  fr_id :: int
  fr_parent_id :: int
  fr_folderId :: int
  fr_name :: string
  fr_deletedAt :: string

record folder_dao =
  entityTitle :: string
  listFolders :: "bool \<Rightarrow> db_t \<Rightarrow> FolderRow list \<times> db_t"
  createFolder :: "int \<Rightarrow> string \<Rightarrow> db_t \<Rightarrow> (int \<times> int option) \<times> db_t"
  renameFolder :: "int \<Rightarrow> string \<Rightarrow> db_t \<Rightarrow> int \<times> db_t"
  softDeleteFolder :: "int \<Rightarrow> db_t \<Rightarrow> int \<times> db_t"
  restoreFolder :: "int \<Rightarrow> db_t \<Rightarrow> int \<times> db_t"
  listAllEntities :: "bool \<Rightarrow> db_t \<Rightarrow> FolderRow list \<times> db_t"
  softDeleteEntity :: "int \<Rightarrow> db_t \<Rightarrow> int \<times> db_t"
  restoreEntity :: "int \<Rightarrow> db_t \<Rightarrow> int \<times> db_t"
  openNew :: "int \<Rightarrow> ui \<Rightarrow> bool \<times> ui"
  openShow :: "int \<Rightarrow> ui \<Rightarrow> ui"
  openEdit :: "int \<Rightarrow> ui \<Rightarrow> bool \<times> ui"

section \<open>Building the tree\<close>

definition folder_ids :: "FolderRow list \<Rightarrow> int set" where
  "folder_ids F = fr_id ` set F"

text \<open>The hash \<^verbatim>\<open>children\<close>, and the folders that start at the top level.\<close>

definition kids_of :: "FolderRow list \<Rightarrow> int \<Rightarrow> int list" where
  "kids_of F i = map fr_id (filter (\<lambda>f. fr_parent_id f \<noteq> 0 \<and> fr_parent_id f = i) F)"

definition tree_roots :: "FolderRow list \<Rightarrow> int list" where
  "tree_roots F = map fr_id (filter (\<lambda>f. fr_parent_id f = 0 \<or> fr_parent_id f \<notin> folder_ids F) F)"

text \<open>The hashes \<^verbatim>\<open>names\<close> and \<^verbatim>\<open>deleted\<close> keep the last entry of an id.\<close>

definition folder_row :: "FolderRow list \<Rightarrow> int \<Rightarrow> FolderRow option" where
  "folder_row F i = find (\<lambda>f. fr_id f = i) (rev F)"

definition folder_item :: "FolderRow list \<Rightarrow> int \<Rightarrow> row_data" where
  "folder_item F i =
     blank_item\<lparr>it_text := [case folder_row F i of None \<Rightarrow> [] | Some f \<Rightarrow> fr_name f],
       it_folder := i,
       it_folder_deleted := (case folder_row F i of None \<Rightarrow> False | Some f \<Rightarrow> fr_deletedAt f \<noteq> [])\<rparr>"

lemma kids_listed: "set (kids_of F i) \<subseteq> folder_ids F"
  by (auto simp: kids_of_def folder_ids_def)

text \<open>
  The closure \<^verbatim>\<open>addFolder\<close> over a list of ids: \<open>seen\<close> are the keys of
  \<^verbatim>\<open>folderItems\<close>.
\<close>

function addFolders :: "FolderRow list \<Rightarrow> int list \<Rightarrow> int list \<Rightarrow> item list \<times> int list" where
  "addFolders F seen [] = ([], seen)"
| "addFolders F seen (i # ids) =
     (if i \<in> set seen then addFolders F seen ids
      else (case addFolders F (i # seen) (kids_of F i) of (kids, seen1) \<Rightarrow>
              (case addFolders F seen1 ids of (rest, seen2) \<Rightarrow>
                 (Item (folder_item F i) kids # rest, seen2))))"
  by pat_completeness auto

termination
proof (relation "measures [\<lambda>(F, seen, ids). card (folder_ids F \<union> set ids - set seen),
    \<lambda>(F, seen, ids). length ids]", goal_cases)
  case (2 F seen i ids)
  have "card (folder_ids F \<union> set ids - set seen) \<le> card (folder_ids F \<union> set (i # ids) - set seen)"
    by (rule card_mono) (auto simp: folder_ids_def)
  then show ?case by (auto simp: le_less)
next
  case (3 F seen i ids)
  have "card (folder_ids F \<union> set (kids_of F i) - set (i # seen))
      < card (folder_ids F \<union> set (i # ids) - set seen)"
    by (rule psubset_card_mono) (use 3 kids_listed in \<open>auto simp: folder_ids_def\<close>)
  then show ?case by simp
next
  case (4 F seen i ids kids seen1)
  have seen_grows: "set seen \<subseteq> set (snd (addFolders F seen ids))"
    if "addFolders_dom (F, seen, ids)" for F seen ids
    using that
  proof (induction rule: addFolders.pinduct)
    case (2 F seen i ids)
    then show ?case
      by (cases "i \<in> set seen"; cases "addFolders F (i # seen) (kids_of F i)")
        (auto simp: addFolders.psimps split: prod.splits)
  qed (simp add: addFolders.psimps)
  with 4 have "set (i # seen) \<subseteq> set seen1"
    using seen_grows [of F "i # seen" "kids_of F i"] by (metis snd_conv)
  then have "card (folder_ids F \<union> set ids - set seen1) \<le> card (folder_ids F \<union> set (i # ids) - set seen)"
    by (intro card_mono) (auto simp: folder_ids_def)
  then show ?case by (auto simp: le_less)
qed simp

declare addFolders.simps [simp del]

definition entity_item :: "FolderRow \<Rightarrow> row_data" where
  "entity_item e =
     blank_item\<lparr>it_text := [fr_name e], it_entity := fr_id e, it_entity_folder := fr_folderId e,
       it_deleted := (fr_deletedAt e \<noteq> [])\<rparr>"

definition addEntities :: "FolderRow list \<Rightarrow> item list" where
  "addEntities es = map (\<lambda>e. Item (entity_item e) []) es"

text \<open>\<^verbatim>\<open>byFolder\<close> keeps the order of the listing.\<close>

definition byFolder :: "FolderRow list \<Rightarrow> int \<Rightarrow> FolderRow list" where
  "byFolder E i = filter (\<lambda>e. fr_folderId e = i) E"

fun attach :: "(int \<Rightarrow> item list) \<Rightarrow> item \<Rightarrow> item" where
  "attach g (Item r kids) = Item r (map (attach g) kids @ g (it_folder r))"

definition build_tree :: "FolderRow list \<Rightarrow> FolderRow list \<Rightarrow> item list" where
  "build_tree F E =
     map (attach (\<lambda>i. addEntities (byFolder E i))) (fst (addFolders F [] (tree_roots F)))
     @ addEntities (byFolder E 0)"

section \<open>The panel\<close>

record panel_buttons =
  show_on :: bool
  edit_on :: bool
  delete_on :: bool
  restore_on :: bool
  rename_folder_on :: bool
  delete_folder_on :: bool
  restore_folder_on :: bool

text \<open>
  \<open>tp_dao\<close> is \<open>None\<close> for the empty adapter of a panel without a database, \<open>tp_emitted\<close> what the signal
  \<^verbatim>\<open>itemChanged\<close> has carried.
\<close>

record tree_panel =
  tp_dao :: "folder_dao option"
  tp_tree :: "item list"
  tp_current :: "row_data option"
  tp_filter :: string
  tp_show_deleted :: bool
  tp_empty :: bool
  tp_buttons :: panel_buttons
  tp_last :: int
  tp_emitted :: "int list"

definition selectedEntityId :: "tree_panel \<Rightarrow> int" where
  "selectedEntityId p = (case tp_current p of None \<Rightarrow> 0 | Some r \<Rightarrow> it_entity r)"

definition selectedFolderId :: "tree_panel \<Rightarrow> int" where
  "selectedFolderId p = (case tp_current p of None \<Rightarrow> 0 | Some r \<Rightarrow> it_folder r)"

definition newTargetFolderId :: "tree_panel \<Rightarrow> int" where
  "newTargetFolderId p =
     (case tp_current p of
        None \<Rightarrow> 0
      | Some r \<Rightarrow> if it_entity r \<noteq> 0 then it_entity_folder r else it_folder r)"

definition updateButtonStates :: "tree_panel \<Rightarrow> tree_panel" where
  "updateButtonStates p =
     (let hasEntity = (case tp_current p of None \<Rightarrow> False | Some r \<Rightarrow> it_entity r \<noteq> 0);
          isEntityDeleted = (hasEntity \<and> (case tp_current p of None \<Rightarrow> False | Some r \<Rightarrow> it_deleted r));
          hasFolder = (case tp_current p of None \<Rightarrow> False | Some r \<Rightarrow> it_folder r \<noteq> 0);
          isFolderDeleted = (hasFolder \<and> (case tp_current p of None \<Rightarrow> False | Some r \<Rightarrow> it_folder_deleted r))
      in p\<lparr>tp_buttons :=
        \<lparr>show_on = hasEntity, edit_on = hasEntity \<and> \<not> isEntityDeleted,
         delete_on = hasEntity \<and> \<not> isEntityDeleted, restore_on = hasEntity \<and> isEntityDeleted,
         rename_folder_on = hasFolder \<and> \<not> isFolderDeleted,
         delete_folder_on = hasFolder \<and> \<not> isFolderDeleted,
         restore_folder_on = hasFolder \<and> isFolderDeleted\<rparr>\<rparr>)"

definition emitItemChanged :: "tree_panel \<Rightarrow> tree_panel" where
  "emitItemChanged p =
     (let i = selectedEntityId p in
      if i = tp_last p then p else p\<lparr>tp_last := i, tp_emitted := tp_emitted p @ [i]\<rparr>)"

text \<open>
  Qt reports a change of the current item, also the one \<^verbatim>\<open>clear()\<close> makes; the slot
  connected to it is the body here.
\<close>

definition setCurrentItem :: "row_data option \<Rightarrow> tree_panel \<Rightarrow> tree_panel" where
  "setCurrentItem r p =
     (if tp_current p = r then p else emitItemChanged (updateButtonStates (p\<lparr>tp_current := r\<rparr>)))"

definition findItemByRole :: "(row_data \<Rightarrow> int) \<Rightarrow> int \<Rightarrow> item list \<Rightarrow> row_data option" where
  "findItemByRole role i tree = find (\<lambda>r. role r = i) (tree_rows tree)"

definition reload :: "(string \<Rightarrow> string \<Rightarrow> bool) \<Rightarrow> tree_panel \<Rightarrow> ui \<Rightarrow> tree_panel \<times> ui" where
  "reload contains p u =
     (let keepFolder = selectedFolderId p; keepEntity = selectedEntityId p;
          p1 = (setCurrentItem None p)\<lparr>tp_tree := []\<rparr>
      in case tp_dao p of
        None \<Rightarrow> (p1\<lparr>tp_empty := True\<rparr>, u)
      | Some dao \<Rightarrow>
          (case on_db (listFolders dao (tp_show_deleted p)) u of (folders, u1) \<Rightarrow>
          (case on_db (listAllEntities dao (tp_show_deleted p)) u1 of (entities, u2) \<Rightarrow>
             let t = build_tree folders entities;
                 kept = (if keepFolder \<noteq> 0 then findItemByRole it_folder keepFolder t
                         else if keepEntity \<noteq> 0 then findItemByRole it_entity keepEntity t else None);
                 p2 = setCurrentItem kept (p1\<lparr>tp_tree := t\<rparr>)
             in (emitItemChanged (updateButtonStates
                   (p2\<lparr>tp_tree := applyTreeFilter contains (tp_filter p) t, tp_empty := (t = [])\<rparr>)), u2))))"

section \<open>The actions\<close>

text \<open>
  One per slot. \<open>yes\<close> is the answer to the question box, \<open>answer\<close> what the input box returns
  (\<open>None\<close> when it was cancelled).
\<close>

definition reload_if ::
  "(string \<Rightarrow> string \<Rightarrow> bool) \<Rightarrow> bool \<Rightarrow> tree_panel \<Rightarrow> ui \<Rightarrow> tree_panel \<times> ui" where
  "reload_if contains stored p u = (if stored then reload contains p u else (p, u))"

definition onNewBtnClicked ::
  "(string \<Rightarrow> string \<Rightarrow> bool) \<Rightarrow> tree_panel \<Rightarrow> ui \<Rightarrow> tree_panel \<times> ui" where
  "onNewBtnClicked contains p u =
     (case tp_dao p of
        None \<Rightarrow> (p, u)
      | Some dao \<Rightarrow>
          (case openNew dao (newTargetFolderId p) u of (stored, u1) \<Rightarrow> reload_if contains stored p u1))"

definition onShowBtnClicked :: "tree_panel \<Rightarrow> ui \<Rightarrow> tree_panel \<times> ui" where
  "onShowBtnClicked p u =
     (case tp_dao p of
        None \<Rightarrow> (p, u)
      | Some dao \<Rightarrow>
          if selectedEntityId p = 0 then (p, u) else (p, openShow dao (selectedEntityId p) u))"

definition onEditBtnClicked ::
  "(string \<Rightarrow> string \<Rightarrow> bool) \<Rightarrow> tree_panel \<Rightarrow> ui \<Rightarrow> tree_panel \<times> ui" where
  "onEditBtnClicked contains p u =
     (case tp_dao p of
        None \<Rightarrow> (p, u)
      | Some dao \<Rightarrow>
          if selectedEntityId p = 0 then (p, u)
          else (case openEdit dao (selectedEntityId p) u of (stored, u1) \<Rightarrow> reload_if contains stored p u1))"

definition onEntityDeleteClicked ::
  "(string \<Rightarrow> string \<Rightarrow> bool) \<Rightarrow> bool \<Rightarrow> tree_panel \<Rightarrow> ui \<Rightarrow> tree_panel \<times> ui" where
  "onEntityDeleteClicked contains yes p u =
     (case tp_dao p of
        None \<Rightarrow> (p, u)
      | Some dao \<Rightarrow>
          if selectedEntityId p = 0 \<or> \<not> yes then (p, u)
          else (case on_db (softDeleteEntity dao (selectedEntityId p)) u of (rc, u1) \<Rightarrow>
                  reload_if contains (rc = ACTA_DB_OK) p u1))"

definition onEntityRestoreClicked ::
  "(string \<Rightarrow> string \<Rightarrow> bool) \<Rightarrow> tree_panel \<Rightarrow> ui \<Rightarrow> tree_panel \<times> ui" where
  "onEntityRestoreClicked contains p u =
     (case tp_dao p of
        None \<Rightarrow> (p, u)
      | Some dao \<Rightarrow>
          if selectedEntityId p = 0 then (p, u)
          else (case on_db (restoreEntity dao (selectedEntityId p)) u of (rc, u1) \<Rightarrow>
                  if rc = ACTA_DB_OK
                  then reload contains p
                         (message_box (entityTitle dao) (entityTitle dao @ '' restored.'') u1)
                  else (p, u1)))"

definition createFolderWithParent ::
  "(string \<Rightarrow> string \<Rightarrow> bool) \<Rightarrow> int \<Rightarrow> string option \<Rightarrow> tree_panel \<Rightarrow> ui \<Rightarrow> tree_panel \<times> ui" where
  "createFolderWithParent contains parentId answer p u =
     (case (tp_dao p, answer) of
        (Some dao, Some name) \<Rightarrow>
          if trimmed name = [] then (p, u)
          else (case on_db (createFolder dao parentId (trimmed name)) u of ((rc, newId), u1) \<Rightarrow>
             if rc \<noteq> ACTA_DB_OK
             then (p, message_box (entityTitle dao)
                    (friendlyDbError rc ''folder'' (trimmed name)
                       (\<lambda>n e. ''Could not create '' @ n @ '': '' @ e) None) u1)
             else (case reload contains p u1 of (p1, u2) \<Rightarrow>
               (case findItemByRole it_folder (case newId of None \<Rightarrow> 0 | Some n \<Rightarrow> n) (tp_tree p1) of
                  None \<Rightarrow> (p1, u2)
                | Some r \<Rightarrow> (setCurrentItem (Some r) p1, u2))))
      | _ \<Rightarrow> (p, u))"

definition onNewFolderBtnClicked ::
  "(string \<Rightarrow> string \<Rightarrow> bool) \<Rightarrow> string option \<Rightarrow> tree_panel \<Rightarrow> ui \<Rightarrow> tree_panel \<times> ui" where
  "onNewFolderBtnClicked contains answer p u =
     createFolderWithParent contains (selectedFolderId p) answer p u"

definition onRenameFolderBtnClicked ::
  "(string \<Rightarrow> string \<Rightarrow> bool) \<Rightarrow> string option \<Rightarrow> tree_panel \<Rightarrow> ui \<Rightarrow> tree_panel \<times> ui" where
  "onRenameFolderBtnClicked contains answer p u =
     (case (tp_dao p, answer) of
        (Some dao, Some name) \<Rightarrow>
          if selectedFolderId p = 0 \<or> trimmed name = [] then (p, u)
          else (case on_db (renameFolder dao (selectedFolderId p) (trimmed name)) u of (rc, u1) \<Rightarrow>
             if rc \<noteq> ACTA_DB_OK
             then (p, message_box (entityTitle dao)
                    (friendlyDbError rc ''folder'' (trimmed name)
                       (\<lambda>n e. ''Could not rename '' @ n @ '': '' @ e) None) u1)
             else reload contains p u1)
      | _ \<Rightarrow> (p, u))"

definition folder_delete_message :: "string \<Rightarrow> int \<Rightarrow> string" where
  "folder_delete_message title rc =
     (if rc = ACTA_DB_ERR_INVALID
      then ''Folder still has live child folders or '' @ map to_lower title @ ''s. Delete or move them first.''
      else if rc = ACTA_DB_ERR_NOT_FOUND then ''Folder not found.''
      else ''Could not delete folder: '' @ acta_db_strerror rc)"

definition onDeleteFolderBtnClicked ::
  "(string \<Rightarrow> string \<Rightarrow> bool) \<Rightarrow> bool \<Rightarrow> tree_panel \<Rightarrow> ui \<Rightarrow> tree_panel \<times> ui" where
  "onDeleteFolderBtnClicked contains yes p u =
     (case tp_dao p of
        None \<Rightarrow> (p, u)
      | Some dao \<Rightarrow>
          if selectedFolderId p = 0 \<or> \<not> yes then (p, u)
          else (case on_db (softDeleteFolder dao (selectedFolderId p)) u of (rc, u1) \<Rightarrow>
             if rc \<noteq> ACTA_DB_OK
             then (p, message_box (entityTitle dao) (folder_delete_message (entityTitle dao) rc) u1)
             else reload contains p u1))"

definition onRestoreFolderBtnClicked ::
  "(string \<Rightarrow> string \<Rightarrow> bool) \<Rightarrow> tree_panel \<Rightarrow> ui \<Rightarrow> tree_panel \<times> ui" where
  "onRestoreFolderBtnClicked contains p u =
     (case tp_dao p of
        None \<Rightarrow> (p, u)
      | Some dao \<Rightarrow>
          if selectedFolderId p = 0 then (p, u)
          else
            let name = (case tp_current p of None \<Rightarrow> [] | Some r \<Rightarrow> (case it_text r of [] \<Rightarrow> [] | t # ts \<Rightarrow> t))
            in (case on_db (restoreFolder dao (selectedFolderId p)) u of (rc, u1) \<Rightarrow>
               if rc \<noteq> ACTA_DB_OK
               then (p, message_box (entityTitle dao)
                      (friendlyDbError rc ''folder'' name
                         (\<lambda>n e. ''Could not restore '' @ n @ '': '' @ e) None) u1)
               else reload contains p (message_box (entityTitle dao) ''Folder restored.'' u1)))"

text \<open>Delete, F2 and Return in the tree.\<close>

definition onDeleteKeyPressed ::
  "(string \<Rightarrow> string \<Rightarrow> bool) \<Rightarrow> bool \<Rightarrow> tree_panel \<Rightarrow> ui \<Rightarrow> tree_panel \<times> ui" where
  "onDeleteKeyPressed contains yes p u =
     (if delete_on (tp_buttons p) then onEntityDeleteClicked contains yes p u
      else if delete_folder_on (tp_buttons p) then onDeleteFolderBtnClicked contains yes p u
      else (p, u))"

definition onRenameKeyPressed ::
  "(string \<Rightarrow> string \<Rightarrow> bool) \<Rightarrow> string option \<Rightarrow> tree_panel \<Rightarrow> ui \<Rightarrow> tree_panel \<times> ui" where
  "onRenameKeyPressed contains answer p u =
     (if edit_on (tp_buttons p) then onEditBtnClicked contains p u
      else if rename_folder_on (tp_buttons p) then onRenameFolderBtnClicked contains answer p u
      else (p, u))"

definition onReturnKeyPressed :: "tree_panel \<Rightarrow> ui \<Rightarrow> tree_panel \<times> ui" where
  "onReturnKeyPressed p u = (if show_on (tp_buttons p) then onShowBtnClicked p u else (p, u))"

definition setDao ::
  "(string \<Rightarrow> string \<Rightarrow> bool) \<Rightarrow> folder_dao option \<Rightarrow> tree_panel \<Rightarrow> ui \<Rightarrow> tree_panel \<times> ui" where
  "setDao contains dao p u = reload contains (p\<lparr>tp_dao := dao\<rparr>) u"

section \<open>Events\<close>

datatype tree_event =
    SelectItem "row_data option" | TypeTreeFilter string | ToggleTreeTrash bool
  | NewEntity | ShowEntity | EditEntity | DeleteEntity bool | RestoreEntity
  | NewFolder "string option" | NewFolderAtRoot "string option" | RenameFolder "string option"
  | DeleteFolder bool | RestoreFolder | TreeDeleteKey bool | TreeRenameKey "string option" | TreeReturnKey

fun tree_step ::
  "(string \<Rightarrow> string \<Rightarrow> bool) \<Rightarrow> tree_event \<Rightarrow> tree_panel \<Rightarrow> ui \<Rightarrow> tree_panel \<times> ui" where
  "tree_step contains (SelectItem r) p u = (setCurrentItem r p, u)"
| "tree_step contains (TypeTreeFilter t) p u =
     (p\<lparr>tp_filter := t, tp_tree := applyTreeFilter contains t (tp_tree p)\<rparr>, u)"
| "tree_step contains (ToggleTreeTrash b) p u = reload contains (p\<lparr>tp_show_deleted := b\<rparr>) u"
| "tree_step contains NewEntity p u = onNewBtnClicked contains p u"
| "tree_step contains ShowEntity p u = onShowBtnClicked p u"
| "tree_step contains EditEntity p u = onEditBtnClicked contains p u"
| "tree_step contains (DeleteEntity yes) p u = onEntityDeleteClicked contains yes p u"
| "tree_step contains RestoreEntity p u = onEntityRestoreClicked contains p u"
| "tree_step contains (NewFolder answer) p u = onNewFolderBtnClicked contains answer p u"
| "tree_step contains (NewFolderAtRoot answer) p u = createFolderWithParent contains 0 answer p u"
| "tree_step contains (RenameFolder answer) p u = onRenameFolderBtnClicked contains answer p u"
| "tree_step contains (DeleteFolder yes) p u = onDeleteFolderBtnClicked contains yes p u"
| "tree_step contains RestoreFolder p u = onRestoreFolderBtnClicked contains p u"
| "tree_step contains (TreeDeleteKey yes) p u = onDeleteKeyPressed contains yes p u"
| "tree_step contains (TreeRenameKey answer) p u = onRenameKeyPressed contains answer p u"
| "tree_step contains TreeReturnKey p u = onReturnKeyPressed p u"

end
