(* ===== verification/Gui_Dialogs.thy ===== *)
theory Gui_Dialogs
  imports Gui_Tree Skill_Revisions Model_Revisions
begin

text \<open>
  The dialogs of \<^verbatim>\<open>acta_gui/src/widgets\<close>. The base class of
  \<^verbatim>\<open>entityDialog.cpp\<close> is the part over \<open>entity_ops\<close>, whose fields are its virtual functions;
  \<^verbatim>\<open>skillDialog.cpp\<close> and \<^verbatim>\<open>modelDialog.cpp\<close> fill them in; the adapters of
  \<^verbatim>\<open>skillPanel.cpp\<close> and \<^verbatim>\<open>modelPanel.cpp\<close> open these dialogs and call the
  library. Then \<^verbatim>\<open>contextDialog.cpp\<close> and the saving of
  \<^verbatim>\<open>executionCreateDialog.cpp\<close>. What the user does in a dialog is the list of forms at
  which Save is pressed before the dialog is closed. A text widget shows NULL as the empty text.
\<close>

text \<open>An empty text as NULL.\<close>

definition null_if_empty :: "string \<Rightarrow> string option" where
  "null_if_empty s = (if s = [] then None else Some s)"

section \<open>The base class\<close>

datatype dialog_mode = NewMode | EditMode | ReadOnlyMode

text \<open>
  \<open>loadRow\<close>: id, folder and fields of the row; \<open>createEntity\<close> and \<open>updateEntity\<close> show their own
  warnings.
\<close>

record 'f entity_ops =
  eo_title :: string
  eo_noun :: string
  eo_blank :: 'f
  validateFields :: "'f \<Rightarrow> string option"
  createEntity :: "'f \<Rightarrow> int \<Rightarrow> ui \<Rightarrow> int \<times> ui"
  updateEntity :: "'f \<Rightarrow> int \<Rightarrow> ui \<Rightarrow> int \<times> ui"
  loadRow :: "int \<Rightarrow> db_t \<Rightarrow> (int \<times> int \<times> 'f) option \<times> db_t"
  revisionRows :: "int \<Rightarrow> db_t \<Rightarrow> (int \<times> int) list \<times> db_t"
  revisionFields :: "int \<Rightarrow> db_t \<Rightarrow> 'f option \<times> db_t"
  folderName :: "int \<Rightarrow> db_t \<Rightarrow> string option \<times> db_t"

record 'f dialog =
  dg_mode :: dialog_mode
  dg_id :: int
  dg_folderId :: int
  dg_target :: string
  dg_form :: 'f
  dg_latest :: int
  dg_saved :: bool

definition new_dialog :: "'f entity_ops \<Rightarrow> 'f dialog" where
  "new_dialog X =
     \<lparr>dg_mode = ReadOnlyMode, dg_id = 0, dg_folderId = 0, dg_target = [], dg_form = eo_blank X,
      dg_latest = 0, dg_saved = False\<rparr>"

definition newTitle :: "'f entity_ops \<Rightarrow> 'f dialog \<Rightarrow> string" where
  "newTitle X g =
     ''New '' @ eo_title X @ '' in '' @
       (if dg_target g = [] then ''the root level'' else ''folder '' @ [CHR 0x27] @ dg_target g @ [CHR 0x27])"

text \<open>Only a dialog that is read-only lets a selected revision overwrite the fields.\<close>

definition showRevision :: "'f entity_ops \<Rightarrow> int \<Rightarrow> 'f dialog \<Rightarrow> ui \<Rightarrow> 'f dialog \<times> ui" where
  "showRevision X revisionId g u =
     (if dg_mode g \<noteq> ReadOnlyMode \<or> revisionId = 0 then (g, u)
      else (case on_db (revisionFields X revisionId) u of
         (None, u1) \<Rightarrow> (g, u1)
       | (Some f, u1) \<Rightarrow> (g\<lparr>dg_form := f\<rparr>, u1)))"

definition loadRevisionTree :: "'f entity_ops \<Rightarrow> 'f dialog \<Rightarrow> ui \<Rightarrow> 'f dialog \<times> ui" where
  "loadRevisionTree X g u =
     (case on_db (revisionRows X (dg_id g)) u of
        (revs, u1) \<Rightarrow>
          if revs = [] then (g\<lparr>dg_latest := 0\<rparr>, u1)
          else showRevision X (fst (last revs)) (g\<lparr>dg_latest := snd (last revs)\<rparr>) u1)"

definition loadEntity :: "'f entity_ops \<Rightarrow> int \<Rightarrow> 'f dialog \<Rightarrow> ui \<Rightarrow> 'f dialog \<times> ui" where
  "loadEntity X i g u =
     (case on_db (loadRow X i) u of
        (None, u1) \<Rightarrow> (g, u1)
      | (Some (rid, fld, f), u1) \<Rightarrow>
          loadRevisionTree X (g\<lparr>dg_id := rid, dg_folderId := fld, dg_form := f\<rparr>) u1)"

definition newEntity :: "'f entity_ops \<Rightarrow> int \<Rightarrow> 'f dialog \<Rightarrow> ui \<Rightarrow> 'f dialog \<times> ui" where
  "newEntity X folderId g u =
     (case (if folderId > 0 then on_db (folderName X folderId) u else (None, u)) of
        (name, u1) \<Rightarrow>
          (g\<lparr>dg_id := 0, dg_folderId := folderId, dg_saved := False,
             dg_target := (case name of None \<Rightarrow> dg_target g | Some n \<Rightarrow> n),
             dg_form := eo_blank X, dg_mode := NewMode\<rparr>, u1))"

definition showEntity :: "'f entity_ops \<Rightarrow> int \<Rightarrow> 'f dialog \<Rightarrow> ui \<Rightarrow> 'f dialog \<times> ui" where
  "showEntity X i g u = (case loadEntity X i g u of (g1, u1) \<Rightarrow> (g1\<lparr>dg_mode := ReadOnlyMode\<rparr>, u1))"

definition editEntity :: "'f entity_ops \<Rightarrow> int \<Rightarrow> 'f dialog \<Rightarrow> ui \<Rightarrow> 'f dialog \<times> ui" where
  "editEntity X i g u =
     (case loadEntity X i (g\<lparr>dg_saved := False\<rparr>) u of (g1, u1) \<Rightarrow> (g1\<lparr>dg_mode := EditMode\<rparr>, u1))"

text \<open>The first component says that the dialog closes itself.\<close>

definition onSaveClicked :: "'f entity_ops \<Rightarrow> 'f dialog \<Rightarrow> ui \<Rightarrow> bool \<times> 'f dialog \<times> ui" where
  "onSaveClicked X g u =
     (if dg_mode g = NewMode \<or> dg_mode g = EditMode \<and> dg_id g \<noteq> 0
      then (case validateFields X (dg_form g) of
          Some msg \<Rightarrow> (False, g, message_box (eo_title X) msg u)
        | None \<Rightarrow>
            if dg_mode g = NewMode
            then (case createEntity X (dg_form g) (dg_folderId g) u of (rc, u1) \<Rightarrow>
                if rc \<noteq> ACTA_DB_OK then (False, g, u1)
                else (True, g\<lparr>dg_saved := True\<rparr>,
                      message_box (eo_title X) (eo_title X @ '' saved.'') u1))
            else (case updateEntity X (dg_form g) (dg_id g) u of (rc, u1) \<Rightarrow>
                if rc \<noteq> ACTA_DB_OK then (False, g, u1)
                else (case loadEntity X (dg_id g) (g\<lparr>dg_saved := True\<rparr>) u1 of (g1, u2) \<Rightarrow>
                  (True, g1, message_box (eo_title X)
                     (''Saved as revision '' @ show_int (dg_latest g1) @ ''.'') u2))))
      else (False, g, u))"

text \<open>The forms at which Save is pressed, until the dialog closes.\<close>

fun dialog_exec :: "'f entity_ops \<Rightarrow> 'f list \<Rightarrow> 'f dialog \<Rightarrow> ui \<Rightarrow> 'f dialog \<times> ui" where
  "dialog_exec X [] g u = (g, u)"
| "dialog_exec X (f # fs) g u =
     (case onSaveClicked X (g\<lparr>dg_form := f\<rparr>) u of (ends, g1, u1) \<Rightarrow>
        if ends then (g1, u1) else dialog_exec X fs g1 u1)"

section \<open>Skills\<close>

record skill_form =
  kf_name :: string
  kf_description :: string
  kf_prompt :: string
  kf_schema :: string

text \<open>The position of a parse error: the loop over the bytes before the offset.\<close>

fun line_col :: "string \<Rightarrow> nat \<times> nat \<Rightarrow> nat \<times> nat" where
  "line_col [] lc = lc"
| "line_col (c # cs) (line, col) =
     line_col cs (if c = CHR 0x0A then (line + 1, 1) else (line, col + 1))"

definition skill_validate :: "qt_lib \<Rightarrow> skill_form \<Rightarrow> string option" where
  "skill_validate Q f =
     (if trimmed (kf_name f) = [] \<or> kf_prompt f = [] then Some ''Name and prompt are required.''
      else if kf_schema f = [] then None
      else (case qt_fromJson Q (kf_schema f) of
         Inl (err, off) \<Rightarrow>
           (case line_col (take off (kf_schema f)) (1, 1) of (line, col) \<Rightarrow>
              Some (''Invalid JSON in output schema: '' @ err @ '' (line '' @ show_nat line
                @ '', column '' @ show_nat col @ '')''))
       | Inr (JObject obj) \<Rightarrow> None
       | Inr other \<Rightarrow> Some ''Output schema must be a JSON object.''))"

definition save_failed :: "string \<Rightarrow> string \<Rightarrow> string \<Rightarrow> string \<Rightarrow> int \<Rightarrow> ui \<Rightarrow> int \<times> ui" where
  "save_failed caption noun name verb rc u =
     (rc, if rc = ACTA_DB_OK then u
          else message_box caption
            (friendlyDbError rc noun name (\<lambda>n e. ''Could not '' @ verb @ '' '' @ n @ '': '' @ e)
               (acta_db_last_error (ui_db u))) u)"

definition skill_createEntity :: "skill_form \<Rightarrow> int \<Rightarrow> ui \<Rightarrow> int \<times> ui" where
  "skill_createEntity f folderId u =
     (case on_db (made (acta_db_skill_create
          \<lparr>s_id = 0, s_folder_id = folderId, s_name = Some (trimmed (kf_name f)),
           s_description = null_if_empty (kf_description f), s_prompt_template = Some (kf_prompt f),
           s_output_schema = null_if_empty (kf_schema f), s_created_at = None, s_updated_at = None,
           s_deleted_at = None\<rparr>)) u of
        ((rc, out), u1) \<Rightarrow> save_failed ''Skill'' ''skill'' (trimmed (kf_name f)) ''create'' rc u1)"

definition skill_updateEntity :: "skill_form \<Rightarrow> int \<Rightarrow> ui \<Rightarrow> int \<times> ui" where
  "skill_updateEntity f i u =
     (case acta_db_skill_get_live i (ui_db u) of
        (None, err, d) \<Rightarrow>
          (case err of None \<Rightarrow> ACTA_DB_ERR_INVALID
           | Some e \<Rightarrow> if e \<noteq> ACTA_DB_OK then e else ACTA_DB_ERR_INVALID, u\<lparr>ui_db := d\<rparr>)
      | (Some s, err, d) \<Rightarrow>
          (case on_db (acta_db_skill_update
              (s\<lparr>s_name := Some (trimmed (kf_name f)), s_description := null_if_empty (kf_description f),
                 s_prompt_template := Some (kf_prompt f),
                 s_output_schema := null_if_empty (kf_schema f)\<rparr>)) (u\<lparr>ui_db := d\<rparr>) of
             (rc, u1) \<Rightarrow> save_failed ''Skill'' ''skill'' (trimmed (kf_name f)) ''save'' rc u1))"

definition skill_fields :: "skill_t \<Rightarrow> skill_form" where
  "skill_fields s =
     \<lparr>kf_name = shown_text (s_name s), kf_description = shown_text (s_description s),
      kf_prompt = shown_text (s_prompt_template s), kf_schema = shown_text (s_output_schema s)\<rparr>"

definition skill_revision_fields :: "skill_revision_t \<Rightarrow> skill_form" where
  "skill_revision_fields r =
     \<lparr>kf_name = shown_text (svr_name r), kf_description = shown_text (svr_description r),
      kf_prompt = shown_text (svr_prompt_template r), kf_schema = shown_text (svr_output_schema r)\<rparr>"

definition skill_ops :: "qt_lib \<Rightarrow> skill_form entity_ops" where
  "skill_ops Q =
     \<lparr>eo_title = ''Skill'', eo_noun = ''skill'',
      eo_blank = \<lparr>kf_name = [], kf_description = [], kf_prompt = [], kf_schema = []\<rparr>,
      validateFields = skill_validate Q, createEntity = skill_createEntity,
      updateEntity = skill_updateEntity,
      loadRow = (\<lambda>i d. map_prod (map_option (\<lambda>s. (s_id s, s_folder_id s, skill_fields s))) id
                  (got (acta_db_skill_get i) d)),
      revisionRows = (\<lambda>i d. map_prod (map (\<lambda>r. (svr_id r, svr_revision r))) id
                       (listed (acta_db_skill_revision_list_by_skill i 0 0) d)),
      revisionFields = (\<lambda>i d. map_prod (map_option skill_revision_fields) id
                         (got (acta_db_skill_revision_get i) d)),
      folderName = (\<lambda>i d. map_prod (map_option (\<lambda>f. shown_text (f_name f))) id
                     (got (acta_db_skill_folder_get i) d))\<rparr>"

section \<open>Models\<close>

record model_form =
  mf_name :: string
  mf_description :: string
  mf_backend :: string
  mf_base_url :: string
  mf_identifier :: string
  mf_configuration :: string

definition model_validate :: "model_form \<Rightarrow> string option" where
  "model_validate f =
     (let backend = trimmed (mf_backend f) in
      if trimmed (mf_name f) = [] \<or> backend = [] \<or> trimmed (mf_identifier f) = []
      then Some ''Name, backend and model identifier are required.''
      else if backend \<noteq> ''llamacpp'' \<and> backend \<noteq> ''openai''
      then Some (''Backend must be '' @ dquoted ''llamacpp'' @ '' or '' @ dquoted ''openai''
             @ '' (got '' @ dquoted backend @ '').'')
      else None)"

definition model_createEntity :: "model_form \<Rightarrow> int \<Rightarrow> ui \<Rightarrow> int \<times> ui" where
  "model_createEntity f folderId u =
     (case on_db (made (acta_db_model_create
          \<lparr>m_id = 0, m_folder_id = folderId, m_name = Some (trimmed (mf_name f)),
           m_description = null_if_empty (mf_description f), m_backend = Some (trimmed (mf_backend f)),
           m_base_url = null_if_empty (mf_base_url f),
           m_model_identifier = Some (trimmed (mf_identifier f)),
           m_configuration = null_if_empty (mf_configuration f), m_created_at = None,
           m_updated_at = None, m_deleted_at = None\<rparr>)) u of
        ((rc, out), u1) \<Rightarrow> save_failed ''Model'' ''model'' (trimmed (mf_name f)) ''create'' rc u1)"

definition model_updateEntity :: "model_form \<Rightarrow> int \<Rightarrow> ui \<Rightarrow> int \<times> ui" where
  "model_updateEntity f i u =
     (case acta_db_model_get_live i (ui_db u) of
        (None, err, d) \<Rightarrow>
          (case err of None \<Rightarrow> ACTA_DB_ERR_INVALID
           | Some e \<Rightarrow> if e \<noteq> ACTA_DB_OK then e else ACTA_DB_ERR_INVALID, u\<lparr>ui_db := d\<rparr>)
      | (Some m, err, d) \<Rightarrow>
          (case on_db (acta_db_model_update
              (m\<lparr>m_name := Some (trimmed (mf_name f)), m_description := null_if_empty (mf_description f),
                 m_backend := Some (trimmed (mf_backend f)), m_base_url := null_if_empty (mf_base_url f),
                 m_model_identifier := Some (trimmed (mf_identifier f)),
                 m_configuration := null_if_empty (mf_configuration f)\<rparr>)) (u\<lparr>ui_db := d\<rparr>) of
             (rc, u1) \<Rightarrow> save_failed ''Model'' ''model'' (trimmed (mf_name f)) ''save'' rc u1))"

definition model_fields :: "model_t \<Rightarrow> model_form" where
  "model_fields m =
     \<lparr>mf_name = shown_text (m_name m), mf_description = shown_text (m_description m),
      mf_backend = shown_text (m_backend m), mf_base_url = shown_text (m_base_url m),
      mf_identifier = shown_text (m_model_identifier m),
      mf_configuration = shown_text (m_configuration m)\<rparr>"

definition model_revision_fields :: "model_revision_t \<Rightarrow> model_form" where
  "model_revision_fields r =
     \<lparr>mf_name = shown_text (mvr_name r), mf_description = shown_text (mvr_description r),
      mf_backend = shown_text (mvr_backend r), mf_base_url = shown_text (mvr_base_url r),
      mf_identifier = shown_text (mvr_model_identifier r),
      mf_configuration = shown_text (mvr_configuration r)\<rparr>"

definition model_ops :: "model_form entity_ops" where
  "model_ops =
     \<lparr>eo_title = ''Model'', eo_noun = ''model'',
      eo_blank = \<lparr>mf_name = [], mf_description = [], mf_backend = [], mf_base_url = [],
        mf_identifier = [], mf_configuration = []\<rparr>,
      validateFields = model_validate, createEntity = model_createEntity,
      updateEntity = model_updateEntity,
      loadRow = (\<lambda>i d. map_prod (map_option (\<lambda>m. (m_id m, m_folder_id m, model_fields m))) id
                  (got (acta_db_model_get i) d)),
      revisionRows = (\<lambda>i d. map_prod (map (\<lambda>r. (mvr_id r, mvr_revision r))) id
                       (listed (acta_db_model_revision_list_by_model i 0 0) d)),
      revisionFields = (\<lambda>i d. map_prod (map_option model_revision_fields) id
                         (got (acta_db_model_revision_get i) d)),
      folderName = (\<lambda>i d. map_prod (map_option (\<lambda>f. shown_text (f_name f))) id
                     (got (acta_db_model_folder_get i) d))\<rparr>"

section \<open>The adapters of the two panels\<close>

definition folder_as_row :: "folder_t \<Rightarrow> FolderRow" where
  "folder_as_row f =
     \<lparr>fr_id = f_id f, fr_parent_id = f_parent_id f, fr_folderId = 0, fr_name = shown_text (f_name f),
      fr_deletedAt = shown_text (f_deleted_at f)\<rparr>"

definition skill_as_row :: "skill_t \<Rightarrow> FolderRow" where
  "skill_as_row s =
     \<lparr>fr_id = s_id s, fr_parent_id = 0, fr_folderId = s_folder_id s, fr_name = shown_text (s_name s),
      fr_deletedAt = shown_text (s_deleted_at s)\<rparr>"

definition model_as_row :: "model_t \<Rightarrow> FolderRow" where
  "model_as_row m =
     \<lparr>fr_id = m_id m, fr_parent_id = 0, fr_folderId = m_folder_id m, fr_name = shown_text (m_name m),
      fr_deletedAt = shown_text (m_deleted_at m)\<rparr>"

text \<open>The closures \<^verbatim>\<open>openNew\<close>, \<^verbatim>\<open>openShow\<close> and \<^verbatim>\<open>openEdit\<close>; \<open>fs\<close> is what the user does.\<close>

definition open_new :: "'f entity_ops \<Rightarrow> 'f list \<Rightarrow> int \<Rightarrow> ui \<Rightarrow> bool \<times> ui" where
  "open_new X fs folderId u =
     (case newEntity X folderId (new_dialog X) u of (g, u1) \<Rightarrow>
        (case dialog_exec X fs g u1 of (g1, u2) \<Rightarrow> (dg_saved g1, u2)))"

definition open_show :: "'f entity_ops \<Rightarrow> int \<Rightarrow> ui \<Rightarrow> ui" where
  "open_show X i u = snd (showEntity X i (new_dialog X) u)"

definition open_edit :: "'f entity_ops \<Rightarrow> 'f list \<Rightarrow> int \<Rightarrow> ui \<Rightarrow> bool \<times> ui" where
  "open_edit X fs i u =
     (case editEntity X i (new_dialog X) u of (g, u1) \<Rightarrow>
        (case dialog_exec X fs g u1 of (g1, u2) \<Rightarrow> (dg_saved g1, u2)))"

definition makeSkillDao :: "qt_lib \<Rightarrow> skill_form list \<Rightarrow> folder_dao" where
  "makeSkillDao Q fs =
     \<lparr>entityTitle = ''Skill'',
      listFolders = (\<lambda>withDeleted d. map_prod (map folder_as_row) id (listed
        (if withDeleted then acta_db_skill_folder_list_all_with_deleted 0 0
         else acta_db_skill_folder_list_all 0 0) d)),
      createFolder = (\<lambda>parentId name. made (acta_db_skill_folder_create (Some name) parentId)),
      renameFolder = (\<lambda>i name. acta_db_skill_folder_rename i (Some name)),
      softDeleteFolder = acta_db_skill_folder_soft_delete,
      restoreFolder = acta_db_skill_folder_restore,
      listAllEntities = (\<lambda>withDeleted d. map_prod (map skill_as_row) id (listed
        (if withDeleted then acta_db_skill_list_all_with_deleted 0 0
         else acta_db_skill_list_all 0 0) d)),
      softDeleteEntity = acta_db_skill_soft_delete, restoreEntity = acta_db_skill_restore,
      openNew = open_new (skill_ops Q) fs, openShow = open_show (skill_ops Q),
      openEdit = open_edit (skill_ops Q) fs\<rparr>"

definition makeModelDao :: "model_form list \<Rightarrow> folder_dao" where
  "makeModelDao fs =
     \<lparr>entityTitle = ''Model'',
      listFolders = (\<lambda>withDeleted d. map_prod (map folder_as_row) id (listed
        (if withDeleted then acta_db_model_folder_list_all_with_deleted 0 0
         else acta_db_model_folder_list_all 0 0) d)),
      createFolder = (\<lambda>parentId name. made (acta_db_model_folder_create (Some name) parentId)),
      renameFolder = (\<lambda>i name. acta_db_model_folder_rename i (Some name)),
      softDeleteFolder = acta_db_model_folder_soft_delete,
      restoreFolder = acta_db_model_folder_restore,
      listAllEntities = (\<lambda>withDeleted d. map_prod (map model_as_row) id (listed
        (if withDeleted then acta_db_model_list_all_with_deleted 0 0
         else acta_db_model_list_all 0 0) d)),
      softDeleteEntity = acta_db_model_soft_delete, restoreEntity = acta_db_model_restore,
      openNew = open_new model_ops fs, openShow = open_show model_ops,
      openEdit = open_edit model_ops fs\<rparr>"

section \<open>Contexts\<close>

record context_form =
  xf_type :: string
  xf_content :: string
  xf_metadata :: string

text \<open>The result says whether a row was made, and its id.\<close>

definition context_onSaveClicked :: "qt_lib \<Rightarrow> context_form \<Rightarrow> ui \<Rightarrow> int option \<times> ui" where
  "context_onSaveClicked Q f u =
     (if trimmed (xf_type f) = [] \<or> xf_content f = []
      then (None, message_box ''Context'' ''Type and content are required.'' u)
      else (case on_db (made (acta_db_context_create
          \<lparr>c_id = 0, c_type = Some (trimmed (xf_type f)), c_content = Some (xf_content f),
           c_content_hash = Some (qt_sha256 Q (xf_content f)),
           c_metadata = null_if_empty (xf_metadata f), c_created_at = None, c_deleted_at = None\<rparr>)) u of
         ((rc, newId), u1) \<Rightarrow>
           if rc \<noteq> ACTA_DB_OK
           then (None, message_box ''Context''
                  (friendlyDbError rc ''context'' (trimmed (xf_type f))
                     (\<lambda>n e. ''Could not create '' @ n @ '': '' @ e) (acta_db_last_error (ui_db u1))) u1)
           else
             let i = (case newId of None \<Rightarrow> 0 | Some n \<Rightarrow> n)
             in (Some i, snd (on_db (got (acta_db_context_get i)) u1))))"

text \<open>The dialog is read-only once a row was made.\<close>

fun context_exec :: "qt_lib \<Rightarrow> context_form list \<Rightarrow> ui \<Rightarrow> int option \<times> ui" where
  "context_exec Q [] u = (None, u)"
| "context_exec Q (f # fs) u =
     (case context_onSaveClicked Q f u of
        (Some i, u1) \<Rightarrow> (Some i, u1)
      | (None, u1) \<Rightarrow> context_exec Q fs u1)"

section \<open>A new execution\<close>

text \<open>
  The tree of \<open>buildEntityTree\<close>: the folders at the root only, then the entities with their
  revisions as children.
\<close>

definition picker_roots :: "FolderRow list \<Rightarrow> int list" where
  "picker_roots F = map fr_id (filter (\<lambda>f. fr_parent_id f = 0) F)"

definition revision_item :: "int \<times> int \<Rightarrow> item" where
  "revision_item r = Item (blank_item\<lparr>it_text := [''rev '' @ show_int (snd r)], it_revision := fst r\<rparr>) []"

fun picker_entities ::
  "(int \<Rightarrow> db_t \<Rightarrow> (int \<times> int) list \<times> db_t) \<Rightarrow> FolderRow list \<Rightarrow> db_t \<Rightarrow> (int \<times> item) list \<times> db_t" where
  "picker_entities revs [] d = ([], d)"
| "picker_entities revs (e # es) d =
     (case revs (fr_id e) d of (rs, d1) \<Rightarrow>
        (case picker_entities revs es d1 of (items, d2) \<Rightarrow>
           ((fr_folderId e,
             Item (blank_item\<lparr>it_text := [fr_name e], it_entity := fr_id e\<rparr>) (map revision_item rs))
            # items, d2)))"

text \<open>
  The entities are taken folder by folder; which revision listing meets which engine event depends on
  that order, the tree of an undisturbed connection does not.
\<close>

definition buildEntityTree ::
  "FolderRow list \<Rightarrow> FolderRow list \<Rightarrow> (int \<Rightarrow> db_t \<Rightarrow> (int \<times> int) list \<times> db_t) \<Rightarrow> db_t
     \<Rightarrow> item list \<times> db_t" where
  "buildEntityTree F E revs d =
     (let skeleton = fst (addFolders F [] (picker_roots F));
          shown = filter (\<lambda>i. i \<noteq> 0) (map it_folder (tree_rows skeleton));
          ordered = byFolder E 0 @ concat (map (byFolder E) shown)
      in case picker_entities revs ordered d of (items, d1) \<Rightarrow>
        (map (attach (\<lambda>i. map snd (filter (\<lambda>x. fst x = i) items))) skeleton
         @ map snd (filter (\<lambda>x. fst x = 0) items), d1))"

text \<open>The first entity in tree order has its latest revision selected, the last of its children.\<close>

fun first_revision :: "item \<Rightarrow> (int \<times> int) option" where
  "first_revision (Item r kids) =
     (if it_entity r \<noteq> 0
      then Some (it_entity r, if kids = [] then 0 else it_revision (item_data (last kids)))
      else (case find (\<lambda>x. x \<noteq> None) (map first_revision kids) of None \<Rightarrow> None | Some x \<Rightarrow> x))"

record execution_form =
  nf_context :: int
  nf_skill_revision :: int
  nf_model_revision :: int
  nf_parent :: int

definition save_enabled :: "execution_form \<Rightarrow> bool" where
  "save_enabled f \<longleftrightarrow> nf_context f \<noteq> 0 \<and> nf_skill_revision f \<noteq> 0 \<and> nf_model_revision f \<noteq> 0"

definition execution_onSaveClicked :: "execution_form \<Rightarrow> ui \<Rightarrow> int option \<times> ui" where
  "execution_onSaveClicked f u =
     (case on_db (made (acta_db_execution_create
         \<lparr>e_id = 0, e_context_id = nf_context f, e_skill_revision_id = nf_skill_revision f,
          e_model_revision_id = nf_model_revision f, e_raw_response = None, e_result = None,
          e_status = None, e_error = None, e_created_at = None, e_started_at = None,
          e_completed_at = None, e_parent_execution_id = nf_parent f, e_deleted_at = None\<rparr>)) u of
        ((rc, newId), u1) \<Rightarrow>
          if rc \<noteq> ACTA_DB_OK
          then (None, message_box ''New Execution''
                 (if rc = ACTA_DB_ERR_INVALID \<or> rc = ACTA_DB_ERR_FK
                  then ''The selected context, skill or model no longer exists.''
                  else ''Could not create the execution: '' @ acta_db_strerror rc) u1)
          else (Some (case newId of None \<Rightarrow> 0 | Some n \<Rightarrow> n), u1))"

text \<open>Save is a button that is enabled, and does nothing once a row was made.\<close>

fun execution_exec :: "execution_form list \<Rightarrow> ui \<Rightarrow> int option \<times> ui" where
  "execution_exec [] u = (None, u)"
| "execution_exec (f # fs) u =
     (if \<not> save_enabled f then execution_exec fs u
      else (case execution_onSaveClicked f u of
          (Some i, u1) \<Rightarrow> (Some i, u1)
        | (None, u1) \<Rightarrow> execution_exec fs u1))"

end
