(* ===== verification/Gui_Conf.thy ===== *)
theory Gui_Conf
  imports Dbpath "HOL-Library.Multiset"
begin

text \<open>
  \<^verbatim>\<open>acta_gui/src/confreader.h\<close>: the reader of the configuration file in the graphical
  program, written against Qt's JSON parser; and \<^verbatim>\<open>MainWindow::defaultDbPath\<close> of
  \<^verbatim>\<open>mainwindow.cpp\<close>. \<open>gui_host\<close> is the process environment \<open>host\<close> with what only Qt
  supplies: the parser (an error text or the document, whose members come in the order of
  \<^verbatim>\<open>keys()\<close>, no key twice), the text Qt reads from a file, and the home directory. The
  reader fills its struct field by field, so an early return leaves the fields read so far in it.

  The last section compares the two readers of the repository.
\<close>

record gui_host =
  gh_host :: host
  gh_fromJson :: "string \<Rightarrow> string + cJSON"
  gh_read :: "string \<Rightarrow> string option"
  gh_home :: string

record ActaConfFile =
  cf_db :: string
  cf_apiKey :: string
  cf_apiKeyPresent :: bool
  cf_maxChars :: int
  cf_timeout :: int
  cf_valid :: bool
  cf_missing :: bool
  cf_error :: string

definition new_conf_file :: ActaConfFile where
  "new_conf_file = \<lparr>cf_db = [], cf_apiKey = [], cf_apiKeyPresent = False, cf_maxChars = 0,
     cf_timeout = 0, cf_valid = True, cf_missing = False, cf_error = []\<rparr>"

definition conf_fail :: "string \<Rightarrow> ActaConfFile \<Rightarrow> ActaConfFile" where
  "conf_fail msg c = c\<lparr>cf_valid := False, cf_error := msg\<rparr>"

definition confPosInt :: "(rat \<Rightarrow> int) \<Rightarrow> cJSON \<Rightarrow> int option" where
  "confPosInt long_of v =
     (case v of
        JNumber d \<Rightarrow>
          if d \<le> 0 \<or> d > of_int (LONG_MAX + 1) then None
          else if d \<noteq> of_int (long_of d) then None
          else Some (long_of d)
      | _ \<Rightarrow> None)"

text \<open>\<^verbatim>\<open>obj["key"]\<close> where \<^verbatim>\<open>obj.contains("key")\<close>.\<close>

definition conf_member :: "(string \<times> cJSON) list \<Rightarrow> string \<Rightarrow> cJSON option" where
  "conf_member obj key = map_option snd (find (\<lambda>kv. fst kv = key) obj)"

text \<open>\<open>Inl\<close> is an early return.\<close>

definition conf_read_key :: "(string \<times> cJSON) list \<Rightarrow> ActaConfFile \<Rightarrow> ActaConfFile + ActaConfFile" where
  "conf_read_key obj c =
     (case conf_member obj ''api_key'' of
        None \<Rightarrow> Inr c
      | Some (JString s) \<Rightarrow> Inr (c\<lparr>cf_apiKeyPresent := True, cf_apiKey := s\<rparr>)
      | Some v \<Rightarrow> Inl (conf_fail (''config key '' @ quoted ''api_key'' @ '' must be a string'') c))"

definition conf_read_db :: "(string \<times> cJSON) list \<Rightarrow> ActaConfFile \<Rightarrow> ActaConfFile + ActaConfFile" where
  "conf_read_db obj c =
     (case conf_member obj ''db'' of
        None \<Rightarrow> Inr c
      | Some (JString s) \<Rightarrow> Inr (c\<lparr>cf_db := s\<rparr>)
      | Some v \<Rightarrow> Inl (conf_fail (''config key '' @ quoted ''db'' @ '' must be a string'') c))"

definition conf_read_number ::
  "(rat \<Rightarrow> int) \<Rightarrow> (string \<times> cJSON) list \<Rightarrow> string \<Rightarrow> string + int" where
  "conf_read_number long_of obj key =
     (case conf_member obj key of
        None \<Rightarrow> Inr 0
      | Some v \<Rightarrow>
          (case confPosInt long_of v of
             None \<Rightarrow> Inl (''config key '' @ quoted key @ '' must be a positive integer'')
           | Some n \<Rightarrow> Inr n))"

definition conf_of_object :: "(rat \<Rightarrow> int) \<Rightarrow> (string \<times> cJSON) list \<Rightarrow> ActaConfFile \<Rightarrow> ActaConfFile" where
  "conf_of_object long_of obj c =
     (case find (\<lambda>kv. \<not> key_known (fst kv)) obj of
        Some kv \<Rightarrow> conf_fail (''unknown config key: '' @ quoted (fst kv)) c
      | None \<Rightarrow>
          (case conf_read_key obj c of
             Inl r \<Rightarrow> r
           | Inr c1 \<Rightarrow>
          (case conf_read_db obj c1 of
             Inl r \<Rightarrow> r
           | Inr c2 \<Rightarrow>
          (case conf_read_number long_of obj ''max_chars'' of
             Inl msg \<Rightarrow> conf_fail msg c2
           | Inr n \<Rightarrow>
               let c3 = c2\<lparr>cf_maxChars := n\<rparr> in
               (case conf_read_number long_of obj ''timeout'' of
                  Inl msg \<Rightarrow> conf_fail msg c3
                | Inr m \<Rightarrow> c3\<lparr>cf_timeout := m\<rparr>)))))"

definition readActaConfFile :: "gui_host \<Rightarrow> string \<Rightarrow> ActaConfFile" where
  "readActaConfFile G p =
     (if (case conf_stat (gh_host G) p of None \<Rightarrow> False | Some (group_read, other_read) \<Rightarrow> group_read \<or> other_read)
      then conf_fail (''config file '' @ p
             @ '' is group- or other-readable; it must be 0600 (owner read/write only)'') new_conf_file
      else (case gh_read G p of
         None \<Rightarrow> new_conf_file\<lparr>cf_missing := True\<rparr>
       | Some raw \<Rightarrow>
           (case gh_fromJson G raw of
              Inl err \<Rightarrow> conf_fail (''config is not valid JSON: '' @ err) new_conf_file
            | Inr (JObject obj) \<Rightarrow> conf_of_object (conf_long_of (gh_host G)) obj new_conf_file
            | Inr other \<Rightarrow> conf_fail ''config root is not an object'' new_conf_file)))"

text \<open>The key as the shared policy takes it: absent and empty are told apart.\<close>

definition gui_file_key :: "ActaConfFile \<Rightarrow> string option" where
  "gui_file_key conf = (if cf_apiKeyPresent conf then Some (cf_apiKey conf) else None)"

section \<open>The default database\<close>

text \<open>The POSIX branch. \<open>Inl\<close> is the empty result with its error text.\<close>

definition gui_base_dir :: "gui_host \<Rightarrow> string" where
  "gui_base_dir G =
     (case getenv (gh_host G) ''XDG_DATA_HOME'' of
        Some (c # cs) \<Rightarrow> (c # cs) @ ''/ACTA_Gamma''
      | _ \<Rightarrow> gh_home G @ ''/.local/share/ACTA_Gamma'')"

definition defaultDbPath :: "gui_host \<Rightarrow> string + string" where
  "defaultDbPath G =
     (let conf = readActaConfFile G (gui_base_dir G @ ''/ACTA_Gamma.conf'') in
      if \<not> cf_valid conf then Inl (cf_error conf)
      else if cf_db conf \<noteq> [] then Inr (cf_db conf)
      else Inr (gui_base_dir G @ ''/acta.db''))"

section \<open>The two readers\<close>

text \<open>
  What is assumed of the two parsers on one file: both reject it, or both read the same document, as
  an object with the same members, none of them twice.
\<close>

definition same_document :: "cJSON option \<Rightarrow> string + cJSON \<Rightarrow> bool" where
  "same_document j q \<longleftrightarrow>
     (case (j, q) of
        (None, Inl e) \<Rightarrow> True
      | (Some (JObject obj), Inr (JObject obj')) \<Rightarrow> distinct (map fst obj) \<and> mset obj = mset obj'
      | (Some a, Inr b) \<Rightarrow> a = b \<and> (\<forall>obj. a \<noteq> JObject obj)
      | _ \<Rightarrow> False)"

lemma find_member:
  assumes "distinct (map fst obj)" and "mset obj = mset obj'"
  shows "conf_member obj' key = conf_member obj key"
proof -
  have d: "distinct (map fst obj')" and s: "set obj' = set obj"
    using assms mset_eq_imp_distinct_iff [of "map fst obj" "map fst obj'"] mset_eq_setD [OF assms(2)] by auto
  have "map_option snd (find (\<lambda>kv. fst kv = key) xs) = map_of xs key" for xs :: "(string \<times> cJSON) list"
    by (induction xs) auto
  then show ?thesis
    unfolding conf_member_def using map_of_eqI [of obj' obj] assms(1) d s
    by (metis map_of_inject_set)
qed

lemma find_all: "find P xs = None \<longleftrightarrow> (\<forall>x\<in>set xs. \<not> P x)"
  by (induction xs) auto

text \<open>Each field: where the C parser has an error the other returns early, else both have the same value.\<close>

definition set_key :: "string option \<Rightarrow> ActaConfFile \<Rightarrow> ActaConfFile" where
  "set_key k c = (case k of None \<Rightarrow> c | Some s \<Rightarrow> c\<lparr>cf_apiKeyPresent := True, cf_apiKey := s\<rparr>)"

definition set_db :: "string option \<Rightarrow> ActaConfFile \<Rightarrow> ActaConfFile" where
  "set_db k c = (case k of None \<Rightarrow> c | Some s \<Rightarrow> c\<lparr>cf_db := s\<rparr>)"

lemma key_agrees:
  assumes "conf_member obj' ''api_key'' = conf_member obj ''api_key''" and "\<And>k. mem k"
  shows "get_str mem obj ''api_key'' = Inl m \<Longrightarrow> \<exists>r. conf_read_key obj' c = Inl r \<and> \<not> cf_valid r"
    and "get_str mem obj ''api_key'' = Inr k \<Longrightarrow> conf_read_key obj' c = Inr (set_key k c)"
  using assms by (auto simp: get_str_def conf_read_key_def set_key_def conf_fail_def conf_member_def
      cJSON_GetObjectItemCaseSensitive_def split: option.splits cJSON.splits)

lemma db_agrees:
  assumes "conf_member obj' ''db'' = conf_member obj ''db''" and "\<And>k. mem k"
  shows "get_str mem obj ''db'' = Inl m \<Longrightarrow> \<exists>r. conf_read_db obj' c = Inl r \<and> \<not> cf_valid r"
    and "get_str mem obj ''db'' = Inr k \<Longrightarrow> conf_read_db obj' c = Inr (set_db k c)"
  using assms by (auto simp: get_str_def conf_read_db_def set_db_def conf_fail_def conf_member_def
      cJSON_GetObjectItemCaseSensitive_def split: option.splits cJSON.splits)

lemma number_agrees:
  assumes "conf_member obj' key = conf_member obj key"
  shows "get_posint long_of obj key = Inl m \<Longrightarrow> \<exists>r. conf_read_number long_of obj' key = Inl r"
    and "get_posint long_of obj key = Inr n \<Longrightarrow> conf_read_number long_of obj' key = Inr n"
  using assms by (auto simp: conf_read_number_def get_posint_def cJSON_GetObjectItemCaseSensitive_def
      conf_member_def confPosInt_def split: option.splits cJSON.splits if_splits)

text \<open>A file that both readers see in the same way: whole, and as the same document.\<close>

definition same_file :: "gui_host \<Rightarrow> string \<Rightarrow> bool" where
  "same_file G p \<longleftrightarrow> (\<forall>k. conf_mem (gh_host G) k) \<and>
     (case conf_slurp (gh_host G) p of
        None \<Rightarrow> gh_read G p = None
      | Some content \<Rightarrow> length content \<le> 4095 \<and>
          (\<exists>raw. gh_read G p = Some raw \<and>
            same_document (conf_parse (gh_host G) (takeWhile (\<lambda>c. c \<noteq> CHR 0x00) content)) (gh_fromJson G raw)))"

definition conf_agrees :: "acta_conf_t \<Rightarrow> ActaConfFile \<Rightarrow> bool" where
  "conf_agrees conf c \<longleftrightarrow> conf_api_key conf = gui_file_key c
     \<and> (case conf_db conf of None \<Rightarrow> [] | Some t \<Rightarrow> t) = cf_db c
     \<and> conf_max_chars conf = cf_maxChars c \<and> conf_timeout conf = cf_timeout c"

lemma agrees_set:
  "conf_agrees \<lparr>conf_api_key = k, conf_db = d, conf_max_chars = n, conf_timeout = t\<rparr>
     ((set_db d (set_key k new_conf_file))\<lparr>cf_maxChars := n, cf_timeout := t\<rparr>)"
  by (auto simp: conf_agrees_def gui_file_key_def set_key_def set_db_def new_conf_file_def split: option.splits)

lemma valid_set: "cf_valid (set_db d (set_key k c)) = cf_valid c"
  by (auto simp: set_key_def set_db_def split: option.splits)

lemma objects_agree:
  assumes same: "\<And>key. conf_member obj' key = conf_member obj key" and keys: "fst ` set obj' = fst ` set obj"
    and mem: "\<And>k. mem k" and doc: "parse text = Some (JObject obj)"
    and r: "acta_conf_parse parse err long_of mem (Some text) = (rc, conf, msg)"
  shows "cf_valid (conf_of_object long_of obj' new_conf_file) = (rc = 0)
    \<and> (rc = 0 \<longrightarrow> conf_agrees conf (conf_of_object long_of obj' new_conf_file))"
proof (cases "find (\<lambda>kv. \<not> key_known (fst kv)) obj")
  case (Some kv)
  then have "find (\<lambda>kv. \<not> key_known (fst kv)) obj' \<noteq> None"
    using keys find_all [of "\<lambda>kv. \<not> key_known (fst kv)" obj] find_all [of "\<lambda>kv. \<not> key_known (fst kv)" obj']
    by (metis (no_types, lifting) imageE imageI option.distinct(1))
  then show ?thesis
    using r doc Some by (auto simp: acta_conf_parse_def parse_root_def conf_of_object_def conf_fail_def)
next
  case None
  then have known: "find (\<lambda>kv. \<not> key_known (fst kv)) obj' = None"
    unfolding find_all using keys by (metis imageE imageI)
  note p = acta_conf_parse_def parse_root_def conf_of_object_def known None doc
  show ?thesis
  proof (cases "get_str mem obj ''api_key''")
    case (Inl m)
    then show ?thesis using r key_agrees(1) [OF same mem Inl, of new_conf_file] by (auto simp: p)
  next
    case key: (Inr k)
    note key' = key_agrees(2) [OF same mem key]
    show ?thesis
    proof (cases "get_str mem obj ''db''")
      case (Inl m)
      then show ?thesis using r key key' db_agrees(1) [OF same mem Inl, of "set_key k new_conf_file"] by (auto simp: p)
    next
      case db: (Inr d)
      note db' = db_agrees(2) [OF same mem db]
      show ?thesis
      proof (cases "get_posint long_of obj ''max_chars''")
        case (Inl m)
        then show ?thesis
          using r key key' db db' number_agrees(1) [OF same Inl] by (auto simp: p conf_fail_def)
      next
        case mx: (Inr n)
        note mx' = number_agrees(2) [OF same mx]
        show ?thesis
        proof (cases "get_posint long_of obj ''timeout''")
          case (Inl m)
          then show ?thesis
            using r key key' db db' mx mx' number_agrees(1) [OF same Inl]
            by (auto simp: p conf_fail_def Let_def)
        next
          case (Inr t)
          then show ?thesis
            using r key key' db db' mx mx' number_agrees(2) [OF same Inr] agrees_set [of k d n t]
            by (auto simp: p Let_def valid_set new_conf_file_def)
        qed
      qed
    qed
  qed
qed

lemma conf_readers_agree:
  assumes "same_file G p" and "gh_host G = H"
    and r: "acta_conf_read (conf_parse H) (conf_error_ptr H) (conf_long_of H) (conf_mem H) (conf_stat H)
      (conf_slurp H) (conf_vararg H) (Some p) = (rc, conf, missing, msg)"
  shows "cf_valid (readActaConfFile G p) = (rc = 0) \<and> (rc = 0 \<longrightarrow> conf_agrees conf (readActaConfFile G p))"
proof (cases "case conf_stat H p of None \<Rightarrow> False | Some (group_read, other_read) \<Rightarrow> group_read \<or> other_read")
  case True
  then show ?thesis
    using r assms(2) by (auto simp: acta_conf_read_def readActaConfFile_def conf_fail_def)
next
  case open_file: False
  show ?thesis
  proof (cases "conf_slurp H p")
    case None
    then have "gh_read G p = None" using assms(1,2) by (simp add: same_file_def)
    with None open_file show ?thesis
      using r assms(2) by (auto simp: acta_conf_read_def readActaConfFile_def new_conf_file_def zero_conf_def
          conf_agrees_def gui_file_key_def)
  next
    case (Some content)
    let ?text = "takeWhile (\<lambda>c. c \<noteq> CHR 0x00) content"
    obtain raw where raw: "gh_read G p = Some raw" "same_document (conf_parse H ?text) (gh_fromJson G raw)"
      and len: "length content \<le> 4095" and mem: "\<And>k. conf_mem H k"
      using assms(1,2) Some by (auto simp: same_file_def)
    have c: "acta_conf_parse (conf_parse H) (conf_error_ptr H) (conf_long_of H) (conf_mem H) (Some ?text)
        = (rc, conf, msg)"
      using r open_file Some len mem by (auto simp: acta_conf_read_def slurp_file_cut split: prod.splits)
    show ?thesis
    proof (cases "\<exists>obj. conf_parse H ?text = Some (JObject obj)")
      case True
      then obtain obj where obj: "conf_parse H ?text = Some (JObject obj)" by blast
      with raw(2) obtain obj' where obj': "gh_fromJson G raw = Inr (JObject obj')"
        and d: "distinct (map fst obj)" "mset obj = mset obj'"
        by (auto simp: same_document_def split: sum.splits cJSON.splits)
      have "fst ` set obj' = fst ` set obj" using mset_eq_setD [OF d(2)] by simp
      from objects_agree [where mem = "conf_mem H", OF find_member [OF d] this mem obj c]
      show ?thesis using open_file raw(1) obj' assms(2) by (auto simp: readActaConfFile_def)
    next
      case False
      then have "rc \<noteq> 0"
        using c by (auto simp: acta_conf_parse_def parse_root_def split: option.splits cJSON.splits)
      moreover have "\<not> cf_valid (readActaConfFile G p)"
        using False raw open_file assms(2)
        by (auto simp: readActaConfFile_def conf_fail_def same_document_def split: option.splits sum.splits cJSON.splits)
      ultimately show ?thesis by simp
    qed
  qed
qed

end
