(* ===== verification/Gui_Worker.thy ===== *)
theory Gui_Worker
  imports Gui_Conf Gui_Util Runner_Main
begin

text \<open>
  \<^verbatim>\<open>acta_gui/src/runnerWorker.cpp\<close>: the pipeline of the runner on a thread of the graphical
  program, on a connection of its own. \<open>opening\<close> is what \<open>acta_db_open\<close> meets, \<open>closing\<close> what
  \<^verbatim>\<open>sqlite3_close\<close> answers, \<open>nodb\<close> stands for the absent handle until the database is open.
  The cancel flag of the environment holds the answers from \<open>resetCancel\<close> on; the verbose lines of the
  pipeline are switched off by the program's \<^verbatim>\<open>runner_gopts\<close>, which is NULL.
\<close>

text \<open>
  The message of the last line of the listing: all levels, and only the first page of the log.
\<close>

definition lastErrorLogMessage :: "int \<Rightarrow> db_t \<Rightarrow> string \<times> db_t" where
  "lastErrorLogMessage executionId d =
     (case acta_db_execution_log_list_by_execution executionId None 0 0 d of
        (lines, n, err, d1) \<Rightarrow>
          (if lines = [] then [] else (case l_message (last lines) of None \<Rightarrow> [] | Some m \<Rightarrow> m), d1))"

definition run_message :: "int \<Rightarrow> string option \<Rightarrow> string option \<Rightarrow> string" where
  "run_message keyStatus keyMsg shadowMsg =
     (let message = (if keyStatus = ACTA_KEY_EMPTY_WARN then or_empty keyMsg else []) in
      case shadowMsg of
        None \<Rightarrow> message
      | Some w \<Rightarrow> if message = [] then w else message @ '' '' @ w)"

text \<open>
  What a run comes to: the exit code and message that \<^verbatim>\<open>finished\<close> carries, the state of the
  pipeline, and whether the connection is left open.
\<close>

record worker_end =
  we_code :: int
  we_message :: string
  we_state :: runner
  we_open :: bool

definition gui_timeout :: "ActaConfFile \<Rightarrow> int" where
  "gui_timeout conf = (if cf_timeout conf > 0 then c_int (cf_timeout conf) else ACTA_CONF_DEFAULT_TIMEOUT)"

definition gui_max_chars :: "ActaConfFile \<Rightarrow> int" where
  "gui_max_chars conf = (if cf_maxChars conf > 0 then cf_maxChars conf else ACTA_CONF_DEFAULT_MAX_CHARS)"

text \<open>From the open connection to the signal.\<close>

definition run_opened ::
  "env \<Rightarrow> gui_host \<Rightarrow> sql_rc \<Rightarrow> int \<Rightarrow> ActaConfFile \<Rightarrow> db_t \<Rightarrow> worker_end" where
  "run_opened E G closing executionId conf d =
     (let envKey = getenv (gh_host G) ''OPENAI_API_KEY''; fileKey = gui_file_key conf in
      if \<not> cf_valid conf
      then \<lparr>we_code = EXIT_INVALID, we_message = cf_error conf, we_state = start_state d [], we_open = True\<rparr>
      else (case acta_conf_api_key_status envKey fileKey of
        (keyStatus, keyMsg) \<Rightarrow>
          if keyStatus = ACTA_KEY_UNSET_ERR
          then \<lparr>we_code = EXIT_INVALID, we_message = or_empty keyMsg, we_state = start_state d [],
                we_open = True\<rparr>
          else (case run_execution E executionId (gui_timeout conf) (gui_max_chars conf)
                       (if envKey \<noteq> None then envKey else fileKey) (start_state d []) of
            (exitCode, s) \<Rightarrow>
              (case (if exitCode = 0
                     then (run_message keyStatus keyMsg (snd (acta_conf_api_key_shadow_warning envKey fileKey)),
                           rn_db s)
                     else lastErrorLogMessage executionId (rn_db s)) of
                (message, d1) \<Rightarrow>
                  (case acta_db_close closing d1 of
                    (closeRc, left) \<Rightarrow>
                      \<lparr>we_code = exitCode, we_message = message, we_state = s\<lparr>rn_db := d1\<rparr>,
                       we_open = (if closeRc = ACTA_DB_OK then False
                                  else snd (acta_db_force_close d1) \<noteq> None)\<rparr>)))))"

definition runInThread ::
  "env \<Rightarrow> gui_host \<Rightarrow> open_env \<Rightarrow> sql_rc \<Rightarrow> db_t \<Rightarrow> int \<Rightarrow> string \<Rightarrow> worker_end" where
  "runInThread E G opening closing nodb executionId dbPath =
     (if dbPath = []
      then \<lparr>we_code = EXIT_INVALID,
            we_message = ''No database path is available; reconnect the database first.'',
            we_state = start_state nodb [], we_open = False\<rparr>
      else (case acta_db_open (Some dbPath) 0 opening of
         (None, err, leaked) \<Rightarrow>
           \<lparr>we_code = EXIT_INVALID,
            we_message = ''Cannot open database '' @ quoted dbPath @ '': '' @ acta_db_strerror err,
            we_state = start_state nodb [], we_open = leaked\<rparr>
       | (Some d, err, leaked) \<Rightarrow>
           run_opened E G closing executionId
             (readActaConfFile G (acta_conf_default_path (getenv (gh_host G)))) d))"

end
