(* ===== verification/Gui_Executions.thy ===== *)
theory Gui_Executions
  imports Gui_Dialogs Gui_Worker
begin

text \<open>
  \<^verbatim>\<open>acta_gui/src/widgets/executionPanel.cpp\<close>: the list of executions, the Run/Cancel button,
  and the polling of the row that the worker runs. A row of the list is identified by its execution
  id. \<open>ep_worker\<close> is the worker in flight (its execution and the file it opened), \<open>ep_poll\<close> the timer.
  The worker itself is \<open>Gui_Worker\<close>; it works on another connection, so between two events of the
  panel the store may have changed. \<open>exec_event\<close> is what reaches the panel, \<open>exec_step\<close> its handling.
  Colours, icons and tool tips, the sorting of the columns and the scrolling are left out.
\<close>

record exec_item =
  xi_id :: int
  xi_date :: string
  xi_status :: string
  xi_skill :: string
  xi_model :: string
  xi_context :: string
  xi_deleted :: bool
  xi_hidden :: bool

record log_line =
  ll_id :: int
  ll_date :: string
  ll_level :: string
  ll_event :: string
  ll_message :: string

record exec_panel =
  ep_db :: bool
  ep_dbPath :: string
  ep_list :: "exec_item list"
  ep_current :: "int option"
  ep_filter :: string
  ep_status :: string
  ep_show_deleted :: bool
  ep_logs :: "log_line list"
  ep_log_row :: "nat option"
  ep_running :: int
  ep_worker :: "(int \<times> string) option"
  ep_poll :: bool
  ep_cancelled :: bool
  ep_last :: int
  ep_emitted :: "int list"
  ep_run_on :: bool
  ep_run_cancels :: bool
  ep_delete_on :: bool
  ep_restore_on :: bool

definition findRow :: "int \<Rightarrow> exec_panel \<Rightarrow> exec_item option" where
  "findRow i p = find (\<lambda>x. xi_id x = i) (ep_list p)"

definition currentRow :: "exec_panel \<Rightarrow> exec_item option" where
  "currentRow p = Option.bind (ep_current p) (\<lambda>i. findRow i p)"

definition currentId :: "exec_panel \<Rightarrow> int" where
  "currentId p = (case currentRow p of None \<Rightarrow> 0 | Some x \<Rightarrow> xi_id x)"

section \<open>Buttons\<close>

definition updateRunBtnState :: "exec_panel \<Rightarrow> exec_panel" where
  "updateRunBtnState p =
     (if ep_worker p \<noteq> None then p\<lparr>ep_run_on := True, ep_run_cancels := True\<rparr>
      else p\<lparr>ep_run_cancels := False,
             ep_run_on := (ep_db p \<and>
               (case currentRow p of
                  None \<Rightarrow> False
                | Some x \<Rightarrow> \<not> xi_deleted x \<and> (xi_status x = ''pending'' \<or> xi_status x = ''failed'')))\<rparr>)"

definition updateActionBtnStates :: "exec_panel \<Rightarrow> exec_panel" where
  "updateActionBtnStates p =
     (let hasRow = (case currentRow p of None \<Rightarrow> False | Some x \<Rightarrow> xi_id x \<noteq> 0);
          isDeleted = (hasRow \<and> (case currentRow p of None \<Rightarrow> False | Some x \<Rightarrow> xi_deleted x));
          isRunning = (hasRow \<and> (case currentRow p of None \<Rightarrow> False
                                  | Some x \<Rightarrow> take 7 (xi_status x) = ''running''))
      in p\<lparr>ep_delete_on := (hasRow \<and> \<not> isDeleted \<and> \<not> isRunning), ep_restore_on := (hasRow \<and> isDeleted)\<rparr>)"

definition emitExecChanged :: "exec_panel \<Rightarrow> exec_panel" where
  "emitExecChanged p =
     (let i = currentId p in
      if i = ep_last p then p else p\<lparr>ep_last := i, ep_emitted := ep_emitted p @ [i]\<rparr>)"

section \<open>The log of the selected execution\<close>

definition log_line_of :: "qt_lib \<Rightarrow> execution_log_t \<Rightarrow> log_line" where
  "log_line_of Q l =
     \<lparr>ll_id = l_id l, ll_date = qt_date Q (l_created_at l), ll_level = shown_text (l_level l),
      ll_event = shown_text (l_event l), ll_message = shown_text (l_message l)\<rparr>"

text \<open>A new model has no current line.\<close>

definition showExecutionLogs :: "qt_lib \<Rightarrow> exec_item option \<Rightarrow> exec_panel \<Rightarrow> ui \<Rightarrow> exec_panel \<times> ui" where
  "showExecutionLogs Q x p u =
     (let i = (case x of None \<Rightarrow> 0 | Some y \<Rightarrow> xi_id y) in
      if i = 0 \<or> \<not> ep_db p then (p\<lparr>ep_logs := [], ep_log_row := None\<rparr>, u)
      else (case on_db (listed (acta_db_execution_log_list_by_execution i None 0 0)) u of
         (lines, u1) \<Rightarrow> (p\<lparr>ep_logs := map (log_line_of Q) lines, ep_log_row := None\<rparr>, u1)))"

text \<open>The slot of the list's \<^verbatim>\<open>currentItemChanged\<close>.\<close>

definition setCurrentRow :: "qt_lib \<Rightarrow> int option \<Rightarrow> exec_panel \<Rightarrow> ui \<Rightarrow> exec_panel \<times> ui" where
  "setCurrentRow Q i p u =
     (if ep_current p = i then (p, u)
      else (case showExecutionLogs Q (Option.bind i (\<lambda>j. findRow j p)) (p\<lparr>ep_current := i\<rparr>) u of
         (p1, u1) \<Rightarrow> (updateActionBtnStates (updateRunBtnState (emitExecChanged p1)), u1)))"

section \<open>The list\<close>

definition item_texts :: "exec_item \<Rightarrow> string list" where
  "item_texts x = [xi_date x, xi_status x, xi_skill x, xi_model x, xi_context x]"

definition filter_shows :: "qt_lib \<Rightarrow> string \<Rightarrow> string \<Rightarrow> exec_item \<Rightarrow> bool" where
  "filter_shows Q status needle x \<longleftrightarrow>
     (status = [] \<or> status = ''All'' \<or> xi_status x = status)
     \<and> (needle = [] \<or> (\<exists>t\<in>set (item_texts x). qt_contains Q t needle))"

definition applyFilters :: "qt_lib \<Rightarrow> exec_panel \<Rightarrow> exec_panel" where
  "applyFilters Q p =
     p\<lparr>ep_list := map (\<lambda>x. x\<lparr>xi_hidden := \<not> filter_shows Q (ep_status p) (trimmed (ep_filter p)) x\<rparr>)
                     (ep_list p)\<rparr>"

definition rev_label :: "string option \<Rightarrow> int \<Rightarrow> string" where
  "rev_label name revision = shown_text name @ '' (rev '' @ show_int revision @ '')''"

definition exec_item_of :: "qt_lib \<Rightarrow> execution_t \<Rightarrow> ui \<Rightarrow> exec_item \<times> ui" where
  "exec_item_of Q e u =
     (case on_db (got (acta_db_skill_revision_get (e_skill_revision_id e))) u of (srev, u1) \<Rightarrow>
     (case on_db (got (acta_db_model_revision_get (e_model_revision_id e))) u1 of (mrev, u2) \<Rightarrow>
     (case on_db (got (acta_db_context_get (e_context_id e))) u2 of (ctx, u3) \<Rightarrow>
        (\<lparr>xi_id = e_id e, xi_date = qt_date Q (e_created_at e), xi_status = shown_text (e_status e),
          xi_skill = (case srev of None \<Rightarrow> [] | Some r \<Rightarrow> rev_label (svr_name r) (svr_revision r)),
          xi_model = (case mrev of None \<Rightarrow> [] | Some r \<Rightarrow> rev_label (mvr_name r) (mvr_revision r)),
          xi_context = (case ctx of None \<Rightarrow> [] | Some c \<Rightarrow> shown_text (c_type c)),
          xi_deleted = (e_deleted_at e \<noteq> None), xi_hidden = False\<rparr>, u3))))"

fun exec_items :: "qt_lib \<Rightarrow> execution_t list \<Rightarrow> ui \<Rightarrow> exec_item list \<times> ui" where
  "exec_items Q [] u = ([], u)"
| "exec_items Q (e # es) u =
     (case exec_item_of Q e u of (x, u1) \<Rightarrow> (case exec_items Q es u1 of (xs, u2) \<Rightarrow> (x # xs, u2)))"

definition panel_query :: "bool \<Rightarrow> execution_query_t" where
  "panel_query deleted = ACTA_EXEC_QUERY_ANY\<lparr>q_include_deleted := deleted\<rparr>"

text \<open>No row and a failed query both return NULL, which ends the function early.\<close>

definition reloadExecutions :: "qt_lib \<Rightarrow> exec_panel \<Rightarrow> ui \<Rightarrow> exec_panel \<times> ui" where
  "reloadExecutions Q p u =
     (let keepExecution = currentId p in
      case setCurrentRow Q None p u of (p1, u1) \<Rightarrow>
        let p2 = p1\<lparr>ep_list := []\<rparr> in
        if \<not> ep_db p then (p2, u1)
        else (case on_db (listed (acta_db_execution_query_light
                        (Some (panel_query (ep_show_deleted p))) 0 0)) u1 of
           (es, u2) \<Rightarrow>
             if es = [] then (p2, u2)
             else (case exec_items Q es u2 of
                (xs, u3) \<Rightarrow>
                  let p3 = p2\<lparr>ep_list := xs\<rparr> in
                  (case (if keepExecution \<noteq> 0 \<and> findRow keepExecution p3 \<noteq> None
                         then setCurrentRow Q (Some keepExecution) p3 u3 else (p3, u3)) of
                     (p4, u4) \<Rightarrow>
                       (updateActionBtnStates (updateRunBtnState (emitExecChanged (applyFilters Q p4))), u4)))))"

section \<open>A run in flight\<close>

text \<open>\<^verbatim>\<open>QStringLiteral("\u2026")\<close> in UTF-8.\<close>

definition ellipsis :: string where
  "ellipsis = [CHR 0xE2, CHR 0x80, CHR 0xA6]"

definition set_status :: "int \<Rightarrow> string \<Rightarrow> exec_panel \<Rightarrow> exec_panel" where
  "set_status i t p = p\<lparr>ep_list := map (\<lambda>x. if xi_id x = i then x\<lparr>xi_status := t\<rparr> else x) (ep_list p)\<rparr>"

definition refreshRunningRow :: "exec_panel \<Rightarrow> ui \<Rightarrow> exec_panel \<times> ui" where
  "refreshRunningRow p u =
     (if ep_running p = 0 \<or> \<not> ep_db p then (p, u)
      else (case on_db (got (acta_db_execution_get (ep_running p))) u of
         (None, u1) \<Rightarrow> (p, u1)
       | (Some e, u1) \<Rightarrow>
           let status = shown_text (e_status e) in
           if findRow (ep_running p) p = None then (p, u1)
           else (updateRunBtnState (set_status (ep_running p)
                   (if status = ''running'' then status @ ellipsis else status) p), u1)))"

definition refreshRunningLogs :: "qt_lib \<Rightarrow> exec_panel \<Rightarrow> ui \<Rightarrow> exec_panel \<times> ui" where
  "refreshRunningLogs Q p u =
     (if ep_running p = 0 \<or> \<not> ep_db p then (p, u)
      else if findRow (ep_running p) p = None \<or> ep_current p \<noteq> Some (ep_running p) then (p, u)
      else
        let prevCount = length (ep_logs p);
            atLast = (prevCount = 0 \<or> ep_log_row p = Some (prevCount - 1))
        in (case showExecutionLogs Q (findRow (ep_running p) p) p u of
           (p1, u1) \<Rightarrow>
             if length (ep_logs p1) > prevCount \<and> atLast
             then (p1\<lparr>ep_log_row := Some (length (ep_logs p1) - 1)\<rparr>, u1)
             else (p1, u1)))"

definition onPollTick :: "qt_lib \<Rightarrow> exec_panel \<Rightarrow> ui \<Rightarrow> exec_panel \<times> ui" where
  "onPollTick Q p u =
     (if \<not> ep_db p \<or> ep_running p = 0 then (p, u)
      else (case refreshRunningRow p u of (p1, u1) \<Rightarrow> refreshRunningLogs Q p1 u1))"

text \<open>It waits for the worker, so the worker has ended when it returns.\<close>

definition stopRunner :: "exec_panel \<Rightarrow> exec_panel" where
  "stopRunner p = p\<lparr>ep_poll := False, ep_worker := None, ep_running := 0\<rparr>"

definition startRunner :: "int \<Rightarrow> exec_panel \<Rightarrow> ui \<Rightarrow> exec_panel \<times> ui" where
  "startRunner i p u =
     (case refreshRunningRow (p\<lparr>ep_running := i, ep_worker := Some (i, ep_dbPath p), ep_poll := True,
                                ep_cancelled := False\<rparr>) u of
        (p1, u1) \<Rightarrow> (updateRunBtnState p1, u1))"

definition onRunBtnClicked :: "exec_panel \<Rightarrow> ui \<Rightarrow> exec_panel \<times> ui" where
  "onRunBtnClicked p u =
     (if ep_worker p \<noteq> None then (p\<lparr>ep_cancelled := True\<rparr>, u)
      else if \<not> ep_db p \<or> currentId p = 0 then (p, u)
      else
        let i = currentId p in
        (case on_db (got (acta_db_execution_get i)) u of
           (None, u1) \<Rightarrow> (p, u1)
         | (Some e, u1) \<Rightarrow>
             let status = shown_text (e_status e) in
             if e_deleted_at e \<noteq> None \<or> status \<noteq> ''pending'' \<and> status \<noteq> ''failed'' then (p, u1)
             else if status = ''failed''
             then (case on_db (acta_db_execution_reset i) u1 of (rc, u2) \<Rightarrow>
                     if rc \<noteq> ACTA_DB_OK then (p, u2)
                     else startRunner i (set_status i ''pending'' p) u2)
             else startRunner i p u1))"

definition onWorkerFinished :: "qt_lib \<Rightarrow> int \<Rightarrow> string \<Rightarrow> exec_panel \<Rightarrow> ui \<Rightarrow> exec_panel \<times> ui" where
  "onWorkerFinished Q exitCode message p u =
     (let sameDb = (case ep_worker p of None \<Rightarrow> False | Some (i, file) \<Rightarrow> file = ep_dbPath p) in
      case (if sameDb
            then (case refreshRunningRow p u of (p1, u1) \<Rightarrow> refreshRunningLogs Q p1 u1) else (p, u)) of
        (p2, u2) \<Rightarrow>
          (updateRunBtnState (updateActionBtnStates (stopRunner p2)),
           if sameDb \<and> exitCode \<noteq> 0 \<and> exitCode \<noteq> EXIT_CANCELED
           then message_box ''Execution failed''
                  (if message = [] then ''The runner exited with code '' @ show_int exitCode else message) u2
           else u2))"

definition setExecDb :: "qt_lib \<Rightarrow> db_t option \<Rightarrow> string \<Rightarrow> exec_panel \<Rightarrow> ui \<Rightarrow> exec_panel \<times> ui" where
  "setExecDb Q handle dbPath p u =
     reloadExecutions Q ((stopRunner p)\<lparr>ep_db := (handle \<noteq> None), ep_dbPath := dbPath\<rparr>)
       (case handle of None \<Rightarrow> u | Some d \<Rightarrow> u\<lparr>ui_db := d\<rparr>)"

section \<open>The other actions\<close>

definition onNewExecutionClicked ::
  "qt_lib \<Rightarrow> execution_form list \<Rightarrow> exec_panel \<Rightarrow> ui \<Rightarrow> exec_panel \<times> ui" where
  "onNewExecutionClicked Q fs p u =
     (if \<not> ep_db p then (p, u)
      else (case execution_exec fs u of
         (None, u1) \<Rightarrow> (p, u1)
       | (Some newId, u1) \<Rightarrow>
           (case reloadExecutions Q p u1 of (p1, u2) \<Rightarrow>
              if findRow newId p1 \<noteq> None then setCurrentRow Q (Some newId) p1 u2 else (p1, u2))))"

definition exec_delete_message :: "int \<Rightarrow> string" where
  "exec_delete_message rc =
     (if rc = ACTA_DB_ERR_INVALID then ''Cannot delete a running execution.''
      else if rc = ACTA_DB_ERR_NOT_FOUND then ''Execution not found (already deleted?).''
      else ''Could not delete the execution: '' @ acta_db_strerror rc)"

definition onExecuteDeleteClicked :: "qt_lib \<Rightarrow> bool \<Rightarrow> exec_panel \<Rightarrow> ui \<Rightarrow> exec_panel \<times> ui" where
  "onExecuteDeleteClicked Q yes p u =
     (if \<not> ep_db p \<or> \<not> ep_delete_on p \<or> currentId p = 0 \<or> \<not> yes then (p, u)
      else (case on_db (acta_db_execution_delete (currentId p)) u of (rc, u1) \<Rightarrow>
         if rc \<noteq> ACTA_DB_OK then (p, message_box ''Delete Execution'' (exec_delete_message rc) u1)
         else reloadExecutions Q p u1))"

definition onExecuteRestoreClicked :: "qt_lib \<Rightarrow> exec_panel \<Rightarrow> ui \<Rightarrow> exec_panel \<times> ui" where
  "onExecuteRestoreClicked Q p u =
     (if \<not> ep_db p \<or> \<not> ep_restore_on p \<or> currentId p = 0 then (p, u)
      else (case on_db (acta_db_execution_restore (currentId p)) u of (rc, u1) \<Rightarrow>
         if rc \<noteq> ACTA_DB_OK
         then (p, message_box ''Restore Execution''
                (''Could not restore the execution: '' @ acta_db_strerror rc) u1)
         else reloadExecutions Q p
                (message_box ''Execution'' (''Execution '' @ show_int (currentId p) @ '' restored.'') u1)))"

definition onExecDeleteKey :: "qt_lib \<Rightarrow> bool \<Rightarrow> exec_panel \<Rightarrow> ui \<Rightarrow> exec_panel \<times> ui" where
  "onExecDeleteKey Q yes p u =
     (if ep_delete_on p then onExecuteDeleteClicked Q yes p u
      else if ep_restore_on p then onExecuteRestoreClicked Q p u
      else (p, u))"

section \<open>Events\<close>

datatype exec_event =
    SelectRow "int option" | TypeFilter string | PickStatus string | ToggleTrash bool
  | RunClicked | PollTick | WorkerFinished int string
  | NewExecution "execution_form list" | DeleteClicked bool | RestoreClicked | DeleteKey bool

fun exec_step :: "qt_lib \<Rightarrow> exec_event \<Rightarrow> exec_panel \<Rightarrow> ui \<Rightarrow> exec_panel \<times> ui" where
  "exec_step Q (SelectRow i) p u = setCurrentRow Q i p u"
| "exec_step Q (TypeFilter t) p u = (applyFilters Q (p\<lparr>ep_filter := t\<rparr>), u)"
| "exec_step Q (PickStatus t) p u = (applyFilters Q (p\<lparr>ep_status := t\<rparr>), u)"
| "exec_step Q (ToggleTrash b) p u = reloadExecutions Q (p\<lparr>ep_show_deleted := b\<rparr>) u"
| "exec_step Q RunClicked p u = onRunBtnClicked p u"
| "exec_step Q PollTick p u = (if ep_poll p then onPollTick Q p u else (p, u))"
| "exec_step Q (WorkerFinished code msg) p u = onWorkerFinished Q code msg p u"
| "exec_step Q (NewExecution fs) p u = onNewExecutionClicked Q fs p u"
| "exec_step Q (DeleteClicked yes) p u = onExecuteDeleteClicked Q yes p u"
| "exec_step Q RestoreClicked p u = onExecuteRestoreClicked Q p u"
| "exec_step Q (DeleteKey yes) p u = onExecDeleteKey Q yes p u"

end
