(* ===== verification/Gui_Contexts.thy ===== *)
theory Gui_Contexts
  imports Gui_Dialogs
begin

text \<open>
  \<^verbatim>\<open>acta_gui/src/widgets/contextPanel.cpp\<close>: the list of contexts with the content of the
  selected one. A row of the list is identified by its context id. Colours, icons and the order of the
  rows by date are left out.
\<close>

record ctx_item =
  ci_id :: int
  ci_type :: string
  ci_date :: string
  ci_deleted :: bool
  ci_hidden :: bool

record ctx_panel =
  cp_db :: bool
  cp_list :: "ctx_item list"
  cp_current :: "int option"
  cp_filter :: string
  cp_show_deleted :: bool
  cp_editor :: string
  cp_last :: int
  cp_emitted :: "int list"
  cp_show_on :: bool
  cp_delete_on :: bool
  cp_restore_on :: bool

definition findContext :: "int \<Rightarrow> ctx_panel \<Rightarrow> ctx_item option" where
  "findContext i p = find (\<lambda>x. ci_id x = i) (cp_list p)"

definition currentContext :: "ctx_panel \<Rightarrow> ctx_item option" where
  "currentContext p = Option.bind (cp_current p) (\<lambda>i. findContext i p)"

definition currentContextId :: "ctx_panel \<Rightarrow> int" where
  "currentContextId p = (case currentContext p of None \<Rightarrow> 0 | Some x \<Rightarrow> ci_id x)"

definition showContext :: "ctx_item option \<Rightarrow> ctx_panel \<Rightarrow> ui \<Rightarrow> ctx_panel \<times> ui" where
  "showContext x p u =
     (let i = (case x of None \<Rightarrow> 0 | Some y \<Rightarrow> ci_id y) in
      if i = 0 \<or> \<not> cp_db p then (p\<lparr>cp_editor := []\<rparr>, u)
      else (case on_db (got (acta_db_context_get i)) u of
         (None, u1) \<Rightarrow> (p\<lparr>cp_editor := []\<rparr>, u1)
       | (Some c, u1) \<Rightarrow> (p\<lparr>cp_editor := shown_text (c_content c)\<rparr>, u1)))"

definition emitContextChanged :: "ctx_panel \<Rightarrow> ctx_panel" where
  "emitContextChanged p =
     (let i = currentContextId p in
      if i = cp_last p then p else p\<lparr>cp_last := i, cp_emitted := cp_emitted p @ [i]\<rparr>)"

definition updateContextBtnStates :: "ctx_panel \<Rightarrow> ctx_panel" where
  "updateContextBtnStates p =
     (let hasRow = (case currentContext p of None \<Rightarrow> False | Some x \<Rightarrow> ci_id x \<noteq> 0);
          isDeleted = (hasRow \<and> (case currentContext p of None \<Rightarrow> False | Some x \<Rightarrow> ci_deleted x))
      in p\<lparr>cp_delete_on := (hasRow \<and> \<not> isDeleted), cp_restore_on := (hasRow \<and> isDeleted)\<rparr>)"

text \<open>The slot of \<^verbatim>\<open>currentItemChanged\<close>.\<close>

definition setCurrentContext :: "int option \<Rightarrow> ctx_panel \<Rightarrow> ui \<Rightarrow> ctx_panel \<times> ui" where
  "setCurrentContext i p u =
     (if cp_current p = i then (p, u)
      else (case showContext (Option.bind i (\<lambda>j. findContext j p)) (p\<lparr>cp_current := i\<rparr>) u of
         (p1, u1) \<Rightarrow>
           (updateContextBtnStates (emitContextChanged (p1\<lparr>cp_show_on := (currentContextId p1 \<noteq> 0)\<rparr>)), u1)))"

definition ctx_item_of :: "qt_lib \<Rightarrow> context_t \<Rightarrow> ctx_item" where
  "ctx_item_of Q c =
     \<lparr>ci_id = c_id c, ci_type = (if shown_text (c_type c) = [] then ''context'' else shown_text (c_type c)),
      ci_date = qt_date Q (c_created_at c), ci_deleted = (c_deleted_at c \<noteq> None), ci_hidden = False\<rparr>"

text \<open>\<^verbatim>\<open>applyTreeFilter\<close> on a flat list of two columns.\<close>

definition filterContexts :: "qt_lib \<Rightarrow> ctx_panel \<Rightarrow> ctx_panel" where
  "filterContexts Q p =
     p\<lparr>cp_list := map (\<lambda>x. x\<lparr>ci_hidden := \<not> filter_match (qt_contains Q) (cp_filter p)
                                             (blank_item\<lparr>it_text := [ci_type x, ci_date x]\<rparr>)\<rparr>) (cp_list p)\<rparr>"

definition reloadContexts :: "qt_lib \<Rightarrow> ctx_panel \<Rightarrow> ui \<Rightarrow> ctx_panel \<times> ui" where
  "reloadContexts Q p u =
     (let keepContext = currentContextId p in
      case setCurrentContext None p u of (p1, u1) \<Rightarrow>
        let p2 = p1\<lparr>cp_list := []\<rparr> in
        if \<not> cp_db p then (p2, u1)
        else (case on_db (listed (if cp_show_deleted p then acta_db_context_query_with_deleted_light None 0 0
                                  else acta_db_context_query_light None 0 0)) u1 of
           (cs, u2) \<Rightarrow>
             if cs = [] then (p2, u2)
             else
               let p3 = p2\<lparr>cp_list := map (ctx_item_of Q) cs\<rparr> in
               (case (if keepContext \<noteq> 0 \<and> findContext keepContext p3 \<noteq> None
                      then setCurrentContext (Some keepContext) p3 u2 else (p3, u2)) of
                  (p4, u3) \<Rightarrow>
                    (updateContextBtnStates (emitContextChanged (filterContexts Q p4)), u3))))"

definition onNewContextClicked ::
  "qt_lib \<Rightarrow> context_form list \<Rightarrow> ctx_panel \<Rightarrow> ui \<Rightarrow> ctx_panel \<times> ui" where
  "onNewContextClicked Q fs p u =
     (if \<not> cp_db p then (p, u)
      else (case context_exec Q fs u of
         (None, u1) \<Rightarrow> (p, u1)
       | (Some newId, u1) \<Rightarrow> reloadContexts Q p u1))"

definition context_delete_message :: "int \<Rightarrow> string" where
  "context_delete_message rc =
     (if rc = ACTA_DB_ERR_NOT_FOUND then ''Context not found (already deleted?).''
      else ''Could not delete the context: '' @ acta_db_strerror rc)"

definition onContextDeleteClicked :: "qt_lib \<Rightarrow> bool \<Rightarrow> ctx_panel \<Rightarrow> ui \<Rightarrow> ctx_panel \<times> ui" where
  "onContextDeleteClicked Q yes p u =
     (if \<not> cp_db p \<or> \<not> cp_delete_on p \<or> currentContextId p = 0 \<or> \<not> yes then (p, u)
      else (case on_db (acta_db_context_delete (currentContextId p)) u of (rc, u1) \<Rightarrow>
         if rc \<noteq> ACTA_DB_OK then (p, message_box ''Delete Context'' (context_delete_message rc) u1)
         else reloadContexts Q p u1))"

definition onContextRestoreClicked :: "qt_lib \<Rightarrow> ctx_panel \<Rightarrow> ui \<Rightarrow> ctx_panel \<times> ui" where
  "onContextRestoreClicked Q p u =
     (if \<not> cp_db p \<or> \<not> cp_restore_on p \<or> currentContextId p = 0 then (p, u)
      else (case on_db (acta_db_context_restore (currentContextId p)) u of (rc, u1) \<Rightarrow>
         if rc \<noteq> ACTA_DB_OK
         then (p, message_box ''Restore Context'' (''Could not restore the context: '' @ acta_db_strerror rc) u1)
         else reloadContexts Q p
                (message_box ''Context'' (''Context '' @ show_int (currentContextId p) @ '' restored.'') u1)))"

definition onContextDeleteKey :: "qt_lib \<Rightarrow> bool \<Rightarrow> ctx_panel \<Rightarrow> ui \<Rightarrow> ctx_panel \<times> ui" where
  "onContextDeleteKey Q yes p u =
     (if cp_delete_on p then onContextDeleteClicked Q yes p u
      else if cp_restore_on p then onContextRestoreClicked Q p u
      else (p, u))"

definition setContextDb :: "qt_lib \<Rightarrow> bool \<Rightarrow> ctx_panel \<Rightarrow> ui \<Rightarrow> ctx_panel \<times> ui" where
  "setContextDb Q has_db p u = reloadContexts Q (p\<lparr>cp_db := has_db\<rparr>) u"

datatype ctx_event =
    SelectContext "int option" | TypeContextFilter string | ToggleContextTrash bool
  | NewContext "context_form list" | DeleteContext bool | RestoreContext | ContextDeleteKey bool

fun ctx_step :: "qt_lib \<Rightarrow> ctx_event \<Rightarrow> ctx_panel \<Rightarrow> ui \<Rightarrow> ctx_panel \<times> ui" where
  "ctx_step Q (SelectContext i) p u = setCurrentContext i p u"
| "ctx_step Q (TypeContextFilter t) p u = (filterContexts Q (p\<lparr>cp_filter := t\<rparr>), u)"
| "ctx_step Q (ToggleContextTrash b) p u = reloadContexts Q (p\<lparr>cp_show_deleted := b\<rparr>) u"
| "ctx_step Q (NewContext fs) p u = onNewContextClicked Q fs p u"
| "ctx_step Q (DeleteContext yes) p u = onContextDeleteClicked Q yes p u"
| "ctx_step Q RestoreContext p u = onContextRestoreClicked Q p u"
| "ctx_step Q (ContextDeleteKey yes) p u = onContextDeleteKey Q yes p u"

end
