(* ===== verification/Gui_Frame.thy ===== *)
theory Gui_Frame
  imports Gui_Executions Gui_Contexts Run_Frame Samples
begin

text \<open>
  What the actions of the graphical program do to the database. The two interfaces of its widgets are
  locales: \<open>entity_contract\<close>, what a concrete entity dialog promises to the base class, and
  \<open>adapter_contract\<close>, what an adapter promises to the folder panel. Under them every dialog and every
  action of a panel is a run of the library (\<open>lib_run\<close>); the interpretations on the skill and the model
  side discharge the promises. The lists, which are no interface of the sources, follow one by one.
\<close>

definition ui_run :: "ui \<Rightarrow> ui \<Rightarrow> bool" where
  "ui_run u u' \<longleftrightarrow> lib_run (ui_db u) (ui_db u')"

lemma ui_run_refl [simp, intro]: "ui_run u u"
  by (simp add: ui_run_def l_refl)

lemma ui_run_trans [trans]: "ui_run u v \<Longrightarrow> ui_run v w \<Longrightarrow> ui_run u w"
  unfolding ui_run_def by (rule run_trans)

lemma ui_run_box [simp]:
  "ui_run u (message_box c t v) = ui_run u v" "ui_run (message_box c t u) v = ui_run u v"
  by (simp_all add: ui_run_def message_box_def)

lemma run_read: "same_db d d' \<Longrightarrow> lib_run d d'"
  by (rule l_env [OF l_refl]) (simp add: same_db_def st_skip)

lemma on_db_call:
  assumes "on_db f u = (x, u')" and "\<And>d y d'. f d = (y, d') \<Longrightarrow> lib_run d d'"
  shows "ui_run u u'"
  using assms by (auto simp: on_db_def ui_run_def split: prod.splits)

lemma on_db_read:
  assumes "on_db f u = (x, u')" and "\<And>d y d'. f d = (y, d') \<Longrightarrow> same_db d d'"
  shows "ui_run u u'"
  using assms(1) by (rule on_db_call) (blast intro: run_read dest: assms(2))

section \<open>The library's readers\<close>

lemma got_same:
  assumes "got f d = (x, d')" and "\<And>d i e d'. f d = (i, e, d') \<Longrightarrow> same_db d d'"
  shows "same_db d d'"
  using assms by (auto simp: got_def split: prod.splits)

lemma listed_same:
  assumes "listed f d = (x, d')" and "\<And>d i n e d'. f d = (i, n, e, d') \<Longrightarrow> same_db d d'"
  shows "same_db d d'"
  using assms by (auto simp: listed_def split: prod.splits)

lemma map_prod_same:
  "map_prod g id (f d) = (x, d') \<Longrightarrow> (\<And>y. f d = (y, d') \<Longrightarrow> same_db d d') \<Longrightarrow> same_db d d'"
  by (cases "f d") auto

lemmas reader_splits = if_splits prod.splits read_result.splits list.splits option.splits

lemma reader_same:
  "acta_db_skill_get i d = (s, e, d') \<Longrightarrow> same_db d d'"
  "acta_db_skill_get_live i d = (s, e, d') \<Longrightarrow> same_db d d'"
  "acta_db_model_get i d = (m, e, d') \<Longrightarrow> same_db d d'"
  "acta_db_model_get_live i d = (m, e, d') \<Longrightarrow> same_db d d'"
  "acta_db_skill_folder_get i d = (f, e, d') \<Longrightarrow> same_db d d'"
  "acta_db_model_folder_get i d = (f, e, d') \<Longrightarrow> same_db d d'"
  by (auto simp: acta_db_skill_get_def acta_db_skill_get_live_def skill_fetch_def acta_db_model_get_def
      acta_db_model_get_live_def model_fetch_def acta_db_skill_folder_get_def acta_db_model_folder_get_def
      split: reader_splits dest: sql_read_same)

lemma skill_lister_same:
  "skill_folder_list a b c off mx d = (fs, n, e, d') \<Longrightarrow> same_db d d'"
  "skill_list sel off mx d = (ss, n, e, d') \<Longrightarrow> same_db d d'"
  "acta_db_skill_revision_list_by_skill i off mx d = (rs, n, e, d') \<Longrightarrow> same_db d d'"
  by (auto simp: skill_folder_list_def skill_list_def acta_db_skill_revision_list_by_skill_def Let_def
      split: reader_splits dest: sql_read_same)

lemma model_lister_same:
  "model_folder_list sel off mx d = (fs, n, e, d') \<Longrightarrow> same_db d d'"
  "model_list sel' off mx d = (ms, n, e, d') \<Longrightarrow> same_db d d'"
  "acta_db_model_revision_list_by_model i off mx d = (rs, n, e, d') \<Longrightarrow> same_db d d'"
  by (auto simp: model_folder_list_def model_list_def acta_db_model_revision_list_by_model_def rev_list_run_def
      Let_def split: reader_splits dest: sql_read_same)

lemma context_query_same: "context_query_impl q off mx live light d = (cs, n, e, d') \<Longrightarrow> same_db d d'"
  by (auto simp: context_query_impl_def Let_def split: reader_splits dest: sql_read_same)

lemma light_query_same: "acta_db_execution_query_light q off mx d = (es, n, e, d') \<Longrightarrow> same_db d d'"
  by (auto simp: acta_db_execution_query_light_def execution_query_impl_def Let_def
      split: reader_splits dest: sql_read_same)

section \<open>The entity dialogs\<close>

locale entity_contract =
  fixes X :: "'f entity_ops"
  assumes create: "createEntity X f i u = (rc, u') \<Longrightarrow> ui_run u u'"
    and update: "updateEntity X f i u = (rc, u') \<Longrightarrow> ui_run u u'"
    and row: "loadRow X i d = (x, d') \<Longrightarrow> same_db d d'"
    and revisions: "revisionRows X i d = (rs, d') \<Longrightarrow> same_db d d'"
    and fields: "revisionFields X i d = (fo, d') \<Longrightarrow> same_db d d'"
    and folder: "folderName X i d = (n, d') \<Longrightarrow> same_db d d'"
begin

lemma show_revision: "showRevision X i g u = (g', u') \<Longrightarrow> ui_run u u'"
  by (auto simp: showRevision_def split: if_splits prod.splits option.splits intro: on_db_read [OF _ fields])

lemma load_revisions: "loadRevisionTree X g u = (g', u') \<Longrightarrow> ui_run u u'"
  by (auto simp: loadRevisionTree_def split: if_splits prod.splits
      dest!: on_db_read [OF _ revisions] show_revision intro: ui_run_trans)

lemma load: "loadEntity X i g u = (g', u') \<Longrightarrow> ui_run u u'"
  by (auto simp: loadEntity_def split: prod.splits option.splits
      dest!: on_db_read [OF _ row] load_revisions intro: ui_run_trans)

lemma new: "newEntity X i g u = (g', u') \<Longrightarrow> ui_run u u'"
  by (auto simp: newEntity_def split: if_splits prod.splits dest!: on_db_read [OF _ folder])

lemma edit: "editEntity X i g u = (g', u') \<Longrightarrow> ui_run u u'"
  by (auto simp: editEntity_def split: prod.splits dest!: load)

lemma save: "onSaveClicked X g u = (ends, g', u') \<Longrightarrow> ui_run u u'"
  by (auto simp: onSaveClicked_def split: if_splits prod.splits option.splits
      dest!: create update load intro: ui_run_trans)

lemma exec: "dialog_exec X fs g u = (g', u') \<Longrightarrow> ui_run u u'"
proof (induction fs arbitrary: g u)
  case (Cons f fs)
  then show ?case
    by (auto split: prod.splits if_splits dest!: save Cons.IH intro: ui_run_trans)
qed simp

lemma open_new: "open_new X fs i u = (b, u') \<Longrightarrow> ui_run u u'"
  by (auto simp: open_new_def split: prod.splits dest!: new exec intro: ui_run_trans)

lemma open_edit: "open_edit X fs i u = (b, u') \<Longrightarrow> ui_run u u'"
  by (auto simp: open_edit_def split: prod.splits dest!: edit exec intro: ui_run_trans)

lemma open_show: "ui_run u (open_show X i u)"
  by (cases "loadEntity X i (new_dialog X) u") (auto simp: open_show_def showEntity_def dest!: load)

end

lemma made_call:
  assumes "on_db (made f) u = (x, u')" and "\<And>d rc out d'. f d = (rc, out, d') \<Longrightarrow> lib_call d rc d'"
  shows "ui_run u u'"
  using assms(1)
proof (rule on_db_call)
  show "lib_run d d'" if "made f d = (y, d')" for d y d'
    using that assms(2) by (auto simp: made_def split: prod.splits intro!: run_one)
qed

lemma plain_call:
  assumes "on_db f u = (x, u')" and "\<And>d rc d'. f d = (rc, d') \<Longrightarrow> lib_call d rc d'"
  shows "ui_run u u'"
  using assms(1) by (rule on_db_call) (blast intro: run_one assms(2))

lemma ui_run_read: "same_db (ui_db u) d \<Longrightarrow> ui_run u (u\<lparr>ui_db := d\<rparr>)"
  by (simp add: ui_run_def run_read)

lemma save_failed_run: "save_failed c n m v rc u = (rc', u') \<Longrightarrow> ui_run u u'"
  by (auto simp: save_failed_def split: if_splits)

interpretation skill_dialog: entity_contract "skill_ops Q" for Q
proof unfold_locales
  fix f i u rc u'
  show "ui_run u u'" if "createEntity (skill_ops Q) f i u = (rc, u')"
    using that by (auto simp: skill_ops_def skill_createEntity_def split: prod.splits
        dest!: made_call [OF _ sk_create] save_failed_run intro: ui_run_trans)
  show "ui_run u u'" if "updateEntity (skill_ops Q) f i u = (rc, u')"
    using that
    by (auto simp: skill_ops_def skill_updateEntity_def split: prod.splits option.splits
        dest!: reader_same(2) ui_run_read plain_call [OF _ sk_update] save_failed_run intro: ui_run_trans)
qed (auto simp: skill_ops_def dest!: map_prod_same got_same listed_same
    intro: reader_same skill_lister_same skill_revision_get_same)

interpretation model_dialog: entity_contract model_ops
proof unfold_locales
  fix f i u rc u'
  show "ui_run u u'" if "createEntity model_ops f i u = (rc, u')"
    using that by (auto simp: model_ops_def model_createEntity_def split: prod.splits
        dest!: made_call [OF _ mo_create] save_failed_run intro: ui_run_trans)
  show "ui_run u u'" if "updateEntity model_ops f i u = (rc, u')"
    using that
    by (auto simp: model_ops_def model_updateEntity_def split: prod.splits option.splits
        dest!: reader_same(4) ui_run_read plain_call [OF _ mo_update] save_failed_run intro: ui_run_trans)
qed (auto simp: model_ops_def dest!: map_prod_same got_same listed_same
    intro: reader_same model_lister_same model_revision_get_same)

section \<open>The folder panel\<close>

locale adapter_contract =
  fixes D :: folder_dao
  assumes folders: "listFolders D b d = (fs, d') \<Longrightarrow> same_db d d'"
    and entities: "listAllEntities D b d = (es, d') \<Longrightarrow> same_db d d'"
    and create: "on_db (createFolder D i name) u = (x, u') \<Longrightarrow> ui_run u u'"
    and rename: "on_db (renameFolder D i name) u = (rc, u') \<Longrightarrow> ui_run u u'"
    and delete: "on_db (softDeleteFolder D i) u = (rc, u') \<Longrightarrow> ui_run u u'"
    and restore: "on_db (restoreFolder D i) u = (rc, u') \<Longrightarrow> ui_run u u'"
    and delete_entity: "on_db (softDeleteEntity D i) u = (rc, u') \<Longrightarrow> ui_run u u'"
    and restore_entity: "on_db (restoreEntity D i) u = (rc, u') \<Longrightarrow> ui_run u u'"
    and new: "openNew D i u = (b, u') \<Longrightarrow> ui_run u u'"
    and shown: "ui_run u (openShow D i u)"
    and edit: "openEdit D i u = (b, u') \<Longrightarrow> ui_run u u'"
begin

lemma folders_run: "on_db (listFolders D b) u = (x, u') \<Longrightarrow> ui_run u u'"
  by (erule on_db_read) (rule folders)

lemma entities_run: "on_db (listAllEntities D b) u = (x, u') \<Longrightarrow> ui_run u u'"
  by (erule on_db_read) (rule entities)

lemma reloading: "reload contains p u = (p', u') \<Longrightarrow> tp_dao p = Some D \<Longrightarrow> ui_run u u'"
  by (auto simp: reload_def Let_def split: prod.splits
      dest!: folders_run entities_run intro: ui_run_trans)

lemma reloading_if: "reload_if contains b p u = (p', u') \<Longrightarrow> tp_dao p = Some D \<Longrightarrow> ui_run u u'"
  by (auto simp: reload_if_def split: if_splits dest: reloading)

lemma new_folder:
  "createFolderWithParent contains i answer p u = (p', u') \<Longrightarrow> tp_dao p = Some D \<Longrightarrow> ui_run u u'"
  by (auto simp: createFolderWithParent_def split: option.splits prod.splits if_splits
      dest!: create reloading intro: ui_run_trans)

lemma rename_folder:
  "onRenameFolderBtnClicked contains answer p u = (p', u') \<Longrightarrow> tp_dao p = Some D \<Longrightarrow> ui_run u u'"
  by (auto simp: onRenameFolderBtnClicked_def split: option.splits prod.splits if_splits
      dest!: rename reloading intro: ui_run_trans)

lemma delete_folder:
  "onDeleteFolderBtnClicked contains yes p u = (p', u') \<Longrightarrow> tp_dao p = Some D \<Longrightarrow> ui_run u u'"
  by (auto simp: onDeleteFolderBtnClicked_def split: prod.splits if_splits
      dest!: delete reloading intro: ui_run_trans)

lemma restore_folder:
  "onRestoreFolderBtnClicked contains p u = (p', u') \<Longrightarrow> tp_dao p = Some D \<Longrightarrow> ui_run u u'"
  by (auto simp: onRestoreFolderBtnClicked_def Let_def split: prod.splits if_splits
      dest!: restore reloading intro: ui_run_trans)

lemma entity_clicks:
  "onNewBtnClicked contains p u = (p', u') \<Longrightarrow> tp_dao p = Some D \<Longrightarrow> ui_run u u'"
  "onEditBtnClicked contains p u = (p', u') \<Longrightarrow> tp_dao p = Some D \<Longrightarrow> ui_run u u'"
  "onEntityDeleteClicked contains yes p u = (p', u') \<Longrightarrow> tp_dao p = Some D \<Longrightarrow> ui_run u u'"
  "onEntityRestoreClicked contains p u = (p', u') \<Longrightarrow> tp_dao p = Some D \<Longrightarrow> ui_run u u'"
  "onShowBtnClicked p u = (p', u') \<Longrightarrow> tp_dao p = Some D \<Longrightarrow> ui_run u u'"
  by (auto simp: onNewBtnClicked_def onEditBtnClicked_def onEntityDeleteClicked_def
      onEntityRestoreClicked_def onShowBtnClicked_def shown split: prod.splits if_splits
      dest!: new edit delete_entity restore_entity reloading_if reloading intro: ui_run_trans)

lemmas clicks = entity_clicks new_folder rename_folder delete_folder restore_folder reloading

lemma step: "tree_step contains ev p u = (p', u') \<Longrightarrow> tp_dao p = Some D \<Longrightarrow> ui_run u u'"
  by (cases ev) (auto simp: onNewFolderBtnClicked_def onDeleteKeyPressed_def onRenameKeyPressed_def
      onReturnKeyPressed_def split: if_splits dest: clicks)

end

lemma no_adapter_step: "tree_step contains ev p u = (p', u') \<Longrightarrow> tp_dao p = None \<Longrightarrow> u' = u"
  by (cases ev) (auto simp: onNewFolderBtnClicked_def onDeleteKeyPressed_def onRenameKeyPressed_def
      onReturnKeyPressed_def onNewBtnClicked_def onEditBtnClicked_def onEntityDeleteClicked_def
      onEntityRestoreClicked_def onShowBtnClicked_def createFolderWithParent_def onRenameFolderBtnClicked_def
      onDeleteFolderBtnClicked_def onRestoreFolderBtnClicked_def reload_def Let_def split: if_splits)

interpretation skill_adapter: adapter_contract "makeSkillDao Q fs" for Q fs
proof unfold_locales
  show "same_db d d'" if "listFolders (makeSkillDao Q fs) b d = (x, d')" for b d x d'
    using that by (auto simp: makeSkillDao_def acta_db_skill_folder_list_all_def
        acta_db_skill_folder_list_all_with_deleted_def split: if_splits
        dest!: map_prod_same listed_same intro: skill_lister_same)
  show "same_db d d'" if "listAllEntities (makeSkillDao Q fs) b d = (x, d')" for b d x d'
    using that by (auto simp: makeSkillDao_def acta_db_skill_list_all_def
        acta_db_skill_list_all_with_deleted_def split: if_splits
        dest!: map_prod_same listed_same intro: skill_lister_same)
qed (auto simp: makeSkillDao_def intro: made_call [OF _ sf_create] plain_call [OF _ sf_rename]
    plain_call [OF _ sf_delete] plain_call [OF _ sf_restore] plain_call [OF _ sk_delete]
    plain_call [OF _ sk_restore] skill_dialog.open_new skill_dialog.open_show skill_dialog.open_edit)

interpretation model_adapter: adapter_contract "makeModelDao fs" for fs
proof unfold_locales
  show "same_db d d'" if "listFolders (makeModelDao fs) b d = (x, d')" for b d x d'
    using that by (auto simp: makeModelDao_def acta_db_model_folder_list_all_def
        acta_db_model_folder_list_all_with_deleted_def split: if_splits
        dest!: map_prod_same listed_same intro: model_lister_same)
  show "same_db d d'" if "listAllEntities (makeModelDao fs) b d = (x, d')" for b d x d'
    using that by (auto simp: makeModelDao_def acta_db_model_list_all_def
        acta_db_model_list_all_with_deleted_def split: if_splits
        dest!: map_prod_same listed_same intro: model_lister_same)
qed (auto simp: makeModelDao_def intro: made_call [OF _ mf_create] plain_call [OF _ mf_rename]
    plain_call [OF _ mf_delete] plain_call [OF _ mf_restore] plain_call [OF _ mo_delete]
    plain_call [OF _ mo_restore] model_dialog.open_new model_dialog.open_show model_dialog.open_edit)

section \<open>The lists\<close>

lemma context_get_run: "on_db (got (acta_db_context_get i)) u = (x, u') \<Longrightarrow> ui_run u u'"
  by (erule on_db_read) (auto dest: got_same context_get_same)

lemma execution_get_run: "on_db (got (acta_db_execution_get i)) u = (x, u') \<Longrightarrow> ui_run u u'"
  by (erule on_db_read) (auto dest: got_same execution_get_same)

lemma set_context_run: "setCurrentContext i p u = (p', u') \<Longrightarrow> ui_run u u'"
  by (auto simp: setCurrentContext_def showContext_def Let_def split: if_splits prod.splits option.splits
      dest: context_get_run)

lemma context_list_run:
  "on_db (listed (acta_db_context_query_light q off mx)) u = (x, u') \<Longrightarrow> ui_run u u'"
  "on_db (listed (acta_db_context_query_with_deleted_light q off mx)) u = (x, u') \<Longrightarrow> ui_run u u'"
  by (erule on_db_read, auto simp: acta_db_context_query_light_def acta_db_context_query_with_deleted_light_def
      dest!: listed_same intro: context_query_same)+

lemma reload_contexts_run: "reloadContexts Q p u = (p', u') \<Longrightarrow> ui_run u u'"
  by (auto simp: reloadContexts_def Let_def split: if_splits prod.splits
      dest!: set_context_run context_list_run intro: ui_run_trans)

lemma context_save_run: "context_onSaveClicked Q f u = (x, u') \<Longrightarrow> ui_run u u'"
  by (auto simp: context_onSaveClicked_def Let_def split: if_splits prod.splits option.splits
      dest!: made_call [OF _ cx_create] intro: ui_run_trans context_get_run prod.collapse [symmetric])

lemma context_exec_run: "context_exec Q fs u = (x, u') \<Longrightarrow> ui_run u u'"
proof (induction fs arbitrary: u)
  case (Cons f fs)
  then show ?case
    by (auto split: prod.splits option.splits dest!: context_save_run Cons.IH intro: ui_run_trans)
qed simp

lemma context_calls_run:
  "on_db (acta_db_context_delete i) u = (rc, u') \<Longrightarrow> ui_run u u'"
  "on_db (acta_db_context_restore i) u = (rc, u') \<Longrightarrow> ui_run u u'"
  by (erule plain_call, erule cx_delete cx_restore)+

lemma context_clicks:
  "onNewContextClicked Q fs p u = (p', u') \<Longrightarrow> ui_run u u'"
  "onContextDeleteClicked Q yes p u = (p', u') \<Longrightarrow> ui_run u u'"
  "onContextRestoreClicked Q p u = (p', u') \<Longrightarrow> ui_run u u'"
  by (auto simp: onNewContextClicked_def onContextDeleteClicked_def onContextRestoreClicked_def
      split: if_splits prod.splits option.splits
      dest!: context_exec_run reload_contexts_run context_calls_run
      intro: ui_run_trans)

lemma ctx_step_run: "ctx_step Q ev p u = (p', u') \<Longrightarrow> ui_run u u'"
  by (cases ev) (auto simp: onContextDeleteKey_def split: if_splits
      dest: set_context_run reload_contexts_run context_clicks)

lemma log_list_run:
  "on_db (listed (acta_db_execution_log_list_by_execution i lv off mx)) u = (x, u') \<Longrightarrow> ui_run u u'"
  by (erule on_db_read) (auto dest!: listed_same intro: log_list_same)

lemma light_query_run: "on_db (listed (acta_db_execution_query_light q off mx)) u = (x, u') \<Longrightarrow> ui_run u u'"
  by (erule on_db_read) (auto dest!: listed_same intro: light_query_same)

lemma revision_get_run:
  "on_db (got (acta_db_skill_revision_get i)) u = (x, u') \<Longrightarrow> ui_run u u'"
  "on_db (got (acta_db_model_revision_get j)) u = (y, u') \<Longrightarrow> ui_run u u'"
  by (erule on_db_read, auto dest: got_same skill_revision_get_same model_revision_get_same)+

lemma show_logs_run: "showExecutionLogs Q x p u = (p', u') \<Longrightarrow> ui_run u u'"
  by (auto simp: showExecutionLogs_def Let_def split: if_splits prod.splits dest: log_list_run)

lemma set_row_run: "setCurrentRow Q i p u = (p', u') \<Longrightarrow> ui_run u u'"
  by (auto simp: setCurrentRow_def split: if_splits prod.splits dest: show_logs_run)

lemma exec_item_run: "exec_item_of Q e u = (x, u') \<Longrightarrow> ui_run u u'"
  by (auto simp: exec_item_of_def split: prod.splits
      dest!: revision_get_run context_get_run intro: ui_run_trans)

lemma exec_items_run: "exec_items Q es u = (xs, u') \<Longrightarrow> ui_run u u'"
proof (induction es arbitrary: u xs)
  case (Cons e es)
  then show ?case by (auto split: prod.splits dest!: exec_item_run Cons.IH intro: ui_run_trans)
qed simp

lemma reload_executions_run: "reloadExecutions Q p u = (p', u') \<Longrightarrow> ui_run u u'"
  by (auto simp: reloadExecutions_def Let_def split: if_splits prod.splits
      dest!: set_row_run light_query_run exec_items_run intro: ui_run_trans)

lemma refresh_row_run: "refreshRunningRow p u = (p', u') \<Longrightarrow> ui_run u u'"
  by (auto simp: refreshRunningRow_def Let_def split: if_splits prod.splits option.splits
      dest: execution_get_run)

lemma refresh_logs_run: "refreshRunningLogs Q p u = (p', u') \<Longrightarrow> ui_run u u'"
  by (auto simp: refreshRunningLogs_def Let_def split: if_splits prod.splits dest: show_logs_run)

lemma poll_run: "onPollTick Q p u = (p', u') \<Longrightarrow> ui_run u u'"
  by (auto simp: onPollTick_def split: if_splits prod.splits
      dest!: refresh_row_run refresh_logs_run intro: ui_run_trans)

lemma finished_run: "onWorkerFinished Q code msg p u = (p', u') \<Longrightarrow> ui_run u u'"
  by (auto simp: onWorkerFinished_def Let_def split: if_splits prod.splits
      dest!: refresh_row_run refresh_logs_run intro: ui_run_trans)

lemma execution_calls_run:
  "on_db (acta_db_execution_reset i) u = (rc, u') \<Longrightarrow> ui_run u u'"
  "on_db (acta_db_execution_delete i) u = (rc, u') \<Longrightarrow> ui_run u u'"
  "on_db (acta_db_execution_restore i) u = (rc, u') \<Longrightarrow> ui_run u u'"
  "on_db (made (acta_db_execution_create e)) u = (x, u') \<Longrightarrow> ui_run u u'"
  by (erule plain_call made_call, rule ex_mutate, erule c_reset c_delete c_restore c_create)+

lemma start_run: "startRunner i p u = (p', u') \<Longrightarrow> ui_run u u'"
  by (auto simp: startRunner_def split: prod.splits dest: refresh_row_run)

lemma run_click_run: "onRunBtnClicked p u = (p', u') \<Longrightarrow> ui_run u u'"
  by (auto simp: onRunBtnClicked_def Let_def split: if_splits prod.splits option.splits
      dest!: execution_get_run execution_calls_run start_run intro: ui_run_trans)

lemma execution_exec_run: "execution_exec fs u = (x, u') \<Longrightarrow> ui_run u u'"
proof (induction fs arbitrary: u)
  case (Cons f fs)
  then show ?case
    by (auto simp: execution_onSaveClicked_def split: if_splits prod.splits option.splits
        dest!: execution_calls_run(4) Cons.IH intro: ui_run_trans)
qed simp

lemma execution_clicks:
  "onNewExecutionClicked Q fs p u = (p', u') \<Longrightarrow> ui_run u u'"
  "onExecuteDeleteClicked Q yes p u = (p', u') \<Longrightarrow> ui_run u u'"
  "onExecuteRestoreClicked Q p u = (p', u') \<Longrightarrow> ui_run u u'"
  by (auto simp: onNewExecutionClicked_def onExecuteDeleteClicked_def onExecuteRestoreClicked_def
      split: if_splits prod.splits option.splits
      dest!: execution_exec_run reload_executions_run set_row_run execution_calls_run(2,3)
      intro: ui_run_trans)

lemma exec_step_run: "exec_step Q ev p u = (p', u') \<Longrightarrow> ui_run u u'"
  by (cases ev) (auto simp: onExecDeleteKey_def split: if_splits
      dest: set_row_run reload_executions_run run_click_run poll_run finished_run execution_clicks)

section \<open>The program\<close>

text \<open>
  The four panels on one connection. The forms of an event are what the user enters in the dialog it
  opens; the adapter of a panel is there when its panel has a database.
\<close>

record gui =
  g_skills :: tree_panel
  g_models :: tree_panel
  g_contexts :: ctx_panel
  g_executions :: exec_panel
  g_ui :: ui

datatype gui_event =
    SkillEvent "skill_form list" tree_event | ModelEvent "model_form list" tree_event
  | ContextEvent ctx_event | ExecutionEvent exec_event

definition with_dao :: "folder_dao \<Rightarrow> tree_panel \<Rightarrow> tree_panel" where
  "with_dao D p = p\<lparr>tp_dao := map_option (\<lambda>_. D) (tp_dao p)\<rparr>"

fun gui_step :: "qt_lib \<Rightarrow> gui_event \<Rightarrow> gui \<Rightarrow> gui" where
  "gui_step Q (SkillEvent fs ev) g =
     (case tree_step (qt_contains Q) ev (with_dao (makeSkillDao Q fs) (g_skills g)) (g_ui g) of
        (p, u) \<Rightarrow> g\<lparr>g_skills := p, g_ui := u\<rparr>)"
| "gui_step Q (ModelEvent fs ev) g =
     (case tree_step (qt_contains Q) ev (with_dao (makeModelDao fs) (g_models g)) (g_ui g) of
        (p, u) \<Rightarrow> g\<lparr>g_models := p, g_ui := u\<rparr>)"
| "gui_step Q (ContextEvent ev) g =
     (case ctx_step Q ev (g_contexts g) (g_ui g) of (p, u) \<Rightarrow> g\<lparr>g_contexts := p, g_ui := u\<rparr>)"
| "gui_step Q (ExecutionEvent ev) g =
     (case exec_step Q ev (g_executions g) (g_ui g) of (p, u) \<Rightarrow> g\<lparr>g_executions := p, g_ui := u\<rparr>)"

text \<open>
  A session: events of the user, and between them steps of other connections, the worker's among
  them.
\<close>

definition elsewhere :: "store \<Rightarrow> gui \<Rightarrow> gui" where
  "elsewhere st g = g\<lparr>g_ui := (g_ui g)\<lparr>ui_db := (ui_db (g_ui g))\<lparr>store := st\<rparr>\<rparr>\<rparr>"

inductive gui_session :: "qt_lib \<Rightarrow> gui \<Rightarrow> gui \<Rightarrow> bool" for Q where
  gs_start: "gui_session Q g g"
| gs_event: "gui_session Q g g1 \<Longrightarrow> gui_session Q g (gui_step Q ev g1)"
| gs_other: "gui_session Q g g1 \<Longrightarrow> db_step (store (ui_db (g_ui g1))) st \<Longrightarrow> gui_session Q g (elsewhere st g1)"

lemma tree_event_run:
  assumes "tree_step c ev (with_dao D p) u = (p', u')" and "adapter_contract D"
  shows "ui_run u u'"
proof (cases "tp_dao p")
  case None
  then show ?thesis using no_adapter_step [OF assms(1)] by (simp add: with_dao_def)
next
  case (Some D')
  then show ?thesis using adapter_contract.step [OF assms(2,1)] by (simp add: with_dao_def)
qed

lemma gui_step_run: "ui_run (g_ui g) (g_ui (gui_step Q ev g))"
  by (cases ev) (auto split: prod.splits
      dest: tree_event_run [OF _ skill_adapter.adapter_contract_axioms]
        tree_event_run [OF _ model_adapter.adapter_contract_axioms] ctx_step_run exec_step_run)

end
