(* ===== verification/Gui_Window.thy ===== *)
theory Gui_Window
  imports Gui_Conf Connections Gui_Util
begin

text \<open>
  \<^verbatim>\<open>acta_gui/src/mainwindow.cpp\<close> and \<^verbatim>\<open>dbhandle.cpp\<close>: the one connection of the
  graphical program, how it is opened, created and replaced, and which connection the panels hold.
  Every successful open makes a new \<open>db_t\<close>; \<open>wn_serial\<close> numbers them, so that a pointer kept by a panel
  can be told from the connection that is open now. What an open meets is an \<open>open_env\<close>; \<open>schema\<close> is
  what the embedded text \<^verbatim>\<open>schema.sql\<close> does to a database (\<open>None\<close>: SQLite reports an error)
  and \<open>resource\<close> whether it can be read. The settings file is the remembered path \<open>wn_stored\<close>.
  Layout, menus and the state of the windows are left out.
\<close>

record window =
  wn_handle :: "(nat \<times> db_t) option"
  wn_dbOk :: bool
  wn_dbPath :: string
  wn_lastError :: string
  wn_stored :: string
  wn_serial :: nat
  wn_panels :: "nat option"
  wn_enabled :: bool
  wn_removed :: "string list"
  wn_boxes :: "string list"

section \<open>The handle\<close>

definition handle_open :: "string \<Rightarrow> int \<Rightarrow> open_env \<Rightarrow> window \<Rightarrow> (bool \<times> string \<times> int) \<times> window" where
  "handle_open p mode opening w =
     (case acta_db_open (Some p) mode opening of
        (None, err, leaked) \<Rightarrow> ((False, acta_db_strerror err, err), w\<lparr>wn_handle := None\<rparr>)
      | (Some d, err, leaked) \<Rightarrow>
          ((True, [], ACTA_DB_OK),
           w\<lparr>wn_handle := Some (wn_serial w + 1, d), wn_serial := wn_serial w + 1\<rparr>))"

definition handle_close :: "window \<Rightarrow> window" where
  "handle_close w = w\<lparr>wn_handle := None\<rparr>"

section \<open>Opening and creating\<close>

definition openDatabaseOnce :: "open_env \<Rightarrow> window \<Rightarrow> bool \<times> window" where
  "openDatabaseOnce opening w =
     (case handle_open (wn_dbPath w) 0 opening
             ((if wn_handle w \<noteq> None then handle_close w else w)\<lparr>wn_dbOk := False, wn_lastError := []\<rparr>) of
        ((ok, msg, code), w1) \<Rightarrow>
          if ok then (True, w1\<lparr>wn_dbOk := True\<rparr>)
          else (False, w1\<lparr>wn_lastError :=
             (if code = ACTA_DB_ERR_INVALID_DB
              then ''The file '' @ wn_dbPath w @ '' is not a valid database (it is missing, empty, or not a SQLite file).''
              else ''Could not open the database: ['' @ show_int code @ ''] '' @ msg @ [CHR 0x0A] @ wn_dbPath w)\<rparr>))"

text \<open>A version that cannot be recorded is only a warning.\<close>

definition createDatabase ::
  "(db_t \<Rightarrow> db_t option) \<Rightarrow> bool \<Rightarrow> open_env \<Rightarrow> window \<Rightarrow> bool \<times> window" where
  "createDatabase schema resource opening w =
     (case handle_open (wn_dbPath w) 1 opening w of
        ((ok, msg, code), w1) \<Rightarrow>
          (case wn_handle w1 of
             None \<Rightarrow> (False, w1)
           | Some (n, d) \<Rightarrow>
               if \<not> ok then (False, w1)
               else if \<not> resource then (False, handle_close w1)
               else (case acta_db_exec schema d of (rc, d1) \<Rightarrow>
                  if rc \<noteq> ACTA_DB_OK then (False, handle_close w1)
                  else (case acta_db_set_schema_version 1 d1 of (vrc, d2) \<Rightarrow>
                    (True, w1\<lparr>wn_handle := Some (n, d2)\<rparr>)))))"

section \<open>The bootstrap\<close>

text \<open>
  The answer to the startup box, with what follows it: the environment of a creation, or the file
  picked (an empty name when the file dialog is cancelled).
\<close>

datatype boot_answer = CreateHere bool open_env | PickFile string | ExitProgram | DismissBox

text \<open>
  The loop of \<open>runDatabaseBootstrap\<close>: what each open meets and what the user answers when it fails.
  The first component says whether the program was asked to end.
\<close>

fun runDatabaseBootstrap ::
  "(db_t \<Rightarrow> db_t option) \<Rightarrow> (open_env \<times> boot_answer) list \<Rightarrow> window \<Rightarrow> bool \<times> window" where
  "runDatabaseBootstrap schema [] w = (False, w)"
| "runDatabaseBootstrap schema ((opening, answer) # rest) w =
     (case openDatabaseOnce opening w of (ok, w1) \<Rightarrow>
        if ok then (False, w1\<lparr>wn_stored := wn_dbPath w1\<rparr>)
        else
          let w2 = w1\<lparr>wn_boxes := wn_boxes w1 @ [wn_lastError w1]\<rparr> in
          (case answer of
             ExitProgram \<Rightarrow> (True, w2)
           | CreateHere resource creating \<Rightarrow>
               (case createDatabase schema resource creating
                       (w2\<lparr>wn_removed := wn_removed w2 @ [wn_dbPath w2]\<rparr>) of
                  (made_it, w3) \<Rightarrow>
                    if made_it then (False, w3\<lparr>wn_dbOk := True, wn_stored := wn_dbPath w3\<rparr>)
                    else runDatabaseBootstrap schema rest w3)
           | PickFile file \<Rightarrow>
               if file = [] then (False, w2)
               else runDatabaseBootstrap schema rest (w2\<lparr>wn_dbPath := file\<rparr>)
           | DismissBox \<Rightarrow> (False, w2)))"

section \<open>The panels\<close>

definition syncPanels :: "window \<Rightarrow> window" where
  "syncPanels w = w\<lparr>wn_enabled := wn_dbOk w\<rparr>"

definition applyDbToPanels :: "window \<Rightarrow> window" where
  "applyDbToPanels w = (if \<not> wn_dbOk w then w else w\<lparr>wn_panels := map_option fst (wn_handle w)\<rparr>)"

definition retryDatabase ::
  "(db_t \<Rightarrow> db_t option) \<Rightarrow> (open_env \<times> boot_answer) list \<Rightarrow> window \<Rightarrow> window" where
  "retryDatabase schema script w = syncPanels (applyDbToPanels (snd (runDatabaseBootstrap schema script w)))"

definition loadDatabase :: "string \<Rightarrow> open_env \<Rightarrow> window \<Rightarrow> window" where
  "loadDatabase file opening w =
     (if file = [] then w
      else (case openDatabaseOnce opening (w\<lparr>wn_dbPath := file\<rparr>) of (ok, w1) \<Rightarrow>
         if ok then syncPanels (applyDbToPanels (w1\<lparr>wn_stored := wn_dbPath w1\<rparr>))
         else syncPanels (w1\<lparr>wn_boxes := wn_boxes w1 @ [wn_lastError w1]\<rparr>)))"

text \<open>The panels hold the connection that is open, or none.\<close>

definition panels_current :: "window \<Rightarrow> bool" where
  "panels_current w \<longleftrightarrow> wn_panels w = None \<or> wn_panels w = map_option fst (wn_handle w)"

text \<open>The constructor: \<open>exists\<close> says whether the remembered file exists.\<close>

definition open_window ::
  "(db_t \<Rightarrow> db_t option) \<Rightarrow> gui_host \<Rightarrow> string \<Rightarrow> bool \<Rightarrow> (open_env \<times> boot_answer) list \<Rightarrow> string + window" where
  "open_window schema G stored exists script =
     (case defaultDbPath G of
        Inl conf_error \<Rightarrow> Inl conf_error
      | Inr file \<Rightarrow>
          let w = \<lparr>wn_handle = None, wn_dbOk = False,
                   wn_dbPath = (if stored \<noteq> [] \<and> exists then stored else file), wn_lastError = [],
                   wn_stored = stored, wn_serial = 0, wn_panels = None, wn_enabled = False,
                   wn_removed = [], wn_boxes = []\<rparr>;
              w1 = snd (runDatabaseBootstrap schema script w)
          in Inr (syncPanels (applyDbToPanels (w1\<lparr>wn_panels := map_option fst (wn_handle w1)\<rparr>))))"

end
