(* ===== verification/Gui_Properties.thy ===== *)
theory Gui_Properties
  imports Gui_Frame Gui_Window Run_Properties
begin

text \<open>
  The properties of the graphical program: what any session does to the database, that a run started
  from its window is the run of \<^verbatim>\<open>acta_runner\<close> with the same settings, that the two
  agree on the default database, and when the panels hold the open connection.
\<close>

section \<open>Sessions\<close>

lemma session_run: "gui_session Q g g' \<Longrightarrow> lib_run (ui_db (g_ui g)) (ui_db (g_ui g'))"
proof (induction rule: gui_session.induct)
  case (gs_event g g1 ev)
  then show ?case using gui_step_run [of g1 Q ev] run_trans by (auto simp: ui_run_def)
next
  case (gs_other g g1 st)
  then show ?case by (auto simp: elsewhere_def intro: l_env)
qed (rule l_refl)


text \<open>A window on the sample database with its one execution listed and selected.\<close>

definition sample_qt :: qt_lib where
  "sample_qt = \<lparr>qt_contains = (\<lambda>s t. s = t), qt_fromJson = (\<lambda>s. Inl ([], 0)), qt_sha256 = (\<lambda>s. s),
     qt_date = shown_text\<rparr>"

definition sample_item :: exec_item where
  "sample_item = \<lparr>xi_id = 1, xi_date = [], xi_status = ''pending'', xi_skill = ''sum (rev 1)'',
     xi_model = ''m (rev 1)'', xi_context = ''text'', xi_deleted = False, xi_hidden = False\<rparr>"

definition sample_panel :: exec_panel where
  "sample_panel = \<lparr>ep_db = True, ep_dbPath = ''acta.db'', ep_list = [sample_item], ep_current = Some 1,
     ep_filter = [], ep_status = ''All'', ep_show_deleted = False, ep_logs = [], ep_log_row = None,
     ep_running = 0, ep_worker = None, ep_poll = False, ep_cancelled = False, ep_last = 1,
     ep_emitted = [1], ep_run_on = True, ep_run_cancels = False, ep_delete_on = True,
     ep_restore_on = False\<rparr>"

definition sample_tree_panel :: tree_panel where
  "sample_tree_panel = \<lparr>tp_dao = None, tp_tree = [], tp_current = None, tp_filter = [],
     tp_show_deleted = False, tp_empty = True,
     tp_buttons = \<lparr>show_on = False, edit_on = False, delete_on = False, restore_on = False,
       rename_folder_on = False, delete_folder_on = False, restore_folder_on = False\<rparr>,
     tp_last = 0, tp_emitted = []\<rparr>"

definition sample_ctx_panel :: ctx_panel where
  "sample_ctx_panel = \<lparr>cp_db = False, cp_list = [], cp_current = None, cp_filter = [],
     cp_show_deleted = False, cp_editor = [], cp_last = 0, cp_emitted = [], cp_show_on = False, cp_delete_on = False,
     cp_restore_on = False\<rparr>"

definition sample_ui :: ui where
  "sample_ui = \<lparr>ui_db = sample_served, ui_boxes = []\<rparr>"

definition sample_gui :: gui where
  "sample_gui = \<lparr>g_skills = sample_tree_panel, g_models = sample_tree_panel, g_contexts = sample_ctx_panel,
     g_executions = sample_panel, g_ui = sample_ui\<rparr>"


section \<open>The worker\<close>

fun spaced :: "string list \<Rightarrow> string" where
  "spaced [] = []"
| "spaced [w] = w"
| "spaced (w # ws) = w @ '' '' @ spaced ws"

lemma key_status_warns:
  "acta_conf_api_key_status e f = (rc, m) \<Longrightarrow> rc = ACTA_KEY_EMPTY_WARN \<Longrightarrow> or_empty m \<noteq> []"
  by (auto simp: acta_conf_api_key_status_def or_empty_def Let_def split: option.splits if_splits)

lemma warnings_text:
  assumes "acta_conf_api_key_status e f = (rc, m)"
  shows "run_message rc m (snd (acta_conf_api_key_shadow_warning e f))
    = spaced ((if rc = ACTA_KEY_EMPTY_WARN then [or_empty m] else [])
        @ (case acta_conf_api_key_shadow_warning e f of (w, t) \<Rightarrow> if w > 0 then [or_empty t] else []))"
  using key_status_warns [OF assms]
  by (auto simp: run_message_def Let_def acta_conf_api_key_shadow_warning_def or_empty_def split: option.splits)

lemma log_message_same:
  "lastErrorLogMessage i d = (m, d') \<Longrightarrow> same_db d d'"
  by (auto simp: lastErrorLogMessage_def split: prod.splits dest: log_list_same)

text \<open>A refusal: nothing is sent and nothing is stored, but the connection is not closed.\<close>

definition refused :: "db_t \<Rightarrow> worker_end \<Rightarrow> bool" where
  "refused d w \<longleftrightarrow> we_code w = EXIT_INVALID \<and> we_state w = start_state d [] \<and> we_open w"

text \<open>A usable configuration: the worker runs the execution and reports what the run comes to.\<close>

lemma run_opened_runs:
  assumes st: "acta_conf_api_key_status (getenv (gh_host G) ''OPENAI_API_KEY'') (gui_file_key c) = (rc, m)"
    and ok: "cf_valid c" "rc \<noteq> ACTA_KEY_UNSET_ERR"
    and run: "run_execution E i (gui_timeout c) (gui_max_chars c)
      (if getenv (gh_host G) ''OPENAI_API_KEY'' \<noteq> None then getenv (gh_host G) ''OPENAI_API_KEY''
       else gui_file_key c) (start_state d []) = (code, s)"
    and w: "w = run_opened E G closing i c d"
  shows "we_code w = code \<and> rn_requests (we_state w) = rn_requests s
    \<and> store (rn_db (we_state w)) = store (rn_db s)
    \<and> (code = EXIT_OK \<longrightarrow> we_message w = run_message rc m
        (snd (acta_conf_api_key_shadow_warning (getenv (gh_host G) ''OPENAI_API_KEY'') (gui_file_key c))))"
proof -
  have "w =
      (case (if code = 0
             then (run_message rc m (snd (acta_conf_api_key_shadow_warning (getenv (gh_host G) ''OPENAI_API_KEY'')
                     (gui_file_key c))), rn_db s)
             else lastErrorLogMessage i (rn_db s)) of
         (message, d1) \<Rightarrow>
           (case acta_db_close closing d1 of
              (closeRc, left) \<Rightarrow>
                \<lparr>we_code = code, we_message = message, we_state = s\<lparr>rn_db := d1\<rparr>,
                 we_open = (if closeRc = ACTA_DB_OK then False
                            else snd (acta_db_force_close d1) \<noteq> None)\<rparr>))"
    unfolding w run_opened_def Let_def st prod.case run using ok by (simp only: if_False not_True_eq_False)
  then show ?thesis
    by (cases "code = 0") (auto simp: same_db_def split: prod.splits dest!: log_message_same)
qed

lemma run_opened_settings:
  assumes same: "same_file G (acta_conf_default_path (getenv (gh_host G)))"
    and conf: "read_conf (gh_host G) = (crc, conf, missing, msg)"
    and whole: "c = readActaConfFile G (acta_conf_default_path (getenv (gh_host G)))"
  shows "crc \<noteq> 0 \<Longrightarrow> refused d (run_opened E G closing i c d)"
    and "crc = 0 \<Longrightarrow> run_key (gh_host G) conf = Inl m \<Longrightarrow>
      refused d (run_opened E G closing i c d) \<and> we_message (run_opened E G closing i c d) = m"
    and "crc = 0 \<Longrightarrow> run_key (gh_host G) conf = Inr (key, ws) \<Longrightarrow>
      run_execution E i (acta_conf_resolve_timeout (Some conf) 0) (acta_conf_resolve_max_chars (Some conf))
        key (start_state d []) = (code, s) \<Longrightarrow>
      we_code (run_opened E G closing i c d) = code
      \<and> rn_requests (we_state (run_opened E G closing i c d)) = rn_requests s
      \<and> store (rn_db (we_state (run_opened E G closing i c d))) = store (rn_db s)
      \<and> (code = EXIT_OK \<longrightarrow> we_message (run_opened E G closing i c d) = spaced ws)"
proof -
  note agree = conf_readers_agree [OF same refl conf [unfolded read_conf_def], folded whole]
  show "crc \<noteq> 0 \<Longrightarrow> refused d (run_opened E G closing i c d)"
    using agree by (simp add: run_opened_def refused_def Let_def)
  obtain rc m' where st: "acta_conf_api_key_status (getenv (gh_host G) ''OPENAI_API_KEY'') (gui_file_key c) = (rc, m')"
    by fastforce
  show "crc = 0 \<Longrightarrow> run_key (gh_host G) conf = Inl m \<Longrightarrow>
      refused d (run_opened E G closing i c d) \<and> we_message (run_opened E G closing i c d) = m"
  proof -
    assume ok: "crc = 0" and key: "run_key (gh_host G) conf = Inl m"
    have c: "cf_valid c" "conf_api_key conf = gui_file_key c" using agree ok by (auto simp: conf_agrees_def)
    have "rc = ACTA_KEY_UNSET_ERR" "m = or_empty m'"
      using key by (auto simp: run_key_def c(2) st Let_def split: if_splits)
    then show ?thesis using c(1) st by (simp add: run_opened_def refused_def Let_def)
  qed
  assume ok: "crc = 0" and key: "run_key (gh_host G) conf = Inr (key, ws)"
    and run: "run_execution E i (acta_conf_resolve_timeout (Some conf) 0) (acta_conf_resolve_max_chars (Some conf))
        key (start_state d []) = (code, s)"
  have c: "cf_valid c" "conf_agrees conf c" using agree ok by auto
  have key_of: "conf_api_key conf = gui_file_key c" using c(2) by (simp add: conf_agrees_def)
  have settings: "gui_timeout c = acta_conf_resolve_timeout (Some conf) 0"
      "gui_max_chars c = acta_conf_resolve_max_chars (Some conf)"
    using c(2) by (auto simp: conf_agrees_def gui_timeout_def gui_max_chars_def acta_conf_resolve_timeout_def
        acta_conf_resolve_max_chars_def)
  have k: "rc \<noteq> ACTA_KEY_UNSET_ERR"
      "key = (if getenv (gh_host G) ''OPENAI_API_KEY'' \<noteq> None then getenv (gh_host G) ''OPENAI_API_KEY''
              else gui_file_key c)"
      "ws = (if rc = ACTA_KEY_EMPTY_WARN then [or_empty m'] else [])
        @ (case acta_conf_api_key_shadow_warning (getenv (gh_host G) ''OPENAI_API_KEY'') (gui_file_key c) of
             (w, t) \<Rightarrow> if w > 0 then [or_empty t] else [])"
    using key by (auto simp: run_key_def key_of st Let_def split: if_splits)
  have run': "run_execution E i (gui_timeout c) (gui_max_chars c)
      (if getenv (gh_host G) ''OPENAI_API_KEY'' \<noteq> None then getenv (gh_host G) ''OPENAI_API_KEY''
       else gui_file_key c) (start_state d []) = (code, s)"
    using run unfolding settings k(2) .
  have says: "run_message rc m' (snd (acta_conf_api_key_shadow_warning (getenv (gh_host G) ''OPENAI_API_KEY'')
      (gui_file_key c))) = spaced ws"
    unfolding k(3) by (rule warnings_text [OF st])
  show "we_code (run_opened E G closing i c d) = code
      \<and> rn_requests (we_state (run_opened E G closing i c d)) = rn_requests s
      \<and> store (rn_db (we_state (run_opened E G closing i c d))) = store (rn_db s)
      \<and> (code = EXIT_OK \<longrightarrow> we_message (run_opened E G closing i c d) = spaced ws)"
    using run_opened_runs [OF st c(1) k(1) run' refl] says by simp
qed

text \<open>Claim C14: A run started from the window is the run the command line tool makes. Where the two
  programs find the same configuration file, the worker refuses exactly when acta_runner run would, with the database untouched and no request sent, but with its connection left open; otherwise
  it runs the execution with the timeout, the size limit and the key that acta_runner resolves, reports its exit code, and on success its message is the tool's warnings, joined.\<close>

theorem worker_runs_as_runner:
  assumes "runInThread E G opening closing nodb i p = w" and "p \<noteq> []"
    and "acta_db_open (Some p) 0 opening = (Some d, err, leaked)"
    and "same_file G (acta_conf_default_path (getenv (gh_host G)))"
    and "read_conf (gh_host G) = (crc, conf, missing, msg)"
  shows "(crc \<noteq> 0 \<longrightarrow> refused d w)
    \<and> (\<forall>m. crc = 0 \<and> run_key (gh_host G) conf = Inl m \<longrightarrow> refused d w \<and> we_message w = m)
    \<and> (\<forall>key ws code s. crc = 0 \<and> run_key (gh_host G) conf = Inr (key, ws)
        \<and> run_execution E i (acta_conf_resolve_timeout (Some conf) 0) (acta_conf_resolve_max_chars (Some conf))
            key (start_state d []) = (code, s)
        \<longrightarrow> we_code w = code \<and> rn_requests (we_state w) = rn_requests s
          \<and> store (rn_db (we_state w)) = store (rn_db s) \<and> (code = EXIT_OK \<longrightarrow> we_message w = spaced ws))"
proof -
  have w: "w = run_opened E G closing i (readActaConfFile G (acta_conf_default_path (getenv (gh_host G)))) d"
    using assms(1-3) by (simp add: runInThread_def)
  show ?thesis unfolding w using run_opened_settings [OF assms(4,5) refl] by blast
qed

text \<open>The sample database, opened again.\<close>

definition sample_opening :: open_env where
  "sample_opening = \<lparr>oe_open = True, oe_handle = True, oe_fk = 0, oe_mode = Some ''wal'',
     oe_tables = Some 9, oe_malloc = True, oe_strdup = True, oe_version = Some 0,
     oe_store = store sample_served, oe_clock = clock sample_served, oe_engine = [],
     oe_engine_msg = engine_msg sample_served\<rparr>"

lemma sample_served_fresh:
  "saved sample_served = None" "engine sample_served = []" "last_error sample_served = None"
  "in_transaction sample_served = False" "path sample_served = ''acta.db''"
  by code_simp+

lemma sample_note: "open_note sample_opening = None"
  by code_simp

lemma sample_opened: "acta_db_open (Some ''acta.db'') 0 sample_opening = (Some sample_served, ACTA_DB_OK, False)"
proof -
  have "\<lparr>store = store sample_served, saved = None, engine = [], clock = clock sample_served,
      engine_msg = engine_msg sample_served, last_error = None, in_transaction = False, path = ''acta.db''\<rparr>
      = sample_served"
    by (rule db_t.equality) (simp_all add: sample_served_fresh)
  then show ?thesis by (simp add: acta_db_open_def sample_note) (simp add: sample_opening_def)
qed

definition sample_gui_host :: gui_host where
  "sample_gui_host = \<lparr>gh_host = sample_host, gh_fromJson = (\<lambda>s. Inl []), gh_read = (\<lambda>p. None),
     gh_home = ''/h''\<rparr>"

lemma sample_same_file: "same_file sample_gui_host p"
  by (simp add: same_file_def sample_gui_host_def sample_host_def)

lemma sample_conf: "read_conf (gh_host sample_gui_host) = (0, zero_conf, True, None)"
  by (simp add: read_conf_def acta_conf_read_def sample_gui_host_def sample_host_def)

lemma sample_key: "run_key (gh_host sample_gui_host) zero_conf = Inr (Some ''k'', [])"
  by (simp add: run_key_def sample_gui_host_def sample_host_def zero_conf_def
      acta_conf_api_key_status_def acta_conf_api_key_shadow_warning_def)

lemma sample_settings:
  "run_execution sample_env 1 (acta_conf_resolve_timeout (Some zero_conf) 0)
     (acta_conf_resolve_max_chars (Some zero_conf)) (Some ''k'') (start_state sample_served []) = sample_run"
  by (simp add: run_execution_def sample_run_def sample_runner_def zero_conf_def
      acta_conf_resolve_timeout_def acta_conf_resolve_max_chars_def)

lemma worker_runs_as_runner_witness:
  "we_code (runInThread sample_env sample_gui_host sample_opening SQLITE_OK sample_empty 1 ''acta.db'') = EXIT_OK"
proof -
  have "we_code (runInThread sample_env sample_gui_host sample_opening SQLITE_OK sample_empty 1 ''acta.db'')
      = fst sample_run"
    using worker_runs_as_runner [OF refl _ sample_opened sample_same_file sample_conf,
        of sample_env SQLITE_OK sample_empty 1] sample_key sample_settings
    by (metis list.distinct(1) prod.collapse)
  then show ?thesis by (simp add: sample_run_ok)
qed

section \<open>The default database\<close>

definition short_homes :: "host \<Rightarrow> bool" where
  "short_homes H \<longleftrightarrow>
     (case getenv H ''XDG_DATA_HOME'' of None \<Rightarrow> True | Some p \<Rightarrow> length p \<le> 4000)
     \<and> (case getenv H ''HOME'' of None \<Rightarrow> True | Some p \<Rightarrow> length p \<le> 4000)"

lemma base_dirs:
  assumes "short_homes (gh_host G)" and "getenv (gh_host G) ''HOME'' = Some (gh_home G)" and "gh_home G \<noteq> []"
  shows "acta_conf_default_path (getenv (gh_host G)) = gui_base_dir G @ ''/ACTA_Gamma.conf''"
    and "acta_db_default_db_path (gh_host G) = gui_base_dir G @ ''/acta.db''"
  using assms by (auto simp: short_homes_def acta_conf_default_path_def conf_appdata_base_def gui_base_dir_def
      acta_db_default_db_path_def appdata_base_def home_data_def snprintf_def split: option.splits list.splits)



section \<open>The connection of the window\<close>

lemma open_once_state:
  "openDatabaseOnce opening w = (ok, w') \<Longrightarrow>
     wn_dbOk w' = ok \<and> (wn_handle w' \<noteq> None \<longleftrightarrow> ok) \<and> wn_panels w' = wn_panels w
     \<and> wn_serial w' = (if ok then wn_serial w + 1 else wn_serial w)
     \<and> (ok \<longrightarrow> map_option fst (wn_handle w') = Some (wn_serial w')) \<and> (\<not> ok \<longrightarrow> wn_handle w' = None)"
  by (auto simp: openDatabaseOnce_def handle_open_def handle_close_def Let_def split: prod.splits option.splits if_splits)

lemma create_state:
  "createDatabase schema resource opening w = (ok, w') \<Longrightarrow>
     wn_dbOk w' = wn_dbOk w \<and> (wn_handle w' \<noteq> None \<longleftrightarrow> ok) \<and> wn_panels w' = wn_panels w
     \<and> wn_serial w \<le> wn_serial w' \<and> (ok \<longrightarrow> map_option fst (wn_handle w') = Some (wn_serial w'))"
  by (auto simp: createDatabase_def handle_open_def handle_close_def split: prod.splits option.splits if_splits)

lemma bootstrap_state:
  "runDatabaseBootstrap schema script w = (quit, w') \<Longrightarrow> script \<noteq> [] \<Longrightarrow>
     (wn_dbOk w' \<longleftrightarrow> wn_handle w' \<noteq> None) \<and> wn_panels w' = wn_panels w \<and> wn_serial w \<le> wn_serial w'
     \<and> (wn_dbOk w' \<longrightarrow> map_option fst (wn_handle w') = Some (wn_serial w') \<and> wn_stored w' = wn_dbPath w')"
proof (induction schema script w arbitrary: quit w' rule: runDatabaseBootstrap.induct)
  case (2 schema "opening" answer rest w)
  obtain ok w1 where o: "openDatabaseOnce opening w = (ok, w1)" by fastforce
  note st = open_once_state [OF o]
  show ?case
  proof (cases ok)
    case True
    then show ?thesis using "2.prems" o st by auto
  next
    case False
    show ?thesis
    proof (cases "rest = []")
      case True
      show ?thesis
        using "2.prems" o st False True
        by (cases answer) (auto simp: Let_def split: prod.splits if_splits dest!: create_state)
    next
      case more: False
      show ?thesis
      proof (cases answer)
        case (CreateHere resource creating)
        let ?v = "w1\<lparr>wn_boxes := wn_boxes w1 @ [wn_lastError w1]\<rparr>"
        let ?w = "?v\<lparr>wn_removed := wn_removed ?v @ [wn_dbPath ?v]\<rparr>"
        obtain made_it w3 where c: "createDatabase schema resource creating ?w = (made_it, w3)" by fastforce
        show ?thesis
        proof (cases made_it)
          case True
          then show ?thesis
            using "2.prems"(1) o st False CreateHere c create_state [OF c] by (auto simp: Let_def)
        next
          case made: False
          then have "runDatabaseBootstrap schema rest w3 = (quit, w')"
            using "2.prems"(1) o False CreateHere c by (simp add: Let_def)
          note ih = "2.IH"(1) [OF o [symmetric] False refl CreateHere c [symmetric] made this more]
          have "wn_serial w \<le> wn_serial w3" "wn_panels w3 = wn_panels w"
            using st False create_state [OF c] by auto
          then show ?thesis using ih by auto
        qed
      next
        case (PickFile picked)
        let ?w = "w1\<lparr>wn_boxes := wn_boxes w1 @ [wn_lastError w1]\<rparr>"
        show ?thesis
        proof (cases "picked = []")
          case True
          then show ?thesis using "2.prems"(1) o st False PickFile by (auto simp: Let_def)
        next
          case named: False
          then have "runDatabaseBootstrap schema rest (?w\<lparr>wn_dbPath := picked\<rparr>) = (quit, w')"
            using "2.prems"(1) o False PickFile by (simp add: Let_def)
          note ih = "2.IH"(2) [OF o [symmetric] False refl PickFile named this more]
          show ?thesis using ih st False by simp
        qed
      qed (use "2.prems"(1) o st False in \<open>auto simp: Let_def\<close>)
    qed
  qed
qed simp

text \<open>Claim C33: The panels' connection. Whatever the opens meet and whatever the user answers, loading
  another database and retrying leave the window marked connected exactly when it has an open
  connection, and the panels enabled exactly then. But when they fail, panels that had a connection
  keep it although it has been closed: they hold the open connection exactly when the action
  succeeded.\<close>

theorem panels_after_reopen:
  assumes "wn_panels w = Some n"
    and "w' = loadDatabase file opening w \<and> file \<noteq> [] \<or> w' = retryDatabase schema script w \<and> script \<noteq> []"
  shows "wn_enabled w' = wn_dbOk w' \<and> (wn_dbOk w' \<longleftrightarrow> wn_handle w' \<noteq> None)
    \<and> (panels_current w' \<longleftrightarrow> wn_dbOk w')"
  using assms(2)
proof
  assume l: "w' = loadDatabase file opening w \<and> file \<noteq> []"
  obtain ok w1 where o: "openDatabaseOnce opening (w\<lparr>wn_dbPath := file\<rparr>) = (ok, w1)" by fastforce
  show ?thesis
    using l o open_once_state [OF o] assms(1)
    by (auto simp: loadDatabase_def syncPanels_def applyDbToPanels_def panels_current_def split: if_splits)
next
  assume r: "w' = retryDatabase schema script w \<and> script \<noteq> []"
  obtain quit w1 where o: "runDatabaseBootstrap schema script w = (quit, w1)" by fastforce
  show ?thesis
    using r o bootstrap_state [OF o] assms(1)
    by (cases "wn_handle w1") (auto simp: retryDatabase_def syncPanels_def applyDbToPanels_def panels_current_def)
qed

definition sample_window :: window where
  "sample_window = \<lparr>wn_handle = Some (1, sample_served), wn_dbOk = True, wn_dbPath = ''acta.db'',
     wn_lastError = [], wn_stored = ''acta.db'', wn_serial = 1, wn_panels = Some 1, wn_enabled = True,
     wn_removed = [], wn_boxes = []\<rparr>"

lemma panels_after_reopen_witness:
  "\<not> panels_current (loadDatabase ''x'' (sample_opening\<lparr>oe_open := False\<rparr>) sample_window)"
proof -
  have "\<not> wn_dbOk (loadDatabase ''x'' (sample_opening\<lparr>oe_open := False\<rparr>) sample_window)"
    by (simp add: loadDatabase_def openDatabaseOnce_def handle_open_def handle_close_def acta_db_open_def
        sample_window_def sample_opening_def syncPanels_def Let_def)
  moreover have "panels_current (loadDatabase ''x'' (sample_opening\<lparr>oe_open := False\<rparr>) sample_window)
      = wn_dbOk (loadDatabase ''x'' (sample_opening\<lparr>oe_open := False\<rparr>) sample_window)"
    by (rule panels_after_reopen [where w = sample_window and n = 1, OF _ disjI1 [OF conjI [OF refl]],
          THEN conjunct2, THEN conjunct2])
      (simp_all add: sample_window_def)
  ultimately show ?thesis by simp
qed

end
