(* ===== verification/Gui_Run_Properties.thy ===== *)
theory Gui_Run_Properties
  imports Gui_Properties Request_Properties
begin

text \<open>
  The Run button of the execution panel: what a click may start, and where one click, the worker and
  the handling of its signal lead together.
\<close>

section \<open>The Run button\<close>

lemma execution_got:
  assumes "on_db (got (acta_db_execution_get i)) u = (Some e, u')" and "exec_ok (store (ui_db u))"
  shows "\<exists>r. row_at (ui_db u) i = Some r \<and> e = row_to_execution r \<and> same_db (ui_db u) (ui_db u')"
proof -
  obtain err where g: "acta_db_execution_get i (ui_db u) = (Some e, err, ui_db u')"
    using assms(1) by (auto simp: on_db_def got_def split: prod.splits)
  then obtain r where r: "r \<in> set (rows (executions (store (ui_db u))))" "ex_id r = i" "e = row_to_execution r"
    using execution_read by blast
  then have "row_at (ui_db u) i = Some r"
    using tbl_get_unique [of ex_id "executions (store (ui_db u))" r] assms(2) by (simp add: row_at_def exec_ok_def)
  then show ?thesis using r(3) execution_get_same [OF g] by blast
qed

lemma set_status_fields [simp]:
  "ep_worker (set_status i t p) = ep_worker p" "ep_running (set_status i t p) = ep_running p"
  "ep_db (set_status i t p) = ep_db p" "ep_dbPath (set_status i t p) = ep_dbPath p"
  "ep_current (set_status i t p) = ep_current p" "ep_poll (set_status i t p) = ep_poll p"
  "findRow i (set_status i t p) = map_option (\<lambda>x. x\<lparr>xi_status := t\<rparr>) (findRow i p)"
proof -
  have "find (\<lambda>x. xi_id x = i) (map (\<lambda>x. if xi_id x = i then x\<lparr>xi_status := t\<rparr> else x) xs)
      = map_option (\<lambda>x. x\<lparr>xi_status := t\<rparr>) (find (\<lambda>x. xi_id x = i) xs)" for xs
    by (induction xs) auto
  then show "findRow i (set_status i t p) = map_option (\<lambda>x. x\<lparr>xi_status := t\<rparr>) (findRow i p)"
    by (simp add: findRow_def set_status_def)
qed (simp_all add: set_status_def)

lemma run_state_fields [simp]:
  "ep_worker (updateRunBtnState p) = ep_worker p" "ep_running (updateRunBtnState p) = ep_running p"
  "ep_db (updateRunBtnState p) = ep_db p" "ep_dbPath (updateRunBtnState p) = ep_dbPath p"
  "ep_current (updateRunBtnState p) = ep_current p" "ep_poll (updateRunBtnState p) = ep_poll p"
  "findRow i (updateRunBtnState p) = findRow i p"
  by (simp_all add: updateRunBtnState_def findRow_def)

lemma refresh_row_fields:
  assumes "refreshRunningRow p u = (p', u')"
  shows "ep_worker p' = ep_worker p \<and> ep_running p' = ep_running p \<and> ep_db p' = ep_db p
    \<and> ep_dbPath p' = ep_dbPath p \<and> ep_current p' = ep_current p \<and> same_db (ui_db u) (ui_db u')"
proof -
  have "same_db (ui_db u) (ui_db v)" if "on_db (got (acta_db_execution_get i)) u = (x, v)" for i x v
    using that by (auto simp: on_db_def split: prod.splits dest!: got_same intro: execution_get_same)
  then show ?thesis
    using assms by (auto simp: refreshRunningRow_def Let_def same_db_def split: if_splits prod.splits option.splits)
qed

lemma start_fields:
  assumes "startRunner i p u = (p', u')"
  shows "ep_worker p' = Some (i, ep_dbPath p) \<and> ep_running p' = i \<and> same_db (ui_db u) (ui_db u')"
  using assms by (auto simp: startRunner_def split: prod.splits dest!: refresh_row_fields)

text \<open>Claim C31: The Run button. While a worker is in flight it only asks for its cancellation. Otherwise,
  whatever the engine does, it either leaves the panel and the data alone or starts one worker, for
  the selected execution and on the panel's file: that execution is then live, and was pending and is
  left alone, or was failed and has been reset by exactly that edit.\<close>

theorem run_button_starts_pending:
  assumes "onRunBtnClicked p u = (p', u')" and "exec_ok (store (ui_db u))"
  shows "if ep_worker p \<noteq> None then p' = p\<lparr>ep_cancelled := True\<rparr> \<and> u' = u
    else p' = p \<and> store (ui_db u') = store (ui_db u)
      \<or> (\<exists>r. row_at (ui_db u) (currentId p) = Some r \<and> ex_deleted_at r = None
          \<and> ep_worker p' = Some (currentId p, ep_dbPath p) \<and> ep_running p' = currentId p
          \<and> (ex_status r = ''pending'' \<and> store (ui_db u') = store (ui_db u)
             \<or> applied (currentId p) SetPending (\<lambda>r. ex_status r = ''failed'') (ui_db u) (ui_db u')))"
proof (cases "ep_worker p = None \<and> ep_db p \<and> currentId p \<noteq> 0")
  case False
  then show ?thesis using assms(1) by (auto simp: onRunBtnClicked_def split: if_splits)
next
  case True
  define i where "i = currentId p"
  have i0: "i \<noteq> 0" using True by (simp add: i_def)
  obtain x u1 where get: "on_db (got (acta_db_execution_get i)) u = (x, u1)" by fastforce
  note click = assms(1) [unfolded onRunBtnClicked_def Let_def, folded i_def, unfolded get]
  show ?thesis
  proof (cases x)
    case None
    moreover have "same_db (ui_db u) (ui_db u1)"
      using get by (auto simp: on_db_def split: prod.splits dest!: got_same intro: execution_get_same)
    ultimately show ?thesis using click True by (simp add: i_def [symmetric] same_db_def)
  next
    case (Some e)
    then obtain r where r: "row_at (ui_db u) i = Some r" "e = row_to_execution r" "same_db (ui_db u) (ui_db u1)"
      using execution_got get assms(2) by blast
    have e: "e_deleted_at e = ex_deleted_at r" "shown_text (e_status e) = ex_status r"
      by (simp_all add: r(2) row_to_execution_def shown_text_def)
    have st: "store (ui_db u1) = store (ui_db u)" using r(3) by (simp add: same_db_def)
    obtain rc u2 where reset: "on_db (acta_db_execution_reset i) u1 = (rc, u2)" by fastforce
    have edit: "exec_effect i (\<lambda>r. ex_status r = ''failed'') SetPending (store (ui_db u)) rc (store (ui_db u2))"
      using reset reset_effect [of i "ui_db u1" rc "ui_db u2"] st by (auto simp: on_db_def split: prod.splits)
    show ?thesis
    proof (cases "ex_deleted_at r \<noteq> None \<or> ex_status r \<noteq> ''pending'' \<and> ex_status r \<noteq> ''failed''")
      case True
      then show ?thesis using click Some e st \<open>ep_worker p = None \<and> _\<close> by (auto simp: i_def)
    next
      case ready: False
      show ?thesis
      proof (cases "ex_status r = ''failed'' \<and> rc \<noteq> ACTA_DB_OK")
        case True
        then show ?thesis
          using click Some e ready reset edit \<open>ep_worker p = None \<and> _\<close> by (auto simp: i_def exec_effect_def)
      next
        case False
        then obtain q v where start: "startRunner i q v = (p', u')" and q: "ep_dbPath q = ep_dbPath p"
          and v: "ex_status r = ''failed'' \<and> rc = ACTA_DB_OK \<and> v = u2 \<or> ex_status r = ''pending'' \<and> v = u1"
          using click Some e ready reset True i0 by (auto split: if_splits)
        note f = start_fields [OF start]
        have s: "store (ui_db u') = store (ui_db v)" using f by (simp add: same_db_def)
        have "ex_status r = ''pending'' \<and> store (ui_db u') = store (ui_db u)
             \<or> applied i SetPending (\<lambda>r. ex_status r = ''failed'') (ui_db u) (ui_db u')"
          using v s st edit effect_applied [of i "\<lambda>r. ex_status r = ''failed''" SetPending "ui_db u" "ui_db u'"] by auto
        then show ?thesis using f q r(1) ready True by (simp add: i_def [symmetric])
      qed
    qed
  qed
qed

definition sample_clicked :: "exec_panel \<times> ui" where
  "sample_clicked = onRunBtnClicked sample_panel sample_ui"

lemma run_button_starts_pending_witness:
  "ep_worker (fst sample_clicked) = Some (1, ''acta.db'')
   \<and> (\<exists>r. row_at sample_served 1 = Some r \<and> ex_deleted_at r = None)"
proof -
  have "ep_running (fst sample_clicked) = 1" by code_simp
  then have "fst sample_clicked \<noteq> sample_panel" by (auto simp: sample_panel_def)
  moreover have "ep_worker sample_panel = None" "currentId sample_panel = 1" "ep_dbPath sample_panel = ''acta.db''"
    by code_simp+
  moreover have "exec_ok (store (ui_db sample_ui))"
    using sample_served_ok by (simp add: sample_ui_def db_ok_def)
  ultimately show ?thesis
    using run_button_starts_pending [where p = sample_panel and u = sample_ui, OF prod.collapse [symmetric]]
    by (simp add: sample_clicked_def sample_ui_def) blast
qed

section \<open>One click\<close>

lemma got_healthy:
  assumes "healthy (ui_db u)" and "exec_ok (store (ui_db u))" and "row_at (ui_db u) i = Some r"
  shows "on_db (got (acta_db_execution_get i)) u = (Some (row_to_execution r), u)"
proof -
  have "0 < i" using assms(2,3) by (auto simp: exec_ok_def tbl_ok_def row_at_def dest!: tbl_get_SomeD)
  then show ?thesis
    using exec_get_healthy [OF assms(1), of i] assms(3) by (simp add: on_db_def got_def row_at_def)
qed

definition row_text :: "string \<Rightarrow> string" where
  "row_text status = (if status = ''running'' then status @ ellipsis else status)"

lemma refresh_healthy:
  assumes "healthy (ui_db u)" and "exec_ok (store (ui_db u))" and "row_at (ui_db u) (ep_running p) = Some r"
    and "ep_db p" and "findRow (ep_running p) p \<noteq> None"
  shows "refreshRunningRow p u = (updateRunBtnState (set_status (ep_running p) (row_text (ex_status r)) p), u)"
proof -
  have "ep_running p \<noteq> 0" using assms(2,3) by (auto simp: exec_ok_def tbl_ok_def row_at_def dest!: tbl_get_SomeD)
  then show ?thesis
    using got_healthy [OF assms(1-3)] assms(4,5)
    by (auto simp: refreshRunningRow_def row_text_def row_to_execution_def shown_text_def Let_def)
qed

lemma log_list_ui:
  "on_db (listed (acta_db_execution_log_list_by_execution i lv off mx)) u = (x, u') \<Longrightarrow>
     same_db (ui_db u) (ui_db u') \<and> ui_boxes u' = ui_boxes u"
  by (auto simp: on_db_def listed_def split: prod.splits dest: log_list_same)

lemma show_logs_fields:
  assumes "showExecutionLogs Q x p u = (p', u')"
  shows "ep_worker p' = ep_worker p \<and> ep_running p' = ep_running p \<and> ep_list p' = ep_list p
    \<and> same_db (ui_db u) (ui_db u') \<and> ui_boxes u' = ui_boxes u"
  using assms by (auto simp: showExecutionLogs_def Let_def split: if_splits prod.splits dest!: log_list_ui)

lemma refresh_logs_fields:
  assumes "refreshRunningLogs Q p u = (p', u')"
  shows "ep_worker p' = ep_worker p \<and> ep_running p' = ep_running p \<and> ep_list p' = ep_list p
    \<and> same_db (ui_db u) (ui_db u') \<and> ui_boxes u' = ui_boxes u"
  using assms by (auto simp: refreshRunningLogs_def Let_def split: if_splits prod.splits
      dest!: show_logs_fields)

lemma findRow_id: "findRow i p = Some x \<Longrightarrow> xi_id x = i"
  by (auto simp: findRow_def find_Some_iff)

lemma findRow_list: "ep_list q = ep_list p \<Longrightarrow> findRow i q = findRow i p"
  by (simp add: findRow_def)

lemma current_row: "currentId p = i \<Longrightarrow> i \<noteq> 0 \<Longrightarrow> findRow i p \<noteq> None"
  by (auto simp: currentId_def currentRow_def bind_eq_Some_conv dest: findRow_id split: option.splits)

text \<open>The click on a live execution that is pending or failed: the worker starts on a pending row.\<close>

lemma click_starts:
  assumes click: "onRunBtnClicked p u = (p1, u1)" and idle: "ep_worker p = None" and db: "ep_db p"
    and i: "currentId p = i" and row: "row_at (ui_db u) i = Some r" "ex_deleted_at r = None"
      "ex_status r = ''pending'' \<or> ex_status r = ''failed''"
    and calm: "healthy (ui_db u)" "exec_ok (store (ui_db u))"
  shows "ep_worker p1 = Some (i, ep_dbPath p) \<and> ep_running p1 = i \<and> ep_db p1 \<and> ep_dbPath p1 = ep_dbPath p
    \<and> findRow i p1 \<noteq> None \<and> healthy (ui_db u1) \<and> exec_ok (store (ui_db u1)) \<and> ui_boxes u1 = ui_boxes u
    \<and> (\<exists>r1. row_at (ui_db u1) i = Some r1 \<and> ex_status r1 = ''pending'' \<and> ex_deleted_at r1 = None)"
proof -
  have pos: "i \<noteq> 0" using calm(2) row(1) by (auto simp: exec_ok_def tbl_ok_def row_at_def dest!: tbl_get_SomeD)
  have found: "findRow i p \<noteq> None" by (rule current_row [OF i pos])
  have e: "e_deleted_at (row_to_execution r) = None" "shown_text (e_status (row_to_execution r)) = ex_status r"
    using row(2) by (simp_all add: row_to_execution_def shown_text_def)
  have started: "p1 = updateRunBtnState (updateRunBtnState (set_status i ''pending''
        (q\<lparr>ep_running := i, ep_worker := Some (i, ep_dbPath q), ep_poll := True, ep_cancelled := False\<rparr>))) \<and> u1 = v"
    if start: "startRunner i q v = (p1, u1)" and v: "healthy (ui_db v)" "exec_ok (store (ui_db v))"
      and r1: "row_at (ui_db v) i = Some r1" "ex_status r1 = ''pending''" and q: "ep_db q" "findRow i q \<noteq> None"
    for q v r1
  proof -
    let ?q = "q\<lparr>ep_running := i, ep_worker := Some (i, ep_dbPath q), ep_poll := True, ep_cancelled := False\<rparr>"
    have "findRow i ?q \<noteq> None" using q(2) findRow_list [of ?q q] by simp
    then have "refreshRunningRow ?q v = (updateRunBtnState (set_status i ''pending'' ?q), v)"
      using refresh_healthy [of v ?q r1] v r1 q(1) by (simp add: row_text_def)
    then show ?thesis using start by (simp add: startRunner_def)
  qed
  obtain rc u2 where reset: "on_db (acta_db_execution_reset i) u = (rc, u2)" by fastforce
  show ?thesis
  proof (cases "ex_status r = ''pending''")
    case True
    then have "startRunner i p u = (p1, u1)"
      using click idle db i pos got_healthy [OF calm row(1)] e by (simp add: onRunBtnClicked_def)
    from started [OF this calm row(1) True db found] show ?thesis
      using True row calm db found
      by (simp add: findRow_list [of "p\<lparr>ep_running := i, ep_worker := Some (i, ep_dbPath p), ep_poll := True,
            ep_cancelled := False\<rparr>" p])
  next
    case False
    then have failed: "ex_status r = ''failed''" using row(3) by blast
    have d: "acta_db_execution_reset i (ui_db u) = (rc, ui_db u2)" "ui_boxes u2 = ui_boxes u"
      using reset by (auto simp: on_db_def split: prod.splits)
    have rc: "rc = ACTA_DB_OK"
      using reset_code [OF calm, of i] d(1) row failed by (simp add: exec_code_def live_row_def)
    have h: "healthy (ui_db u2)"
    proof -
      have "healthy (snd (acta_db_execution_reset i (ui_db u)))"
        using calm(1) by (cases "acta_db_execution_reset i (ui_db u)")
          (auto simp: acta_db_execution_reset_def exec_update_def sql_read_healthy
            split: prod.splits if_splits read_result.splits list.splits dest!: finish_health)
      then show ?thesis by (simp add: d)
    qed
    have ok: "exec_ok (store (ui_db u2))" by (rule outcome_exec_ok [OF exec_call_outcome [OF c_reset [OF d(1)]] calm(2)])
    have r2: "row_at (ui_db u2) i = Some (exec_apply SetPending r)"
      using reset_effect [OF d(1)] rc row(1) by (auto simp: exec_effect_def row_at_def exec_rows.get_upd_id)
    have "startRunner i (set_status i ''pending'' p) u2 = (p1, u1)"
      using click idle db i pos got_healthy [OF calm row(1)] e failed reset rc
      by (simp add: onRunBtnClicked_def)
    from started [OF this h ok r2] show ?thesis
      using r2 row(2) h ok db found d(2)
      by (simp add: findRow_list [of "q\<lparr>ep_running := i, ep_worker := Some (i, ep_dbPath p), ep_poll := True,
            ep_cancelled := False\<rparr>" q for q])
  qed
qed

lemma list_kept [simp]:
  "ep_list (updateRunBtnState p) = ep_list p" "ep_list (updateActionBtnStates p) = ep_list p"
  "ep_list (stopRunner p) = ep_list p"
  by (simp_all add: updateRunBtnState_def updateActionBtnStates_def stopRunner_def Let_def)

text \<open>The end of the worker: the row shows the status it finds, and nothing is in flight.\<close>

lemma finish_shows:
  assumes fin: "onWorkerFinished Q code msg p u = (p', u')"
    and p: "ep_worker p = Some (i, ep_dbPath p)" "ep_running p = i" "ep_db p" "findRow i p \<noteq> None"
    and row: "row_at (ui_db u) i = Some r" "ex_status r \<noteq> ''running''"
    and calm: "healthy (ui_db u)" "exec_ok (store (ui_db u))"
  shows "ep_worker p' = None \<and> \<not> ep_poll p' \<and> map_option xi_status (findRow i p') = Some (ex_status r)
    \<and> store (ui_db u') = store (ui_db u)
    \<and> length (ui_boxes u') = length (ui_boxes u) + (if code \<in> {EXIT_OK, EXIT_CANCELED} then 0 else 1)"
proof -
  define p1 where "p1 = updateRunBtnState (set_status i (ex_status r) p)"
  have r1: "refreshRunningRow p u = (p1, u)"
    using refresh_healthy [OF calm, of p r] row p by (simp add: row_text_def p1_def)
  obtain p2 u2 where l: "refreshRunningLogs Q p1 u = (p2, u2)" by fastforce
  have end': "p' = updateRunBtnState (updateActionBtnStates (stopRunner p2))"
      "u' = (if code \<noteq> 0 \<and> code \<noteq> EXIT_CANCELED
        then message_box ''Execution failed''
          (if msg = [] then ''The runner exited with code '' @ show_int code else msg) u2 else u2)"
    using fin p(1) by (simp_all add: onWorkerFinished_def r1 l)
  note f = refresh_logs_fields [OF l]
  have st: "findRow i p' = findRow i p1"
    using f findRow_list [of p' p1] by (simp add: end'(1))
  have "map_option xi_status (findRow i p1) = Some (ex_status r)" using p(4) by (auto simp: p1_def)
  then show ?thesis
    using f st by (auto simp: end' message_box_def same_db_def stopRunner_def updateActionBtnStates_def
        updateRunBtnState_def Let_def)
qed

lemma db_exec_ok: "db_ok st \<Longrightarrow> exec_ok st"
  by (simp add: db_ok_def)

lemma undisturbed_lawful: "undisturbed E \<Longrightarrow> lawful E"
  by (simp add: undisturbed_def lawful_def)

text \<open>The panel's connection while another one has worked on the file.\<close>

definition file_changed :: "store \<Rightarrow> ui \<Rightarrow> ui" where
  "file_changed st u = u\<lparr>ui_db := (ui_db u)\<lparr>store := st\<rparr>\<rparr>"

text \<open>Claim C12: One click. On a live execution that is pending or failed, with a usable configuration, no
  engine faults and no other process, the click starts the worker, the worker ends, and when its
  signal has been handled the execution is completed, cancelled or failed as the exit code says, the
  list shows exactly that status, nothing is in flight any more, and a message box has appeared if and
  only if the run failed.\<close>

theorem run_click_settles:
  assumes "onRunBtnClicked p u = (p1, u1)" and "ep_worker p = None" and "ep_db p" and "currentId p = i"
    and "row_at (ui_db u) i = Some r" and "ex_deleted_at r = None"
    and "ex_status r = ''pending'' \<or> ex_status r = ''failed''"
    and "healthy (ui_db u)" and "db_ok (store (ui_db u))" and "undisturbed E"
    and "ep_dbPath p \<noteq> []" and "acta_db_open (Some (ep_dbPath p)) 0 opening = (Some d, err, leaked)"
    and "healthy d" and "store d = store (ui_db u1)"
    and "cf_valid (readActaConfFile G (acta_conf_default_path (getenv (gh_host G))))"
    and "getenv (gh_host G) ''OPENAI_API_KEY'' \<noteq> None"
    and "runInThread E G opening closing nodb i (ep_dbPath p) = w"
    and "onWorkerFinished Q (we_code w) (we_message w) p1 (file_changed (store (rn_db (we_state w))) u1) = (p2, u2)"
  shows "we_code w \<in> insert EXIT_OK run_codes
    \<and> (\<exists>r'. row_at (ui_db u2) i = Some r'
        \<and> ex_status r' = (if we_code w = EXIT_OK then ''completed''
                          else if we_code w = EXIT_CANCELED then ''cancelled'' else ''failed'')
        \<and> map_option xi_status (findRow i p2) = Some (ex_status r'))
    \<and> ep_worker p2 = None \<and> \<not> ep_poll p2
    \<and> length (ui_boxes u2) = length (ui_boxes u) + (if we_code w \<in> {EXIT_OK, EXIT_CANCELED} then 0 else 1)"
proof -
  note start = click_starts [OF assms(1-8) db_exec_ok [OF assms(9)]]
  then obtain r1 where r1: "row_at d i = Some r1" "ex_status r1 = ''pending''" "ex_deleted_at r1 = None"
    using assms(14) by (auto simp: row_at_def)
  define c where "c = readActaConfFile G (acta_conf_default_path (getenv (gh_host G)))"
  have w: "w = run_opened E G closing i c d"
    using assms(11,12,17) by (simp add: runInThread_def c_def)
  obtain rc m where st: "acta_conf_api_key_status (getenv (gh_host G) ''OPENAI_API_KEY'') (gui_file_key c) = (rc, m)"
    by fastforce
  have rc: "rc \<noteq> ACTA_KEY_UNSET_ERR"
    using st assms(16) by (auto simp: acta_conf_api_key_status_def Let_def split: if_splits)
  obtain code s where run: "run_execution E i (gui_timeout c) (gui_max_chars c)
      (if getenv (gh_host G) ''OPENAI_API_KEY'' \<noteq> None then getenv (gh_host G) ''OPENAI_API_KEY''
       else gui_file_key c) (start_state d []) = (code, s)"
    by fastforce
  note worker = run_opened_runs [OF st assms(15) [folded c_def] rc run w]
  have dok: "db_ok (store d)"
    using run_db_ok [OF run_click_run [OF assms(1), unfolded ui_run_def] assms(9)] assms(14) by simp
  note ok = db_exec_ok [OF dok]
  have ends: "code \<in> insert EXIT_OK run_codes \<and> ends i code s"
    using run_ends [OF run [unfolded run_execution_def] assms(10)] assms(13) ok r1 by (simp add: start_state_def)
  then obtain r' where r': "row_at (rn_db s) i = Some r'"
      "ex_status r' = (if code = EXIT_OK then ''completed'' else if code = EXIT_CANCELED then ''cancelled'' else ''failed'')"
    by (auto simp: ends_def split: if_splits)
  let ?u = "file_changed (store (rn_db s)) u1"
  have fin: "onWorkerFinished Q code (we_message w) p1 ?u = (p2, u2)"
    using assms(18) worker by simp
  have "row_at (ui_db ?u) i = Some r'" "healthy (ui_db ?u)" "ui_boxes ?u = ui_boxes u"
    using r'(1) start by (simp_all add: file_changed_def row_at_def healthy_def)
  moreover have "exec_ok (store (ui_db ?u))"
  proof -
    have "db_step\<^sup>*\<^sup>* (store d) (store (rn_db s))"
      using steps.run_execution_dialect [OF run [unfolded run_execution_def]] undisturbed_lawful [OF assms(10)]
      by (simp add: by_steps_def start_state_def)
    from db_exec_ok [OF steps_ok [OF this dok]]
    show ?thesis by (simp add: file_changed_def)
  qed
  moreover have "ex_status r' \<noteq> ''running''" using r'(2) by (auto split: if_splits)
  ultimately show ?thesis
    using finish_shows [OF fin, of i r'] start ends r' worker by (auto simp: row_at_def)
qed

definition sample_worker :: worker_end where
  "sample_worker = runInThread sample_env sample_gui_host sample_opening SQLITE_OK sample_empty 1 ''acta.db''"

lemma sample_gui_conf: "readActaConfFile sample_gui_host p = new_conf_file\<lparr>cf_missing := True\<rparr>"
  by (simp add: readActaConfFile_def sample_gui_host_def sample_host_def)

lemma sample_worker_code: "we_code sample_worker = EXIT_OK"
proof -
  let ?c = "new_conf_file\<lparr>cf_missing := True\<rparr>"
  have "run_execution sample_env 1 (gui_timeout ?c) (gui_max_chars ?c)
      (if getenv (gh_host sample_gui_host) ''OPENAI_API_KEY'' \<noteq> None
       then getenv (gh_host sample_gui_host) ''OPENAI_API_KEY'' else gui_file_key ?c)
      (start_state sample_served []) = (EXIT_OK, snd sample_run)"
    using sample_run_ok
    by (simp add: sample_run_def run_execution_def sample_runner_def gui_timeout_def gui_max_chars_def
        new_conf_file_def sample_gui_host_def sample_host_def) (metis prod.collapse)
  moreover have "acta_conf_api_key_status (getenv (gh_host sample_gui_host) ''OPENAI_API_KEY'') (gui_file_key ?c)
      = (ACTA_KEY_OK, None)"
    by (simp add: acta_conf_api_key_status_def sample_gui_host_def sample_host_def)
  moreover have "cf_valid ?c" by (simp add: new_conf_file_def)
  ultimately have "we_code (run_opened sample_env sample_gui_host SQLITE_OK 1 ?c sample_served) = EXIT_OK"
    using run_opened_runs by (metis zero_neq_numeral)
  then show ?thesis by (simp add: sample_worker_def runInThread_def sample_opened sample_gui_conf)
qed

lemma run_click_settles_witness:
  "map_option xi_status (findRow 1 (fst (onWorkerFinished sample_qt (we_code sample_worker) (we_message sample_worker)
     (fst sample_clicked) (file_changed (store (rn_db (we_state sample_worker))) (snd sample_clicked)))))
   = Some ''completed''"
proof -
  let ?r = "the (row_at sample_served 1)"
  have r: "row_at sample_served 1 = Some ?r" "ex_deleted_at ?r = None" "ex_status ?r = ''pending''"
    by code_simp+
  have st: "store (ui_db (snd sample_clicked)) = store sample_served" by code_simp
  have h: "healthy sample_served" by code_simp
  have p: "ep_worker sample_panel = None" "ep_db sample_panel" "currentId sample_panel = 1"
      "ep_dbPath sample_panel = ''acta.db''"
    by code_simp+
  let ?e = "onWorkerFinished sample_qt (we_code sample_worker) (we_message sample_worker)
     (fst sample_clicked) (file_changed (store (rn_db (we_state sample_worker))) (snd sample_clicked))"
  have "\<exists>r'. row_at (ui_db (snd ?e)) 1 = Some r'
      \<and> ex_status r' = (if we_code sample_worker = EXIT_OK then ''completed''
                          else if we_code sample_worker = EXIT_CANCELED then ''cancelled'' else ''failed'')
      \<and> map_option xi_status (findRow 1 (fst ?e)) = Some (ex_status r')"
  proof (rule run_click_settles [THEN conjunct2, THEN conjunct1])
    show "onRunBtnClicked sample_panel sample_ui = (fst sample_clicked, snd sample_clicked)"
      by (simp add: sample_clicked_def)
    show "row_at (ui_db sample_ui) 1 = Some ?r" "healthy (ui_db sample_ui)" "db_ok (store (ui_db sample_ui))"
      using r(1) h sample_served_ok by (simp_all add: sample_ui_def)
    show "ex_status ?r = ''pending'' \<or> ex_status ?r = ''failed''" using r(3) by simp
    show "undisturbed sample_env" by (simp add: undisturbed_def sample_env_def)
    show "ep_dbPath sample_panel \<noteq> []" by (simp add: p(4))
    show "acta_db_open (Some (ep_dbPath sample_panel)) 0 sample_opening = (Some sample_served, ACTA_DB_OK, False)"
      unfolding p(4) by (rule sample_opened)
    show "store sample_served = store (ui_db (snd sample_clicked))" by (simp add: st)
    show "cf_valid (readActaConfFile sample_gui_host (acta_conf_default_path (getenv (gh_host sample_gui_host))))"
      by (simp add: sample_gui_conf new_conf_file_def)
    show "getenv (gh_host sample_gui_host) ''OPENAI_API_KEY'' \<noteq> None"
      by (simp add: sample_gui_host_def sample_host_def)
    show "runInThread sample_env sample_gui_host sample_opening SQLITE_OK sample_empty 1 (ep_dbPath sample_panel)
        = sample_worker"
      by (simp add: sample_worker_def p(4))
    show "?e = (fst ?e, snd ?e)" by simp
  qed (rule p(1) p(2) p(3) r(2) h)+
  then show ?thesis by (auto simp: sample_worker_code)
qed

end
