(* ===== verification/Gui_Tree_Properties.thy ===== *)
theory Gui_Tree_Properties
  imports Gui_Tree
begin

text \<open>
  Where the folder panel puts what it lists. \<open>placed\<close> reads a tree back as rows with the folder they
  stand under (0 at the top level); \<open>shown\<close> are the folders reachable from the top.
\<close>

fun placed :: "int \<Rightarrow> item \<Rightarrow> (int \<times> row_data) list" where
  "placed p (Item r kids) = (p, r) # concat (map (placed (it_folder r)) kids)"

definition placed_tree :: "int \<Rightarrow> item list \<Rightarrow> (int \<times> row_data) list" where
  "placed_tree p ts = concat (map (placed p) ts)"

lemma placed_tree_simps [simp]:
  "placed_tree p [] = []"
  "placed_tree p (t # ts) = placed p t @ placed_tree p ts"
  "placed_tree p (ts @ us) = placed_tree p ts @ placed_tree p us"
  by (simp_all add: placed_tree_def)

lemma placed_Item: "placed p (Item r kids) = (p, r) # placed_tree (it_folder r) kids"
  by (simp add: placed_tree_def)

inductive shown :: "FolderRow list \<Rightarrow> int \<Rightarrow> bool" for F where
  sh_top: "i \<in> set (tree_roots F) \<Longrightarrow> shown F i"
| sh_kid: "shown F p \<Longrightarrow> i \<in> set (kids_of F p) \<Longrightarrow> shown F i"

definition tree_parent :: "FolderRow list \<Rightarrow> FolderRow \<Rightarrow> int" where
  "tree_parent F f = (if fr_parent_id f \<in> folder_ids F then fr_parent_id f else 0)"

section \<open>The folders\<close>

definition ids_in :: "item list \<Rightarrow> int list" where
  "ids_in ts = map (\<lambda>pr. it_folder (snd pr)) (placed_tree 0 ts)"

lemma placed_rows: "map snd (placed p t) = preorder t"
  by (induction t arbitrary: p) (simp add: map_concat o_def cong: map_cong)

lemma placed_tree_rows: "map snd (placed_tree p ts) = tree_rows ts"
  by (simp add: placed_tree_def tree_rows_def map_concat o_def placed_rows)

lemma ids_in_rows: "ids_in ts = map it_folder (tree_rows ts)"
  by (simp add: ids_in_def placed_tree_rows [of 0, symmetric])

lemma ids_in_simps [simp]:
  "ids_in [] = []" "ids_in (Item r kids # ts) = it_folder r # ids_in kids @ ids_in ts"
  by (simp_all add: ids_in_rows tree_rows_def)

lemma item_folder [simp]: "it_folder (folder_item F i) = i"
  by (simp add: folder_item_def)

lemma addFolders_skip: "i \<in> set seen \<Longrightarrow> addFolders F seen (i # ids) = addFolders F seen ids"
  by (simp add: addFolders.simps(2))

text \<open>The search: what it adds is new, no id twice, and with an id come all its children.\<close>

lemma search_ids:
  "addFolders F seen ids = (ts, seen') \<Longrightarrow>
     set seen' = set seen \<union> set (ids_in ts) \<and> distinct (ids_in ts) \<and> set (ids_in ts) \<inter> set seen = {}
     \<and> set ids \<subseteq> set seen' \<and> (\<forall>i\<in>set (ids_in ts). set (kids_of F i) \<subseteq> set seen')"
proof (induction F seen ids arbitrary: ts seen' rule: addFolders.induct)
  case (2 F seen i ids)
  show ?case
  proof (cases "i \<in> set seen")
    case True
    note c = "2.IH"(1) [OF True "2.prems" [unfolded addFolders_skip [OF True]]]
    have "i \<in> set seen'" using c True by simp
    moreover have "set ids \<subseteq> set seen'" using c by blast
    ultimately have "set (i # ids) \<subseteq> set seen'" by simp
    with c show ?thesis by blast
  next
    case False
    obtain kids seen1 where k: "addFolders F (i # seen) (kids_of F i) = (kids, seen1)" by fastforce
    obtain rest seen2 where r: "addFolders F seen1 ids = (rest, seen2)" by fastforce
    have t: "ts = Item (folder_item F i) kids # rest" "seen' = seen2"
      using "2.prems" False by (simp_all add: addFolders.simps k r)
    note a = "2.IH"(2) [OF False k] and b = "2.IH"(3) [OF False k [symmetric] r]
    have s2: "set seen2 = insert i (set seen \<union> set (ids_in kids) \<union> set (ids_in rest))"
      using a b by auto
    have "distinct (i # ids_in kids @ ids_in rest)" using a b by auto
    moreover have "set (i # ids_in kids @ ids_in rest) \<inter> set seen = {}" using a b False by auto
    moreover have "set (i # ids) \<subseteq> set seen2" using b s2 by auto
    moreover have "set (kids_of F j) \<subseteq> set seen2" if "j \<in> set (i # ids_in kids @ ids_in rest)" for j
    proof -
      have grows: "set seen1 \<subseteq> set seen2" using b by auto
      consider "j = i" | "j \<in> set (ids_in kids)" | "j \<in> set (ids_in rest)" using \<open>j \<in> _\<close> by auto
      then show ?thesis by cases (use a b grows in blast)+
    qed
    ultimately show ?thesis unfolding t ids_in_simps item_folder using s2 by (simp add: Un_assoc)
  qed
qed (simp add: addFolders.simps)

text \<open>Where a row stands: with the ids asked for, or below the folder it is a child of.\<close>

lemma search_places:
  "addFolders F seen ids = (ts, seen') \<Longrightarrow> (p, r) \<in> set (placed_tree q ts) \<Longrightarrow>
     \<exists>i. r = folder_item F i \<and> i \<notin> set seen
       \<and> (p = q \<and> i \<in> set ids \<or> i \<in> set (kids_of F p) \<and> p \<in> set (ids_in ts))"
proof (induction F seen ids arbitrary: ts seen' q rule: addFolders.induct)
  case (2 F seen i ids)
  show ?case
  proof (cases "i \<in> set seen")
    case True
    show ?thesis
      using "2.IH"(1) [OF True "2.prems"(1) [unfolded addFolders_skip [OF True]] "2.prems"(2)] by auto
  next
    case False
    obtain kids seen1 where k: "addFolders F (i # seen) (kids_of F i) = (kids, seen1)" by fastforce
    obtain rest seen2 where s: "addFolders F seen1 ids = (rest, seen2)" by fastforce
    have t: "ts = Item (folder_item F i) kids # rest"
      using "2.prems" False by (simp add: addFolders.simps k s)
    have "set seen \<subseteq> set seen1" using search_ids [OF k] by auto
    then show ?thesis
      using "2.prems"(2) "2.IH"(2) [OF False k, of i] "2.IH"(3) [OF False k [symmetric] s, of q] False
      unfolding t by (fastforce simp: placed_Item simp del: placed.simps)
  qed
qed (simp add: addFolders.simps)

text \<open>Only what is reachable from the ids asked for is added.\<close>

lemma search_shown:
  "addFolders F seen ids = (ts, seen') \<Longrightarrow> (\<And>i. i \<in> set ids \<Longrightarrow> shown F i) \<Longrightarrow> i \<in> set (ids_in ts) \<Longrightarrow>
     shown F i"
proof (induction F seen ids arbitrary: ts seen' i rule: addFolders.induct)
  case (2 F seen j ids)
  show ?case
  proof (cases "j \<in> set seen")
    case True
    show ?thesis
      using "2.IH"(1) [OF True "2.prems"(1) [unfolded addFolders_skip [OF True]] _ "2.prems"(3)] "2.prems"(2) by simp
  next
    case False
    obtain kids seen1 where k: "addFolders F (j # seen) (kids_of F j) = (kids, seen1)" by fastforce
    obtain rest seen2 where s: "addFolders F seen1 ids = (rest, seen2)" by fastforce
    have t: "ts = Item (folder_item F j) kids # rest"
      using "2.prems"(1) False by (simp add: addFolders.simps k s)
    have j: "shown F j" using "2.prems"(2) by simp
    consider "i = j" | "i \<in> set (ids_in kids)" | "i \<in> set (ids_in rest)"
      using "2.prems"(3) unfolding t by auto
    then show ?thesis
    proof cases
      case 2
      then show ?thesis using "2.IH"(2) [OF False k] j by (blast intro: sh_kid)
    next
      case 3
      then show ?thesis using "2.IH"(3) [OF False k [symmetric] s] "2.prems"(2) by simp
    qed (simp add: j)
  qed
qed (simp add: addFolders.simps)

section \<open>The whole tree\<close>

text \<open>From the top: exactly the reachable folders, each once.\<close>

lemma top_ids:
  assumes "addFolders F [] (tree_roots F) = (ts, seen)"
  shows "distinct (ids_in ts) \<and> (\<forall>i. i \<in> set (ids_in ts) \<longleftrightarrow> shown F i)"
proof -
  note found = search_ids [OF assms]
  have d: "distinct (ids_in ts)" using found by blast
  have same: "set seen = set (ids_in ts)" using found by simp
  have top: "set (tree_roots F) \<subseteq> set seen" using found by blast
  have kids: "\<forall>i\<in>set (ids_in ts). set (kids_of F i) \<subseteq> set seen" using found by blast
  have "i \<in> set (ids_in ts)" if "shown F i" for i
    using that
  proof induction
    case (sh_top i)
    then show ?case using top same by blast
  next
    case (sh_kid p i)
    then show ?case using kids same by blast
  qed
  moreover have "shown F i" if "i \<in> set (ids_in ts)" for i
    using search_shown [OF assms _ that] sh_top by blast
  ultimately show ?thesis using d by blast
qed

lemma shown_listed: "shown F i \<Longrightarrow> i \<in> folder_ids F"
  by (erule shown.cases) (auto simp: tree_roots_def folder_ids_def kids_of_def)

lemma top_places:
  assumes "distinct (map fr_id F)" and "0 \<notin> folder_ids F"
  shows "set (placed_tree 0 (fst (addFolders F [] (tree_roots F))))
    = {(tree_parent F f, folder_item F (fr_id f)) |f. f \<in> set F \<and> shown F (fr_id f)}"
proof -
  obtain ts seen where s: "addFolders F [] (tree_roots F) = (ts, seen)" by fastforce
  have ids: "i \<in> set (ids_in ts) \<longleftrightarrow> shown F i" for i using top_ids [OF s] by blast
  have same: "f = g" if "f \<in> set F" "g \<in> set F" "fr_id f = fr_id g" for f g
    using that assms(1) by (auto simp: distinct_map dest: inj_onD)
  have place: "\<exists>f. f \<in> set F \<and> shown F (fr_id f) \<and> p = tree_parent F f \<and> r = folder_item F (fr_id f)"
    if pr: "(p, r) \<in> set (placed_tree 0 ts)" for p r
  proof -
    obtain i where i: "r = folder_item F i"
      and w: "p = 0 \<and> i \<in> set (tree_roots F) \<or> i \<in> set (kids_of F p) \<and> p \<in> set (ids_in ts)"
      using search_places [OF s pr] by auto
    show ?thesis
    proof (cases "p = 0")
      case True
      have "\<not> shown F 0" using assms(2) shown_listed by blast
      then have top: "i \<in> set (tree_roots F)" using w True ids by simp
      then obtain f where f: "f \<in> set F" "fr_id f = i" "fr_parent_id f = 0 \<or> fr_parent_id f \<notin> folder_ids F"
        by (auto simp: tree_roots_def)
      moreover have "tree_parent F f = 0" using f(3) by (auto simp: tree_parent_def)
      ultimately show ?thesis using i True sh_top [OF top] by (intro exI [of _ f]) simp
    next
      case False
      then have k: "i \<in> set (kids_of F p)" "shown F p" using w ids by auto
      from k(1) obtain f where f: "f \<in> set F" "fr_id f = i" "fr_parent_id f = p" by (auto simp: kids_of_def)
      moreover have "tree_parent F f = p" using f(3) shown_listed [OF k(2)] by (simp add: tree_parent_def)
      ultimately show ?thesis using i sh_kid [OF k(2,1)] by (intro exI [of _ f]) simp
    qed
  qed
  have there: "(tree_parent F f, folder_item F (fr_id f)) \<in> set (placed_tree 0 ts)"
    if f: "f \<in> set F" "shown F (fr_id f)" for f
  proof -
    have "fr_id f \<in> set (ids_in ts)" using ids f(2) by simp
    then obtain p r where pr: "(p, r) \<in> set (placed_tree 0 ts)" "it_folder r = fr_id f"
      by (auto simp: ids_in_def)
    obtain g where g: "g \<in> set F" "p = tree_parent F g" "r = folder_item F (fr_id g)" using place [OF pr(1)] by blast
    then have "g = f" using same [OF g(1) f(1)] pr(2) by simp
    then show ?thesis using pr(1) g by simp
  qed
  show ?thesis unfolding s fst_conv
  proof (intro subset_antisym subsetI)
    show "x \<in> {(tree_parent F f, folder_item F (fr_id f)) |f. f \<in> set F \<and> shown F (fr_id f)}"
      if "x \<in> set (placed_tree 0 ts)" for x
    proof -
      obtain p r where "x = (p, r)" by fastforce
      then show ?thesis using place [of p r] that by blast
    qed
  qed (use there in auto)
qed

section \<open>The entities\<close>

definition below :: "FolderRow list \<Rightarrow> row_data \<Rightarrow> (int \<times> row_data) set" where
  "below E r = {(it_folder r, entity_item e) |e. e \<in> set (byFolder E (it_folder r))}"

lemma entity_top: "set (placed_tree i (addEntities es)) = {(i, entity_item e) |e. e \<in> set es}"
  by (auto simp: placed_tree_def addEntities_def)

lemma attach_places:
  "set (placed p (attach (\<lambda>i. addEntities (byFolder E i)) t))
    = set (placed p t) \<union> (\<Union>x\<in>set (placed p t). below E (snd x))"
proof (induction t arbitrary: p)
  case (Item r kids)
  have "set (placed_tree (it_folder r) (map (attach (\<lambda>i. addEntities (byFolder E i))) kids))
      = set (placed_tree (it_folder r) kids) \<union> (\<Union>x\<in>set (placed_tree (it_folder r) kids). below E (snd x))"
    using Item.IH by (auto simp: placed_tree_def)
  then show ?case by (simp add: placed_Item entity_top below_def Un_ac del: placed.simps)
qed

lemma tree_places:
  "set (placed_tree p (map (attach (\<lambda>i. addEntities (byFolder E i))) ts))
    = set (placed_tree p ts) \<union> (\<Union>x\<in>set (placed_tree p ts). below E (snd x))"
  by (induction ts) (auto simp: attach_places)

lemma entity_no_folder [simp]: "it_folder (entity_item e) = 0"
  by (simp add: entity_item_def blank_item_def)

lemma attach_ids:
  "filter (\<lambda>i. i \<noteq> 0) (ids_in (map (attach (\<lambda>i. addEntities (byFolder E i))) ts)) = filter (\<lambda>i. i \<noteq> 0) (ids_in ts)"
proof -
  have e: "filter (\<lambda>i. i \<noteq> 0) (concat (map (\<lambda>t. map it_folder (preorder t)) (addEntities es))) = []" for es
    by (induction es) (simp_all add: addEntities_def)
  have "filter (\<lambda>i. i \<noteq> 0) (map it_folder (preorder (attach (\<lambda>i. addEntities (byFolder E i)) t)))
      = filter (\<lambda>i. i \<noteq> 0) (map it_folder (preorder t))" for t
  proof (induction t)
    case (Item r kids)
    have "filter (\<lambda>i. i \<noteq> 0) (concat (map (\<lambda>t. map it_folder (preorder (attach (\<lambda>i. addEntities (byFolder E i)) t))) kids))
        = filter (\<lambda>i. i \<noteq> 0) (concat (map (\<lambda>t. map it_folder (preorder t)) kids))"
      using Item.IH by (induction kids) auto
    then show ?case by (simp add: map_concat o_def e)
  qed
  then show ?thesis by (induction ts) (simp_all add: ids_in_rows tree_rows_def)
qed

section \<open>Every folder is reachable unless parents go round\<close>

lemma acyclic_shown:
  assumes "acyclic {(fr_parent_id f, fr_id f) |f. f \<in> set F}" and "f \<in> set F"
  shows "shown F (fr_id f)"
proof -
  let ?R = "{(fr_parent_id f, fr_id f) |f. f \<in> set F}"
  have "?R = (\<lambda>f. (fr_parent_id f, fr_id f)) ` set F" by auto
  then have "finite ?R" by simp
  then have "wf ?R" using assms(1) by (rule finite_acyclic_wf)
  then have "\<forall>f\<in>set F. fr_id f = i \<longrightarrow> shown F i" for i
  proof (induction i rule: wf_induct_rule)
    case (less i)
    show ?case
    proof (intro ballI impI)
      fix f assume f: "f \<in> set F" "fr_id f = i"
      show "shown F i"
      proof (cases "fr_parent_id f = 0 \<or> fr_parent_id f \<notin> folder_ids F")
        case True
        then show ?thesis using f by (intro sh_top) (auto simp: tree_roots_def)
      next
        case False
        then obtain g where "g \<in> set F" "fr_id g = fr_parent_id f" by (auto simp: folder_ids_def)
        moreover have "(fr_parent_id f, i) \<in> ?R" using f by blast
        ultimately have "shown F (fr_parent_id f)" using less.IH by blast
        then show ?thesis by (rule sh_kid) (use f False in \<open>auto simp: kids_of_def\<close>)
      qed
    qed
  qed
  then show ?thesis using assms(2) by blast
qed

text \<open>Claim C25: The folder tree. Every folder that can be reached from the top stands in the tree exactly
  once, under its parent, or at the top level when it has none or its parent is not listed; every
  entity stands under its folder, and one without a folder at the top level; nothing else is there.
  Folders whose parents go round are left out, with their entities; without such a cycle no folder
  is.\<close>

theorem tree_placement_exact:
  assumes "distinct (map fr_id F)" and "0 \<notin> folder_ids F"
  shows "set (placed_tree 0 (build_tree F E))
      = {(tree_parent F f, folder_item F (fr_id f)) |f. f \<in> set F \<and> shown F (fr_id f)}
        \<union> {(fr_folderId e, entity_item e) |e. e \<in> set E \<and> (fr_folderId e = 0 \<or> shown F (fr_folderId e))}
    \<and> distinct (filter (\<lambda>i. i \<noteq> 0) (map it_folder (tree_rows (build_tree F E))))
    \<and> (acyclic {(fr_parent_id f, fr_id f) |f. f \<in> set F} \<longrightarrow> (\<forall>f\<in>set F. shown F (fr_id f)))"
proof -
  obtain ts seen where s: "addFolders F [] (tree_roots F) = (ts, seen)" by fastforce
  have top: "set (placed_tree 0 ts) = {(tree_parent F f, folder_item F (fr_id f)) |f. f \<in> set F \<and> shown F (fr_id f)}"
    using top_places [OF assms] by (simp add: s)
  have "(\<Union>x\<in>{(tree_parent F f, folder_item F (fr_id f)) |f. f \<in> set F \<and> shown F (fr_id f)}. below E (snd x))
      = {(fr_folderId e, entity_item e) |e. e \<in> set E \<and> shown F (fr_folderId e)}"
  proof (intro subset_antisym subsetI)
    fix x assume "x \<in> {(fr_folderId e, entity_item e) |e. e \<in> set E \<and> shown F (fr_folderId e)}"
    then obtain e where e: "x = (fr_folderId e, entity_item e)" "e \<in> set E" "shown F (fr_folderId e)" by blast
    then obtain f where "f \<in> set F" "fr_id f = fr_folderId e" using shown_listed [OF e(3)] by (auto simp: folder_ids_def)
    then show "x \<in> (\<Union>x\<in>{(tree_parent F f, folder_item F (fr_id f)) |f. f \<in> set F \<and> shown F (fr_id f)}. below E (snd x))"
      using e by (intro UN_I [of "(tree_parent F f, folder_item F (fr_id f))"]) (auto simp: below_def byFolder_def)
  next
    fix x assume "x \<in> (\<Union>x\<in>{(tree_parent F f, folder_item F (fr_id f)) |f. f \<in> set F \<and> shown F (fr_id f)}. below E (snd x))"
    then obtain f :: FolderRow where "shown F (fr_id f)" "x \<in> below E (folder_item F (fr_id f))" by auto
    then obtain e where "x = (fr_id f, entity_item e)" "e \<in> set E" "fr_folderId e = fr_id f" "shown F (fr_id f)"
      unfolding below_def byFolder_def by auto
    then have "x = (fr_folderId e, entity_item e) \<and> e \<in> set E \<and> shown F (fr_folderId e)" by simp
    then show "x \<in> {(fr_folderId e, entity_item e) |e. e \<in> set E \<and> shown F (fr_folderId e)}" by blast
  qed
  then have "set (placed_tree 0 (build_tree F E))
      = {(tree_parent F f, folder_item F (fr_id f)) |f. f \<in> set F \<and> shown F (fr_id f)}
        \<union> {(fr_folderId e, entity_item e) |e. e \<in> set E \<and> (fr_folderId e = 0 \<or> shown F (fr_folderId e))}"
    unfolding build_tree_def s fst_conv placed_tree_simps set_append tree_places entity_top top
    by (auto simp: byFolder_def)
  moreover have "distinct (filter (\<lambda>i. i \<noteq> 0) (ids_in (build_tree F E)))"
  proof -
    have "filter (\<lambda>i. i \<noteq> 0) (ids_in (addEntities es)) = []" for es
      by (induction es) (simp_all add: addEntities_def)
    then show ?thesis
      using attach_ids [of E ts] top_ids [OF s]
      by (simp add: build_tree_def s ids_in_rows tree_rows_def)
  qed
  ultimately show ?thesis using acyclic_shown by (auto simp: ids_in_rows)
qed

lemma tree_placement_exact_witness:
  "\<not> shown [\<lparr>fr_id = 1, fr_parent_id = 2, fr_folderId = 0, fr_name = ''a'', fr_deletedAt = []\<rparr>,
     \<lparr>fr_id = 2, fr_parent_id = 1, fr_folderId = 0, fr_name = ''b'', fr_deletedAt = []\<rparr>] 1"
proof -
  let ?F = "[\<lparr>fr_id = 1, fr_parent_id = 2, fr_folderId = 0, fr_name = ''a'', fr_deletedAt = []\<rparr>,
     \<lparr>fr_id = 2, fr_parent_id = 1, fr_folderId = 0, fr_name = ''b'', fr_deletedAt = []\<rparr>]"
  have "build_tree ?F [] = []" by code_simp
  then show ?thesis using tree_placement_exact [of ?F "[]"] by (force simp: folder_ids_def)
qed

end
