(* ===== verification/Spec2Isabelle.thy ===== *)
theory Spec2Isabelle
  imports Execution_Properties System_Properties Folder_Properties History_Properties Connections Conf
    Runner_Properties Request_Properties Batch_Properties Sweep_Properties Sha256_Properties Cli_Properties
    Cli_Arg_Properties Cli_List_Properties Cli_Table_Properties Gui_Run_Properties Gui_Tree_Properties
begin

text \<open>
  ACTA Gamma keeps skills (prompts), models (endpoints), contexts (inputs) and executions (one prompt
  sent once to one model) in a SQLite database. The repository has four programs around it:

  \<^item> \<^verbatim>\<open>acta_db\<close>, a C library: the only code that touches the database;
  \<^item> \<^verbatim>\<open>acta_runner\<close>, the program that claims a pending execution, sends it to a model
    server through libcurl, checks the reply and closes the row;
  \<^item> \<^verbatim>\<open>acta_cli\<close>, the command line tool: fifty-odd actions over the library;
  \<^item> \<^verbatim>\<open>acta_gui\<close>, a Qt program: panels and dialogs over the library, and the runner's
    pipeline in a thread.

  They meet in the database only: several processes may have it open, the status of an execution row
  is the lock between them, and the triggers of the schema write the revision histories.
\<close>

section \<open>Theories and sources\<close>

text \<open>
  Ground: \<open>Prelude\<close> (C integers, error codes of \<^verbatim>\<open>acta_db/include/db.h\<close>, pages, buffers),
  \<open>Tables\<close> (a table with \<^verbatim>\<open>AUTOINCREMENT\<close> ids; locales \<open>keyed_rows\<close>, \<open>named_rows\<close>),
  \<open>Schema\<close> (\<^verbatim>\<open>schema_sql.h\<close>: nine tables, their foreign keys, unique indexes, checks
  and triggers, and every statement the library prepares), \<open>Json\<close>.

  The library, one theory per source file of \<^verbatim>\<open>acta_db/src\<close>: \<open>Database\<close> and
  \<open>Connections\<close> (\<^verbatim>\<open>db.c\<close>), \<open>Executions\<close> and \<open>Execution_Lifecycle\<close>
  (\<^verbatim>\<open>execution.c\<close> and the state machine of its header), \<open>Execution_Logs\<close>, \<open>Contexts\<close>,
  \<open>Folders\<close> with \<open>Skill_Folders\<close> and \<open>Model_Folders\<close>, \<open>Skills\<close>, \<open>Models\<close>, \<open>Revisions\<close> with
  \<open>Skill_Revisions\<close> and \<open>Model_Revisions\<close>, \<open>Conf\<close> (\<^verbatim>\<open>conf.c\<close>). \<open>System\<close> puts them together:
  \<open>lib_call\<close> is one call of any mutator under any engine behaviour, \<open>db_step\<close> the specification of
  what a call may do to the store, \<open>db_ok\<close> the invariant of the nine tables, \<open>provenance\<close> what an
  execution refers to.

  The runner, \<^verbatim>\<open>acta_runner/src\<close>: \<open>Runner_Util\<close> (\<^verbatim>\<open>runner_util.h\<close>), \<open>Dialect\<close>,
  \<open>Backend\<close> (one exchange, the preflight), \<open>Schema_Check\<close> and \<open>Run\<close> (\<^verbatim>\<open>run.c\<close>), \<open>Sweep\<close>
  (\<^verbatim>\<open>sweep.c\<close>, \<^verbatim>\<open>deathmark.c\<close>), \<open>Dbpath\<close>, \<open>Runner_Args\<close>, \<open>Runner_Main\<close>.

  The command line tool, \<^verbatim>\<open>acta_cli/src\<close>: \<open>Sha256\<close>, \<open>Cli_Util\<close> (\<^verbatim>\<open>cli_util.h\<close>,
  \<^verbatim>\<open>commands.h\<close>), \<open>Cli_Args\<close> (\<^verbatim>\<open>argparse.c\<close>), \<open>Cli_Json\<close>, \<open>Cli_Rows\<close> (what the
  handlers share), \<open>Cli_Folders\<close>, \<open>Cli_Contexts\<close>, \<open>Cli_Executions\<close>, \<open>Cli_Models\<close>, \<open>Cli_Skills\<close>,
  \<open>Cli_Db\<close> (\<^verbatim>\<open>commands/\<close>), \<open>Cli_Tools\<close> (\<^verbatim>\<open>tools.c\<close>), \<open>Cli_Main\<close>
  (\<^verbatim>\<open>commands.c\<close>, \<^verbatim>\<open>main.c\<close>).

  The graphical program, \<^verbatim>\<open>acta_gui/src\<close>: \<open>Gui_Util\<close> (\<^verbatim>\<open>widgets/util.h\<close>),
  \<open>Gui_Conf\<close> (\<^verbatim>\<open>confreader.h\<close>, and the proof that it agrees with \<^verbatim>\<open>conf.c\<close>),
  \<open>Gui_Worker\<close> (\<^verbatim>\<open>runnerWorker.cpp\<close>), \<open>Gui_Tree\<close> (\<^verbatim>\<open>folderTreePanel.cpp\<close>),
  \<open>Gui_Dialogs\<close> (the dialogs, and the adapters of \<^verbatim>\<open>skillPanel.cpp\<close> and
  \<^verbatim>\<open>modelPanel.cpp\<close>), \<open>Gui_Executions\<close>, \<open>Gui_Contexts\<close> (the list panels), \<open>Gui_Window\<close>
  (\<^verbatim>\<open>mainwindow.cpp\<close>, \<^verbatim>\<open>dbhandle.cpp\<close>), and \<open>Gui_Frame\<close>, which composes the four
  panels into sessions (\<open>gui_step\<close>, \<open>gui_session\<close>). A widget is the data it shows: a tree is a list of
  items, a list the list of its rows, a button whether it is enabled. What the user enters is an
  argument of the handler.

  Names follow the sources. A struct is a record with a prefix on its fields, a handler that writes to
  a stream or a database takes the state and returns it, and the result of a call comes first.
\<close>

section \<open>How the outside is modelled\<close>

text \<open>
  SQLite: a statement is a function on the store (\<open>Schema\<close>), and each use of the engine takes the
  next event of the list \<open>engine\<close> in the connection: no event or \<open>EvOk\<close> means that all goes well,
  the others make a statement fail to prepare, break off after n rows, report a busy database, or let
  an allocation of the scan fail. A theorem \<^emph>\<open>under any engine fault\<close> quantifies over that list;
  \<open>healthy\<close> says that it is empty. What opening a file or a backup meets is the record \<open>open_env\<close> or
  \<open>backup_env\<close>. Other processes appear as \<open>db_step\<close>s between calls (\<open>lib_run\<close>) and during transfers
  (\<open>others\<close>; \<open>lawful\<close> and \<open>undisturbed\<close> are the two hypotheses on them).

  libcurl and the servers are \<open>perform\<close>, the answer to the n-th request; the cancel flag is
  \<open>cancel_flag\<close>, by poll. cJSON's parser and printer, double/long conversion, environment, files,
  memory and clock are arguments. Qt supplies its own JSON parser and text functions.

  Loops are structural recursion or have termination proofs; the pager of \<^verbatim>\<open>--stream\<close>, the
  schema validation (33 levels, the depth limit of the code) and the growth of buffers are total
  functions. The one loop that may not end, the padding of a message of 2^32 bytes or more in
  \<^verbatim>\<open>sha256.c\<close>, is an \<open>option\<close>, and the theorems say when it returns. C integers are kept at
  their width (\<open>c_int\<close>, \<^verbatim>\<open>w word\<close> in SHA-256).
\<close>

section \<open>What is proved\<close>

text \<open>
  The properties stand in the theories named \<open>..._Properties\<close>, each with a concrete instance.

  \<^item> \<open>System_Properties\<close>: the invariant of the tables over any run of the library, that a failing call
    changes nothing, that revisions, log lines and context bodies are written once, and that an
    execution keeps the inputs it was created with. Each call refines \<open>db_step\<close> (\<open>lib_call_step\<close>).
  \<^item> \<open>Execution_Properties\<close>: the calls refine the documented state machine; two processes that start
    the same execution never both win; codes and effects of every transition; the query pages.
  \<^item> \<open>Folder_Properties\<close>: the trees stay trees (the walk of a skill folder move is exact, with a bound
    on its steps), and the ways in which a cycle can still be made. \<open>History_Properties\<close>: what each
    call adds to a revision history.
  \<^item> \<open>Run_Properties\<close>, \<open>Request_Properties\<close>, \<open>Batch_Properties\<close>, \<open>Sweep_Properties\<close>,
    \<open>Runner_Properties\<close>: a run is a sequence of library steps, touches its own row only, always
    closes what it claimed, sends exactly the documented requests, and its success means a stored and
    checked reply; the same for batches; the sweep; the output validation against its rules. They
    rest on the locales \<open>quiet_frame\<close>, \<open>phase_frame\<close>, \<open>run_frame\<close>, \<open>execution_frame\<close> and
    \<open>command_frame\<close>: a relation that absorbs a few primitive effects holds over a whole run, and each
    property is an interpretation.
  \<^item> \<open>Sha256_Properties\<close>: the digest equals FIPS 180-4.
  \<^item> \<open>Cli_Properties\<close>, \<open>Cli_Arg_Properties\<close>, \<open>Cli_List_Properties\<close>, \<open>Cli_Table_Properties\<close>: a
    command changes the database by library steps only, ends, and exits with a documented code; no
    argument is ignored; \<^verbatim>\<open>--stream\<close> prints exactly the selected rows; the table of
    \<^verbatim>\<open>--tools\<close> agrees with the dispatcher. They rest on the locale \<open>frame\<close> (a relation kept
    by every primitive of the tool is kept by every command; interpretations \<open>keep\<close>, \<open>follow\<close>,
    \<open>any\<close>) and on \<open>lister\<close> and \<open>steady_lister\<close>, interpreted by the eight listings.
  \<^item> \<open>Gui_Properties\<close>, \<open>Gui_Run_Properties\<close>, \<open>Gui_Tree_Properties\<close>: a session in the window changes the
    database by library steps only; a run from the window is the run of \<^verbatim>\<open>acta_runner\<close> with
    the same settings; one click of Run, the worker and the handling of its signal settle the row and
    what the list shows; the folder tree is placed exactly; when the panels hold the open connection.
    The first rests on the locales \<open>entity_contract\<close> (what a dialog promises its base class) and
    \<open>adapter_contract\<close> (what an adapter promises the folder panel), interpreted for skills and models.
\<close>

section \<open>Not modelled\<close>

text \<open>
  Diagnostics behind \<^verbatim>\<open>--verbose\<close>, the help texts (printing one is a mark on the stream),
  the Windows branches, the signal handlers of the runner (the exit path they lead to is), the tests
  and scripts. Of the graphical program: layout, icons, colours, tool
  tips, sorting, scrolling, translations and the saved state of the window; the display of dates; the
  read-only dialogs for an execution and a log line; the previews and combo boxes of the dialog for a
  new execution, whose choices are arguments here. Two threads share no memory in it except the cancel
  flag; the worker's steps on the database appear between the events of the window.
\<close>

end
